(* ===== verification/Prelude.thy ===== *)
theory Prelude
  imports Main "HOL-Library.Word" "HOL-Library.List_Lexorder" "HOL-Library.Char_ord"
begin

text \<open>
  Shared vocabulary of the development: identifiers and instants, 64-bit arithmetic with its
  wrap-around, the errors of the backend packages as one datatype, JSON values, and the list
  combinators by which the SQL statements of the repository are modelled (a table is the list of
  its rows in insertion order). The lemmas on these combinators carry the component proofs.
\<close>

named_theorems sql_simps \<open>rewriting of SELECT, INSERT and UPDATE on row lists\<close>
named_theorems io_simps \<open>successful runs of the sequencing operators\<close>

section \<open>Scalars\<close>

text \<open>A \<open>uuid.UUID\<close> is sixteen bytes, compared as an unsigned number; \<open>uuid.Nil\<close> is zero.\<close>

type_synonym uuid = "128 word"

abbreviation uuidNil :: uuid where "uuidNil \<equiv> 0"

text \<open>An instant (\<open>time.Time\<close>, \<open>timestamptz\<close>) or a \<open>time.Duration\<close> is a number of nanoseconds.\<close>

type_synonym time = int
type_synonym duration = int

abbreviation second :: duration where "second \<equiv> 1000000000"
abbreviation minute :: duration where "minute \<equiv> 60000000000"

text \<open>Go's \<open>int64\<close>: values are integers, every arithmetic result is reduced to two's complement.\<close>

definition maxInt64 :: int where "maxInt64 = 9223372036854775807"

definition wrap64 :: "int \<Rightarrow> int" where
  "wrap64 x = (x + 9223372036854775808) mod 18446744073709551616 - 9223372036854775808"

definition int64 :: "int \<Rightarrow> bool" where
  "int64 x \<longleftrightarrow> - 9223372036854775808 \<le> x \<and> x \<le> 9223372036854775807"

lemma wrap64_id [simp]: "int64 x \<Longrightarrow> wrap64 x = x"
  by (simp add: wrap64_def int64_def)

lemma int64_wrap64 [simp]: "int64 (wrap64 x)"
  by (simp add: wrap64_def int64_def)

lemma wrap64_signed: "wrap64 x = sint (word_of_int x :: 64 word)"
proof -
  have "sint (word_of_int x :: 64 word) = signed_take_bit 63 x"
    by (simp add: sint_sbintrunc')
  also have "\<dots> = wrap64 x"
    by (simp add: wrap64_def signed_take_bit_eq_take_bit_shift take_bit_eq_mod)
  finally show ?thesis by simp
qed

section \<open>Strings\<close>

text \<open>\<open>strings.ToUpper\<close>, \<open>strings.ToLower\<close> and \<open>strings.TrimSpace\<close> on ASCII text.\<close>

definition upperChar :: "char \<Rightarrow> char" where
  "upperChar c = (if CHR ''a'' \<le> c \<and> c \<le> CHR ''z'' then char_of (of_char c - 32 :: nat) else c)"

definition lowerChar :: "char \<Rightarrow> char" where
  "lowerChar c = (if CHR ''A'' \<le> c \<and> c \<le> CHR ''Z'' then char_of (of_char c + 32 :: nat) else c)"

definition ToUpper :: "string \<Rightarrow> string" where "ToUpper s = map upperChar s"

definition ToLower :: "string \<Rightarrow> string" where "ToLower s = map lowerChar s"

definition isSpace :: "char \<Rightarrow> bool" where
  "isSpace c \<longleftrightarrow> c = CHR '' '' \<or> (CHR 0x09 \<le> c \<and> c \<le> CHR 0x0D)"

definition TrimSpace :: "string \<Rightarrow> string" where
  "TrimSpace s = rev (dropWhile isSpace (rev (dropWhile isSpace s)))"

lemma length_ToUpper [simp]: "length (ToUpper s) = length s"
  by (simp add: ToUpper_def)

lemma TrimSpace_idem: "TrimSpace (TrimSpace s) = TrimSpace s"
proof -
  have ends: "isSpace (hd xs) \<Longrightarrow> False" if "xs = dropWhile isSpace ys" "xs \<noteq> []" for xs ys
    using that hd_dropWhile[of isSpace ys] by auto
  define t where "t = rev (dropWhile isSpace (rev (dropWhile isSpace s)))"
  have last_t: "\<not> isSpace (hd (rev t))" if "t \<noteq> []"
    using ends[of "rev t" "rev (dropWhile isSpace s)"] that by (auto simp: t_def)
  have hd_t: "\<not> isSpace (hd t)" if "t \<noteq> []"
  proof -
    obtain u where u: "dropWhile isSpace s = t @ u"
      unfolding t_def by (metis rev_append rev_rev_ident takeWhile_dropWhile_id)
    with that have "hd t = hd (dropWhile isSpace s)" and "dropWhile isSpace s \<noteq> []" by auto
    then show ?thesis using ends[of "dropWhile isSpace s" s] by auto
  qed
  have keep: "dropWhile isSpace xs = xs" if "xs \<noteq> [] \<Longrightarrow> \<not> isSpace (hd xs)" for xs
    using that by (cases xs) auto
  have "dropWhile isSpace t = t" and "dropWhile isSpace (rev t) = rev t"
    using keep hd_t last_t by auto
  then show ?thesis by (simp add: TrimSpace_def flip: t_def)
qed

text \<open>The decimal notation of an integer (\<open>%d\<close>).\<close>

fun digits :: "nat \<Rightarrow> string" where
  "digits n = (if n < 10 then [char_of (48 + n)] else digits (n div 10) @ [char_of (48 + n mod 10)])"

definition itoa :: "int \<Rightarrow> string" where
  "itoa n = (if n < 0 then ''-'' @ digits (nat (- n)) else digits (nat n))"

declare digits.simps [simp del]

lemma char_of_digit: "a < 10 \<Longrightarrow> b < 10 \<Longrightarrow> char_of (48 + a :: nat) = char_of (48 + b) \<Longrightarrow> a = b"
  by (drule arg_cong[where f = "of_char :: char \<Rightarrow> nat"]) simp

lemma digits_inj: "digits m = digits n \<Longrightarrow> m = n"
proof (induction m arbitrary: n rule: digits.induct)
  case (1 m)
  note IH = 1(1)
  have ne: "digits k \<noteq> []" for k by (subst digits.simps) simp
  show ?case
  proof (cases "m < 10")
    case True
    with 1(2) have "n < 10" using ne[of "n div 10"] by (cases "n < 10") (auto simp: digits.simps[of m] digits.simps[of n] append_eq_Cons_conv)
    with True 1(2) show ?thesis by (auto simp: digits.simps[of m] digits.simps[of n] dest!: char_of_digit)
  next
    case False
    with 1(2) have n: "\<not> n < 10" using ne[of "m div 10"] by (cases "n < 10") (auto simp: digits.simps[of m] digits.simps[of n] Cons_eq_append_conv)
    with False 1(2) have "digits (m div 10) = digits (n div 10)" "m mod 10 = n mod 10"
      by (auto simp: digits.simps[of m] digits.simps[of n] dest!: char_of_digit[rotated 2])
    with IH[OF False] have "m div 10 = n div 10" by blast
    with \<open>m mod 10 = n mod 10\<close> show ?thesis by (metis div_mult_mod_eq)
  qed
qed

text \<open>\<open>pgtype.Text\<close> is a nullable string; the packages' \<open>text\<close> helper turns \<open>""\<close> into NULL.\<close>

type_synonym pgtext = "string option"

definition text_of :: "string \<Rightarrow> pgtext" where
  "text_of v = (if v = '''' then None else Some v)"

text \<open>The \<open>.String\<close> field of a \<open>pgtype.Text\<close>: the empty string when it is NULL.\<close>

definition text_string :: "pgtext \<Rightarrow> string" where
  "text_string t = (case t of None \<Rightarrow> '''' | Some v \<Rightarrow> v)"

lemma text_string_of [simp]: "text_string (text_of v) = v"
  by (simp add: text_string_def text_of_def)

section \<open>Errors\<close>

text \<open>
  The sentinel errors of the packages, the errors of the database driver (\<open>PgError\<close> carries the
  SQLSTATE, \<open>ErrNoRows\<close> is \<open>pgx.ErrNoRows\<close>), and \<open>ErrDriver\<close> for a lost connection or a
  cancelled context.
\<close>

datatype err =
    ErrDriver | ErrNoRows | PgError string | ErrOther string
  | ErrPlanNotFound | ErrInvalidQuantity | ErrInvalidIdempotency | ErrIdempotencyConflict
  | ErrPaymentNotFound | ErrPaymentMismatch | ErrPaymentState
  | ErrSubscriptionNotFound | ErrSubscriptionState
  | ErrNotFound | ErrInvalidState | ErrInvalidRequest | ErrWorkflowMissing
  | ErrResourceExhausted | ErrReservationState | ErrReservationAbsent
  | ErrPurchaseNotReady | ErrPlacementMissing
  | ErrInvalidInput | ErrInsufficient | ErrTicketFinalized | ErrTicketClosed | ErrStateConflict
  | ErrNotRegistered | ErrProvider string bool string
  | ErrInvalidCredentials | ErrEmailInUse | ErrUnauthenticated | ErrInactive
  | ErrTOTPRequired | ErrTOTPInvalid | ErrInvalidPassword
  | ErrNodeOffline | ErrCommandFailed | ErrPanic string
  | ErrWorkflow string string bool "err option"

definition uniqueViolation :: err where "uniqueViolation = PgError ''23505''"
definition foreignKeyViolation :: err where "foreignKeyViolation = PgError ''23503''"
definition checkViolation :: err where "checkViolation = PgError ''23514''"
definition notNullViolation :: err where "notNullViolation = PgError ''23502''"
definition numericOutOfRange :: err where "numericOutOfRange = PgError ''22003''"

definition isUniqueViolation :: "err \<Rightarrow> bool" where
  "isUniqueViolation e \<longleftrightarrow> (case e of PgError code \<Rightarrow> code = ''23505'' | _ \<Rightarrow> False)"

lemma isUniqueViolation_simps [simp]:
  "isUniqueViolation uniqueViolation" "\<not> isUniqueViolation foreignKeyViolation"
  "\<not> isUniqueViolation checkViolation" "\<not> isUniqueViolation numericOutOfRange"
  "\<not> isUniqueViolation notNullViolation"
  "\<not> isUniqueViolation ErrDriver" "\<not> isUniqueViolation ErrNoRows"
  by (simp_all add: isUniqueViolation_def uniqueViolation_def foreignKeyViolation_def
      checkViolation_def numericOutOfRange_def notNullViolation_def)

lemma pg_errors_distinct [simp]:
  "uniqueViolation \<noteq> ErrNoRows" "foreignKeyViolation \<noteq> ErrNoRows" "checkViolation \<noteq> ErrNoRows"
  "numericOutOfRange \<noteq> ErrNoRows" "notNullViolation \<noteq> ErrNoRows"
  by (simp_all add: uniqueViolation_def foreignKeyViolation_def checkViolation_def
      numericOutOfRange_def notNullViolation_def)

section \<open>JSON\<close>

text \<open>
  \<open>JDec\<close> is a number with two decimals given in hundredths, \<open>JTime\<close> the RFC 3339 string of an instant.
\<close>

datatype json =
    JNull | JBool bool | JNum int | JDec int | JStr string | JTime time | JArr "json list" | JObj "(string \<times> json) list"

text \<open>
  Decoding an object keeps the last of several members with the same name, and encoding a Go map
  writes its keys in order: the canonical form of an object.
\<close>

definition lastWins :: "(string \<times> 'v) list \<Rightarrow> (string \<times> 'v) list" where
  "lastWins kvs = foldr (\<lambda>(k, v) acc. if k \<in> fst ` set acc then acc else (k, v) # acc) kvs []"

definition normKeys :: "(string \<times> 'v) list \<Rightarrow> (string \<times> 'v) list" where
  "normKeys kvs = sort_key fst (lastWins kvs)"

primrec canonicalValue :: "json \<Rightarrow> json" where
  "canonicalValue JNull = JNull"
| "canonicalValue (JBool b) = JBool b"
| "canonicalValue (JNum n) = JNum n"
| "canonicalValue (JDec n) = JDec n"
| "canonicalValue (JStr s) = JStr s"
| "canonicalValue (JTime t) = JTime t"
| "canonicalValue (JArr xs) = JArr (map canonicalValue xs)"
| "canonicalValue (JObj kvs) = JObj (normKeys (map (map_prod id canonicalValue) kvs))"

lemma lastWins_Cons:
  "lastWins ((k, v) # kvs) = (if k \<in> fst ` set (lastWins kvs) then lastWins kvs else (k, v) # lastWins kvs)"
  by (simp add: lastWins_def)

lemma distinct_lastWins: "distinct (map fst (lastWins kvs))"
  by (induction kvs) (auto simp: lastWins_def)

lemma set_lastWins: "set (lastWins kvs) \<subseteq> set kvs"
proof (induction kvs)
  case (Cons p kvs)
  then show ?case by (cases p) (auto simp: lastWins_Cons)
qed (simp add: lastWins_def)

lemma lastWins_distinct: "distinct (map fst kvs) \<Longrightarrow> lastWins kvs = kvs"
proof (induction kvs)
  case (Cons p kvs)
  obtain k v where "p = (k, v)" by fastforce
  with Cons show ?case by (auto simp: lastWins_Cons)
qed (simp add: lastWins_def)

lemma normKeys_idem: "normKeys (normKeys kvs) = normKeys kvs"
proof -
  have dist: "distinct (map fst (sort_key fst (lastWins kvs)))"
    using distinct_lastWins[of kvs]
    by (metis distinct_map distinct_sort set_sort)
  show ?thesis
    by (simp add: normKeys_def lastWins_distinct[OF dist] sorted_sort_id sort_key_id_if_sorted)
qed

lemma set_normKeys: "set (normKeys kvs) \<subseteq> set kvs"
  using set_lastWins[of kvs] by (simp add: normKeys_def)

lemma canonicalValue_idem [simp]: "canonicalValue (canonicalValue j) = canonicalValue j"
proof (induction j)
  case (JObj kvs)
  let ?c = "map_prod id canonicalValue"
  have "map ?c (normKeys (map ?c kvs)) = normKeys (map ?c kvs)"
  proof (rule map_idI)
    fix p assume "p \<in> set (normKeys (map ?c kvs))"
    then obtain q where q: "q \<in> set kvs" "p = ?c q" using set_normKeys by fastforce
    then have "canonicalValue (canonicalValue (snd q)) = canonicalValue (snd q)"
      using JObj[of q "snd q"] by (cases q) (auto simp: snds.simps)
    with q show "?c p = p" by (simp add: map_prod_def split_beta)
  qed
  then show ?case by (simp add: normKeys_idem)
qed (simp_all add: map_idI)

text \<open>
  \<open>equalJSON\<close> of the payment repository compares two documents by their canonical encodings.
\<close>

definition canonicalJSON :: "json \<Rightarrow> json" where "canonicalJSON payload = canonicalValue payload"

definition equalJSON :: "json \<Rightarrow> json \<Rightarrow> bool" where
  "equalJSON left right \<longleftrightarrow> canonicalJSON left = canonicalJSON right"

text \<open>A \<open>jsonb\<close> column stores a document without duplicate members; their order is immaterial.\<close>

abbreviation jsonb :: "json \<Rightarrow> json" where "jsonb \<equiv> canonicalValue"

lemma equalJSON_jsonb [simp]: "equalJSON (jsonb p) q \<longleftrightarrow> equalJSON p q"
  by (simp add: equalJSON_def canonicalJSON_def)

text \<open>The containment operator \<open>@>\<close> of \<open>jsonb\<close> below the top level.\<close>

fun jsonbContains :: "json \<Rightarrow> json \<Rightarrow> bool" where
  "jsonbContains a (JObj kvs) = (case a of
     JObj avs \<Rightarrow> list_all (\<lambda>kv. case map_of avs (fst kv) of
       None \<Rightarrow> False | Some av \<Rightarrow> jsonbContains av (snd kv)) kvs
   | _ \<Rightarrow> False)"
| "jsonbContains a (JArr ys) = (case a of
     JArr xs \<Rightarrow> list_all (\<lambda>y. list_ex (\<lambda>x. jsonbContains x y) xs) ys
   | _ \<Rightarrow> False)"
| "jsonbContains a b = (a = b)"

text \<open>The member of an object, as \<open>json.Unmarshal\<close> into a struct field finds it.\<close>

definition field :: "string \<Rightarrow> json \<Rightarrow> json option" where
  "field k j = (case j of JObj kvs \<Rightarrow> map_of (rev kvs) k | _ \<Rightarrow> None)"

section \<open>Tables\<close>

text \<open>\<open>QueryRow\<close> scans the first row of the result, or fails with \<open>pgx.ErrNoRows\<close>.\<close>

definition one :: "'r list \<Rightarrow> err + 'r" where
  "one rows = (case rows of [] \<Rightarrow> Inl ErrNoRows | r # _ \<Rightarrow> Inr r)"

definition sqlUpdate :: "('r \<Rightarrow> bool) \<Rightarrow> ('r \<Rightarrow> 'r) \<Rightarrow> 'r list \<Rightarrow> 'r list" where
  "sqlUpdate P f t = map (\<lambda>r. if P r then f r else r) t"

text \<open>
  A unique index is given by its key; rows whose key is \<open>None\<close> are outside a partial index.
  \<open>conflicts\<close> is the test an INSERT makes, \<open>uniq\<close> the property the index maintains.
\<close>

definition conflicts :: "('r \<Rightarrow> 'k option) \<Rightarrow> 'r list \<Rightarrow> 'r \<Rightarrow> bool" where
  "conflicts k t r \<longleftrightarrow> k r \<noteq> None \<and> list_ex (\<lambda>x. k x = k r) t"

definition uniq :: "('r \<Rightarrow> 'k option) \<Rightarrow> 'r list \<Rightarrow> bool" where
  "uniq k t \<longleftrightarrow> distinct (filter (\<lambda>x. x \<noteq> None) (map k t))"

lemma uniq_Nil [sql_simps]: "uniq k []"
  by (simp add: uniq_def)

lemma uniq_append1 [sql_simps]: "uniq k (t @ [r]) \<longleftrightarrow> uniq k t \<and> \<not> conflicts k t r"
  by (auto simp: uniq_def conflicts_def list_ex_iff image_iff)

lemma uniqD: "uniq k t \<Longrightarrow> x \<in> set t \<Longrightarrow> y \<in> set t \<Longrightarrow> k x = k y \<Longrightarrow> k x \<noteq> None \<Longrightarrow> x = y"
proof (induction t)
  case (Cons z t)
  then show ?case by (auto simp: uniq_def image_iff split: if_splits)
qed simp

lemma uniq_sqlUpdate: "(\<And>r. P r \<Longrightarrow> k (f r) = k r) \<Longrightarrow> uniq k (sqlUpdate P f t) = uniq k t"
proof -
  assume "\<And>r. P r \<Longrightarrow> k (f r) = k r"
  then have "map k (sqlUpdate P f t) = map k t" by (simp add: sqlUpdate_def)
  then show ?thesis by (simp add: uniq_def)
qed

lemma sqlUpdate_Nil [simp]: "sqlUpdate P f [] = []"
  by (simp add: sqlUpdate_def)

lemma sqlUpdate_Cons [simp]: "sqlUpdate P f (r # t) = (if P r then f r else r) # sqlUpdate P f t"
  by (simp add: sqlUpdate_def)

lemma sqlUpdate_append [simp]: "sqlUpdate P f (s @ t) = sqlUpdate P f s @ sqlUpdate P f t"
  by (simp add: sqlUpdate_def)

lemma length_sqlUpdate [simp]: "length (sqlUpdate P f t) = length t"
  by (simp add: sqlUpdate_def)

lemma set_sqlUpdate: "set (sqlUpdate P f t) = f ` {r \<in> set t. P r} \<union> {r \<in> set t. \<not> P r}"
  by (auto simp: sqlUpdate_def)

lemma map_sqlUpdate: "(\<And>r. P r \<Longrightarrow> g (f r) = g r) \<Longrightarrow> map g (sqlUpdate P f t) = map g t"
  by (simp add: sqlUpdate_def)

lemma sqlUpdate_none: "\<forall>r\<in>set t. \<not> P r \<Longrightarrow> sqlUpdate P f t = t"
  by (simp add: sqlUpdate_def map_idI)

lemma in_sqlUpdateE:
  assumes "x \<in> set (sqlUpdate P f t)"
  obtains "x \<in> set t" "\<not> P x" | r where "r \<in> set t" "P r" "x = f r"
  using assms by (auto simp: set_sqlUpdate)

text \<open>Rows are found by their primary key.\<close>

lemma filter_pk:
  "distinct (map pk t) \<Longrightarrow> r \<in> set t \<Longrightarrow> filter (\<lambda>x. pk x = pk r) t = [r]"
proof (induction t)
  case (Cons z t)
  then show ?case by (cases "z = r") (auto simp: filter_empty_conv image_iff)
qed simp

lemma one_in: "one rows = Inr r \<Longrightarrow> r \<in> set rows"
  by (cases rows) (auto simp: one_def)

lemma one_filter_Inr:
  "one (filter P t) = Inr r \<Longrightarrow> r \<in> set t \<and> P r"
  by (auto simp: one_def filter_eq_Cons_iff split: list.splits)

lemma one_filter_Inl: "one (filter P t) = Inl e \<longleftrightarrow> e = ErrNoRows \<and> (\<forall>r\<in>set t. \<not> P r)"
  by (auto simp: one_def filter_empty_conv filter_eq_Cons_iff split: list.splits)

lemma one_filter_pk:
  "distinct (map pk t) \<Longrightarrow> r \<in> set t \<Longrightarrow> one (filter (\<lambda>x. pk x = pk r) t) = Inr r"
  by (simp add: filter_pk one_def)

lemma uniq_Cons: "uniq k (x # t) \<longleftrightarrow> (k x = None \<or> (\<forall>y\<in>set t. k y \<noteq> k x)) \<and> uniq k t"
  by (cases "k x") (auto simp: uniq_def image_iff)

lemma ball_map: "(\<And>x. x \<in> set t \<Longrightarrow> P (f x)) \<Longrightarrow> \<forall>y\<in>set (map f t). P y"
  by auto

text \<open>Updates that keep a row's key or take the row out of the index.\<close>

lemma uniq_update:
  assumes "uniq k t" "\<And>r. r \<in> set t \<Longrightarrow> P r \<Longrightarrow> k (f r) = k r \<or> k (f r) = None"
  shows "uniq k (sqlUpdate P f t)"
  using assms
proof (induction t)
  case (Cons x t)
  let ?g = "\<lambda>r. if P r then f r else r"
  have key: "k (?g y) = k y \<or> k (?g y) = None" if "y \<in> set (x # t)" for y using Cons.prems(2) that by auto
  have "k (?g x) = None \<or> (\<forall>y\<in>set (sqlUpdate P f t). k y \<noteq> k (?g x))"
  proof (cases "k (?g x) = None")
    case False
    with key[of x] have kx: "k (?g x) = k x" by auto
    then have "k y \<noteq> k x" if "y \<in> set t" for y using Cons.prems(1) False that by (auto simp: uniq_Cons)
    then have "k (?g y) \<noteq> k (?g x)" if "y \<in> set t" for y using key[of y] kx False that by force
    then have "\<forall>y\<in>set (map ?g t). k y \<noteq> k (?g x)" by (rule ball_map)
    then show ?thesis unfolding sqlUpdate_def by blast
  qed simp
  moreover have "uniq k (sqlUpdate P f t)" using Cons by (auto simp: uniq_Cons)
  ultimately show ?case by (simp add: uniq_Cons)
qed (simp add: uniq_def)

lemma uniq_pk: "uniq (\<lambda>r. Some (pk r)) t \<longleftrightarrow> distinct (map pk t)"
proof -
  have "filter (\<lambda>x. x \<noteq> None) (map (\<lambda>r. Some (pk r)) t) = map Some (map pk t)"
    by (induction t) auto
  moreover have "distinct (map Some (map pk t)) = distinct (map pk t)"
    by (rule distinct_map[THEN trans]) auto
  ultimately show ?thesis by (simp only: uniq_def)
qed

lemma sum_sqlUpdate_pk:
  fixes g :: "'r \<Rightarrow> int"
  assumes "distinct (map pk t)" and "r \<in> set t"
  shows "sum_list (map g (sqlUpdate (\<lambda>x. pk x = pk r) f t)) = sum_list (map g t) - g r + g (f r)"
  using assms
proof (induction t)
  case (Cons z t)
  show ?case
  proof (cases "z = r")
    case True
    with Cons.prems have "\<forall>x\<in>set t. \<not> pk x = pk r" by (auto simp: image_iff)
    with True show ?thesis by (simp add: sqlUpdate_none)
  next
    case False
    with Cons.prems have "pk z \<noteq> pk r" by auto
    with False Cons show ?thesis by simp
  qed
qed simp

text \<open>What \<open>ORDER BY \<dots> LIMIT\<close> picks.\<close>

lemma take_sorted_first:
  assumes "x \<in> set (take n xs)" "y \<in> set xs" "y \<notin> set (take n xs)" "sorted (map k xs)"
  shows "k x \<le> k y"
proof -
  from assms(2,3) have "y \<in> set (drop n xs)" by (metis UnE append_take_drop_id set_append)
  moreover have "sorted (map k (take n xs) @ map k (drop n xs))" using assms(4) by (simp flip: map_append)
  ultimately show ?thesis using assms(1) by (auto simp: sorted_append)
qed

lemma card_take_filter:
  assumes "distinct xs"
  shows "length (take n xs) = min n (card (set xs))"
  using assms by (simp add: distinct_card min.commute)

end
