(* ===== verification/Store.thy ===== *)
theory Store
  imports Prelude
begin

text \<open>
  The rows of the tables (\<open>internal/store/sqlc/models.go\<close>) as records, the database as a record
  of row lists, and the sequencing of database statements: transactions with their deferred
  rollback, statements run on the pool, driver faults, identifiers drawn from \<open>uuid.NewV7\<close>.
  A \<open>numeric(10,2)\<close> core count is an integer number of hundredths of a core.
\<close>

section \<open>Rows\<close>

text \<open>
  The six resource dimensions the scheduler accounts for; a node row keeps them three times
  (total, allocated, reserved), a reservation row once.
\<close>

record capacity =
  c_cpu :: int
  c_memory_mb :: int
  c_disk_gb :: int
  c_ipv4 :: int
  c_ipv6 :: int
  c_nat_port :: int

record userRow =
  u_id :: uuid
  u_email :: string
  u_password_hash :: string
  u_status :: string
  u_locale :: string
  u_timezone :: string
  u_email_verified_at :: "time option"
  u_last_login_at :: "time option"
  u_created_at :: time
  u_updated_at :: time

record adminRow =
  ad_id :: uuid
  ad_email :: string
  ad_password_hash :: string
  ad_status :: string
  ad_display_name :: pgtext
  ad_two_factor_enabled :: bool
  ad_last_login_at :: "time option"
  ad_created_at :: time
  ad_updated_at :: time

record productRow =
  prod_id :: uuid
  prod_slug :: string
  prod_name_i18n :: json
  prod_description_i18n :: json
  prod_status :: string
  prod_sort_order :: int
  prod_created_at :: time
  prod_updated_at :: time

record planRow =
  plan_id :: uuid
  plan_product_id :: uuid
  plan_node_group_id :: "uuid option"
  plan_slug :: string
  plan_name_i18n :: json
  plan_status :: string
  plan_cpu_cores :: int
  plan_memory_mb :: int
  plan_disk_gb :: int
  plan_traffic_gb :: "int option"
  plan_bandwidth_mbps :: "int option"
  plan_ipv4_count :: int
  plan_ipv6_count :: int
  plan_nat_port_count :: int
  plan_virtualization :: string
  plan_billing_cycle :: string
  plan_price_minor :: int
  plan_currency :: string
  plan_stock_mode :: string
  plan_created_at :: time
  plan_updated_at :: time
  plan_default_image_id :: string

record orderRow =
  o_id :: uuid
  o_order_no :: string
  o_user_id :: uuid
  o_status :: string
  o_subtotal_minor :: int
  o_discount_minor :: int
  o_total_minor :: int
  o_currency :: string
  o_paid_at :: "time option"
  o_created_at :: time
  o_updated_at :: time
  o_idempotency_key :: pgtext
  o_kind :: string
  o_subscription_id :: "uuid option"

record orderItemRow =
  oi_id :: uuid
  oi_order_id :: uuid
  oi_product_id :: uuid
  oi_plan_id :: uuid
  oi_quantity :: int
  oi_unit_price_minor :: int
  oi_total_minor :: int
  oi_product_snapshot :: json
  oi_plan_snapshot :: json
  oi_created_at :: time

record invoiceRow =
  inv_id :: uuid
  inv_invoice_no :: string
  inv_user_id :: uuid
  inv_subscription_id :: "uuid option"
  inv_order_id :: "uuid option"
  inv_status :: string
  inv_amount_minor :: int
  inv_currency :: string
  inv_due_at :: "time option"
  inv_paid_at :: "time option"
  inv_created_at :: time
  inv_updated_at :: time

record invoiceItemRow =
  ii_id :: uuid
  ii_invoice_id :: uuid
  ii_description_i18n :: json
  ii_quantity :: int
  ii_unit_amount_minor :: int
  ii_total_minor :: int
  ii_created_at :: time

record paymentRow =
  p_id :: uuid
  p_payment_no :: string
  p_order_id :: uuid
  p_gateway :: string
  p_gateway_payment_id :: pgtext
  p_status :: string
  p_amount_minor :: int
  p_currency :: string
  p_idempotency_key :: string
  p_gateway_payload :: json
  p_paid_at :: "time option"
  p_created_at :: time
  p_updated_at :: time

record receiptRow =
  rc_id :: uuid
  rc_gateway :: string
  rc_external_event_id :: string
  rc_payload :: json
  rc_received_at :: time
  rc_processed_at :: "time option"

record walletRow =
  wal_id :: uuid
  wal_user_id :: uuid
  wal_currency :: string
  wal_available_balance_minor :: int
  wal_created_at :: time
  wal_updated_at :: time

record ledgerTxRow =
  lt_id :: uuid
  lt_type :: string
  lt_reference_type :: pgtext
  lt_reference_id :: "uuid option"
  lt_description :: pgtext
  lt_created_at :: time

record ledgerEntryRow =
  le_id :: uuid
  le_transaction_id :: uuid
  le_account_type :: string
  le_account_id :: uuid
  le_direction :: string
  le_amount_minor :: int
  le_currency :: string
  le_created_at :: time

record outboxRow =
  ob_id :: uuid
  ob_event_type :: string
  ob_aggregate_type :: string
  ob_aggregate_id :: uuid
  ob_payload :: json
  ob_status :: string
  ob_attempts :: int
  ob_next_attempt_at :: time
  ob_created_at :: time
  ob_published_at :: "time option"

record subscriptionRow =
  s_id :: uuid
  s_user_id :: uuid
  s_plan_id :: uuid
  s_status :: string
  s_billing_cycle :: string
  s_price_minor :: int
  s_currency :: string
  s_started_at :: "time option"
  s_current_period_start :: "time option"
  s_current_period_end :: "time option"
  s_next_due_at :: "time option"
  s_grace_until :: "time option"
  s_cancel_at_period_end :: bool
  s_ended_at :: "time option"
  s_version :: int
  s_created_at :: time
  s_updated_at :: time
  s_source_order_id :: "uuid option"
  s_source_item_index :: "int option"

record providerRow =
  prov_id :: uuid
  prov_name :: string
  prov_provider_type :: string
  prov_endpoint :: pgtext
  prov_credential_ref :: pgtext
  prov_status :: string
  prov_version :: pgtext
  prov_config :: json
  prov_capabilities :: json
  prov_last_health_check_at :: "time option"
  prov_created_at :: time
  prov_updated_at :: time

record nodeGroupRow =
  ng_id :: uuid
  ng_name :: string
  ng_region :: string
  ng_status :: string
  ng_created_at :: time
  ng_updated_at :: time

record nodeRow =
  n_id :: uuid
  n_provider_id :: uuid
  n_node_group_id :: "uuid option"
  n_provider_node_id :: pgtext
  n_name :: string
  n_region :: string
  n_status :: string
  n_total :: capacity
  n_allocated :: capacity
  n_reserved :: capacity
  n_weight :: int
  n_capabilities :: json
  n_last_seen_at :: "time option"
  n_version :: int
  n_created_at :: time
  n_updated_at :: time

record reservationRow =
  rr_id :: uuid
  rr_node_id :: uuid
  rr_operation_id :: uuid
  rr_resources :: capacity
  rr_status :: string
  rr_expires_at :: time
  rr_created_at :: time
  rr_updated_at :: time

record instanceRow =
  i_id :: uuid
  i_subscription_id :: uuid
  i_node_id :: "uuid option"
  i_provider_id :: "uuid option"
  i_provider_instance_id :: pgtext
  i_name :: string
  i_desired_state :: string
  i_observed_state :: string
  i_cpu_cores :: int
  i_memory_mb :: int
  i_disk_gb :: int
  i_traffic_limit_gb :: "int option"
  i_bandwidth_mbps :: "int option"
  i_image_id :: pgtext
  i_primary_ipv4 :: pgtext
  i_primary_ipv6 :: pgtext
  i_last_synced_at :: "time option"
  i_version :: int
  i_created_at :: time
  i_updated_at :: time
  i_deleted_at :: "time option"

record operationRow =
  op_id :: uuid
  op_type :: string
  op_resource_type :: string
  op_resource_id :: uuid
  op_status :: string
  op_phase :: pgtext
  op_progress :: int
  op_message_key :: pgtext
  op_provider_id :: "uuid option"
  op_provider_operation_id :: pgtext
  op_idempotency_key :: string
  op_retryable :: bool
  op_retry_count :: int
  op_max_retries :: int
  op_error_code :: pgtext
  op_error_message :: pgtext
  op_trace_id :: string
  op_started_at :: "time option"
  op_finished_at :: "time option"
  op_created_at :: time
  op_updated_at :: time
  op_user_id :: "uuid option"
  op_actor_admin_id :: "uuid option"
  op_next_attempt_at :: time
  op_heartbeat_at :: "time option"

record stepRow =
  st_id :: uuid
  st_operation_id :: uuid
  st_step_key :: string
  st_step_order :: int
  st_status :: string
  st_progress :: int
  st_attempt :: int
  st_error_code :: pgtext
  st_error_message :: pgtext
  st_started_at :: "time option"
  st_finished_at :: "time option"
  st_created_at :: time
  st_updated_at :: time
  st_output :: json

record notificationRow =
  nf_id :: uuid
  nf_user_id :: "uuid option"
  nf_admin_id :: "uuid option"
  nf_type :: string
  nf_title_key :: string
  nf_message_key :: string
  nf_parameters :: json
  nf_severity :: string
  nf_read_at :: "time option"
  nf_created_at :: time

record auditRow =
  au_id :: uuid
  au_actor_type :: string
  au_actor_id :: "uuid option"
  au_action :: string
  au_resource_type :: string
  au_resource_id :: "uuid option"
  au_before_data :: json
  au_after_data :: json
  au_ip_address :: pgtext
  au_user_agent :: pgtext
  au_request_id :: pgtext
  au_trace_id :: pgtext
  au_created_at :: time

record ticketRow =
  tk_id :: uuid
  tk_ticket_no :: string
  tk_user_id :: uuid
  tk_subject :: string
  tk_status :: string
  tk_priority :: string
  tk_created_at :: time
  tk_updated_at :: time
  tk_closed_at :: "time option"

record ticketMessageRow =
  tm_id :: uuid
  tm_ticket_id :: uuid
  tm_sender_type :: string
  tm_sender_id :: "uuid option"
  tm_message :: string
  tm_created_at :: time

record sessionRow =
  se_id :: uuid
  se_owner :: uuid
  se_token_hash :: string
  se_expires_at :: time
  se_last_seen_at :: time
  se_revoked_at :: "time option"
  se_created_at :: time

record totpSecretRow =
  ts_admin_id :: uuid
  ts_ciphertext :: string
  ts_nonce :: string
  ts_created_at :: time
  ts_verified_at :: "time option"

record roleRow =
  ro_id :: uuid
  ro_key :: string
  ro_name_key :: string
  ro_created_at :: time

record permissionRow =
  pe_id :: uuid
  pe_key :: string

record settingRow =
  sy_key :: string
  sy_value :: json
  sy_is_secret :: bool
  sy_updated_at :: time
  sy_updated_by :: "uuid option"

record networkRow =
  nw_id :: uuid
  nw_instance_id :: uuid
  nw_type :: string
  nw_address :: pgtext
  nw_gateway :: pgtext
  nw_prefix :: "int option"
  nw_provider_network_id :: pgtext
  nw_created_at :: time

record trafficRow =
  tu_id :: uuid
  tu_instance_id :: uuid
  tu_period_start :: time
  tu_period_end :: time
  tu_rx_bytes :: int
  tu_tx_bytes :: int
  tu_source :: string
  tu_created_at :: time

record connectionRow =
  ac_node_id :: uuid
  ac_connection_id :: uuid
  ac_status :: string
  ac_remote_address :: pgtext
  ac_agent_version :: pgtext
  ac_connected_at :: time
  ac_disconnected_at :: "time option"
  ac_last_heartbeat_at :: "time option"

record commandRow =
  cm_id :: uuid
  cm_node_id :: uuid
  cm_operation_id :: "uuid option"
  cm_idempotency_key :: string
  cm_command_type :: string
  cm_payload :: json
  cm_status :: string
  cm_result :: "json option"
  cm_error_message :: pgtext
  cm_created_at :: time
  cm_dispatched_at :: "time option"
  cm_completed_at :: "time option"
  cm_updated_at :: time

record tokenRow =
  at_id :: uuid
  at_node_id :: uuid
  at_token_hash :: string
  at_status :: string
  at_created_at :: time
  at_last_used_at :: "time option"

record vmStateRow =
  vm_node_id :: uuid
  vm_instance_id :: uuid
  vm_status :: string
  vm_cpu_percent :: int
  vm_ram_used_mb :: int
  vm_traffic_in_bytes :: int
  vm_traffic_out_bytes :: int
  vm_monthly_traffic_in :: int
  vm_monthly_traffic_out :: int
  vm_ips :: "string list"
  vm_observed_at :: time

record agentImageRow =
  im_node_id :: uuid
  im_image_id :: string
  im_name :: string
  im_updated_at :: time

record agentForwardRow =
  fw_node_id :: uuid
  fw_instance_id :: uuid
  fw_protocol :: string
  fw_host_port :: int
  fw_guest_port :: int
  fw_description :: string
  fw_updated_at :: time

section \<open>The database and its environment\<close>

text \<open>
  The tables of a deployment. Those of the identity package and the administrators' settings form
  \<open>access\<close>, those that the agents on the nodes report to form \<open>fleet\<close>.
\<close>

record accessDb =
  user_sessions :: "sessionRow list"
  admin_sessions :: "sessionRow list"
  totp_secrets :: "totpSecretRow list"
  roles :: "roleRow list"
  permissions :: "permissionRow list"
  role_permissions :: "(uuid \<times> uuid) list"
  admin_roles :: "(uuid \<times> uuid) list"
  system_settings :: "settingRow list"

record fleetDb =
  agent_connections :: "connectionRow list"
  agent_commands :: "commandRow list"
  agent_messages :: "(string \<times> uuid \<times> time) list"
  agent_tokens :: "tokenRow list"
  agent_vm_states :: "vmStateRow list"
  agent_images :: "agentImageRow list"
  agent_port_forwards :: "agentForwardRow list"
  instance_networks :: "networkRow list"
  traffic_usage :: "trafficRow list"

record db =
  users :: "userRow list"
  admins :: "adminRow list"
  products :: "productRow list"
  plans :: "planRow list"
  orders :: "orderRow list"
  order_items :: "orderItemRow list"
  invoices :: "invoiceRow list"
  invoice_items :: "invoiceItemRow list"
  payments :: "paymentRow list"
  receipts :: "receiptRow list"
  wallets :: "walletRow list"
  ledger_transactions :: "ledgerTxRow list"
  ledger_entries :: "ledgerEntryRow list"
  outbox_events :: "outboxRow list"
  subscriptions :: "subscriptionRow list"
  providers :: "providerRow list"
  node_groups :: "nodeGroupRow list"
  nodes :: "nodeRow list"
  reservations :: "reservationRow list"
  instances :: "instanceRow list"
  operations :: "operationRow list"
  operation_steps :: "stepRow list"
  notifications :: "notificationRow list"
  tickets :: "ticketRow list"
  ticket_messages :: "ticketMessageRow list"
  audit_events :: "auditRow list"
  access :: accessDb
  fleet :: fleetDb

text \<open>A Redis stream is the list of the messages added to it.\<close>

record message =
  msg_event_id :: string
  msg_event_type :: string
  msg_payload :: json

record world =
  wdb :: db
  wids :: nat
  wstmts :: nat
  domain_events :: "message list"
  operation_queue :: "message list"
  stream_acks :: "(string \<times> nat) list"

text \<open>
  What a statement meets: success, a failure that leaves nothing behind, or (when it ends a
  transaction) a lost acknowledgement, where the server committed and the client sees an error.
\<close>

datatype fault = NoFault | Fails | AckLost

text \<open>
  The environment of one run of a handler. \<open>freshID\<close> are the values \<open>newID()\<close> draws,
  \<open>uuidString\<close>, \<open>uuidParse\<close> and \<open>sha1ID\<close> are \<open>String\<close>, \<open>Parse\<close> and \<open>NewSHA1(NameSpaceURL,\<^bold>\<cdot>)\<close>
  of the uuid package, \<open>pgNow\<close> the transaction timestamp \<open>now()\<close>, \<open>goNow\<close> the worker's clock,
  \<open>addMonths\<close> the calendar addition of PostgreSQL, \<open>faults\<close> the outcome of the n-th statement,
  \<open>pgLocked\<close> the rows other sessions hold (\<open>SKIP LOCKED\<close>), and \<open>concurrent\<close> what other sessions
  commit between a handler's first read on the pool and its own transaction, \<open>errorText\<close> the
  message of an error (\<open>Error()\<close>), and \<open>parseAddr\<close> the canonical form of an address, or nothing
  when \<open>netip.ParseAddr\<close> fails.
\<close>

record env =
  freshID :: "nat \<Rightarrow> uuid"
  uuidString :: "uuid \<Rightarrow> string"
  uuidParse :: "string \<Rightarrow> uuid option"
  sha1ID :: "string \<Rightarrow> uuid"
  pgNow :: time
  goNow :: time
  addMonths :: "nat \<Rightarrow> time \<Rightarrow> time"
  faults :: "nat \<Rightarrow> fault"
  pgLocked :: "uuid \<Rightarrow> bool"
  concurrent :: "db \<Rightarrow> db"
  errorText :: "err \<Rightarrow> string"
  parseAddr :: "string \<Rightarrow> string option"

text \<open>The zero \<open>time.Time\<close>, which a NULL timestamp scans to.\<close>

definition zeroTime :: time where "zeroTime = - 62135596800 * second"

definition timeOf :: "time option \<Rightarrow> time" where
  "timeOf t = (case t of None \<Rightarrow> zeroTime | Some x \<Rightarrow> x)"

type_synonym 'a io = "env \<Rightarrow> world \<Rightarrow> (err + 'a) \<times> world"
type_synonym 'a query = "env \<Rightarrow> db \<Rightarrow> err + ('a \<times> db)"

section \<open>Sequencing\<close>

definition ret :: "'a \<Rightarrow> 'a io" where "ret x = (\<lambda>e w. (Inr x, w))"

definition raise :: "err \<Rightarrow> 'a io" where "raise x = (\<lambda>e w. (Inl x, w))"

definition bnd :: "'a io \<Rightarrow> ('a \<Rightarrow> 'b io) \<Rightarrow> 'b io" where
  "bnd m f = (\<lambda>e w. case m e w of (Inl x, w') \<Rightarrow> (Inl x, w') | (Inr x, w') \<Rightarrow> f x e w')"

text \<open>The error of a call as a value, for the callers that inspect it.\<close>

definition attempt :: "'a io \<Rightarrow> (err + 'a) io" where
  "attempt m = (\<lambda>e w. case m e w of (r, w') \<Rightarrow> (Inr r, w'))"

definition asks :: "(env \<Rightarrow> 'a) \<Rightarrow> 'a io" where "asks f = (\<lambda>e w. (Inr (f e), w))"

definition newID :: "uuid io" where
  "newID = (\<lambda>e w. (Inr (freshID e (wids w)), w\<lparr>wids := Suc (wids w)\<rparr>))"

definition tick :: "world \<Rightarrow> world" where "tick w = w\<lparr>wstmts := Suc (wstmts w)\<rparr>"

text \<open>A statement inside a transaction.\<close>

definition exec :: "'a query \<Rightarrow> 'a io" where
  "exec q = (\<lambda>e w. case faults e (wstmts w) of
     NoFault \<Rightarrow> (case q e (wdb w) of
         Inl x \<Rightarrow> (Inl x, tick w)
       | Inr (x, d) \<Rightarrow> (Inr x, (tick w)\<lparr>wdb := d\<rparr>))
   | _ \<Rightarrow> (Inl ErrDriver, tick w))"

text \<open>A statement on the pool is its own transaction.\<close>

definition pool :: "'a query \<Rightarrow> 'a io" where
  "pool q = (\<lambda>e w. case faults e (wstmts w) of
     NoFault \<Rightarrow> (case q e (wdb w) of
         Inl x \<Rightarrow> (Inl x, tick w)
       | Inr (x, d) \<Rightarrow> (Inr x, (tick w)\<lparr>wdb := d\<rparr>))
   | Fails \<Rightarrow> (Inl ErrDriver, tick w)
   | AckLost \<Rightarrow> (case q e (wdb w) of
         Inl x \<Rightarrow> (Inl ErrDriver, tick w)
       | Inr (x, d) \<Rightarrow> (Inl ErrDriver, (tick w)\<lparr>wdb := d\<rparr>)))"

text \<open>A Redis command: it takes effect, or not, or does and the reply is lost.\<close>

definition redis :: "(world \<Rightarrow> world) \<Rightarrow> unit io" where
  "redis f = (\<lambda>e w. case faults e (wstmts w) of
     NoFault \<Rightarrow> (Inr (), tick (f w)) | Fails \<Rightarrow> (Inl ErrDriver, tick w) | AckLost \<Rightarrow> (Inl ErrDriver, tick (f w)))"

text \<open>Other sessions commit here.\<close>

definition others :: "unit io" where
  "others = (\<lambda>e w. (Inr (), w\<lparr>wdb := concurrent e (wdb w)\<rparr>))"

text \<open>
  How the body of a transaction ends: \<open>tx.Commit\<close>, or a return that leaves the deferred
  \<open>tx.Rollback\<close> to undo it.
\<close>

datatype 'a ending = Commit 'a | Rollback 'a

definition in_tx :: "'a ending io \<Rightarrow> 'a io" where
  "in_tx body = (\<lambda>e w. case faults e (wstmts w) of
     NoFault \<Rightarrow> (case body e (tick w) of
         (Inl x, w') \<Rightarrow> (Inl x, w'\<lparr>wdb := wdb w\<rparr>)
       | (Inr (Rollback x), w') \<Rightarrow> (Inr x, w'\<lparr>wdb := wdb w\<rparr>)
       | (Inr (Commit x), w') \<Rightarrow> (case faults e (wstmts w') of
             NoFault \<Rightarrow> (Inr x, tick w')
           | Fails \<Rightarrow> (Inl ErrDriver, (tick w')\<lparr>wdb := wdb w\<rparr>)
           | AckLost \<Rightarrow> (Inl ErrDriver, tick w')))
   | _ \<Rightarrow> (Inl ErrDriver, tick w))"

text \<open>A \<open>for range\<close> loop whose body returns on the first error.\<close>

primrec forEach :: "('a \<Rightarrow> unit io) \<Rightarrow> 'a list \<Rightarrow> unit io" where
  "forEach f [] = ret ()"
| "forEach f (x # xs) = bnd (f x) (\<lambda>_. forEach f xs)"

text \<open>\<open>errors.Is(err, pgx.ErrNoRows)\<close> turned into a sentinel of the package.\<close>

definition orNoRows :: "err \<Rightarrow> 'a io \<Rightarrow> 'a io" where
  "orNoRows sentinel m = bnd (attempt m) (\<lambda>r. case r of
     Inl x \<Rightarrow> raise (if x = ErrNoRows then sentinel else x) | Inr y \<Rightarrow> ret y)"

definition ofResult :: "err + 'a \<Rightarrow> 'a io" where
  "ofResult r = (case r of Inl x \<Rightarrow> raise x | Inr y \<Rightarrow> ret y)"

section \<open>Successful runs\<close>

lemma ret_ok [io_simps]: "ret x e w = (Inr y, w') \<longleftrightarrow> y = x \<and> w' = w"
  by (auto simp: ret_def)

lemma raise_ok [io_simps]: "raise x e w = (Inr y, w') \<longleftrightarrow> False"
  by (simp add: raise_def)

lemma bnd_ok [io_simps]:
  "bnd m f e w = (Inr y, w'') \<longleftrightarrow> (\<exists>x w'. m e w = (Inr x, w') \<and> f x e w' = (Inr y, w''))"
  by (auto simp: bnd_def split: prod.splits sum.splits)

lemma bndE:
  assumes "bnd m f e w = (Inr y, w'')"
  obtains x w' where "m e w = (Inr x, w')" and "f x e w' = (Inr y, w'')"
  using assms by (auto simp: bnd_ok)

lemma attempt_ok [io_simps]: "attempt m e w = (Inr r, w') \<longleftrightarrow> m e w = (r, w')"
  by (auto simp: attempt_def split: prod.splits)

lemma tryE:
  assumes "bnd (attempt m) (\<lambda>r. case r of Inl x \<Rightarrow> f x | Inr y \<Rightarrow> g y) e w = (Inr v, w')"
  obtains (failed) x w1 where "m e w = (Inl x, w1)" and "f x e w1 = (Inr v, w')"
  | (passed) y w1 where "m e w = (Inr y, w1)" and "g y e w1 = (Inr v, w')"
  using assms by (cases "m e w"; cases "fst (m e w)") (auto simp: bnd_def attempt_def)

lemma attempt_not_Inl [simp]: "attempt m e w \<noteq> (Inl x, w')"
  by (simp add: attempt_def split: prod.splits)

lemma orNoRows_ok [io_simps]: "orNoRows x m e w = (Inr y, w') \<longleftrightarrow> m e w = (Inr y, w')"
  by (auto simp: orNoRows_def bnd_def attempt_def raise_def ret_def split: prod.splits sum.splits)

lemma ofResult_ok [io_simps]: "ofResult r e w = (Inr y, w') \<longleftrightarrow> r = Inr y \<and> w' = w"
  by (auto simp: ofResult_def raise_def ret_def split: sum.splits)

lemma asks_ok [io_simps]: "asks f e w = (Inr y, w') \<longleftrightarrow> y = f e \<and> w' = w"
  by (auto simp: asks_def)

lemma newID_ok [io_simps]:
  "newID e w = (Inr y, w') \<longleftrightarrow> y = freshID e (wids w) \<and> w' = w\<lparr>wids := Suc (wids w)\<rparr>"
  by (auto simp: newID_def)

lemma exec_ok [io_simps]:
  "exec q e w = (Inr y, w') \<longleftrightarrow> faults e (wstmts w) = NoFault \<and>
     (\<exists>d. q e (wdb w) = Inr (y, d) \<and> w' = (tick w)\<lparr>wdb := d\<rparr>)"
  by (auto simp: exec_def split: fault.splits sum.splits)

lemma pool_ok [io_simps]:
  "pool q e w = (Inr y, w') \<longleftrightarrow> faults e (wstmts w) = NoFault \<and>
     (\<exists>d. q e (wdb w) = Inr (y, d) \<and> w' = (tick w)\<lparr>wdb := d\<rparr>)"
  by (auto simp: pool_def split: fault.splits sum.splits)

lemma redis_ok [io_simps]: "redis f e w = (Inr y, w') \<longleftrightarrow> faults e (wstmts w) = NoFault \<and> w' = tick (f w)"
  by (auto simp: redis_def split: fault.splits)

lemma others_ok [io_simps]:
  "others e w = (Inr y, w') \<longleftrightarrow> w' = w\<lparr>wdb := concurrent e (wdb w)\<rparr>"
  by (auto simp: others_def)

lemma tick_simps [simp]:
  "wdb (tick w) = wdb w" "wids (tick w) = wids w" "wstmts (tick w) = Suc (wstmts w)"
  "domain_events (tick w) = domain_events w" "operation_queue (tick w) = operation_queue w"
  "stream_acks (tick w) = stream_acks w"
  by (simp_all add: tick_def)

lemma in_tx_ok:
  "in_tx body e w = (Inr x, w') \<longleftrightarrow> faults e (wstmts w) = NoFault \<and>
    ((\<exists>w2. body e (tick w) = (Inr (Commit x), w2) \<and> faults e (wstmts w2) = NoFault \<and> w' = tick w2) \<or>
     (\<exists>w2. body e (tick w) = (Inr (Rollback x), w2) \<and> w' = w2\<lparr>wdb := wdb w\<rparr>))"
  by (auto simp: in_tx_def split: fault.splits sum.splits prod.splits ending.splits)

text \<open>Whatever happens, the database is the one before, or the one the body committed.\<close>

lemma in_tx_atomic:
  assumes "in_tx body e w = (r, w')"
  shows "wdb w' = wdb w \<or> (\<exists>x w2. body e (tick w) = (Inr (Commit x), w2) \<and> wdb w' = wdb w2)"
  using assms
  by (auto simp: in_tx_def split: fault.splits sum.splits prod.splits ending.splits)

lemma in_tx_Inl_cases:
  assumes "in_tx body e w = (Inl x, w')"
  obtains "wdb w' = wdb w" | y w2 where "body e (tick w) = (Inr (Commit y), w2)" "wdb w' = wdb w2"
    "x = ErrDriver"
  using assms
  by (auto simp: in_tx_def split: fault.splits sum.splits prod.splits ending.splits)

section \<open>Invariants\<close>

text \<open>
  \<open>keeps I m\<close>: a run of \<open>m\<close>, successful or not, leaves a database that satisfies \<open>I\<close>, in every
  environment whose concurrent sessions keep \<open>I\<close> themselves.
\<close>

definition keeps :: "(db \<Rightarrow> bool) \<Rightarrow> 'a io \<Rightarrow> bool" where
  "keeps I m \<longleftrightarrow> (\<forall>e w r w'. (\<forall>d. I d \<longrightarrow> I (concurrent e d)) \<longrightarrow> I (wdb w) \<longrightarrow>
     m e w = (r, w') \<longrightarrow> I (wdb w'))"

definition qkeeps :: "(db \<Rightarrow> bool) \<Rightarrow> 'a query \<Rightarrow> bool" where
  "qkeeps I q \<longleftrightarrow> (\<forall>e d x d'. I d \<longrightarrow> q e d = Inr (x, d') \<longrightarrow> I d')"

named_theorems keeps_intros \<open>composition of invariant-keeping steps\<close>

lemma keepsD:
  "keeps I m \<Longrightarrow> m e w = (r, w') \<Longrightarrow> I (wdb w) \<Longrightarrow> (\<And>d. I d \<Longrightarrow> I (concurrent e d)) \<Longrightarrow> I (wdb w')"
  by (auto simp: keeps_def)

lemma qkeepsD: "qkeeps I q \<Longrightarrow> q e d = Inr (x, d') \<Longrightarrow> I d \<Longrightarrow> I d'"
  by (auto simp: qkeeps_def)

lemma qkeepsI: "(\<And>e d x d'. I d \<Longrightarrow> q e d = Inr (x, d') \<Longrightarrow> I d') \<Longrightarrow> qkeeps I q"
  by (auto simp: qkeeps_def)

lemma keeps_ret [keeps_intros]: "keeps I (ret x)"
  by (simp add: keeps_def ret_def)

lemma keeps_raise [keeps_intros]: "keeps I (raise x)"
  by (simp add: keeps_def raise_def)

lemma keeps_asks [keeps_intros]: "keeps I (asks f)"
  by (simp add: keeps_def asks_def)

lemma keeps_newID [keeps_intros]: "keeps I newID"
  by (simp add: keeps_def newID_def)

lemma keeps_others [keeps_intros]: "keeps I others"
  by (simp add: keeps_def others_def)

lemma keeps_bnd [keeps_intros]: "keeps I m \<Longrightarrow> (\<And>x. keeps I (f x)) \<Longrightarrow> keeps I (bnd m f)"
proof -
  assume m: "keeps I m" and f: "\<And>x. keeps I (f x)"
  show "keeps I (bnd m f)"
    unfolding keeps_def
  proof (intro allI impI)
    fix e w r w''
    assume I: "\<forall>d. I d \<longrightarrow> I (concurrent e d)" "I (wdb w)" and run: "bnd m f e w = (r, w'')"
    obtain q w' where q: "m e w = (q, w')" by fastforce
    with I m have "I (wdb w')" by (auto dest: keepsD)
    with I f run q show "I (wdb w'')" by (cases q) (auto simp: bnd_def dest: keepsD)
  qed
qed

lemma keeps_attempt [keeps_intros]: "keeps I m \<Longrightarrow> keeps I (attempt m)"
  unfolding keeps_def attempt_def by (auto split: prod.splits)

lemma keeps_orNoRows [keeps_intros]: "keeps I m \<Longrightarrow> keeps I (orNoRows x m)"
  unfolding orNoRows_def by (intro keeps_bnd keeps_attempt) (auto simp: keeps_raise keeps_ret split: sum.split)

lemma keeps_ofResult [keeps_intros]: "keeps I (ofResult r)"
  by (simp add: ofResult_def keeps_raise keeps_ret split: sum.split)

lemma keeps_exec [keeps_intros]: "qkeeps I q \<Longrightarrow> keeps I (exec q)"
  unfolding keeps_def exec_def by (auto split: fault.splits sum.splits prod.splits dest: qkeepsD)

lemma keeps_pool [keeps_intros]: "qkeeps I q \<Longrightarrow> keeps I (pool q)"
  unfolding keeps_def pool_def by (auto split: fault.splits sum.splits prod.splits dest: qkeepsD)

lemma keeps_redis [keeps_intros]: "(\<And>w. wdb (f w) = wdb w) \<Longrightarrow> keeps I (redis f)"
  unfolding keeps_def redis_def by (auto split: fault.splits)

lemma keeps_forEach [keeps_intros]: "(\<And>x. keeps I (f x)) \<Longrightarrow> keeps I (forEach f xs)"
  by (induction xs) (simp_all add: keeps_ret keeps_bnd)

lemma keeps_if [keeps_intros]: "(b \<Longrightarrow> keeps I m) \<Longrightarrow> (\<not> b \<Longrightarrow> keeps I n) \<Longrightarrow> keeps I (if b then m else n)"
  by simp

lemma keeps_sum [keeps_intros]:
  "(\<And>x. r = Inl x \<Longrightarrow> keeps I (f x)) \<Longrightarrow> (\<And>y. r = Inr y \<Longrightarrow> keeps I (g y)) \<Longrightarrow> keeps I (case r of Inl x \<Rightarrow> f x | Inr y \<Rightarrow> g y)"
  by (simp split: sum.splits)

lemma keeps_option [keeps_intros]:
  "(r = None \<Longrightarrow> keeps I f) \<Longrightarrow> (\<And>y. r = Some y \<Longrightarrow> keeps I (g y)) \<Longrightarrow> keeps I (case r of None \<Rightarrow> f | Some y \<Rightarrow> g y)"
  by (simp split: option.splits)

text \<open>A transaction has to keep the invariant only from its begin to its commit.\<close>

lemma keeps_in_tx_commit:
  assumes "\<And>e w x w'. I (wdb w) \<Longrightarrow> body e w = (Inr (Commit x), w') \<Longrightarrow> I (wdb w')"
  shows "keeps I (in_tx body)"
  unfolding keeps_def
proof (intro allI impI)
  fix e w r w'
  assume "I (wdb w)" and "in_tx body e w = (r, w')"
  then show "I (wdb w')"
    using in_tx_atomic[of body e w r w'] assms[of "tick w" e] by auto
qed

lemma keeps_in_tx:
  assumes "\<And>e w r w'. I (wdb w) \<Longrightarrow> body e w = (r, w') \<Longrightarrow> I (wdb w')"
  shows "keeps I (in_tx body)"
  by (rule keeps_in_tx_commit) (blast intro: assms)

lemma keeps_tx [keeps_intros]:
  assumes "keeps I body"
  shows "keeps I (in_tx body)"
  unfolding keeps_def
proof (intro allI impI)
  fix e w r w'
  assume conc: "\<forall>d. I d \<longrightarrow> I (concurrent e d)" and I: "I (wdb w)" and run: "in_tx body e w = (r, w')"
  from in_tx_atomic[OF run] show "I (wdb w')"
    using keepsD[OF assms, of e "tick w"] conc I by auto
qed

text \<open>A query that never writes keeps everything.\<close>

definition readonly :: "'a query \<Rightarrow> bool" where
  "readonly q \<longleftrightarrow> (\<forall>e d x d'. q e d = Inr (x, d') \<longrightarrow> d' = d)"

lemma qkeeps_readonly [keeps_intros]: "readonly q \<Longrightarrow> qkeeps I q"
  by (auto simp: readonly_def qkeeps_def)

lemma exec_readonly: "readonly q \<Longrightarrow> exec q e w = (Inr x, w') \<Longrightarrow> wdb w' = wdb w \<and> q e (wdb w) = Inr (x, wdb w)"
  by (auto simp: exec_ok readonly_def)

text \<open>A SELECT returning one row, and one returning a list.\<close>

definition selectOne :: "(env \<Rightarrow> db \<Rightarrow> 'r list) \<Rightarrow> 'r query" where
  "selectOne f = (\<lambda>e d. case one (f e d) of Inl x \<Rightarrow> Inl x | Inr r \<Rightarrow> Inr (r, d))"

definition selectMany :: "(env \<Rightarrow> db \<Rightarrow> 'r list) \<Rightarrow> 'r list query" where
  "selectMany f = (\<lambda>e d. Inr (f e d, d))"

lemma readonly_select [keeps_intros]: "readonly (selectOne f)" "readonly (selectMany f)"
  by (auto simp: readonly_def selectOne_def selectMany_def split: sum.splits)

lemma selectOne_ok [io_simps]: "selectOne f e d = Inr (r, d') \<longleftrightarrow> one (f e d) = Inr r \<and> d' = d"
  by (auto simp: selectOne_def split: sum.splits)

lemma selectMany_ok [io_simps]: "selectMany f e d = Inr (r, d') \<longleftrightarrow> r = f e d \<and> d' = d"
  by (auto simp: selectMany_def)

section \<open>Writing rows\<close>

text \<open>
  An INSERT evaluates the CHECK constraints, then the unique indexes, then the foreign keys.
\<close>

definition insertInto :: "bool \<Rightarrow> bool \<Rightarrow> bool \<Rightarrow> 'a \<Rightarrow> db \<Rightarrow> err + ('a \<times> db)" where
  "insertInto check conflict refs r d =
    (if \<not> check then Inl checkViolation
     else if conflict then Inl uniqueViolation
     else if \<not> refs then Inl foreignKeyViolation
     else Inr (r, d))"

lemma insertInto_ok [io_simps]:
  "insertInto check conflict refs r d = Inr (x, d') \<longleftrightarrow>
     check \<and> \<not> conflict \<and> refs \<and> x = r \<and> d' = d"
  by (auto simp: insertInto_def)

definition present :: "('r \<Rightarrow> uuid) \<Rightarrow> uuid \<Rightarrow> 'r list \<Rightarrow> bool" where
  "present pk v t \<longleftrightarrow> list_ex (\<lambda>x. pk x = v) t"

lemma present_iff: "present pk v t \<longleftrightarrow> v \<in> pk ` set t"
  by (auto simp: present_def list_ex_iff)

lemma present_append [sql_simps]: "present pk v (s @ t) \<longleftrightarrow> present pk v s \<or> present pk v t"
  by (simp add: present_def)

lemma present_sqlUpdate: "(\<And>r. P r \<Longrightarrow> pk (f r) = pk r) \<Longrightarrow> present pk v (sqlUpdate P f t) = present pk v t"
  by (auto simp: present_def list_ex_iff set_sqlUpdate)

text \<open>A nullable reference is satisfied when it is NULL.\<close>

definition presentOpt :: "('r \<Rightarrow> uuid) \<Rightarrow> uuid option \<Rightarrow> 'r list \<Rightarrow> bool" where
  "presentOpt pk v t \<longleftrightarrow> (case v of None \<Rightarrow> True | Some x \<Rightarrow> present pk x t)"

text \<open>
  \<open>UPDATE \<dots> RETURNING *\<close> scanned into one row: \<open>pgx.ErrNoRows\<close> when no row matches, and the
  statement fails as a whole when an updated row breaks a CHECK constraint.
\<close>

definition updateReturning :: "'r list \<Rightarrow> ('r \<Rightarrow> bool) \<Rightarrow> ('r \<Rightarrow> 'r) \<Rightarrow> ('r \<Rightarrow> bool) \<Rightarrow> ('r list \<Rightarrow> db) \<Rightarrow> err + ('r \<times> db)" where
  "updateReturning t P f check put =
    (if list_all (\<lambda>r. P r \<longrightarrow> check (f r)) t
     then (case filter P t of [] \<Rightarrow> Inl ErrNoRows | r # _ \<Rightarrow> Inr (f r, put (sqlUpdate P f t)))
     else Inl checkViolation)"

lemma updateReturning_ok [io_simps]:
  "updateReturning t P f check put = Inr (x, d') \<longleftrightarrow>
     (\<exists>r. one (filter P t) = Inr r \<and> x = f r) \<and> d' = put (sqlUpdate P f t) \<and> (\<forall>r\<in>set t. P r \<longrightarrow> check (f r))"
  by (auto simp: updateReturning_def one_def list_all_iff split: list.splits)

text \<open>The envelope every outbox event carries.\<close>

definition envelope :: "env \<Rightarrow> uuid \<Rightarrow> string \<Rightarrow> time \<Rightarrow> string \<Rightarrow> uuid \<Rightarrow> json \<Rightarrow> json" where
  "envelope e eventID eventType occurredAt aggregateType aggregateID payload = JObj
    [(''event_id'', JStr (uuidString e eventID)), (''event_type'', JStr eventType),
     (''occurred_at'', JTime occurredAt), (''aggregate_type'', JStr aggregateType),
     (''aggregate_id'', JStr (uuidString e aggregateID)), (''data'', payload)]"

definition JUuid :: "env \<Rightarrow> uuid option \<Rightarrow> json" where
  "JUuid e v = (case v of None \<Rightarrow> JNull | Some x \<Rightarrow> JStr (uuidString e x))"

end
