(* ===== verification/Commerce_Queries.thy ===== *)
theory Commerce_Queries
  imports Store "HOL-Library.Product_Lexorder"
begin

text \<open>
  The statements of \<open>internal/store/sqlc/commerce.sql.go\<close>: catalogue, orders, invoices, payments,
  wallets, webhook receipts, the ledger and the outbox, each with the constraints the schema puts
  on its table.
\<close>

section \<open>Indexes\<close>

definition orderUserKey :: "orderRow \<Rightarrow> (uuid \<times> string) option" where
  "orderUserKey r = map_option (\<lambda>k. (o_user_id r, k)) (o_idempotency_key r)"

definition orderConflict :: "orderRow list \<Rightarrow> orderRow \<Rightarrow> bool" where
  "orderConflict t r \<longleftrightarrow> conflicts (\<lambda>x. Some (o_id x)) t r \<or> conflicts (\<lambda>x. Some (o_order_no x)) t r
     \<or> conflicts orderUserKey t r"

definition orderCheck :: "orderRow \<Rightarrow> bool" where
  "orderCheck r \<longleftrightarrow> (o_kind r = ''purchase'' \<and> o_subscription_id r = None) \<or>
     (o_kind r = ''renewal'' \<and> o_subscription_id r \<noteq> None)"

definition paymentExternalKey :: "paymentRow \<Rightarrow> (string \<times> string) option" where
  "paymentExternalKey r = map_option (\<lambda>x. (p_gateway r, x)) (p_gateway_payment_id r)"

definition paymentConflict :: "paymentRow list \<Rightarrow> paymentRow \<Rightarrow> bool" where
  "paymentConflict t r \<longleftrightarrow> conflicts (\<lambda>x. Some (p_id x)) t r \<or> conflicts (\<lambda>x. Some (p_payment_no x)) t r
     \<or> conflicts (\<lambda>x. Some (p_idempotency_key x)) t r \<or> conflicts paymentExternalKey t r"

definition invoiceConflict :: "invoiceRow list \<Rightarrow> invoiceRow \<Rightarrow> bool" where
  "invoiceConflict t r \<longleftrightarrow> conflicts (\<lambda>x. Some (inv_id x)) t r \<or> conflicts (\<lambda>x. Some (inv_invoice_no x)) t r
     \<or> conflicts inv_order_id t r"

definition ledgerReference :: "ledgerTxRow \<Rightarrow> (string \<times> string \<times> uuid) option" where
  "ledgerReference r = (case (lt_reference_type r, lt_reference_id r) of
     (Some t, Some i) \<Rightarrow> Some (lt_type r, t, i) | _ \<Rightarrow> None)"

definition ledgerTxConflict :: "ledgerTxRow list \<Rightarrow> ledgerTxRow \<Rightarrow> bool" where
  "ledgerTxConflict t r \<longleftrightarrow> conflicts (\<lambda>x. Some (lt_id x)) t r \<or> conflicts ledgerReference t r"

section \<open>Catalogue\<close>

record catalogRow =
  cat_product :: productRow
  cat_plan :: planRow

definition ListActiveProductsAndPlans :: "catalogRow list query" where
  "ListActiveProductsAndPlans = selectMany (\<lambda>e d.
     sort_key (\<lambda>r. (prod_sort_order (cat_product r), prod_slug (cat_product r),
                     plan_price_minor (cat_plan r), plan_slug (cat_plan r)))
       [\<lparr>cat_product = p, cat_plan = q\<rparr>. p \<leftarrow> products d, q \<leftarrow> plans d,
          plan_product_id q = prod_id p \<and> prod_status p = ''active'' \<and> plan_status q = ''active''])"

definition GetPlanForOrder :: "uuid \<Rightarrow> catalogRow query" where
  "GetPlanForOrder planID = selectOne (\<lambda>e d.
     [\<lparr>cat_product = p, cat_plan = q\<rparr>. q \<leftarrow> plans d, p \<leftarrow> products d,
        prod_id p = plan_product_id q \<and> plan_id q = planID \<and> plan_status q = ''active'' \<and> prod_status p = ''active''])"

section \<open>Orders\<close>

definition CreateOrder_q :: "uuid \<Rightarrow> string \<Rightarrow> uuid \<Rightarrow> int \<Rightarrow> string \<Rightarrow> pgtext \<Rightarrow> string \<Rightarrow> uuid option \<Rightarrow> orderRow query" where
  "CreateOrder_q rowID orderNo userID subtotal currency key kind sub = (\<lambda>e d.
     let r = \<lparr>o_id = rowID, o_order_no = orderNo, o_user_id = userID, o_status = ''pending'',
        o_subtotal_minor = subtotal, o_discount_minor = 0, o_total_minor = subtotal, o_currency = currency,
        o_paid_at = None, o_created_at = pgNow e, o_updated_at = pgNow e, o_idempotency_key = key,
        o_kind = kind, o_subscription_id = sub\<rparr>
     in insertInto (orderCheck r) (orderConflict (orders d) r)
          (present u_id userID (users d) \<and> presentOpt s_id sub (subscriptions d))
          r (d\<lparr>orders := orders d @ [r]\<rparr>))"

definition GetOrderByUserIdempotency :: "uuid \<Rightarrow> pgtext \<Rightarrow> orderRow query" where
  "GetOrderByUserIdempotency userID key = selectOne (\<lambda>e d.
     filter (\<lambda>ordr. o_user_id ordr = userID \<and> key \<noteq> None \<and> o_idempotency_key ordr = key) (orders d))"

definition CreateOrderItem :: "uuid \<Rightarrow> uuid \<Rightarrow> uuid \<Rightarrow> uuid \<Rightarrow> int \<Rightarrow> int \<Rightarrow> int \<Rightarrow> json \<Rightarrow> json \<Rightarrow> unit query" where
  "CreateOrderItem rowID orderID productID planID quantity unitPrice amount productSnapshot planSnapshot = (\<lambda>e d.
     let r = \<lparr>oi_id = rowID, oi_order_id = orderID, oi_product_id = productID, oi_plan_id = planID,
        oi_quantity = quantity, oi_unit_price_minor = unitPrice, oi_total_minor = amount,
        oi_product_snapshot = productSnapshot, oi_plan_snapshot = planSnapshot, oi_created_at = pgNow e\<rparr>
     in insertInto (quantity > 0) (conflicts (\<lambda>x. Some (oi_id x)) (order_items d) r)
          (present o_id orderID (orders d) \<and> present prod_id productID (products d) \<and> present plan_id planID (plans d))
          () (d\<lparr>order_items := order_items d @ [r]\<rparr>))"

record orderListRow =
  ol_order :: orderRow
  ol_payment :: "paymentRow option"

definition ListOrdersByUser :: "uuid \<Rightarrow> orderListRow list query" where
  "ListOrdersByUser userID = selectMany (\<lambda>e d.
     sort_key (\<lambda>r. - o_created_at (ol_order r))
       (concat (map (\<lambda>ordr. case filter (\<lambda>p. p_order_id p = o_id ordr) (payments d) of
            [] \<Rightarrow> [\<lparr>ol_order = ordr, ol_payment = None\<rparr>]
          | ps \<Rightarrow> map (\<lambda>p. \<lparr>ol_order = ordr, ol_payment = Some p\<rparr>) ps)
        (filter (\<lambda>ordr. o_user_id ordr = userID) (orders d)))))"

definition MarkOrderPaid :: "uuid \<Rightarrow> unit query" where
  "MarkOrderPaid rowID = (\<lambda>e d. Inr ((), d\<lparr>orders := sqlUpdate (\<lambda>r. o_id r = rowID)
     (\<lambda>r. r\<lparr>o_status := ''paid'', o_paid_at := Some (pgNow e), o_updated_at := pgNow e\<rparr>) (orders d)\<rparr>))"

section \<open>Invoices\<close>

definition CreateInvoice :: "uuid \<Rightarrow> string \<Rightarrow> uuid \<Rightarrow> uuid option \<Rightarrow> uuid option \<Rightarrow> int \<Rightarrow> string \<Rightarrow> time \<Rightarrow> invoiceRow query" where
  "CreateInvoice rowID invoiceNo userID sub orderID amount currency dueAt = (\<lambda>e d.
     let r = \<lparr>inv_id = rowID, inv_invoice_no = invoiceNo, inv_user_id = userID, inv_subscription_id = sub,
        inv_order_id = orderID, inv_status = ''open'', inv_amount_minor = amount, inv_currency = currency,
        inv_due_at = Some dueAt, inv_paid_at = None, inv_created_at = pgNow e, inv_updated_at = pgNow e\<rparr>
     in insertInto True (invoiceConflict (invoices d) r)
          (present u_id userID (users d) \<and> presentOpt s_id sub (subscriptions d) \<and> presentOpt o_id orderID (orders d))
          r (d\<lparr>invoices := invoices d @ [r]\<rparr>))"

definition CreateInvoiceItem :: "uuid \<Rightarrow> uuid \<Rightarrow> json \<Rightarrow> int \<Rightarrow> int \<Rightarrow> int \<Rightarrow> unit query" where
  "CreateInvoiceItem rowID invoiceID description quantity unitAmount amount = (\<lambda>e d.
     let r = \<lparr>ii_id = rowID, ii_invoice_id = invoiceID, ii_description_i18n = description, ii_quantity = quantity,
        ii_unit_amount_minor = unitAmount, ii_total_minor = amount, ii_created_at = pgNow e\<rparr>
     in insertInto (quantity > 0) (conflicts (\<lambda>x. Some (ii_id x)) (invoice_items d) r)
          (present inv_id invoiceID (invoices d))
          () (d\<lparr>invoice_items := invoice_items d @ [r]\<rparr>))"

definition ListInvoicesByUser :: "uuid \<Rightarrow> invoiceRow list query" where
  "ListInvoicesByUser userID = selectMany (\<lambda>e d.
     sort_key (\<lambda>r. - inv_created_at r) (filter (\<lambda>r. inv_user_id r = userID) (invoices d)))"

definition MarkInvoicePaid :: "uuid \<Rightarrow> unit query" where
  "MarkInvoicePaid rowID = (\<lambda>e d. Inr ((), d\<lparr>invoices := sqlUpdate (\<lambda>r. inv_id r = rowID)
     (\<lambda>r. r\<lparr>inv_status := ''paid'', inv_paid_at := Some (pgNow e), inv_updated_at := pgNow e\<rparr>) (invoices d)\<rparr>))"

section \<open>Payments\<close>

definition CreatePayment :: "uuid \<Rightarrow> string \<Rightarrow> uuid \<Rightarrow> string \<Rightarrow> int \<Rightarrow> string \<Rightarrow> string \<Rightarrow> paymentRow query" where
  "CreatePayment rowID paymentNo orderID gateway amount currency key = (\<lambda>e d.
     let r = \<lparr>p_id = rowID, p_payment_no = paymentNo, p_order_id = orderID, p_gateway = gateway,
        p_gateway_payment_id = None, p_status = ''pending'', p_amount_minor = amount, p_currency = currency,
        p_idempotency_key = key, p_gateway_payload = JObj [], p_paid_at = None, p_created_at = pgNow e,
        p_updated_at = pgNow e\<rparr>
     in insertInto True (paymentConflict (payments d) r) (present o_id orderID (orders d))
          r (d\<lparr>payments := payments d @ [r]\<rparr>))"

definition GetPaymentByOrder :: "uuid \<Rightarrow> paymentRow query" where
  "GetPaymentByOrder orderID = selectOne (\<lambda>e d.
     sort_key p_created_at (filter (\<lambda>p. p_order_id p = orderID) (payments d)))"

record lockedRow =
  lk_payment_id :: uuid
  lk_payment_status :: string
  lk_payment_amount_minor :: int
  lk_payment_currency :: string
  lk_gateway_payment_id :: pgtext
  lk_order_id :: uuid
  lk_user_id :: uuid
  lk_order_status :: string
  lk_invoice_id :: uuid
  lk_invoice_status :: string
  lk_subscription_id :: "uuid option"

definition lockedOf :: "paymentRow \<Rightarrow> orderRow \<Rightarrow> invoiceRow \<Rightarrow> lockedRow" where
  "lockedOf p ordr i = \<lparr>lk_payment_id = p_id p, lk_payment_status = p_status p,
     lk_payment_amount_minor = p_amount_minor p, lk_payment_currency = p_currency p,
     lk_gateway_payment_id = p_gateway_payment_id p, lk_order_id = p_order_id p, lk_user_id = o_user_id ordr,
     lk_order_status = o_status ordr, lk_invoice_id = inv_id i, lk_invoice_status = inv_status i,
     lk_subscription_id = inv_subscription_id i\<rparr>"

definition LockPaymentOrderInvoice :: "uuid \<Rightarrow> string \<Rightarrow> lockedRow query" where
  "LockPaymentOrderInvoice paymentID gateway = selectOne (\<lambda>e d.
     [lockedOf p ordr i. p \<leftarrow> payments d, p_id p = paymentID \<and> p_gateway p = gateway,
        ordr \<leftarrow> orders d, o_id ordr = p_order_id p, i \<leftarrow> invoices d, inv_order_id i = Some (o_id ordr)])"

definition MarkPaymentSucceeded :: "uuid \<Rightarrow> pgtext \<Rightarrow> json \<Rightarrow> unit query" where
  "MarkPaymentSucceeded rowID gatewayPaymentID payload = (\<lambda>e d.
     let t = sqlUpdate (\<lambda>r. p_id r = rowID)
       (\<lambda>r. r\<lparr>p_status := ''succeeded'', p_gateway_payment_id := gatewayPaymentID,
              p_gateway_payload := jsonb payload, p_paid_at := Some (pgNow e), p_updated_at := pgNow e\<rparr>) (payments d)
     in if uniq paymentExternalKey t then Inr ((), d\<lparr>payments := t\<rparr>) else Inl uniqueViolation)"

section \<open>Webhook receipts\<close>

definition receiptKey :: "receiptRow \<Rightarrow> (string \<times> string) option" where
  "receiptKey r = Some (rc_gateway r, rc_external_event_id r)"

definition InsertWebhookReceipt :: "uuid \<Rightarrow> string \<Rightarrow> string \<Rightarrow> json \<Rightarrow> uuid query" where
  "InsertWebhookReceipt rowID gateway eventID payload = (\<lambda>e d.
     let r = \<lparr>rc_id = rowID, rc_gateway = gateway, rc_external_event_id = eventID, rc_payload = jsonb payload,
        rc_received_at = pgNow e, rc_processed_at = None\<rparr>
     in if conflicts receiptKey (receipts d) r then Inl ErrNoRows
        else insertInto True (conflicts (\<lambda>x. Some (rc_id x)) (receipts d) r) True
          rowID (d\<lparr>receipts := receipts d @ [r]\<rparr>))"

definition GetWebhookReceipt :: "string \<Rightarrow> string \<Rightarrow> receiptRow query" where
  "GetWebhookReceipt gateway eventID = selectOne (\<lambda>e d.
     filter (\<lambda>r. rc_gateway r = gateway \<and> rc_external_event_id r = eventID) (receipts d))"

definition MarkWebhookProcessed :: "uuid \<Rightarrow> unit query" where
  "MarkWebhookProcessed rowID = (\<lambda>e d. Inr ((), d\<lparr>receipts := sqlUpdate (\<lambda>r. rc_id r = rowID)
     (\<lambda>r. r\<lparr>rc_processed_at := Some (pgNow e)\<rparr>) (receipts d)\<rparr>))"

section \<open>Wallets\<close>

definition walletKey :: "walletRow \<Rightarrow> (uuid \<times> string) option" where
  "walletKey r = Some (wal_user_id r, wal_currency r)"

definition GetWalletByUserCurrency :: "uuid \<Rightarrow> string \<Rightarrow> walletRow query" where
  "GetWalletByUserCurrency userID currency = selectOne (\<lambda>e d.
     filter (\<lambda>r. wal_user_id r = userID \<and> wal_currency r = currency) (wallets d))"

definition newWallet :: "env \<Rightarrow> uuid \<Rightarrow> uuid \<Rightarrow> string \<Rightarrow> walletRow" where
  "newWallet e rowID userID currency = \<lparr>wal_id = rowID, wal_user_id = userID, wal_currency = currency,
     wal_available_balance_minor = 0, wal_created_at = pgNow e, wal_updated_at = pgNow e\<rparr>"

definition EnsureWallet_q :: "uuid \<Rightarrow> uuid \<Rightarrow> string \<Rightarrow> walletRow query" where
  "EnsureWallet_q rowID userID currency = (\<lambda>e d.
     case filter (\<lambda>r. wal_user_id r = userID \<and> wal_currency r = currency) (wallets d) of
       w # _ \<Rightarrow> Inr (w, d)
     | [] \<Rightarrow> let r = newWallet e rowID userID currency in
         insertInto True (conflicts (\<lambda>x. Some (wal_id x)) (wallets d) r) (present u_id userID (users d))
           r (d\<lparr>wallets := wallets d @ [r]\<rparr>))"

section \<open>Ledger\<close>

definition CreateLedgerTransaction :: "uuid \<Rightarrow> string \<Rightarrow> pgtext \<Rightarrow> uuid option \<Rightarrow> pgtext \<Rightarrow> unit query" where
  "CreateLedgerTransaction rowID type refType refID description = (\<lambda>e d.
     let r = \<lparr>lt_id = rowID, lt_type = type, lt_reference_type = refType, lt_reference_id = refID,
        lt_description = description, lt_created_at = pgNow e\<rparr>
     in insertInto True (ledgerTxConflict (ledger_transactions d) r) True
          () (d\<lparr>ledger_transactions := ledger_transactions d @ [r]\<rparr>))"

record ledgerEntryParams =
  lep_id :: uuid
  lep_transaction_id :: uuid
  lep_account_type :: string
  lep_account_id :: uuid
  lep_direction :: string
  lep_amount_minor :: int
  lep_currency :: string

definition CreateLedgerEntry :: "ledgerEntryParams \<Rightarrow> unit query" where
  "CreateLedgerEntry a = (\<lambda>e d.
     let r = \<lparr>le_id = lep_id a, le_transaction_id = lep_transaction_id a, le_account_type = lep_account_type a,
        le_account_id = lep_account_id a, le_direction = lep_direction a, le_amount_minor = lep_amount_minor a,
        le_currency = lep_currency a, le_created_at = pgNow e\<rparr>
     in insertInto (lep_direction a \<in> {''debit'', ''credit''} \<and> lep_amount_minor a \<ge> 0)
          (conflicts (\<lambda>x. Some (le_id x)) (ledger_entries d) r)
          (present lt_id (lep_transaction_id a) (ledger_transactions d))
          () (d\<lparr>ledger_entries := ledger_entries d @ [r]\<rparr>))"

definition CountLedgerTransactionsByReference :: "string \<Rightarrow> string \<Rightarrow> uuid \<Rightarrow> nat query" where
  "CountLedgerTransactionsByReference type refType refID = (\<lambda>e d.
     Inr (length (filter (\<lambda>r. lt_type r = type \<and> lt_reference_type r = Some refType \<and> lt_reference_id r = Some refID)
       (ledger_transactions d)), d))"

section \<open>Outbox\<close>

definition newOutboxEvent :: "env \<Rightarrow> uuid \<Rightarrow> string \<Rightarrow> string \<Rightarrow> uuid \<Rightarrow> json \<Rightarrow> outboxRow" where
  "newOutboxEvent e rowID eventType aggregateType aggregateID payload = \<lparr>ob_id = rowID, ob_event_type = eventType,
     ob_aggregate_type = aggregateType, ob_aggregate_id = aggregateID, ob_payload = payload,
     ob_status = ''pending'', ob_attempts = 0, ob_next_attempt_at = pgNow e, ob_created_at = pgNow e,
     ob_published_at = None\<rparr>"

definition CreateOutboxEvent :: "uuid \<Rightarrow> string \<Rightarrow> string \<Rightarrow> uuid \<Rightarrow> json \<Rightarrow> unit query" where
  "CreateOutboxEvent rowID eventType aggregateType aggregateID payload = (\<lambda>e d.
     let r = newOutboxEvent e rowID eventType aggregateType aggregateID payload
     in insertInto True (conflicts (\<lambda>x. Some (ob_id x)) (outbox_events d) r) True
          () (d\<lparr>outbox_events := outbox_events d @ [r]\<rparr>))"

definition ClaimOutboxEvents :: "nat \<Rightarrow> outboxRow list query" where
  "ClaimOutboxEvents limit = selectMany (\<lambda>e d. take limit (filter (\<lambda>r. \<not> pgLocked e (ob_id r))
     (sort_key ob_created_at (filter (\<lambda>r. ob_status r = ''pending'' \<and> ob_next_attempt_at r \<le> pgNow e) (outbox_events d)))))"

definition MarkOutboxPublished :: "uuid \<Rightarrow> unit query" where
  "MarkOutboxPublished rowID = (\<lambda>e d. Inr ((), d\<lparr>outbox_events := sqlUpdate (\<lambda>r. ob_id r = rowID)
     (\<lambda>r. r\<lparr>ob_status := ''published'', ob_published_at := Some (pgNow e)\<rparr>) (outbox_events d)\<rparr>))"

text \<open>\<open>LEAST(300, (1 << LEAST(attempts, 8)))\<close> seconds.\<close>

definition outboxBackoff :: "int \<Rightarrow> duration" where
  "outboxBackoff attempts = min 300 (2 ^ nat (min attempts 8)) * second"

definition MarkOutboxRetry :: "uuid \<Rightarrow> unit query" where
  "MarkOutboxRetry rowID = (\<lambda>e d. Inr ((), d\<lparr>outbox_events := sqlUpdate (\<lambda>r. ob_id r = rowID)
     (\<lambda>r. r\<lparr>ob_attempts := ob_attempts r + 1,
            ob_next_attempt_at := pgNow e + outboxBackoff (ob_attempts r)\<rparr>) (outbox_events d)\<rparr>))"

lemmas commerce_queries =
  CreateOrder_q_def CreateOrderItem_def MarkOrderPaid_def CreateInvoice_def CreateInvoiceItem_def
  MarkInvoicePaid_def CreatePayment_def MarkPaymentSucceeded_def InsertWebhookReceipt_def
  MarkWebhookProcessed_def CreateLedgerTransaction_def CreateLedgerEntry_def CreateOutboxEvent_def
  MarkOutboxPublished_def MarkOutboxRetry_def

lemmas commerce_selects =
  ListActiveProductsAndPlans_def GetPlanForOrder_def GetOrderByUserIdempotency_def ListOrdersByUser_def
  ListInvoicesByUser_def GetPaymentByOrder_def LockPaymentOrderInvoice_def GetWebhookReceipt_def
  GetWalletByUserCurrency_def ClaimOutboxEvents_def

lemma readonly_commerce [keeps_intros]:
  "readonly ListActiveProductsAndPlans" "readonly (GetPlanForOrder a)" "readonly (GetOrderByUserIdempotency a b)"
  "readonly (ListOrdersByUser a)" "readonly (ListInvoicesByUser a)" "readonly (GetPaymentByOrder a)"
  "readonly (LockPaymentOrderInvoice a g)" "readonly (GetWebhookReceipt g ev)"
  "readonly (GetWalletByUserCurrency a c)" "readonly (ClaimOutboxEvents n)"
  by (simp_all add: commerce_selects readonly_select)

end
