(* ===== verification/Ledger.thy ===== *)
theory Ledger
  imports Commerce_Queries "HOL-Library.AList"
begin

text \<open>
  Double entry: the check \<open>validateBalanced\<close> of \<open>internal/commerce/repository.go\<close> with its 64-bit
  sums, the net of a ledger transaction in one currency, and the invariant that every stored
  transaction nets to zero.
\<close>

section \<open>validateBalanced\<close>

text \<open>The loop over the entries; \<open>balances\<close> is the Go map from currency to an \<open>int64\<close> sum.\<close>

fun sumEntries :: "(string \<times> int) list \<Rightarrow> ledgerEntryParams list \<Rightarrow> err + (string \<times> int) list" where
  "sumEntries balances [] = Inr balances"
| "sumEntries balances (a # as) =
    (let old = (case map_of balances (lep_currency a) of None \<Rightarrow> 0 | Some b \<Rightarrow> b) in
     if lep_amount_minor a < 0 then Inl (ErrOther ''ledger amount cannot be negative'')
     else if lep_direction a = ''debit''
       then sumEntries (AList.update (lep_currency a) (wrap64 (old + lep_amount_minor a)) balances) as
     else if lep_direction a = ''credit''
       then sumEntries (AList.update (lep_currency a) (wrap64 (old - lep_amount_minor a)) balances) as
     else Inl (ErrOther ''ledger direction is invalid''))"

definition validateBalanced :: "ledgerEntryParams list \<Rightarrow> err + unit" where
  "validateBalanced entries = (case sumEntries [] entries of
     Inl x \<Rightarrow> Inl x
   | Inr balances \<Rightarrow> (case filter (\<lambda>kb. snd kb \<noteq> 0) balances of
        [] \<Rightarrow> Inr () | kb # _ \<Rightarrow> Inl (ErrOther (''ledger is unbalanced for '' @ fst kb))))"

text \<open>The reference: debits minus credits in a currency, over the integers.\<close>

definition signedAmount :: "string \<Rightarrow> int \<Rightarrow> int" where
  "signedAmount direction amount = (if direction = ''debit'' then amount else - amount)"

definition netParams :: "string \<Rightarrow> ledgerEntryParams list \<Rightarrow> int" where
  "netParams cur as = sum_list (map (\<lambda>a. if lep_currency a = cur
     then signedAmount (lep_direction a) (lep_amount_minor a) else 0) as)"

definition entryWellFormed :: "ledgerEntryParams \<Rightarrow> bool" where
  "entryWellFormed a \<longleftrightarrow> lep_amount_minor a \<ge> 0 \<and> lep_direction a \<in> {''debit'', ''credit''}"

lemma wrap64_add: "wrap64 (wrap64 x + y) = wrap64 (x + y)"
proof -
  have "(wrap64 x + y + 9223372036854775808) mod 18446744073709551616 =
      ((x + 9223372036854775808) mod 18446744073709551616 + y) mod 18446744073709551616"
    by (simp add: wrap64_def)
  also have "\<dots> = (x + y + 9223372036854775808) mod 18446744073709551616"
    by (simp only: mod_add_left_eq) (simp add: ac_simps)
  finally show ?thesis by (simp only: wrap64_def)
qed

lemma wrap64_0 [simp]: "wrap64 0 = 0"
  by (simp add: wrap64_def)

lemma wrap64_diff: "wrap64 (wrap64 x - y) = wrap64 (x - y)"
  using wrap64_add[of x "- y"] by simp

lemma wrap64_eq_0: "wrap64 x = 0 \<longleftrightarrow> 18446744073709551616 dvd x"
  using mod_eq_dvd_iff[of "x + 9223372036854775808" 18446744073709551616 9223372036854775808]
  by (simp add: wrap64_def)

abbreviation balanceIn :: "(string \<times> int) list \<Rightarrow> string \<Rightarrow> int" where
  "balanceIn b c \<equiv> (case map_of b c of None \<Rightarrow> 0 | Some x \<Rightarrow> x)"

lemma sumEntries_ok:
  assumes "\<And>c. balanceIn b c = wrap64 (f c)" and "distinct (map fst b)"
  shows "(case sumEntries b as of
      Inl x \<Rightarrow> \<exists>a\<in>set as. \<not> entryWellFormed a
    | Inr b' \<Rightarrow> (\<forall>a\<in>set as. entryWellFormed a) \<and> distinct (map fst b') \<and>
        (\<forall>c. balanceIn b' c = wrap64 (f c + netParams c as)))"
  using assms
proof (induction as arbitrary: b f)
  case Nil
  then show ?case by (simp add: netParams_def)
next
  case (Cons a as)
  let ?c = "lep_currency a" and ?d = "signedAmount (lep_direction a) (lep_amount_minor a)"
  let ?b = "AList.update ?c (wrap64 (balanceIn b ?c + ?d)) b"
  show ?case
  proof (cases "entryWellFormed a")
    case True
    then have run: "sumEntries b (a # as) = sumEntries ?b as"
      by (auto simp: entryWellFormed_def signedAmount_def Let_def)
    have inv: "balanceIn ?b c = wrap64 (f c + (if c = ?c then ?d else 0))" for c
      using Cons.prems(1)[of c] Cons.prems(1)[of ?c] by (simp add: update_conv' wrap64_add)
    have net: "netParams c (a # as) = (if c = ?c then ?d else 0) + netParams c as" for c
      by (auto simp: netParams_def)
    have "distinct (map fst ?b)"
      using Cons.prems(2) by (simp add: distinct_update)
    with Cons.IH[of ?b "\<lambda>c. f c + (if c = ?c then ?d else 0)"] inv run net True show ?thesis
      by (auto split: sum.splits simp: add.assoc)
  next
    case False
    then have "sumEntries b (a # as) \<in> range Inl"
      by (auto simp: entryWellFormed_def Let_def)
    with False show ?thesis by auto
  qed
qed

lemma validateBalanced_iff:
  "validateBalanced as = Inr () \<longleftrightarrow>
     (\<forall>a\<in>set as. entryWellFormed a) \<and> (\<forall>c. 18446744073709551616 dvd netParams c as)"
proof (cases "sumEntries [] as")
  case (Inl x)
  with sumEntries_ok[of "[]" "\<lambda>_. 0" as] show ?thesis by (auto simp: validateBalanced_def)
next
  case (Inr b)
  with sumEntries_ok[of "[]" "\<lambda>_. 0" as]
  have wf: "\<forall>a\<in>set as. entryWellFormed a" and dist: "distinct (map fst b)"
    and bal: "\<And>c. balanceIn b c = wrap64 (netParams c as)" by auto
  have "(\<forall>kb\<in>set b. snd kb = 0) \<longleftrightarrow> (\<forall>c. balanceIn b c = 0)"
  proof
    assume "\<forall>c. balanceIn b c = 0"
    show "\<forall>kb\<in>set b. snd kb = 0"
    proof
      fix kb assume "kb \<in> set b"
      with dist have "map_of b (fst kb) = Some (snd kb)" by simp
      with \<open>\<forall>c. balanceIn b c = 0\<close>[rule_format, of "fst kb"] show "snd kb = 0" by simp
    qed
  qed (force split: option.splits dest!: map_of_SomeD)
  moreover have "validateBalanced as = Inr () \<longleftrightarrow> (\<forall>kb\<in>set b. snd kb = 0)"
    using Inr filter_empty_conv[of "\<lambda>kb. snd kb \<noteq> 0" b]
    by (cases "filter (\<lambda>kb. snd kb \<noteq> 0) b") (simp_all add: validateBalanced_def)
  ultimately show ?thesis using wf bal by (simp add: wrap64_eq_0)
qed

section \<open>Stored transactions\<close>

definition netOf :: "uuid \<Rightarrow> string \<Rightarrow> ledgerEntryRow list \<Rightarrow> int" where
  "netOf tx cur es = sum_list (map (\<lambda>r. if le_transaction_id r = tx \<and> le_currency r = cur
     then signedAmount (le_direction r) (le_amount_minor r) else 0) es)"

definition ledgerBalanced :: "db \<Rightarrow> bool" where
  "ledgerBalanced d \<longleftrightarrow>
     (\<forall>r\<in>set (ledger_entries d). present lt_id (le_transaction_id r) (ledger_transactions d)) \<and>
     (\<forall>t\<in>set (ledger_transactions d). \<forall>cur. netOf (lt_id t) cur (ledger_entries d) = 0)"

lemma netOf_append [simp]: "netOf tx cur (es @ fs) = netOf tx cur es + netOf tx cur fs"
  by (simp add: netOf_def)

lemma netOf_Nil [simp]: "netOf tx cur [] = 0"
  by (simp add: netOf_def)

lemma netOf_absent: "\<forall>r\<in>set es. le_transaction_id r \<noteq> tx \<Longrightarrow> netOf tx cur es = 0"
  by (induction es) (auto simp: netOf_def)

text \<open>
  Posting: a fresh transaction together with entries of its own that net to zero keeps the ledger
  balanced.
\<close>

lemma ledgerBalanced_post:
  assumes bal: "ledgerBalanced d"
    and tx: "ledger_transactions d' = ledger_transactions d @ [t]"
    and es: "ledger_entries d' = ledger_entries d @ es"
    and fresh: "\<not> present lt_id (lt_id t) (ledger_transactions d)"
    and own: "\<forall>r\<in>set es. le_transaction_id r = lt_id t"
    and net: "\<And>cur. netOf (lt_id t) cur es = 0"
  shows "ledgerBalanced d'"
proof -
  have none: "\<forall>r\<in>set (ledger_entries d). le_transaction_id r \<noteq> lt_id t"
    using bal fresh unfolding ledgerBalanced_def by metis
  have old: "netOf (lt_id x) cur es = 0" if "x \<in> set (ledger_transactions d)" for x cur
    using that fresh own by (intro netOf_absent) (auto simp: present_iff image_iff)
  from bal show ?thesis
    unfolding ledgerBalanced_def tx es
    using own old net none by (auto simp: present_iff netOf_absent)
qed

end
