(* ===== verification/Subscription_Queries.thy ===== *)
theory Subscription_Queries
  imports Store
begin

text \<open>
  The statements of \<open>internal/store/sqlc/subscription.sql.go\<close>.
\<close>

definition subscriptionCheck :: "subscriptionRow \<Rightarrow> bool" where
  "subscriptionCheck r \<longleftrightarrow>
     s_status r \<in> {''pending'', ''active'', ''past_due'', ''suspended'', ''cancelled'', ''expired'', ''terminated''} \<and>
     s_billing_cycle r \<in> {''monthly'', ''quarterly'', ''yearly''} \<and>
     ((s_source_order_id r = None \<and> s_source_item_index r = None) \<or>
      (s_source_order_id r \<noteq> None \<and> (case s_source_item_index r of None \<Rightarrow> False | Some n \<Rightarrow> n > 0)))"

text \<open>\<open>CASE billing_cycle WHEN \<dots> END\<close>, NULL for any other value.\<close>

definition cycleMonths :: "string \<Rightarrow> nat option" where
  "cycleMonths c = (if c = ''monthly'' then Some 1 else if c = ''quarterly'' then Some 3
     else if c = ''yearly'' then Some 12 else None)"

definition afterCycle :: "env \<Rightarrow> string \<Rightarrow> time \<Rightarrow> time option" where
  "afterCycle e c t = map_option (\<lambda>n. addMonths e n t) (cycleMonths c)"

record subscriptionListRow =
  sl_subscription :: subscriptionRow
  sl_plan_slug :: string
  sl_plan_name_i18n :: json

definition ListSubscriptionsByUser :: "uuid \<Rightarrow> subscriptionListRow list query" where
  "ListSubscriptionsByUser userID = selectMany (\<lambda>e d.
     sort_key (\<lambda>r. - s_created_at (sl_subscription r))
       [\<lparr>sl_subscription = s, sl_plan_slug = plan_slug q, sl_plan_name_i18n = plan_name_i18n q\<rparr>.
          s \<leftarrow> subscriptions d, s_user_id s = userID, q \<leftarrow> plans d, plan_id q = s_plan_id s])"

definition LockSubscriptionByUser :: "uuid \<Rightarrow> uuid \<Rightarrow> subscriptionRow query" where
  "LockSubscriptionByUser subID userID = selectOne (\<lambda>e d.
     filter (\<lambda>s. s_id s = subID \<and> s_user_id s = userID) (subscriptions d))"

definition LockSubscriptionByID :: "uuid \<Rightarrow> subscriptionRow query" where
  "LockSubscriptionByID subID = selectOne (\<lambda>e d. filter (\<lambda>s. s_id s = subID) (subscriptions d))"

definition SetSubscriptionCancelAtPeriodEnd :: "uuid \<Rightarrow> bool \<Rightarrow> subscriptionRow query" where
  "SetSubscriptionCancelAtPeriodEnd subID cancel = (\<lambda>e d.
     updateReturning (subscriptions d) (\<lambda>s. s_id s = subID)
       (\<lambda>s. s\<lparr>s_cancel_at_period_end := cancel, s_version := s_version s + 1, s_updated_at := pgNow e\<rparr>)
       subscriptionCheck (\<lambda>t. d\<lparr>subscriptions := t\<rparr>))"

definition lifecycleDue :: "time \<Rightarrow> subscriptionRow \<Rightarrow> bool" where
  "lifecycleDue now s \<longleftrightarrow>
     (s_status s = ''active'' \<and> (case s_current_period_end s of None \<Rightarrow> False | Some t \<Rightarrow> t \<le> now)) \<or>
     (s_status s = ''past_due'' \<and> (case s_grace_until s of None \<Rightarrow> False | Some t \<Rightarrow> t \<le> now))"

text \<open>\<open>ORDER BY COALESCE(grace_until, current_period_end), id\<close>: a due row has one of the two.\<close>

definition lifecycleKey :: "subscriptionRow \<Rightarrow> time" where
  "lifecycleKey s = (case s_grace_until s of Some t \<Rightarrow> t
     | None \<Rightarrow> (case s_current_period_end s of Some t \<Rightarrow> t | None \<Rightarrow> 0))"

definition ClaimSubscriptionsForLifecycle :: "time \<Rightarrow> nat \<Rightarrow> subscriptionRow list query" where
  "ClaimSubscriptionsForLifecycle now limit = selectMany (\<lambda>e d.
     take limit (filter (\<lambda>s. \<not> pgLocked e (s_id s))
       (sort_key lifecycleKey (sort_key s_id (filter (lifecycleDue now) (subscriptions d))))))"

definition UpdateSubscriptionLifecycle :: "uuid \<Rightarrow> string \<Rightarrow> time option \<Rightarrow> time option \<Rightarrow> int \<Rightarrow> subscriptionRow query" where
  "UpdateSubscriptionLifecycle subID status graceUntil endedAt version = (\<lambda>e d.
     updateReturning (subscriptions d) (\<lambda>s. s_id s = subID \<and> s_version s = version)
       (\<lambda>s. s\<lparr>s_status := status, s_grace_until := graceUntil, s_ended_at := endedAt,
              s_version := s_version s + 1, s_updated_at := pgNow e\<rparr>)
       subscriptionCheck (\<lambda>t. d\<lparr>subscriptions := t\<rparr>))"

text \<open>\<open>GREATEST(COALESCE(current_period_end, $2), $2)\<close>: where the paid period is added.\<close>

definition renewalBase :: "time \<Rightarrow> subscriptionRow \<Rightarrow> time" where
  "renewalBase now s = (case s_current_period_end s of None \<Rightarrow> now | Some t \<Rightarrow> max t now)"

definition renewSubscription :: "env \<Rightarrow> time \<Rightarrow> subscriptionRow \<Rightarrow> subscriptionRow" where
  "renewSubscription e now s = s\<lparr>s_status := ''active'',
     s_started_at := (case s_started_at s of None \<Rightarrow> Some now | Some t \<Rightarrow> Some t),
     s_current_period_start := (case s_current_period_end s of
         None \<Rightarrow> Some now
       | Some t \<Rightarrow> if t \<le> now then Some now else s_current_period_start s),
     s_current_period_end := afterCycle e (s_billing_cycle s) (renewalBase now s),
     s_next_due_at := afterCycle e (s_billing_cycle s) (renewalBase now s),
     s_grace_until := None, s_cancel_at_period_end := False, s_ended_at := None,
     s_version := s_version s + 1, s_updated_at := pgNow e\<rparr>"

definition RenewSubscriptionAfterPayment :: "uuid \<Rightarrow> time \<Rightarrow> subscriptionRow query" where
  "RenewSubscriptionAfterPayment subID now = (\<lambda>e d.
     updateReturning (subscriptions d) (\<lambda>s. s_id s = subID) (renewSubscription e now)
       subscriptionCheck (\<lambda>t. d\<lparr>subscriptions := t\<rparr>))"

record renewalRow =
  rn_subscription :: subscriptionRow
  rn_plan :: planRow
  rn_product :: productRow

definition GetSubscriptionForRenewal :: "uuid \<Rightarrow> uuid \<Rightarrow> renewalRow query" where
  "GetSubscriptionForRenewal subID userID = selectOne (\<lambda>e d.
     [\<lparr>rn_subscription = s, rn_plan = q, rn_product = p\<rparr>.
        s \<leftarrow> subscriptions d, s_id s = subID \<and> s_user_id s = userID,
        q \<leftarrow> plans d, plan_id q = s_plan_id s, p \<leftarrow> products d, prod_id p = plan_product_id q])"

lemma readonly_subscription [keeps_intros]:
  "readonly (ListSubscriptionsByUser a)" "readonly (LockSubscriptionByUser a b)" "readonly (LockSubscriptionByID a)"
  "readonly (ClaimSubscriptionsForLifecycle t n)" "readonly (GetSubscriptionForRenewal a b)"
  by (simp_all add: ListSubscriptionsByUser_def LockSubscriptionByUser_def LockSubscriptionByID_def
      ClaimSubscriptionsForLifecycle_def GetSubscriptionForRenewal_def readonly_select)

lemmas subscription_writes =
  SetSubscriptionCancelAtPeriodEnd_def UpdateSubscriptionLifecycle_def RenewSubscriptionAfterPayment_def

end
