(* ===== verification/Commerce.thy ===== *)
theory Commerce
  imports Ledger Subscription_Queries
begin

text \<open>
  \<open>internal/commerce\<close>: the catalogue, purchase and renewal orders with their idempotency keys,
  invoices, wallets, and the completion of a payment by a gateway callback, as the repository
  (\<open>repository.go\<close>) and the service in front of it (\<open>commerce.go\<close>, suffix \<open>_svc\<close>) run them.
\<close>

section \<open>Data\<close>

record CatalogItem =
  ci_ProductID :: uuid
  ci_ProductSlug :: string
  ci_ProductName :: json
  ci_Description :: json
  ci_PlanID :: uuid
  ci_PlanSlug :: string
  ci_PlanName :: json
  ci_CPUCores :: int
  ci_MemoryMB :: int
  ci_DiskGB :: int
  ci_TrafficGB :: "int option"
  ci_BandwidthMbps :: "int option"
  ci_IPv4Count :: int
  ci_IPv6Count :: int
  ci_NATPortCount :: int
  ci_Virtualization :: string
  ci_BillingCycle :: string
  ci_PriceMinor :: int
  ci_Currency :: string

record Order =
  Order_ID :: uuid
  Order_OrderNo :: string
  Order_Status :: string
  Order_TotalMinor :: int
  Order_Currency :: string
  Order_Kind :: string
  Order_PaymentID :: "uuid option"
  Order_PaymentStatus :: string
  Order_SubscriptionID :: "uuid option"

record Invoice =
  Invoice_ID :: uuid
  Invoice_InvoiceNo :: string
  Invoice_Status :: string
  Invoice_AmountMinor :: int
  Invoice_Currency :: string
  Invoice_DueAt :: time
  Invoice_SubscriptionID :: "uuid option"
  Invoice_OrderID :: "uuid option"

record Wallet =
  Wallet_ID :: uuid
  Wallet_Currency :: string
  Wallet_AvailableBalanceMinor :: int

record Webhook =
  EventID :: string
  PaymentID :: uuid
  ExternalPaymentID :: string
  WebhookStatus :: string
  AmountMinor :: int
  Currency :: string

record PaymentResult =
  pr_PaymentID :: uuid
  pr_OrderID :: uuid
  pr_Duplicate :: bool

definition fakeGateway :: string where "fakeGateway = ''fake''"

section \<open>Orders\<close>

text \<open>The first twenty hexadecimal digits of the identifier behind a prefix.\<close>

definition number :: "env \<Rightarrow> string \<Rightarrow> uuid \<Rightarrow> string" where
  "number e prefix rowID = prefix @ ''-'' @ take 20 (ToUpper (filter (\<lambda>c. c \<noteq> CHR ''-'') (uuidString e rowID)))"

definition ListCatalog :: "CatalogItem list io" where
  "ListCatalog = bnd (pool ListActiveProductsAndPlans) (\<lambda>rows. ret (map (\<lambda>row.
     \<lparr>ci_ProductID = prod_id (cat_product row), ci_ProductSlug = prod_slug (cat_product row),
      ci_ProductName = prod_name_i18n (cat_product row), ci_Description = prod_description_i18n (cat_product row),
      ci_PlanID = plan_id (cat_plan row), ci_PlanSlug = plan_slug (cat_plan row),
      ci_PlanName = plan_name_i18n (cat_plan row), ci_CPUCores = plan_cpu_cores (cat_plan row),
      ci_MemoryMB = plan_memory_mb (cat_plan row), ci_DiskGB = plan_disk_gb (cat_plan row),
      ci_TrafficGB = plan_traffic_gb (cat_plan row), ci_BandwidthMbps = plan_bandwidth_mbps (cat_plan row),
      ci_IPv4Count = plan_ipv4_count (cat_plan row), ci_IPv6Count = plan_ipv6_count (cat_plan row),
      ci_NATPortCount = plan_nat_port_count (cat_plan row), ci_Virtualization = plan_virtualization (cat_plan row),
      ci_BillingCycle = plan_billing_cycle (cat_plan row), ci_PriceMinor = plan_price_minor (cat_plan row),
      ci_Currency = plan_currency (cat_plan row)\<rparr>) rows))"

definition orderWithPayment :: "orderRow \<Rightarrow> Order io" where
  "orderWithPayment ordr = bnd (pool (GetPaymentByOrder (o_id ordr))) (\<lambda>payment. ret
     \<lparr>Order_ID = o_id ordr, Order_OrderNo = o_order_no ordr, Order_Status = o_status ordr,
      Order_TotalMinor = o_total_minor ordr, Order_Currency = o_currency ordr, Order_Kind = o_kind ordr,
      Order_PaymentID = Some (p_id payment), Order_PaymentStatus = p_status payment,
      Order_SubscriptionID = o_subscription_id ordr\<rparr>)"

text \<open>
  What an order is written from. Purchases and renewals run the same statements from
  \<open>queries.CreateOrder\<close> to \<open>queries.CreatePayment\<close>, with these values.
\<close>

record orderDraft =
  dr_UserID :: uuid
  dr_Key :: pgtext
  dr_Kind :: string
  dr_SubscriptionID :: "uuid option"
  dr_Quantity :: int
  dr_UnitPrice :: int
  dr_Total :: int
  dr_Currency :: string
  dr_ProductID :: uuid
  dr_PlanID :: uuid
  dr_ProductSnapshot :: json
  dr_PlanSnapshot :: json
  dr_Description :: json

text \<open>The statements after the order row: its item, the invoice with its line, the payment.\<close>

definition orderDetails :: "orderDraft \<Rightarrow> env \<Rightarrow> uuid \<Rightarrow> uuid \<Rightarrow> uuid \<Rightarrow> orderRow \<Rightarrow> Order option ending io" where
  "orderDetails dr e orderID invoiceID paymentID ordr =
    bnd newID (\<lambda>itemID.
    bnd (exec (CreateOrderItem itemID orderID (dr_ProductID dr) (dr_PlanID dr) (dr_Quantity dr)
        (dr_UnitPrice dr) (dr_Total dr) (dr_ProductSnapshot dr) (dr_PlanSnapshot dr))) (\<lambda>_.
    bnd (exec (CreateInvoice invoiceID (number e ''INV'' invoiceID) (dr_UserID dr) (dr_SubscriptionID dr)
        (Some orderID) (dr_Total dr) (dr_Currency dr) (goNow e + 30 * minute))) (\<lambda>invoice.
    bnd newID (\<lambda>invoiceItemID.
    bnd (exec (CreateInvoiceItem invoiceItemID (inv_id invoice) (dr_Description dr) (dr_Quantity dr)
        (dr_UnitPrice dr) (dr_Total dr))) (\<lambda>_.
    bnd (exec (CreatePayment paymentID (number e ''PAY'' paymentID) orderID fakeGateway (dr_Total dr)
        (dr_Currency dr) (''order:'' @ uuidString e orderID @ '':fake''))) (\<lambda>payment.
    ret (Commit (Some
      \<lparr>Order_ID = o_id ordr, Order_OrderNo = o_order_no ordr, Order_Status = o_status ordr,
       Order_TotalMinor = o_total_minor ordr, Order_Currency = o_currency ordr, Order_Kind = o_kind ordr,
       Order_PaymentID = Some (p_id payment), Order_PaymentStatus = p_status payment,
       Order_SubscriptionID = dr_SubscriptionID dr\<rparr>))))))))"

text \<open>\<open>None\<close> reports the unique violation after which the callers look for the winner of the race.\<close>

definition placeOrder :: "orderDraft \<Rightarrow> Order option ending io" where
  "placeOrder dr =
    bnd newID (\<lambda>orderID. bnd newID (\<lambda>invoiceID. bnd newID (\<lambda>paymentID. bnd (asks (\<lambda>e. e)) (\<lambda>e.
    bnd (attempt (exec (CreateOrder_q orderID (number e ''ORD'' orderID) (dr_UserID dr) (dr_Total dr)
        (dr_Currency dr) (dr_Key dr) (dr_Kind dr) (dr_SubscriptionID dr)))) (\<lambda>r. case r of
      Inl x \<Rightarrow> if isUniqueViolation x then ret (Rollback None) else raise x
    | Inr ordr \<Rightarrow> orderDetails dr e orderID invoiceID paymentID ordr)))))"

subsection \<open>Purchases\<close>

definition productSnapshot :: "env \<Rightarrow> productRow \<Rightarrow> json" where
  "productSnapshot e p = JObj [(''id'', JStr (uuidString e (prod_id p))), (''slug'', JStr (prod_slug p)),
     (''name_i18n'', prod_name_i18n p), (''description_i18n'', prod_description_i18n p)]"

definition planSnapshot :: "env \<Rightarrow> planRow \<Rightarrow> json" where
  "planSnapshot e q = JObj [(''id'', JStr (uuidString e (plan_id q))), (''slug'', JStr (plan_slug q)),
     (''name_i18n'', plan_name_i18n q), (''cpu_cores'', JDec (plan_cpu_cores q)), (''memory_mb'', JNum (plan_memory_mb q)),
     (''disk_gb'', JNum (plan_disk_gb q)), (''billing_cycle'', JStr (plan_billing_cycle q)),
     (''price_minor'', JNum (plan_price_minor q)), (''currency'', JStr (plan_currency q)),
     (''virtualization'', JStr (plan_virtualization q))]"

definition purchaseDraft :: "env \<Rightarrow> uuid \<Rightarrow> catalogRow \<Rightarrow> int \<Rightarrow> string \<Rightarrow> orderDraft" where
  "purchaseDraft e userID row quantity key = (let q = cat_plan row; p = cat_product row in
     \<lparr>dr_UserID = userID, dr_Key = Some key, dr_Kind = ''purchase'', dr_SubscriptionID = None,
      dr_Quantity = quantity, dr_UnitPrice = plan_price_minor q,
      dr_Total = wrap64 (plan_price_minor q * quantity), dr_Currency = plan_currency q,
      dr_ProductID = prod_id p, dr_PlanID = plan_id q, dr_ProductSnapshot = productSnapshot e p,
      dr_PlanSnapshot = planSnapshot e q, dr_Description = plan_name_i18n q\<rparr>)"

definition createOrderTx :: "uuid \<Rightarrow> uuid \<Rightarrow> int \<Rightarrow> string \<Rightarrow> Order option ending io" where
  "createOrderTx userID planID quantity key =
    bnd (orNoRows ErrPlanNotFound (exec (GetPlanForOrder planID))) (\<lambda>plan.
    if plan_price_minor (cat_plan plan) > 0 \<and> quantity > maxInt64 div plan_price_minor (cat_plan plan)
    then raise ErrInvalidQuantity
    else bnd (asks (\<lambda>e. e)) (\<lambda>e. placeOrder (purchaseDraft e userID plan quantity key)))"

definition existingPurchase :: "orderRow \<Rightarrow> Order io" where
  "existingPurchase existing =
    (if o_kind existing \<noteq> ''purchase'' \<or> o_subscription_id existing \<noteq> None then raise ErrIdempotencyConflict
     else orderWithPayment existing)"

definition CreateOrder :: "uuid \<Rightarrow> uuid \<Rightarrow> int \<Rightarrow> string \<Rightarrow> Order io" where
  "CreateOrder userID planID quantity idempotencyKey =
    bnd (attempt (pool (GetOrderByUserIdempotency userID (Some idempotencyKey)))) (\<lambda>found. case found of
      Inr existing \<Rightarrow> existingPurchase existing
    | Inl x \<Rightarrow> if x \<noteq> ErrNoRows then raise x else
        bnd others (\<lambda>_.
        bnd (in_tx (createOrderTx userID planID quantity idempotencyKey)) (\<lambda>placed. case placed of
          Some ordr \<Rightarrow> ret ordr
        | None \<Rightarrow> bnd (pool (GetOrderByUserIdempotency userID (Some idempotencyKey))) existingPurchase)))"

subsection \<open>Renewals\<close>

definition renewalSnapshot :: "env \<Rightarrow> renewalRow \<Rightarrow> json" where
  "renewalSnapshot e t = JObj [(''id'', JStr (uuidString e (plan_id (rn_plan t)))), (''slug'', JStr (plan_slug (rn_plan t))),
     (''name_i18n'', plan_name_i18n (rn_plan t)), (''billing_cycle'', JStr (s_billing_cycle (rn_subscription t))),
     (''price_minor'', JNum (s_price_minor (rn_subscription t))), (''currency'', JStr (s_currency (rn_subscription t)))]"

definition renewalDraft :: "env \<Rightarrow> uuid \<Rightarrow> uuid \<Rightarrow> renewalRow \<Rightarrow> string \<Rightarrow> orderDraft" where
  "renewalDraft e userID subscriptionID t key =
     \<lparr>dr_UserID = userID, dr_Key = Some key, dr_Kind = ''renewal'', dr_SubscriptionID = Some subscriptionID,
      dr_Quantity = 1, dr_UnitPrice = s_price_minor (rn_subscription t), dr_Total = s_price_minor (rn_subscription t),
      dr_Currency = s_currency (rn_subscription t), dr_ProductID = prod_id (rn_product t), dr_PlanID = plan_id (rn_plan t),
      dr_ProductSnapshot = productSnapshot e (rn_product t), dr_PlanSnapshot = renewalSnapshot e t,
      dr_Description = plan_name_i18n (rn_plan t)\<rparr>"

definition renewable :: "string \<Rightarrow> bool" where
  "renewable status \<longleftrightarrow> status = ''active'' \<or> status = ''past_due'' \<or> status = ''suspended''"

definition createRenewalTx :: "uuid \<Rightarrow> uuid \<Rightarrow> string \<Rightarrow> Order option ending io" where
  "createRenewalTx userID subscriptionID key =
    bnd (orNoRows ErrSubscriptionNotFound (exec (GetSubscriptionForRenewal subscriptionID userID))) (\<lambda>t.
    if \<not> renewable (s_status (rn_subscription t)) then raise ErrSubscriptionState
    else bnd (asks (\<lambda>e. e)) (\<lambda>e. placeOrder (renewalDraft e userID subscriptionID t key)))"

definition existingRenewal :: "uuid \<Rightarrow> orderRow \<Rightarrow> Order io" where
  "existingRenewal subscriptionID existing =
    (if o_kind existing \<noteq> ''renewal'' \<or> o_subscription_id existing \<noteq> Some subscriptionID
     then raise ErrIdempotencyConflict else orderWithPayment existing)"

definition CreateRenewalOrder :: "uuid \<Rightarrow> uuid \<Rightarrow> string \<Rightarrow> Order io" where
  "CreateRenewalOrder userID subscriptionID idempotencyKey =
    bnd (attempt (pool (GetOrderByUserIdempotency userID (Some idempotencyKey)))) (\<lambda>found. case found of
      Inr existing \<Rightarrow> existingRenewal subscriptionID existing
    | Inl x \<Rightarrow> if x \<noteq> ErrNoRows then raise x else
        bnd others (\<lambda>_.
        bnd (in_tx (createRenewalTx userID subscriptionID idempotencyKey)) (\<lambda>placed. case placed of
          Some ordr \<Rightarrow> ret ordr
        | None \<Rightarrow> bnd (pool (GetOrderByUserIdempotency userID (Some idempotencyKey))) (existingRenewal subscriptionID))))"

subsection \<open>Lists and wallets\<close>

definition ListOrders :: "uuid \<Rightarrow> Order list io" where
  "ListOrders userID = bnd (pool (ListOrdersByUser userID)) (\<lambda>rows. ret (map (\<lambda>row. let ordr = ol_order row in
     \<lparr>Order_ID = o_id ordr, Order_OrderNo = o_order_no ordr, Order_Status = o_status ordr,
      Order_TotalMinor = o_total_minor ordr, Order_Currency = o_currency ordr, Order_Kind = o_kind ordr,
      Order_PaymentID = map_option p_id (ol_payment row),
      Order_PaymentStatus = text_string (map_option p_status (ol_payment row)),
      Order_SubscriptionID = o_subscription_id ordr\<rparr>) rows))"

definition ListInvoices :: "uuid \<Rightarrow> Invoice list io" where
  "ListInvoices userID = bnd (pool (ListInvoicesByUser userID)) (\<lambda>rows. ret (map (\<lambda>r.
     \<lparr>Invoice_ID = inv_id r, Invoice_InvoiceNo = inv_invoice_no r, Invoice_Status = inv_status r,
      Invoice_AmountMinor = inv_amount_minor r, Invoice_Currency = inv_currency r, Invoice_DueAt = timeOf (inv_due_at r),
      Invoice_SubscriptionID = inv_subscription_id r, Invoice_OrderID = inv_order_id r\<rparr>) rows))"

definition EnsureWallet :: "uuid \<Rightarrow> string \<Rightarrow> Wallet io" where
  "EnsureWallet userID currency =
    (if length (ToUpper currency) \<noteq> 3 then raise ErrPaymentMismatch else
     bnd newID (\<lambda>rowID. bnd (pool (EnsureWallet_q rowID userID (ToUpper currency))) (\<lambda>row. ret
       \<lparr>Wallet_ID = wal_id row, Wallet_Currency = wal_currency row,
        Wallet_AvailableBalanceMinor = wal_available_balance_minor row\<rparr>)))"

section \<open>Completing a payment\<close>

definition lockPayment :: "Webhook \<Rightarrow> lockedRow io" where
  "lockPayment event = orNoRows ErrPaymentNotFound (exec (LockPaymentOrderInvoice (PaymentID event) fakeGateway))"

text \<open>The branch for a callback whose event is on record already: nothing is written.\<close>

definition replayWebhook :: "Webhook \<Rightarrow> json \<Rightarrow> PaymentResult ending io" where
  "replayWebhook event payload =
    bnd (exec (GetWebhookReceipt fakeGateway (EventID event))) (\<lambda>receipt.
    if \<not> equalJSON (rc_payload receipt) payload then raise ErrPaymentMismatch
    else bnd (lockPayment event) (\<lambda>locked. ret (Rollback
      \<lparr>pr_PaymentID = lk_payment_id locked, pr_OrderID = lk_order_id locked, pr_Duplicate = True\<rparr>)))"

definition renewLocked :: "lockedRow \<Rightarrow> subscriptionRow option io" where
  "renewLocked locked = (case lk_subscription_id locked of
     None \<Rightarrow> ret None
   | Some subID \<Rightarrow>
       bnd (orNoRows ErrSubscriptionNotFound (exec (LockSubscriptionByID subID))) (\<lambda>subscription.
       if \<not> renewable (s_status subscription) then raise ErrSubscriptionState
       else bnd (asks goNow) (\<lambda>now.
            bnd (exec (RenewSubscriptionAfterPayment (s_id subscription) now)) (\<lambda>renewed.
            ret (Some renewed)))))"

definition captureEntries :: "uuid \<Rightarrow> uuid \<Rightarrow> uuid \<Rightarrow> lockedRow \<Rightarrow> Webhook \<Rightarrow> ledgerEntryParams list" where
  "captureEntries transactionID id1 id2 locked event =
    [\<lparr>lep_id = id1, lep_transaction_id = transactionID, lep_account_type = ''gateway_cash'',
      lep_account_id = lk_payment_id locked, lep_direction = ''debit'', lep_amount_minor = AmountMinor event,
      lep_currency = lk_payment_currency locked\<rparr>,
     \<lparr>lep_id = id2, lep_transaction_id = transactionID, lep_account_type = ''accounts_receivable'',
      lep_account_id = lk_invoice_id locked, lep_direction = ''credit'', lep_amount_minor = AmountMinor event,
      lep_currency = lk_payment_currency locked\<rparr>]"

definition postCapture :: "lockedRow \<Rightarrow> Webhook \<Rightarrow> unit io" where
  "postCapture locked event =
    bnd newID (\<lambda>transactionID.
    bnd (exec (CreateLedgerTransaction transactionID ''payment_capture'' (text_of ''payment'')
        (Some (lk_payment_id locked)) (text_of ''External payment captured''))) (\<lambda>_.
    bnd newID (\<lambda>id1. bnd newID (\<lambda>id2.
    bnd (ofResult (validateBalanced (captureEntries transactionID id1 id2 locked event))) (\<lambda>_.
    forEach (\<lambda>a. exec (CreateLedgerEntry a)) (captureEntries transactionID id1 id2 locked event))))))"

definition paymentEvent :: "env \<Rightarrow> uuid \<Rightarrow> lockedRow \<Rightarrow> Webhook \<Rightarrow> json" where
  "paymentEvent e outboxID locked event =
    envelope e outboxID ''payment.succeeded.v1'' (goNow e) ''payment'' (lk_payment_id locked) (JObj
      [(''payment_id'', JStr (uuidString e (lk_payment_id locked))), (''order_id'', JStr (uuidString e (lk_order_id locked))),
       (''user_id'', JStr (uuidString e (lk_user_id locked))), (''amount_minor'', JNum (AmountMinor event)),
       (''currency'', JStr (lk_payment_currency locked))])"

definition renewalEvent :: "env \<Rightarrow> uuid \<Rightarrow> lockedRow \<Rightarrow> subscriptionRow \<Rightarrow> json" where
  "renewalEvent e renewalEventID locked s =
    envelope e renewalEventID ''subscription.renewed.v1'' (goNow e) ''subscription'' (s_id s) (JObj
      [(''subscription_id'', JStr (uuidString e (s_id s))), (''user_id'', JStr (uuidString e (s_user_id s))),
       (''payment_id'', JStr (uuidString e (lk_payment_id locked))),
       (''current_period_end'', JTime (timeOf (s_current_period_end s))), (''status'', JStr (s_status s)),
       (''version'', JNum (s_version s))])"

definition announceRenewal :: "lockedRow \<Rightarrow> subscriptionRow option \<Rightarrow> unit io" where
  "announceRenewal locked renewed = (case renewed of
     None \<Rightarrow> ret ()
   | Some s \<Rightarrow> bnd newID (\<lambda>renewalEventID. bnd (asks (\<lambda>e. renewalEvent e renewalEventID locked s)) (\<lambda>payload.
       exec (CreateOutboxEvent renewalEventID ''subscription.renewed.v1'' ''subscription'' (s_id s) payload))))"

text \<open>The branch that captures the money.\<close>

definition capturePayment :: "uuid \<Rightarrow> lockedRow \<Rightarrow> Webhook \<Rightarrow> json \<Rightarrow> PaymentResult ending io" where
  "capturePayment receiptID locked event payload =
    bnd (exec (MarkPaymentSucceeded (lk_payment_id locked) (text_of (ExternalPaymentID event)) payload)) (\<lambda>_.
    bnd (exec (MarkOrderPaid (lk_order_id locked))) (\<lambda>_.
    bnd (exec (MarkInvoicePaid (lk_invoice_id locked))) (\<lambda>_.
    bnd (renewLocked locked) (\<lambda>renewed.
    bnd (postCapture locked event) (\<lambda>_.
    bnd newID (\<lambda>outboxID.
    bnd (asks (\<lambda>e. paymentEvent e outboxID locked event)) (\<lambda>envel.
    bnd (exec (CreateOutboxEvent outboxID ''payment.succeeded.v1'' ''payment'' (lk_payment_id locked) envel)) (\<lambda>_.
    bnd (announceRenewal locked renewed) (\<lambda>_.
    bnd (exec (MarkWebhookProcessed receiptID)) (\<lambda>_.
    ret (Commit \<lparr>pr_PaymentID = lk_payment_id locked, pr_OrderID = lk_order_id locked, pr_Duplicate = False\<rparr>)))))))))))"

definition settleWebhook :: "uuid \<Rightarrow> Webhook \<Rightarrow> json \<Rightarrow> PaymentResult ending io" where
  "settleWebhook receiptID event payload =
    bnd (lockPayment event) (\<lambda>locked.
    if lk_payment_amount_minor locked \<noteq> AmountMinor event \<or> lk_payment_currency locked \<noteq> ToUpper (Currency event)
    then raise ErrPaymentMismatch
    else if lk_payment_status locked = ''succeeded'' then
      (if lk_gateway_payment_id locked \<noteq> Some (ExternalPaymentID event) then raise ErrPaymentMismatch
       else bnd (exec (MarkWebhookProcessed receiptID)) (\<lambda>_. ret (Commit
         \<lparr>pr_PaymentID = lk_payment_id locked, pr_OrderID = lk_order_id locked, pr_Duplicate = True\<rparr>)))
    else if lk_payment_status locked \<noteq> ''pending'' \<and> lk_payment_status locked \<noteq> ''processing''
    then raise ErrPaymentState
    else capturePayment receiptID locked event payload)"

definition completePaymentTx :: "Webhook \<Rightarrow> json \<Rightarrow> PaymentResult ending io" where
  "completePaymentTx event payload =
    bnd newID (\<lambda>rowID.
    bnd (attempt (exec (InsertWebhookReceipt rowID fakeGateway (EventID event) payload))) (\<lambda>r. case r of
      Inl x \<Rightarrow> if x = ErrNoRows then replayWebhook event payload else raise x
    | Inr receiptID \<Rightarrow> settleWebhook receiptID event payload))"

definition CompletePayment :: "Webhook \<Rightarrow> json \<Rightarrow> PaymentResult io" where
  "CompletePayment event payload = in_tx (completePaymentTx event payload)"

section \<open>The service\<close>

definition validKey :: "string \<Rightarrow> bool" where
  "validKey key \<longleftrightarrow> \<not> (length key < 8 \<or> length key > 255)"

definition CreateOrder_svc :: "uuid \<Rightarrow> uuid \<Rightarrow> int \<Rightarrow> string \<Rightarrow> Order io" where
  "CreateOrder_svc userID planID quantity key =
    (if quantity < 1 \<or> quantity > 100 then raise ErrInvalidQuantity
     else if \<not> validKey key then raise ErrInvalidIdempotency
     else CreateOrder userID planID quantity key)"

definition CreateRenewalOrder_svc :: "uuid \<Rightarrow> uuid \<Rightarrow> string \<Rightarrow> Order io" where
  "CreateRenewalOrder_svc userID subscriptionID key =
    (if \<not> validKey key then raise ErrInvalidIdempotency else CreateRenewalOrder userID subscriptionID key)"

definition Wallet_svc :: "uuid \<Rightarrow> string \<Rightarrow> Wallet io" where
  "Wallet_svc userID currency = EnsureWallet userID currency"

definition CompletePayment_svc :: "Webhook \<Rightarrow> json \<Rightarrow> PaymentResult io" where
  "CompletePayment_svc event payload =
    (if EventID event = '''' \<or> ExternalPaymentID event = '''' \<or> WebhookStatus event \<noteq> ''succeeded'' \<or>
        AmountMinor event < 0 \<or> length (Currency event) \<noteq> 3
     then raise ErrPaymentMismatch else CompletePayment event payload)"

end
