(* ===== verification/Payments.thy ===== *)
theory Payments
  imports Commerce
begin

text \<open>
  What the completion of a payment does to the tables, and the properties that follow: atomicity
  under driver faults, exactly one capture per payment, a balanced ledger, idempotent replays.
\<close>

section \<open>The effect of a capture\<close>

definition paidPayment :: "env \<Rightarrow> Webhook \<Rightarrow> json \<Rightarrow> paymentRow \<Rightarrow> paymentRow" where
  "paidPayment e event payload = (\<lambda>r. r\<lparr>p_status := ''succeeded'', p_gateway_payment_id := text_of (ExternalPaymentID event),
     p_gateway_payload := jsonb payload, p_paid_at := Some (pgNow e), p_updated_at := pgNow e\<rparr>)"

definition paidOrder :: "env \<Rightarrow> orderRow \<Rightarrow> orderRow" where
  "paidOrder e = (\<lambda>r. r\<lparr>o_status := ''paid'', o_paid_at := Some (pgNow e), o_updated_at := pgNow e\<rparr>)"

definition paidInvoice :: "env \<Rightarrow> invoiceRow \<Rightarrow> invoiceRow" where
  "paidInvoice e = (\<lambda>r. r\<lparr>inv_status := ''paid'', inv_paid_at := Some (pgNow e), inv_updated_at := pgNow e\<rparr>)"

definition captureTx :: "env \<Rightarrow> uuid \<Rightarrow> uuid \<Rightarrow> ledgerTxRow" where
  "captureTx e tx paymentID = \<lparr>lt_id = tx, lt_type = ''payment_capture'', lt_reference_type = Some ''payment'',
     lt_reference_id = Some paymentID, lt_description = Some ''External payment captured'', lt_created_at = pgNow e\<rparr>"

definition entryOf :: "env \<Rightarrow> ledgerEntryParams \<Rightarrow> ledgerEntryRow" where
  "entryOf e a = \<lparr>le_id = lep_id a, le_transaction_id = lep_transaction_id a, le_account_type = lep_account_type a,
     le_account_id = lep_account_id a, le_direction = lep_direction a, le_amount_minor = lep_amount_minor a,
     le_currency = lep_currency a, le_created_at = pgNow e\<rparr>"

definition renewedRows :: "env \<Rightarrow> lockedRow \<Rightarrow> subscriptionRow list \<Rightarrow> subscriptionRow list" where
  "renewedRows e locked t = (case lk_subscription_id locked of None \<Rightarrow> t
     | Some subID \<Rightarrow> sqlUpdate (\<lambda>s. s_id s = subID) (renewSubscription e (goNow e)) t)"

text \<open>The whole effect on the database: transaction and entry identifiers and the new events aside.\<close>

definition captureEffect :: "env \<Rightarrow> uuid \<Rightarrow> lockedRow \<Rightarrow> Webhook \<Rightarrow> json \<Rightarrow> uuid \<Rightarrow> uuid \<Rightarrow> uuid \<Rightarrow> outboxRow list \<Rightarrow> db \<Rightarrow> db" where
  "captureEffect e receiptID locked event payload tx id1 id2 news d = d\<lparr>
     payments := sqlUpdate (\<lambda>r. p_id r = lk_payment_id locked) (paidPayment e event payload) (payments d),
     orders := sqlUpdate (\<lambda>r. o_id r = lk_order_id locked) (paidOrder e) (orders d),
     invoices := sqlUpdate (\<lambda>r. inv_id r = lk_invoice_id locked) (paidInvoice e) (invoices d),
     subscriptions := renewedRows e locked (subscriptions d),
     ledger_transactions := ledger_transactions d @ [captureTx e tx (lk_payment_id locked)],
     ledger_entries := ledger_entries d @ map (entryOf e) (captureEntries tx id1 id2 locked event),
     outbox_events := outbox_events d @ news,
     receipts := sqlUpdate (\<lambda>r. rc_id r = receiptID) (\<lambda>r. r\<lparr>rc_processed_at := Some (pgNow e)\<rparr>) (receipts d)\<rparr>"

lemma postCapture_ok:
  assumes "postCapture locked event e w = (Inr u, w')"
  obtains tx id1 id2 where
    "wdb w' = (wdb w)\<lparr>ledger_transactions := ledger_transactions (wdb w) @ [captureTx e tx (lk_payment_id locked)],
       ledger_entries := ledger_entries (wdb w) @ map (entryOf e) (captureEntries tx id1 id2 locked event)\<rparr>"
    "\<not> ledgerTxConflict (ledger_transactions (wdb w)) (captureTx e tx (lk_payment_id locked))"
    "AmountMinor event \<ge> 0"
proof -
  from assms[unfolded postCapture_def] obtain tx id1 id2 w1 w2 w3 w4 w5 u1 u2 where
    n: "newID e w = (Inr tx, w1)"
    and t: "exec (CreateLedgerTransaction tx ''payment_capture'' (text_of ''payment'')
        (Some (lk_payment_id locked)) (text_of ''External payment captured'')) e w1 = (Inr u1, w2)"
    and ids: "newID e w2 = (Inr id1, w3)" "newID e w3 = (Inr id2, w4)"
    and v: "ofResult (validateBalanced (captureEntries tx id1 id2 locked event)) e w4 = (Inr u2, w5)"
    and f: "forEach (\<lambda>a. exec (CreateLedgerEntry a)) (captureEntries tx id1 id2 locked event) e w5 = (Inr u, w')"
    by (elim bndE) blast
  have "wdb w5 = (wdb w)\<lparr>ledger_transactions := ledger_transactions (wdb w) @ [captureTx e tx (lk_payment_id locked)]\<rparr>"
    and "\<not> ledgerTxConflict (ledger_transactions (wdb w)) (captureTx e tx (lk_payment_id locked))"
    using n t ids v by (auto simp: io_simps CreateLedgerTransaction_def text_of_def Let_def captureTx_def)
  moreover have "wdb w' = (wdb w5)\<lparr>ledger_entries := ledger_entries (wdb w5) @ map (entryOf e) (captureEntries tx id1 id2 locked event)\<rparr>"
    and "AmountMinor event \<ge> 0"
    using f by (auto simp: captureEntries_def io_simps CreateLedgerEntry_def Let_def entryOf_def)
  ultimately show ?thesis using that by simp
qed

lemma renewSubscription_fields [simp]:
  "s_id (renewSubscription e now s) = s_id s" "s_user_id (renewSubscription e now s) = s_user_id s"
  "s_status (renewSubscription e now s) = ''active''" "s_plan_id (renewSubscription e now s) = s_plan_id s"
  "s_billing_cycle (renewSubscription e now s) = s_billing_cycle s"
  "s_version (renewSubscription e now s) = s_version s + 1"
  by (simp_all add: renewSubscription_def)

lemma renewLocked_ok:
  assumes "renewLocked locked e w = (Inr r, w')"
  shows "wdb w' = (wdb w)\<lparr>subscriptions := renewedRows e locked (subscriptions (wdb w))\<rparr>"
    and "\<And>subID. lk_subscription_id locked = Some subID \<Longrightarrow> \<exists>s s'. s \<in> set (subscriptions (wdb w)) \<and> s_id s = subID \<and>
      renewable (s_status s) \<and> r = Some s' \<and> s_id s' = subID"
    and "lk_subscription_id locked = None \<Longrightarrow> r = None"
  using assms
  by (auto simp: renewLocked_def io_simps RenewSubscriptionAfterPayment_def LockSubscriptionByID_def renewedRows_def
      split: option.splits if_splits dest!: one_filter_Inr)

lemma announceRenewal_ok:
  assumes "announceRenewal locked renewed e w = (Inr u, w')"
  obtains news where "wdb w' = (wdb w)\<lparr>outbox_events := outbox_events (wdb w) @ news\<rparr>"
    "\<forall>r\<in>set news. ob_event_type r = ''subscription.renewed.v1'' \<and> ob_status r = ''pending''"
    "length news = (case renewed of None \<Rightarrow> 0 | Some _ \<Rightarrow> 1)"
    "\<And>s. renewed = Some s \<Longrightarrow> ob_aggregate_id (hd news) = s_id s"
proof (cases renewed)
  case None
  with assms that[of "[]"] show ?thesis by (simp add: announceRenewal_def io_simps)
next
  case (Some s)
  with assms obtain rowID payload where "wdb w' = (wdb w)\<lparr>outbox_events := outbox_events (wdb w) @
      [newOutboxEvent e rowID ''subscription.renewed.v1'' ''subscription'' (s_id s) payload]\<rparr>"
    by (auto simp: announceRenewal_def io_simps CreateOutboxEvent_def Let_def)
  with Some that show ?thesis by (simp add: newOutboxEvent_def)
qed

lemma capturePayment_ok:
  assumes "capturePayment receiptID locked event payload e w = (Inr r, w')"
  obtains tx id1 id2 outboxID news where
    "r = Commit \<lparr>pr_PaymentID = lk_payment_id locked, pr_OrderID = lk_order_id locked, pr_Duplicate = False\<rparr>"
    "wdb w' = captureEffect e receiptID locked event payload tx id1 id2
       (newOutboxEvent e outboxID ''payment.succeeded.v1'' ''payment'' (lk_payment_id locked)
          (paymentEvent e outboxID locked event) # news) (wdb w)"
    "\<not> ledgerTxConflict (ledger_transactions (wdb w)) (captureTx e tx (lk_payment_id locked))"
    "AmountMinor event \<ge> 0"
    "uniq paymentExternalKey (payments (wdb w'))"
    "length news = (case lk_subscription_id locked of None \<Rightarrow> 0 | Some _ \<Rightarrow> 1)"
    "\<forall>r\<in>set news. ob_event_type r = ''subscription.renewed.v1'' \<and> ob_status r = ''pending'' \<and>
       Some (ob_aggregate_id r) = lk_subscription_id locked"
    "\<And>subID. lk_subscription_id locked = Some subID \<Longrightarrow>
       \<exists>s\<in>set (subscriptions (wdb w)). s_id s = subID \<and> renewable (s_status s)"
proof -
  from assms[unfolded capturePayment_def] obtain u1 u2 u3 u4 u5 u6 u7 w1 w2 w3 w4 w5 w6 w6' w7 w8 w9 renewed outboxID envel where
    p: "exec (MarkPaymentSucceeded (lk_payment_id locked) (text_of (ExternalPaymentID event)) payload) e w = (Inr u1, w1)"
    and q: "exec (MarkOrderPaid (lk_order_id locked)) e w1 = (Inr u2, w2)"
    and i: "exec (MarkInvoicePaid (lk_invoice_id locked)) e w2 = (Inr u3, w3)"
    and ren: "renewLocked locked e w3 = (Inr renewed, w4)"
    and post: "postCapture locked event e w4 = (Inr u4, w5)"
    and n: "newID e w5 = (Inr outboxID, w6)"
    and en: "asks (\<lambda>e. paymentEvent e outboxID locked event) e w6 = (Inr envel, w6')"
    and out: "exec (CreateOutboxEvent outboxID ''payment.succeeded.v1'' ''payment'' (lk_payment_id locked) envel) e w6'
      = (Inr u5, w7)"
    and ann: "announceRenewal locked renewed e w7 = (Inr u6, w8)"
    and fin: "exec (MarkWebhookProcessed receiptID) e w8 = (Inr u7, w9)" "ret (Commit
      \<lparr>pr_PaymentID = lk_payment_id locked, pr_OrderID = lk_order_id locked, pr_Duplicate = False\<rparr>) e w9 = (Inr r, w')"
    by (elim bndE) blast
  have pay: "uniq paymentExternalKey (sqlUpdate (\<lambda>r. p_id r = lk_payment_id locked) (paidPayment e event payload) (payments (wdb w)))"
      "wdb w3 = (wdb w)\<lparr>payments := sqlUpdate (\<lambda>r. p_id r = lk_payment_id locked) (paidPayment e event payload) (payments (wdb w)),
        orders := sqlUpdate (\<lambda>r. o_id r = lk_order_id locked) (paidOrder e) (orders (wdb w)),
        invoices := sqlUpdate (\<lambda>r. inv_id r = lk_invoice_id locked) (paidInvoice e) (invoices (wdb w))\<rparr>"
    using p q i by (auto simp: io_simps MarkPaymentSucceeded_def MarkOrderPaid_def MarkInvoicePaid_def Let_def
        paidPayment_def paidOrder_def paidInvoice_def split: if_splits)
  have out: "wdb w7 = (wdb w5)\<lparr>outbox_events := outbox_events (wdb w5) @ [newOutboxEvent e outboxID
        ''payment.succeeded.v1'' ''payment'' (lk_payment_id locked) (paymentEvent e outboxID locked event)]\<rparr>"
    using n en out by (auto simp: io_simps CreateOutboxEvent_def Let_def)
  have fin: "wdb w' = (wdb w8)\<lparr>receipts := sqlUpdate (\<lambda>r. rc_id r = receiptID)
        (\<lambda>r. r\<lparr>rc_processed_at := Some (pgNow e)\<rparr>) (receipts (wdb w8))\<rparr>"
    and res: "r = Commit \<lparr>pr_PaymentID = lk_payment_id locked, pr_OrderID = lk_order_id locked, pr_Duplicate = False\<rparr>"
    using fin by (auto simp: io_simps MarkWebhookProcessed_def)
  from post obtain tx id1 id2 where
    tx: "wdb w5 = (wdb w4)\<lparr>ledger_transactions := ledger_transactions (wdb w4) @ [captureTx e tx (lk_payment_id locked)],
       ledger_entries := ledger_entries (wdb w4) @ map (entryOf e) (captureEntries tx id1 id2 locked event)\<rparr>"
    "\<not> ledgerTxConflict (ledger_transactions (wdb w4)) (captureTx e tx (lk_payment_id locked))"
    "AmountMinor event \<ge> 0"
    by (rule postCapture_ok)
  from ann obtain news where news: "wdb w8 = (wdb w7)\<lparr>outbox_events := outbox_events (wdb w7) @ news\<rparr>"
    "\<forall>r\<in>set news. ob_event_type r = ''subscription.renewed.v1'' \<and> ob_status r = ''pending''"
    "length news = (case renewed of None \<Rightarrow> 0 | Some _ \<Rightarrow> 1)"
    "\<And>s. renewed = Some s \<Longrightarrow> ob_aggregate_id (hd news) = s_id s"
    by (rule announceRenewal_ok) blast
  note sub = renewLocked_ok[OF ren]
  have len: "length news = (case lk_subscription_id locked of None \<Rightarrow> 0 | Some _ \<Rightarrow> 1)"
    using sub(2,3) news(3) by (cases "lk_subscription_id locked") auto
  have agg: "\<forall>r\<in>set news. Some (ob_aggregate_id r) = lk_subscription_id locked"
  proof
    fix r assume "r \<in> set news"
    with len obtain s where s: "lk_subscription_id locked = Some s" and r: "news = [r]"
      by (cases "lk_subscription_id locked") (auto simp: length_Suc_conv)
    with sub(2)[OF s] news(4) show "Some (ob_aggregate_id r) = lk_subscription_id locked" by auto
  qed
  have eff: "wdb w' = captureEffect e receiptID locked event payload tx id1 id2
       (newOutboxEvent e outboxID ''payment.succeeded.v1'' ''payment'' (lk_payment_id locked)
          (paymentEvent e outboxID locked event) # news) (wdb w)"
    by (simp add: fin news(1) out tx(1) sub(1) pay(2) captureEffect_def)
  show ?thesis
  proof (rule that[OF res eff])
    show "uniq paymentExternalKey (payments (wdb w'))" by (simp add: eff captureEffect_def pay(1))
    show "\<not> ledgerTxConflict (ledger_transactions (wdb w)) (captureTx e tx (lk_payment_id locked))"
      using tx(2) by (simp add: sub(1) pay(2))
    show "\<exists>s\<in>set (subscriptions (wdb w)). s_id s = subID \<and> renewable (s_status s)"
      if "lk_subscription_id locked = Some subID" for subID
      using sub(2)[OF that] by (auto simp: pay(2))
  qed (use tx(3) len agg news(2) in auto)
qed

section \<open>The three outcomes\<close>

definition newReceipt :: "env \<Rightarrow> uuid \<Rightarrow> Webhook \<Rightarrow> json \<Rightarrow> receiptRow" where
  "newReceipt e rowID event payload = \<lparr>rc_id = rowID, rc_gateway = fakeGateway, rc_external_event_id = EventID event,
     rc_payload = jsonb payload, rc_received_at = pgNow e, rc_processed_at = None\<rparr>"

definition lockedRows :: "db \<Rightarrow> uuid \<Rightarrow> lockedRow list" where
  "lockedRows d paymentID = [lockedOf p ordr i. p \<leftarrow> payments d, p_id p = paymentID \<and> p_gateway p = fakeGateway,
     ordr \<leftarrow> orders d, o_id ordr = p_order_id p, i \<leftarrow> invoices d, inv_order_id i = Some (o_id ordr)]"

lemma lockPayment_ok:
  "lockPayment event e w = (Inr locked, w') \<longleftrightarrow>
     faults e (wstmts w) = NoFault \<and> one (lockedRows (wdb w) (PaymentID event)) = Inr locked \<and> w' = tick w"
  by (auto simp: lockPayment_def io_simps LockPaymentOrderInvoice_def lockedRows_def cong: conj_cong)

lemma one_Inr_iff: "one xs = Inr x \<longleftrightarrow> (\<exists>ys. xs = x # ys)"
  by (cases xs) (auto simp: one_def)

lemma one_Inr_in: "one xs = Inr x \<Longrightarrow> x \<in> set xs"
  by (cases xs) (auto simp: one_def)

lemma lockedRowsE:
  assumes "one (lockedRows d pid) = Inr locked"
  obtains p ordr i where "p \<in> set (payments d)" "p_id p = pid" "p_gateway p = fakeGateway"
    "ordr \<in> set (orders d)" "o_id ordr = p_order_id p" "i \<in> set (invoices d)" "inv_order_id i = Some (o_id ordr)"
    "locked = lockedOf p ordr i"
  using one_Inr_in[OF assms] by (auto simp: lockedRows_def)

lemma lockedRows_receipts [simp]: "lockedRows (d\<lparr>receipts := t\<rparr>) pid = lockedRows d pid"
  by (simp add: lockedRows_def cong: if_cong)

text \<open>The receipt on record for an event carries this payload.\<close>

definition sameReceipt :: "db \<Rightarrow> Webhook \<Rightarrow> json \<Rightarrow> bool" where
  "sameReceipt d event payload \<longleftrightarrow>
    (case filter (\<lambda>r. rc_gateway r = fakeGateway \<and> rc_external_event_id r = EventID event) (receipts d) of
      [] \<Rightarrow> False | receipt # _ \<Rightarrow> equalJSON (rc_payload receipt) payload)"

abbreviation recorded :: "db \<Rightarrow> Webhook \<Rightarrow> bool" where
  "recorded d event \<equiv> \<exists>r\<in>set (receipts d). rc_gateway r = fakeGateway \<and> rc_external_event_id r = EventID event"

lemma InsertWebhookReceipt_ok:
  "InsertWebhookReceipt rowID fakeGateway (EventID event) payload e d = Inr (x, d') \<longleftrightarrow>
     \<not> recorded d event \<and> \<not> present rc_id rowID (receipts d) \<and> x = rowID \<and>
     d' = d\<lparr>receipts := receipts d @ [newReceipt e rowID event payload]\<rparr>"
  by (auto simp: InsertWebhookReceipt_def Let_def io_simps conflicts_def receiptKey_def list_ex_iff present_iff newReceipt_def
      split: if_splits)

lemma InsertWebhookReceipt_dup:
  "InsertWebhookReceipt rowID fakeGateway (EventID event) payload e d = Inl ErrNoRows \<longleftrightarrow> recorded d event"
  by (auto simp: InsertWebhookReceipt_def Let_def insertInto_def conflicts_def receiptKey_def list_ex_iff)

lemma completePaymentTx_cases:
  assumes "completePaymentTx event payload e w = (Inr r, w')"
  obtains
    (replay) locked where "recorded (wdb w) event" "sameReceipt (wdb w) event payload" "one (lockedRows (wdb w) (PaymentID event)) = Inr locked"
      "r = Rollback \<lparr>pr_PaymentID = lk_payment_id locked, pr_OrderID = lk_order_id locked, pr_Duplicate = True\<rparr>"
      "wdb w' = wdb w"
  | (settled) locked and w1 :: world and rowID where "\<not> recorded (wdb w) event" "\<not> present rc_id rowID (receipts (wdb w))"
      "wdb w1 = (wdb w)\<lparr>receipts := receipts (wdb w) @ [newReceipt e rowID event payload]\<rparr>"
      "one (lockedRows (wdb w) (PaymentID event)) = Inr locked"
      "lk_payment_amount_minor locked = AmountMinor event" "lk_payment_currency locked = ToUpper (Currency event)"
      "lk_payment_status locked = ''succeeded''" "lk_gateway_payment_id locked = Some (ExternalPaymentID event)"
      "r = Commit \<lparr>pr_PaymentID = lk_payment_id locked, pr_OrderID = lk_order_id locked, pr_Duplicate = True\<rparr>"
      "wdb w' = (wdb w1)\<lparr>receipts := sqlUpdate (\<lambda>r. rc_id r = rowID)
        (\<lambda>r. r\<lparr>rc_processed_at := Some (pgNow e)\<rparr>) (receipts (wdb w1))\<rparr>"
  | (capture) locked w1 rowID where "\<not> recorded (wdb w) event" "\<not> present rc_id rowID (receipts (wdb w))"
      "wdb w1 = (wdb w)\<lparr>receipts := receipts (wdb w) @ [newReceipt e rowID event payload]\<rparr>"
      "one (lockedRows (wdb w) (PaymentID event)) = Inr locked"
      "lk_payment_amount_minor locked = AmountMinor event" "lk_payment_currency locked = ToUpper (Currency event)"
      "lk_payment_status locked \<in> {''pending'', ''processing''}"
      "capturePayment rowID locked event payload e w1 = (Inr r, w')"
proof -
  from assms[unfolded completePaymentTx_def] obtain rowID res w0 w1 where
    n: "newID e w = (Inr rowID, w0)"
    and ins: "exec (InsertWebhookReceipt rowID fakeGateway (EventID event) payload) e w0 = (res, w1)"
    and rest: "(case res of Inl x \<Rightarrow> if x = ErrNoRows then replayWebhook event payload else raise x
      | Inr receiptID \<Rightarrow> settleWebhook receiptID event payload) e w1 = (Inr r, w')"
    by (elim bndE) (simp add: attempt_ok)
  have w0: "wdb w0 = wdb w" using n by (simp add: io_simps)
  show ?thesis
  proof (cases res)
    case (Inl x)
    with rest have x: "x = ErrNoRows" and rep: "replayWebhook event payload e w1 = (Inr r, w')"
      by (auto simp: raise_ok split: if_splits)
    from ins Inl x w0 have "recorded (wdb w) event" and w1: "wdb w1 = wdb w"
      by (auto simp: exec_def InsertWebhookReceipt_dup split: fault.splits sum.splits)
    with rep replay show ?thesis
      by (auto simp: replayWebhook_def io_simps GetWebhookReceipt_def lockPayment_ok sameReceipt_def one_Inr_iff split: if_splits)
  next
    case (Inr receiptID)
    with ins w0 have new: "\<not> recorded (wdb w) event" "\<not> present rc_id rowID (receipts (wdb w))" "receiptID = rowID"
      "wdb w1 = (wdb w)\<lparr>receipts := receipts (wdb w) @ [newReceipt e rowID event payload]\<rparr>"
      by (auto simp: io_simps InsertWebhookReceipt_ok)
    have "settleWebhook rowID event payload e w1 = (Inr r, w')" using rest Inr new(3) by simp
    then obtain locked where lock: "one (lockedRows (wdb w) (PaymentID event)) = Inr locked"
      and body: "(if lk_payment_amount_minor locked \<noteq> AmountMinor event \<or> lk_payment_currency locked \<noteq> ToUpper (Currency event)
        then raise ErrPaymentMismatch
        else if lk_payment_status locked = ''succeeded'' then
          (if lk_gateway_payment_id locked \<noteq> Some (ExternalPaymentID event) then raise ErrPaymentMismatch
           else bnd (exec (MarkWebhookProcessed rowID)) (\<lambda>_. ret (Commit
             \<lparr>pr_PaymentID = lk_payment_id locked, pr_OrderID = lk_order_id locked, pr_Duplicate = True\<rparr>)))
        else if lk_payment_status locked \<noteq> ''pending'' \<and> lk_payment_status locked \<noteq> ''processing''
        then raise ErrPaymentState
        else capturePayment rowID locked event payload) e (tick w1) = (Inr r, w')"
      unfolding settleWebhook_def by (elim bndE) (auto simp: lockPayment_ok new(4))
    then have amounts: "lk_payment_amount_minor locked = AmountMinor event"
      "lk_payment_currency locked = ToUpper (Currency event)"
      by (auto simp: raise_ok split: if_splits)
    have db: "wdb (tick w1) = (wdb w)\<lparr>receipts := receipts (wdb w) @ [newReceipt e rowID event payload]\<rparr>"
      using new(4) by simp
    show ?thesis
    proof (cases "lk_payment_status locked = ''succeeded''")
      case True
      with body amounts have "lk_gateway_payment_id locked = Some (ExternalPaymentID event)"
        and "bnd (exec (MarkWebhookProcessed rowID)) (\<lambda>_. ret (Commit
          \<lparr>pr_PaymentID = lk_payment_id locked, pr_OrderID = lk_order_id locked, pr_Duplicate = True\<rparr>)) e (tick w1) = (Inr r, w')"
        by (auto simp: raise_ok split: if_splits)
      with settled[OF new(1,2) db lock amounts True] show ?thesis
        by (auto simp: io_simps MarkWebhookProcessed_def)
    next
      case False
      with body amounts have "lk_payment_status locked \<in> {''pending'', ''processing''}"
        and "capturePayment rowID locked event payload e (tick w1) = (Inr r, w')"
        by (auto simp: raise_ok split: if_splits)
      with capture[OF new(1,2) db lock amounts] show ?thesis by blast
    qed
  qed
qed

end
