(* ===== verification/Billing.thy ===== *)
theory Billing
  imports Payments
begin

text \<open>
  The invariant of the money tables: every payment belongs to one order and one invoice of the same
  amount and currency, the three agree on whether the money arrived, and a payment has exactly one
  capture in the ledger when it succeeded and none before.
\<close>

section \<open>The invariant\<close>

definition orderPaid :: "string \<Rightarrow> bool" where
  "orderPaid status \<longleftrightarrow> status \<in> {''paid'', ''fulfilling'', ''fulfilled''}"

definition captureOf :: "uuid \<Rightarrow> ledgerTxRow \<Rightarrow> bool" where
  "captureOf paymentID t \<longleftrightarrow> lt_type t = ''payment_capture'' \<and> lt_reference_type t = Some ''payment'' \<and>
     lt_reference_id t = Some paymentID"

definition captures :: "db \<Rightarrow> uuid \<Rightarrow> nat" where
  "captures d paymentID = length (filter (captureOf paymentID) (ledger_transactions d))"

definition billed :: "db \<Rightarrow> paymentRow \<Rightarrow> orderRow \<Rightarrow> invoiceRow \<Rightarrow> bool" where
  "billed d p ordr i \<longleftrightarrow> p_order_id p = o_id ordr \<and> inv_order_id i = Some (o_id ordr) \<and>
     o_total_minor ordr = p_amount_minor p \<and> inv_amount_minor i = p_amount_minor p \<and>
     o_currency ordr = p_currency p \<and> inv_currency i = p_currency p \<and>
     inv_user_id i = o_user_id ordr \<and> inv_subscription_id i = o_subscription_id ordr \<and>
     (orderPaid (o_status ordr) \<longleftrightarrow> p_status p = ''succeeded'') \<and>
     (inv_status i = ''paid'' \<longleftrightarrow> p_status p = ''succeeded'') \<and>
     captures d (p_id p) = (if p_status p = ''succeeded'' then 1 else 0)"

definition billingKeys :: "db \<Rightarrow> bool" where
  "billingKeys d \<longleftrightarrow> distinct (map p_id (payments d)) \<and> distinct (map p_order_id (payments d)) \<and>
     distinct (map o_id (orders d)) \<and> distinct (map inv_id (invoices d)) \<and> uniq inv_order_id (invoices d) \<and>
     uniq orderUserKey (orders d)"

definition billingInv :: "db \<Rightarrow> bool" where
  "billingInv d \<longleftrightarrow> billingKeys d \<and>
     (\<forall>p\<in>set (payments d). \<exists>ordr\<in>set (orders d). \<exists>i\<in>set (invoices d). billed d p ordr i) \<and>
     (\<forall>t\<in>set (ledger_transactions d). \<forall>pid. captureOf pid t \<longrightarrow> present p_id pid (payments d)) \<and>
     (\<forall>ordr\<in>set (orders d). present p_order_id (o_id ordr) (payments d))"

text \<open>It only reads four tables.\<close>

definition sameMoney :: "db \<Rightarrow> db \<Rightarrow> bool" where
  "sameMoney d d' \<longleftrightarrow> payments d' = payments d \<and> orders d' = orders d \<and> invoices d' = invoices d \<and>
     ledger_transactions d' = ledger_transactions d"

lemma billingInv_same: "sameMoney d d' \<Longrightarrow> billingInv d' = billingInv d"
  by (simp add: sameMoney_def billingInv_def billingKeys_def billed_def captures_def)

lemma billed_locked:
  assumes inv: "billingInv d" and lock: "one (lockedRows d pid) = Inr locked"
  obtains p ordr i where "p \<in> set (payments d)" "ordr \<in> set (orders d)" "i \<in> set (invoices d)"
    "p_id p = pid" "billed d p ordr i" "locked = lockedOf p ordr i"
proof -
  from lock obtain p ordr i where r: "p \<in> set (payments d)" "p_id p = pid" "ordr \<in> set (orders d)"
    "o_id ordr = p_order_id p" "i \<in> set (invoices d)" "inv_order_id i = Some (o_id ordr)" "locked = lockedOf p ordr i"
    by (rule lockedRowsE)
  from inv r(1) obtain ordr' i' where r': "ordr' \<in> set (orders d)" "i' \<in> set (invoices d)" "billed d p ordr' i'"
    by (auto simp: billingInv_def)
  then have "o_id ordr' = o_id ordr" "inv_order_id i' = inv_order_id i" using r(4,6) by (auto simp: billed_def)
  moreover have "distinct (map o_id (orders d))" "uniq inv_order_id (invoices d)"
    using inv by (auto simp: billingInv_def billingKeys_def)
  ultimately have "ordr' = ordr" "i' = i"
    using r r' by (auto simp: distinct_map inj_on_def dest: uniqD)
  with r r' that show ?thesis by blast
qed

section \<open>Captures\<close>

lemma captures_captureTx:
  "captures (d\<lparr>ledger_transactions := ledger_transactions d @ [captureTx e tx pid]\<rparr>) q =
     captures d q + (if q = pid then 1 else 0)"
  by (auto simp: captures_def captureOf_def captureTx_def)

lemma billingInv_capture:
  assumes inv: "billingInv d" and lock: "one (lockedRows d pid) = Inr locked"
    and open_payment: "lk_payment_status locked \<noteq> ''succeeded''"
    and eff: "payments d' = sqlUpdate (\<lambda>r. p_id r = lk_payment_id locked) (paidPayment e event payload) (payments d)"
      "orders d' = sqlUpdate (\<lambda>r. o_id r = lk_order_id locked) (paidOrder e) (orders d)"
      "invoices d' = sqlUpdate (\<lambda>r. inv_id r = lk_invoice_id locked) (paidInvoice e) (invoices d)"
      "ledger_transactions d' = ledger_transactions d @ [captureTx e tx (lk_payment_id locked)]"
  shows "billingInv d'"
proof -
  from inv lock obtain p ordr i where r: "p \<in> set (payments d)" "ordr \<in> set (orders d)" "i \<in> set (invoices d)"
    "p_id p = pid" "billed d p ordr i" "locked = lockedOf p ordr i" by (rule billed_locked)
  have ids: "lk_payment_id locked = p_id p" "lk_order_id locked = o_id ordr" "lk_invoice_id locked = inv_id i"
    using r(5,6) by (auto simp: lockedOf_def billed_def)
  have keys: "billingKeys d" using inv by (simp add: billingInv_def)
  have cap: "captures d' q = captures d q + (if q = p_id p then 1 else 0)" for q
    using captures_captureTx[of d e tx "p_id p" q] eff(4) ids by (simp add: captures_def)
  have keys': "billingKeys d'"
    using keys by (simp add: billingKeys_def eff map_sqlUpdate paidPayment_def paidOrder_def paidInvoice_def uniq_sqlUpdate
        orderUserKey_def)
  have rows: "\<exists>ordr'\<in>set (orders d'). \<exists>i'\<in>set (invoices d'). billed d' x ordr' i'" if x: "x \<in> set (payments d')" for x
  proof (cases "p_id x = p_id p")
    case True
    with x eff(1) ids keys r(1) have "x = paidPayment e event payload p"
      by (auto simp: set_sqlUpdate paidPayment_def billingKeys_def distinct_map inj_on_def)
    moreover have "billed d' (paidPayment e event payload p) (paidOrder e ordr) (paidInvoice e i)"
      using r(5) open_payment r(6)
      by (auto simp: billed_def paidPayment_def paidOrder_def paidInvoice_def cap orderPaid_def lockedOf_def)
    ultimately show ?thesis using r(2,3) ids by (auto simp: eff set_sqlUpdate)
  next
    case False
    with x eff(1) ids have x: "x \<in> set (payments d)" by (auto simp: set_sqlUpdate paidPayment_def)
    with inv obtain o' i' where q: "o' \<in> set (orders d)" "i' \<in> set (invoices d)" "billed d x o' i'"
      by (auto simp: billingInv_def)
    have "p_order_id x \<noteq> p_order_id p"
      using x r(1) False keys by (auto simp: billingKeys_def distinct_map inj_on_def)
    with q(3) r(5) have "o_id o' \<noteq> o_id ordr" "inv_order_id i' \<noteq> inv_order_id i" by (auto simp: billed_def)
    moreover from this have "inv_id i' \<noteq> inv_id i"
      using q(2) r(3) keys by (auto simp: billingKeys_def distinct_map inj_on_def)
    ultimately have "o' \<in> set (orders d')" "i' \<in> set (invoices d')"
      using q ids by (auto simp: eff set_sqlUpdate)
    moreover have "billed d' x o' i'" using q(3) False by (simp add: billed_def cap)
    ultimately show ?thesis by blast
  qed
  have refs: "present p_id q (payments d')" if "t \<in> set (ledger_transactions d')" "captureOf q t" for t q
  proof -
    have "present p_id (lk_payment_id locked) (payments d)" using r(1) ids by (metis image_eqI present_iff)
    then have "present p_id q (payments d)"
      using that inv by (auto simp: eff billingInv_def captureOf_def captureTx_def)
    then show ?thesis by (simp add: eff present_sqlUpdate paidPayment_def)
  qed
  have "present p_order_id (o_id x) (payments d')" if "x \<in> set (orders d')" for x
    using inv that by (auto simp: eff billingInv_def present_sqlUpdate paidPayment_def paidOrder_def elim!: in_sqlUpdateE)
  with keys' rows refs show ?thesis by (auto simp: billingInv_def)
qed

lemma completePaymentTx_billing:
  assumes inv: "billingInv (wdb w)" and run: "completePaymentTx event payload e w = (Inr r, w')"
  shows "billingInv (wdb w')"
  using run
proof (cases rule: completePaymentTx_cases)
  case replay
  with inv show ?thesis by simp
next
  case (settled locked w1 rowID)
  then have "sameMoney (wdb w) (wdb w')" by (simp add: sameMoney_def)
  with inv show ?thesis by (simp add: billingInv_same)
next
  case (capture locked w1 rowID)
  have inv1: "billingInv (wdb w1)"
    using inv capture(3) by (subst billingInv_same[of "wdb w"]) (simp_all add: sameMoney_def)
  have lock1: "one (lockedRows (wdb w1) (PaymentID event)) = Inr locked"
    using capture(3,4) by simp
  have pending: "lk_payment_status locked \<noteq> ''succeeded''" using capture(7) by auto
  from capture(8) obtain tx id1 id2 news where
    "wdb w' = captureEffect e rowID locked event payload tx id1 id2 news (wdb w1)" by (rule capturePayment_ok)
  then show ?thesis
    by (intro billingInv_capture[OF inv1 lock1 pending]) (simp_all add: captureEffect_def)
qed

lemma keeps_billing_payment [keeps_intros]: "keeps billingInv (CompletePayment event payload)"
  unfolding CompletePayment_def by (rule keeps_in_tx_commit) (rule completePaymentTx_billing)

section \<open>The ledger stays balanced\<close>

lemma netOf_entries: "netOf tx cur (map (entryOf e) (captureEntries tx id1 id2 locked event)) = 0"
  by (simp add: netOf_def captureEntries_def entryOf_def signedAmount_def)

lemma completePaymentTx_balanced:
  assumes inv: "ledgerBalanced (wdb w)" and run: "completePaymentTx event payload e w = (Inr r, w')"
  shows "ledgerBalanced (wdb w')"
  using run
proof (cases rule: completePaymentTx_cases)
  case replay
  with inv show ?thesis by simp
next
  case (settled locked w1 rowID)
  with inv show ?thesis by (simp add: ledgerBalanced_def)
next
  case (capture locked w1 rowID)
  from capture(8) obtain tx id1 id2 news where
    eff: "wdb w' = captureEffect e rowID locked event payload tx id1 id2 news (wdb w1)"
    and new: "\<not> ledgerTxConflict (ledger_transactions (wdb w1)) (captureTx e tx (lk_payment_id locked))"
    by (rule capturePayment_ok)
  have w1: "ledger_transactions (wdb w1) = ledger_transactions (wdb w)" "ledger_entries (wdb w1) = ledger_entries (wdb w)"
    by (simp_all add: capture(3))
  show ?thesis
  proof (rule ledgerBalanced_post[OF inv])
    show "ledger_transactions (wdb w') = ledger_transactions (wdb w) @ [captureTx e tx (lk_payment_id locked)]"
      "ledger_entries (wdb w') = ledger_entries (wdb w) @ map (entryOf e) (captureEntries tx id1 id2 locked event)"
      by (simp_all add: eff captureEffect_def w1)
    show "\<not> present lt_id (lt_id (captureTx e tx (lk_payment_id locked))) (ledger_transactions (wdb w))"
      using new by (auto simp: w1 ledgerTxConflict_def conflicts_def list_ex_iff present_iff)
  qed (auto simp: captureEntries_def entryOf_def captureTx_def netOf_def signedAmount_def)
qed

lemma keeps_balanced_payment [keeps_intros]: "keeps ledgerBalanced (CompletePayment event payload)"
  unfolding CompletePayment_def by (rule keeps_in_tx_commit) (rule completePaymentTx_balanced)

end
