(* ===== verification/Operation_Queries.thy ===== *)
theory Operation_Queries
  imports Commerce_Queries
begin

text \<open>
  The statements of \<open>internal/store/sqlc/operation.sql.go\<close>, and the two statements that
  \<open>internal/operation/repository.go\<close> writes out itself to recover operations of dead workers.
\<close>

definition operationStatuses :: "string list" where
  "operationStatuses = [''queued'', ''running'', ''waiting_provider'', ''waiting_resource'', ''verifying'', ''retrying'',
     ''succeeded'', ''failed'', ''cancelled'']"

definition operationCheck :: "operationRow \<Rightarrow> bool" where
  "operationCheck r \<longleftrightarrow> op_status r \<in> set operationStatuses \<and> 0 \<le> op_progress r \<and> op_progress r \<le> 100"

definition stepCheck :: "stepRow \<Rightarrow> bool" where
  "stepCheck r \<longleftrightarrow> st_status r \<in> {''pending'', ''running'', ''waiting'', ''succeeded'', ''failed'', ''skipped''} \<and>
     0 \<le> st_progress r \<and> st_progress r \<le> 100"

definition terminal :: "string \<Rightarrow> bool" where
  "terminal status \<longleftrightarrow> status \<in> {''succeeded'', ''failed'', ''cancelled''}"

text \<open>The partial index \<open>ux_operations_active_instance_action\<close>: one unfinished power action per instance.\<close>

definition activeAction :: "operationRow \<Rightarrow> uuid option" where
  "activeAction r = (if op_resource_type r = ''instance'' \<and> op_type r \<in> {''start'', ''stop'', ''restart'', ''reinstall''} \<and>
      op_status r \<in> set operationStatuses \<and> \<not> terminal (op_status r) then Some (op_resource_id r) else None)"

definition operationConflict :: "operationRow list \<Rightarrow> operationRow \<Rightarrow> bool" where
  "operationConflict t r \<longleftrightarrow> conflicts (\<lambda>x. Some (op_id x)) t r \<or> conflicts (\<lambda>x. Some (op_idempotency_key x)) t r \<or>
     conflicts activeAction t r"

definition stepConflict :: "stepRow list \<Rightarrow> stepRow \<Rightarrow> bool" where
  "stepConflict t r \<longleftrightarrow> conflicts (\<lambda>x. Some (st_id x)) t r \<or> conflicts (\<lambda>x. Some (st_operation_id x, st_step_key x)) t r"

definition inProgress :: "string \<Rightarrow> bool" where
  "inProgress status \<longleftrightarrow> status \<in> {''running'', ''waiting_provider'', ''waiting_resource'', ''verifying''}"

definition newOperation :: "env \<Rightarrow> uuid \<Rightarrow> string \<Rightarrow> string \<Rightarrow> uuid \<Rightarrow> pgtext \<Rightarrow> string \<Rightarrow> int \<Rightarrow> string \<Rightarrow> uuid option \<Rightarrow> uuid option \<Rightarrow> operationRow" where
  "newOperation e rowID type resourceType resourceID messageKey key maxRetries traceID userID adminID =
    \<lparr>op_id = rowID, op_type = type, op_resource_type = resourceType, op_resource_id = resourceID, op_status = ''queued'',
     op_phase = Some ''queued'', op_progress = 0, op_message_key = messageKey, op_provider_id = None,
     op_provider_operation_id = None, op_idempotency_key = key, op_retryable = False, op_retry_count = 0,
     op_max_retries = maxRetries, op_error_code = None, op_error_message = None, op_trace_id = traceID,
     op_started_at = None, op_finished_at = None, op_created_at = pgNow e, op_updated_at = pgNow e, op_user_id = userID,
     op_actor_admin_id = adminID, op_next_attempt_at = pgNow e, op_heartbeat_at = None\<rparr>"

definition CreateOperation :: "uuid \<Rightarrow> string \<Rightarrow> string \<Rightarrow> uuid \<Rightarrow> pgtext \<Rightarrow> string \<Rightarrow> int \<Rightarrow> string \<Rightarrow> uuid option \<Rightarrow> uuid option \<Rightarrow> operationRow query" where
  "CreateOperation rowID type resourceType resourceID messageKey key maxRetries traceID userID adminID = (\<lambda>e d.
     let r = newOperation e rowID type resourceType resourceID messageKey key maxRetries traceID userID adminID
     in insertInto (operationCheck r) (operationConflict (operations d) r)
          (presentOpt u_id userID (users d) \<and> presentOpt ad_id adminID (admins d))
          r (d\<lparr>operations := operations d @ [r]\<rparr>))"

definition CreateOperationStep :: "uuid \<Rightarrow> uuid \<Rightarrow> string \<Rightarrow> int \<Rightarrow> stepRow query" where
  "CreateOperationStep rowID operationID stepKey stepOrder = (\<lambda>e d.
     let r = \<lparr>st_id = rowID, st_operation_id = operationID, st_step_key = stepKey, st_step_order = stepOrder,
        st_status = ''pending'', st_progress = 0, st_attempt = 0, st_error_code = None, st_error_message = None,
        st_started_at = None, st_finished_at = None, st_created_at = pgNow e, st_updated_at = pgNow e, st_output = JObj []\<rparr>
     in insertInto (stepCheck r) (stepConflict (operation_steps d) r) (present op_id operationID (operations d))
          r (d\<lparr>operation_steps := operation_steps d @ [r]\<rparr>))"

definition GetOperationByID :: "uuid \<Rightarrow> operationRow query" where
  "GetOperationByID operationID = selectOne (\<lambda>e d. filter (\<lambda>r. op_id r = operationID) (operations d))"

definition GetOperationByIdempotency :: "string \<Rightarrow> operationRow query" where
  "GetOperationByIdempotency key = selectOne (\<lambda>e d. filter (\<lambda>r. op_idempotency_key r = key) (operations d))"

definition GetOperationForUser :: "uuid \<Rightarrow> uuid \<Rightarrow> operationRow query" where
  "GetOperationForUser operationID userID = selectOne (\<lambda>e d.
     filter (\<lambda>r. op_id r = operationID \<and> op_user_id r = Some userID) (operations d))"

definition ListOperationSteps :: "uuid \<Rightarrow> stepRow list query" where
  "ListOperationSteps operationID = selectMany (\<lambda>e d.
     sort_key (\<lambda>r. (st_step_order r, st_id r)) (filter (\<lambda>r. st_operation_id r = operationID) (operation_steps d)))"

definition ClaimOperation :: "uuid \<Rightarrow> operationRow query" where
  "ClaimOperation operationID = (\<lambda>e d. updateReturning (operations d)
     (\<lambda>r. op_id r = operationID \<and> op_status r = ''queued'' \<and> op_next_attempt_at r \<le> pgNow e)
     (\<lambda>r. r\<lparr>op_status := ''running'', op_phase := (case op_phase r of None \<Rightarrow> Some ''starting'' | Some p \<Rightarrow> Some p),
            op_started_at := (case op_started_at r of None \<Rightarrow> Some (pgNow e) | Some t \<Rightarrow> Some t),
            op_heartbeat_at := Some (pgNow e), op_updated_at := pgNow e\<rparr>)
     operationCheck (\<lambda>t. d\<lparr>operations := t\<rparr>))"

definition UpdateOperationProgress :: "uuid \<Rightarrow> string \<Rightarrow> pgtext \<Rightarrow> int \<Rightarrow> pgtext \<Rightarrow> operationRow query" where
  "UpdateOperationProgress operationID status phase progress messageKey = (\<lambda>e d. updateReturning (operations d)
     (\<lambda>r. op_id r = operationID \<and> \<not> terminal (op_status r))
     (\<lambda>r. r\<lparr>op_status := status, op_phase := phase, op_progress := progress, op_message_key := messageKey,
            op_heartbeat_at := Some (pgNow e), op_updated_at := pgNow e\<rparr>)
     operationCheck (\<lambda>t. d\<lparr>operations := t\<rparr>))"

definition UpdateOperationStep :: "uuid \<Rightarrow> string \<Rightarrow> int \<Rightarrow> int \<Rightarrow> pgtext \<Rightarrow> pgtext \<Rightarrow> json \<Rightarrow> string \<Rightarrow> stepRow query" where
  "UpdateOperationStep operationID status progress attempts errorCode errorMessage out stepKey = (\<lambda>e d.
     updateReturning (operation_steps d) (\<lambda>r. st_operation_id r = operationID \<and> st_step_key r = stepKey)
     (\<lambda>r. r\<lparr>st_status := status, st_progress := progress, st_attempt := attempts, st_error_code := errorCode,
            st_error_message := errorMessage, st_output := jsonb out,
            st_started_at := (case st_started_at r of Some t \<Rightarrow> Some t
              | None \<Rightarrow> if status = ''running'' then Some (pgNow e) else None),
            st_finished_at := (if status \<in> {''succeeded'', ''failed'', ''skipped''} then Some (pgNow e) else st_finished_at r),
            st_updated_at := pgNow e\<rparr>)
     stepCheck (\<lambda>t. d\<lparr>operation_steps := t\<rparr>))"

definition CompleteOperation :: "uuid \<Rightarrow> string \<Rightarrow> pgtext \<Rightarrow> int \<Rightarrow> pgtext \<Rightarrow> pgtext \<Rightarrow> pgtext \<Rightarrow> operationRow query" where
  "CompleteOperation operationID status phase progress messageKey errorCode errorMessage = (\<lambda>e d.
     updateReturning (operations d) (\<lambda>r. op_id r = operationID \<and> \<not> terminal (op_status r))
     (\<lambda>r. r\<lparr>op_status := status, op_phase := phase, op_progress := progress, op_message_key := messageKey,
            op_retryable := False, op_error_code := errorCode, op_error_message := errorMessage,
            op_heartbeat_at := Some (pgNow e), op_finished_at := Some (pgNow e), op_updated_at := pgNow e\<rparr>)
     operationCheck (\<lambda>t. d\<lparr>operations := t\<rparr>))"

definition ScheduleOperationRetry :: "uuid \<Rightarrow> pgtext \<Rightarrow> pgtext \<Rightarrow> pgtext \<Rightarrow> time \<Rightarrow> operationRow query" where
  "ScheduleOperationRetry operationID errorCode errorMessage messageKey next = (\<lambda>e d.
     updateReturning (operations d) (\<lambda>r. op_id r = operationID \<and> \<not> terminal (op_status r))
     (\<lambda>r. r\<lparr>op_status := ''retrying'', op_phase := Some ''retrying'', op_retryable := True,
            op_retry_count := op_retry_count r + 1, op_error_code := errorCode, op_error_message := errorMessage,
            op_message_key := messageKey, op_next_attempt_at := next, op_heartbeat_at := Some (pgNow e),
            op_updated_at := pgNow e\<rparr>)
     operationCheck (\<lambda>t. d\<lparr>operations := t\<rparr>))"

definition ClaimDueOperationRetries :: "nat \<Rightarrow> operationRow list query" where
  "ClaimDueOperationRetries limit = selectMany (\<lambda>e d. take limit (filter (\<lambda>r. \<not> pgLocked e (op_id r))
     (sort_key (\<lambda>r. (op_next_attempt_at r, op_created_at r))
       (filter (\<lambda>r. op_status r = ''retrying'' \<and> op_next_attempt_at r \<le> pgNow e) (operations d)))))"

definition RequeueOperation :: "uuid \<Rightarrow> operationRow query" where
  "RequeueOperation operationID = (\<lambda>e d.
     updateReturning (operations d) (\<lambda>r. op_id r = operationID \<and> op_status r = ''retrying'')
     (\<lambda>r. r\<lparr>op_status := ''queued'', op_phase := Some ''queued'', op_progress := 0,
            op_message_key := Some ''operation.queued'', op_retryable := False, op_heartbeat_at := None,
            op_updated_at := pgNow e\<rparr>)
     operationCheck (\<lambda>t. d\<lparr>operations := t\<rparr>))"

section \<open>Recovery\<close>

definition selectStuck :: "time \<Rightarrow> nat \<Rightarrow> uuid list query" where
  "selectStuck cutoff limit = selectMany (\<lambda>e d. map op_id (take limit (filter (\<lambda>r. \<not> pgLocked e (op_id r))
     (sort_key (\<lambda>r. case op_heartbeat_at r of Some t \<Rightarrow> t | None \<Rightarrow> 0)
       (filter (\<lambda>r. inProgress (op_status r) \<and> (case op_heartbeat_at r of None \<Rightarrow> False | Some t \<Rightarrow> t < cutoff))
         (operations d))))))"

definition recoverOperation :: "env \<Rightarrow> operationRow \<Rightarrow> operationRow" where
  "recoverOperation e r = (let again = op_retry_count r < op_max_retries r in
     r\<lparr>op_status := (if again then ''queued'' else ''failed''), op_phase := Some (if again then ''queued'' else ''failed''),
       op_progress := (if again then 0 else 100),
       op_message_key := Some (if again then ''operation.queued'' else ''operation.failed''), op_retryable := again,
       op_retry_count := (if again then op_retry_count r + 1 else op_retry_count r),
       op_error_code := Some ''WORKER_HEARTBEAT_EXPIRED'', op_error_message := Some ''worker heartbeat expired'',
       op_heartbeat_at := None, op_finished_at := (if again then None else Some (pgNow e)), op_updated_at := pgNow e\<rparr>)"

text \<open>The number of rows affected.\<close>

definition requeueStuck :: "uuid \<Rightarrow> nat query" where
  "requeueStuck operationID = (\<lambda>e d. Inr (
     length (filter (\<lambda>r. op_id r = operationID \<and> inProgress (op_status r)) (operations d)),
     d\<lparr>operations := sqlUpdate (\<lambda>r. op_id r = operationID \<and> inProgress (op_status r)) (recoverOperation e) (operations d)\<rparr>))"

lemma readonly_operation [keeps_intros]:
  "readonly (GetOperationByID a)" "readonly (GetOperationByIdempotency k)" "readonly (GetOperationForUser a b)"
  "readonly (ListOperationSteps a)" "readonly (ClaimDueOperationRetries n)" "readonly (selectStuck t n)"
  by (simp_all add: GetOperationByID_def GetOperationByIdempotency_def GetOperationForUser_def ListOperationSteps_def
      ClaimDueOperationRetries_def selectStuck_def readonly_select)

lemmas operation_writes =
  CreateOperation_def CreateOperationStep_def ClaimOperation_def UpdateOperationProgress_def UpdateOperationStep_def
  CompleteOperation_def ScheduleOperationRetry_def RequeueOperation_def requeueStuck_def

end
