(* ===== verification/Samples.thy ===== *)
theory Samples
  imports Operation_Queries
begin

text \<open>
  A small concrete installation: one customer, one product with one plan, an environment whose
  statements all succeed. The witnesses of the properties evaluate the handlers on it.
\<close>

definition env0 :: env where
  "env0 = \<lparr>freshID = (\<lambda>n. word_of_nat (n + 100)), uuidString = (\<lambda>u. [char_of (unat u)]),
     uuidParse = (\<lambda>s. case s of [c] \<Rightarrow> Some (word_of_nat (of_char c)) | _ \<Rightarrow> None),
     sha1ID = (\<lambda>s. word_of_int (foldl (\<lambda>a c. (a * 17 + of_char c) mod 251) 0 s)), pgNow = 1000 * second, goNow = 1000 * second,
     addMonths = (\<lambda>n t. t + int n * 2592000 * second), faults = (\<lambda>_. NoFault), pgLocked = (\<lambda>_. False),
     concurrent = (\<lambda>d. d), errorText = (\<lambda>_. ''error''), parseAddr = (\<lambda>s. Some s)\<rparr>"

lemma env0_quiet [simp]: "faults env0 n = NoFault" "concurrent env0 d = d"
  by (simp_all add: env0_def)

definition user0 :: userRow where
  "user0 = \<lparr>u_id = 1, u_email = ''a@b.c'', u_password_hash = ''h'', u_status = ''active'', u_locale = ''en-US'',
     u_timezone = ''UTC'', u_email_verified_at = None, u_last_login_at = None, u_created_at = 0, u_updated_at = 0\<rparr>"

definition product0 :: productRow where
  "product0 = \<lparr>prod_id = 2, prod_slug = ''vps'', prod_name_i18n = JObj [(''en-US'', JStr ''VPS'')],
     prod_description_i18n = JObj [], prod_status = ''active'', prod_sort_order = 1, prod_created_at = 0, prod_updated_at = 0\<rparr>"

definition plan0 :: planRow where
  "plan0 = \<lparr>plan_id = 3, plan_product_id = 2, plan_node_group_id = Some 4, plan_slug = ''small'',
     plan_name_i18n = JObj [(''en-US'', JStr ''Small'')], plan_status = ''active'', plan_cpu_cores = 100,
     plan_memory_mb = 1024, plan_disk_gb = 20, plan_traffic_gb = Some 1000, plan_bandwidth_mbps = Some 100,
     plan_ipv4_count = 1, plan_ipv6_count = 0, plan_nat_port_count = 0, plan_virtualization = ''kvm'',
     plan_billing_cycle = ''monthly'', plan_price_minor = 1299, plan_currency = ''USD'', plan_stock_mode = ''automatic'',
     plan_created_at = 0, plan_updated_at = 0, plan_default_image_id = ''debian-12''\<rparr>"

definition emptyDb :: db where
  "emptyDb = \<lparr>users = [], admins = [], products = [], plans = [], orders = [], order_items = [], invoices = [], invoice_items = [],
     payments = [], receipts = [], wallets = [], ledger_transactions = [], ledger_entries = [], outbox_events = [],
     subscriptions = [], providers = [], node_groups = [], nodes = [], reservations = [], instances = [],
     operations = [], operation_steps = [], notifications = [], tickets = [], ticket_messages = [], audit_events = [],
     access = \<lparr>user_sessions = [], admin_sessions = [], totp_secrets = [], roles = [], permissions = [], role_permissions = [],
       admin_roles = [], system_settings = []\<rparr>,
     fleet = \<lparr>agent_connections = [], agent_commands = [], agent_messages = [], agent_tokens = [], agent_vm_states = [],
       agent_images = [], agent_port_forwards = [], instance_networks = [], traffic_usage = []\<rparr>\<rparr>"

definition db0 :: db where
  "db0 = emptyDb\<lparr>users := [user0], products := [product0], plans := [plan0]\<rparr>"

definition world0 :: world where
  "world0 = \<lparr>wdb = db0, wids = 0, wstmts = 0, domain_events = [], operation_queue = [], stream_acks = []\<rparr>"

definition succeeded :: "(err + 'a) \<times> world \<Rightarrow> bool" where
  "succeeded r \<longleftrightarrow> (case fst r of Inl _ \<Rightarrow> False | Inr _ \<Rightarrow> True)"

lemma succeededE:
  assumes "succeeded r" obtains x w where "r = (Inr x, w)"
  using assms by (cases r; cases "fst r") (auto simp: succeeded_def)

definition subscription0 :: subscriptionRow where
  "subscription0 = \<lparr>s_id = 9, s_user_id = 1, s_plan_id = 3, s_status = ''past_due'', s_billing_cycle = ''monthly'',
     s_price_minor = 1299, s_currency = ''USD'', s_started_at = Some 0, s_current_period_start = Some 0,
     s_current_period_end = Some (900 * second), s_next_due_at = Some (900 * second), s_grace_until = Some (1200 * second),
     s_cancel_at_period_end = True, s_ended_at = None, s_version = 4, s_created_at = 0, s_updated_at = 0,
     s_source_order_id = None, s_source_item_index = None\<rparr>"

definition world0_sub :: world where
  "world0_sub = world0\<lparr>wdb := db0\<lparr>subscriptions := [subscription0]\<rparr>\<rparr>"

definition operation0 :: operationRow where
  "operation0 = newOperation env0 5 ''instance.start'' ''instance'' 6 (Some ''operation.queued'') ''start:00000001'' 1 ''trace'' (Some 1) None"

text \<open>One active provider with one node of four cores.\<close>

definition provider0 :: providerRow where
  "provider0 = \<lparr>prov_id = 20, prov_name = ''mock'', prov_provider_type = ''mock'', prov_endpoint = None, prov_credential_ref = None,
     prov_status = ''active'', prov_version = None, prov_config = JObj [], prov_capabilities = JObj [],
     prov_last_health_check_at = None, prov_created_at = 0, prov_updated_at = 0\<rparr>"

definition group0 :: nodeGroupRow where
  "group0 = \<lparr>ng_id = 4, ng_name = ''default'', ng_region = ''eu-1'', ng_status = ''active'', ng_created_at = 0, ng_updated_at = 0\<rparr>"

definition node0 :: nodeRow where
  "node0 = \<lparr>n_id = 21, n_provider_id = 20, n_node_group_id = Some 4, n_provider_node_id = Some ''n1'', n_name = ''node-1'',
     n_region = ''eu-1'', n_status = ''online'',
     n_total = \<lparr>c_cpu = 400, c_memory_mb = 8192, c_disk_gb = 100, c_ipv4 = 4, c_ipv6 = 0, c_nat_port = 0\<rparr>,
     n_allocated = \<lparr>c_cpu = 0, c_memory_mb = 0, c_disk_gb = 0, c_ipv4 = 0, c_ipv6 = 0, c_nat_port = 0\<rparr>,
     n_reserved = \<lparr>c_cpu = 0, c_memory_mb = 0, c_disk_gb = 0, c_ipv4 = 0, c_ipv6 = 0, c_nat_port = 0\<rparr>, n_weight = 100,
     n_capabilities = JObj [(''create_instance'', JBool True), (''virtualization'', JArr [JStr ''kvm''])], n_last_seen_at = None,
     n_version = 1, n_created_at = 0, n_updated_at = 0\<rparr>"

definition world0_node :: world where
  "world0_node = world0\<lparr>wdb := db0\<lparr>providers := [provider0], node_groups := [group0], nodes := [node0], operations := [operation0]\<rparr>\<rparr>"

end
