(* ===== verification/Contracts.thy ===== *)
theory Contracts
  imports Store
begin

text \<open>
  The contract that several components share: an operation that may be retried.
\<close>

section \<open>Operations that may be retried\<close>

text \<open>
  \<open>perform\<close> leaves a record behind whenever it succeeds, its answer is a view of the record, and
  \<open>again\<close> (the same call, later) answers from the record without writing. \<open>I\<close> is what the database
  guarantees meanwhile.
\<close>

locale retryable =
  fixes I :: "db \<Rightarrow> bool"
    and onRecord :: "db \<Rightarrow> 'r \<Rightarrow> bool"
    and view :: "db \<Rightarrow> 'r \<Rightarrow> 'v \<Rightarrow> bool"
    and perform :: "'v io"
    and again :: "'v io"
  assumes keeps_perform: "keeps I perform"
    and records: "perform e w = (Inr v, w') \<Longrightarrow> I (wdb w) \<Longrightarrow> I (wdb w') \<Longrightarrow> \<exists>r. onRecord (wdb w') r \<and> view (wdb w') r v"
    and replies: "I (wdb w) \<Longrightarrow> onRecord (wdb w) r \<Longrightarrow> view (wdb w) r v \<Longrightarrow> (\<And>n. faults e n = NoFault) \<Longrightarrow>
      \<exists>w'. again e w = (Inr v, w') \<and> wdb w' = wdb w"
begin

lemma retry_same:
  assumes "I (wdb w)" and "\<And>d. I d \<Longrightarrow> I (concurrent e d)" and "perform e w = (Inr v, w1)"
    and "\<And>n. faults e2 n = NoFault"
  shows "\<exists>w2. again e2 w1 = (Inr v, w2) \<and> wdb w2 = wdb w1"
proof -
  from assms have inv: "I (wdb w1)" by (blast intro: keepsD[OF keeps_perform])
  with records[OF assms(3,1)] replies assms(4) show ?thesis by blast
qed

text \<open>Even when the answer of the first call was lost, what it recorded is what a retry reports.\<close>

lemma retry_after_record:
  assumes "I (wdb w1)" and "onRecord (wdb w1) r" and "view (wdb w1) r v" and "\<And>n. faults e2 n = NoFault"
  shows "\<exists>w2. again e2 w1 = (Inr v, w2) \<and> wdb w2 = wdb w1"
  using replies assms by blast

end

end
