(* ===== verification/Orders.thy ===== *)
theory Orders
  imports Billing Samples Contracts
begin

text \<open>
  What placing an order writes, that orders, invoices and payments are created together and agree,
  and how the idempotency key makes retries and races return the one order.
\<close>

section \<open>The effect of placing an order\<close>

definition draftOrder :: "env \<Rightarrow> orderDraft \<Rightarrow> uuid \<Rightarrow> orderRow" where
  "draftOrder e dr orderID = \<lparr>o_id = orderID, o_order_no = number e ''ORD'' orderID, o_user_id = dr_UserID dr,
     o_status = ''pending'', o_subtotal_minor = dr_Total dr, o_discount_minor = 0, o_total_minor = dr_Total dr,
     o_currency = dr_Currency dr, o_paid_at = None, o_created_at = pgNow e, o_updated_at = pgNow e,
     o_idempotency_key = dr_Key dr, o_kind = dr_Kind dr, o_subscription_id = dr_SubscriptionID dr\<rparr>"

definition draftItem :: "env \<Rightarrow> orderDraft \<Rightarrow> uuid \<Rightarrow> uuid \<Rightarrow> orderItemRow" where
  "draftItem e dr itemID orderID = \<lparr>oi_id = itemID, oi_order_id = orderID, oi_product_id = dr_ProductID dr,
     oi_plan_id = dr_PlanID dr, oi_quantity = dr_Quantity dr, oi_unit_price_minor = dr_UnitPrice dr,
     oi_total_minor = dr_Total dr, oi_product_snapshot = dr_ProductSnapshot dr, oi_plan_snapshot = dr_PlanSnapshot dr,
     oi_created_at = pgNow e\<rparr>"

definition draftInvoice :: "env \<Rightarrow> orderDraft \<Rightarrow> uuid \<Rightarrow> uuid \<Rightarrow> invoiceRow" where
  "draftInvoice e dr invoiceID orderID = \<lparr>inv_id = invoiceID, inv_invoice_no = number e ''INV'' invoiceID,
     inv_user_id = dr_UserID dr, inv_subscription_id = dr_SubscriptionID dr, inv_order_id = Some orderID,
     inv_status = ''open'', inv_amount_minor = dr_Total dr, inv_currency = dr_Currency dr,
     inv_due_at = Some (goNow e + 30 * minute), inv_paid_at = None, inv_created_at = pgNow e, inv_updated_at = pgNow e\<rparr>"

definition draftInvoiceItem :: "env \<Rightarrow> orderDraft \<Rightarrow> uuid \<Rightarrow> uuid \<Rightarrow> invoiceItemRow" where
  "draftInvoiceItem e dr itemID invoiceID = \<lparr>ii_id = itemID, ii_invoice_id = invoiceID,
     ii_description_i18n = dr_Description dr, ii_quantity = dr_Quantity dr, ii_unit_amount_minor = dr_UnitPrice dr,
     ii_total_minor = dr_Total dr, ii_created_at = pgNow e\<rparr>"

definition draftPayment :: "env \<Rightarrow> orderDraft \<Rightarrow> uuid \<Rightarrow> uuid \<Rightarrow> paymentRow" where
  "draftPayment e dr paymentID orderID = \<lparr>p_id = paymentID, p_payment_no = number e ''PAY'' paymentID,
     p_order_id = orderID, p_gateway = fakeGateway, p_gateway_payment_id = None, p_status = ''pending'',
     p_amount_minor = dr_Total dr, p_currency = dr_Currency dr,
     p_idempotency_key = ''order:'' @ uuidString e orderID @ '':fake'', p_gateway_payload = JObj [], p_paid_at = None,
     p_created_at = pgNow e, p_updated_at = pgNow e\<rparr>"

definition draftView :: "env \<Rightarrow> orderDraft \<Rightarrow> uuid \<Rightarrow> uuid \<Rightarrow> Order" where
  "draftView e dr orderID paymentID = \<lparr>Order_ID = orderID, Order_OrderNo = number e ''ORD'' orderID,
     Order_Status = ''pending'', Order_TotalMinor = dr_Total dr, Order_Currency = dr_Currency dr, Order_Kind = dr_Kind dr,
     Order_PaymentID = Some paymentID, Order_PaymentStatus = ''pending'', Order_SubscriptionID = dr_SubscriptionID dr\<rparr>"

definition placed :: "env \<Rightarrow> orderDraft \<Rightarrow> db \<Rightarrow> db \<Rightarrow> Order \<Rightarrow> bool" where
  "placed e dr d d' view \<longleftrightarrow> (\<exists>orderID invoiceID paymentID itemID lineID.
     d' = d\<lparr>orders := orders d @ [draftOrder e dr orderID],
            order_items := order_items d @ [draftItem e dr itemID orderID],
            invoices := invoices d @ [draftInvoice e dr invoiceID orderID],
            invoice_items := invoice_items d @ [draftInvoiceItem e dr lineID invoiceID],
            payments := payments d @ [draftPayment e dr paymentID orderID]\<rparr> \<and>
     \<not> orderConflict (orders d) (draftOrder e dr orderID) \<and>
     \<not> invoiceConflict (invoices d) (draftInvoice e dr invoiceID orderID) \<and>
     \<not> paymentConflict (payments d) (draftPayment e dr paymentID orderID) \<and>
     orderCheck (draftOrder e dr orderID) \<and> dr_Quantity dr > 0 \<and>
     view = draftView e dr orderID paymentID)"

lemma orderDetails_ok:
  assumes run: "orderDetails dr e orderID invoiceID paymentID ordr e w = (Inr r, w')"
  obtains itemID lineID where
    "wdb w' = (wdb w)\<lparr>order_items := order_items (wdb w) @ [draftItem e dr itemID orderID],
            invoices := invoices (wdb w) @ [draftInvoice e dr invoiceID orderID],
            invoice_items := invoice_items (wdb w) @ [draftInvoiceItem e dr lineID invoiceID],
            payments := payments (wdb w) @ [draftPayment e dr paymentID orderID]\<rparr>"
    "\<not> invoiceConflict (invoices (wdb w)) (draftInvoice e dr invoiceID orderID)"
    "\<not> paymentConflict (payments (wdb w)) (draftPayment e dr paymentID orderID)" "dr_Quantity dr > 0"
    "ordr = draftOrder e dr orderID \<Longrightarrow> r = Commit (Some (draftView e dr orderID paymentID))"
proof -
  from run[unfolded orderDetails_def] obtain itemID lineID invoice payment w6 w7 w8 w9 w10 w11 u1 u2 where
    item: "newID e w = (Inr itemID, w6)"
      "exec (CreateOrderItem itemID orderID (dr_ProductID dr) (dr_PlanID dr) (dr_Quantity dr)
          (dr_UnitPrice dr) (dr_Total dr) (dr_ProductSnapshot dr) (dr_PlanSnapshot dr)) e w6 = (Inr u1, w7)"
    and invoice: "exec (CreateInvoice invoiceID (number e ''INV'' invoiceID) (dr_UserID dr) (dr_SubscriptionID dr)
          (Some orderID) (dr_Total dr) (dr_Currency dr) (goNow e + 30 * minute)) e w7 = (Inr invoice, w8)"
    and line: "newID e w8 = (Inr lineID, w9)"
      "exec (CreateInvoiceItem lineID (inv_id invoice) (dr_Description dr) (dr_Quantity dr)
          (dr_UnitPrice dr) (dr_Total dr)) e w9 = (Inr u2, w10)"
    and payment: "exec (CreatePayment paymentID (number e ''PAY'' paymentID) orderID fakeGateway (dr_Total dr)
          (dr_Currency dr) (''order:'' @ uuidString e orderID @ '':fake'')) e w10 = (Inr payment, w11)"
    and result: "ret (Commit (Some
        \<lparr>Order_ID = o_id ordr, Order_OrderNo = o_order_no ordr, Order_Status = o_status ordr,
         Order_TotalMinor = o_total_minor ordr, Order_Currency = o_currency ordr, Order_Kind = o_kind ordr,
         Order_PaymentID = Some (p_id payment), Order_PaymentStatus = p_status payment,
         Order_SubscriptionID = dr_SubscriptionID dr\<rparr>)) e w11 = (Inr r, w')"
    by (elim bndE) blast
  have w7: "wdb w7 = (wdb w)\<lparr>order_items := order_items (wdb w) @ [draftItem e dr itemID orderID]\<rparr>"
    and q: "dr_Quantity dr > 0"
    using item by (auto simp: io_simps CreateOrderItem_def Let_def draftItem_def)
  have w8: "wdb w8 = (wdb w7)\<lparr>invoices := invoices (wdb w7) @ [draftInvoice e dr invoiceID orderID]\<rparr>"
    and inv: "\<not> invoiceConflict (invoices (wdb w7)) (draftInvoice e dr invoiceID orderID)" "inv_id invoice = invoiceID"
    using invoice by (auto simp: io_simps CreateInvoice_def Let_def draftInvoice_def)
  have w10: "wdb w10 = (wdb w8)\<lparr>invoice_items := invoice_items (wdb w8) @ [draftInvoiceItem e dr lineID invoiceID]\<rparr>"
    using line inv(2) by (auto simp: io_simps CreateInvoiceItem_def Let_def draftInvoiceItem_def)
  have w11: "wdb w11 = (wdb w10)\<lparr>payments := payments (wdb w10) @ [draftPayment e dr paymentID orderID]\<rparr>"
    and pay: "\<not> paymentConflict (payments (wdb w10)) (draftPayment e dr paymentID orderID)"
      "payment = draftPayment e dr paymentID orderID"
    using payment by (auto simp: io_simps CreatePayment_def Let_def draftPayment_def)
  have view: "r = Commit (Some (draftView e dr orderID paymentID))" if "ordr = draftOrder e dr orderID"
    using result that by (simp add: pay(2) ret_ok draftView_def draftOrder_def draftPayment_def)
  from result have "w' = w11" by (simp add: ret_ok)
  then show ?thesis
    by (intro that[where itemID = itemID and lineID = lineID, OF _ _ _ q view]) (use inv(1) pay in \<open>simp_all add: w7 w8 w10 w11\<close>)
qed

lemma placeOrder_cases:
  assumes run: "placeOrder dr e w = (Inr r, w')"
  obtains (race) "r = Rollback None" "wdb w' = wdb w"
      "\<exists>orderID. orderConflict (orders (wdb w)) (draftOrder e dr orderID)"
  | (new) view where "r = Commit (Some view)" "placed e dr (wdb w) (wdb w') view"
proof -
  from run[unfolded placeOrder_def] obtain orderID invoiceID paymentID w1 w2 w3 w4 w5 res e' where
    n: "newID e w = (Inr orderID, w1)" "newID e w1 = (Inr invoiceID, w2)" "newID e w2 = (Inr paymentID, w3)"
    and a: "asks (\<lambda>e. e) e w3 = (Inr e', w4)"
    and c: "attempt (exec (CreateOrder_q orderID (number e' ''ORD'' orderID) (dr_UserID dr) (dr_Total dr)
        (dr_Currency dr) (dr_Key dr) (dr_Kind dr) (dr_SubscriptionID dr))) e w4 = (Inr res, w5)"
    and k: "(case res of Inl x \<Rightarrow> if isUniqueViolation x then ret (Rollback None) else raise x
      | Inr ordr \<Rightarrow> orderDetails dr e' orderID invoiceID paymentID ordr) e w5 = (Inr r, w')"
    by (elim bndE) blast
  have w4: "wdb w4 = wdb w" and e': "e' = e" using n a by (auto simp: io_simps)
  show ?thesis
  proof (cases res)
    case (Inl x)
    with k have x: "isUniqueViolation x" and "r = Rollback None" "w' = w5" by (auto simp: io_simps split: if_splits)
    moreover have "wdb w5 = wdb w" "orderConflict (orders (wdb w)) (draftOrder e dr orderID)"
      using c Inl x w4 e'
      by (auto simp: io_simps exec_def CreateOrder_q_def Let_def insertInto_def draftOrder_def
          split: fault.splits sum.splits if_splits)
    ultimately show ?thesis using race by auto
  next
    case (Inr ordr)
    with c e' w4 have ordr: "ordr = draftOrder e dr orderID" "\<not> orderConflict (orders (wdb w)) ordr" "orderCheck ordr"
      and w5: "wdb w5 = (wdb w)\<lparr>orders := orders (wdb w) @ [draftOrder e dr orderID]\<rparr>"
      by (auto simp: io_simps CreateOrder_q_def Let_def draftOrder_def)
    from k have "orderDetails dr e orderID invoiceID paymentID ordr e w5 = (Inr r, w')" by (simp add: Inr e')
    then show ?thesis
    proof (rule orderDetails_ok)
      fix itemID lineID
      assume "wdb w' = (wdb w5)\<lparr>order_items := order_items (wdb w5) @ [draftItem e dr itemID orderID],
            invoices := invoices (wdb w5) @ [draftInvoice e dr invoiceID orderID],
            invoice_items := invoice_items (wdb w5) @ [draftInvoiceItem e dr lineID invoiceID],
            payments := payments (wdb w5) @ [draftPayment e dr paymentID orderID]\<rparr>"
        and "\<not> invoiceConflict (invoices (wdb w5)) (draftInvoice e dr invoiceID orderID)"
        "\<not> paymentConflict (payments (wdb w5)) (draftPayment e dr paymentID orderID)" "dr_Quantity dr > 0"
        "ordr = draftOrder e dr orderID \<Longrightarrow> r = Commit (Some (draftView e dr orderID paymentID))"
      with ordr have "placed e dr (wdb w) (wdb w') (draftView e dr orderID paymentID)"
        unfolding placed_def w5
        by (intro exI[of _ orderID] exI[of _ invoiceID] exI[of _ paymentID] exI[of _ itemID] exI[of _ lineID]) simp
      with \<open>_ \<Longrightarrow> r = _\<close> ordr(1) show ?thesis using new by blast
    qed
  qed
qed

section \<open>Invariants\<close>

lemma conflicts_pk [simp]: "conflicts (\<lambda>x. Some (pk x)) t r \<longleftrightarrow> pk r \<in> pk ` set t"
  by (simp add: conflicts_def list_ex_iff image_iff) metis

text \<open>Both transactions read the catalogue, check, and place the order.\<close>

lemma createOrderTx_ok:
  assumes "createOrderTx userID planID quantity key e w = (Inr r, w')"
  obtains plan w1 where "GetPlanForOrder planID e (wdb w) = Inr (plan, wdb w)" "wdb w1 = wdb w"
    "\<not> (plan_price_minor (cat_plan plan) > 0 \<and> quantity > maxInt64 div plan_price_minor (cat_plan plan))"
    "placeOrder (purchaseDraft e userID plan quantity key) e w1 = (Inr r, w')"
proof -
  from assms[unfolded createOrderTx_def] obtain plan w1 where
    x: "exec (GetPlanForOrder planID) e w = (Inr plan, w1)"
    and y: "(if plan_price_minor (cat_plan plan) > 0 \<and> quantity > maxInt64 div plan_price_minor (cat_plan plan)
      then raise ErrInvalidQuantity
      else bnd (asks (\<lambda>e. e)) (\<lambda>e. placeOrder (purchaseDraft e userID plan quantity key))) e w1 = (Inr r, w')"
    by (elim bndE) (simp add: orNoRows_ok)
  show ?thesis
    by (rule that[of plan w1]) (use y exec_readonly[OF _ x] readonly_commerce(2) in \<open>auto simp: io_simps split: if_splits\<close>)
qed

lemma createRenewalTx_ok:
  assumes "createRenewalTx userID subscriptionID key e w = (Inr r, w')"
  obtains t w1 where "GetSubscriptionForRenewal subscriptionID userID e (wdb w) = Inr (t, wdb w)" "wdb w1 = wdb w"
    "renewable (s_status (rn_subscription t))"
    "placeOrder (renewalDraft e userID subscriptionID t key) e w1 = (Inr r, w')"
proof -
  from assms[unfolded createRenewalTx_def] obtain t w1 where
    x: "exec (GetSubscriptionForRenewal subscriptionID userID) e w = (Inr t, w1)"
    and y: "(if \<not> renewable (s_status (rn_subscription t)) then raise ErrSubscriptionState
      else bnd (asks (\<lambda>e. e)) (\<lambda>e. placeOrder (renewalDraft e userID subscriptionID t key))) e w1 = (Inr r, w')"
    by (elim bndE) (simp add: orNoRows_ok)
  show ?thesis
    by (rule that[of t w1]) (use y exec_readonly[OF _ x] readonly_subscription(5) in \<open>auto simp: io_simps split: if_splits\<close>)
qed

lemma billingInv_placed:
  assumes inv: "billingInv d" and pl: "placed e dr d d' view"
  shows "billingInv d'"
proof -
  from pl obtain orderID invoiceID paymentID itemID lineID where
    d': "orders d' = orders d @ [draftOrder e dr orderID]" "invoices d' = invoices d @ [draftInvoice e dr invoiceID orderID]"
      "payments d' = payments d @ [draftPayment e dr paymentID orderID]" "ledger_transactions d' = ledger_transactions d"
    and ok: "\<not> orderConflict (orders d) (draftOrder e dr orderID)"
      "\<not> invoiceConflict (invoices d) (draftInvoice e dr invoiceID orderID)"
      "\<not> paymentConflict (payments d) (draftPayment e dr paymentID orderID)"
    by (auto simp: placed_def)
  let ?p = "draftPayment e dr paymentID orderID" and ?o = "draftOrder e dr orderID"
    and ?i = "draftInvoice e dr invoiceID orderID"
  have keys: "billingKeys d" and old: "\<forall>p\<in>set (payments d). \<exists>ordr\<in>set (orders d). \<exists>i\<in>set (invoices d). billed d p ordr i"
    and refs: "\<forall>t\<in>set (ledger_transactions d). \<forall>pid. captureOf pid t \<longrightarrow> present p_id pid (payments d)"
    using inv by (auto simp: billingInv_def)
  have new_order: "orderID \<notin> o_id ` set (orders d)" "\<not> conflicts orderUserKey (orders d) ?o"
    using ok(1) by (auto simp: orderConflict_def draftOrder_def)
  have new_payment: "paymentID \<notin> p_id ` set (payments d)"
    using ok(3) by (auto simp: paymentConflict_def draftPayment_def)
  have new_invoice: "invoiceID \<notin> inv_id ` set (invoices d)" "\<not> conflicts inv_order_id (invoices d) ?i"
    using ok(2) by (auto simp: invoiceConflict_def draftInvoice_def)
  have "orderID \<notin> p_order_id ` set (payments d)"
    using new_order(1) old by (fastforce simp: billed_def)
  with keys new_order new_payment new_invoice have keys': "billingKeys d'"
    by (simp add: billingKeys_def d' uniq_append1 draftPayment_def draftOrder_def draftInvoice_def)
  have cap: "captures d' q = captures d q" for q by (simp add: captures_def d')
  have "captures d paymentID = 0"
    using new_payment refs by (auto simp: captures_def filter_empty_conv present_iff)
  then have "billed d' ?p ?o ?i"
    by (simp add: billed_def cap draftPayment_def draftOrder_def draftInvoice_def orderPaid_def)
  moreover have "billed d' p ordr i" if "billed d p ordr i" for p ordr i
    using that by (simp add: billed_def cap)
  ultimately have "\<forall>p\<in>set (payments d'). \<exists>ordr\<in>set (orders d'). \<exists>i\<in>set (invoices d'). billed d' p ordr i"
    using old by (fastforce simp: d')
  moreover have "present p_order_id orderID (payments d')" by (simp add: d' present_def draftPayment_def)
  ultimately show ?thesis
    using keys' refs inv by (auto simp: billingInv_def d' present_append draftOrder_def)
qed

lemma ledgerBalanced_placed: "placed e dr d d' view \<Longrightarrow> ledgerBalanced d' = ledgerBalanced d"
  by (auto simp: placed_def ledgerBalanced_def)

text \<open>Any invariant that placing an order keeps is kept by both handlers.\<close>

lemma keeps_placing:
  assumes "\<And>e dr d d' view. I d \<Longrightarrow> placed e dr d d' view \<Longrightarrow> I d'"
  shows "keeps I (in_tx (createOrderTx userID planID quantity key))" (is ?purchase)
    and "keeps I (in_tx (createRenewalTx userID subscriptionID key))" (is ?renewal)
proof -
  have place: "I (wdb w')" if "I (wdb w)" "placeOrder dr e w = (Inr (Commit r), w')" for dr e w r w'
    using that(2) by (cases rule: placeOrder_cases) (use assms that(1) in blast)+
  show ?purchase
    by (rule keeps_in_tx_commit, erule createOrderTx_ok) (metis place)
  show ?renewal
    by (rule keeps_in_tx_commit, erule createRenewalTx_ok) (metis place)
qed

lemma keeps_existing [keeps_intros]: "keeps I (existingPurchase ordr)" "keeps I (existingRenewal subID ordr)"
  by (auto simp: existingPurchase_def existingRenewal_def orderWithPayment_def intro!: keeps_intros)

lemma keeps_CreateOrder:
  assumes "\<And>e dr d d' view. I d \<Longrightarrow> placed e dr d d' view \<Longrightarrow> I d'"
  shows "keeps I (CreateOrder userID planID quantity key)"
    and "keeps I (CreateRenewalOrder userID subscriptionID key)"
  unfolding CreateOrder_def CreateRenewalOrder_def
  by (intro keeps_intros keeps_placing[where I = I]; rule assms; assumption)+

section \<open>Idempotency\<close>

abbreviation quiet :: "env \<Rightarrow> bool" where
  "quiet e \<equiv> (\<forall>n. faults e n = NoFault) \<and> concurrent e = (\<lambda>d. d)"

definition ordersWithKey :: "db \<Rightarrow> uuid \<Rightarrow> string \<Rightarrow> orderRow list" where
  "ordersWithKey d userID key = filter (\<lambda>ordr. orderUserKey ordr = Some (userID, key)) (orders d)"

lemma GetOrderByUserIdempotency_eq:
  "GetOrderByUserIdempotency userID (Some key) e d =
     (case ordersWithKey d userID key of [] \<Rightarrow> Inl ErrNoRows | ordr # _ \<Rightarrow> Inr (ordr, d))"
proof -
  have "(o_user_id x = userID \<and> o_idempotency_key x = Some key) = (orderUserKey x = Some (userID, key))" for x
    by (auto simp: orderUserKey_def)
  then show ?thesis
    by (simp add: GetOrderByUserIdempotency_def selectOne_def one_def ordersWithKey_def split: list.splits)
qed

lemma uniq_filter_key: "uniq k t \<Longrightarrow> length (filter (\<lambda>r. k r = Some v) t) \<le> 1"
proof (induction t)
  case (Cons r t)
  then have "uniq k t" by (auto simp: uniq_def split: if_splits)
  moreover have "filter (\<lambda>x. k x = Some v) t = []" if "k r = Some v"
    using Cons.prems that by (auto simp: uniq_def filter_empty_conv image_iff)
  ultimately show ?case using Cons.IH by auto
qed simp

lemma ordersWithKey_at_most_one: "billingInv d \<Longrightarrow> length (ordersWithKey d userID key) \<le> 1"
  using uniq_filter_key[of orderUserKey "orders d" "(userID, key)"]
  by (simp add: ordersWithKey_def billingInv_def billingKeys_def)

text \<open>The order a key stands for, as the handlers report it.\<close>

definition viewOf :: "orderRow \<Rightarrow> paymentRow \<Rightarrow> Order" where
  "viewOf ordr p = \<lparr>Order_ID = o_id ordr, Order_OrderNo = o_order_no ordr, Order_Status = o_status ordr,
     Order_TotalMinor = o_total_minor ordr, Order_Currency = o_currency ordr, Order_Kind = o_kind ordr,
     Order_PaymentID = Some (p_id p), Order_PaymentStatus = p_status p, Order_SubscriptionID = o_subscription_id ordr\<rparr>"

lemma orderWithPayment_quiet:
  assumes inv: "billingInv (wdb w)" and ordr: "ordr \<in> set (orders (wdb w))" and q: "\<forall>n. faults e n = NoFault"
  obtains p where "p \<in> set (payments (wdb w))" "p_order_id p = o_id ordr"
    "orderWithPayment ordr e w = (Inr (viewOf ordr p), tick w)"
proof -
  from inv ordr obtain p where p: "p \<in> set (payments (wdb w))" "p_order_id p = o_id ordr"
    by (auto simp: billingInv_def present_iff)
  have "distinct (map p_order_id (payments (wdb w)))" using inv by (simp add: billingInv_def billingKeys_def)
  from filter_pk[OF this p(1)] have "filter (\<lambda>x. p_order_id x = o_id ordr) (payments (wdb w)) = [p]"
    using p(2) by simp
  with q have "orderWithPayment ordr e w = (Inr (viewOf ordr p), tick w)"
    by (simp add: orderWithPayment_def bnd_def pool_def GetPaymentByOrder_def selectOne_def one_def ret_def viewOf_def tick_def)
  with p that show ?thesis by blast
qed

lemma pool_key_quiet:
  assumes "\<forall>n. faults e n = NoFault" and "ordersWithKey (wdb w) userID key = [ordr]"
  shows "pool (GetOrderByUserIdempotency userID (Some key)) e w = (Inr ordr, tick w)"
  using assms by (simp add: pool_def GetOrderByUserIdempotency_eq tick_def)

lemma ordersWithKey_single:
  assumes inv: "billingInv d" and ordr: "ordr \<in> set (orders d)" "orderUserKey ordr = Some (userID, key)"
  shows "ordersWithKey d userID key = [ordr]"
proof -
  have "ordr \<in> set (ordersWithKey d userID key)" using ordr by (simp add: ordersWithKey_def)
  with ordersWithKey_at_most_one[OF inv, of userID key] show ?thesis
    by (cases "ordersWithKey d userID key") auto
qed

text \<open>A handler that finds the key answers with the order on record and writes nothing.\<close>

lemma CreateOrder_existing:
  assumes inv: "billingInv (wdb w)" and q: "\<forall>n. faults e n = NoFault"
    and ordr: "ordr \<in> set (orders (wdb w))" "orderUserKey ordr = Some (userID, key)"
      "o_kind ordr = ''purchase''" "o_subscription_id ordr = None"
  obtains p where "p \<in> set (payments (wdb w))" "p_order_id p = o_id ordr"
    "CreateOrder userID planID quantity key e w = (Inr (viewOf ordr p), tick (tick w))"
proof -
  from orderWithPayment_quiet[of "tick w" ordr e] inv ordr(1) q obtain p where
    "p \<in> set (payments (wdb w))" "p_order_id p = o_id ordr" "orderWithPayment ordr e (tick w) = (Inr (viewOf ordr p), tick (tick w))"
    by auto
  moreover have "CreateOrder userID planID quantity key e w = orderWithPayment ordr e (tick w)"
    using pool_key_quiet[OF q ordersWithKey_single[OF inv ordr(1,2)]] ordr(3,4)
    by (simp add: CreateOrder_def bnd_def attempt_def existingPurchase_def)
  ultimately show ?thesis using that by simp
qed

text \<open>Whatever way the handler took, a successful answer describes the order on record for the key.\<close>

definition answers :: "db \<Rightarrow> uuid \<Rightarrow> string \<Rightarrow> string \<Rightarrow> uuid option \<Rightarrow> Order \<Rightarrow> bool" where
  "answers d userID key kind sub view \<longleftrightarrow> (\<exists>ordr\<in>set (orders d). \<exists>p\<in>set (payments d).
     orderUserKey ordr = Some (userID, key) \<and> o_kind ordr = kind \<and> o_subscription_id ordr = sub \<and>
     p_order_id p = o_id ordr \<and> view = viewOf ordr p)"

lemma answersI:
  "ordr \<in> set (orders d) \<Longrightarrow> p \<in> set (payments d) \<Longrightarrow> orderUserKey ordr = Some (userID, key) \<Longrightarrow> o_kind ordr = kind \<Longrightarrow>
   o_subscription_id ordr = sub \<Longrightarrow> p_order_id p = o_id ordr \<Longrightarrow> answers d userID key kind sub (viewOf ordr p)"
  by (auto simp: answers_def)

lemma GetOrderByUserIdempotency_ok:
  assumes "GetOrderByUserIdempotency userID (Some key) e d = Inr (ordr, d')"
  shows "ordr \<in> set (orders d) \<and> orderUserKey ordr = Some (userID, key) \<and> d' = d"
  using assms unfolding GetOrderByUserIdempotency_def selectOne_ok
  by (auto simp: orderUserKey_def dest!: one_filter_Inr)

lemma orderWithPayment_ok:
  assumes "orderWithPayment ordr e w = (Inr v, w')"
  shows "wdb w' = wdb w \<and> (\<exists>p\<in>set (payments (wdb w)). p_order_id p = o_id ordr \<and> v = viewOf ordr p)"
  using assms
  by (auto simp: orderWithPayment_def io_simps GetPaymentByOrder_def viewOf_def dest!: one_Inr_in)

lemma existingPurchase_answers:
  assumes "existingPurchase ordr e w = (Inr v, w')" "ordr \<in> set (orders (wdb w))" "orderUserKey ordr = Some (userID, key)"
  shows "answers (wdb w') userID key ''purchase'' None v"
  using assms by (auto simp: existingPurchase_def io_simps split: if_splits dest!: orderWithPayment_ok intro: answersI)

lemma existingRenewal_answers:
  assumes "existingRenewal subID ordr e w = (Inr v, w')" "ordr \<in> set (orders (wdb w))" "orderUserKey ordr = Some (userID, key)"
  shows "answers (wdb w') userID key ''renewal'' (Some subID) v"
  using assms by (auto simp: existingRenewal_def io_simps split: if_splits dest!: orderWithPayment_ok intro: answersI)

lemma placed_answers:
  assumes "placed e dr d d' view" and "dr_UserID dr = userID" "dr_Key dr = Some key"
  shows "answers d' userID key (dr_Kind dr) (dr_SubscriptionID dr) view"
proof -
  have key: "orderUserKey (draftOrder e dr orderID) = Some (userID, key)" for orderID
    using assms(2,3) by (simp add: draftOrder_def orderUserKey_def)
  have view: "draftView e dr orderID paymentID = viewOf (draftOrder e dr orderID) (draftPayment e dr paymentID orderID)"
    for orderID paymentID
    by (simp add: draftOrder_def draftPayment_def draftView_def viewOf_def)
  have "answers d' userID key (dr_Kind dr) (dr_SubscriptionID dr) (draftView e dr orderID paymentID)"
    if "draftOrder e dr orderID \<in> set (orders d')" "draftPayment e dr paymentID orderID \<in> set (payments d')"
    for orderID paymentID
    unfolding view by (rule answersI[OF that key]) (simp_all add: draftOrder_def draftPayment_def)
  with assms(1) show ?thesis unfolding placed_def by force
qed

lemma in_tx_placed:
  assumes run: "in_tx body e w = (Inr (Some v), w')"
    and body: "\<And>r w2. body e (tick w) = (Inr r, w2) \<Longrightarrow> \<exists>dr w1. P dr \<and> wdb w1 = wdb w \<and> placeOrder dr e w1 = (Inr r, w2)"
  shows "\<exists>dr. P dr \<and> placed e dr (wdb w) (wdb w') v"
proof -
  from run obtain w2 r where r: "body e (tick w) = (Inr r, w2)" "r = Commit (Some v) \<and> wdb w' = wdb w2 \<or> r = Rollback (Some v)"
    by (auto simp: in_tx_ok)
  from body[OF r(1)] obtain dr w1 where "P dr" "wdb w1 = wdb w" "placeOrder dr e w1 = (Inr r, w2)" by auto
  from this(3) show ?thesis
  proof (cases rule: placeOrder_cases)
    case (new view)
    with r(2) \<open>P dr\<close> \<open>wdb w1 = wdb w\<close> show ?thesis by auto
  qed (use r(2) in auto)
qed

lemma in_tx_createOrder_ok:
  assumes "in_tx (createOrderTx userID planID quantity key) e w = (Inr (Some v), w')"
  obtains plan where "GetPlanForOrder planID e (wdb w) = Inr (plan, wdb w)"
    "\<not> (plan_price_minor (cat_plan plan) > 0 \<and> quantity > maxInt64 div plan_price_minor (cat_plan plan))"
    "placed e (purchaseDraft e userID plan quantity key) (wdb w) (wdb w') v"
proof -
  let ?P = "\<lambda>dr. \<exists>plan. GetPlanForOrder planID e (wdb w) = Inr (plan, wdb w) \<and>
    \<not> (plan_price_minor (cat_plan plan) > 0 \<and> quantity > maxInt64 div plan_price_minor (cat_plan plan)) \<and>
    dr = purchaseDraft e userID plan quantity key"
  from assms have "\<exists>dr. ?P dr \<and> placed e dr (wdb w) (wdb w') v"
    by (rule in_tx_placed, elim createOrderTx_ok) auto
  then show ?thesis using that by blast
qed

lemma in_tx_createRenewal_ok:
  assumes "in_tx (createRenewalTx userID subscriptionID key) e w = (Inr (Some v), w')"
  obtains t where "GetSubscriptionForRenewal subscriptionID userID e (wdb w) = Inr (t, wdb w)"
    "renewable (s_status (rn_subscription t))"
    "placed e (renewalDraft e userID subscriptionID t key) (wdb w) (wdb w') v"
proof -
  let ?P = "\<lambda>dr. \<exists>t. GetSubscriptionForRenewal subscriptionID userID e (wdb w) = Inr (t, wdb w) \<and>
    renewable (s_status (rn_subscription t)) \<and> dr = renewalDraft e userID subscriptionID t key"
  from assms have "\<exists>dr. ?P dr \<and> placed e dr (wdb w) (wdb w') v"
    by (rule in_tx_placed, elim createRenewalTx_ok) auto
  then show ?thesis using that by blast
qed

text \<open>The shape both handlers share: look the key up, otherwise run the transaction, otherwise look again.\<close>

lemma lookup_or_place:
  assumes run: "bnd (attempt (pool (GetOrderByUserIdempotency userID (Some key)))) (\<lambda>found. case found of
      Inr existing \<Rightarrow> known existing
    | Inl x \<Rightarrow> if x \<noteq> ErrNoRows then raise x else
        bnd others (\<lambda>_. bnd (in_tx body) (\<lambda>placed. case placed of
          Some ordr \<Rightarrow> ret ordr
        | None \<Rightarrow> bnd (pool (GetOrderByUserIdempotency userID (Some key))) known))) e w = (Inr v, w')"
    and body: "\<And>w r w'. body e w = (Inr (Commit r), w') \<Longrightarrow> r \<noteq> None"
  obtains (known) ordr w1 where "ordr \<in> set (orders (wdb w1))" "orderUserKey ordr = Some (userID, key)"
      "known ordr e w1 = (Inr v, w')" "wdb w1 = wdb w \<or> wdb w1 = concurrent e (wdb w)"
  | (placed) w1 where "ordersWithKey (wdb w) userID key = []" "wdb w1 = concurrent e (wdb w)"
      "in_tx body e w1 = (Inr (Some v), w')"
proof -
  from run obtain found w1 where look: "pool (GetOrderByUserIdempotency userID (Some key)) e w = (found, w1)"
    and rest: "(case found of Inr existing \<Rightarrow> known existing
      | Inl x \<Rightarrow> if x \<noteq> ErrNoRows then raise x else
          bnd others (\<lambda>_. bnd (in_tx body) (\<lambda>placed. case placed of
            Some ordr \<Rightarrow> ret ordr
          | None \<Rightarrow> bnd (pool (GetOrderByUserIdempotency userID (Some key))) known))) e w1 = (Inr v, w')"
    by (elim bndE) (simp add: attempt_ok)
  show ?thesis
  proof (cases found)
    case (Inr ordr)
    with look have "ordr \<in> set (orders (wdb w1)) \<and> orderUserKey ordr = Some (userID, key) \<and> wdb w1 = wdb w"
      by (auto simp: pool_ok dest!: GetOrderByUserIdempotency_ok)
    with rest Inr show ?thesis by (intro known[of ordr w1]) auto
  next
    case (Inl x)
    with rest have x: "x = ErrNoRows" by (auto simp: raise_ok split: if_splits)
    with look Inl have none: "ordersWithKey (wdb w) userID key = []" and w1: "wdb w1 = wdb w"
      by (auto simp: pool_def GetOrderByUserIdempotency_eq split: fault.splits sum.splits list.splits)
    then have "bnd others (\<lambda>_. bnd (in_tx body) (\<lambda>placed. case placed of Some ordr \<Rightarrow> ret ordr
        | None \<Rightarrow> bnd (pool (GetOrderByUserIdempotency userID (Some key))) known)) e w1 = (Inr v, w')"
      using rest Inl x by simp
    then obtain u w2 w3 o' where ow: "others e w1 = (Inr u, w2)" and tx: "in_tx body e w2 = (Inr o', w3)"
      and last: "(case o' of Some ordr \<Rightarrow> ret ordr
        | None \<Rightarrow> bnd (pool (GetOrderByUserIdempotency userID (Some key))) known) e w3 = (Inr v, w')"
      by (elim bndE) blast
    from ow have w2: "wdb w2 = concurrent e (wdb w)" by (simp add: others_ok w1)
    show ?thesis
    proof (cases o')
      case None
      with tx body have w3: "wdb w3 = concurrent e (wdb w)" by (auto simp: in_tx_ok w2)
      from last None obtain ordr w4 where "pool (GetOrderByUserIdempotency userID (Some key)) e w3 = (Inr ordr, w4)"
        and k: "known ordr e w4 = (Inr v, w')" by (auto elim: bndE)
      then have "ordr \<in> set (orders (wdb w4)) \<and> orderUserKey ordr = Some (userID, key) \<and> wdb w4 = wdb w3"
        by (auto simp: pool_ok dest!: GetOrderByUserIdempotency_ok)
      with k w3 show ?thesis by (intro known[of ordr w4]) auto
    next
      case (Some ordr)
      with last tx none w2 placed show ?thesis by (auto simp: ret_ok)
    qed
  qed
qed

lemma placeOrder_commits: "placeOrder dr e w = (Inr (Commit r), w') \<Longrightarrow> r \<noteq> None"
  by (erule placeOrder_cases) auto

lemma createTx_commits:
  "createOrderTx userID planID quantity key e w = (Inr (Commit r), w') \<Longrightarrow> r \<noteq> None"
  "createRenewalTx userID subscriptionID key e w = (Inr (Commit r), w') \<Longrightarrow> r \<noteq> None"
  by (auto elim!: createOrderTx_ok createRenewalTx_ok dest: placeOrder_commits)

lemma CreateOrder_cases:
  assumes run: "CreateOrder userID planID quantity key e w = (Inr v, w')"
  obtains (known) ordr w1 where "ordr \<in> set (orders (wdb w1))" "orderUserKey ordr = Some (userID, key)"
      "existingPurchase ordr e w1 = (Inr v, w')" "wdb w1 = wdb w \<or> wdb w1 = concurrent e (wdb w)"
  | (placed) w1 where "ordersWithKey (wdb w) userID key = []" "wdb w1 = concurrent e (wdb w)"
      "in_tx (createOrderTx userID planID quantity key) e w1 = (Inr (Some v), w')"
  by (rule lookup_or_place[OF run[unfolded CreateOrder_def]], erule createTx_commits(1)) (rule known placed; assumption)+

lemma CreateRenewalOrder_cases:
  assumes run: "CreateRenewalOrder userID subscriptionID key e w = (Inr v, w')"
  obtains (known) ordr w1 where "ordr \<in> set (orders (wdb w1))" "orderUserKey ordr = Some (userID, key)"
      "existingRenewal subscriptionID ordr e w1 = (Inr v, w')" "wdb w1 = wdb w \<or> wdb w1 = concurrent e (wdb w)"
  | (placed) w1 where "ordersWithKey (wdb w) userID key = []" "wdb w1 = concurrent e (wdb w)"
      "in_tx (createRenewalTx userID subscriptionID key) e w1 = (Inr (Some v), w')"
  by (rule lookup_or_place[OF run[unfolded CreateRenewalOrder_def]], erule createTx_commits(2)) (rule known placed; assumption)+

lemma CreateOrder_answers:
  assumes run: "CreateOrder userID planID quantity key e w = (Inr v, w')"
  shows "answers (wdb w') userID key ''purchase'' None v"
  using run
proof (cases rule: CreateOrder_cases)
  case (known ordr w1)
  then show ?thesis by (auto intro: existingPurchase_answers)
next
  case (placed w1)
  from placed(3) obtain plan where "placed e (purchaseDraft e userID plan quantity key) (wdb w1) (wdb w') v"
    by (rule in_tx_createOrder_ok)
  from placed_answers[OF this] show ?thesis by (simp add: purchaseDraft_def Let_def)
qed

lemma price_fits:
  assumes "\<not> (price > 0 \<and> quantity > maxInt64 div price)" "0 \<le> price" "1 \<le> quantity"
  shows "int64 (price * quantity)"
proof (cases "price = 0")
  case False
  with assms have "quantity \<le> maxInt64 div price" by simp
  then have "price * quantity \<le> price * (maxInt64 div price)" using assms(2) by (rule mult_left_mono)
  also have "\<dots> \<le> maxInt64" 
    using minus_mod_eq_mult_div[of maxInt64 price] pos_mod_sign[of price maxInt64] False assms(2) by linarith
  finally have "price * quantity \<le> maxInt64" .
  moreover have "0 \<le> price * quantity" using assms(2,3) by simp
  ultimately show ?thesis unfolding int64_def maxInt64_def by linarith
qed (simp add: int64_def)

text \<open>Purchases are retryable under their key.\<close>

definition purchaseOnRecord :: "uuid \<Rightarrow> string \<Rightarrow> db \<Rightarrow> orderRow \<times> paymentRow \<Rightarrow> bool" where
  "purchaseOnRecord userID key d r \<longleftrightarrow> fst r \<in> set (orders d) \<and> orderUserKey (fst r) = Some (userID, key) \<and>
     o_kind (fst r) = ''purchase'' \<and> o_subscription_id (fst r) = None \<and>
     snd r \<in> set (payments d) \<and> p_order_id (snd r) = o_id (fst r)"

definition orderView :: "db \<Rightarrow> orderRow \<times> paymentRow \<Rightarrow> Order \<Rightarrow> bool" where
  "orderView d r v \<longleftrightarrow> v = viewOf (fst r) (snd r)"

interpretation purchase: retryable billingInv "purchaseOnRecord userID key" orderView
  "CreateOrder userID planID quantity key" "CreateOrder userID planID quantity key"
  for userID planID quantity key
proof unfold_locales
  show "keeps billingInv (CreateOrder userID planID quantity key)"
    by (rule keeps_CreateOrder(1)) (rule billingInv_placed)
next
  fix e w v w'
  assume "CreateOrder userID planID quantity key e w = (Inr v, w')"
  from CreateOrder_answers[OF this] show "\<exists>r. purchaseOnRecord userID key (wdb w') r \<and> orderView (wdb w') r v"
    by (auto simp: answers_def purchaseOnRecord_def orderView_def)
next
  fix w :: world and r v and e :: env
  assume inv: "billingInv (wdb w)" and r: "purchaseOnRecord userID key (wdb w) r" and v: "orderView (wdb w) r v"
    and quiet: "\<And>n. faults e n = NoFault"
  from r obtain p where p: "p \<in> set (payments (wdb w))" "p_order_id p = o_id (fst r)"
    "CreateOrder userID planID quantity key e w = (Inr (viewOf (fst r) p), tick (tick w))"
    using CreateOrder_existing[OF inv, of e "fst r" userID key] quiet by (auto simp: purchaseOnRecord_def)
  have "p = snd r"
    using inv p(1,2) r by (auto simp: billingInv_def billingKeys_def purchaseOnRecord_def distinct_map inj_on_def)
  with p(3) v show "\<exists>w'. CreateOrder userID planID quantity key e w = (Inr v, w') \<and> wdb w' = wdb w"
    by (simp add: orderView_def)
qed

section \<open>Properties\<close>

lemma CreateRenewalOrder_conflict:
  assumes inv: "billingInv (wdb w)" and q: "\<forall>n. faults e n = NoFault"
    and ordr: "ordr \<in> set (orders (wdb w))" "orderUserKey ordr = Some (userID, key)" "o_kind ordr = ''purchase''"
  shows "\<exists>w'. CreateRenewalOrder userID subscriptionID key e w = (Inl ErrIdempotencyConflict, w') \<and> wdb w' = wdb w"
  using pool_key_quiet[OF q ordersWithKey_single[OF inv ordr(1,2)]] ordr(3)
  by (simp add: CreateRenewalOrder_def bnd_def attempt_def existingRenewal_def raise_def)

text \<open>
  C7: a purchase may be retried under its idempotency key. Whatever happened before (the first call
  inserted the order, found it, or lost a race), once a call has succeeded there is exactly one order
  under the customer's key, the one in the answer; repeating the request gives the same order and
  payment and writes nothing; and using the key for a renewal, of whatever subscription, is
  refused as a conflict and writes nothing.
\<close>

theorem CreateOrder_retry:
  assumes inv: "billingInv (wdb w)" "\<And>d. billingInv d \<Longrightarrow> billingInv (concurrent e d)"
    and run: "CreateOrder userID planID quantity key e w = (Inr v, w1)"
    and quiet: "\<forall>n. faults e2 n = NoFault"
  shows "(\<exists>ordr. filter (\<lambda>r. o_user_id r = userID \<and> o_idempotency_key r = Some key) (orders (wdb w1)) = [ordr] \<and>
      o_kind ordr = ''purchase'' \<and> Order_ID v = o_id ordr) \<and>
    (\<exists>w2. CreateOrder userID planID quantity key e2 w1 = (Inr v, w2) \<and> wdb w2 = wdb w1) \<and>
    (\<exists>w2. CreateRenewalOrder userID subscriptionID key e2 w1 = (Inl ErrIdempotencyConflict, w2) \<and> wdb w2 = wdb w1)"
proof (intro conjI)
  have inv1: "billingInv (wdb w1)"
    by (rule keepsD[OF purchase.keeps_perform run inv])
  from CreateOrder_answers[OF run] obtain ordr where ordr: "ordr \<in> set (orders (wdb w1))" "orderUserKey ordr = Some (userID, key)"
    "o_kind ordr = ''purchase''" "Order_ID v = o_id ordr" by (auto simp: answers_def viewOf_def)
  have "(\<lambda>r. o_user_id r = userID \<and> o_idempotency_key r = Some key) = (\<lambda>r. orderUserKey r = Some (userID, key))"
    by (auto simp: orderUserKey_def fun_eq_iff split: option.splits)
  with ordersWithKey_single[OF inv1 ordr(1,2)] ordr(3,4)
  show "\<exists>ordr. filter (\<lambda>r. o_user_id r = userID \<and> o_idempotency_key r = Some key) (orders (wdb w1)) = [ordr] \<and>
      o_kind ordr = ''purchase'' \<and> Order_ID v = o_id ordr"
    by (auto simp: ordersWithKey_def)
  show "\<exists>w2. CreateOrder userID planID quantity key e2 w1 = (Inr v, w2) \<and> wdb w2 = wdb w1"
    using purchase.retry_same[OF inv run] quiet by blast
  show "\<exists>w2. CreateRenewalOrder userID subscriptionID key e2 w1 = (Inl ErrIdempotencyConflict, w2) \<and> wdb w2 = wdb w1"
    by (rule CreateRenewalOrder_conflict[OF inv1 quiet ordr(1-3)])
qed

lemma billingInv_db0: "billingInv db0"
  by (simp add: billingInv_def billingKeys_def db0_def emptyDb_def uniq_def)

lemma sample_order: "succeeded (CreateOrder 1 3 2 ''key-00000001'' env0 world0)"
  by code_simp

theorem CreateOrder_retry_witness:
  "\<exists>v w1. CreateOrder 1 3 2 ''key-00000001'' env0 world0 = (Inr v, w1) \<and>
     (\<exists>w2. CreateOrder 1 3 2 ''key-00000001'' env0 w1 = (Inr v, w2) \<and> wdb w2 = wdb w1) \<and>
     (\<exists>w2. CreateRenewalOrder 1 9 ''key-00000001'' env0 w1 = (Inl ErrIdempotencyConflict, w2) \<and> wdb w2 = wdb w1)"
proof -
  from sample_order obtain v w1 where run: "CreateOrder 1 3 2 ''key-00000001'' env0 world0 = (Inr v, w1)"
    by (rule succeededE)
  have "billingInv (wdb world0)" by (simp add: world0_def billingInv_db0)
  from CreateOrder_retry[OF this _ run, of env0 9] run show ?thesis by (simp add: env0_def)
qed

text \<open>
  C6: a new order is priced exactly. With a key that is not in use the service writes one order, one
  item, one invoice with one line and one payment; all carry price times quantity, computed without
  64-bit overflow, in the plan's currency, and the quantity is between 1 and 100.
\<close>

theorem CreateOrder_exact:
  assumes run: "CreateOrder_svc userID planID quantity key e w = (Inr v, w')"
    and d: "d = concurrent e (wdb w)"
    and fresh: "ordersWithKey (wdb w) userID key = []" "ordersWithKey d userID key = []"
    and prices: "\<forall>q\<in>set (plans d). 0 \<le> plan_price_minor q"
  shows "\<exists>q ordr item invc line p. q \<in> set (plans d) \<and> plan_id q = planID \<and> plan_status q = ''active'' \<and>
     1 \<le> quantity \<and> quantity \<le> 100 \<and> int64 (plan_price_minor q * quantity) \<and>
     wdb w' = d\<lparr>orders := orders d @ [ordr], order_items := order_items d @ [item], invoices := invoices d @ [invc],
       invoice_items := invoice_items d @ [line], payments := payments d @ [p]\<rparr> \<and>
     o_total_minor ordr = plan_price_minor q * quantity \<and> oi_total_minor item = plan_price_minor q * quantity \<and>
     inv_amount_minor invc = plan_price_minor q * quantity \<and> ii_total_minor line = plan_price_minor q * quantity \<and>
     p_amount_minor p = plan_price_minor q * quantity \<and> oi_quantity item = quantity \<and>
     o_currency ordr = plan_currency q \<and> inv_currency invc = plan_currency q \<and> p_currency p = plan_currency q \<and>
     p_order_id p = o_id ordr \<and> inv_order_id invc = Some (o_id ordr) \<and> oi_order_id item = o_id ordr \<and>
     orderUserKey ordr = Some (userID, key) \<and> v = viewOf ordr p"
proof -
  from run have run: "CreateOrder userID planID quantity key e w = (Inr v, w')" and q: "1 \<le> quantity" "quantity \<le> 100"
    by (auto simp: CreateOrder_svc_def raise_ok split: if_splits)
  have no_order: "ordr \<notin> set (orders x)" if "ordersWithKey x userID key = []" "orderUserKey ordr = Some (userID, key)" for x ordr
    using that by (auto simp: ordersWithKey_def filter_empty_conv)
  from run obtain w1 where w1: "wdb w1 = d" and tx: "in_tx (createOrderTx userID planID quantity key) e w1 = (Inr (Some v), w')"
    by (cases rule: CreateOrder_cases) (use fresh no_order d in auto)
  from tx obtain plan where plan: "GetPlanForOrder planID e d = Inr (plan, d)"
    "\<not> (plan_price_minor (cat_plan plan) > 0 \<and> quantity > maxInt64 div plan_price_minor (cat_plan plan))"
    and pl: "placed e (purchaseDraft e userID plan quantity key) d (wdb w') v"
    by (rule in_tx_createOrder_ok) (simp add: w1)
  let ?q = "cat_plan plan" and ?dr = "purchaseDraft e userID plan quantity key"
  have row: "?q \<in> set (plans d)" "plan_id ?q = planID" "plan_status ?q = ''active''"
    using plan(1) by (auto simp: GetPlanForOrder_def selectOne_ok split: if_splits dest!: one_Inr_in)
  have price: "0 \<le> plan_price_minor ?q" using prices row(1) by auto
  have fits: "int64 (plan_price_minor ?q * quantity)"
    using plan(2) price q(1) by (rule price_fits)
  then have total: "dr_Total ?dr = plan_price_minor ?q * quantity" "dr_Quantity ?dr = quantity" "dr_Currency ?dr = plan_currency ?q"
      "dr_UserID ?dr = userID" "dr_Key ?dr = Some key"
    by (simp_all add: purchaseDraft_def Let_def)
  note rows = draftOrder_def draftItem_def draftInvoice_def draftInvoiceItem_def draftPayment_def draftView_def
  from pl obtain orderID invoiceID paymentID itemID lineID where
    d': "wdb w' = d\<lparr>orders := orders d @ [draftOrder e ?dr orderID], order_items := order_items d @ [draftItem e ?dr itemID orderID],
        invoices := invoices d @ [draftInvoice e ?dr invoiceID orderID],
        invoice_items := invoice_items d @ [draftInvoiceItem e ?dr lineID invoiceID],
        payments := payments d @ [draftPayment e ?dr paymentID orderID]\<rparr>"
    and v: "v = draftView e ?dr orderID paymentID" unfolding placed_def by blast
  show ?thesis
    by (intro exI[of _ ?q] exI[of _ "draftOrder e ?dr orderID"] exI[of _ "draftItem e ?dr itemID orderID"]
        exI[of _ "draftInvoice e ?dr invoiceID orderID"] exI[of _ "draftInvoiceItem e ?dr lineID invoiceID"]
        exI[of _ "draftPayment e ?dr paymentID orderID"] conjI row q fits d')
      (simp_all add: rows total orderUserKey_def viewOf_def v)
qed

theorem CreateOrder_exact_witness:
  "\<exists>v w'. CreateOrder_svc 1 3 2 ''key-00000001'' env0 world0 = (Inr v, w') \<and> Order_TotalMinor v = 2598"
proof -
  from sample_order obtain v w' where run: "CreateOrder 1 3 2 ''key-00000001'' env0 world0 = (Inr v, w')"
    by (rule succeededE)
  then have svc: "CreateOrder_svc 1 3 2 ''key-00000001'' env0 world0 = (Inr v, w')"
    by (simp add: CreateOrder_svc_def validKey_def)
  have "ordersWithKey db0 1 ''key-00000001'' = []" by (simp add: ordersWithKey_def db0_def emptyDb_def)
  then have "\<exists>q p ordr. q \<in> set (plans db0) \<and> o_total_minor ordr = plan_price_minor q * 2 \<and> v = viewOf ordr p"
    using CreateOrder_exact[OF svc, of db0] by (auto simp: world0_def env0_def db0_def plan0_def)
  then show ?thesis using svc by (auto simp: viewOf_def db0_def plan0_def)
qed

end
