(* ===== verification/Settlement.thy ===== *)
theory Settlement
  imports Orders
begin

text \<open>
  Properties of \<open>CompletePayment\<close>: all or nothing under every pattern of driver faults, the exact
  effect of a capture, replays and rejections, the extension of a renewed subscription.
\<close>

section \<open>All or nothing\<close>

text \<open>The receipt of a callback that was processed.\<close>

definition processedReceipt :: "env \<Rightarrow> uuid \<Rightarrow> Webhook \<Rightarrow> json \<Rightarrow> receiptRow" where
  "processedReceipt e rowID event payload = (newReceipt e rowID event payload)\<lparr>rc_processed_at := Some (pgNow e)\<rparr>"

lemma processed_receipts:
  assumes "\<not> present rc_id rowID (receipts d)"
  shows "sqlUpdate (\<lambda>r. rc_id r = rowID) (\<lambda>r. r\<lparr>rc_processed_at := Some (pgNow e)\<rparr>)
      (receipts d @ [newReceipt e rowID event payload]) = receipts d @ [processedReceipt e rowID event payload]"
proof -
  have "\<forall>r\<in>set (receipts d). rc_id r \<noteq> rowID" using assms by (auto simp: present_iff)
  then show ?thesis by (simp add: sqlUpdate_none processedReceipt_def newReceipt_def)
qed

text \<open>The database after a capture: everything a captured payment changes, and nothing else.\<close>

definition captured :: "env \<Rightarrow> Webhook \<Rightarrow> json \<Rightarrow> paymentRow \<Rightarrow> orderRow \<Rightarrow> invoiceRow \<Rightarrow> db \<Rightarrow> db \<Rightarrow> bool" where
  "captured e event payload p ordr i d d' \<longleftrightarrow> (\<exists>rowID tx id1 id2 outboxID news.
     d' = d\<lparr>
       payments := sqlUpdate (\<lambda>r. p_id r = p_id p) (paidPayment e event payload) (payments d),
       orders := sqlUpdate (\<lambda>r. o_id r = o_id ordr) (paidOrder e) (orders d),
       invoices := sqlUpdate (\<lambda>r. inv_id r = inv_id i) (paidInvoice e) (invoices d),
       subscriptions := (case inv_subscription_id i of None \<Rightarrow> subscriptions d
         | Some subID \<Rightarrow> sqlUpdate (\<lambda>s. s_id s = subID) (renewSubscription e (goNow e)) (subscriptions d)),
       ledger_transactions := ledger_transactions d @ [captureTx e tx (p_id p)],
       ledger_entries := ledger_entries d @
         [\<lparr>le_id = id1, le_transaction_id = tx, le_account_type = ''gateway_cash'', le_account_id = p_id p,
           le_direction = ''debit'', le_amount_minor = p_amount_minor p, le_currency = p_currency p, le_created_at = pgNow e\<rparr>,
          \<lparr>le_id = id2, le_transaction_id = tx, le_account_type = ''accounts_receivable'', le_account_id = inv_id i,
           le_direction = ''credit'', le_amount_minor = p_amount_minor p, le_currency = p_currency p, le_created_at = pgNow e\<rparr>],
       outbox_events := outbox_events d @ newOutboxEvent e outboxID ''payment.succeeded.v1'' ''payment'' (p_id p)
         (paymentEvent e outboxID (lockedOf p ordr i) event) # news,
       receipts := receipts d @ [processedReceipt e rowID event payload]\<rparr> \<and>
     (\<forall>r\<in>set news. ob_event_type r = ''subscription.renewed.v1'' \<and> Some (ob_aggregate_id r) = inv_subscription_id i) \<and>
     length news = (case inv_subscription_id i of None \<Rightarrow> 0 | Some _ \<Rightarrow> 1))"

text \<open>The rows a callback is about.\<close>

definition subject_of :: "db \<Rightarrow> Webhook \<Rightarrow> paymentRow \<Rightarrow> orderRow \<Rightarrow> invoiceRow \<Rightarrow> bool" where
  "subject_of d event p ordr i \<longleftrightarrow> p \<in> set (payments d) \<and> p_id p = PaymentID event \<and> p_gateway p = fakeGateway \<and>
     ordr \<in> set (orders d) \<and> o_id ordr = p_order_id p \<and> i \<in> set (invoices d) \<and> inv_order_id i = Some (o_id ordr)"

lemma captureEffect_captured:
  assumes "capturePayment rowID (lockedOf p ordr i) event payload e w1 = (Inr r, w')"
    and "wdb w1 = (wdb w)\<lparr>receipts := receipts (wdb w) @ [newReceipt e rowID event payload]\<rparr>"
    and "\<not> present rc_id rowID (receipts (wdb w))"
    and "p_amount_minor p = AmountMinor event" and "o_id ordr = p_order_id p"
  shows "captured e event payload p ordr i (wdb w) (wdb w') \<and>
     r = Commit \<lparr>pr_PaymentID = p_id p, pr_OrderID = o_id ordr, pr_Duplicate = False\<rparr>"
  using assms(1)
proof (rule capturePayment_ok)
  fix tx id1 id2 outboxID news
  assume r: "r = Commit \<lparr>pr_PaymentID = lk_payment_id (lockedOf p ordr i), pr_OrderID = lk_order_id (lockedOf p ordr i),
      pr_Duplicate = False\<rparr>"
    and eff: "wdb w' = captureEffect e rowID (lockedOf p ordr i) event payload tx id1 id2
      (newOutboxEvent e outboxID ''payment.succeeded.v1'' ''payment'' (lk_payment_id (lockedOf p ordr i))
        (paymentEvent e outboxID (lockedOf p ordr i) event) # news) (wdb w1)"
    and len: "length news = (case lk_subscription_id (lockedOf p ordr i) of None \<Rightarrow> 0 | Some _ \<Rightarrow> 1)"
    and news: "\<forall>r\<in>set news. ob_event_type r = ''subscription.renewed.v1'' \<and> ob_status r = ''pending'' \<and>
      Some (ob_aggregate_id r) = lk_subscription_id (lockedOf p ordr i)"
  have "captured e event payload p ordr i (wdb w) (wdb w')"
    unfolding captured_def
  proof (intro exI conjI)
    show "\<forall>r\<in>set news. ob_event_type r = ''subscription.renewed.v1'' \<and> Some (ob_aggregate_id r) = inv_subscription_id i"
      "length news = (case inv_subscription_id i of None \<Rightarrow> 0 | Some _ \<Rightarrow> 1)"
      using news len by (simp_all add: lockedOf_def)
  qed (simp add: eff captureEffect_def assms(2,4,5) processed_receipts[OF assms(3)] renewedRows_def
      entryOf_def captureEntries_def lockedOf_def del: sqlUpdate_append cong: option.case_cong)
  with r show ?thesis using assms(5) by (simp add: lockedOf_def)
qed

text \<open>The three ways a completed run can end, over the rows themselves.\<close>

lemma completePaymentTx_result:
  assumes "completePaymentTx event payload e w = (Inr r, w')"
  obtains (replay) p ordr i where "recorded (wdb w) event" "sameReceipt (wdb w) event payload" "subject_of (wdb w) event p ordr i"
      "r = Rollback \<lparr>pr_PaymentID = p_id p, pr_OrderID = o_id ordr, pr_Duplicate = True\<rparr>" "wdb w' = wdb w"
  | (settled) p ordr i rowID where "\<not> recorded (wdb w) event" "subject_of (wdb w) event p ordr i"
      "p_amount_minor p = AmountMinor event" "p_currency p = ToUpper (Currency event)"
      "p_status p = ''succeeded''" "p_gateway_payment_id p = Some (ExternalPaymentID event)"
      "r = Commit \<lparr>pr_PaymentID = p_id p, pr_OrderID = o_id ordr, pr_Duplicate = True\<rparr>"
      "wdb w' = (wdb w)\<lparr>receipts := receipts (wdb w) @ [processedReceipt e rowID event payload]\<rparr>"
  | (capture) p ordr i where "\<not> recorded (wdb w) event" "subject_of (wdb w) event p ordr i"
      "p_amount_minor p = AmountMinor event" "p_currency p = ToUpper (Currency event)"
      "p_status p \<in> {''pending'', ''processing''}"
      "r = Commit \<lparr>pr_PaymentID = p_id p, pr_OrderID = o_id ordr, pr_Duplicate = False\<rparr>"
      "captured e event payload p ordr i (wdb w) (wdb w')"
proof -
  have subj: "\<exists>p ordr i. subject_of (wdb w) event p ordr i \<and> locked = lockedOf p ordr i"
    if "one (lockedRows (wdb w) (PaymentID event)) = Inr locked" for locked
    using lockedRowsE[OF that] unfolding subject_of_def by metis
  from assms show ?thesis
  proof (cases rule: completePaymentTx_cases)
    case (replay locked)
    from subj[OF replay(3)] obtain p ordr i where s: "subject_of (wdb w) event p ordr i" "locked = lockedOf p ordr i" by blast
    show ?thesis
      by (rule that(1)[OF replay(1,2) s(1) _ replay(5)]) (use replay(4) s in \<open>simp add: lockedOf_def subject_of_def\<close>)
  next
    case (settled locked w1 rowID)
    from subj[OF settled(4)] obtain p ordr i where s: "subject_of (wdb w) event p ordr i" "locked = lockedOf p ordr i" by blast
    have rc: "wdb w' = (wdb w)\<lparr>receipts := receipts (wdb w) @ [processedReceipt e rowID event payload]\<rparr>"
      using processed_receipts[OF settled(2), of e event payload]
      by (simp add: settled(10) settled(3) del: sqlUpdate_append)
    show ?thesis
      by (rule that(2)[OF settled(1) s(1) _ _ _ _ _ rc]) (use settled(5-9) s in \<open>simp_all add: lockedOf_def subject_of_def\<close>)
  next
    case (capture locked w1 rowID)
    from subj[OF capture(4)] obtain p ordr i where s: "subject_of (wdb w) event p ordr i" "locked = lockedOf p ordr i" by blast
    have fields: "p_amount_minor p = AmountMinor event" "p_currency p = ToUpper (Currency event)"
      "p_status p \<in> {''pending'', ''processing''}" "o_id ordr = p_order_id p"
      using capture(5-7) s by (simp_all add: lockedOf_def subject_of_def)
    from captureEffect_captured[OF capture(8)[unfolded s(2)] capture(3,2) fields(1,4)]
    show ?thesis using that(3)[OF capture(1) s(1) fields(1-3)] by blast
  qed
qed

text \<open>
  C1: completing a payment is all or nothing. Whatever statement the driver loses, at \<open>BEGIN\<close>, in the
  middle or at \<open>COMMIT\<close> (even when the server committed and the client saw an error), the database is
  the one before, or has one more receipt of a payment that was captured already, or shows the whole
  capture. An error other than the driver's leaves the database as it was.
\<close>

theorem CompletePayment_atomic:
  assumes run: "CompletePayment event payload e w = (r, w')"
  shows "(wdb w' = wdb w \<or>
      (\<exists>p ordr i rowID. subject_of (wdb w) event p ordr i \<and> p_status p = ''succeeded'' \<and>
         wdb w' = (wdb w)\<lparr>receipts := receipts (wdb w) @ [processedReceipt e rowID event payload]\<rparr>) \<or>
      (\<exists>p ordr i. subject_of (wdb w) event p ordr i \<and> p_status p \<in> {''pending'', ''processing''} \<and>
         captured e event payload p ordr i (wdb w) (wdb w'))) \<and>
    (\<forall>x. r = Inl x \<longrightarrow> x \<noteq> ErrDriver \<longrightarrow> wdb w' = wdb w)"
proof
  from in_tx_atomic[OF run[unfolded CompletePayment_def]]
  show "wdb w' = wdb w \<or>
      (\<exists>p ordr i rowID. subject_of (wdb w) event p ordr i \<and> p_status p = ''succeeded'' \<and>
         wdb w' = (wdb w)\<lparr>receipts := receipts (wdb w) @ [processedReceipt e rowID event payload]\<rparr>) \<or>
      (\<exists>p ordr i. subject_of (wdb w) event p ordr i \<and> p_status p \<in> {''pending'', ''processing''} \<and>
         captured e event payload p ordr i (wdb w) (wdb w'))"
  proof (elim disjE exE conjE)
    fix x w2
    assume body: "completePaymentTx event payload e (tick w) = (Inr (Commit x), w2)" and w': "wdb w' = wdb w2"
    from body show ?thesis
    proof (cases rule: completePaymentTx_result)
      case (settled p ordr i rowID)
      with w' show ?thesis by (metis tick_simps(1))
    next
      case (capture p ordr i)
      with w' show ?thesis by (metis tick_simps(1))
    qed simp
  qed simp
  show "\<forall>x. r = Inl x \<longrightarrow> x \<noteq> ErrDriver \<longrightarrow> wdb w' = wdb w"
    using run unfolding CompletePayment_def by (auto elim: in_tx_Inl_cases)
qed

section \<open>The capture\<close>

lemma CompletePayment_new:
  assumes run: "CompletePayment event payload e w = (Inr res, w')" and new: "\<not> pr_Duplicate res"
  obtains p ordr i where "subject_of (wdb w) event p ordr i" "p_amount_minor p = AmountMinor event"
    "p_currency p = ToUpper (Currency event)" "p_status p \<in> {''pending'', ''processing''}"
    "res = \<lparr>pr_PaymentID = p_id p, pr_OrderID = o_id ordr, pr_Duplicate = False\<rparr>"
    "captured e event payload p ordr i (wdb w) (wdb w')"
proof -
  from run obtain w2 r where body: "completePaymentTx event payload e (tick w) = (Inr r, w2)"
    and r: "r = Commit res \<and> wdb w' = wdb w2 \<or> r = Rollback res"
    by (auto simp: CompletePayment_def in_tx_ok)
  from body show ?thesis
  proof (cases rule: completePaymentTx_result)
    case (capture p ordr i)
    with r that show ?thesis by simp
  qed (use r new in auto)
qed

lemma billed_subject:
  assumes inv: "billingInv d" and s: "subject_of d event p ordr i"
  shows "billed d p ordr i"
proof -
  from inv s obtain o' i' where r: "o' \<in> set (orders d)" "i' \<in> set (invoices d)" "billed d p o' i'"
    by (auto simp: billingInv_def subject_of_def)
  with s have "o_id o' = o_id ordr" "inv_order_id i' = inv_order_id i" by (auto simp: billed_def subject_of_def)
  moreover have "distinct (map o_id (orders d))" "uniq inv_order_id (invoices d)"
    using inv by (auto simp: billingInv_def billingKeys_def)
  moreover have "ordr \<in> set (orders d)" "i \<in> set (invoices d)" "inv_order_id i \<noteq> None"
    using s by (auto simp: subject_of_def)
  ultimately have "o' = ordr" "i' = i"
    using r(1,2) uniqD[of inv_order_id "invoices d" i' i] by (auto simp: distinct_map inj_on_def)
  with r(3) show ?thesis by simp
qed

text \<open>
  C2: a successful callback that is not a duplicate captures the money of one order exactly once. The
  payment was open and becomes succeeded, its order and invoice become paid, all three are for the
  amount and currency of the callback, and the ledger gains the one capture of this payment: a debit
  of gateway cash and a credit of the invoice's receivable for that amount.
\<close>

theorem CompletePayment_exact:
  assumes inv: "billingInv (wdb w)"
    and run: "CompletePayment event payload e w = (Inr res, w')" and new: "\<not> pr_Duplicate res"
  shows "\<exists>p ordr i tx. p \<in> set (payments (wdb w)) \<and> p_id p = PaymentID event \<and> p_status p \<noteq> ''succeeded'' \<and>
     pr_PaymentID res = p_id p \<and> pr_OrderID res = o_id ordr \<and>
     p_amount_minor p = AmountMinor event \<and> o_total_minor ordr = AmountMinor event \<and> inv_amount_minor i = AmountMinor event \<and>
     p_currency p = ToUpper (Currency event) \<and> o_currency ordr = p_currency p \<and> inv_currency i = p_currency p \<and>
     paidPayment e event payload p \<in> set (payments (wdb w')) \<and> paidOrder e ordr \<in> set (orders (wdb w')) \<and>
     paidInvoice e i \<in> set (invoices (wdb w')) \<and>
     captures (wdb w) (p_id p) = 0 \<and> captures (wdb w') (p_id p) = 1 \<and>
     map (\<lambda>r. (le_transaction_id r, le_account_type r, le_account_id r, le_direction r, le_amount_minor r, le_currency r))
       (drop (length (ledger_entries (wdb w))) (ledger_entries (wdb w'))) =
     [(tx, ''gateway_cash'', p_id p, ''debit'', AmountMinor event, p_currency p),
      (tx, ''accounts_receivable'', inv_id i, ''credit'', AmountMinor event, p_currency p)]"
proof -
  from run new obtain p ordr i where s: "subject_of (wdb w) event p ordr i" and amount: "p_amount_minor p = AmountMinor event"
    and cur: "p_currency p = ToUpper (Currency event)" and st: "p_status p \<in> {''pending'', ''processing''}"
    and res: "res = \<lparr>pr_PaymentID = p_id p, pr_OrderID = o_id ordr, pr_Duplicate = False\<rparr>"
    and cap: "captured e event payload p ordr i (wdb w) (wdb w')"
    by (rule CompletePayment_new)
  from billed_subject[OF inv s] have b: "billed (wdb w) p ordr i" .
  from cap obtain rowID tx id1 id2 outboxID news where
    d': "payments (wdb w') = sqlUpdate (\<lambda>r. p_id r = p_id p) (paidPayment e event payload) (payments (wdb w))"
      "orders (wdb w') = sqlUpdate (\<lambda>r. o_id r = o_id ordr) (paidOrder e) (orders (wdb w))"
      "invoices (wdb w') = sqlUpdate (\<lambda>r. inv_id r = inv_id i) (paidInvoice e) (invoices (wdb w))"
      "ledger_transactions (wdb w') = ledger_transactions (wdb w) @ [captureTx e tx (p_id p)]"
      "ledger_entries (wdb w') = ledger_entries (wdb w) @
         [\<lparr>le_id = id1, le_transaction_id = tx, le_account_type = ''gateway_cash'', le_account_id = p_id p,
           le_direction = ''debit'', le_amount_minor = p_amount_minor p, le_currency = p_currency p, le_created_at = pgNow e\<rparr>,
          \<lparr>le_id = id2, le_transaction_id = tx, le_account_type = ''accounts_receivable'', le_account_id = inv_id i,
           le_direction = ''credit'', le_amount_minor = p_amount_minor p, le_currency = p_currency p, le_created_at = pgNow e\<rparr>]"
    unfolding captured_def by auto
  have "captures (wdb w') (p_id p) = captures (wdb w) (p_id p) + 1"
    by (simp add: captures_def d'(4) captureOf_def captureTx_def)
  moreover have "captures (wdb w) (p_id p) = 0" using b st by (auto simp: billed_def)
  ultimately show ?thesis
    using s b amount cur st res
    by (intro exI[of _ p] exI[of _ ordr] exI[of _ i] exI[of _ tx])
      (auto simp: d' set_sqlUpdate subject_of_def billed_def)
qed

section \<open>Replays and rejections\<close>

text \<open>The decision table of \<open>CompletePayment\<close> over the rows it reads.\<close>

definition rejection :: "db \<Rightarrow> Webhook \<Rightarrow> json \<Rightarrow> err option" where
  "rejection d event payload =
    (case filter (\<lambda>r. rc_gateway r = fakeGateway \<and> rc_external_event_id r = EventID event) (receipts d) of
      receipt # _ \<Rightarrow> if \<not> equalJSON (rc_payload receipt) payload then Some ErrPaymentMismatch
        else if lockedRows d (PaymentID event) = [] then Some ErrPaymentNotFound else None
    | [] \<Rightarrow> (case lockedRows d (PaymentID event) of
        [] \<Rightarrow> Some ErrPaymentNotFound
      | l # _ \<Rightarrow>
          if lk_payment_amount_minor l \<noteq> AmountMinor event \<or> lk_payment_currency l \<noteq> ToUpper (Currency event)
          then Some ErrPaymentMismatch
          else if lk_payment_status l = ''succeeded''
          then (if lk_gateway_payment_id l = Some (ExternalPaymentID event) then None else Some ErrPaymentMismatch)
          else if lk_payment_status l \<in> {''pending'', ''processing''} then None else Some ErrPaymentState))"

lemma exec_quiet:
  "faults e (wstmts w) = NoFault \<Longrightarrow> exec q e w = (case q e (wdb w) of
     Inl x \<Rightarrow> (Inl x, tick w) | Inr (x, d) \<Rightarrow> (Inr x, (tick w)\<lparr>wdb := d\<rparr>))"
  by (simp add: exec_def)

lemma lockPayment_quiet:
  "faults e (wstmts w) = NoFault \<Longrightarrow> lockPayment event e w = (case lockedRows (wdb w) (PaymentID event) of
     [] \<Rightarrow> (Inl ErrPaymentNotFound, tick w) | l # _ \<Rightarrow> (Inr l, tick w))"
  by (simp add: lockPayment_def orNoRows_def bnd_def attempt_def exec_def LockPaymentOrderInvoice_def selectOne_def
      raise_def ret_def one_def tick_def flip: lockedRows_def split: list.splits)

lemma completePaymentTx_recorded:
  assumes q: "\<forall>n. faults e n = NoFault"
    and rc: "filter (\<lambda>r. rc_gateway r = fakeGateway \<and> rc_external_event_id r = EventID event) (receipts (wdb w)) = receipt # rest"
  shows "\<exists>w1. wdb w1 = wdb w \<and> completePaymentTx event payload e w =
    (if \<not> equalJSON (rc_payload receipt) payload then (Inl ErrPaymentMismatch, w1)
     else case lockedRows (wdb w) (PaymentID event) of
       [] \<Rightarrow> (Inl ErrPaymentNotFound, w1)
     | l # _ \<Rightarrow> (Inr (Rollback \<lparr>pr_PaymentID = lk_payment_id l, pr_OrderID = lk_order_id l, pr_Duplicate = True\<rparr>), w1))"
proof -
  have "receipt \<in> set (receipts (wdb w)) \<and> rc_gateway receipt = fakeGateway \<and> rc_external_event_id receipt = EventID event"
    using rc by (auto simp: filter_eq_Cons_iff)
  then have "recorded (wdb w) event" by blast
  then have dup: "InsertWebhookReceipt x fakeGateway (EventID event) payload e (wdb w) = Inl ErrNoRows" for x
    by (simp only: InsertWebhookReceipt_dup)
  have get: "GetWebhookReceipt fakeGateway (EventID event) e (wdb w) = Inr (receipt, wdb w)"
    by (simp add: GetWebhookReceipt_def selectOne_def one_def rc)
  show ?thesis
    by (auto simp: completePaymentTx_def replayWebhook_def bnd_def newID_def attempt_def exec_quiet q dup get raise_def ret_def
        lockPayment_quiet split: list.splits)
qed

lemma completePaymentTx_unrecorded:
  assumes q: "\<forall>n. faults e n = NoFault" and new: "\<not> recorded (wdb w) event"
    and fresh: "\<not> present rc_id (freshID e (wids w)) (receipts (wdb w))"
  shows "completePaymentTx event payload e w = settleWebhook (freshID e (wids w)) event payload e
    ((tick (w\<lparr>wids := Suc (wids w)\<rparr>))\<lparr>wdb := (wdb w)\<lparr>receipts := receipts (wdb w) @
       [newReceipt e (freshID e (wids w)) event payload]\<rparr>\<rparr>)"
proof -
  have "InsertWebhookReceipt (freshID e (wids w)) fakeGateway (EventID event) payload e (wdb w) =
      Inr (freshID e (wids w), (wdb w)\<lparr>receipts := receipts (wdb w) @ [newReceipt e (freshID e (wids w)) event payload]\<rparr>)"
    using new fresh by (simp add: InsertWebhookReceipt_ok)
  then show ?thesis
    by (simp add: completePaymentTx_def bnd_def newID_def attempt_def exec_quiet q tick_def)
qed

text \<open>
  C4: a callback that does not fit is rejected and leaves no trace, not even its receipt: an event
  identifier seen with another payload, an unknown payment, another amount or currency, a second
  external payment for a payment already captured, a payment in a state that cannot be captured.
\<close>

theorem CompletePayment_rejects:
  assumes quiet: "\<forall>n. faults e n = NoFault"
    and fresh: "\<not> present rc_id (freshID e (wids w)) (receipts (wdb w))"
    and rej: "rejection (wdb w) event payload = Some x"
  shows "\<exists>w'. CompletePayment event payload e w = (Inl x, w') \<and> wdb w' = wdb w"
proof -
  let ?rc = "filter (\<lambda>r. rc_gateway r = fakeGateway \<and> rc_external_event_id r = EventID event) (receipts (wdb w))"
  have "\<exists>w1. completePaymentTx event payload e (tick w) = (Inl x, w1)"
  proof (cases ?rc)
    case (Cons receipt rest)
    with completePaymentTx_recorded[OF quiet, of event "tick w" receipt rest payload] rej show ?thesis
      by (auto simp: rejection_def split: if_splits list.splits)
  next
    case Nil
    then have "\<not> recorded (wdb w) event" by (auto simp: filter_empty_conv)
    with completePaymentTx_unrecorded[OF quiet, of "tick w" event payload] fresh Nil rej show ?thesis
      by (auto simp: rejection_def settleWebhook_def bnd_def lockPayment_quiet quiet raise_def split: if_splits list.splits)
  qed
  with quiet show ?thesis by (auto simp: CompletePayment_def in_tx_def)
qed

lemma sameReceipt_new:
  assumes "\<not> recorded d event" "receipts d' = receipts d @ [processedReceipt e rowID event payload]"
  shows "sameReceipt d' event payload"
proof -
  have "filter (\<lambda>r. rc_gateway r = fakeGateway \<and> rc_external_event_id r = EventID event) (receipts d) = []"
    using assms(1) by (auto simp: filter_empty_conv)
  then show ?thesis
    by (simp add: sameReceipt_def assms(2) processedReceipt_def newReceipt_def equalJSON_def canonicalJSON_def)
qed

lemma CompletePayment_leaves:
  assumes run: "CompletePayment event payload e w = (Inr res, w1)"
  obtains p ordr i where "subject_of (wdb w1) event p ordr i" "sameReceipt (wdb w1) event payload"
    "pr_PaymentID res = p_id p" "pr_OrderID res = o_id ordr"
proof -
  from run obtain w2 r where body: "completePaymentTx event payload e (tick w) = (Inr r, w2)"
    and r: "r = Commit res \<and> wdb w1 = wdb w2 \<or> r = Rollback res \<and> wdb w1 = wdb w"
    by (auto simp: CompletePayment_def in_tx_ok)
  from body show ?thesis
  proof (cases rule: completePaymentTx_result)
    case (replay p ordr i)
    with r that show ?thesis by auto
  next
    case (settled p ordr i rowID)
    from settled(8) have "sameReceipt (wdb w2) event payload"
      by (intro sameReceipt_new[OF settled(1), where e = e and rowID = rowID]) simp
    moreover have "subject_of (wdb w2) event p ordr i" using settled(2,8) by (simp add: subject_of_def)
    ultimately show ?thesis using settled(7) r that by auto
  next
    case (capture p ordr i)
    from capture(7) obtain rowID where "receipts (wdb w2) = receipts (wdb w) @ [processedReceipt e rowID event payload]"
      unfolding captured_def by auto
    with capture(1) have "sameReceipt (wdb w2) event payload"
      by (intro sameReceipt_new[where d = "wdb w" and e = e and rowID = rowID]) simp_all
    moreover have "subject_of (wdb w2) event (paidPayment e event payload p) (paidOrder e ordr) (paidInvoice e i)"
      using capture(2,7) unfolding captured_def
      by (auto simp: subject_of_def set_sqlUpdate paidPayment_def paidOrder_def paidInvoice_def)
    ultimately show ?thesis
      using capture(6) r that by (auto simp: paidPayment_def paidOrder_def paidInvoice_def)
  qed
qed

lemma lockedRows_subject:
  assumes inv: "billingInv d" and s: "subject_of d event p ordr i"
  obtains l ls where "lockedRows d (PaymentID event) = l # ls" "lk_payment_id l = p_id p" "lk_order_id l = o_id ordr"
proof -
  have "lockedOf p ordr i \<in> set (lockedRows d (PaymentID event))"
    using s by (auto simp: lockedRows_def subject_of_def intro!: bexI[of _ p] bexI[of _ ordr] bexI[of _ i])
  then obtain l ls where l: "lockedRows d (PaymentID event) = l # ls" by (cases "lockedRows d (PaymentID event)") auto
  then have "one (lockedRows d (PaymentID event)) = Inr l" by (simp add: one_def)
  then obtain p' o' i' where p': "p' \<in> set (payments d)" "p_id p' = PaymentID event" "o_id o' = p_order_id p'" "l = lockedOf p' o' i'"
    by (rule lockedRowsE)
  with inv s have "p' = p" by (auto simp: billingInv_def billingKeys_def subject_of_def distinct_map inj_on_def)
  with p' s l that show ?thesis by (simp add: lockedOf_def subject_of_def)
qed

text \<open>
  C3: the gateway may deliver a callback any number of times. After a delivery succeeded, delivering
  the same event again, with a payload that is the same JSON value, is answered as a duplicate for the
  same payment and order, and the database does not change.
\<close>

theorem CompletePayment_replay:
  assumes inv: "billingInv (wdb w)" and run: "CompletePayment event payload e w = (Inr res, w1)"
    and quiet: "\<forall>n. faults e2 n = NoFault" and same: "equalJSON payload payload2"
  shows "\<exists>w2. CompletePayment event payload2 e2 w1 = (Inr (res\<lparr>pr_Duplicate := True\<rparr>), w2) \<and> wdb w2 = wdb w1"
proof -
  have inv1: "billingInv (wdb w1)"
    using inv run in_tx_atomic[OF run[unfolded CompletePayment_def]] completePaymentTx_billing[of "tick w" event payload e] by auto
  from run obtain p ordr i where s: "subject_of (wdb w1) event p ordr i" and rc: "sameReceipt (wdb w1) event payload"
    and ids: "pr_PaymentID res = p_id p" "pr_OrderID res = o_id ordr"
    by (rule CompletePayment_leaves)
  from rc obtain receipt rest where f: "filter (\<lambda>r. rc_gateway r = fakeGateway \<and> rc_external_event_id r = EventID event)
      (receipts (wdb (tick w1))) = receipt # rest" and eq: "equalJSON (rc_payload receipt) payload2"
    using same by (auto simp: sameReceipt_def equalJSON_def split: list.splits)
  from inv1 s obtain l ls where l: "lockedRows (wdb w1) (PaymentID event) = l # ls" "lk_payment_id l = p_id p" "lk_order_id l = o_id ordr"
    by (rule lockedRows_subject)
  from completePaymentTx_recorded[OF quiet f, of payload2] l eq ids
  have "\<exists>w3. completePaymentTx event payload2 e2 (tick w1) = (Inr (Rollback (res\<lparr>pr_Duplicate := True\<rparr>)), w3)"
    by auto
  with quiet show ?thesis by (auto simp: CompletePayment_def in_tx_def)
qed

section \<open>Renewal\<close>

text \<open>
  C5: capturing the payment of a renewal order extends that subscription, and no other, by one billing
  cycle: counted from the end of the running period, or from now when the period is over. It becomes
  active, loses its grace deadline and its cancellation, and, with a calendar addition that moves
  forward, ends later than before and later than now.
\<close>

theorem CompletePayment_renews:
  assumes inv: "billingInv (wdb w)" "distinct (map s_id (subscriptions (wdb w)))"
    and run: "CompletePayment event payload e w = (Inr res, w')" "\<not> pr_Duplicate res"
    and renewal: "ordr \<in> set (orders (wdb w))" "o_id ordr = pr_OrderID res" "o_subscription_id ordr = Some subID"
    and s: "s \<in> set (subscriptions (wdb w))" "s_id s = subID" "cycleMonths (s_billing_cycle s) = Some months"
    and calendar: "\<And>n t. n > 0 \<Longrightarrow> t < addMonths e n t"
  shows "\<exists>s'. s' \<in> set (subscriptions (wdb w')) \<and> s_id s' = subID \<and> s_status s' = ''active'' \<and>
      s_current_period_end s' = Some (addMonths e months (renewalBase (goNow e) s)) \<and>
      s_grace_until s' = None \<and> \<not> s_cancel_at_period_end s' \<and>
      goNow e < addMonths e months (renewalBase (goNow e) s) \<and>
      (\<forall>t. s_current_period_end s = Some t \<longrightarrow> t < addMonths e months (renewalBase (goNow e) s)) \<and>
      filter (\<lambda>x. s_id x \<noteq> subID) (subscriptions (wdb w')) = filter (\<lambda>x. s_id x \<noteq> subID) (subscriptions (wdb w))"
proof -
  from run obtain p o' i where subj: "subject_of (wdb w) event p o' i"
    and res: "res = \<lparr>pr_PaymentID = p_id p, pr_OrderID = o_id o', pr_Duplicate = False\<rparr>"
    and cap: "captured e event payload p o' i (wdb w) (wdb w')"
    by (rule CompletePayment_new)
  have "o' = ordr"
    using inv(1) subj renewal(1,2) res by (auto simp: billingInv_def billingKeys_def subject_of_def distinct_map inj_on_def)
  with billed_subject[OF inv(1) subj] renewal(3) have "inv_subscription_id i = Some subID" by (simp add: billed_def)
  with cap have subs: "subscriptions (wdb w') = sqlUpdate (\<lambda>s. s_id s = subID) (renewSubscription e (goNow e)) (subscriptions (wdb w))"
    by (auto simp: captured_def)
  have "months > 0" using s(3) by (auto simp: cycleMonths_def split: if_splits)
  from calendar[OF this, of "renewalBase (goNow e) s"] have later: "renewalBase (goNow e) s < addMonths e months (renewalBase (goNow e) s)" .
  have others: "filter (\<lambda>x. s_id x \<noteq> subID) (sqlUpdate (\<lambda>s. s_id s = subID) (renewSubscription e (goNow e)) t) =
      filter (\<lambda>x. s_id x \<noteq> subID) t" for t
    by (induction t) auto
  let ?s = "renewSubscription e (goNow e) s"
  have mem: "?s \<in> set (subscriptions (wdb w'))" using s(1,2) by (auto simp: subs set_sqlUpdate)
  have ends: "s_current_period_end ?s = Some (addMonths e months (renewalBase (goNow e) s))"
    using s(3) by (simp add: renewSubscription_def afterCycle_def)
  have flags: "s_grace_until ?s = None" "\<not> s_cancel_at_period_end ?s" by (simp_all add: renewSubscription_def)
  have base: "goNow e \<le> renewalBase (goNow e) s" "\<And>t. s_current_period_end s = Some t \<Longrightarrow> t \<le> renewalBase (goNow e) s"
    by (simp_all add: renewalBase_def split: option.splits)
  have "goNow e < addMonths e months (renewalBase (goNow e) s)"
    and "\<forall>t. s_current_period_end s = Some t \<longrightarrow> t < addMonths e months (renewalBase (goNow e) s)"
    using later base by (auto intro: order.strict_trans1)
  with mem ends flags s(2) others[of "subscriptions (wdb w)"] show ?thesis
    unfolding subs[symmetric] by (intro exI[of _ ?s]) simp
qed

section \<open>Witnesses\<close>

definition world1 :: world where
  "world1 = snd (CreateOrder 1 3 2 ''key-00000001'' env0 world0)"

definition webhook0 :: Webhook where
  "webhook0 = \<lparr>EventID = ''ev-1'', PaymentID = 102, ExternalPaymentID = ''ext-1'', WebhookStatus = ''succeeded'',
     AmountMinor = 2598, Currency = ''usd''\<rparr>"

definition capturedAnew :: "(err + PaymentResult) \<times> world \<Rightarrow> bool" where
  "capturedAnew r \<longleftrightarrow> (case fst r of Inl _ \<Rightarrow> False | Inr x \<Rightarrow> \<not> pr_Duplicate x)"

lemma capturedAnewE:
  assumes "capturedAnew r" obtains x w where "r = (Inr x, w)" "\<not> pr_Duplicate x"
  using assms by (cases r; cases "fst r") (auto simp: capturedAnew_def)

lemma sample_payment: "capturedAnew (CompletePayment webhook0 (JObj []) env0 world1)"
  by code_simp

lemma billingInv_world1: "billingInv (wdb world1)"
proof -
  obtain r w where run: "CreateOrder 1 3 2 ''key-00000001'' env0 world0 = (r, w)" by fastforce
  have "billingInv (wdb w)"
    by (rule keepsD[OF keeps_CreateOrder(1) run]) (auto intro: billingInv_placed simp: world0_def billingInv_db0)
  with run show ?thesis by (simp add: world1_def)
qed

lemma sample_mismatch:
  "case fst (CompletePayment (webhook0\<lparr>AmountMinor := 1\<rparr>) (JObj []) env0 world1) of Inl x \<Rightarrow> x = ErrPaymentMismatch | Inr _ \<Rightarrow> False"
  by code_simp

theorem CompletePayment_atomic_witness:
  "\<exists>w'. CompletePayment (webhook0\<lparr>AmountMinor := 1\<rparr>) (JObj []) env0 world1 = (Inl ErrPaymentMismatch, w') \<and> wdb w' = wdb world1"
proof -
  obtain r w' where run: "CompletePayment (webhook0\<lparr>AmountMinor := 1\<rparr>) (JObj []) env0 world1 = (r, w')" by fastforce
  with sample_mismatch have "r = Inl ErrPaymentMismatch" by (cases r) auto
  with CompletePayment_atomic[OF run] run show ?thesis by auto
qed

theorem CompletePayment_exact_witness:
  "\<exists>res w'. CompletePayment webhook0 (JObj []) env0 world1 = (Inr res, w') \<and> captures (wdb w') 102 = 1"
proof -
  from sample_payment obtain res w' where run: "CompletePayment webhook0 (JObj []) env0 world1 = (Inr res, w')"
    and new: "\<not> pr_Duplicate res" by (rule capturedAnewE)
  from CompletePayment_exact[OF billingInv_world1 run new] run show ?thesis by (auto simp: webhook0_def)
qed

theorem CompletePayment_rejects_witness:
  "\<exists>w'. CompletePayment (webhook0\<lparr>AmountMinor := 1\<rparr>) (JObj []) env0 world1 = (Inl ErrPaymentMismatch, w') \<and> wdb w' = wdb world1"
proof -
  have "rejection (wdb world1) (webhook0\<lparr>AmountMinor := 1\<rparr>) (JObj []) = Some ErrPaymentMismatch" by code_simp
  moreover have "\<not> present rc_id (freshID env0 (wids world1)) (receipts (wdb world1))" by code_simp
  ultimately show ?thesis using CompletePayment_rejects[of env0 world1 "webhook0\<lparr>AmountMinor := 1\<rparr>" "JObj []"] by simp
qed

theorem CompletePayment_replay_witness:
  "\<exists>res w1 w2. CompletePayment webhook0 (JObj []) env0 world1 = (Inr res, w1) \<and>
     CompletePayment webhook0 (JObj []) env0 w1 = (Inr (res\<lparr>pr_Duplicate := True\<rparr>), w2) \<and> wdb w2 = wdb w1"
proof -
  from sample_payment obtain res w1 where run: "CompletePayment webhook0 (JObj []) env0 world1 = (Inr res, w1)"
    by (rule capturedAnewE)
  from CompletePayment_replay[OF billingInv_world1 run, of env0 "JObj []"] run show ?thesis
    by (auto simp: equalJSON_def)
qed

definition world1_sub :: world where
  "world1_sub = snd (CreateRenewalOrder 1 9 ''key-00000002'' env0 world0_sub)"

lemma sample_renewal: "capturedAnew (CompletePayment (webhook0\<lparr>AmountMinor := 1299\<rparr>) (JObj []) env0 world1_sub)"
  by code_simp

lemma sample_renewal_rows: "list_all (\<lambda>r. o_subscription_id r = Some 9) (orders (wdb world1_sub))"
  by code_simp

theorem CompletePayment_renews_witness:
  "\<exists>res w'. CompletePayment (webhook0\<lparr>AmountMinor := 1299\<rparr>) (JObj []) env0 world1_sub = (Inr res, w') \<and>
     (\<exists>s'\<in>set (subscriptions (wdb w')). s_id s' = 9 \<and> s_status s' = ''active'' \<and>
        s_current_period_end s' = Some (2593000 * second))"
proof -
  from sample_renewal obtain res w' where
    run: "CompletePayment (webhook0\<lparr>AmountMinor := 1299\<rparr>) (JObj []) env0 world1_sub = (Inr res, w')" "\<not> pr_Duplicate res"
    by (rule capturedAnewE)
  obtain r w where create: "CreateRenewalOrder 1 9 ''key-00000002'' env0 world0_sub = (r, w)" by fastforce
  have "billingInv (wdb world0_sub)"
    using billingInv_db0 billingInv_same[of db0 "db0\<lparr>subscriptions := [subscription0]\<rparr>"]
    by (simp add: world0_sub_def sameMoney_def)
  then have inv: "billingInv (wdb world1_sub)"
    unfolding world1_sub_def create snd_conv
    by (rule keepsD[where I = billingInv, OF keeps_CreateOrder(2) create, rotated]) (auto intro: billingInv_placed)
  from run obtain p ordr i where "subject_of (wdb world1_sub) (webhook0\<lparr>AmountMinor := 1299\<rparr>) p ordr i"
      "res = \<lparr>pr_PaymentID = p_id p, pr_OrderID = o_id ordr, pr_Duplicate = False\<rparr>"
    by (rule CompletePayment_new)
  then have "ordr \<in> set (orders (wdb world1_sub))" "o_id ordr = pr_OrderID res" "o_subscription_id ordr = Some 9"
    using sample_renewal_rows by (auto simp: subject_of_def list_all_iff)
  moreover have "subscriptions (wdb world1_sub) = [subscription0]"
    unfolding world1_sub_def create snd_conv
    by (rule keepsD[where I = "\<lambda>d. subscriptions d = [subscription0]", OF keeps_CreateOrder(2) create])
      (auto simp: world0_sub_def placed_def)
  ultimately show ?thesis using CompletePayment_renews[OF inv _ run, of ordr 9 subscription0 1]
    using run by (auto simp: subscription0_def cycleMonths_def renewalBase_def env0_def)
qed

end
