(* ===== verification/Operation.thy ===== *)
theory Operation
  imports Operation_Queries
begin

text \<open>
  \<open>internal/operation\<close>: creating operations with their steps, the transitions of an operation, retries
  with back-off, recovery of operations whose worker died, the workflow registry and the queue
  consumer that claims operations and runs their workflows.
\<close>

section \<open>Data\<close>

record StepDefinition =
  sd_Key :: string
  sd_Order :: int

record CreateRequest =
  cr_Type :: string
  cr_ResourceType :: string
  cr_ResourceID :: uuid
  cr_IdempotencyKey :: string
  cr_TraceID :: string
  cr_UserID :: "uuid option"
  cr_ActorAdminID :: "uuid option"
  cr_MaxRetries :: int
  cr_Steps :: "StepDefinition list"

record Step =
  Step_Key :: string
  Step_Order :: int
  Step_Status :: string
  Step_Progress :: int
  Step_Attempt :: int
  Step_ErrorCode :: "string option"
  Step_Output :: json
  Step_StartedAt :: "time option"
  Step_FinishedAt :: "time option"

record Operation =
  Operation_ID :: uuid
  Operation_Type :: string
  Operation_ResourceType :: string
  Operation_ResourceID :: uuid
  Operation_Status :: string
  Operation_Phase :: "string option"
  Operation_Progress :: int
  Operation_MessageKey :: "string option"
  Operation_Retryable :: bool
  Operation_RetryCount :: int
  Operation_MaxRetries :: int
  Operation_ErrorCode :: "string option"
  Operation_TraceID :: string
  Operation_StartedAt :: "time option"
  Operation_FinishedAt :: "time option"
  Operation_CreatedAt :: time
  Operation_UpdatedAt :: time
  Operation_Steps :: "Step list"

definition publicStep :: "stepRow \<Rightarrow> Step" where
  "publicStep r = \<lparr>Step_Key = st_step_key r, Step_Order = st_step_order r, Step_Status = st_status r,
     Step_Progress = st_progress r, Step_Attempt = st_attempt r, Step_ErrorCode = st_error_code r, Step_Output = st_output r,
     Step_StartedAt = st_started_at r, Step_FinishedAt = st_finished_at r\<rparr>"

definition publicOperation :: "operationRow \<Rightarrow> Operation" where
  "publicOperation r = \<lparr>Operation_ID = op_id r, Operation_Type = op_type r, Operation_ResourceType = op_resource_type r,
     Operation_ResourceID = op_resource_id r, Operation_Status = op_status r, Operation_Phase = op_phase r,
     Operation_Progress = op_progress r, Operation_MessageKey = op_message_key r, Operation_Retryable = op_retryable r,
     Operation_RetryCount = op_retry_count r, Operation_MaxRetries = op_max_retries r, Operation_ErrorCode = op_error_code r,
     Operation_TraceID = op_trace_id r, Operation_StartedAt = op_started_at r, Operation_FinishedAt = op_finished_at r,
     Operation_CreatedAt = op_created_at r, Operation_UpdatedAt = op_updated_at r, Operation_Steps = []\<rparr>"

definition operationWithSteps :: "operationRow \<Rightarrow> Operation io" where
  "operationWithSteps row = bnd (pool (ListOperationSteps (op_id row))) (\<lambda>rows.
     ret ((publicOperation row)\<lparr>Operation_Steps := map publicStep rows\<rparr>))"

section \<open>Events\<close>

definition operationEvent :: "env \<Rightarrow> uuid \<Rightarrow> string \<Rightarrow> operationRow \<Rightarrow> (string \<times> json) list \<Rightarrow> json" where
  "operationEvent e eventID eventType row extra =
    envelope e eventID eventType (goNow e) ''operation'' (op_id row) (JObj (
      [(''operation_id'', JStr (uuidString e (op_id row))), (''user_id'', JUuid e (op_user_id row)),
       (''status'', JStr (op_status row)), (''phase'', JStr (text_string (op_phase row))),
       (''progress'', JNum (op_progress row)), (''message_key'', JStr (text_string (op_message_key row))),
       (''retryable'', JBool (op_retryable row)), (''error_code'', JStr (text_string (op_error_code row))),
       (''trace_id'', JStr (op_trace_id row))] @ extra))"

definition createOperationEvent :: "string \<Rightarrow> operationRow \<Rightarrow> (string \<times> json) list \<Rightarrow> unit io" where
  "createOperationEvent eventType row extra = bnd newID (\<lambda>eventID.
     bnd (asks (\<lambda>e. operationEvent e eventID eventType row extra)) (\<lambda>payload.
     exec (CreateOutboxEvent eventID eventType ''operation'' (op_id row) payload)))"

section \<open>Creating\<close>

definition sameRequest :: "operationRow \<Rightarrow> CreateRequest \<Rightarrow> bool" where
  "sameRequest row request \<longleftrightarrow> op_type row = cr_Type request \<and> op_resource_type row = cr_ResourceType request \<and>
     op_resource_id row = cr_ResourceID request \<and> op_user_id row = cr_UserID request \<and>
     op_actor_admin_id row = cr_ActorAdminID request"

definition createSteps :: "uuid \<Rightarrow> StepDefinition list \<Rightarrow> unit io" where
  "createSteps operationID = forEach (\<lambda>definition. bnd newID (\<lambda>stepID.
     bnd (exec (CreateOperationStep stepID operationID (sd_Key definition) (sd_Order definition))) (\<lambda>_. ret ())))"

definition createOperationTx :: "CreateRequest \<Rightarrow> operationRow option ending io" where
  "createOperationTx request =
    bnd newID (\<lambda>operationID.
    bnd (attempt (exec (CreateOperation operationID (cr_Type request) (cr_ResourceType request) (cr_ResourceID request)
        (text_of ''operation.queued'') (cr_IdempotencyKey request) (cr_MaxRetries request) (cr_TraceID request)
        (cr_UserID request) (cr_ActorAdminID request)))) (\<lambda>r. case r of
      Inl x \<Rightarrow> if isUniqueViolation x then ret (Rollback None) else raise x
    | Inr row \<Rightarrow>
        bnd (createSteps operationID (cr_Steps request)) (\<lambda>_.
        bnd (createOperationEvent ''operation.queued.v1'' row []) (\<lambda>_.
        ret (Commit (Some row))))))"

definition existingOperation :: "CreateRequest \<Rightarrow> operationRow \<Rightarrow> Operation io" where
  "existingOperation request existing =
    (if \<not> sameRequest existing request then raise ErrIdempotencyConflict else operationWithSteps existing)"

definition Create :: "CreateRequest \<Rightarrow> Operation io" where
  "Create request =
    bnd (attempt (pool (GetOperationByIdempotency (cr_IdempotencyKey request)))) (\<lambda>found. case found of
      Inr existing \<Rightarrow> existingOperation request existing
    | Inl x \<Rightarrow> if x \<noteq> ErrNoRows then raise x
        else if list_ex (\<lambda>definition. sd_Key definition = '''') (cr_Steps request) then raise ErrInvalidRequest
        else bnd others (\<lambda>_. bnd (in_tx (createOperationTx request)) (\<lambda>created. case created of
          Some row \<Rightarrow> operationWithSteps row
        | None \<Rightarrow> bnd (orNoRows ErrIdempotencyConflict (pool (GetOperationByIdempotency (cr_IdempotencyKey request))))
            (existingOperation request))))"

definition Create_svc :: "CreateRequest \<Rightarrow> Operation io" where
  "Create_svc request =
    (if cr_Type request = '''' \<or> cr_ResourceType request = '''' \<or> cr_ResourceID request = uuidNil \<or>
        length (cr_IdempotencyKey request) < 8 \<or> cr_TraceID request = '''' \<or> cr_MaxRetries request < 0 \<or>
        length (cr_Steps request) = 0
     then raise ErrInvalidRequest else Create request)"

definition GetForUser :: "uuid \<Rightarrow> uuid \<Rightarrow> Operation io" where
  "GetForUser userID operationID = bnd (orNoRows ErrNotFound (pool (GetOperationForUser operationID userID))) operationWithSteps"

definition Get :: "uuid \<Rightarrow> operationRow io" where
  "Get operationID = orNoRows ErrNotFound (pool (GetOperationByID operationID))"

section \<open>Transitions\<close>

definition Claim :: "uuid \<Rightarrow> operationRow io" where
  "Claim operationID = in_tx (
     bnd (orNoRows ErrNotFound (exec (ClaimOperation operationID))) (\<lambda>row.
     bnd (createOperationEvent ''operation.updated.v1'' row []) (\<lambda>_.
     ret (Commit row))))"

definition mutate :: "operationRow query \<Rightarrow> unit io" where
  "mutate mutation = in_tx (
     bnd (orNoRows ErrNotFound (exec mutation)) (\<lambda>updated.
     bnd (createOperationEvent ''operation.updated.v1'' updated []) (\<lambda>_.
     ret (Commit ()))))"

definition UpdateProgress :: "uuid \<Rightarrow> string \<Rightarrow> string \<Rightarrow> int \<Rightarrow> string \<Rightarrow> unit io" where
  "UpdateProgress operationID status phase progress messageKey =
    (if progress < 0 \<or> progress > 100 then raise ErrInvalidRequest
     else mutate (UpdateOperationProgress operationID status (text_of phase) progress (text_of messageKey)))"

definition UpdateStep :: "uuid \<Rightarrow> string \<Rightarrow> string \<Rightarrow> int \<Rightarrow> int \<Rightarrow> string \<Rightarrow> string \<Rightarrow> json \<Rightarrow> unit io" where
  "UpdateStep operationID stepKey status progress attempts errorCode errorMessage out =
    (if progress < 0 \<or> progress > 100 then raise ErrInvalidRequest
     else in_tx (
       bnd (orNoRows ErrNotFound (exec (UpdateOperationStep operationID status progress attempts (text_of errorCode)
           (text_of errorMessage) out stepKey))) (\<lambda>step.
       bnd (exec (GetOperationByID operationID)) (\<lambda>operationRow.
       bnd (createOperationEvent ''operation.updated.v1'' operationRow
           [(''step_key'', JStr (st_step_key step)), (''step_status'', JStr (st_status step)),
            (''step_progress'', JNum (st_progress step))]) (\<lambda>_.
       ret (Commit ()))))))"

definition complete :: "uuid \<Rightarrow> string \<Rightarrow> string \<Rightarrow> int \<Rightarrow> string \<Rightarrow> string \<Rightarrow> string \<Rightarrow> unit io" where
  "complete operationID status phase progress messageKey errorCode errorMessage =
     mutate (CompleteOperation operationID status (text_of phase) progress (text_of messageKey) (text_of errorCode) (text_of errorMessage))"

definition Succeed :: "uuid \<Rightarrow> unit io" where
  "Succeed operationID = complete operationID ''succeeded'' ''finished'' 100 ''operation.succeeded'' '''' ''''"

text \<open>Code, message key and raw text of a workflow error, or the defaults.\<close>

definition describe :: "env \<Rightarrow> string \<Rightarrow> string \<Rightarrow> err option \<Rightarrow> string \<times> string \<times> string" where
  "describe e code messageKey x = (case x of
     Some (ErrWorkflow c k _ cause) \<Rightarrow> (c, k, case cause of None \<Rightarrow> '''' | Some y \<Rightarrow> errorText e y)
   | _ \<Rightarrow> (code, messageKey, ''''))"

definition Fail :: "uuid \<Rightarrow> err option \<Rightarrow> unit io" where
  "Fail operationID workflowErr = bnd (asks (\<lambda>e. describe e ''WORKFLOW_FAILED'' ''operation.failed'' workflowErr))
     (\<lambda>(code, messageKey, raw). complete operationID ''failed'' ''failed'' 100 messageKey code raw)"

definition ScheduleRetry :: "operationRow \<Rightarrow> err option \<Rightarrow> time \<Rightarrow> unit io" where
  "ScheduleRetry current workflowErr next =
    bnd (asks (\<lambda>e. describe e ''WORKFLOW_RETRY'' ''operation.retrying'' workflowErr)) (\<lambda>(code, messageKey, raw).
    in_tx (
      bnd (exec (ScheduleOperationRetry (op_id current) (text_of code) (text_of raw) (text_of messageKey) next)) (\<lambda>updated.
      bnd (createOperationEvent ''operation.updated.v1'' updated []) (\<lambda>_.
      ret (Commit ())))))"

section \<open>Recovery and retries\<close>

definition recoverOne :: "uuid \<Rightarrow> unit io" where
  "recoverOne operationID = bnd (exec (requeueStuck operationID)) (\<lambda>affected.
     if affected = 0 then ret ()
     else bnd (exec (GetOperationByID operationID)) (\<lambda>updated.
       createOperationEvent (if op_status updated = ''queued'' then ''operation.queued.v1'' else ''operation.updated.v1'')
         updated [(''recovery'', JStr ''worker_heartbeat_expired'')]))"

definition RecoverStuck :: "time \<Rightarrow> int \<Rightarrow> nat io" where
  "RecoverStuck cutoff batchSize =
    (if batchSize \<le> 0 then raise ErrInvalidRequest
     else in_tx (
       bnd (exec (selectStuck cutoff (nat batchSize))) (\<lambda>ids.
       bnd (forEach recoverOne ids) (\<lambda>_.
       ret (Commit (length ids))))))"

definition requeueRetry :: "operationRow \<Rightarrow> unit io" where
  "requeueRetry current = bnd (exec (RequeueOperation (op_id current))) (\<lambda>updated.
     createOperationEvent ''operation.queued.v1'' updated [])"

definition retryBatch :: "nat \<Rightarrow> nat io" where
  "retryBatch batchSize = in_tx (
     bnd (exec (ClaimDueOperationRetries batchSize)) (\<lambda>rows.
     bnd (forEach requeueRetry rows) (\<lambda>_.
     ret (Commit (length rows)))))"

section \<open>Workflows\<close>

record Execution =
  ex_operationID :: uuid
  ex_attempt :: int

type_synonym workflow = "Execution \<Rightarrow> unit io"
type_synonym registry = "string \<rightharpoonup> workflow"

definition Register :: "registry \<Rightarrow> string \<Rightarrow> workflow option \<Rightarrow> err + registry" where
  "Register handlers operationType workflow = (case workflow of
     None \<Rightarrow> Inl ErrWorkflowMissing
   | Some flow \<Rightarrow> if operationType = '''' then Inl ErrWorkflowMissing
       else if handlers operationType \<noteq> None then Inl (ErrOther ''workflow already registered'')
       else Inr (handlers(operationType \<mapsto> flow)))"

definition Progress :: "Execution \<Rightarrow> string \<Rightarrow> string \<Rightarrow> int \<Rightarrow> string \<Rightarrow> unit io" where
  "Progress x status phase progress messageKey = UpdateProgress (ex_operationID x) status phase progress messageKey"

definition StepUpdate :: "Execution \<Rightarrow> string \<Rightarrow> string \<Rightarrow> int \<Rightarrow> string \<Rightarrow> err option \<Rightarrow> json \<Rightarrow> unit io" where
  "StepUpdate x key status progress errorCode err out =
    bnd (asks (\<lambda>e. case err of None \<Rightarrow> '''' | Some y \<Rightarrow> errorText e y)) (\<lambda>rawError.
    UpdateStep (ex_operationID x) key status progress (ex_attempt x) errorCode rawError out)"

section \<open>The queue consumer\<close>

text \<open>\<open>json.Unmarshal\<close> into \<open>envelope.Data.OperationID\<close>: absent and null members leave \<open>uuid.Nil\<close>.\<close>

definition decodeUuid :: "env \<Rightarrow> json option \<Rightarrow> err + uuid" where
  "decodeUuid e j = (case j of
     None \<Rightarrow> Inr uuidNil | Some JNull \<Rightarrow> Inr uuidNil
   | Some (JStr s) \<Rightarrow> (case uuidParse e s of None \<Rightarrow> Inl (ErrOther ''json'') | Some u \<Rightarrow> Inr u)
   | _ \<Rightarrow> Inl (ErrOther ''json''))"

definition decodeData :: "env \<Rightarrow> string \<Rightarrow> json \<Rightarrow> err + uuid" where
  "decodeData e name payload = (case payload of
     JNull \<Rightarrow> Inr uuidNil
   | JObj _ \<Rightarrow> (case field ''data'' payload of
        None \<Rightarrow> Inr uuidNil | Some JNull \<Rightarrow> Inr uuidNil
      | Some (JObj kvs) \<Rightarrow> decodeUuid e (field name (JObj kvs))
      | _ \<Rightarrow> Inl (ErrOther ''json''))
   | _ \<Rightarrow> Inl (ErrOther ''json''))"

definition asWorkflowError :: "err \<Rightarrow> err" where
  "asWorkflowError x = (case x of ErrWorkflow _ _ _ _ \<Rightarrow> x
     | _ \<Rightarrow> ErrWorkflow ''WORKFLOW_FAILED'' ''operation.failed'' False (Some x))"

definition workflowRetryable :: "err \<Rightarrow> bool" where
  "workflowRetryable x = (case x of ErrWorkflow _ _ b _ \<Rightarrow> b | _ \<Rightarrow> False)"

definition retryBackoff :: "int \<Rightarrow> duration" where
  "retryBackoff retryCount = 2 ^ nat (min retryCount 8) * second"

definition runWorkflow :: "registry \<Rightarrow> operationRow \<Rightarrow> unit io" where
  "runWorkflow handlers current = (case handlers (op_type current) of
     None \<Rightarrow> Fail (op_id current) (Some (ErrWorkflow ''WORKFLOW_NOT_REGISTERED'' ''operation.errors.workflowMissing'' False
       (Some ErrWorkflowMissing)))
   | Some workflow \<Rightarrow>
       bnd (attempt (workflow \<lparr>ex_operationID = op_id current, ex_attempt = op_retry_count current + 1\<rparr>)) (\<lambda>r. case r of
         Inr _ \<Rightarrow> Succeed (op_id current)
       | Inl x \<Rightarrow> if workflowRetryable (asWorkflowError x) \<and> op_retry_count current < op_max_retries current
           then bnd (asks goNow) (\<lambda>now. ScheduleRetry current (Some (asWorkflowError x)) (now + retryBackoff (op_retry_count current)))
           else Fail (op_id current) (Some (asWorkflowError x))))"

definition processMessage :: "registry \<Rightarrow> json option \<Rightarrow> unit io" where
  "processMessage handlers payload = (case payload of
     None \<Rightarrow> raise (ErrOther ''operation queue message has no payload'')
   | Some p \<Rightarrow>
       bnd (asks (\<lambda>e. decodeData e ''operation_id'' p)) (\<lambda>decoded. bnd (ofResult decoded) (\<lambda>operationID.
       if operationID = uuidNil then raise ErrInvalidRequest
       else bnd (attempt (Claim operationID)) (\<lambda>r. case r of
          Inl x \<Rightarrow> if x = ErrNotFound then ret () else raise x
        | Inr current \<Rightarrow> runWorkflow handlers current))))"

definition consumerGroup :: string where "consumerGroup = ''operation-workers''"

definition XAck :: "string \<Rightarrow> nat \<Rightarrow> unit io" where
  "XAck grp messageID = redis (\<lambda>w. w\<lparr>stream_acks := stream_acks w @ [(grp, messageID)]\<rparr>)"

text \<open>The count of processed messages comes back together with the error that stopped the loop.\<close>

primrec processMessages :: "registry \<Rightarrow> nat \<Rightarrow> (nat \<times> json option) list \<Rightarrow> (nat \<times> err option) io" where
  "processMessages handlers processed [] = ret (processed, None)"
| "processMessages handlers processed (m # ms) =
    bnd (attempt (processMessage handlers (snd m))) (\<lambda>r. case r of
      Inl x \<Rightarrow> ret (processed, Some x)
    | Inr _ \<Rightarrow> bnd (attempt (XAck consumerGroup (fst m))) (\<lambda>a. case a of
        Inl x \<Rightarrow> ret (processed, Some x)
      | Inr _ \<Rightarrow> processMessages handlers (processed + 1) ms))"

text \<open>
  \<open>created\<close>, \<open>claimed\<close> and \<open>fresh\<close> are what Redis answers to XGROUP CREATE (BUSYGROUP counts as success),
  XAUTOCLAIM and XREADGROUP.
\<close>

definition QueueConsumer_ProcessBatch :: "registry \<Rightarrow> err + unit \<Rightarrow> err + (nat \<times> json option) list \<Rightarrow>
    err + (nat \<times> json option) list \<Rightarrow> (nat \<times> err option) io" where
  "QueueConsumer_ProcessBatch handlers created claimed fresh = (case created of
     Inl x \<Rightarrow> ret (0, Some x)
   | Inr _ \<Rightarrow> (case claimed of
       Inl x \<Rightarrow> ret (0, Some x)
     | Inr ms \<Rightarrow> bnd (processMessages handlers 0 ms) (\<lambda>(processed, err).
         if err \<noteq> None \<or> processed > 0 then ret (processed, err)
         else (case fresh of Inl x \<Rightarrow> ret (0, Some x) | Inr new \<Rightarrow> processMessages handlers 0 new))))"

end
