(* ===== verification/Operation_Safety.thy ===== *)
theory Operation_Safety
  imports Operation Contracts Samples
begin

text \<open>
  The operations as a state machine. \<open>opStep\<close> is the specification of a change of an operation row;
  the locale \<open>operation_store\<close> states what a predicate of the database has to tolerate so that every
  handler of \<open>internal/operation\<close> keeps it. It is interpreted for the constraints of the table and for
  the history of its rows.
\<close>

section \<open>The state machine\<close>

definition sameOperation :: "operationRow \<Rightarrow> operationRow \<Rightarrow> bool" where
  "sameOperation r r' \<longleftrightarrow> op_id r' = op_id r \<and> op_idempotency_key r' = op_idempotency_key r \<and> op_type r' = op_type r \<and>
     op_resource_type r' = op_resource_type r \<and> op_resource_id r' = op_resource_id r \<and>
     op_max_retries r' = op_max_retries r \<and> op_trace_id r' = op_trace_id r \<and> op_user_id r' = op_user_id r \<and>
     op_actor_admin_id r' = op_actor_admin_id r \<and> op_created_at r' = op_created_at r"

text \<open>
  The moves of an operation, one for each statement that writes the table. What a workflow reports
  (\<open>UpdateOperationProgress\<close>) is taken over from every unfinished state; every other move has its own
  origin and its own destination.
\<close>

datatype opMove = Claimed | Progressed string | Completed string | Retried | Requeued | Recovered

inductive opStep :: "opMove \<Rightarrow> operationRow \<Rightarrow> operationRow \<Rightarrow> bool" where
  claimed: "sameOperation r r' \<Longrightarrow> op_status r = ''queued'' \<Longrightarrow> op_next_attempt_at r \<le> op_updated_at r' \<Longrightarrow>
    op_status r' = ''running'' \<Longrightarrow> op_progress r' = op_progress r \<Longrightarrow> op_started_at r' \<noteq> None \<Longrightarrow>
    op_heartbeat_at r' = Some (op_updated_at r') \<Longrightarrow> op_retry_count r' = op_retry_count r \<Longrightarrow> opStep Claimed r r'"
| progressed: "sameOperation r r' \<Longrightarrow> \<not> terminal (op_status r) \<Longrightarrow> op_status r' = status \<Longrightarrow>
    op_retry_count r' = op_retry_count r \<Longrightarrow> opStep (Progressed status) r r'"
| completed: "sameOperation r r' \<Longrightarrow> \<not> terminal (op_status r) \<Longrightarrow> op_status r' = status \<Longrightarrow> terminal status \<Longrightarrow>
    op_progress r' = 100 \<Longrightarrow> op_finished_at r' = Some (op_updated_at r') \<Longrightarrow> op_retry_count r' = op_retry_count r \<Longrightarrow>
    opStep (Completed status) r r'"
| retried: "sameOperation r r' \<Longrightarrow> \<not> terminal (op_status r) \<Longrightarrow> op_status r' = ''retrying'' \<Longrightarrow>
    op_retry_count r' = op_retry_count r + 1 \<Longrightarrow> opStep Retried r r'"
| requeued: "sameOperation r r' \<Longrightarrow> op_status r = ''retrying'' \<Longrightarrow> op_status r' = ''queued'' \<Longrightarrow> op_progress r' = 0 \<Longrightarrow>
    op_heartbeat_at r' = None \<Longrightarrow> op_retry_count r' = op_retry_count r \<Longrightarrow> opStep Requeued r r'"
| recovered: "sameOperation r r' \<Longrightarrow> inProgress (op_status r) \<Longrightarrow> op_retry_count r < op_max_retries r \<Longrightarrow>
    op_status r' = ''queued'' \<Longrightarrow> op_retry_count r' = op_retry_count r + 1 \<Longrightarrow> opStep Recovered r r'"
| abandoned: "sameOperation r r' \<Longrightarrow> inProgress (op_status r) \<Longrightarrow> \<not> op_retry_count r < op_max_retries r \<Longrightarrow>
    op_status r' = ''failed'' \<Longrightarrow> op_finished_at r' = Some (op_updated_at r') \<Longrightarrow> op_retry_count r' = op_retry_count r \<Longrightarrow>
    opStep Recovered r r'"

text \<open>A step by a move that is allowed for the operation.\<close>

definition moves :: "(uuid \<Rightarrow> opMove \<Rightarrow> bool) \<Rightarrow> operationRow \<Rightarrow> operationRow \<Rightarrow> bool" where
  "moves A r r' \<longleftrightarrow> (\<exists>m. A (op_id r) m \<and> opStep m r r')"

lemma terminal_simps [simp]:
  "\<not> terminal ''queued''" "\<not> terminal ''running''" "\<not> terminal ''retrying''"
  "terminal ''succeeded''" "terminal ''failed''" "terminal ''cancelled''"
  by (simp_all add: terminal_def)

lemma inProgress_not_terminal: "inProgress s \<Longrightarrow> \<not> terminal s"
  by (auto simp: inProgress_def terminal_def)

lemma opStep_not_terminal: "opStep m r r' \<Longrightarrow> \<not> terminal (op_status r)"
  by (induction rule: opStep.induct) (auto dest: inProgress_not_terminal)

lemma opStep_same: "opStep m r r' \<Longrightarrow> sameOperation r r'"
  by (induction rule: opStep.induct) auto

lemma opStep_count: "opStep m r r' \<Longrightarrow> op_retry_count r \<le> op_retry_count r' \<and> op_retry_count r' \<le> op_retry_count r + 1"
  by (induction rule: opStep.induct) auto

lemma sameOperation_refl [simp]: "sameOperation r r"
  by (simp add: sameOperation_def)

lemma sameOperation_trans: "sameOperation q r \<Longrightarrow> sameOperation r s \<Longrightarrow> sameOperation q s"
  by (simp add: sameOperation_def)

lemma movesI: "A (op_id r) m \<Longrightarrow> opStep m r r' \<Longrightarrow> moves A r r'"
  by (auto simp: moves_def)

lemma moves_mono: "moves A r r' \<Longrightarrow> (\<And>m. A (op_id r) m \<Longrightarrow> B (op_id r) m) \<Longrightarrow> moves B r r'"
  by (auto simp: moves_def)

lemma moves_same: "(moves A)\<^sup>*\<^sup>* r r' \<Longrightarrow> sameOperation r r'"
  by (induction rule: rtranclp_induct) (auto simp: moves_def intro: sameOperation_trans opStep_same)

lemma moves_count: "(moves A)\<^sup>*\<^sup>* r r' \<Longrightarrow> op_retry_count r \<le> op_retry_count r'"
  by (induction rule: rtranclp_induct) (auto simp: moves_def dest: opStep_count)

lemma moves_terminal: "(moves A)\<^sup>*\<^sup>* r r' \<Longrightarrow> terminal (op_status r) \<Longrightarrow> r' = r"
  by (erule converse_rtranclpE) (auto simp: moves_def dest: opStep_not_terminal)

lemma keeps_bnd_result:
  assumes "keeps I m" "\<And>x e w w'. m e w = (Inr x, w') \<Longrightarrow> keeps I (f x)"
  shows "keeps I (bnd m f)"
  unfolding keeps_def
proof (intro allI impI)
  fix e w r w''
  assume I: "\<forall>d. I d \<longrightarrow> I (concurrent e d)" "I (wdb w)" and run: "bnd m f e w = (r, w'')"
  obtain q w' where q: "m e w = (q, w')" by fastforce
  have "I (wdb w')" using keepsD[OF assms(1) q I(2)] I(1) by blast
  then show "I (wdb w'')" using run q I(1) keepsD[OF assms(2)] by (cases q) (auto simp: bnd_def)
qed

section \<open>What the handlers keep\<close>

locale operation_moves =
  fixes I :: "db \<Rightarrow> bool" and A :: "uuid \<Rightarrow> opMove \<Rightarrow> bool"
  assumes outbox_kept: "I d \<Longrightarrow> I (d\<lparr>outbox_events := ob\<rparr>)"
    and steps_kept: "I d \<Longrightarrow> I (d\<lparr>operation_steps := st\<rparr>)"
    and insert_kept: "I d \<Longrightarrow> operationCheck r \<Longrightarrow> \<not> operationConflict (operations d) r \<Longrightarrow>
      op_status r = ''queued'' \<Longrightarrow> op_retry_count r = 0 \<Longrightarrow> I (d\<lparr>operations := operations d @ [r]\<rparr>)"
    and update_kept: "I d \<Longrightarrow> (\<And>r. r \<in> set (operations d) \<Longrightarrow> P r \<Longrightarrow> moves A r (f r) \<and> operationCheck (f r)) \<Longrightarrow>
      I (d\<lparr>operations := sqlUpdate P f (operations d)\<rparr>)"
begin

lemma qkeeps_updateReturning:
  assumes "\<And>e r. P e r \<Longrightarrow> A (op_id r) m" "\<And>e r. P e r \<Longrightarrow> opStep m r (f e r)"
  shows "qkeeps I (\<lambda>e d. updateReturning (operations d) (P e) (f e) operationCheck (\<lambda>t. d\<lparr>operations := t\<rparr>))"
  using assms by (intro qkeepsI) (auto simp: updateReturning_ok intro!: update_kept movesI)

lemma qkeeps_inserts:
  "qkeeps I (CreateOutboxEvent a b c f p)"
  "qkeeps I (CreateOperation k1 k2 k3 k4 k5 k6 k7 k8 k9 k10)"
  "qkeeps I (CreateOperationStep s1 s2 s3 s4)"
  "qkeeps I (UpdateOperationStep i st n at ec em out key)"
proof -
  show "qkeeps I (CreateOutboxEvent a b c f p)"
    by (rule qkeepsI) (auto simp: CreateOutboxEvent_def Let_def insertInto_ok intro: outbox_kept)
  show "qkeeps I (CreateOperation k1 k2 k3 k4 k5 k6 k7 k8 k9 k10)"
    by (rule qkeepsI) (auto simp: CreateOperation_def Let_def insertInto_ok newOperation_def intro!: insert_kept)
  show "qkeeps I (CreateOperationStep s1 s2 s3 s4)"
    by (rule qkeepsI) (auto simp: CreateOperationStep_def Let_def insertInto_ok intro: steps_kept)
  show "qkeeps I (UpdateOperationStep i st n at ec em out key)"
    by (rule qkeepsI) (auto simp: UpdateOperationStep_def updateReturning_ok intro: steps_kept)
qed

lemma qkeeps_updates:
  "A i Claimed \<Longrightarrow> qkeeps I (ClaimOperation i)"
  "A i (Progressed st) \<Longrightarrow> qkeeps I (UpdateOperationProgress i st ph pr mk)"
  "A i (Completed st) \<Longrightarrow> terminal st \<Longrightarrow> qkeeps I (CompleteOperation i st ph 100 mk ec em)"
  "A i Retried \<Longrightarrow> qkeeps I (ScheduleOperationRetry i ec em mk nx)"
  "A i Requeued \<Longrightarrow> qkeeps I (RequeueOperation i)"
proof -
  show "A i Claimed \<Longrightarrow> qkeeps I (ClaimOperation i)"
    unfolding ClaimOperation_def
    by (rule qkeeps_updateReturning[where m = Claimed]) (auto simp: sameOperation_def intro!: opStep.claimed split: option.split)
  show "A i (Progressed st) \<Longrightarrow> qkeeps I (UpdateOperationProgress i st ph pr mk)"
    unfolding UpdateOperationProgress_def
    by (rule qkeeps_updateReturning[where m = "Progressed st"]) (auto simp: sameOperation_def intro!: opStep.progressed)
  show "A i (Completed st) \<Longrightarrow> terminal st \<Longrightarrow> qkeeps I (CompleteOperation i st ph 100 mk ec em)"
    unfolding CompleteOperation_def
    by (rule qkeeps_updateReturning[where m = "Completed st"]) (auto simp: sameOperation_def intro!: opStep.completed)
  show "A i Retried \<Longrightarrow> qkeeps I (ScheduleOperationRetry i ec em mk nx)"
    unfolding ScheduleOperationRetry_def
    by (rule qkeeps_updateReturning[where m = Retried]) (auto simp: sameOperation_def intro!: opStep.retried)
  show "A i Requeued \<Longrightarrow> qkeeps I (RequeueOperation i)"
    unfolding RequeueOperation_def
    by (rule qkeeps_updateReturning[where m = Requeued]) (auto simp: sameOperation_def intro!: opStep.requeued)
qed

lemma qkeeps_requeueStuck:
  assumes "A i Recovered"
  shows "qkeeps I (requeueStuck i)"
proof (rule qkeepsI)
  have step: "opStep Recovered r (recoverOperation e r)" if "inProgress (op_status r)" for e r
  proof (cases "op_retry_count r < op_max_retries r")
    case True
    with that show ?thesis by (intro opStep.recovered) (simp_all add: recoverOperation_def sameOperation_def)
  next
    case False
    with that show ?thesis by (intro opStep.abandoned) (simp_all add: recoverOperation_def sameOperation_def)
  qed
  have check: "operationCheck (recoverOperation e r)" for e r
    by (simp add: recoverOperation_def Let_def operationCheck_def operationStatuses_def)
  show "requeueStuck i e d = Inr (x, d') \<Longrightarrow> I d \<Longrightarrow> I d'" for e d x d'
    using step check assms by (auto simp: requeueStuck_def intro!: update_kept movesI)
qed

lemma keeps_event: "keeps I (createOperationEvent t r x)"
  unfolding createOperationEvent_def by (intro keeps_intros qkeeps_inserts)

lemma keeps_steps: "keeps I (createSteps i ds)"
  unfolding createSteps_def by (intro keeps_intros qkeeps_inserts)

lemma keeps_withSteps: "keeps I (operationWithSteps row)"
  unfolding operationWithSteps_def by (intro keeps_intros)

lemma keeps_Create: "keeps I (Create req)" "keeps I (Create_svc req)"
proof -
  show "keeps I (Create req)"
    unfolding Create_def existingOperation_def createOperationTx_def
    by (intro keeps_intros qkeeps_inserts keeps_event keeps_steps keeps_withSteps)
  then show "keeps I (Create_svc req)"
    unfolding Create_svc_def by (intro keeps_intros)
qed

lemma keeps_GetForUser: "keeps I (GetForUser u i)"
  unfolding GetForUser_def by (intro keeps_bnd keeps_orNoRows keeps_pool qkeeps_readonly readonly_operation keeps_withSteps)

lemma keeps_Claim: "A i Claimed \<Longrightarrow> keeps I (Claim i)"
  unfolding Claim_def by (intro keeps_intros qkeeps_updates keeps_event)

lemma keeps_mutate: "qkeeps I q \<Longrightarrow> keeps I (mutate q)"
  unfolding mutate_def by (intro keeps_tx keeps_bnd keeps_orNoRows keeps_exec keeps_ret keeps_event)

lemma keeps_UpdateProgress: "A i (Progressed st) \<Longrightarrow> keeps I (UpdateProgress i st ph pr mk)"
  unfolding UpdateProgress_def by (intro keeps_intros keeps_mutate qkeeps_updates)

lemma keeps_UpdateStep: "keeps I (UpdateStep i k st pr n ec em out)"
  unfolding UpdateStep_def by (intro keeps_intros qkeeps_inserts keeps_event)

lemma keeps_complete: "A i (Completed st) \<Longrightarrow> terminal st \<Longrightarrow> keeps I (complete i st ph 100 mk ec em)"
  unfolding complete_def by (intro keeps_mutate qkeeps_updates)

lemma keeps_Fail: "A i (Completed ''failed'') \<Longrightarrow> keeps I (Fail i x)"
  unfolding Fail_def by (intro keeps_intros) (auto simp: keeps_complete split: prod.split)

lemma keeps_Succeed: "A i (Completed ''succeeded'') \<Longrightarrow> keeps I (Succeed i)"
  unfolding Succeed_def by (rule keeps_complete) simp_all

lemma keeps_ScheduleRetry: "A (op_id cur) Retried \<Longrightarrow> keeps I (ScheduleRetry cur x nx)"
  unfolding ScheduleRetry_def
  by (intro keeps_intros) (auto split: prod.split intro!: keeps_intros qkeeps_updates keeps_event)

lemma keeps_RecoverStuck: "(\<And>i. A i Recovered) \<Longrightarrow> keeps I (RecoverStuck cutoff n)"
  unfolding RecoverStuck_def recoverOne_def by (intro keeps_intros qkeeps_requeueStuck keeps_event)

lemma keeps_retryBatch: "(\<And>i. A i Requeued) \<Longrightarrow> keeps I (retryBatch n)"
  unfolding retryBatch_def requeueRetry_def by (intro keeps_intros qkeeps_updates keeps_event)

text \<open>What a worker may do to the operation that it claims.\<close>

lemma keeps_claimAndRun:
  assumes "A i Claimed" "A i (Completed ''failed'')" "A i (Completed ''succeeded'')" "A i Retried"
    and flows: "\<And>t flow x. handlers t = Some flow \<Longrightarrow> ex_operationID x = i \<Longrightarrow> keeps I (flow x)"
  shows "keeps I (bnd (attempt (Claim i)) (\<lambda>r. case r of
          Inl x \<Rightarrow> if x = ErrNotFound then ret () else raise x
        | Inr current \<Rightarrow> runWorkflow handlers current))"
proof (rule keeps_bnd_result)
  show "keeps I (attempt (Claim i))" by (intro keeps_attempt keeps_Claim assms)
  fix r and e :: env and w w' :: world
  assume "attempt (Claim i) e w = (Inr r, w')"
  then have id: "r = Inr cur \<Longrightarrow> op_id cur = i" for cur
    by (auto simp: attempt_ok Claim_def in_tx_ok bnd_ok orNoRows_ok exec_ok ret_ok ClaimOperation_def updateReturning_ok dest!: one_filter_Inr)
  show "keeps I (case r of Inl x \<Rightarrow> if x = ErrNotFound then ret () else raise x | Inr current \<Rightarrow> runWorkflow handlers current)"
  proof (cases r)
    case (Inr cur)
    with id assms(2-4) flows show ?thesis
      unfolding runWorkflow_def
      by (auto intro!: keeps_option keeps_Fail keeps_bnd keeps_attempt keeps_sum keeps_if keeps_asks keeps_Succeed keeps_ScheduleRetry)
  qed (auto intro: keeps_ret keeps_raise)
qed

end

text \<open>Where all moves are allowed.\<close>

locale operation_store =
  fixes I :: "db \<Rightarrow> bool"
  assumes outbox_kept: "I d \<Longrightarrow> I (d\<lparr>outbox_events := ob\<rparr>)"
    and steps_kept: "I d \<Longrightarrow> I (d\<lparr>operation_steps := st\<rparr>)"
    and insert_kept: "I d \<Longrightarrow> operationCheck r \<Longrightarrow> \<not> operationConflict (operations d) r \<Longrightarrow>
      op_status r = ''queued'' \<Longrightarrow> op_retry_count r = 0 \<Longrightarrow> I (d\<lparr>operations := operations d @ [r]\<rparr>)"
    and update_kept: "I d \<Longrightarrow> (\<And>r. r \<in> set (operations d) \<Longrightarrow> P r \<Longrightarrow> moves (\<lambda>_ _. True) r (f r) \<and> operationCheck (f r)) \<Longrightarrow>
      I (d\<lparr>operations := sqlUpdate P f (operations d)\<rparr>)"

sublocale operation_store \<subseteq> every: operation_moves I "\<lambda>_ _. True"
  by unfold_locales (blast intro: outbox_kept steps_kept insert_kept update_kept)+

context operation_store
begin

lemmas qkeeps_writes = every.qkeeps_inserts every.qkeeps_updates[OF TrueI] every.qkeeps_requeueStuck[OF TrueI]

lemmas keeps_event = every.keeps_event and keeps_withSteps = every.keeps_withSteps and keeps_Create = every.keeps_Create
  and keeps_UpdateStep = every.keeps_UpdateStep

lemmas keeps_Claim = every.keeps_Claim[OF TrueI]
  and keeps_UpdateProgress = every.keeps_UpdateProgress[OF TrueI]
  and keeps_Succeed = every.keeps_Succeed[OF TrueI]
  and keeps_Fail = every.keeps_Fail[OF TrueI]
  and keeps_ScheduleRetry = every.keeps_ScheduleRetry[OF TrueI]
  and keeps_RecoverStuck = every.keeps_RecoverStuck[OF TrueI]
  and keeps_retryBatch = every.keeps_retryBatch[OF TrueI]
  and keeps_claimAndRun = every.keeps_claimAndRun[OF TrueI TrueI TrueI TrueI]

lemma keeps_processMessage:
  assumes "\<And>t flow x. handlers t = Some flow \<Longrightarrow> keeps I (flow x)"
  shows "keeps I (processMessage handlers m)"
  unfolding processMessage_def
  by (intro keeps_option keeps_raise keeps_bnd[OF keeps_asks] keeps_bnd[OF keeps_ofResult] keeps_if keeps_claimAndRun assms)

end

section \<open>The constraints of the table\<close>

definition operationsInv :: "db \<Rightarrow> bool" where
  "operationsInv d \<longleftrightarrow> distinct (map op_id (operations d)) \<and> distinct (map op_idempotency_key (operations d)) \<and>
     uniq activeAction (operations d) \<and> (\<forall>r\<in>set (operations d). operationCheck r \<and> 0 \<le> op_retry_count r)"

lemma operationConflictD:
  "\<not> operationConflict t r \<Longrightarrow> op_id r \<notin> op_id ` set t \<and> op_idempotency_key r \<notin> op_idempotency_key ` set t \<and> \<not> conflicts activeAction t r"
  by (auto simp: operationConflict_def conflicts_def list_ex_iff image_iff eq_commute)

lemma opStep_action: "opStep m r r' \<Longrightarrow> operationCheck r \<Longrightarrow> activeAction r' = activeAction r \<or> activeAction r' = None"
  using opStep_same[of m r r'] opStep_not_terminal[of m r r']
  by (auto simp: activeAction_def sameOperation_def operationCheck_def)

interpretation constraints: operation_store operationsInv
proof unfold_locales
  fix d P and f :: "operationRow \<Rightarrow> operationRow"
  assume inv: "operationsInv d"
    and step: "\<And>r. r \<in> set (operations d) \<Longrightarrow> P r \<Longrightarrow> moves (\<lambda>_ _. True) r (f r) \<and> operationCheck (f r)"
  from step have same: "op_id (f r) = op_id r" "op_idempotency_key (f r) = op_idempotency_key r"
    and action: "activeAction (f r) = activeAction r \<or> activeAction (f r) = None"
    and count: "0 \<le> op_retry_count (f r)"
    if "r \<in> set (operations d)" "P r" for r
  proof -
    from step[OF that] obtain m where m: "opStep m r (f r)" by (auto simp: moves_def)
    from inv that(1) have r: "operationCheck r" "0 \<le> op_retry_count r" by (auto simp: operationsInv_def)
    from opStep_same[OF m] show "op_id (f r) = op_id r" "op_idempotency_key (f r) = op_idempotency_key r"
      by (simp_all add: sameOperation_def)
    from opStep_action[OF m r(1)] show "activeAction (f r) = activeAction r \<or> activeAction (f r) = None" .
    from opStep_count[OF m] r(2) show "0 \<le> op_retry_count (f r)" by linarith
  qed
  have "map op_id (sqlUpdate P f (operations d)) = map op_id (operations d)"
    "map op_idempotency_key (sqlUpdate P f (operations d)) = map op_idempotency_key (operations d)"
    using same by (auto simp: sqlUpdate_def)
  moreover have "uniq activeAction (sqlUpdate P f (operations d))"
    by (rule uniq_update) (use inv action in \<open>auto simp: operationsInv_def\<close>)
  ultimately show "operationsInv (d\<lparr>operations := sqlUpdate P f (operations d)\<rparr>)"
    using inv step count by (auto simp: operationsInv_def set_sqlUpdate)
qed (auto simp: operationsInv_def uniq_append1 dest: operationConflictD)

section \<open>The history of the rows\<close>

text \<open>
  Every row of \<open>d0\<close> is still there, advanced by allowed steps of the machine; every other row began as a
  queued operation.
\<close>

definition evolvesBy :: "(uuid \<Rightarrow> opMove \<Rightarrow> bool) \<Rightarrow> db \<Rightarrow> db \<Rightarrow> bool" where
  "evolvesBy A d0 d \<longleftrightarrow> (\<forall>r\<in>set (operations d0). \<exists>r'\<in>set (operations d). (moves A)\<^sup>*\<^sup>* r r') \<and>
     (\<forall>r'\<in>set (operations d). (\<exists>r\<in>set (operations d0). (moves A)\<^sup>*\<^sup>* r r') \<or>
        (\<exists>r. op_status r = ''queued'' \<and> op_retry_count r = 0 \<and> (moves A)\<^sup>*\<^sup>* r r'))"

definition evolves :: "db \<Rightarrow> db \<Rightarrow> bool" where
  "evolves = evolvesBy (\<lambda>_ _. True)"

lemma evolvesBy_refl: "evolvesBy A d d"
  by (auto simp: evolvesBy_def)

lemma evolvesBy_trans:
  assumes "evolvesBy A d0 d1" "evolvesBy A d1 d2"
  shows "evolvesBy A d0 d2"
  unfolding evolvesBy_def
proof (intro conjI ballI)
  fix r assume "r \<in> set (operations d0)"
  with assms show "\<exists>r'\<in>set (operations d2). (moves A)\<^sup>*\<^sup>* r r'"
    unfolding evolvesBy_def by (meson rtranclp_trans)
next
  fix r' assume "r' \<in> set (operations d2)"
  with assms show "(\<exists>r\<in>set (operations d0). (moves A)\<^sup>*\<^sup>* r r') \<or>
      (\<exists>r. op_status r = ''queued'' \<and> op_retry_count r = 0 \<and> (moves A)\<^sup>*\<^sup>* r r')"
    unfolding evolvesBy_def by (meson rtranclp_trans)
qed

lemma evolvesBy_map:
  assumes "\<And>r. r \<in> set (operations d) \<Longrightarrow> (moves A)\<^sup>*\<^sup>* r (g r)" and "operations d' = map g (operations d)"
  shows "evolvesBy A d d'"
  unfolding evolvesBy_def assms(2) set_map by (auto intro!: assms(1))

lemma evolvesBy_update:
  assumes "\<And>r. r \<in> set (operations d) \<Longrightarrow> P r \<Longrightarrow> moves A r (f r)"
  shows "evolvesBy A d (d\<lparr>operations := sqlUpdate P f (operations d)\<rparr>)"
  by (rule evolvesBy_map[where g = "\<lambda>r. if P r then f r else r"]) (auto simp: sqlUpdate_def intro: assms)

lemma evolvesBy_same: "operations d' = operations d \<Longrightarrow> evolvesBy A d0 d \<Longrightarrow> evolvesBy A d0 d'"
  by (simp add: evolvesBy_def)

interpretation journal: operation_moves "evolvesBy A d0" A
  for A d0
proof unfold_locales
  fix d P and f :: "operationRow \<Rightarrow> operationRow"
  assume "evolvesBy A d0 d" and "\<And>r. r \<in> set (operations d) \<Longrightarrow> P r \<Longrightarrow> moves A r (f r) \<and> operationCheck (f r)"
  then show "evolvesBy A d0 (d\<lparr>operations := sqlUpdate P f (operations d)\<rparr>)"
    by (blast intro: evolvesBy_trans evolvesBy_update)
next
  fix d and r :: operationRow
  assume ev: "evolvesBy A d0 d" and r: "op_status r = ''queued''" "op_retry_count r = 0"
  have "evolvesBy A d (d\<lparr>operations := operations d @ [r]\<rparr>)" using r by (auto simp: evolvesBy_def)
  with ev show "evolvesBy A d0 (d\<lparr>operations := operations d @ [r]\<rparr>)" by (rule evolvesBy_trans)
qed (auto simp: evolvesBy_def)

interpretation history: operation_store "evolves d0"
  for d0
  unfolding evolves_def
  by unfold_locales (blast intro: journal.outbox_kept journal.steps_kept journal.insert_kept journal.update_kept)+

lemma evolves_refl: "evolves d d"
  by (simp add: evolves_def evolvesBy_refl)

lemma evolves_trans: "evolves d0 d1 \<Longrightarrow> evolves d1 d2 \<Longrightarrow> evolves d0 d2"
  unfolding evolves_def by (rule evolvesBy_trans)

lemma evolves_same: "operations d' = operations d \<Longrightarrow> evolves d0 d \<Longrightarrow> evolves d0 d'"
  unfolding evolves_def by (rule evolvesBy_same)

lemma evolves_terminal: "evolves d d' \<Longrightarrow> r \<in> set (operations d) \<Longrightarrow> terminal (op_status r) \<Longrightarrow> r \<in> set (operations d')"
  unfolding evolves_def evolvesBy_def by (metis moves_terminal)

lemma keeps_evolvesBy:
  assumes "keeps (evolvesBy A (wdb w)) m" and "m e w = (r, w')" and "\<And>d. evolvesBy A d (concurrent e d)"
  shows "evolvesBy A (wdb w) (wdb w')"
proof (rule keepsD[where I = "evolvesBy A (wdb w)"])
  show "evolvesBy A (wdb w) (wdb w)" by (rule evolvesBy_refl)
qed (use assms evolvesBy_trans in blast)+

lemma keeps_evolves:
  assumes "keeps (evolves (wdb w)) m" and "m e w = (r, w')" and "\<And>d. evolves d (concurrent e d)"
  shows "evolves (wdb w) (wdb w')"
  using keeps_evolvesBy assms unfolding evolves_def by blast

section \<open>Requests\<close>

text \<open>Everything a client, a workflow or a background job may ask of the component.\<close>

datatype opRequest =
    RCreate CreateRequest
  | RGet uuid uuid
  | RClaim uuid
  | RProgress uuid string string int string
  | RStep uuid string string int int string string json
  | RSucceed uuid
  | RFail uuid "err option"
  | RRetry operationRow "err option" time
  | RRecover time int
  | RRequeue nat
  | RMessage registry "json option"

definition void :: "'a io \<Rightarrow> unit io" where "void m = bnd m (\<lambda>_. ret ())"

primrec serve :: "opRequest \<Rightarrow> unit io" where
  "serve (RCreate req) = void (Create_svc req)"
| "serve (RGet userID operationID) = void (GetForUser userID operationID)"
| "serve (RClaim operationID) = void (Claim operationID)"
| "serve (RProgress operationID st ph pr mk) = UpdateProgress operationID st ph pr mk"
| "serve (RStep operationID key st pr n ec em out) = UpdateStep operationID key st pr n ec em out"
| "serve (RSucceed operationID) = Succeed operationID"
| "serve (RFail operationID x) = Fail operationID x"
| "serve (RRetry current x t) = ScheduleRetry current x t"
| "serve (RRecover cutoff n) = void (RecoverStuck cutoff n)"
| "serve (RRequeue n) = void (retryBatch n)"
| "serve (RMessage handlers payload) = processMessage handlers payload"

context operation_store
begin

lemma keeps_serve:
  assumes "\<And>handlers payload t flow x. req = RMessage handlers payload \<Longrightarrow> handlers t = Some flow \<Longrightarrow> keeps I (flow x)"
  shows "keeps I (serve req)"
proof (cases req)
  case (RMessage handlers payload)
  with assms show ?thesis by (simp add: keeps_processMessage)
qed (simp_all add: void_def keeps_bnd keeps_ret keeps_Create every.keeps_GetForUser keeps_Claim keeps_UpdateProgress keeps_UpdateStep
    keeps_Succeed keeps_Fail keeps_ScheduleRetry keeps_RecoverStuck keeps_retryBatch)

end

text \<open>What a request asks for: the moves it may make, and on which operation.\<close>

primrec asks_for :: "env \<Rightarrow> opRequest \<Rightarrow> uuid \<Rightarrow> opMove \<Rightarrow> bool" where
  "asks_for e (RCreate req) i m = False"
| "asks_for e (RGet userID operationID) i m = False"
| "asks_for e (RClaim operationID) i m = (i = operationID \<and> m = Claimed)"
| "asks_for e (RProgress operationID st ph pr mk) i m = (i = operationID \<and> m = Progressed st)"
| "asks_for e (RStep operationID key st pr n ec em out) i m = False"
| "asks_for e (RSucceed operationID) i m = (i = operationID \<and> m = Completed ''succeeded'')"
| "asks_for e (RFail operationID x) i m = (i = operationID \<and> m = Completed ''failed'')"
| "asks_for e (RRetry current x t) i m = (i = op_id current \<and> m = Retried)"
| "asks_for e (RRecover cutoff n) i m = (m = Recovered)"
| "asks_for e (RRequeue n) i m = (m = Requeued)"
| "asks_for e (RMessage handlers payload) i m = (\<exists>p. payload = Some p \<and> decodeData e ''operation_id'' p = Inr i \<and>
     m \<in> {Claimed, Completed ''succeeded'', Completed ''failed'', Retried})"

lemma processMessage_runs:
  assumes "processMessage handlers payload e w = (x, w')"
  shows "wdb w' = wdb w \<or> (\<exists>p i. payload = Some p \<and> decodeData e ''operation_id'' p = Inr i \<and>
    bnd (attempt (Claim i)) (\<lambda>r. case r of
          Inl x \<Rightarrow> if x = ErrNotFound then ret () else raise x
        | Inr current \<Rightarrow> runWorkflow handlers current) e w = (x, w'))"
  using assms unfolding processMessage_def
  by (auto simp: bnd_def asks_def ofResult_def raise_def ret_def split: option.splits sum.splits if_splits)

context operation_moves
begin

lemma keeps_serve_one:
  assumes "\<And>i m. asks_for e req i m \<Longrightarrow> A i m" "\<And>handlers payload. req \<noteq> RMessage handlers payload"
  shows "keeps I (serve req)"
  using assms(1)
  by (cases req) (simp_all add: assms(2) void_def keeps_bnd keeps_ret keeps_Create keeps_GetForUser keeps_Claim keeps_UpdateProgress keeps_UpdateStep
    keeps_Succeed keeps_Fail keeps_ScheduleRetry keeps_RecoverStuck keeps_retryBatch)

end

end
