(* ===== verification/Operation_Laws.thy ===== *)
theory Operation_Laws
  imports Operation_Safety
begin

text \<open>
  What each handler of \<open>internal/operation\<close> does: the exact effect of creating, claiming, settling,
  recovering and requeueing operations, and the properties of the component.
\<close>

section \<open>Effects\<close>

definition logged :: "db \<Rightarrow> db \<Rightarrow> string \<Rightarrow> uuid \<Rightarrow> bool" where
  "logged d d' eventType aggregateID \<longleftrightarrow> (\<exists>ev. ob_event_type ev = eventType \<and> ob_aggregate_id ev = aggregateID \<and>
     ob_status ev = ''pending'' \<and> d' = d\<lparr>outbox_events := outbox_events d @ [ev]\<rparr>)"

lemma createOperationEvent_ok:
  assumes "createOperationEvent t row x e w = (Inr u, w')"
  shows "logged (wdb w) (wdb w') t (op_id row)"
proof -
  let ?ev = "newOutboxEvent e (freshID e (wids w)) t ''operation'' (op_id row) (operationEvent e (freshID e (wids w)) t row x)"
  from assms have "wdb w' = (wdb w)\<lparr>outbox_events := outbox_events (wdb w) @ [?ev]\<rparr>"
    by (auto simp: createOperationEvent_def bnd_ok newID_ok asks_ok exec_ok CreateOutboxEvent_def Let_def insertInto_ok)
  then show ?thesis unfolding logged_def by (intro exI[of _ ?ev]) (simp add: newOutboxEvent_def)
qed

lemma logged_operations: "logged d d' t a \<Longrightarrow> operations d' = operations d"
  by (auto simp: logged_def)

lemma Claim_ok:
  assumes "Claim i e w = (Inr row, w')"
  obtains d1 where "ClaimOperation i e (wdb w) = Inr (row, d1)" "logged d1 (wdb w') ''operation.updated.v1'' (op_id row)"
  using assms unfolding Claim_def
  by (auto simp: in_tx_ok bnd_ok orNoRows_ok exec_ok ret_ok dest!: createOperationEvent_ok)

lemma mutate_ok:
  assumes "mutate q e w = (Inr u, w')"
  obtains row d1 where "q e (wdb w) = Inr (row, d1)" "logged d1 (wdb w') ''operation.updated.v1'' (op_id row)"
  using assms unfolding mutate_def
  by (auto simp: in_tx_ok bnd_ok orNoRows_ok exec_ok ret_ok dest!: createOperationEvent_ok)

text \<open>A row that was updated is there afterwards.\<close>

lemma updated_row:
  assumes "updateReturning (operations d) P f check (\<lambda>t. d\<lparr>operations := t\<rparr>) = Inr (row, d1)"
  shows "row \<in> set (operations d1) \<and> (\<exists>r\<in>set (operations d). P r \<and> row = f r)"
proof -
  from assms obtain r where "one (filter P (operations d)) = Inr r" "row = f r"
    "d1 = d\<lparr>operations := sqlUpdate P f (operations d)\<rparr>" by (auto simp: updateReturning_ok)
  then show ?thesis by (auto simp: set_sqlUpdate dest!: one_filter_Inr)
qed

section \<open>Batches\<close>

lemma recoverOperation_fields [simp]:
  "op_id (recoverOperation e r) = op_id r"
  "op_status (recoverOperation e r) = (if op_retry_count r < op_max_retries r then ''queued'' else ''failed'')"
  by (simp_all add: recoverOperation_def Let_def)

text \<open>The event of a recovery: a fresh queue message, or the news that the operation has failed.\<close>

definition recoveryEvent :: "operationRow \<Rightarrow> string \<times> uuid \<times> string" where
  "recoveryEvent r = (if op_retry_count r < op_max_retries r then ''operation.queued.v1'' else ''operation.updated.v1'', op_id r, ''pending'')"

lemma recoverOne_ok:
  assumes run: "recoverOne (op_id r) e w = (Inr u, w')"
    and keys: "distinct (map op_id (operations (wdb w)))" and r: "r \<in> set (operations (wdb w))" "inProgress (op_status r)"
  shows "\<exists>ev. wdb w' = (wdb w)\<lparr>operations := sqlUpdate (\<lambda>x. x = r) (recoverOperation e) (operations (wdb w)),
      outbox_events := outbox_events (wdb w) @ [ev]\<rparr> \<and> (ob_event_type ev, ob_aggregate_id ev, ob_status ev) = recoveryEvent r"
proof -
  let ?f = "recoverOperation e" and ?t = "operations (wdb w)"
  have this_row: "x = r" if "x \<in> set ?t" "op_id x = op_id r" for x
    using that r(1) keys by (auto simp: distinct_map inj_on_def)
  have upd: "sqlUpdate (\<lambda>x. op_id x = op_id r \<and> inProgress (op_status x)) ?f ?t = sqlUpdate (\<lambda>x. x = r) ?f ?t"
    unfolding sqlUpdate_def using this_row r(2) by (intro map_cong refl if_cong) auto
  from run obtain n w1 where n: "exec (requeueStuck (op_id r)) e w = (Inr n, w1)"
    and rest: "(if n = 0 then ret () else bnd (exec (GetOperationByID (op_id r))) (\<lambda>updated.
       createOperationEvent (if op_status updated = ''queued'' then ''operation.queued.v1'' else ''operation.updated.v1'')
         updated [(''recovery'', JStr ''worker_heartbeat_expired'')])) e w1 = (Inr u, w')"
    unfolding recoverOne_def by (elim bndE) blast
  from n have w1: "wdb w1 = (wdb w)\<lparr>operations := sqlUpdate (\<lambda>x. x = r) ?f ?t\<rparr>" and "n \<noteq> 0"
    using r by (auto simp: exec_ok requeueStuck_def upd filter_empty_conv)
  with rest obtain row w2 where get: "exec (GetOperationByID (op_id r)) e w1 = (Inr row, w2)"
    and ev: "createOperationEvent (if op_status row = ''queued'' then ''operation.queued.v1'' else ''operation.updated.v1'') row
      [(''recovery'', JStr ''worker_heartbeat_expired'')] e w2 = (Inr u, w')"
    by (auto elim!: bndE)
  from get have w2: "wdb w2 = wdb w1" using exec_readonly[OF readonly_operation(1)] by blast
  from get have "row \<in> set (operations (wdb w1))" "op_id row = op_id r"
    by (auto simp: exec_ok GetOperationByID_def selectOne_ok dest: one_filter_Inr)
  with this_row have "row = ?f r" by (auto simp: w1 set_sqlUpdate)
  with createOperationEvent_ok[OF ev] w1 w2 show ?thesis by (auto simp: logged_def recoveryEvent_def)
qed

lemma forEach_recoverOne:
  assumes "forEach recoverOne (map op_id rows) e w = (Inr u, w')"
    and "distinct (map op_id (operations (wdb w)))" "distinct (map op_id rows)"
    and "\<forall>r\<in>set rows. r \<in> set (operations (wdb w)) \<and> inProgress (op_status r)"
  shows "\<exists>news. wdb w' = (wdb w)\<lparr>operations := sqlUpdate (\<lambda>r. r \<in> set rows) (recoverOperation e) (operations (wdb w)),
      outbox_events := outbox_events (wdb w) @ news\<rparr> \<and>
      map (\<lambda>ev. (ob_event_type ev, ob_aggregate_id ev, ob_status ev)) news = map recoveryEvent rows"
  using assms
proof (induction rows arbitrary: w)
  case Nil
  then show ?case by (intro exI[of _ "[]"]) (simp add: ret_ok sqlUpdate_none)
next
  case (Cons r rows)
  let ?f = "recoverOperation e" and ?t = "operations (wdb w)"
  from Cons.prems(1) obtain w1 where one: "recoverOne (op_id r) e w = (Inr (), w1)"
    and rest: "forEach recoverOne (map op_id rows) e w1 = (Inr u, w')" by (auto simp: bnd_ok)
  from recoverOne_ok[OF one Cons.prems(2)] Cons.prems(4) obtain ev where
    w1: "wdb w1 = (wdb w)\<lparr>operations := sqlUpdate (\<lambda>x. x = r) ?f ?t, outbox_events := outbox_events (wdb w) @ [ev]\<rparr>"
    and ev: "(ob_event_type ev, ob_aggregate_id ev, ob_status ev) = recoveryEvent r" by auto
  have fresh: "?f r \<notin> set rows" "r \<notin> set rows" using Cons.prems(3) by (auto simp: image_iff) 
  have "distinct (map op_id (operations (wdb w1)))" using Cons.prems(2) by (simp add: w1 map_sqlUpdate)
  moreover have "\<forall>x\<in>set rows. x \<in> set (operations (wdb w1)) \<and> inProgress (op_status x)"
    using Cons.prems(4) fresh by (auto simp: w1 set_sqlUpdate)
  ultimately obtain news where
    w': "wdb w' = (wdb w1)\<lparr>operations := sqlUpdate (\<lambda>r. r \<in> set rows) ?f (operations (wdb w1)),
      outbox_events := outbox_events (wdb w1) @ news\<rparr>"
    and news: "map (\<lambda>ev. (ob_event_type ev, ob_aggregate_id ev, ob_status ev)) news = map recoveryEvent rows"
    using Cons.IH[OF rest] Cons.prems(3) by auto
  have "sqlUpdate (\<lambda>r. r \<in> set rows) ?f (sqlUpdate (\<lambda>x. x = r) ?f ?t) = sqlUpdate (\<lambda>x. x \<in> set (r # rows)) ?f ?t"
    using fresh by (auto simp: sqlUpdate_def)
  with w1 w' ev news show ?case by (intro exI[of _ "ev # news"]) simp
qed

section \<open>Sample\<close>

definition world0_op :: world where
  "world0_op = world0\<lparr>wdb := db0\<lparr>operations := [operation0]\<rparr>\<rparr>"

definition registry0 :: registry where
  "registry0 = [''instance.start'' \<mapsto> (\<lambda>x. Progress x ''running'' ''starting'' 50 ''operation.starting'')]"

definition payload0 :: json where
  "payload0 = JObj [(''data'', JObj [(''operation_id'', JStr [char_of (5::nat)])])]"

lemma world0_op_inv: "operationsInv (wdb world0_op)"
  by (simp add: operationsInv_def world0_op_def operation0_def newOperation_def operationCheck_def operationStatuses_def uniq_Cons uniq_Nil)

lemma world0_op_ops: "operations (wdb world0_op) = [operation0]"
  by (simp add: world0_op_def)

lemma registry0_keeps: "registry0 t = Some flow \<Longrightarrow> keeps (evolves d0) (flow y)"
  "registry0 t = Some flow \<Longrightarrow> keeps operationsInv (flow y)"
  by (auto simp: registry0_def Progress_def history.keeps_UpdateProgress constraints.keeps_UpdateProgress split: if_splits)

lemma registry0_moves:
  "registry0 t = Some flow \<Longrightarrow> A (ex_operationID y) (Progressed ''running'') \<Longrightarrow> keeps (evolvesBy A d0) (flow y)"
  by (auto simp: registry0_def Progress_def intro!: journal.keeps_UpdateProgress split: if_splits)

lemma sample_message: "succeeded (processMessage registry0 (Some payload0) env0 world0_op)"
  by code_simp

section \<open>Properties\<close>

text \<open>
  C15: the handlers implement the state machine of operations, and every request makes only its own moves.
  A claim takes only the operation it names, only from \<open>queued\<close> and not before its next attempt is due; success and
  failure finish only the operation they name, from an unfinished state; a retry counts one attempt; the
  retry scheduler queues only what is retrying; recovery moves only what is in progress, back to the
  queue within the budget and to \<open>failed\<close> otherwise; creating, reading and step updates move nothing; a
  message makes claims and settles only the operation it names. Whatever faults occur, every operation that was
  on record is still on record and got to its present state by such moves, those of other sessions (\<open>A\<close>) and those of
  the workflow included; its identity, owner, resource and retry budget are unchanged, its retry
  counter never decreases, and new operations begin queued.
\<close>

theorem serve_evolves:
  assumes run: "serve req e w = (x, w')" and A: "\<forall>i m. asks_for e req i m \<longrightarrow> A i m"
    and others: "\<forall>d. evolvesBy A d (concurrent e d)"
    and flows: "\<forall>handlers p t flow y d0. req = RMessage handlers (Some p) \<longrightarrow> handlers t = Some flow \<longrightarrow>
      decodeData e ''operation_id'' p = Inr (ex_operationID y) \<longrightarrow> keeps (evolvesBy A d0) (flow y)"
  shows "evolvesBy A (wdb w) (wdb w')"
proof (cases "\<exists>handlers payload. req = RMessage handlers payload")
  case True
  then obtain handlers payload where req: "req = RMessage handlers payload" by blast
  show ?thesis
  proof (rule processMessage_runs[OF run[unfolded req serve.simps], THEN disjE])
    assume "wdb w' = wdb w"
    then show ?thesis by (simp add: evolvesBy_refl)
  next
    assume "\<exists>p i. payload = Some p \<and> decodeData e ''operation_id'' p = Inr i \<and>
      bnd (attempt (Claim i)) (\<lambda>r. case r of Inl x \<Rightarrow> if x = ErrNotFound then ret () else raise x
        | Inr current \<Rightarrow> runWorkflow handlers current) e w = (x, w')"
    then obtain p i where p: "payload = Some p" "decodeData e ''operation_id'' p = Inr i"
      and go: "bnd (attempt (Claim i)) (\<lambda>r. case r of Inl x \<Rightarrow> if x = ErrNotFound then ret () else raise x
        | Inr current \<Rightarrow> runWorkflow handlers current) e w = (x, w')" by blast
    show ?thesis
      by (rule keeps_evolvesBy[OF journal.keeps_claimAndRun go]) (use A p req flows others in auto)
  qed
next
  case False
  have "keeps (evolvesBy A (wdb w)) (serve req)"
    by (rule journal.keeps_serve_one) (use A False in auto)
  from keeps_evolvesBy[OF this run] others show ?thesis by blast
qed

theorem serve_evolves_witness:
  "\<exists>x w'. serve (RMessage registry0 (Some payload0)) env0 world0_op = (x, w') \<and>
     evolvesBy (\<lambda>i m. i = 5 \<and> m \<in> {Claimed, Progressed ''running'', Completed ''succeeded'', Completed ''failed'', Retried})
       (wdb world0_op) (wdb w')"
proof -
  let ?A = "\<lambda>i m. i = 5 \<and> m \<in> {Claimed, Progressed ''running'', Completed ''succeeded'', Completed ''failed'', Retried}"
  obtain x w' where run: "serve (RMessage registry0 (Some payload0)) env0 world0_op = (x, w')" by fastforce
  have dec: "decodeData env0 ''operation_id'' payload0 = Inr 5" by code_simp
  have "evolvesBy ?A (wdb world0_op) (wdb w')"
    by (rule serve_evolves[OF run]) (auto simp: dec evolvesBy_refl intro: registry0_moves)
  with run show ?thesis by blast
qed

text \<open>
  C16: a finished operation is final. The constraints of the operations table hold after every request,
  and the row of an operation that has succeeded, failed or been cancelled is never changed again.
\<close>

theorem serve_final:
  assumes run: "serve req e w = (x, w')" and inv: "operationsInv (wdb w)"
    and others: "\<forall>d. evolves d (concurrent e d) \<and> (operationsInv d \<longrightarrow> operationsInv (concurrent e d))"
    and flows: "\<forall>handlers payload t flow y. req = RMessage handlers payload \<longrightarrow> handlers t = Some flow \<longrightarrow>
      keeps operationsInv (flow y) \<and> (\<forall>d0. keeps (evolves d0) (flow y))"
  shows "operationsInv (wdb w') \<and> (\<forall>r\<in>set (operations (wdb w)). terminal (op_status r) \<longrightarrow>
    filter (\<lambda>r'. op_id r' = op_id r) (operations (wdb w')) = [r])"
proof -
  have "keeps operationsInv (serve req)" by (rule constraints.keeps_serve) (use flows in blast)
  from keepsD[OF this run inv] others have inv': "operationsInv (wdb w')" by blast
  have "keeps (evolves (wdb w)) (serve req)" by (rule history.keeps_serve) (use flows in blast)
  from keeps_evolves[OF this run] others have "evolves (wdb w) (wdb w')" by blast
  with inv' show ?thesis
    by (auto simp: operationsInv_def intro!: filter_pk dest: evolves_terminal)
qed

definition world0_done :: world where
  "world0_done = world0\<lparr>wdb := db0\<lparr>operations := [operation0\<lparr>op_status := ''failed''\<rparr>]\<rparr>\<rparr>"

theorem serve_final_witness:
  "\<exists>x w'. serve (RSucceed 5) env0 world0_done = (x, w') \<and> operationsInv (wdb w') \<and>
    filter (\<lambda>r'. op_id r' = 5) (operations (wdb w')) = [operation0\<lparr>op_status := ''failed''\<rparr>]"
proof -
  obtain x w' where run: "serve (RSucceed 5) env0 world0_done = (x, w')" by fastforce
  have "operationsInv (wdb world0_done)"
    by (simp add: operationsInv_def world0_done_def operation0_def newOperation_def operationCheck_def operationStatuses_def uniq_Cons uniq_Nil)
  from serve_final[OF run this] run show ?thesis
    by (simp add: env0_def evolves_refl world0_done_def operation0_def newOperation_def)
qed

text \<open>
  An operation is claimed at most once. When a worker has claimed an operation, it is running, and
  whoever tries to claim it again, at any later time, is told that there is nothing to claim.
\<close>

theorem Claim_exclusive:
  assumes inv: "operationsInv (wdb w)" and run: "Claim operationID e w = (Inr row, w1)" and quiet: "\<forall>n. faults e2 n = NoFault"
  shows "op_id row = operationID \<and> op_status row = ''running'' \<and> row \<in> set (operations (wdb w1)) \<and>
    (\<exists>w2. Claim operationID e2 w1 = (Inl ErrNotFound, w2) \<and> wdb w2 = wdb w1)"
proof -
  from run obtain d1 where q: "ClaimOperation operationID e (wdb w) = Inr (row, d1)"
    and lg: "logged d1 (wdb w1) ''operation.updated.v1'' (op_id row)" by (rule Claim_ok)
  from updated_row[OF q[unfolded ClaimOperation_def]] have row: "row \<in> set (operations (wdb w1))"
    and id: "op_id row = operationID" and st: "op_status row = ''running''"
    by (auto simp: logged_operations[OF lg])
  from qkeepsD[OF constraints.qkeeps_writes(5) q inv] lg have "operationsInv (wdb w1)"
    by (auto simp: logged_def operationsInv_def)
  then have "\<forall>r\<in>set (operations (wdb w1)). op_id r = operationID \<longrightarrow> r = row"
    using row id by (auto simp: operationsInv_def distinct_map inj_on_def)
  with st have "filter (\<lambda>r. op_id r = operationID \<and> op_status r = ''queued'' \<and> op_next_attempt_at r \<le> pgNow e2) (operations (wdb w1)) = []"
    by (auto simp: filter_empty_conv)
  then have "ClaimOperation operationID e2 (wdb w1) = Inl ErrNoRows"
    unfolding ClaimOperation_def updateReturning_def by (auto simp: list_all_iff filter_empty_conv)
  then have "Claim operationID e2 w1 = (Inl ErrNotFound, (tick (tick w1))\<lparr>wdb := wdb w1\<rparr>)"
    using quiet by (simp add: Claim_def in_tx_def bnd_def orNoRows_def attempt_def exec_def raise_def)
  with row id st show ?thesis by simp
qed

lemma sample_claim: "succeeded (Claim 5 env0 world0_op)"
  by code_simp

theorem Claim_exclusive_witness:
  "\<exists>row w1. Claim 5 env0 world0_op = (Inr row, w1) \<and> op_status row = ''running'' \<and>
    (\<exists>w2. Claim 5 env0 w1 = (Inl ErrNotFound, w2) \<and> wdb w2 = wdb w1)"
proof -
  from sample_claim obtain row w1 where run: "Claim 5 env0 world0_op = (Inr row, w1)" by (rule succeededE)
  from Claim_exclusive[OF world0_op_inv run, of env0] run show ?thesis by (simp add: env0_def)
qed

end
