(* ===== verification/Operation_Flow.thy ===== *)
theory Operation_Flow
  imports Operation_Laws
begin

text \<open>
  The life of an operation: what a worker leaves behind when it has processed a message, what the
  recovery of dead workers and the retry scheduler do, and the creation of operations.
\<close>

section \<open>Settling\<close>

definition settled :: "env \<Rightarrow> uuid \<Rightarrow> operationRow \<Rightarrow> bool" where
  "settled e operationID r \<longleftrightarrow> op_id r = operationID \<and> (op_status r = ''succeeded'' \<or> op_status r = ''failed'' \<or>
     op_status r = ''retrying'' \<and> goNow e + second \<le> op_next_attempt_at r \<and> op_next_attempt_at r \<le> goNow e + 256 * second)"

lemma retryBackoff_bounds: "second \<le> retryBackoff n \<and> retryBackoff n \<le> 256 * second"
proof -
  have "nat (min n 8) \<le> 8" by simp
  then have "(2::int) ^ nat (min n 8) \<le> 2 ^ 8" by (intro power_increasing) auto
  then show ?thesis by (simp add: retryBackoff_def)
qed

lemma complete_settles:
  assumes "complete i st ph pr mk ec em e w = (Inr u, w')"
  shows "\<exists>r\<in>set (operations (wdb w')). op_id r = i \<and> op_status r = st"
  using assms unfolding complete_def
proof (rule mutate_ok)
  fix row d1
  assume q: "CompleteOperation i st (text_of ph) pr (text_of mk) (text_of ec) (text_of em) e (wdb w) = Inr (row, d1)"
    and lg: "logged d1 (wdb w') ''operation.updated.v1'' (op_id row)"
  from updated_row[OF q[unfolded CompleteOperation_def]] show ?thesis
    by (intro bexI[of _ row]) (auto simp: logged_operations[OF lg])
qed

lemma Fail_settles:
  assumes "Fail i x e w = (Inr u, w')"
  shows "\<exists>r\<in>set (operations (wdb w')). settled e i r"
  using assms by (auto simp: Fail_def bnd_ok asks_ok settled_def split: prod.splits dest!: complete_settles)

lemma Succeed_settles:
  assumes "Succeed i e w = (Inr u, w')"
  shows "\<exists>r\<in>set (operations (wdb w')). settled e i r"
  using complete_settles[OF assms[unfolded Succeed_def]] by (auto simp: settled_def)

lemma ScheduleRetry_settles:
  assumes "ScheduleRetry cur x (goNow e + retryBackoff n) e w = (Inr u, w')"
  shows "\<exists>r\<in>set (operations (wdb w')). settled e (op_id cur) r"
proof -
  from assms obtain ec em mk row d1 where
    q: "ScheduleOperationRetry (op_id cur) ec em mk (goNow e + retryBackoff n) e (wdb w) = Inr (row, d1)"
    and lg: "logged d1 (wdb w') ''operation.updated.v1'' (op_id row)"
    unfolding ScheduleRetry_def
    by (auto simp: in_tx_ok bnd_ok asks_ok exec_ok ret_ok split: prod.splits dest!: createOperationEvent_ok)
  from updated_row[OF q[unfolded ScheduleOperationRetry_def]] retryBackoff_bounds[of n] show ?thesis
    by (intro bexI[of _ row]) (auto simp: settled_def logged_operations[OF lg])
qed

lemma runWorkflow_settles:
  assumes "runWorkflow handlers cur e w = (Inr u, w')"
  shows "\<exists>r\<in>set (operations (wdb w')). settled e (op_id cur) r"
proof (cases "handlers (op_type cur)")
  case None
  with assms show ?thesis by (auto simp: runWorkflow_def dest: Fail_settles)
next
  case (Some flow)
  from assms obtain r :: "err + unit" and w1 :: world where r: "(case r of Inr _ \<Rightarrow> Succeed (op_id cur)
      | Inl x \<Rightarrow> if workflowRetryable (asWorkflowError x) \<and> op_retry_count cur < op_max_retries cur
          then bnd (asks goNow) (\<lambda>now. ScheduleRetry cur (Some (asWorkflowError x)) (now + retryBackoff (op_retry_count cur)))
          else Fail (op_id cur) (Some (asWorkflowError x))) e w1 = (Inr u, w')"
    unfolding runWorkflow_def Some option.case by (elim bndE) blast
  show ?thesis
  proof (cases r)
    case (Inl x)
    with r show ?thesis
      by (cases "workflowRetryable (asWorkflowError x) \<and> op_retry_count cur < op_max_retries cur")
        (auto simp: bnd_ok asks_ok dest: Fail_settles ScheduleRetry_settles)
  qed (use r in \<open>auto dest: Succeed_settles\<close>)
qed

text \<open>What a claim that finds nothing means.\<close>

lemma Claim_nothing:
  assumes "Claim i e w = (Inl ErrNotFound, w')"
  shows "wdb w' = wdb w \<and> (\<forall>r\<in>set (operations (wdb w)). op_id r = i \<longrightarrow> \<not> (op_status r = ''queued'' \<and> op_next_attempt_at r \<le> pgNow e))"
proof -
  have no_event: "createOperationEvent t row x e w1 \<noteq> (Inl ErrNotFound, w2)" for t row x w1 w2
    by (auto simp: createOperationEvent_def bnd_def newID_def asks_def exec_def CreateOutboxEvent_def insertInto_def Let_def
        uniqueViolation_def split: fault.splits sum.splits prod.splits if_splits)
  have "ClaimOperation i e (wdb w) = Inl ErrNoRows \<and> wdb w' = wdb w"
    using assms no_event
    by (auto simp: Claim_def in_tx_def bnd_def orNoRows_def attempt_def exec_def raise_def ret_def ClaimOperation_def
        updateReturning_def checkViolation_def split: fault.splits sum.splits prod.splits ending.splits if_splits list.splits)
  then show ?thesis
    by (auto simp: ClaimOperation_def updateReturning_def filter_empty_conv split: if_splits list.splits)
qed

text \<open>
  C17: a message that was processed leaves nothing half done. When the consumer reports success for the
  message of an operation, then either there was nothing to claim and nothing was changed, or the
  operation has succeeded, has failed, or waits for its next attempt, which is due between one second
  and 256 seconds from now. This holds for every workflow, whatever it does.
\<close>

theorem processMessage_settles:
  assumes run: "processMessage handlers (Some p) e w = (Inr u, w')"
  shows "\<exists>operationID. decodeData e ''operation_id'' p = Inr operationID \<and> operationID \<noteq> uuidNil \<and>
    (wdb w' = wdb w \<and> (\<forall>r\<in>set (operations (wdb w)). op_id r = operationID \<longrightarrow>
        \<not> (op_status r = ''queued'' \<and> op_next_attempt_at r \<le> pgNow e)) \<or>
     (\<exists>r\<in>set (operations (wdb w')). settled e operationID r))"
proof -
  from run obtain i where dec: "decodeData e ''operation_id'' p = Inr i" and i: "i \<noteq> uuidNil"
    and rest: "(case Claim i e w of (Inl x, w1) \<Rightarrow> if x = ErrNotFound then (Inr (), w1) else (Inl x, w1)
      | (Inr current, w1) \<Rightarrow> runWorkflow handlers current e w1) = (Inr u, w')"
    by (auto simp: processMessage_def bnd_def asks_def ofResult_def attempt_def raise_def ret_def
        split: sum.splits if_splits prod.splits)
  show ?thesis
  proof (cases "fst (Claim i e w)")
    case (Inl x)
    with rest have "Claim i e w = (Inl ErrNotFound, w')" by (auto split: prod.splits if_splits)
    with Claim_nothing dec i show ?thesis by blast
  next
    case (Inr cur)
    with rest obtain w1 where cl: "Claim i e w = (Inr cur, w1)" and fl: "runWorkflow handlers cur e w1 = (Inr u, w')"
      by (cases "Claim i e w") auto
    from cl obtain d1 where "ClaimOperation i e (wdb w) = Inr (cur, d1)" by (rule Claim_ok)
    then have "op_id cur = i" unfolding ClaimOperation_def by (drule_tac updated_row) auto
    with runWorkflow_settles[OF fl] dec i show ?thesis by blast
  qed
qed

theorem processMessage_settles_witness:
  "\<exists>w'. processMessage registry0 (Some payload0) env0 world0_op = (Inr (), w') \<and>
    (\<exists>r\<in>set (operations (wdb w')). settled env0 5 r)"
proof -
  from sample_message obtain w' where run: "processMessage registry0 (Some payload0) env0 world0_op = (Inr (), w')"
    by (rule succeededE) auto
  have dec: "decodeData env0 ''operation_id'' payload0 = Inr 5" by code_simp
  have due: "op_id operation0 = 5 \<and> op_status operation0 = ''queued'' \<and> op_next_attempt_at operation0 \<le> pgNow env0"
    by (simp add: operation0_def newOperation_def)
  from processMessage_settles[OF run] dec due run show ?thesis by (auto simp: world0_op_ops)
qed

section \<open>Recovery\<close>

text \<open>
  C18: recovery of dead workers. An operation has expired when it is in progress and its heartbeat is
  older than the cut-off. The batch recovers as many expired operations as no other session holds and the batch admits, all of
  them when they fit, those with the oldest heartbeat first. Each is put back into the queue with one more
  retry counted and without a heartbeat, and a new \<open>operation.queued.v1\<close> event is written for it; when
  its budget is used up it fails instead, with \<open>operation.updated.v1\<close>. Nothing else changes.
\<close>

theorem RecoverStuck_exact:
  assumes run: "RecoverStuck cutoff batchSize e w = (Inr n, w')"
    and inv: "operationsInv (wdb w)"
    and expired: "expired = {r \<in> set (operations (wdb w)). \<not> pgLocked e (op_id r) \<and>
      op_status r \<in> {''running'', ''waiting_provider'', ''waiting_resource'', ''verifying''} \<and>
      (\<exists>t. op_heartbeat_at r = Some t \<and> t < cutoff)}"
  shows "\<exists>rows news. set rows \<subseteq> expired \<and> distinct rows \<and> n = length rows \<and> n = min (nat batchSize) (card expired) \<and>
    (\<forall>r\<in>set rows. \<forall>q\<in>expired - set rows. the (op_heartbeat_at r) \<le> the (op_heartbeat_at q)) \<and>
    wdb w' = (wdb w)\<lparr>operations := map (\<lambda>r. if r \<notin> set rows then r
        else if op_retry_count r < op_max_retries r
        then r\<lparr>op_status := ''queued'', op_phase := Some ''queued'', op_progress := 0, op_message_key := Some ''operation.queued'',
          op_retryable := True, op_retry_count := op_retry_count r + 1, op_error_code := Some ''WORKER_HEARTBEAT_EXPIRED'',
          op_error_message := Some ''worker heartbeat expired'', op_heartbeat_at := None, op_finished_at := None, op_updated_at := pgNow e\<rparr>
        else r\<lparr>op_status := ''failed'', op_phase := Some ''failed'', op_progress := 100, op_message_key := Some ''operation.failed'',
          op_retryable := False, op_error_code := Some ''WORKER_HEARTBEAT_EXPIRED'', op_error_message := Some ''worker heartbeat expired'',
          op_heartbeat_at := None, op_finished_at := Some (pgNow e), op_updated_at := pgNow e\<rparr>) (operations (wdb w)),
      outbox_events := outbox_events (wdb w) @ news\<rparr> \<and>
    map (\<lambda>ev. (ob_event_type ev, ob_aggregate_id ev, ob_status ev)) news =
      map (\<lambda>r. (if op_retry_count r < op_max_retries r then ''operation.queued.v1'' else ''operation.updated.v1'', op_id r, ''pending'')) rows"
proof -
  let ?beat = "\<lambda>r :: operationRow. case op_heartbeat_at r of Some t \<Rightarrow> t | None \<Rightarrow> 0"
  define due where "due = filter (\<lambda>r. \<not> pgLocked e (op_id r)) (sort_key ?beat (filter (\<lambda>r. inProgress (op_status r) \<and>
    (case op_heartbeat_at r of None \<Rightarrow> False | Some t \<Rightarrow> t < cutoff)) (operations (wdb w))))"
  define sel where "sel = take (nat batchSize) due"
  from run obtain w2 w3 where each: "forEach recoverOne (map op_id sel) e w2 = (Inr (), w3)"
    and w2: "wdb w2 = wdb w" and w': "wdb w' = wdb w3" and n: "n = length sel"
    by (auto simp: RecoverStuck_def raise_ok in_tx_ok bnd_ok ret_ok exec_ok selectStuck_def selectMany_ok sel_def due_def split: if_splits)
  have ids: "distinct (map op_id (operations (wdb w)))" using inv by (simp add: operationsInv_def)
  have due: "set due = expired" by (auto simp: due_def expired inProgress_def split: option.splits)
  have distinct: "distinct due" using ids by (simp add: due_def distinct_map)
  have sel: "set sel \<subseteq> expired" "distinct sel" using distinct due by (auto simp: sel_def dest: in_set_takeD)
  moreover have "n = min (nat batchSize) (card expired)"
    using card_take_filter[OF distinct, of "nat batchSize"] by (simp add: n sel_def due)
  moreover have "the (op_heartbeat_at r) \<le> the (op_heartbeat_at q)" if "r \<in> set sel" "q \<in> expired - set sel" for r q
  proof -
    have "?beat r \<le> ?beat q"
      using that due by (intro take_sorted_first[of _ "nat batchSize" due]) (auto simp: sel_def due_def sorted_filter)
    with that sel(1) show ?thesis by (auto simp: expired)
  qed
  moreover have "inj_on op_id (set sel)" using sel(1) ids by (auto simp: expired distinct_map intro: inj_on_subset)
  then have "distinct (map op_id sel)" using sel(2) by (simp add: distinct_map)
  with forEach_recoverOne[OF each] sel(1) ids obtain news where
    "wdb w' = (wdb w)\<lparr>operations := sqlUpdate (\<lambda>r. r \<in> set sel) (recoverOperation e) (operations (wdb w)),
      outbox_events := outbox_events (wdb w) @ news\<rparr>"
    "map (\<lambda>ev. (ob_event_type ev, ob_aggregate_id ev, ob_status ev)) news = map recoveryEvent sel"
    by (auto simp: w2 w' expired inProgress_def)
  ultimately show ?thesis
    by (intro exI[of _ sel] exI[of _ news] conjI ballI n)
      (auto simp: sqlUpdate_def recoverOperation_def Let_def recoveryEvent_def)
qed

text \<open>Two dead workers, one of them at the end of the budget, and one that is alive.\<close>

definition world0_stuck :: world where
  "world0_stuck = world0\<lparr>wdb := db0\<lparr>operations := [operation0\<lparr>op_status := ''running'', op_heartbeat_at := Some 0\<rparr>,
     operation0\<lparr>op_id := 7, op_idempotency_key := ''b'', op_status := ''verifying'', op_heartbeat_at := Some 3, op_max_retries := 0\<rparr>,
     operation0\<lparr>op_id := 8, op_idempotency_key := ''c'', op_status := ''running'', op_heartbeat_at := Some (2 * second)\<rparr>]\<rparr>\<rparr>"

lemma sample_recover: "succeeded (RecoverStuck second 10 env0 world0_stuck)"
  by code_simp

theorem RecoverStuck_exact_witness:
  "\<exists>w'. RecoverStuck second 10 env0 world0_stuck = (Inr 2, w') \<and>
     map op_status (operations (wdb w')) = [''queued'', ''failed'', ''running'']"
proof -
  from sample_recover obtain n w' where run: "RecoverStuck second 10 env0 world0_stuck = (Inr n, w')" by (rule succeededE)
  have inv: "operationsInv (wdb world0_stuck)"
    by (simp add: operationsInv_def world0_stuck_def operation0_def newOperation_def operationCheck_def operationStatuses_def
        activeAction_def uniq_Cons uniq_Nil)
  define gone where "gone = {r \<in> set (operations (wdb world0_stuck)). \<not> pgLocked env0 (op_id r) \<and>
      op_status r \<in> {''running'', ''waiting_provider'', ''waiting_resource'', ''verifying''} \<and>
      (\<exists>t. op_heartbeat_at r = Some t \<and> t < second)}"
  let ?a = "operations (wdb world0_stuck) ! 0" and ?b = "operations (wdb world0_stuck) ! 1"
  have gone2: "gone = {?a, ?b}" "?a \<noteq> ?b"
    by (auto simp: gone_def world0_stuck_def operation0_def newOperation_def env0_def)
  from RecoverStuck_exact[OF run inv gone_def] obtain rows where rows: "set rows \<subseteq> gone" "distinct rows" "n = length rows"
      "n = min (nat 10) (card gone)"
    and ops: "map op_status (operations (wdb w')) = map (\<lambda>r. if r \<notin> set rows then op_status r
        else if op_retry_count r < op_max_retries r then ''queued'' else ''failed'') (operations (wdb world0_stuck))"
    by (auto simp: if_distrib)
  have "n = 2" using rows(4) gone2 by simp
  then have "set rows = gone" using rows gone2 by (intro card_subset_eq) (auto simp: distinct_card)
  with ops run \<open>n = 2\<close> gone2 show ?thesis by (simp add: world0_stuck_def operation0_def newOperation_def)
qed

text \<open>
  The budget is checked on the row as it was claimed. A worker that was taken for dead and reports a
  retryable failure after its operation has been recovered and claimed by another worker counts a
  retry that the budget does not cover.
\<close>

definition staleWorker :: "unit io" where
  "staleWorker = bnd (Claim 5) (\<lambda>current. bnd (RecoverStuck (2000 * second) 10) (\<lambda>_. bnd (Claim 5) (\<lambda>_.
     bnd (asks goNow) (\<lambda>now. ScheduleRetry current None (now + retryBackoff (op_retry_count current))))))"

theorem staleWorker_overruns:
  "succeeded (staleWorker env0 world0_op) \<and>
   list_all (\<lambda>r. op_status r = ''retrying'' \<and> op_max_retries r < op_retry_count r) (operations (wdb (snd (staleWorker env0 world0_op))))"
  by code_simp

section \<open>Creation\<close>

definition stepsOf :: "db \<Rightarrow> operationRow \<Rightarrow> stepRow list" where
  "stepsOf d r = sort_key (\<lambda>s. (st_step_order s, st_id s)) (filter (\<lambda>s. st_operation_id s = op_id r) (operation_steps d))"

definition operationView :: "db \<Rightarrow> operationRow \<Rightarrow> Operation \<Rightarrow> bool" where
  "operationView d r v \<longleftrightarrow> v = (publicOperation r)\<lparr>Operation_Steps := map publicStep (stepsOf d r)\<rparr>"

definition requestOnRecord :: "CreateRequest \<Rightarrow> db \<Rightarrow> operationRow \<Rightarrow> bool" where
  "requestOnRecord req d r \<longleftrightarrow> r \<in> set (operations d) \<and> op_idempotency_key r = cr_IdempotencyKey req \<and> sameRequest r req"

lemma operationWithSteps_ok:
  "operationWithSteps row e w = (Inr v, w') \<Longrightarrow> operationView (wdb w') row v \<and> wdb w' = wdb w"
  by (auto simp: operationWithSteps_def bnd_ok pool_ok ListOperationSteps_def selectMany_ok ret_ok operationView_def stepsOf_def)

lemma existingOperation_ok:
  assumes "existingOperation req row e w = (Inr v, w')"
  shows "operationView (wdb w') row v \<and> wdb w' = wdb w \<and> sameRequest row req"
  using assms operationWithSteps_ok[of row e w v w'] by (auto simp: existingOperation_def raise_ok split: if_splits)

lemma keyed_ok:
  assumes "pool (GetOperationByIdempotency key) e w = (Inr row, w')"
  shows "row \<in> set (operations (wdb w)) \<and> op_idempotency_key row = key \<and> wdb w' = wdb w"
  using assms by (auto simp: pool_ok GetOperationByIdempotency_def selectOne_ok dest: one_filter_Inr)

lemma createSteps_ok:
  assumes "createSteps i ds e w = (Inr u, w')"
  shows "\<exists>steps. wdb w' = (wdb w)\<lparr>operation_steps := operation_steps (wdb w) @ steps\<rparr> \<and>
    map (\<lambda>s. (st_operation_id s, st_step_key s, st_step_order s, st_status s)) steps =
    map (\<lambda>d. (i, sd_Key d, sd_Order d, ''pending'')) ds"
  using assms
proof (induction ds arbitrary: w)
  case Nil
  then show ?case by (intro exI[of _ "[]"]) (simp add: createSteps_def ret_ok)
next
  case (Cons d ds)
  from Cons.prems obtain row w1 where one: "exec (CreateOperationStep (freshID e (wids w)) i (sd_Key d) (sd_Order d)) e
      (w\<lparr>wids := Suc (wids w)\<rparr>) = (Inr row, w1)" and rest: "createSteps i ds e w1 = (Inr u, w')"
    by (auto simp: createSteps_def bnd_ok newID_ok ret_ok)
  from one have w1: "wdb w1 = (wdb w)\<lparr>operation_steps := operation_steps (wdb w) @ [row]\<rparr>"
    and row: "(st_operation_id row, st_step_key row, st_step_order row, st_status row) = (i, sd_Key d, sd_Order d, ''pending'')"
    by (auto simp: exec_ok CreateOperationStep_def Let_def insertInto_ok)
  from Cons.IH[OF rest] obtain steps where "wdb w' = (wdb w1)\<lparr>operation_steps := operation_steps (wdb w1) @ steps\<rparr>"
    "map (\<lambda>s. (st_operation_id s, st_step_key s, st_step_order s, st_status s)) steps =
      map (\<lambda>d. (i, sd_Key d, sd_Order d, ''pending'')) ds" by blast
  with w1 row show ?case by (intro exI[of _ "row # steps"]) simp
qed

text \<open>What the transaction adds.\<close>

definition createdOperation :: "CreateRequest \<Rightarrow> db \<Rightarrow> db \<Rightarrow> operationRow \<Rightarrow> bool" where
  "createdOperation req d d' row \<longleftrightarrow> sameRequest row req \<and> op_idempotency_key row = cr_IdempotencyKey req \<and>
     op_status row = ''queued'' \<and> op_retry_count row = 0 \<and> op_max_retries row = cr_MaxRetries req \<and>
     op_trace_id row = cr_TraceID req \<and> \<not> operationConflict (operations d) row \<and>
     (\<exists>steps ev. d' = d\<lparr>operations := operations d @ [row], operation_steps := operation_steps d @ steps,
        outbox_events := outbox_events d @ [ev]\<rparr> \<and>
      map (\<lambda>s. (st_operation_id s, st_step_key s, st_step_order s, st_status s)) steps =
        map (\<lambda>x. (op_id row, sd_Key x, sd_Order x, ''pending'')) (cr_Steps req) \<and>
      ob_event_type ev = ''operation.queued.v1'' \<and> ob_aggregate_id ev = op_id row \<and> ob_status ev = ''pending'')"

lemma createOperationTx_ok:
  assumes "createOperationTx req e w = (Inr (Commit (Some row)), w')"
  shows "createdOperation req (wdb w) (wdb w') row"
proof -
  from assms obtain i w1 w2 where ins: "exec (CreateOperation i (cr_Type req) (cr_ResourceType req) (cr_ResourceID req)
        (text_of ''operation.queued'') (cr_IdempotencyKey req) (cr_MaxRetries req) (cr_TraceID req)
        (cr_UserID req) (cr_ActorAdminID req)) e (w\<lparr>wids := Suc (wids w)\<rparr>) = (Inr row, w1)"
    and st: "createSteps i (cr_Steps req) e w1 = (Inr (), w2)"
    and ev: "createOperationEvent ''operation.queued.v1'' row [] e w2 = (Inr (), w')"
    unfolding createOperationTx_def
    by (elim bndE[of newID] tryE) (auto simp: bnd_ok newID_ok raise_ok ret_ok split: if_splits)
  from ins have w1: "wdb w1 = (wdb w)\<lparr>operations := operations (wdb w) @ [row]\<rparr>" and nc: "\<not> operationConflict (operations (wdb w)) row"
    and row: "row = newOperation e i (cr_Type req) (cr_ResourceType req) (cr_ResourceID req)
        (text_of ''operation.queued'') (cr_IdempotencyKey req) (cr_MaxRetries req) (cr_TraceID req) (cr_UserID req) (cr_ActorAdminID req)"
    by (auto simp: exec_ok CreateOperation_def Let_def insertInto_ok)
  have fields: "op_id row = i \<and> sameRequest row req \<and> op_idempotency_key row = cr_IdempotencyKey req \<and> op_status row = ''queued'' \<and>
      op_retry_count row = 0 \<and> op_max_retries row = cr_MaxRetries req \<and> op_trace_id row = cr_TraceID req"
    by (simp add: row newOperation_def sameRequest_def)
  from createSteps_ok[OF st] obtain steps where w2: "wdb w2 = (wdb w1)\<lparr>operation_steps := operation_steps (wdb w1) @ steps\<rparr>"
    and steps: "map (\<lambda>s. (st_operation_id s, st_step_key s, st_step_order s, st_status s)) steps =
      map (\<lambda>d. (i, sd_Key d, sd_Order d, ''pending'')) (cr_Steps req)" by blast
  from createOperationEvent_ok[OF ev] obtain evt where "ob_event_type evt = ''operation.queued.v1''" "ob_aggregate_id evt = op_id row"
    "ob_status evt = ''pending''" "wdb w' = (wdb w2)\<lparr>outbox_events := outbox_events (wdb w2) @ [evt]\<rparr>" by (auto simp: logged_def)
  with fields w1 w2 steps nc show ?thesis
    unfolding createdOperation_def by (intro conjI exI[of _ steps] exI[of _ evt]) simp_all
qed

lemma createOperationTx_ending:
  assumes "createOperationTx req e w = (Inr x, w')"
  shows "x = Rollback None \<or> (\<exists>row. x = Commit (Some row))"
  using assms unfolding createOperationTx_def
  by (elim bndE[of newID] tryE) (auto simp: bnd_ok raise_ok ret_ok split: if_splits)

lemma Create_cases:
  assumes "Create req e w = (Inr v, w')"
  obtains (known) row where "row \<in> set (operations (wdb w))" "op_idempotency_key row = cr_IdempotencyKey req"
      "sameRequest row req" "operationView (wdb w') row v" "wdb w' = wdb w"
  | (new) row where "\<forall>r\<in>set (operations (wdb w)). op_idempotency_key r \<noteq> cr_IdempotencyKey req"
      "createdOperation req (concurrent e (wdb w)) (wdb w') row" "operationView (wdb w') row v"
      "\<forall>x\<in>set (cr_Steps req). sd_Key x \<noteq> ''''"
  | (raced) row where "row \<in> set (operations (wdb w'))" "op_idempotency_key row = cr_IdempotencyKey req"
      "sameRequest row req" "operationView (wdb w') row v" "wdb w' = concurrent e (wdb w)"
  using assms unfolding Create_def
proof (cases rule: tryE)
  case (passed row w1)
  then show ?thesis using keyed_ok[OF passed(1)] existingOperation_ok[OF passed(2)] known by auto
next
  case (failed x w1)
  let ?w2 = "w1\<lparr>wdb := concurrent e (wdb w1)\<rparr>"
  from failed obtain w3 and created where x: "x = ErrNoRows"
    and steps: "\<forall>x\<in>set (cr_Steps req). sd_Key x \<noteq> ''''"
    and tx: "in_tx (createOperationTx req) e ?w2 = (Inr created, w3)"
    and rest: "(case created of Some row \<Rightarrow> operationWithSteps row
        | None \<Rightarrow> bnd (orNoRows ErrIdempotencyConflict (pool (GetOperationByIdempotency (cr_IdempotencyKey req))))
            (existingOperation req)) e w3 = (Inr v, w')"
    by (auto simp: bnd_ok raise_ok others_ok list_ex_iff split: if_splits)
  from failed(1) x have w1: "wdb w1 = wdb w" and fresh: "\<forall>r\<in>set (operations (wdb w)). op_idempotency_key r \<noteq> cr_IdempotencyKey req"
    by (auto simp: pool_def GetOperationByIdempotency_def selectOne_def one_filter_Inl split: fault.splits sum.splits)
  show ?thesis
  proof (cases created)
    case (Some row)
    with tx Some obtain w4 where "createOperationTx req e (tick ?w2) = (Inr (Commit (Some row)), w4)" "wdb w3 = wdb w4"
      by (auto simp: in_tx_ok dest: createOperationTx_ending)
    with createOperationTx_ok[of req e "tick ?w2" row w4] have "createdOperation req (wdb ?w2) (wdb w3) row" by simp
    with rest Some operationWithSteps_ok[of row e w3 v w'] new fresh steps w1 show ?thesis by auto
  next
    case None
    from tx None have w3: "wdb w3 = wdb ?w2" by (auto simp: in_tx_ok dest: createOperationTx_ending)
    from rest None obtain row w4 where found: "pool (GetOperationByIdempotency (cr_IdempotencyKey req)) e w3 = (Inr row, w4)"
      and ex: "existingOperation req row e w4 = (Inr v, w')" by (auto simp: bnd_ok orNoRows_ok)
    from keyed_ok[OF found] existingOperation_ok[OF ex] w3 w1 show ?thesis by (intro raced[of row]) auto
  qed
qed

interpretation creation: retryable operationsInv "requestOnRecord req" operationView "Create req" "Create req"
  for req
proof unfold_locales
  show "keeps operationsInv (Create req)" by (rule constraints.keeps_Create)
next
  fix e w v w'
  assume "Create req e w = (Inr v, w')"
  then show "\<exists>r. requestOnRecord req (wdb w') r \<and> operationView (wdb w') r v"
    by (cases rule: Create_cases) (auto simp: requestOnRecord_def createdOperation_def)
next
  fix w :: world and r v and e :: env
  assume inv: "operationsInv (wdb w)" and r: "requestOnRecord req (wdb w) r" and v: "operationView (wdb w) r v"
    and quiet: "\<And>n. faults e n = NoFault"
  have "one (filter (\<lambda>x. op_idempotency_key x = cr_IdempotencyKey req) (operations (wdb w))) = Inr r"
    using inv r one_filter_pk[of op_idempotency_key "operations (wdb w)" r] by (auto simp: operationsInv_def requestOnRecord_def)
  then have "pool (GetOperationByIdempotency (cr_IdempotencyKey req)) e w = (Inr r, (tick w)\<lparr>wdb := wdb w\<rparr>)"
    using quiet by (simp add: pool_def GetOperationByIdempotency_def selectOne_def)
  then have "Create req e w = operationWithSteps r e ((tick w)\<lparr>wdb := wdb w\<rparr>)"
    using r by (simp add: Create_def bnd_def attempt_def existingOperation_def requestOnRecord_def)
  with v quiet show "\<exists>w'. Create req e w = (Inr v, w') \<and> wdb w' = wdb w"
    by (simp add: operationWithSteps_def bnd_def pool_def ListOperationSteps_def selectMany_def ret_def operationView_def stepsOf_def)
qed

text \<open>
  An operation is created once per idempotency key. Once a call has succeeded, the same request
  answers with the same operation and writes nothing.
\<close>

theorem Create_retry:
  assumes "operationsInv (wdb w)" "\<And>d. operationsInv d \<Longrightarrow> operationsInv (concurrent e d)"
    and "Create req e w = (Inr v, w1)" and "\<forall>n. faults e2 n = NoFault"
  shows "\<exists>w2. Create req e2 w1 = (Inr v, w2) \<and> wdb w2 = wdb w1"
  using creation.retry_same[OF assms(1-3)] assms(4) by blast

text \<open>
  C19: a new operation is created whole. Under a key nobody has used, a successful request adds exactly
  one queued operation that carries the request, one pending step per step definition in the given order,
  and one \<open>operation.queued.v1\<close> event; the request was complete.
\<close>

theorem Create_exact:
  assumes run: "Create_svc req e w = (Inr v, w')" and d: "d = concurrent e (wdb w)"
    and fresh: "\<forall>r\<in>set (operations (wdb w)) \<union> set (operations d). op_idempotency_key r \<noteq> cr_IdempotencyKey req"
  shows "8 \<le> length (cr_IdempotencyKey req) \<and> 0 \<le> cr_MaxRetries req \<and> cr_Steps req \<noteq> [] \<and>
    (\<forall>x\<in>set (cr_Steps req). sd_Key x \<noteq> '''') \<and>
    (\<exists>row. createdOperation req d (wdb w') row \<and> operationView (wdb w') row v)"
proof -
  from run have "Create req e w = (Inr v, w')" and req: "8 \<le> length (cr_IdempotencyKey req)" "0 \<le> cr_MaxRetries req" "cr_Steps req \<noteq> []"
    by (auto simp: Create_svc_def raise_ok split: if_splits)
  then show ?thesis by (cases rule: Create_cases) (use d fresh req in auto)
qed

definition request0 :: CreateRequest where
  "request0 = \<lparr>cr_Type = ''instance.start'', cr_ResourceType = ''instance'', cr_ResourceID = 6, cr_IdempotencyKey = ''start:00000001'',
     cr_TraceID = ''trace'', cr_UserID = Some 1, cr_ActorAdminID = None, cr_MaxRetries = 3,
     cr_Steps = [\<lparr>sd_Key = ''call'', sd_Order = 1\<rparr>, \<lparr>sd_Key = ''verify'', sd_Order = 2\<rparr>]\<rparr>"

lemma sample_create: "succeeded (Create request0 env0 world0)" "succeeded (Create_svc request0 env0 world0)"
  by code_simp+

lemma world0_no_ops: "operations (wdb world0) = []"
  by (simp add: world0_def db0_def emptyDb_def)

theorem Create_retry_witness:
  "\<exists>v w1. Create request0 env0 world0 = (Inr v, w1) \<and> (\<exists>w2. Create request0 env0 w1 = (Inr v, w2) \<and> wdb w2 = wdb w1)"
proof -
  from sample_create(1) obtain v w1 where run: "Create request0 env0 world0 = (Inr v, w1)" by (rule succeededE)
  have "operationsInv (wdb world0)" by (simp add: operationsInv_def world0_no_ops uniq_Nil)
  from Create_retry[OF this _ run, of env0] run show ?thesis by (simp add: env0_def)
qed

theorem Create_exact_witness:
  "\<exists>v w' row. Create_svc request0 env0 world0 = (Inr v, w') \<and> createdOperation request0 db0 (wdb w') row"
proof -
  from sample_create(2) obtain v w' where run: "Create_svc request0 env0 world0 = (Inr v, w')" by (rule succeededE)
  have "concurrent env0 (wdb world0) = db0" by (simp add: env0_def world0_def)
  from Create_exact[OF run this[symmetric]] world0_no_ops run show ?thesis by (auto simp: db0_def emptyDb_def)
qed

end
