(* ===== verification/Infrastructure_Queries.thy ===== *)
theory Infrastructure_Queries
  imports Complex_Main Commerce_Queries
begin

text \<open>
  The statements of \<open>internal/store/sqlc/infrastructure.sql.go\<close>, with the constraints of migration
  \<open>000005_infrastructure\<close>. The ratios of the candidate order are exact fractions.
\<close>

section \<open>Capacities\<close>

definition capAdd :: "capacity \<Rightarrow> capacity \<Rightarrow> capacity" where
  "capAdd a b = \<lparr>c_cpu = c_cpu a + c_cpu b, c_memory_mb = c_memory_mb a + c_memory_mb b, c_disk_gb = c_disk_gb a + c_disk_gb b,
     c_ipv4 = c_ipv4 a + c_ipv4 b, c_ipv6 = c_ipv6 a + c_ipv6 b, c_nat_port = c_nat_port a + c_nat_port b\<rparr>"

definition capSub :: "capacity \<Rightarrow> capacity \<Rightarrow> capacity" where
  "capSub a b = \<lparr>c_cpu = c_cpu a - c_cpu b, c_memory_mb = c_memory_mb a - c_memory_mb b, c_disk_gb = c_disk_gb a - c_disk_gb b,
     c_ipv4 = c_ipv4 a - c_ipv4 b, c_ipv6 = c_ipv6 a - c_ipv6 b, c_nat_port = c_nat_port a - c_nat_port b\<rparr>"

definition capZero :: capacity where
  "capZero = \<lparr>c_cpu = 0, c_memory_mb = 0, c_disk_gb = 0, c_ipv4 = 0, c_ipv6 = 0, c_nat_port = 0\<rparr>"

definition dims :: "(capacity \<Rightarrow> int) list" where
  "dims = [c_cpu, c_memory_mb, c_disk_gb, c_ipv4, c_ipv6, c_nat_port]"

definition capLe :: "capacity \<Rightarrow> capacity \<Rightarrow> bool" where
  "capLe a b \<longleftrightarrow> list_all (\<lambda>c. c a \<le> c b) dims"

lemma dims_simps:
  assumes "c \<in> set dims"
  shows "c (capAdd a b) = c a + c b" "c (capSub a b) = c a - c b" "c capZero = 0"
  using assms by (auto simp: dims_def capAdd_def capSub_def capZero_def)

lemma capLe_iff: "capLe a b \<longleftrightarrow> (\<forall>c\<in>set dims. c a \<le> c b)"
  by (simp add: capLe_def list_all_iff)

lemma cap_eqI: "(\<And>c. c \<in> set dims \<Longrightarrow> c a = c b) \<Longrightarrow> a = (b :: capacity)"
  by (simp add: dims_def)

lemma capLe_fits: "capLe r (capSub (capSub t a) u) \<longleftrightarrow> capLe (capAdd a (capAdd u r)) t"
proof -
  have "c r \<le> c (capSub (capSub t a) u) \<longleftrightarrow> c (capAdd a (capAdd u r)) \<le> c t" if "c \<in> set dims" for c
    using dims_simps[OF that] by auto
  then show ?thesis unfolding capLe_iff by simp
qed

section \<open>Providers and groups\<close>

definition providerCheck :: "providerRow \<Rightarrow> bool" where
  "providerCheck r \<longleftrightarrow> prov_status r \<in> {''active'', ''degraded'', ''disabled'', ''unavailable''}"

definition nodeGroupCheck :: "nodeGroupRow \<Rightarrow> bool" where
  "nodeGroupCheck r \<longleftrightarrow> ng_status r \<in> {''active'', ''disabled''}"

definition CreateInfrastructureProvider :: "uuid \<Rightarrow> string \<Rightarrow> string \<Rightarrow> pgtext \<Rightarrow> pgtext \<Rightarrow> string \<Rightarrow> json \<Rightarrow> json \<Rightarrow> providerRow query" where
  "CreateInfrastructureProvider rowID name providerType endpoint credentialRef status config capabilities = (\<lambda>e d.
     let r = \<lparr>prov_id = rowID, prov_name = name, prov_provider_type = providerType, prov_endpoint = endpoint,
        prov_credential_ref = credentialRef, prov_status = status, prov_version = None, prov_config = jsonb config,
        prov_capabilities = jsonb capabilities, prov_last_health_check_at = None, prov_created_at = pgNow e, prov_updated_at = pgNow e\<rparr>
     in insertInto (providerCheck r)
          (conflicts (\<lambda>x. Some (prov_id x)) (providers d) r \<or> conflicts (\<lambda>x. Some (prov_name x)) (providers d) r)
          True r (d\<lparr>providers := providers d @ [r]\<rparr>))"

definition CreateNodeGroup_q :: "uuid \<Rightarrow> string \<Rightarrow> string \<Rightarrow> string \<Rightarrow> nodeGroupRow query" where
  "CreateNodeGroup_q rowID name region status = (\<lambda>e d.
     let r = \<lparr>ng_id = rowID, ng_name = name, ng_region = region, ng_status = status, ng_created_at = pgNow e, ng_updated_at = pgNow e\<rparr>
     in insertInto (nodeGroupCheck r)
          (conflicts (\<lambda>x. Some (ng_id x)) (node_groups d) r \<or> conflicts (\<lambda>x. Some (ng_name x)) (node_groups d) r)
          True r (d\<lparr>node_groups := node_groups d @ [r]\<rparr>))"

definition ListInfrastructureProviders :: "providerRow list query" where
  "ListInfrastructureProviders = selectMany (\<lambda>e d. sort_key (\<lambda>r. (prov_name r, prov_id r)) (providers d))"

definition GetInfrastructureProviderByID :: "uuid \<Rightarrow> providerRow query" where
  "GetInfrastructureProviderByID rowID = selectOne (\<lambda>e d.
     filter (\<lambda>r. prov_id r = rowID \<and> prov_status r \<in> {''active'', ''degraded''}) (providers d))"

definition ListNodeGroups_q :: "nodeGroupRow list query" where
  "ListNodeGroups_q = selectMany (\<lambda>e d. sort_key (\<lambda>r. (ng_region r, ng_name r, ng_id r)) (node_groups d))"

section \<open>Nodes\<close>

definition nodeCheck :: "nodeRow \<Rightarrow> bool" where
  "nodeCheck r \<longleftrightarrow> n_status r \<in> {''online'', ''degraded'', ''draining'', ''maintenance'', ''offline''} \<and>
     capLe capZero (n_total r) \<and> capLe capZero (n_allocated r) \<and> capLe capZero (n_reserved r) \<and>
     capLe (capAdd (n_allocated r) (n_reserved r)) (n_total r)"

definition nodeProviderKey :: "nodeRow \<Rightarrow> (uuid \<times> string) option" where
  "nodeProviderKey r = (case n_provider_node_id r of None \<Rightarrow> None | Some x \<Rightarrow> Some (n_provider_id r, x))"

definition nodeConflict :: "nodeRow list \<Rightarrow> nodeRow \<Rightarrow> bool" where
  "nodeConflict t r \<longleftrightarrow> conflicts (\<lambda>x. Some (n_id x)) t r \<or> conflicts (\<lambda>x. Some (n_name x)) t r \<or> conflicts nodeProviderKey t r"

definition CreateNode_q :: "uuid \<Rightarrow> uuid \<Rightarrow> uuid option \<Rightarrow> pgtext \<Rightarrow> string \<Rightarrow> string \<Rightarrow> string \<Rightarrow> capacity \<Rightarrow> int \<Rightarrow> json \<Rightarrow> time option \<Rightarrow> nodeRow query" where
  "CreateNode_q rowID providerID nodeGroupID providerNodeID name region status totals weight capabilities lastSeenAt = (\<lambda>e d.
     let r = \<lparr>n_id = rowID, n_provider_id = providerID, n_node_group_id = nodeGroupID, n_provider_node_id = providerNodeID,
        n_name = name, n_region = region, n_status = status, n_total = totals, n_allocated = capZero, n_reserved = capZero,
        n_weight = weight, n_capabilities = jsonb capabilities, n_last_seen_at = lastSeenAt, n_version = 1,
        n_created_at = pgNow e, n_updated_at = pgNow e\<rparr>
     in insertInto (nodeCheck r) (nodeConflict (nodes d) r)
          (present prov_id providerID (providers d) \<and> presentOpt ng_id nodeGroupID (node_groups d))
          r (d\<lparr>nodes := nodes d @ [r]\<rparr>))"

definition ListNodes_q :: "nodeRow list query" where
  "ListNodes_q = selectMany (\<lambda>e d. sort_key (\<lambda>r. (n_region r, n_name r, n_id r)) (nodes d))"

text \<open>\<open>total - allocated - reserved >= requested\<close> in every dimension.\<close>

definition fits :: "capacity \<Rightarrow> nodeRow \<Rightarrow> bool" where
  "fits resources r \<longleftrightarrow> capLe resources (capSub (capSub (n_total r) (n_allocated r)) (n_reserved r))"

definition candidate :: "db \<Rightarrow> uuid \<Rightarrow> json \<Rightarrow> capacity \<Rightarrow> nodeRow \<Rightarrow> bool" where
  "candidate d groupID required resources r \<longleftrightarrow> n_node_group_id r = Some groupID \<and> n_status r = ''online'' \<and>
     list_ex (\<lambda>p. prov_id p = n_provider_id r \<and> prov_status p = ''active'') (providers d) \<and>
     list_ex (\<lambda>g. ng_id g = groupID \<and> ng_status g = ''active'') (node_groups d) \<and>
     jsonbContains (n_capabilities r) (jsonb required) \<and> fits resources r"

text \<open>\<open>COALESCE((allocated + reserved + requested) / NULLIF(total, 0), 0)\<close>.\<close>

definition usage :: "(capacity \<Rightarrow> int) \<Rightarrow> capacity \<Rightarrow> nodeRow \<Rightarrow> rat" where
  "usage c resources r = (if c (n_total r) = 0 then 0
     else rat_of_int (c (n_allocated r) + c (n_reserved r) + c resources) / rat_of_int (c (n_total r)))"

definition utilization :: "capacity \<Rightarrow> nodeRow \<Rightarrow> rat" where
  "utilization resources r = max (usage c_cpu resources r) (max (usage c_memory_mb resources r) (usage c_disk_gb resources r))"

definition SelectCandidateNodesForUpdate :: "uuid \<Rightarrow> json \<Rightarrow> capacity \<Rightarrow> nodeRow list query" where
  "SelectCandidateNodesForUpdate groupID required resources = selectMany (\<lambda>e d.
     sort_key (\<lambda>r. (utilization resources r, - n_weight r, n_id r)) (filter (candidate d groupID required resources) (nodes d)))"

definition reserveOn :: "env \<Rightarrow> capacity \<Rightarrow> nodeRow \<Rightarrow> nodeRow" where
  "reserveOn e resources = (\<lambda>r. r\<lparr>n_reserved := capAdd (n_reserved r) resources, n_version := n_version r + 1, n_updated_at := pgNow e\<rparr>)"

definition AddNodeReservation :: "uuid \<Rightarrow> capacity \<Rightarrow> nodeRow query" where
  "AddNodeReservation nodeID resources = (\<lambda>e d. updateReturning (nodes d) (\<lambda>r. n_id r = nodeID \<and> fits resources r)
     (reserveOn e resources) nodeCheck (\<lambda>t. d\<lparr>nodes := t\<rparr>))"

definition commitOn :: "env \<Rightarrow> capacity \<Rightarrow> nodeRow \<Rightarrow> nodeRow" where
  "commitOn e resources = (\<lambda>r. r\<lparr>n_reserved := capSub (n_reserved r) resources, n_allocated := capAdd (n_allocated r) resources,
     n_version := n_version r + 1, n_updated_at := pgNow e\<rparr>)"

definition CommitNodeReservation :: "uuid \<Rightarrow> capacity \<Rightarrow> nodeRow query" where
  "CommitNodeReservation nodeID resources = (\<lambda>e d. updateReturning (nodes d) (\<lambda>r. n_id r = nodeID)
     (commitOn e resources) nodeCheck (\<lambda>t. d\<lparr>nodes := t\<rparr>))"

definition releaseOn :: "env \<Rightarrow> capacity \<Rightarrow> nodeRow \<Rightarrow> nodeRow" where
  "releaseOn e resources = (\<lambda>r. r\<lparr>n_reserved := capSub (n_reserved r) resources, n_version := n_version r + 1, n_updated_at := pgNow e\<rparr>)"

definition ReleaseNodeReservation :: "uuid \<Rightarrow> capacity \<Rightarrow> nodeRow query" where
  "ReleaseNodeReservation nodeID resources = (\<lambda>e d. updateReturning (nodes d) (\<lambda>r. n_id r = nodeID)
     (releaseOn e resources) nodeCheck (\<lambda>t. d\<lparr>nodes := t\<rparr>))"

section \<open>Reservations\<close>

definition reservationCheck :: "reservationRow \<Rightarrow> bool" where
  "reservationCheck r \<longleftrightarrow> rr_status r \<in> {''reserved'', ''committed'', ''released'', ''expired''} \<and> capLe capZero (rr_resources r)"

definition reservationConflict :: "reservationRow list \<Rightarrow> reservationRow \<Rightarrow> bool" where
  "reservationConflict t r \<longleftrightarrow> conflicts (\<lambda>x. Some (rr_id x)) t r \<or> conflicts (\<lambda>x. Some (rr_operation_id x)) t r"

definition newReservation :: "env \<Rightarrow> uuid \<Rightarrow> uuid \<Rightarrow> uuid \<Rightarrow> capacity \<Rightarrow> time \<Rightarrow> reservationRow" where
  "newReservation e rowID nodeID operationID resources expiresAt = \<lparr>rr_id = rowID, rr_node_id = nodeID, rr_operation_id = operationID,
     rr_resources = resources, rr_status = ''reserved'', rr_expires_at = expiresAt, rr_created_at = pgNow e, rr_updated_at = pgNow e\<rparr>"

definition CreateResourceReservation :: "uuid \<Rightarrow> uuid \<Rightarrow> uuid \<Rightarrow> capacity \<Rightarrow> time \<Rightarrow> reservationRow query" where
  "CreateResourceReservation rowID nodeID operationID resources expiresAt = (\<lambda>e d.
     let r = newReservation e rowID nodeID operationID resources expiresAt
     in insertInto (reservationCheck r) (reservationConflict (reservations d) r)
          (present n_id nodeID (nodes d) \<and> present op_id operationID (operations d))
          r (d\<lparr>reservations := reservations d @ [r]\<rparr>))"

definition GetResourceReservationByOperation :: "uuid \<Rightarrow> reservationRow query" where
  "GetResourceReservationByOperation operationID = selectOne (\<lambda>e d. filter (\<lambda>r. rr_operation_id r = operationID) (reservations d))"

definition LockResourceReservation :: "uuid \<Rightarrow> reservationRow query" where
  "LockResourceReservation rowID = selectOne (\<lambda>e d. filter (\<lambda>r. rr_id r = rowID) (reservations d))"

definition SetResourceReservationStatus :: "uuid \<Rightarrow> string \<Rightarrow> reservationRow query" where
  "SetResourceReservationStatus rowID status = (\<lambda>e d. updateReturning (reservations d) (\<lambda>r. rr_id r = rowID)
     (\<lambda>r. r\<lparr>rr_status := status, rr_updated_at := pgNow e\<rparr>) reservationCheck (\<lambda>t. d\<lparr>reservations := t\<rparr>))"

lemma readonly_infrastructure [keeps_intros]:
  "readonly ListInfrastructureProviders" "readonly (GetInfrastructureProviderByID a)" "readonly ListNodeGroups_q"
  "readonly ListNodes_q" "readonly (SelectCandidateNodesForUpdate g j c)" "readonly (GetResourceReservationByOperation a)"
  "readonly (LockResourceReservation a)"
  by (simp_all add: ListInfrastructureProviders_def GetInfrastructureProviderByID_def ListNodeGroups_q_def ListNodes_q_def
      SelectCandidateNodesForUpdate_def GetResourceReservationByOperation_def LockResourceReservation_def readonly_select)

end
