(* ===== verification/Provision_Queries.thy ===== *)
theory Provision_Queries
  imports Operation_Queries Subscription_Queries Infrastructure_Queries
begin

text \<open>
  The statements of \<open>internal/store/sqlc/provision.sql.go\<close>, with the constraints of migration
  \<open>000007_provisioning\<close>.
\<close>

definition observedStates :: "string list" where
  "observedStates = [''pending'', ''provisioning'', ''running'', ''stopping'', ''stopped'', ''restarting'', ''reinstalling'',
     ''suspending'', ''suspended'', ''deleting'', ''deleted'', ''error'', ''unknown'']"

definition instanceCheck :: "instanceRow \<Rightarrow> bool" where
  "instanceCheck r \<longleftrightarrow> i_desired_state r \<in> {''running'', ''stopped'', ''suspended'', ''deleted''} \<and>
     i_observed_state r \<in> set observedStates"

text \<open>The partial index on \<open>(provider_id, provider_instance_id)\<close>.\<close>

definition providerInstanceKey :: "instanceRow \<Rightarrow> (uuid \<times> string) option" where
  "providerInstanceKey r = (case (i_provider_id r, i_provider_instance_id r) of (Some p, Some x) \<Rightarrow> Some (p, x) | _ \<Rightarrow> None)"

record purchaseRow =
  pp_user_id :: uuid
  pp_quantity :: int
  pp_plan :: planRow

definition GetPaidPurchaseForProvision :: "uuid \<Rightarrow> purchaseRow query" where
  "GetPaidPurchaseForProvision orderID = selectOne (\<lambda>e d.
     [\<lparr>pp_user_id = o_user_id r, pp_quantity = oi_quantity item, pp_plan = q\<rparr>.
        r \<leftarrow> orders d, o_id r = orderID \<and> o_kind r = ''purchase'' \<and> o_status r \<in> {''paid'', ''fulfilling'', ''fulfilled''},
        item \<leftarrow> order_items d, oi_order_id item = o_id r, q \<leftarrow> plans d, plan_id q = oi_plan_id item])"

definition newSubscription :: "env \<Rightarrow> uuid \<Rightarrow> uuid \<Rightarrow> uuid \<Rightarrow> string \<Rightarrow> int \<Rightarrow> string \<Rightarrow> uuid \<Rightarrow> int \<Rightarrow> subscriptionRow" where
  "newSubscription e rowID userID planID billingCycle price currency orderID index =
    \<lparr>s_id = rowID, s_user_id = userID, s_plan_id = planID, s_status = ''pending'', s_billing_cycle = billingCycle,
     s_price_minor = price, s_currency = currency, s_started_at = None, s_current_period_start = None,
     s_current_period_end = None, s_next_due_at = None, s_grace_until = None, s_cancel_at_period_end = False,
     s_ended_at = None, s_version = 1, s_created_at = pgNow e, s_updated_at = pgNow e,
     s_source_order_id = Some orderID, s_source_item_index = Some index\<rparr>"

definition sourceKey :: "subscriptionRow \<Rightarrow> (uuid \<times> int) option" where
  "sourceKey s = (case (s_source_order_id s, s_source_item_index s) of (Some x, Some n) \<Rightarrow> Some (x, n) | _ \<Rightarrow> None)"

text \<open>
  \<open>ON CONFLICT \<dots> DO UPDATE\<close> of the conflicting column to itself returns the row that is there.
\<close>

definition CreatePurchaseSubscription :: "uuid \<Rightarrow> uuid \<Rightarrow> uuid \<Rightarrow> string \<Rightarrow> int \<Rightarrow> string \<Rightarrow> uuid \<Rightarrow> int \<Rightarrow> subscriptionRow query" where
  "CreatePurchaseSubscription rowID userID planID billingCycle price currency orderID index = (\<lambda>e d.
     let r = newSubscription e rowID userID planID billingCycle price currency orderID index in
     if \<not> subscriptionCheck r then Inl checkViolation
     else (case filter (\<lambda>s. sourceKey s = Some (orderID, index)) (subscriptions d) of
        s # _ \<Rightarrow> Inr (s, d)
      | [] \<Rightarrow> insertInto True (conflicts (\<lambda>x. Some (s_id x)) (subscriptions d) r)
          (present u_id userID (users d) \<and> present plan_id planID (plans d) \<and> present o_id orderID (orders d))
          r (d\<lparr>subscriptions := subscriptions d @ [r]\<rparr>)))"

definition newInstance :: "env \<Rightarrow> uuid \<Rightarrow> uuid \<Rightarrow> string \<Rightarrow> planRow \<Rightarrow> instanceRow" where
  "newInstance e rowID subID name plan =
    \<lparr>i_id = rowID, i_subscription_id = subID, i_node_id = None, i_provider_id = None, i_provider_instance_id = None,
     i_name = name, i_desired_state = ''running'', i_observed_state = ''pending'', i_cpu_cores = plan_cpu_cores plan,
     i_memory_mb = plan_memory_mb plan, i_disk_gb = plan_disk_gb plan, i_traffic_limit_gb = plan_traffic_gb plan,
     i_bandwidth_mbps = plan_bandwidth_mbps plan, i_image_id = Some (plan_default_image_id plan), i_primary_ipv4 = None,
     i_primary_ipv6 = None, i_last_synced_at = None, i_version = 1, i_created_at = pgNow e, i_updated_at = pgNow e,
     i_deleted_at = None\<rparr>"

definition CreatePendingInstance :: "uuid \<Rightarrow> uuid \<Rightarrow> string \<Rightarrow> planRow \<Rightarrow> instanceRow query" where
  "CreatePendingInstance rowID subID name plan = (\<lambda>e d.
     case filter (\<lambda>i. i_subscription_id i = subID) (instances d) of
       i # _ \<Rightarrow> Inr (i, d)
     | [] \<Rightarrow> let r = newInstance e rowID subID name plan in
         insertInto (instanceCheck r) (conflicts (\<lambda>x. Some (i_id x)) (instances d) r) (present s_id subID (subscriptions d))
           r (d\<lparr>instances := instances d @ [r]\<rparr>))"

definition MarkOrderFulfilling :: "uuid \<Rightarrow> unit query" where
  "MarkOrderFulfilling orderID = (\<lambda>e d. Inr ((), d\<lparr>orders := sqlUpdate (\<lambda>r. o_id r = orderID \<and> o_status r = ''paid'')
     (\<lambda>r. r\<lparr>o_status := ''fulfilling'', o_updated_at := pgNow e\<rparr>) (orders d)\<rparr>))"

record contextRow =
  cx_operation :: operationRow
  cx_instance :: instanceRow
  cx_subscription :: subscriptionRow
  cx_plan :: planRow

definition GetProvisionContext :: "uuid \<Rightarrow> contextRow query" where
  "GetProvisionContext operationID = selectOne (\<lambda>e d.
     [\<lparr>cx_operation = x, cx_instance = i, cx_subscription = s, cx_plan = q\<rparr>.
        x \<leftarrow> operations d, op_id x = operationID, i \<leftarrow> instances d, i_id i = op_resource_id x \<and> op_resource_type x = ''instance'',
        s \<leftarrow> subscriptions d, s_id s = i_subscription_id i, q \<leftarrow> plans d, plan_id q = s_plan_id s])"

record placementRow =
  pl_reservation_id :: uuid
  pl_node_id :: uuid
  pl_provider_id :: uuid
  pl_provider_node_id :: string

definition GetProvisionPlacement :: "uuid \<Rightarrow> placementRow query" where
  "GetProvisionPlacement operationID = selectOne (\<lambda>e d.
     [\<lparr>pl_reservation_id = rr_id r, pl_node_id = n_id n, pl_provider_id = n_provider_id n,
       pl_provider_node_id = (case n_provider_node_id n of Some x \<Rightarrow> x | None \<Rightarrow> uuidString e (n_id n))\<rparr>.
        r \<leftarrow> reservations d, rr_operation_id r = operationID, n \<leftarrow> nodes d, n_id n = rr_node_id r])"

text \<open>
  Updates of instances without \<open>RETURNING\<close>: a CHECK or the unique index may still refuse them.
\<close>

definition updateInstances :: "(instanceRow \<Rightarrow> bool) \<Rightarrow> (instanceRow \<Rightarrow> instanceRow) \<Rightarrow> db \<Rightarrow> err + (unit \<times> db)" where
  "updateInstances P f d = (let t = sqlUpdate P f (instances d) in
     if \<not> list_all (\<lambda>r. P r \<longrightarrow> instanceCheck (f r)) (instances d) then Inl checkViolation
     else if list_ex (\<lambda>r. P r \<and> providerInstanceKey (f r) \<noteq> None \<and>
         length (filter (\<lambda>x. providerInstanceKey x = providerInstanceKey (f r)) t) > 1) (instances d) then Inl uniqueViolation
     else Inr ((), d\<lparr>instances := t\<rparr>))"

definition SetInstancePlacement :: "uuid \<Rightarrow> uuid \<Rightarrow> uuid \<Rightarrow> unit query" where
  "SetInstancePlacement instanceID nodeID providerID = (\<lambda>e d.
     if list_ex (\<lambda>r. i_id r = instanceID \<and> i_observed_state r \<in> {''pending'', ''provisioning'', ''unknown'', ''error''}) (instances d) \<and>
        \<not> (present n_id nodeID (nodes d) \<and> present prov_id providerID (providers d))
     then Inl foreignKeyViolation
     else updateInstances (\<lambda>r. i_id r = instanceID \<and> i_observed_state r \<in> {''pending'', ''provisioning'', ''unknown'', ''error''})
       (\<lambda>r. r\<lparr>i_node_id := Some nodeID, i_provider_id := Some providerID, i_observed_state := ''provisioning'',
              i_version := i_version r + 1, i_updated_at := pgNow e\<rparr>) d)"

definition SetInstanceProviderResult :: "uuid \<Rightarrow> pgtext \<Rightarrow> string \<Rightarrow> pgtext \<Rightarrow> pgtext \<Rightarrow> unit query" where
  "SetInstanceProviderResult instanceID providerInstanceID state ipv4 ipv6 = (\<lambda>e d.
     updateInstances (\<lambda>r. i_id r = instanceID)
       (\<lambda>r. r\<lparr>i_provider_instance_id := providerInstanceID, i_observed_state := state, i_primary_ipv4 := ipv4,
              i_primary_ipv6 := ipv6, i_last_synced_at := Some (pgNow e), i_version := i_version r + 1, i_updated_at := pgNow e\<rparr>) d)"

definition SetInstanceProvisionError :: "uuid \<Rightarrow> unit query" where
  "SetInstanceProvisionError instanceID = (\<lambda>e d.
     updateInstances (\<lambda>r. i_id r = instanceID \<and> i_observed_state r \<noteq> ''running'')
       (\<lambda>r. r\<lparr>i_observed_state := ''error'', i_version := i_version r + 1, i_updated_at := pgNow e\<rparr>) d)"

definition activateSubscription :: "env \<Rightarrow> time \<Rightarrow> subscriptionRow \<Rightarrow> subscriptionRow" where
  "activateSubscription e now = (\<lambda>s. let orElse = (\<lambda>x y. case x of Some t \<Rightarrow> Some t | None \<Rightarrow> y) in
     s\<lparr>s_status := ''active'', s_started_at := orElse (s_started_at s) (Some now),
       s_current_period_start := orElse (s_current_period_start s) (Some now),
       s_current_period_end := orElse (s_current_period_end s) (afterCycle e (s_billing_cycle s) now),
       s_next_due_at := orElse (s_next_due_at s) (afterCycle e (s_billing_cycle s) now),
       s_version := s_version s + (if s_status s = ''pending'' then 1 else 0), s_updated_at := pgNow e\<rparr>)"

definition ActivateProvisionedSubscription :: "uuid \<Rightarrow> time \<Rightarrow> subscriptionRow query" where
  "ActivateProvisionedSubscription subID now = (\<lambda>e d. updateReturning (subscriptions d)
     (\<lambda>s. s_id s = subID \<and> s_status s \<in> {''pending'', ''active''}) (activateSubscription e now) subscriptionCheck
     (\<lambda>t. d\<lparr>subscriptions := t\<rparr>))"

definition MarkPurchaseOrderFulfilledIfReady :: "uuid \<Rightarrow> unit query" where
  "MarkPurchaseOrderFulfilledIfReady orderID = (\<lambda>e d. Inr ((),
     if list_ex (\<lambda>s. s_source_order_id s = Some orderID \<and> s_status s \<noteq> ''active'') (subscriptions d) then d
     else d\<lparr>orders := sqlUpdate (\<lambda>r. o_id r = orderID \<and> o_status r \<in> {''paid'', ''fulfilling'', ''fulfilled''})
       (\<lambda>r. r\<lparr>o_status := ''fulfilled'', o_updated_at := pgNow e\<rparr>) (orders d)\<rparr>))"

definition CreateProvisionNotification :: "uuid \<Rightarrow> uuid \<Rightarrow> json \<Rightarrow> unit query" where
  "CreateProvisionNotification rowID userID parameters = (\<lambda>e d.
     if list_ex (\<lambda>r. nf_id r = rowID) (notifications d) then Inr ((), d)
     else let r = \<lparr>nf_id = rowID, nf_user_id = Some userID, nf_admin_id = None, nf_type = ''instance_ready'',
         nf_title_key = ''notifications.instanceReady.title'', nf_message_key = ''notifications.instanceReady.message'',
         nf_parameters = jsonb parameters, nf_severity = ''success'', nf_read_at = None, nf_created_at = pgNow e\<rparr>
       in insertInto True False (present u_id userID (users d)) () (d\<lparr>notifications := notifications d @ [r]\<rparr>))"

lemma readonly_provision [keeps_intros]:
  "readonly (GetPaidPurchaseForProvision a)" "readonly (GetProvisionContext a)" "readonly (GetProvisionPlacement a)"
  by (simp_all add: GetPaidPurchaseForProvision_def GetProvisionContext_def GetProvisionPlacement_def readonly_select)

lemma updateInstances_ok:
  "updateInstances P f d = Inr (x, d') \<Longrightarrow> d' = d\<lparr>instances := sqlUpdate P f (instances d)\<rparr>"
  by (auto simp: updateInstances_def Let_def split: if_splits)

end
