(* ===== verification/Portal_Queries.thy ===== *)
theory Portal_Queries
  imports Provision_Queries
begin

text \<open>
  The statements of \<open>internal/store/sqlc/portal.sql.go\<close>, with the constraints of migration
  \<open>000008_user_portal\<close>.
\<close>

section \<open>Instances\<close>

record userInstanceRow =
  ui_instance :: instanceRow
  ui_subscription :: subscriptionRow
  ui_plan :: planRow

text \<open>The join of the instances with their subscriptions and plans, for one user.\<close>

definition userInstances :: "uuid \<Rightarrow> db \<Rightarrow> userInstanceRow list" where
  "userInstances userID d = [\<lparr>ui_instance = i, ui_subscription = s, ui_plan = q\<rparr>.
     i \<leftarrow> instances d, i_deleted_at i = None, s \<leftarrow> subscriptions d, s_id s = i_subscription_id i \<and> s_user_id s = userID,
     q \<leftarrow> plans d, plan_id q = s_plan_id s]"

definition ListUserInstances :: "uuid \<Rightarrow> userInstanceRow list query" where
  "ListUserInstances userID = selectMany (\<lambda>e d. sort_key (\<lambda>r. - i_created_at (ui_instance r)) (userInstances userID d))"

definition GetUserInstance :: "uuid \<Rightarrow> uuid \<Rightarrow> userInstanceRow query" where
  "GetUserInstance rowID userID = selectOne (\<lambda>e d. filter (\<lambda>r. i_id (ui_instance r) = rowID) (userInstances userID d))"

text \<open>\<open>COALESCE(n.provider_node_id, n.id::text)\<close>.\<close>

definition providerNode :: "env \<Rightarrow> nodeRow \<Rightarrow> string" where
  "providerNode e n = (case n_provider_node_id n of Some x \<Rightarrow> x | None \<Rightarrow> uuidString e (n_id n))"

record actionRow =
  ar_instance :: instanceRow
  ar_provider_node_id :: string
  ar_operation_type :: string

definition GetUserInstanceActionContext :: "uuid \<Rightarrow> uuid \<Rightarrow> actionRow query" where
  "GetUserInstanceActionContext rowID userID = selectOne (\<lambda>e d.
     [\<lparr>ar_instance = i, ar_provider_node_id = providerNode e n, ar_operation_type = []\<rparr>.
        i \<leftarrow> instances d, i_id i = rowID \<and> i_deleted_at i = None,
        s \<leftarrow> subscriptions d, s_id s = i_subscription_id i \<and> s_user_id s = userID, n \<leftarrow> nodes d, i_node_id i = Some (n_id n)])"

definition GetInstanceActionContextByOperation :: "uuid \<Rightarrow> actionRow query" where
  "GetInstanceActionContextByOperation operationID = selectOne (\<lambda>e d.
     [\<lparr>ar_instance = i, ar_provider_node_id = providerNode e n, ar_operation_type = op_type x\<rparr>.
        x \<leftarrow> operations d, op_id x = operationID, i \<leftarrow> instances d, i_id i = op_resource_id x \<and> op_resource_type x = ''instance'',
        n \<leftarrow> nodes d, i_node_id i = Some (n_id n)])"

definition ownsInstance :: "uuid \<Rightarrow> uuid \<Rightarrow> db \<Rightarrow> bool" where
  "ownsInstance userID instanceID d \<longleftrightarrow> list_ex (\<lambda>i. i_id i = instanceID \<and>
     list_ex (\<lambda>s. s_id s = i_subscription_id i \<and> s_user_id s = userID) (subscriptions d)) (instances d)"

text \<open>The joins to instances and subscriptions run over primary keys and only filter. An order by two columns is a
  stable sort by the second and then by the first.\<close>

definition ListUserInstanceNetworks :: "uuid \<Rightarrow> uuid \<Rightarrow> networkRow list query" where
  "ListUserInstanceNetworks instanceID userID = selectMany (\<lambda>e d. sort_key nw_type (sort_key nw_created_at
     (filter (\<lambda>n. nw_instance_id n = instanceID \<and> ownsInstance userID instanceID d) (instance_networks (fleet d)))))"

definition ListUserInstanceTraffic :: "uuid \<Rightarrow> uuid \<Rightarrow> trafficRow list query" where
  "ListUserInstanceTraffic instanceID userID = selectMany (\<lambda>e d. take 90 (sort_key (\<lambda>t. - tu_period_start t)
     (filter (\<lambda>t. tu_instance_id t = instanceID \<and> ownsInstance userID instanceID d) (traffic_usage (fleet d)))))"

definition SetInstanceActionState :: "uuid \<Rightarrow> string \<Rightarrow> string \<Rightarrow> unit query" where
  "SetInstanceActionState instanceID desired observed = (\<lambda>e d. updateInstances (\<lambda>r. i_id r = instanceID)
     (\<lambda>r. r\<lparr>i_desired_state := desired, i_observed_state := observed, i_version := i_version r + 1, i_updated_at := pgNow e\<rparr>) d)"

definition SetInstanceObservedState :: "uuid \<Rightarrow> string \<Rightarrow> unit query" where
  "SetInstanceObservedState instanceID observed = (\<lambda>e d. updateInstances (\<lambda>r. i_id r = instanceID)
     (\<lambda>r. r\<lparr>i_observed_state := observed, i_last_synced_at := Some (pgNow e), i_version := i_version r + 1, i_updated_at := pgNow e\<rparr>) d)"

section \<open>Notifications\<close>

definition ListUserNotifications :: "uuid \<Rightarrow> notificationRow list query" where
  "ListUserNotifications userID = selectMany (\<lambda>e d. take 100 (sort_key (\<lambda>n. - nf_created_at n)
     (filter (\<lambda>n. nf_user_id n = Some userID) (notifications d))))"

text \<open>The number of rows the statement affected is its answer.\<close>

definition MarkUserNotificationRead :: "uuid \<Rightarrow> uuid \<Rightarrow> nat query" where
  "MarkUserNotificationRead rowID userID = (\<lambda>e d. let P = (\<lambda>n. nf_id n = rowID \<and> nf_user_id n = Some userID) in
     Inr (length (filter P (notifications d)),
       d\<lparr>notifications := sqlUpdate P (\<lambda>n. n\<lparr>nf_read_at := (case nf_read_at n of Some t \<Rightarrow> Some t | None \<Rightarrow> Some (pgNow e))\<rparr>) (notifications d)\<rparr>))"

section \<open>Tickets\<close>

definition ticketCheck :: "ticketRow \<Rightarrow> bool" where
  "ticketCheck r \<longleftrightarrow> tk_status r \<in> {''open'', ''waiting_user'', ''waiting_support'', ''resolved'', ''closed''} \<and>
     tk_priority r \<in> {''low'', ''normal'', ''high''}"

definition CreateUserTicket :: "uuid \<Rightarrow> string \<Rightarrow> uuid \<Rightarrow> string \<Rightarrow> string \<Rightarrow> ticketRow query" where
  "CreateUserTicket rowID ticketNo userID subject priority = (\<lambda>e d.
     let r = \<lparr>tk_id = rowID, tk_ticket_no = ticketNo, tk_user_id = userID, tk_subject = subject, tk_status = ''open'',
       tk_priority = priority, tk_created_at = pgNow e, tk_updated_at = pgNow e, tk_closed_at = None\<rparr>
     in insertInto (ticketCheck r) (conflicts (\<lambda>x. Some (tk_id x)) (tickets d) r \<or> conflicts (\<lambda>x. Some (tk_ticket_no x)) (tickets d) r)
          (present u_id userID (users d)) r (d\<lparr>tickets := tickets d @ [r]\<rparr>))"

definition CreateUserTicketMessage :: "uuid \<Rightarrow> uuid \<Rightarrow> uuid option \<Rightarrow> string \<Rightarrow> ticketMessageRow query" where
  "CreateUserTicketMessage rowID ticketID senderID message = (\<lambda>e d.
     let r = \<lparr>tm_id = rowID, tm_ticket_id = ticketID, tm_sender_type = ''user'', tm_sender_id = senderID, tm_message = message,
       tm_created_at = pgNow e\<rparr>
     in insertInto True (conflicts (\<lambda>x. Some (tm_id x)) (ticket_messages d) r) (present tk_id ticketID (tickets d))
          r (d\<lparr>ticket_messages := ticket_messages d @ [r]\<rparr>))"

definition GetUserTicket :: "uuid \<Rightarrow> uuid \<Rightarrow> ticketRow query" where
  "GetUserTicket rowID userID = selectOne (\<lambda>e d. filter (\<lambda>t. tk_id t = rowID \<and> tk_user_id t = userID) (tickets d))"

definition ListUserTickets :: "uuid \<Rightarrow> ticketRow list query" where
  "ListUserTickets userID = selectMany (\<lambda>e d. sort_key (\<lambda>t. - tk_updated_at t) (filter (\<lambda>t. tk_user_id t = userID) (tickets d)))"

definition ListUserTicketMessages :: "uuid \<Rightarrow> uuid \<Rightarrow> ticketMessageRow list query" where
  "ListUserTicketMessages ticketID userID = selectMany (\<lambda>e d. sort_key tm_created_at (sort_key tm_id
     (filter (\<lambda>m. tm_ticket_id m = ticketID \<and> list_ex (\<lambda>t. tk_id t = ticketID \<and> tk_user_id t = userID) (tickets d)) (ticket_messages d))))"

definition TouchUserTicket :: "uuid \<Rightarrow> uuid \<Rightarrow> unit query" where
  "TouchUserTicket rowID userID = (\<lambda>e d. Inr ((), d\<lparr>tickets := sqlUpdate (\<lambda>t. tk_id t = rowID \<and> tk_user_id t = userID \<and> tk_status t \<noteq> ''closed'')
     (\<lambda>t. t\<lparr>tk_updated_at := pgNow e\<rparr>) (tickets d)\<rparr>))"

lemma readonly_portal [keeps_intros]:
  "readonly (ListUserInstances a)" "readonly (GetUserInstance a b)" "readonly (GetUserInstanceActionContext a b)"
  "readonly (GetInstanceActionContextByOperation a)" "readonly (ListUserInstanceNetworks a b)" "readonly (ListUserInstanceTraffic a b)"
  "readonly (ListUserNotifications a)" "readonly (GetUserTicket a b)" "readonly (ListUserTickets a)" "readonly (ListUserTicketMessages a b)"
  by (simp_all add: ListUserInstances_def GetUserInstance_def GetUserInstanceActionContext_def GetInstanceActionContextByOperation_def
      ListUserInstanceNetworks_def ListUserInstanceTraffic_def ListUserNotifications_def GetUserTicket_def ListUserTickets_def
      ListUserTicketMessages_def readonly_select)

end
