(* ===== verification/Portal.thy ===== *)
theory Portal
  imports Portal_Queries
begin

text \<open>
  \<open>internal/portal\<close>: what a customer sees of instances, notifications and support tickets. Every
  query carries the identity of the caller.
\<close>

section \<open>Types\<close>

record PortalInstance =
  pi_ID :: uuid
  pi_Name :: string
  pi_DesiredState :: string
  pi_ObservedState :: string
  pi_CPUCores :: int
  pi_MemoryMB :: int
  pi_DiskGB :: int
  pi_TrafficLimitGB :: "int option"
  pi_BandwidthMbps :: "int option"
  pi_ImageID :: "string option"
  pi_PrimaryIPv4 :: string
  pi_PrimaryIPv6 :: string
  pi_LastSyncedAt :: "time option"
  pi_CreatedAt :: time
  pi_UpdatedAt :: time
  pi_SubscriptionID :: uuid
  pi_SubscriptionStatus :: string
  pi_CurrentPeriodEnd :: "time option"
  pi_PlanSlug :: string
  pi_PlanName :: json

record Network =
  net_ID :: uuid
  net_Type :: string
  net_Address :: string
  net_Gateway :: string
  net_Prefix :: "int option"
  net_CreatedAt :: time

record PortalTraffic =
  ptr_PeriodStart :: time
  ptr_PeriodEnd :: time
  ptr_RXBytes :: int
  ptr_TXBytes :: int
  ptr_Source :: string

record Notification =
  nt_ID :: uuid
  nt_Type :: string
  nt_TitleKey :: string
  nt_MessageKey :: string
  nt_Parameters :: json
  nt_Severity :: string
  nt_ReadAt :: "time option"
  nt_CreatedAt :: time

record TicketMessage =
  tmsg_ID :: uuid
  tmsg_SenderType :: string
  tmsg_Message :: string
  tmsg_CreatedAt :: time

record Ticket =
  tkt_ID :: uuid
  tkt_TicketNo :: string
  tkt_Subject :: string
  tkt_Status :: string
  tkt_Priority :: string
  tkt_CreatedAt :: time
  tkt_UpdatedAt :: time
  tkt_ClosedAt :: "time option"
  tkt_Messages :: "TicketMessage list"

record ActionContext =
  actx_InstanceID :: uuid
  actx_ProviderID :: uuid
  actx_ProviderInstanceID :: string
  actx_NodeID :: uuid
  actx_ProviderNodeID :: string
  actx_ImageID :: string
  actx_DesiredState :: string
  actx_ObservedState :: string

section \<open>Repository\<close>

definition portalInstance :: "userInstanceRow \<Rightarrow> PortalInstance" where
  "portalInstance row = (let i = ui_instance row; s = ui_subscription row; q = ui_plan row in
     \<lparr>pi_ID = i_id i, pi_Name = i_name i, pi_DesiredState = i_desired_state i, pi_ObservedState = i_observed_state i,
      pi_CPUCores = i_cpu_cores i, pi_MemoryMB = i_memory_mb i, pi_DiskGB = i_disk_gb i, pi_TrafficLimitGB = i_traffic_limit_gb i,
      pi_BandwidthMbps = i_bandwidth_mbps i, pi_ImageID = i_image_id i, pi_PrimaryIPv4 = text_string (i_primary_ipv4 i),
      pi_PrimaryIPv6 = text_string (i_primary_ipv6 i), pi_LastSyncedAt = i_last_synced_at i, pi_CreatedAt = i_created_at i,
      pi_UpdatedAt = i_updated_at i, pi_SubscriptionID = s_id s, pi_SubscriptionStatus = s_status s,
      pi_CurrentPeriodEnd = s_current_period_end s, pi_PlanSlug = plan_slug q, pi_PlanName = plan_name_i18n q\<rparr>)"

definition ListInstances :: "uuid \<Rightarrow> PortalInstance list io" where
  "ListInstances userID = bnd (pool (ListUserInstances userID)) (\<lambda>rows. ret (map portalInstance rows))"

definition GetInstance_portal :: "uuid \<Rightarrow> uuid \<Rightarrow> PortalInstance io" where
  "GetInstance_portal userID instanceID = bnd (orNoRows ErrNotFound (pool (GetUserInstance instanceID userID))) (\<lambda>row. ret (portalInstance row))"

definition networkOf :: "networkRow \<Rightarrow> Network" where
  "networkOf row = \<lparr>net_ID = nw_id row, net_Type = nw_type row, net_Address = text_string (nw_address row),
     net_Gateway = text_string (nw_gateway row), net_Prefix = nw_prefix row, net_CreatedAt = nw_created_at row\<rparr>"

definition ListNetworks :: "uuid \<Rightarrow> uuid \<Rightarrow> Network list io" where
  "ListNetworks userID instanceID = bnd (GetInstance_portal userID instanceID) (\<lambda>_.
     bnd (pool (ListUserInstanceNetworks instanceID userID)) (\<lambda>rows. ret (map networkOf rows)))"

definition trafficOf :: "trafficRow \<Rightarrow> PortalTraffic" where
  "trafficOf row = \<lparr>ptr_PeriodStart = tu_period_start row, ptr_PeriodEnd = tu_period_end row, ptr_RXBytes = tu_rx_bytes row,
     ptr_TXBytes = tu_tx_bytes row, ptr_Source = tu_source row\<rparr>"

definition ListTraffic :: "uuid \<Rightarrow> uuid \<Rightarrow> PortalTraffic list io" where
  "ListTraffic userID instanceID = bnd (GetInstance_portal userID instanceID) (\<lambda>_.
     bnd (pool (ListUserInstanceTraffic instanceID userID)) (\<lambda>rows. ret (map trafficOf rows)))"

definition ActionContext_of :: "uuid \<Rightarrow> uuid \<Rightarrow> ActionContext io" where
  "ActionContext_of userID instanceID = bnd (orNoRows ErrNotFound (pool (GetUserInstanceActionContext instanceID userID))) (\<lambda>row.
     let i = ar_instance row in
     case (i_provider_id i, i_node_id i, i_provider_instance_id i) of
       (Some providerID, Some nodeID, Some providerInstanceID) \<Rightarrow> ret
         \<lparr>actx_InstanceID = i_id i, actx_ProviderID = providerID, actx_ProviderInstanceID = providerInstanceID, actx_NodeID = nodeID,
          actx_ProviderNodeID = ar_provider_node_id row, actx_ImageID = text_string (i_image_id i),
          actx_DesiredState = i_desired_state i, actx_ObservedState = i_observed_state i\<rparr>
     | _ \<Rightarrow> raise ErrStateConflict)"

definition notificationOf :: "notificationRow \<Rightarrow> Notification" where
  "notificationOf row = \<lparr>nt_ID = nf_id row, nt_Type = nf_type row, nt_TitleKey = nf_title_key row, nt_MessageKey = nf_message_key row,
     nt_Parameters = nf_parameters row, nt_Severity = nf_severity row, nt_ReadAt = nf_read_at row, nt_CreatedAt = nf_created_at row\<rparr>"

definition ListNotifications :: "uuid \<Rightarrow> Notification list io" where
  "ListNotifications userID = bnd (pool (ListUserNotifications userID)) (\<lambda>rows. ret (map notificationOf rows))"

definition MarkNotificationRead :: "uuid \<Rightarrow> uuid \<Rightarrow> unit io" where
  "MarkNotificationRead userID rowID = bnd (pool (MarkUserNotificationRead rowID userID)) (\<lambda>count.
     if count = 0 then raise ErrNotFound else ret ())"

definition ticketOf :: "ticketRow \<Rightarrow> Ticket" where
  "ticketOf row = \<lparr>tkt_ID = tk_id row, tkt_TicketNo = tk_ticket_no row, tkt_Subject = tk_subject row, tkt_Status = tk_status row,
     tkt_Priority = tk_priority row, tkt_CreatedAt = tk_created_at row, tkt_UpdatedAt = tk_updated_at row, tkt_ClosedAt = tk_closed_at row,
     tkt_Messages = []\<rparr>"

definition ticketMessageOf :: "ticketMessageRow \<Rightarrow> TicketMessage" where
  "ticketMessageOf row = \<lparr>tmsg_ID = tm_id row, tmsg_SenderType = tm_sender_type row, tmsg_Message = tm_message row, tmsg_CreatedAt = tm_created_at row\<rparr>"

definition ListTickets :: "uuid \<Rightarrow> Ticket list io" where
  "ListTickets userID = bnd (pool (ListUserTickets userID)) (\<lambda>rows. ret (map ticketOf rows))"

definition GetTicket :: "uuid \<Rightarrow> uuid \<Rightarrow> Ticket io" where
  "GetTicket userID ticketID = bnd (orNoRows ErrNotFound (pool (GetUserTicket ticketID userID))) (\<lambda>row.
     bnd (pool (ListUserTicketMessages ticketID userID)) (\<lambda>messages.
     ret ((ticketOf row)\<lparr>tkt_Messages := map ticketMessageOf messages\<rparr>)))"

definition ticketNumber :: "env \<Rightarrow> string \<Rightarrow> uuid \<Rightarrow> string" where
  "ticketNumber e prefix rowID = prefix @ ''-'' @ take 20 (ToUpper (filter (\<lambda>c. c \<noteq> CHR ''-'') (uuidString e rowID)))"

definition CreateTicket :: "uuid \<Rightarrow> string \<Rightarrow> string \<Rightarrow> string \<Rightarrow> Ticket io" where
  "CreateTicket userID subject priority message = in_tx (bnd newID (\<lambda>ticketID. bnd (asks (\<lambda>e. ticketNumber e ''TKT'' ticketID)) (\<lambda>no.
     bnd (exec (CreateUserTicket ticketID no userID subject priority)) (\<lambda>row. bnd newID (\<lambda>messageID.
     bnd (exec (CreateUserTicketMessage messageID ticketID (Some userID) message)) (\<lambda>_. ret (Commit (ticketOf row))))))))"

text \<open>The ticket is read before the transaction begins; other sessions may commit in between.\<close>

definition AddTicketMessage :: "uuid \<Rightarrow> uuid \<Rightarrow> string \<Rightarrow> TicketMessage io" where
  "AddTicketMessage userID ticketID message = bnd (orNoRows ErrNotFound (pool (GetUserTicket ticketID userID))) (\<lambda>target.
     if tk_status target = ''closed'' \<or> tk_status target = ''resolved'' then raise ErrTicketClosed
     else bnd others (\<lambda>_. in_tx (bnd newID (\<lambda>messageID.
       bnd (exec (CreateUserTicketMessage messageID ticketID (Some userID) message)) (\<lambda>row.
       bnd (exec (TouchUserTicket ticketID userID)) (\<lambda>_. ret (Commit (ticketMessageOf row))))))))"

section \<open>Service\<close>

definition CreateTicket_svc :: "uuid \<Rightarrow> string \<Rightarrow> string \<Rightarrow> string \<Rightarrow> Ticket io" where
  "CreateTicket_svc userID rawSubject rawPriority rawMessage =
     (let subject = TrimSpace rawSubject; message = TrimSpace rawMessage; priority = ToLower (TrimSpace rawPriority) in
      if length subject < 3 \<or> length subject > 255 \<or> length message < 1 \<or> length message > 10000 \<or>
         (priority \<noteq> ''low'' \<and> priority \<noteq> ''normal'' \<and> priority \<noteq> ''high'')
      then raise ErrInvalidRequest else CreateTicket userID subject priority message)"

definition AddTicketMessage_svc :: "uuid \<Rightarrow> uuid \<Rightarrow> string \<Rightarrow> TicketMessage io" where
  "AddTicketMessage_svc userID ticketID rawMessage = (let message = TrimSpace rawMessage in
     if length message < 1 \<or> length message > 10000 then raise ErrInvalidRequest else AddTicketMessage userID ticketID message)"

end
