(* ===== verification/Portal_Laws.thy ===== *)
theory Portal_Laws
  imports Portal Samples
begin

text \<open>
  The customers of the portal are isolated from each other: what a request answers is a function of
  what the caller owns, and it changes nothing that another customer sees.
\<close>

section \<open>What a customer owns\<close>

text \<open>
  Ownership, from the tables alone: a subscription, a notification and a ticket name their customer; an
  instance belongs to the customer of its subscription; networks and traffic to the one of their
  instance; messages to the one of their ticket. The catalogue is public, and a customer may learn of
  the nodes that run an instance of hers.
\<close>

definition ownedBy :: "uuid \<Rightarrow> db \<Rightarrow> instanceRow \<Rightarrow> bool" where
  "ownedBy userID d i \<longleftrightarrow> (\<exists>s\<in>set (subscriptions d). s_id s = i_subscription_id i \<and> s_user_id s = userID)"

definition instancesOf :: "uuid \<Rightarrow> db \<Rightarrow> instanceRow list" where
  "instancesOf userID d = filter (ownedBy userID d) (instances d)"

definition ticketsOf :: "uuid \<Rightarrow> db \<Rightarrow> ticketRow list" where
  "ticketsOf userID d = filter (\<lambda>t. tk_user_id t = userID) (tickets d)"

definition ticketIDs :: "uuid \<Rightarrow> db \<Rightarrow> uuid set" where "ticketIDs userID d = tk_id ` set (ticketsOf userID d)"

record userView =
  vw_plans :: "planRow list"
  vw_subscriptions :: "subscriptionRow list"
  vw_instances :: "instanceRow list"
  vw_nodes :: "nodeRow list"
  vw_networks :: "networkRow list"
  vw_traffic :: "trafficRow list"
  vw_notifications :: "notificationRow list"
  vw_tickets :: "ticketRow list"
  vw_messages :: "ticketMessageRow list"

definition customerView :: "uuid \<Rightarrow> db \<Rightarrow> userView" where
  "customerView userID d = \<lparr>vw_plans = plans d, vw_subscriptions = filter (\<lambda>s. s_user_id s = userID) (subscriptions d),
     vw_instances = instancesOf userID d,
     vw_nodes = filter (\<lambda>n. \<exists>i\<in>set (instancesOf userID d). i_node_id i = Some (n_id n)) (nodes d),
     vw_networks = filter (\<lambda>n. \<exists>i\<in>set (instancesOf userID d). i_id i = nw_instance_id n) (instance_networks (fleet d)),
     vw_traffic = filter (\<lambda>t. \<exists>i\<in>set (instancesOf userID d). i_id i = tu_instance_id t) (traffic_usage (fleet d)),
     vw_notifications = filter (\<lambda>n. nf_user_id n = Some userID) (notifications d),
     vw_tickets = ticketsOf userID d,
     vw_messages = filter (\<lambda>m. tm_ticket_id m \<in> ticketIDs userID d) (ticket_messages d)\<rparr>"

section \<open>Requests\<close>

datatype portalRequest =
    PInstances | PInstance uuid | PNetworks uuid | PTraffic uuid | PAction uuid
  | PNotifications | PTickets | PTicket uuid
  | PRead uuid | PCreate string string string | PReply uuid string

datatype portalAnswer =
    AInstances "PortalInstance list" | AInstance PortalInstance | ANetworks "Network list" | ATraffic "PortalTraffic list"
  | AAction ActionContext | ANotifications "Notification list" | ATickets "Ticket list" | ATicket Ticket
  | ADone | AMessage TicketMessage

definition answer :: "('a \<Rightarrow> portalAnswer) \<Rightarrow> 'a io \<Rightarrow> portalAnswer io" where
  "answer f m = bnd m (\<lambda>x. ret (f x))"

primrec portalServe :: "uuid \<Rightarrow> portalRequest \<Rightarrow> portalAnswer io" where
  "portalServe userID PInstances = answer AInstances (ListInstances userID)"
| "portalServe userID (PInstance i) = answer AInstance (GetInstance_portal userID i)"
| "portalServe userID (PNetworks i) = answer ANetworks (ListNetworks userID i)"
| "portalServe userID (PTraffic i) = answer ATraffic (ListTraffic userID i)"
| "portalServe userID (PAction i) = answer AAction (ActionContext_of userID i)"
| "portalServe userID PNotifications = answer ANotifications (ListNotifications userID)"
| "portalServe userID PTickets = answer ATickets (ListTickets userID)"
| "portalServe userID (PTicket i) = answer ATicket (GetTicket userID i)"
| "portalServe userID (PRead i) = answer (\<lambda>_. ADone) (MarkNotificationRead userID i)"
| "portalServe userID (PCreate subject priority message) = answer ATicket (CreateTicket_svc userID subject priority message)"
| "portalServe userID (PReply i message) = answer AMessage (AddTicketMessage_svc userID i message)"

definition isRead :: "portalRequest \<Rightarrow> bool" where
  "isRead req \<longleftrightarrow> (case req of PRead _ \<Rightarrow> False | PCreate _ _ _ \<Rightarrow> False | PReply _ _ \<Rightarrow> False | _ \<Rightarrow> True)"

section \<open>Runs that cannot be told apart\<close>

text \<open>
  Two worlds look alike to an observer; a computation is blind if it answers alike in both, and leaves
  them alike.
\<close>

definition alike :: "(db \<Rightarrow> 'v) \<Rightarrow> world \<Rightarrow> world \<Rightarrow> bool" where
  "alike view w1 w2 \<longleftrightarrow> view (wdb w1) = view (wdb w2) \<and> wstmts w1 = wstmts w2 \<and> wids w1 = wids w2"

definition blind :: "(db \<Rightarrow> 'v) \<Rightarrow> 'a io \<Rightarrow> bool" where
  "blind view m \<longleftrightarrow> (\<forall>e w1 w2. alike view w1 w2 \<longrightarrow> fst (m e w1) = fst (m e w2) \<and> alike view (snd (m e w1)) (snd (m e w2)))"

lemma blind_ret: "blind view (ret x)" and blind_raise: "blind view (raise y)"
  by (simp_all add: blind_def ret_def raise_def)

lemma blind_bnd:
  assumes "blind view m" "\<And>x. blind view (f x)"
  shows "blind view (bnd m f)"
  unfolding blind_def
proof (intro allI impI)
  fix e w1 w2 assume like: "alike view w1 w2"
  obtain r1 v1 r2 v2 where runs: "m e w1 = (r1, v1)" "m e w2 = (r2, v2)" by fastforce
  have "fst (m e w1) = fst (m e w2) \<and> alike view (snd (m e w1)) (snd (m e w2))" using assms(1) like by (simp add: blind_def)
  then have same: "r1 = r2" "alike view v1 v2" using runs by simp_all
  then show "fst (bnd m f e w1) = fst (bnd m f e w2) \<and> alike view (snd (bnd m f e w1)) (snd (bnd m f e w2))"
    using runs assms(2) by (cases r1) (auto simp: bnd_def blind_def)
qed

lemma blind_attempt: "blind view m \<Longrightarrow> blind view (attempt m)"
  unfolding blind_def attempt_def by (simp add: split_beta)

lemma blind_sum: "(\<And>x. blind view (f x)) \<Longrightarrow> (\<And>y. blind view (g y)) \<Longrightarrow> blind view (case r of Inl x \<Rightarrow> f x | Inr y \<Rightarrow> g y)"
  by (cases r) simp_all

lemma blind_orNoRows: "blind view m \<Longrightarrow> blind view (orNoRows x m)"
  unfolding orNoRows_def by (intro blind_bnd blind_attempt blind_sum blind_raise blind_ret)

text \<open>A statement that reads nothing but the view.\<close>

lemma blind_pool:
  assumes reads: "\<And>e d1 d2. view d1 = view d2 \<Longrightarrow> h e d1 = h e d2" and q: "\<And>e d. q e d = map_sum (\<lambda>x. x) (\<lambda>x. (x, d)) (h e d)"
  shows "blind view (pool q)"
  unfolding blind_def
proof (intro allI impI)
  fix e w1 w2 assume like: "alike view w1 w2"
  define y where "y = h e (wdb w2)"
  have same: "h e (wdb w1) = y" unfolding y_def using like by (intro reads) (simp add: alike_def)
  have runs: "q e (wdb w1) = map_sum (\<lambda>x. x) (\<lambda>x. (x, wdb w1)) y" "q e (wdb w2) = map_sum (\<lambda>x. x) (\<lambda>x. (x, wdb w2)) y"
    unfolding q same y_def by (rule refl)+
  have "faults e (wstmts w1) = faults e (wstmts w2)" using like by (simp add: alike_def)
  then show "fst (pool q e w1) = fst (pool q e w2) \<and> alike view (snd (pool q e w1)) (snd (pool q e w2))"
    using like runs unfolding pool_def by (cases "faults e (wstmts w2)"; cases y) (simp_all add: alike_def)
qed

lemma blind_select:
  assumes "\<And>e d1 d2. view d1 = view d2 \<Longrightarrow> f e d1 = f e d2"
  shows "blind view (pool (selectMany f))" "blind view (pool (selectOne f))"
proof -
  show "blind view (pool (selectMany f))"
    by (rule blind_pool[where h = "\<lambda>e d. Inr (f e d)"]) (auto simp: selectMany_def dest: assms)
  show "blind view (pool (selectOne f))"
  proof (rule blind_pool[where h = "\<lambda>e d. one (f e d)"])
    show "one (f e d1) = one (f e d2)" if "view d1 = view d2" for e d1 d2 using assms[OF that] by simp
  qed (simp add: selectOne_def map_sum_def split: sum.split)
qed

section \<open>The queries read the view\<close>

lemma customerView_notifications:
  "customerView userID d1 = customerView userID d2 \<Longrightarrow>
     filter (\<lambda>n. nf_user_id n = Some userID) (notifications d1) = filter (\<lambda>n. nf_user_id n = Some userID) (notifications d2)"
  by (simp add: customerView_def)

lemma customerView_tickets:
  assumes "customerView userID d1 = customerView userID d2"
  shows "ticketsOf userID d1 = ticketsOf userID d2"
    "filter (\<lambda>m. tm_ticket_id m \<in> ticketIDs userID d1) (ticket_messages d1) = filter (\<lambda>m. tm_ticket_id m \<in> ticketIDs userID d2) (ticket_messages d2)"
  using assms by (simp_all add: customerView_def)

lemma concat_map_only: "(\<And>x. x \<in> set xs \<Longrightarrow> \<not> P x \<Longrightarrow> f x = []) \<Longrightarrow> concat (map f xs) = concat (map f (filter P xs))"
  by (induction xs) auto

lemma instance_of: "i \<in> set (instancesOf userID d) \<longleftrightarrow> i \<in> set (instances d) \<and> ownedBy userID d i"
  by (auto simp: instancesOf_def)

text \<open>Each statement of the portal as a function of the view of the caller.\<close>

lemma subscriptions_of:
  "concat (map (\<lambda>s. if s_id s = j \<and> s_user_id s = userID then f s else []) (subscriptions d)) =
   concat (map (\<lambda>s. if s_id s = j then f s else []) (vw_subscriptions (customerView userID d)))"
  by (subst concat_map_only[where P = "\<lambda>s. s_user_id s = userID"])
    (auto simp: customerView_def intro!: arg_cong[where f = concat] map_cong)

lemma userInstances_view:
  "userInstances userID d = [\<lparr>ui_instance = i, ui_subscription = s, ui_plan = q\<rparr>.
     i \<leftarrow> vw_instances (customerView userID d), i_deleted_at i = None,
     s \<leftarrow> vw_subscriptions (customerView userID d), s_id s = i_subscription_id i,
     q \<leftarrow> vw_plans (customerView userID d), plan_id q = s_plan_id s]"
proof -
  have "userInstances userID d = [\<lparr>ui_instance = i, ui_subscription = s, ui_plan = q\<rparr>.
     i \<leftarrow> instancesOf userID d, i_deleted_at i = None, s \<leftarrow> subscriptions d, s_id s = i_subscription_id i \<and> s_user_id s = userID,
     q \<leftarrow> plans d, plan_id q = s_plan_id s]"
    unfolding userInstances_def instancesOf_def by (rule concat_map_only) (auto simp: ownedBy_def)
  moreover have "vw_plans (customerView userID d) = plans d" "vw_instances (customerView userID d) = instancesOf userID d" by (simp_all add: customerView_def)
  ultimately show ?thesis unfolding subscriptions_of by (simp only:)
qed

lemma ownsInstance_view: "ownsInstance userID instanceID d \<longleftrightarrow> (\<exists>i\<in>set (vw_instances (customerView userID d)). i_id i = instanceID)"
  by (auto simp: ownsInstance_def customerView_def instancesOf_def ownedBy_def list_ex_iff)

lemma networks_view:
  "filter (\<lambda>n. nw_instance_id n = i \<and> ownsInstance userID i d) (instance_networks (fleet d)) =
     filter (\<lambda>n. nw_instance_id n = i) (vw_networks (customerView userID d))"
  "filter (\<lambda>t. tu_instance_id t = i \<and> ownsInstance userID i d) (traffic_usage (fleet d)) =
     filter (\<lambda>t. tu_instance_id t = i) (vw_traffic (customerView userID d))"
  by (auto simp: ownsInstance_view customerView_def intro!: filter_cong)

lemma actionRows_view:
  "[\<lparr>ar_instance = i, ar_provider_node_id = providerNode e n, ar_operation_type = []\<rparr>.
     i \<leftarrow> instances d, i_id i = rowID \<and> i_deleted_at i = None,
     s \<leftarrow> subscriptions d, s_id s = i_subscription_id i \<and> s_user_id s = userID, n \<leftarrow> nodes d, i_node_id i = Some (n_id n)] =
   [\<lparr>ar_instance = i, ar_provider_node_id = providerNode e n, ar_operation_type = []\<rparr>.
     i \<leftarrow> vw_instances (customerView userID d), i_id i = rowID \<and> i_deleted_at i = None,
     s \<leftarrow> vw_subscriptions (customerView userID d), s_id s = i_subscription_id i,
     n \<leftarrow> vw_nodes (customerView userID d), i_node_id i = Some (n_id n)]"
  (is "concat (map ?f (instances d)) = concat (map ?g _)")
proof -
  have "?f i = []" if "\<not> ownedBy userID d i" for i using that by (auto simp: ownedBy_def)
  then have "concat (map ?f (instances d)) = concat (map ?f (instancesOf userID d))"
    unfolding instancesOf_def by (intro concat_map_only) blast
  also have "map ?f (instancesOf userID d) = map ?g (instancesOf userID d)"
  proof (rule map_cong[OF refl])
    fix i assume i: "i \<in> set (instancesOf userID d)"
    have "concat (map (\<lambda>n. if i_node_id i = Some (n_id n) then [h n] else []) (nodes d)) =
        concat (map (\<lambda>n. if i_node_id i = Some (n_id n) then [h n] else []) (vw_nodes (customerView userID d)))" for h :: "nodeRow \<Rightarrow> actionRow"
      unfolding customerView_def by (simp only: userView.select_convs, rule concat_map_only) (use i in auto)
    note nodes_of = this
    show "?f i = ?g i" unfolding subscriptions_of nodes_of by (rule refl)
  qed
  also have "instancesOf userID d = vw_instances (customerView userID d)" by (simp add: customerView_def)
  finally show ?thesis .
qed

lemma blind_queries:
  "blind (customerView userID) (pool (ListUserInstances userID))"
  "blind (customerView userID) (pool (GetUserInstance i userID))"
  "blind (customerView userID) (pool (ListUserInstanceNetworks i userID))"
  "blind (customerView userID) (pool (ListUserInstanceTraffic i userID))"
  "blind (customerView userID) (pool (GetUserInstanceActionContext i userID))"
  "blind (customerView userID) (pool (ListUserNotifications userID))"
  "blind (customerView userID) (pool (ListUserTickets userID))"
  "blind (customerView userID) (pool (GetUserTicket i userID))"
  "blind (customerView userID) (pool (ListUserTicketMessages i userID))"
proof -
  have msg: "filter (\<lambda>m. tm_ticket_id m = i \<and> list_ex (\<lambda>t. tk_id t = i \<and> tk_user_id t = userID) (tickets d)) xs =
      filter (\<lambda>m. tm_ticket_id m = i) (filter (\<lambda>m. tm_ticket_id m \<in> ticketIDs userID d) xs)" for xs and d :: db
    by (auto intro!: filter_cong simp: ticketIDs_def ticketsOf_def list_ex_iff image_iff)
  have tick: "filter (\<lambda>t. tk_id t = i \<and> tk_user_id t = userID) (tickets d) = filter (\<lambda>t. tk_id t = i) (ticketsOf userID d)" for d
    unfolding ticketsOf_def filter_filter by (intro filter_cong) auto
  show "blind (customerView userID) (pool (ListUserInstances userID))" "blind (customerView userID) (pool (GetUserInstance i userID))"
    unfolding ListUserInstances_def GetUserInstance_def userInstances_view by (intro blind_select; simp only:)+
  show "blind (customerView userID) (pool (ListUserInstanceNetworks i userID))"
    unfolding ListUserInstanceNetworks_def networks_view by (intro blind_select) (simp only:)
  show "blind (customerView userID) (pool (ListUserInstanceTraffic i userID))"
    unfolding ListUserInstanceTraffic_def networks_view by (intro blind_select) (simp only:)
  show "blind (customerView userID) (pool (GetUserInstanceActionContext i userID))"
    unfolding GetUserInstanceActionContext_def actionRows_view by (intro blind_select) (simp only:)
  show "blind (customerView userID) (pool (ListUserNotifications userID))"
    unfolding ListUserNotifications_def by (intro blind_select) (drule customerView_notifications, simp only:)
  show "blind (customerView userID) (pool (ListUserTickets userID))" "blind (customerView userID) (pool (GetUserTicket i userID))"
    unfolding ListUserTickets_def GetUserTicket_def tick by (intro blind_select; drule customerView_tickets(1); simp only: flip: ticketsOf_def)+
  show "blind (customerView userID) (pool (ListUserTicketMessages i userID))"
    unfolding ListUserTicketMessages_def msg by (intro blind_select) (drule customerView_tickets(2), simp only:)
qed

lemma blind_reads:
  assumes "isRead req"
  shows "blind (customerView userID) (portalServe userID req)"
proof -
  note steps = blind_bnd blind_ret blind_raise blind_orNoRows blind_queries
  have get: "blind (customerView userID) (GetInstance_portal userID i)" for i unfolding GetInstance_portal_def by (intro steps)
  show ?thesis
    using assms
    by (cases req) (auto simp: isRead_def answer_def ListInstances_def ListNetworks_def ListTraffic_def ActionContext_of_def Let_def
        ListNotifications_def ListTickets_def GetTicket_def intro!: steps get split: option.split)
qed

section \<open>Nothing of others is touched\<close>

definition untouched :: "uuid \<Rightarrow> db \<Rightarrow> db \<Rightarrow> bool" where
  "untouched userID d0 d \<longleftrightarrow> distinct (map tk_id (tickets d)) \<and> (\<forall>v. v \<noteq> userID \<longrightarrow> customerView v d = customerView v d0)"

text \<open>What a step may rely on of the state and the answer of the step before.\<close>

lemma keeps_bnd_when:
  assumes m: "keeps I m" and f: "\<And>x e w w'. I (wdb w) \<Longrightarrow> I (wdb w') \<Longrightarrow> m e w = (Inr x, w') \<Longrightarrow> keeps I (f x)"
  shows "keeps I (bnd m f)"
  unfolding keeps_def
proof (intro allI impI)
  fix e w r w''
  assume I: "\<forall>d. I d \<longrightarrow> I (concurrent e d)" "I (wdb w)" and run: "bnd m f e w = (r, w'')"
  obtain q w' where q: "m e w = (q, w')" by fastforce
  have I': "I (wdb w')" using keepsD[OF m q I(2)] I(1) by blast
  show "I (wdb w'')"
  proof (cases q)
    case (Inr x)
    with run q have "f x e w' = (r, w'')" by (simp add: bnd_def)
    moreover have "keeps I (f x)" using f[OF I(2) I'] q Inr by blast
    ultimately show ?thesis using keepsD[of I "f x"] I' I(1) by blast
  qed (use run q I' in \<open>simp add: bnd_def\<close>)
qed

lemma customerView_same:
  assumes "ticketsOf v d' = ticketsOf v d" and "filter (\<lambda>m. tm_ticket_id m \<in> ticketIDs v d) ms = filter (\<lambda>m. tm_ticket_id m \<in> ticketIDs v d) (ticket_messages d)"
    and "d' = d\<lparr>tickets := ts, ticket_messages := ms\<rparr>"
  shows "customerView v d' = customerView v d"
proof -
  have "ticketIDs v d' = ticketIDs v d" using assms(1) by (simp add: ticketIDs_def)
  then show ?thesis using assms by (simp add: customerView_def instancesOf_def ownedBy_def[abs_def])
qed

lemma foreign_ticket:
  assumes inv: "untouched u d0 d" and t: "t \<in> set (tickets d)" "tk_id t = i" "tk_user_id t = u"
  shows "\<forall>v. v \<noteq> u \<longrightarrow> i \<notin> ticketIDs v d0"
proof (intro allI impI notI)
  fix v assume v: "v \<noteq> u" and "i \<in> ticketIDs v d0"
  moreover from inv v have "ticketsOf v d = ticketsOf v d0" using customerView_tickets(1)[of v d d0] by (simp add: untouched_def)
  ultimately have "i \<in> ticketIDs v d" by (simp add: ticketIDs_def)
  then obtain s where s: "s \<in> set (tickets d)" "tk_id s = i" "tk_user_id s = v" by (auto simp: ticketIDs_def ticketsOf_def)
  with t inv have "s = t" by (auto simp: untouched_def distinct_map dest: inj_onD)
  with s t v show False by simp
qed

lemma qkeeps_untouched:
  "qkeeps (untouched u d0) (MarkUserNotificationRead i u)"
  "qkeeps (untouched u d0) (CreateUserTicket a1 a2 u a3 a4)"
  "qkeeps (untouched u d0) (TouchUserTicket i u)"
  "(\<And>v. v \<noteq> u \<Longrightarrow> i \<notin> ticketIDs v d0) \<Longrightarrow> qkeeps (untouched u d0) (CreateUserTicketMessage b1 i b2 b3)"
proof -
  show "qkeeps (untouched u d0) (MarkUserNotificationRead i u)"
  proof (rule qkeepsI)
    fix e d x d'
    assume inv: "untouched u d0 d" and run: "MarkUserNotificationRead i u e d = Inr (x, d')"
    define f :: "notificationRow \<Rightarrow> notificationRow" where "f = (\<lambda>n. n\<lparr>nf_read_at := (case nf_read_at n of Some t \<Rightarrow> Some t | None \<Rightarrow> Some (pgNow e))\<rparr>)"
    have d': "d' = d\<lparr>notifications := sqlUpdate (\<lambda>n. nf_id n = i \<and> nf_user_id n = Some u) f (notifications d)\<rparr>"
      using run by (simp add: MarkUserNotificationRead_def Let_def f_def)
    have "filter (\<lambda>n. nf_user_id n = Some v) (sqlUpdate (\<lambda>n. nf_id n = i \<and> nf_user_id n = Some u) f t) = filter (\<lambda>n. nf_user_id n = Some v) t"
      if "v \<noteq> u" for v t
      using that by (induction t) (auto simp: f_def)
    then have "customerView v d' = customerView v d" if "v \<noteq> u" for v
      using that unfolding d' by (simp add: customerView_def instancesOf_def ownedBy_def[abs_def] ticketIDs_def ticketsOf_def)
    moreover have "tickets d' = tickets d" using run by (auto simp: MarkUserNotificationRead_def Let_def)
    ultimately show "untouched u d0 d'" using inv by (simp add: untouched_def)
  qed
  show "qkeeps (untouched u d0) (CreateUserTicket a1 a2 u a3 a4)"
  proof (rule qkeepsI)
    fix e d x d'
    assume inv: "untouched u d0 d" and "CreateUserTicket a1 a2 u a3 a4 e d = Inr (x, d')"
    then have d': "d' = d\<lparr>tickets := tickets d @ [x], ticket_messages := ticket_messages d\<rparr>" and x: "tk_user_id x = u" and new: "tk_id x \<notin> tk_id ` set (tickets d)"
      by (auto simp: CreateUserTicket_def Let_def insertInto_ok conflicts_def list_ex_iff)
    have "customerView v d' = customerView v d" if "v \<noteq> u" for v by (rule customerView_same[OF _ _ d']) (use that x in \<open>simp_all add: ticketsOf_def d'\<close>)
    with inv new show "untouched u d0 d'" by (simp add: untouched_def d')
  qed
  show "qkeeps (untouched u d0) (TouchUserTicket i u)"
  proof (rule qkeepsI)
    fix e :: env and d x d'
    let ?f = "\<lambda>t :: ticketRow. t\<lparr>tk_updated_at := pgNow e\<rparr>" and ?P = "\<lambda>t :: ticketRow. tk_id t = i \<and> tk_user_id t = u \<and> tk_status t \<noteq> ''closed''"
    assume inv: "untouched u d0 d" and run: "TouchUserTicket i u e d = Inr (x, d')"
    then have d': "d' = d\<lparr>tickets := sqlUpdate ?P ?f (tickets d), ticket_messages := ticket_messages d\<rparr>" by (auto simp: TouchUserTicket_def)
    have "filter (\<lambda>t. tk_user_id t = v) (sqlUpdate ?P ?f ts) = filter (\<lambda>t. tk_user_id t = v) ts" if "v \<noteq> u" for v ts
      using that by (induction ts) auto
    then have "customerView v d' = customerView v d" if "v \<noteq> u" for v by (intro customerView_same[OF _ _ d']) (use that in \<open>simp_all add: ticketsOf_def d'\<close>)
    with inv show "untouched u d0 d'" by (simp add: untouched_def d' map_sqlUpdate)
  qed
  assume foreign: "\<And>v. v \<noteq> u \<Longrightarrow> i \<notin> ticketIDs v d0"
  show "qkeeps (untouched u d0) (CreateUserTicketMessage b1 i b2 b3)"
  proof (rule qkeepsI)
    fix e d x d'
    assume inv: "untouched u d0 d" and "CreateUserTicketMessage b1 i b2 b3 e d = Inr (x, d')"
    then have d': "d' = d\<lparr>tickets := tickets d, ticket_messages := ticket_messages d @ [x]\<rparr>" and x: "tm_ticket_id x = i"
      by (auto simp: CreateUserTicketMessage_def Let_def insertInto_ok)
    have "customerView v d' = customerView v d" if "v \<noteq> u" for v
    proof (rule customerView_same[OF _ _ d'])
      have "ticketIDs v d = ticketIDs v d0" using inv that customerView_tickets(1)[of v d d0] by (simp add: untouched_def ticketIDs_def)
      then show "filter (\<lambda>m. tm_ticket_id m \<in> ticketIDs v d) (ticket_messages d @ [x]) = filter (\<lambda>m. tm_ticket_id m \<in> ticketIDs v d) (ticket_messages d)"
        using foreign[OF that] x by simp
    qed (simp add: ticketsOf_def d')
    with inv show "untouched u d0 d'" by (simp add: untouched_def d')
  qed
qed

lemma keeps_writes:
  "keeps (untouched u d0) (CreateTicket u subject priority message)"
  "keeps (untouched u d0) (AddTicketMessage u i message)"
proof -
  note steps = keeps_bnd keeps_newID keeps_asks keeps_exec keeps_ret keeps_raise keeps_tx keeps_others qkeeps_untouched
  show "keeps (untouched u d0) (CreateTicket u subject priority message)"
    unfolding CreateTicket_def
  proof (intro keeps_tx keeps_bnd[OF keeps_newID] keeps_bnd[OF keeps_asks])
    fix rowID no
    show "keeps (untouched u d0) (bnd (exec (CreateUserTicket rowID no u subject priority)) (\<lambda>row. bnd newID (\<lambda>messageID.
       bnd (exec (CreateUserTicketMessage messageID rowID (Some u) message)) (\<lambda>_. ret (Commit (ticketOf row))))))"
    proof (rule keeps_bnd_when)
      fix x e w w'
      assume inv: "untouched u d0 (wdb w')" and "exec (CreateUserTicket rowID no u subject priority) e w = (Inr x, w')"
      then have "x \<in> set (tickets (wdb w'))" "tk_id x = rowID" "tk_user_id x = u"
        by (auto simp: exec_ok CreateUserTicket_def Let_def insertInto_ok)
      from foreign_ticket[OF inv this] show "keeps (untouched u d0) (bnd newID (\<lambda>messageID.
         bnd (exec (CreateUserTicketMessage messageID rowID (Some u) message)) (\<lambda>_. ret (Commit (ticketOf x)))))"
        by (intro steps) blast
    qed (intro steps)
  qed
  show "keeps (untouched u d0) (AddTicketMessage u i message)"
    unfolding AddTicketMessage_def
  proof (rule keeps_bnd_when)
    fix x e w w'
    assume inv: "untouched u d0 (wdb w)" and "orNoRows ErrNotFound (pool (GetUserTicket i u)) e w = (Inr x, w')"
    then have "x \<in> set (tickets (wdb w))" "tk_id x = i" "tk_user_id x = u"
      by (auto simp: orNoRows_ok pool_ok GetUserTicket_def selectOne_ok dest!: one_filter_Inr)
    from foreign_ticket[OF inv this] show "keeps (untouched u d0) (if tk_status x = ''closed'' \<or> tk_status x = ''resolved'' then raise ErrTicketClosed
     else bnd others (\<lambda>_. in_tx (bnd newID (\<lambda>messageID.
       bnd (exec (CreateUserTicketMessage messageID i (Some u) message)) (\<lambda>row.
       bnd (exec (TouchUserTicket i u)) (\<lambda>_. ret (Commit (ticketMessageOf row))))))))"
      by (intro keeps_if steps) blast
  qed (intro keeps_orNoRows keeps_pool qkeeps_readonly readonly_portal)
qed

lemma keeps_portalServe: "keeps (untouched u d0) (portalServe u req)"
proof -
  note reads = keeps_bnd keeps_orNoRows keeps_pool qkeeps_readonly readonly_portal keeps_ret keeps_raise keeps_if
  have get: "keeps (untouched u d0) (GetInstance_portal u i)" for i unfolding GetInstance_portal_def by (intro reads)
  show ?thesis
    by (cases req) (auto simp: answer_def ListInstances_def ListNetworks_def ListTraffic_def ActionContext_of_def Let_def ListNotifications_def
        ListTickets_def GetTicket_def MarkNotificationRead_def CreateTicket_svc_def AddTicketMessage_svc_def
        intro!: reads get keeps_writes qkeeps_untouched split: option.split)
qed

text \<open>
  C32: customers are isolated. Whatever a customer asks of the portal, and whatever fails, no other
  customer's subscriptions, instances, networks, traffic, notifications, tickets and messages change;
  and what a query answers is determined by the catalogue and the rows the caller owns according to
  the foreign keys of the tables, so it is the same in every database that differs only in other
  customers' rows.
\<close>

theorem portal_isolated:
  assumes run: "portalServe u req e w = (r, w1)" and keys: "distinct (map tk_id (tickets (wdb w)))"
    and others: "\<forall>d. untouched u (wdb w) d \<longrightarrow> untouched u (wdb w) (concurrent e d)"
  shows "(\<forall>v. v \<noteq> u \<longrightarrow> customerView v (wdb w1) = customerView v (wdb w)) \<and>
    (\<forall>w2 :: world. isRead req \<and> customerView u (wdb w2) = customerView u (wdb w) \<and> wstmts w2 = wstmts w \<and> wids w2 = wids w \<longrightarrow>
      fst (portalServe u req e w2) = r)"
proof (intro conjI allI impI)
  have "untouched u (wdb w) (wdb w)" using keys by (simp add: untouched_def)
  then have "untouched u (wdb w) (wdb w1)"
    using keepsD[where I = "untouched u (wdb w)", OF keeps_portalServe run] others by blast
  then show "customerView v (wdb w1) = customerView v (wdb w)" if "v \<noteq> u" for v using that by (simp add: untouched_def)
next
  fix w2 :: world assume same: "isRead req \<and> customerView u (wdb w2) = customerView u (wdb w) \<and> wstmts w2 = wstmts w \<and> wids w2 = wids w"
  then have "blind (customerView u) (portalServe u req)" and "alike (customerView u) w2 w" using blind_reads by (auto simp: alike_def)
  then show "fst (portalServe u req e w2) = r" using run by (simp add: blind_def)
qed

text \<open>Two customers with a ticket each; the first replies to hers.\<close>

definition ticket0 :: ticketRow where
  "ticket0 = \<lparr>tk_id = 50, tk_ticket_no = ''TKT-1'', tk_user_id = 1, tk_subject = ''boot'', tk_status = ''open'', tk_priority = ''low'',
     tk_created_at = 0, tk_updated_at = 0, tk_closed_at = None\<rparr>"

definition world0_tickets :: world where
  "world0_tickets = world0\<lparr>wdb := db0\<lparr>users := [user0, user0\<lparr>u_id := 2, u_email := ''x@y.z''\<rparr>],
     tickets := [ticket0, ticket0\<lparr>tk_id := 51, tk_ticket_no := ''TKT-2'', tk_user_id := 2\<rparr>]\<rparr>\<rparr>"

theorem portal_isolated_witness:
  "succeeded (portalServe 1 (PReply 50 ''still failing'') env0 world0_tickets) \<and>
   customerView 2 (wdb (snd (portalServe 1 (PReply 50 ''still failing'') env0 world0_tickets))) = customerView 2 (wdb world0_tickets)"
proof
  show "succeeded (portalServe 1 (PReply 50 ''still failing'') env0 world0_tickets)" by code_simp
  have "distinct (map tk_id (tickets (wdb world0_tickets)))" by code_simp
  from portal_isolated[where e = env0 and u = 1 and req = "PReply 50 ''still failing''", OF prod.collapse[symmetric] this]
  show "customerView 2 (wdb (snd (portalServe 1 (PReply 50 ''still failing'') env0 world0_tickets))) = customerView 2 (wdb world0_tickets)" by simp
qed

end
