(* ===== verification/Identity_Queries.thy ===== *)
theory Identity_Queries
  imports Store
begin

text \<open>
  The statements of \<open>internal/store/sqlc/identity.sql.go\<close> with the constraints of migrations
  \<open>000001_initial\<close> and \<open>000002_identity\<close>.
\<close>

section \<open>Accounts\<close>

definition CreateUser_q :: "uuid \<Rightarrow> string \<Rightarrow> string \<Rightarrow> string \<Rightarrow> string \<Rightarrow> userRow query" where
  "CreateUser_q rowID email hash locale timezone = (\<lambda>e d.
     let r = \<lparr>u_id = rowID, u_email = email, u_password_hash = hash, u_status = ''active'', u_locale = locale, u_timezone = timezone,
       u_email_verified_at = None, u_last_login_at = None, u_created_at = pgNow e, u_updated_at = pgNow e\<rparr>
     in insertInto True (conflicts (\<lambda>x. Some (u_id x)) (users d) r \<or> conflicts (\<lambda>x. Some (u_email x)) (users d) r) True
          r (d\<lparr>users := users d @ [r]\<rparr>))"

definition GetUserByEmail :: "string \<Rightarrow> userRow query" where
  "GetUserByEmail email = selectOne (\<lambda>e d. filter (\<lambda>r. u_email r = email) (users d))"

definition GetUserByID :: "uuid \<Rightarrow> userRow query" where
  "GetUserByID rowID = selectOne (\<lambda>e d. filter (\<lambda>r. u_id r = rowID) (users d))"

definition UpdateUserLastLogin :: "uuid \<Rightarrow> unit query" where
  "UpdateUserLastLogin rowID = (\<lambda>e d. Inr ((), d\<lparr>users := sqlUpdate (\<lambda>r. u_id r = rowID)
     (\<lambda>r. r\<lparr>u_last_login_at := Some (pgNow e), u_updated_at := pgNow e\<rparr>) (users d)\<rparr>))"

definition CreateAdmin :: "uuid \<Rightarrow> string \<Rightarrow> string \<Rightarrow> pgtext \<Rightarrow> adminRow query" where
  "CreateAdmin rowID email hash displayName = (\<lambda>e d.
     let r = \<lparr>ad_id = rowID, ad_email = email, ad_password_hash = hash, ad_status = ''active'', ad_display_name = displayName,
       ad_two_factor_enabled = False, ad_last_login_at = None, ad_created_at = pgNow e, ad_updated_at = pgNow e\<rparr>
     in insertInto True (conflicts (\<lambda>x. Some (ad_id x)) (admins d) r \<or> conflicts (\<lambda>x. Some (ad_email x)) (admins d) r) True
          r (d\<lparr>admins := admins d @ [r]\<rparr>))"

definition GetAdminByEmail :: "string \<Rightarrow> adminRow query" where
  "GetAdminByEmail email = selectOne (\<lambda>e d. filter (\<lambda>r. ad_email r = email) (admins d))"

definition GetAdminByID :: "uuid \<Rightarrow> adminRow query" where
  "GetAdminByID rowID = selectOne (\<lambda>e d. filter (\<lambda>r. ad_id r = rowID) (admins d))"

definition UpdateAdminLastLogin :: "uuid \<Rightarrow> unit query" where
  "UpdateAdminLastLogin rowID = (\<lambda>e d. Inr ((), d\<lparr>admins := sqlUpdate (\<lambda>r. ad_id r = rowID)
     (\<lambda>r. r\<lparr>ad_last_login_at := Some (pgNow e), ad_updated_at := pgNow e\<rparr>) (admins d)\<rparr>))"

section \<open>Roles\<close>

definition AssignAdminRole :: "uuid \<Rightarrow> string \<Rightarrow> unit query" where
  "AssignAdminRole adminID key = (\<lambda>e d.
     let new = filter (\<lambda>p. p \<notin> set (admin_roles (access d))) [(adminID, ro_id r). r \<leftarrow> roles (access d), ro_key r = key] in
     if new \<noteq> [] \<and> \<not> present ad_id adminID (admins d) then Inl foreignKeyViolation
     else Inr ((), d\<lparr>access := (access d)\<lparr>admin_roles := admin_roles (access d) @ new\<rparr>\<rparr>))"

text \<open>\<open>SELECT DISTINCT \<dots> ORDER BY\<close>.\<close>

definition permissionsOf :: "uuid \<Rightarrow> accessDb \<Rightarrow> string list" where
  "permissionsOf adminID a = sort (remdups [pe_key p. p \<leftarrow> permissions a, rp \<leftarrow> role_permissions a, snd rp = pe_id p,
     ar \<leftarrow> admin_roles a, snd ar = fst rp \<and> fst ar = adminID])"

definition ListAdminPermissions :: "uuid \<Rightarrow> string list query" where
  "ListAdminPermissions adminID = (\<lambda>e d. Inr (permissionsOf adminID (access d), d))"

section \<open>Sessions\<close>

definition newSession :: "env \<Rightarrow> uuid \<Rightarrow> uuid \<Rightarrow> string \<Rightarrow> time \<Rightarrow> sessionRow" where
  "newSession e rowID owner tokenHash expiresAt = \<lparr>se_id = rowID, se_owner = owner, se_token_hash = tokenHash, se_expires_at = expiresAt,
     se_last_seen_at = pgNow e, se_revoked_at = None, se_created_at = pgNow e\<rparr>"

definition sessionConflict :: "sessionRow list \<Rightarrow> sessionRow \<Rightarrow> bool" where
  "sessionConflict t r \<longleftrightarrow> conflicts (\<lambda>x. Some (se_id x)) t r \<or> conflicts (\<lambda>x. Some (se_token_hash x)) t r"

text \<open>The filter of \<open>GetActiveUserSession\<close> and \<open>GetActiveAdminSession\<close>.\<close>

definition activeSession :: "env \<Rightarrow> string \<Rightarrow> sessionRow \<Rightarrow> bool" where
  "activeSession e tokenHash s \<longleftrightarrow> se_token_hash s = tokenHash \<and> se_revoked_at s = None \<and> pgNow e < se_expires_at s"

definition touched :: "env \<Rightarrow> uuid \<Rightarrow> sessionRow list \<Rightarrow> sessionRow list" where
  "touched e rowID = sqlUpdate (\<lambda>s. se_id s = rowID \<and> se_revoked_at s = None) (\<lambda>s. s\<lparr>se_last_seen_at := pgNow e\<rparr>)"

definition revoked :: "env \<Rightarrow> string \<Rightarrow> sessionRow list \<Rightarrow> sessionRow list" where
  "revoked e tokenHash = sqlUpdate (\<lambda>s. se_token_hash s = tokenHash \<and> se_revoked_at s = None) (\<lambda>s. s\<lparr>se_revoked_at := Some (pgNow e)\<rparr>)"

definition CreateUserSession_q :: "uuid \<Rightarrow> uuid \<Rightarrow> string \<Rightarrow> time \<Rightarrow> sessionRow query" where
  "CreateUserSession_q rowID userID tokenHash expiresAt = (\<lambda>e d.
     let r = newSession e rowID userID tokenHash expiresAt in
     insertInto True (sessionConflict (user_sessions (access d)) r) (present u_id userID (users d))
       r (d\<lparr>access := (access d)\<lparr>user_sessions := user_sessions (access d) @ [r]\<rparr>\<rparr>))"

definition GetActiveUserSession :: "string \<Rightarrow> (sessionRow \<times> userRow) query" where
  "GetActiveUserSession tokenHash = selectOne (\<lambda>e d. [(s, u). s \<leftarrow> user_sessions (access d), activeSession e tokenHash s,
     u \<leftarrow> users d, u_id u = se_owner s])"

definition TouchUserSession_q :: "uuid \<Rightarrow> unit query" where
  "TouchUserSession_q rowID = (\<lambda>e d. Inr ((), d\<lparr>access := (access d)\<lparr>user_sessions := touched e rowID (user_sessions (access d))\<rparr>\<rparr>))"

definition RevokeUserSession_q :: "string \<Rightarrow> unit query" where
  "RevokeUserSession_q tokenHash = (\<lambda>e d. Inr ((), d\<lparr>access := (access d)\<lparr>user_sessions := revoked e tokenHash (user_sessions (access d))\<rparr>\<rparr>))"

definition CreateAdminSession_q :: "uuid \<Rightarrow> uuid \<Rightarrow> string \<Rightarrow> time \<Rightarrow> sessionRow query" where
  "CreateAdminSession_q rowID adminID tokenHash expiresAt = (\<lambda>e d.
     let r = newSession e rowID adminID tokenHash expiresAt in
     insertInto True (sessionConflict (admin_sessions (access d)) r) (present ad_id adminID (admins d))
       r (d\<lparr>access := (access d)\<lparr>admin_sessions := admin_sessions (access d) @ [r]\<rparr>\<rparr>))"

definition GetActiveAdminSession :: "string \<Rightarrow> (sessionRow \<times> adminRow) query" where
  "GetActiveAdminSession tokenHash = selectOne (\<lambda>e d. [(s, a). s \<leftarrow> admin_sessions (access d), activeSession e tokenHash s,
     a \<leftarrow> admins d, ad_id a = se_owner s])"

definition TouchAdminSession_q :: "uuid \<Rightarrow> unit query" where
  "TouchAdminSession_q rowID = (\<lambda>e d. Inr ((), d\<lparr>access := (access d)\<lparr>admin_sessions := touched e rowID (admin_sessions (access d))\<rparr>\<rparr>))"

definition RevokeAdminSession_q :: "string \<Rightarrow> unit query" where
  "RevokeAdminSession_q tokenHash = (\<lambda>e d. Inr ((), d\<lparr>access := (access d)\<lparr>admin_sessions := revoked e tokenHash (admin_sessions (access d))\<rparr>\<rparr>))"

section \<open>Audit and second factor\<close>

definition CreateAuditEvent :: "auditRow \<Rightarrow> unit query" where
  "CreateAuditEvent row = (\<lambda>e d. let r = row\<lparr>au_before_data := jsonb (au_before_data row), au_after_data := jsonb (au_after_data row),
       au_created_at := pgNow e\<rparr> in
     insertInto True (conflicts (\<lambda>x. Some (au_id x)) (audit_events d) r) True () (d\<lparr>audit_events := audit_events d @ [r]\<rparr>))"

definition UpsertAdminTOTPSecret :: "uuid \<Rightarrow> string \<Rightarrow> string \<Rightarrow> unit query" where
  "UpsertAdminTOTPSecret adminID ciphertext nonce = (\<lambda>e d.
     let r = \<lparr>ts_admin_id = adminID, ts_ciphertext = ciphertext, ts_nonce = nonce, ts_created_at = pgNow e, ts_verified_at = None\<rparr>;
         t = totp_secrets (access d) in
     if list_ex (\<lambda>x. ts_admin_id x = adminID) t
     then Inr ((), d\<lparr>access := (access d)\<lparr>totp_secrets := sqlUpdate (\<lambda>x. ts_admin_id x = adminID) (\<lambda>_. r) t\<rparr>\<rparr>)
     else insertInto True False (present ad_id adminID (admins d)) () (d\<lparr>access := (access d)\<lparr>totp_secrets := t @ [r]\<rparr>\<rparr>))"

definition GetAdminTOTPSecret :: "uuid \<Rightarrow> totpSecretRow query" where
  "GetAdminTOTPSecret adminID = selectOne (\<lambda>e d. filter (\<lambda>r. ts_admin_id r = adminID) (totp_secrets (access d)))"

text \<open>Both updates see the table as it was before the statement.\<close>

definition EnableAdminTOTP_q :: "uuid \<Rightarrow> unit query" where
  "EnableAdminTOTP_q adminID = (\<lambda>e d.
     let enabled = list_ex (\<lambda>r. ts_admin_id r = adminID) (totp_secrets (access d)) in
     Inr ((), d\<lparr>access := (access d)\<lparr>totp_secrets := sqlUpdate (\<lambda>r. ts_admin_id r = adminID) (\<lambda>r. r\<lparr>ts_verified_at := Some (pgNow e)\<rparr>)
         (totp_secrets (access d))\<rparr>,
       admins := sqlUpdate (\<lambda>r. ad_id r = adminID \<and> enabled) (\<lambda>r. r\<lparr>ad_two_factor_enabled := True, ad_updated_at := pgNow e\<rparr>) (admins d)\<rparr>))"

lemma readonly_identity [keeps_intros]:
  "readonly (GetUserByEmail a)" "readonly (GetUserByID b)" "readonly (GetAdminByEmail a)" "readonly (GetAdminByID b)"
  "readonly (ListAdminPermissions b)" "readonly (GetActiveUserSession a)" "readonly (GetActiveAdminSession a)" "readonly (GetAdminTOTPSecret b)"
  by (simp_all add: GetUserByEmail_def GetUserByID_def GetAdminByEmail_def GetAdminByID_def GetActiveUserSession_def
      GetActiveAdminSession_def GetAdminTOTPSecret_def readonly_select) (simp add: readonly_def ListAdminPermissions_def)

end
