(* ===== verification/Admin.thy ===== *)
theory Admin
  imports Identity_Queries Portal_Queries Ledger
begin

text \<open>
  \<open>internal/admin\<close> and \<open>internal/audit\<close>: what an administrator changes (users, wallets, tickets, settings, roles),
  each change in one transaction with the audit event that records it. An \<open>Item\<close> is a JSON object.
\<close>

section \<open>Audit\<close>

record AuditContext =
  AdminID :: uuid
  IPAddress :: string
  UserAgent :: string
  RequestID :: string
  TraceID :: string

record AuditEvent =
  ev_ActorType :: string
  ev_ActorID :: "uuid option"
  ev_Action :: string
  ev_ResourceType :: string
  ev_ResourceID :: "uuid option"
  ev_Before :: json
  ev_After :: json
  ev_IPAddress :: string
  ev_UserAgent :: string
  ev_RequestID :: string
  ev_TraceID :: string

text \<open>\<open>PostgresRecorder.Record\<close>: an address that does not parse is left out.\<close>

definition Record :: "AuditEvent \<Rightarrow> unit io" where
  "Record event = bnd newID (\<lambda>newid. bnd (asks (\<lambda>e. parseAddr e (ev_IPAddress event))) (\<lambda>ip.
     pool (CreateAuditEvent \<lparr>au_id = newid, au_actor_type = ev_ActorType event, au_actor_id = ev_ActorID event,
       au_action = ev_Action event, au_resource_type = ev_ResourceType event, au_resource_id = ev_ResourceID event,
       au_before_data = ev_Before event, au_after_data = ev_After event, au_ip_address = ip, au_user_agent = text_of (ev_UserAgent event),
       au_request_id = text_of (ev_RequestID event), au_trace_id = text_of (ev_TraceID event), au_created_at = 0\<rparr>)))"

text \<open>\<open>NULLIF($8,'')::inet\<close>: the statement fails on text that is not an address.\<close>

definition inet :: "env \<Rightarrow> string \<Rightarrow> err + pgtext" where
  "inet e s = (if s = [] then Inr None else case parseAddr e s of None \<Rightarrow> Inl (PgError ''22P02'') | Some a \<Rightarrow> Inr (Some a))"

definition recordAudit :: "string \<Rightarrow> string \<Rightarrow> uuid \<Rightarrow> json \<Rightarrow> json \<Rightarrow> AuditContext \<Rightarrow> unit io" where
  "recordAudit action resource resourceID before after a = bnd newID (\<lambda>newid. exec (\<lambda>e d. case inet e (IPAddress a) of
     Inl x \<Rightarrow> Inl x
   | Inr ip \<Rightarrow> CreateAuditEvent \<lparr>au_id = newid, au_actor_type = ''admin'', au_actor_id = Some (AdminID a), au_action = action,
       au_resource_type = resource, au_resource_id = Some resourceID, au_before_data = before, au_after_data = after,
       au_ip_address = ip, au_user_agent = text_of (UserAgent a), au_request_id = text_of (RequestID a),
       au_trace_id = text_of (TraceID a), au_created_at = 0\<rparr> e d))"

section \<open>Items\<close>

definition JText :: "pgtext \<Rightarrow> json" where "JText t = (case t of None \<Rightarrow> JNull | Some v \<Rightarrow> JStr v)"

definition JStamp :: "time option \<Rightarrow> json" where "JStamp t = (case t of None \<Rightarrow> JNull | Some v \<Rightarrow> JTime v)"

text \<open>\<open>to_jsonb(users) - 'password_hash'\<close>.\<close>

definition userItem :: "env \<Rightarrow> userRow \<Rightarrow> json" where
  "userItem e u = JObj [(''id'', JStr (uuidString e (u_id u))), (''email'', JStr (u_email u)), (''status'', JStr (u_status u)),
     (''locale'', JStr (u_locale u)), (''timezone'', JStr (u_timezone u)), (''email_verified_at'', JStamp (u_email_verified_at u)),
     (''last_login_at'', JStamp (u_last_login_at u)), (''created_at'', JTime (u_created_at u)), (''updated_at'', JTime (u_updated_at u))]"

definition walletFields :: "env \<Rightarrow> walletRow \<Rightarrow> (string \<times> json) list" where
  "walletFields e r = [(''id'', JStr (uuidString e (wal_id r))), (''user_id'', JStr (uuidString e (wal_user_id r))),
     (''currency'', JStr (wal_currency r)), (''available_balance_minor'', JNum (wal_available_balance_minor r)),
     (''created_at'', JTime (wal_created_at r)), (''updated_at'', JTime (wal_updated_at r))]"

definition ticketItem :: "env \<Rightarrow> ticketRow \<Rightarrow> json" where
  "ticketItem e t = JObj [(''id'', JStr (uuidString e (tk_id t))), (''ticket_no'', JStr (tk_ticket_no t)),
     (''user_id'', JStr (uuidString e (tk_user_id t))), (''subject'', JStr (tk_subject t)), (''status'', JStr (tk_status t)),
     (''priority'', JStr (tk_priority t)), (''created_at'', JTime (tk_created_at t)), (''updated_at'', JTime (tk_updated_at t)),
     (''closed_at'', JStamp (tk_closed_at t))]"

definition messageItem :: "env \<Rightarrow> ticketMessageRow \<Rightarrow> json" where
  "messageItem e m = JObj [(''id'', JStr (uuidString e (tm_id m))), (''ticket_id'', JStr (uuidString e (tm_ticket_id m))),
     (''sender_type'', JStr (tm_sender_type m)), (''sender_id'', JUuid e (tm_sender_id m)), (''message'', JStr (tm_message m)),
     (''created_at'', JTime (tm_created_at m))]"

text \<open>A secret value never leaves the table.\<close>

definition settingItem :: "env \<Rightarrow> settingRow \<Rightarrow> json" where
  "settingItem e s = JObj [(''key'', JStr (sy_key s)), (''value'', if sy_is_secret s then JStr ''***'' else sy_value s),
     (''is_secret'', JBool (sy_is_secret s)), (''updated_at'', JTime (sy_updated_at s)), (''updated_by'', JUuid e (sy_updated_by s))]"

text \<open>\<open>jsonb_agg(r.key ORDER BY r.key) FILTER (\<dots>)\<close> over the left joins.\<close>

definition rolesOf :: "uuid \<Rightarrow> db \<Rightarrow> string list" where
  "rolesOf adminID d = sort [ro_key r. ar \<leftarrow> admin_roles (access d), fst ar = adminID, r \<leftarrow> roles (access d), ro_id r = snd ar]"

definition roleItem :: "uuid \<Rightarrow> json query" where
  "roleItem adminID = selectOne (\<lambda>e d. [JObj [(''id'', JStr (uuidString e (ad_id a))), (''email'', JStr (ad_email a)),
     (''roles'', JArr (map JStr (rolesOf adminID d)))]. a \<leftarrow> admins d, ad_id a = adminID])"

definition oneJSON :: "json query \<Rightarrow> json io" where
  "oneJSON q = orNoRows ErrNotFound (exec q)"

definition optionalJSON :: "json query \<Rightarrow> json io" where
  "optionalJSON q = bnd (attempt (oneJSON q)) (\<lambda>r. case r of
     Inl x \<Rightarrow> if x = ErrNotFound then ret JNull else raise x | Inr item \<Rightarrow> ret item)"

section \<open>Changes with their audit event\<close>

definition mutateJSON :: "(json \<times> json) io \<Rightarrow> string \<Rightarrow> string \<Rightarrow> uuid \<Rightarrow> AuditContext \<Rightarrow> json io" where
  "mutateJSON fn action resource resourceID a = in_tx (
     bnd fn (\<lambda>(before, after).
     bnd (recordAudit action resource resourceID before after a) (\<lambda>_. ret (Commit after))))"

definition lockUser :: "uuid \<Rightarrow> json query" where
  "lockUser userID = selectOne (\<lambda>e d. map (userItem e) (filter (\<lambda>u. u_id u = userID) (users d)))"

definition setUserStatus :: "uuid \<Rightarrow> string \<Rightarrow> json query" where
  "setUserStatus userID status = (\<lambda>e d. let P = (\<lambda>u. u_id u = userID);
       f = (\<lambda>u. u\<lparr>u_status := status, u_updated_at := pgNow e\<rparr>) in
     case filter P (users d) of [] \<Rightarrow> Inl ErrNoRows | u # _ \<Rightarrow> Inr (userItem e (f u), d\<lparr>users := sqlUpdate P f (users d)\<rparr>))"

definition UpdateUserStatus :: "uuid \<Rightarrow> string \<Rightarrow> AuditContext \<Rightarrow> json io" where
  "UpdateUserStatus userID status a = mutateJSON (
     bnd (oneJSON (lockUser userID)) (\<lambda>before.
     bnd (oneJSON (setUserStatus userID status)) (\<lambda>after. ret (before, after)))) ''user.status_updated'' ''user'' userID a"

definition lockTicket :: "uuid \<Rightarrow> ticketRow query" where
  "lockTicket ticketID = selectOne (\<lambda>e d. filter (\<lambda>t. tk_id t = ticketID) (tickets d))"

definition setTicketStatus :: "uuid \<Rightarrow> string \<Rightarrow> json query" where
  "setTicketStatus ticketID status = (\<lambda>e d. case updateReturning (tickets d) (\<lambda>t. tk_id t = ticketID)
     (\<lambda>t. t\<lparr>tk_status := status, tk_closed_at := (if status \<in> {''resolved'', ''closed''} then Some (pgNow e) else None), tk_updated_at := pgNow e\<rparr>)
     ticketCheck (\<lambda>t. d\<lparr>tickets := t\<rparr>) of Inl x \<Rightarrow> Inl x | Inr (t, d') \<Rightarrow> Inr (ticketItem e t, d'))"

definition UpdateTicketStatus :: "uuid \<Rightarrow> string \<Rightarrow> AuditContext \<Rightarrow> json io" where
  "UpdateTicketStatus ticketID status a = mutateJSON (
     bnd (orNoRows ErrNotFound (exec (lockTicket ticketID))) (\<lambda>t.
     bnd (asks (\<lambda>e. ticketItem e t)) (\<lambda>before.
     bnd (oneJSON (setTicketStatus ticketID status)) (\<lambda>after. ret (before, after))))) ''ticket.status_updated'' ''ticket'' ticketID a"

definition settingBefore :: "string \<Rightarrow> json query" where
  "settingBefore key = selectOne (\<lambda>e d. [JObj [(''key'', JStr (sy_key s)), (''is_secret'', JBool (sy_is_secret s))].
     s \<leftarrow> system_settings (access d), sy_key s = key])"

definition upsertSetting :: "string \<Rightarrow> json \<Rightarrow> bool \<Rightarrow> uuid \<Rightarrow> json query" where
  "upsertSetting key val secret adminID = (\<lambda>e d.
     let s = \<lparr>sy_key = key, sy_value = jsonb val, sy_is_secret = secret, sy_updated_at = pgNow e, sy_updated_by = Some adminID\<rparr>;
         t = system_settings (access d);
         t' = (if list_ex (\<lambda>x. sy_key x = key) t then sqlUpdate (\<lambda>x. sy_key x = key) (\<lambda>_. s) t else t @ [s])
     in Inr (settingItem e s, d\<lparr>access := (access d)\<lparr>system_settings := t'\<rparr>\<rparr>))"

definition UpdateSetting :: "string \<Rightarrow> json \<Rightarrow> bool \<Rightarrow> AuditContext \<Rightarrow> json io" where
  "UpdateSetting key val secret a = bnd (asks (\<lambda>e. sha1ID e (''setting:'' @ key))) (\<lambda>resourceID. mutateJSON (
     bnd (optionalJSON (settingBefore key)) (\<lambda>before.
     bnd (oneJSON (upsertSetting key val secret (AdminID a))) (\<lambda>after. ret (before, after)))) ''setting.updated'' ''setting'' resourceID a)"

section \<open>Wallets\<close>

definition systemAdjustmentAccount :: uuid where "systemAdjustmentAccount = 1"

text \<open>\<open>ON CONFLICT(user_id,currency) DO NOTHING\<close>.\<close>

definition ensureWallet :: "uuid \<Rightarrow> uuid \<Rightarrow> string \<Rightarrow> unit query" where
  "ensureWallet walletID userID currency = (\<lambda>e d.
     if list_ex (\<lambda>x. wal_user_id x = userID \<and> wal_currency x = currency) (wallets d) then Inr ((), d)
     else let r = \<lparr>wal_id = walletID, wal_user_id = userID, wal_currency = currency, wal_available_balance_minor = 0,
              wal_created_at = pgNow e, wal_updated_at = pgNow e\<rparr>
       in insertInto True (conflicts (\<lambda>x. Some (wal_id x)) (wallets d) r) (present u_id userID (users d)) () (d\<lparr>wallets := wallets d @ [r]\<rparr>))"

definition lockWallet :: "uuid \<Rightarrow> string \<Rightarrow> walletRow query" where
  "lockWallet userID currency = selectOne (\<lambda>e d. filter (\<lambda>x. wal_user_id x = userID \<and> wal_currency x = currency) (wallets d))"

definition insertAdjustment :: "uuid \<Rightarrow> string \<Rightarrow> unit query" where
  "insertAdjustment txID description = (\<lambda>e d.
     let r = \<lparr>lt_id = txID, lt_type = ''admin_adjustment'', lt_reference_type = Some ''admin_request'', lt_reference_id = Some txID,
           lt_description = Some description, lt_created_at = pgNow e\<rparr>
     in insertInto True (ledgerTxConflict (ledger_transactions d) r)
          True () (d\<lparr>ledger_transactions := ledger_transactions d @ [r]\<rparr>))"

definition adjustmentEntries :: "env \<Rightarrow> uuid \<Rightarrow> uuid \<Rightarrow> uuid \<Rightarrow> uuid \<Rightarrow> string \<Rightarrow> string \<Rightarrow> int \<Rightarrow> string \<Rightarrow> ledgerEntryRow list" where
  "adjustmentEntries e entryID contraID txID walletID directionWallet directionSystem absolute currency =
     [\<lparr>le_id = entryID, le_transaction_id = txID, le_account_type = ''wallet'', le_account_id = walletID, le_direction = directionWallet,
       le_amount_minor = absolute, le_currency = currency, le_created_at = pgNow e\<rparr>,
      \<lparr>le_id = contraID, le_transaction_id = txID, le_account_type = ''platform_adjustment'', le_account_id = systemAdjustmentAccount,
       le_direction = directionSystem, le_amount_minor = absolute, le_currency = currency, le_created_at = pgNow e\<rparr>]"

definition insertEntries :: "(env \<Rightarrow> ledgerEntryRow list) \<Rightarrow> unit query" where
  "insertEntries rows = (\<lambda>e d. let new = rows e in
     insertInto (list_all (\<lambda>r. le_direction r \<in> {''debit'', ''credit''} \<and> le_amount_minor r \<ge> 0) new)
       (\<not> distinct (map le_id new) \<or> list_ex (conflicts (\<lambda>x. Some (le_id x)) (ledger_entries d)) new)
       (list_all (\<lambda>r. present lt_id (le_transaction_id r) (ledger_transactions d)) new) () (d\<lparr>ledger_entries := ledger_entries d @ new\<rparr>))"

text \<open>The addition of a \<open>bigint\<close> column fails when it leaves the 64-bit range.\<close>

definition addToWallet :: "uuid \<Rightarrow> int \<Rightarrow> walletRow query" where
  "addToWallet walletID amount = (\<lambda>e d. let P = (\<lambda>r. wal_id r = walletID);
       f = (\<lambda>r. r\<lparr>wal_available_balance_minor := wal_available_balance_minor r + amount, wal_updated_at := pgNow e\<rparr>) in
     if list_ex (\<lambda>r. P r \<and> \<not> int64 (wal_available_balance_minor r + amount)) (wallets d) then Inl numericOutOfRange
     else updateReturning (wallets d) P f (\<lambda>_. True) (\<lambda>t. d\<lparr>wallets := t\<rparr>))"

text \<open>From the balance check to the commit.\<close>

definition postAdjustment :: "uuid \<Rightarrow> string \<Rightarrow> int \<Rightarrow> string \<Rightarrow> AuditContext \<Rightarrow> walletRow \<Rightarrow> json ending io" where
  "postAdjustment userID currency amount description a wallet = (
     let walletID = wal_id wallet; current = wal_available_balance_minor wallet;
         absolute = (if amount < 0 then wrap64 (- amount) else amount);
         directionWallet = (if amount < 0 then ''debit'' else ''credit'');
         directionSystem = (if amount < 0 then ''credit'' else ''debit'') in
     bnd newID (\<lambda>txID.
     bnd (exec (insertAdjustment txID description)) (\<lambda>_.
     bnd newID (\<lambda>entryID.
     bnd newID (\<lambda>contraID.
     bnd (exec (insertEntries (\<lambda>e. adjustmentEntries e entryID contraID txID walletID directionWallet directionSystem absolute currency))) (\<lambda>_.
     bnd (exec (addToWallet walletID amount)) (\<lambda>after.
     bnd (asks (\<lambda>e. JObj [(''id'', JStr (uuidString e walletID)), (''user_id'', JStr (uuidString e userID)),
       (''currency'', JStr currency), (''available_balance_minor'', JNum current)])) (\<lambda>before.
     bnd (asks (\<lambda>e. walletFields e after)) (\<lambda>fields.
     bnd (recordAudit ''ledger.adjusted'' ''wallet'' walletID before (JObj fields) a) (\<lambda>_.
     bnd (asks (\<lambda>e. uuidString e txID)) (\<lambda>txText.
     ret (Commit (JObj (fields @ [(''transaction_id'', JStr txText)]))))))))))))))"

definition AdjustWallet :: "uuid \<Rightarrow> string \<Rightarrow> int \<Rightarrow> string \<Rightarrow> AuditContext \<Rightarrow> json io" where
  "AdjustWallet userID currency amount description a = in_tx (
     bnd newID (\<lambda>newid.
     bnd (exec (ensureWallet newid userID currency)) (\<lambda>_.
     bnd (orNoRows ErrNotFound (exec (lockWallet userID currency))) (\<lambda>wallet.
     if wrap64 (wal_available_balance_minor wallet + amount) < 0 then raise ErrInsufficient
     else postAdjustment userID currency amount description a wallet))))"

section \<open>Tickets\<close>

definition insertReply :: "uuid \<Rightarrow> uuid \<Rightarrow> uuid \<Rightarrow> string \<Rightarrow> ticketMessageRow query" where
  "insertReply messageID ticketID adminID message = (\<lambda>e d.
     let r = \<lparr>tm_id = messageID, tm_ticket_id = ticketID, tm_sender_type = ''admin'', tm_sender_id = Some adminID, tm_message = message,
       tm_created_at = pgNow e\<rparr>
     in insertInto True (conflicts (\<lambda>x. Some (tm_id x)) (ticket_messages d) r) (present tk_id ticketID (tickets d))
          r (d\<lparr>ticket_messages := ticket_messages d @ [r]\<rparr>))"

definition awaitUser :: "uuid \<Rightarrow> unit query" where
  "awaitUser ticketID = (\<lambda>e d. let P = (\<lambda>t. tk_id t = ticketID);
       f = (\<lambda>t. t\<lparr>tk_status := ''waiting_user'', tk_updated_at := pgNow e\<rparr>) in
     if list_all (\<lambda>t. P t \<longrightarrow> ticketCheck (f t)) (tickets d) then Inr ((), d\<lparr>tickets := sqlUpdate P f (tickets d)\<rparr>)
     else Inl checkViolation)"

definition ReplyTicket :: "uuid \<Rightarrow> string \<Rightarrow> AuditContext \<Rightarrow> json io" where
  "ReplyTicket ticketID message a = in_tx (
     bnd (orNoRows ErrNotFound (exec (lockTicket ticketID))) (\<lambda>before.
     if tk_status before = ''closed'' \<or> tk_status before = ''resolved'' then raise ErrTicketFinalized
     else
       bnd newID (\<lambda>messageID.
       bnd (orNoRows ErrNotFound (exec (insertReply messageID ticketID (AdminID a) message))) (\<lambda>row.
       bnd (exec (awaitUser ticketID)) (\<lambda>_.
       bnd (asks (\<lambda>e. JObj [(''message_id'', JStr (uuidString e messageID))])) (\<lambda>after.
       bnd (recordAudit ''ticket.replied'' ''ticket'' ticketID JNull after a) (\<lambda>_.
       bnd (asks (\<lambda>e. messageItem e row)) (\<lambda>item. ret (Commit item)))))))))"

section \<open>Roles of administrators\<close>

definition adminExists :: "uuid \<Rightarrow> bool query" where
  "adminExists adminID = (\<lambda>e d. Inr (list_ex (\<lambda>a. ad_id a = adminID) (admins d), d))"

definition countRoles :: "string list \<Rightarrow> nat query" where
  "countRoles keys = (\<lambda>e d. Inr (length (filter (\<lambda>r. ro_key r \<in> set keys) (roles (access d))), d))"

definition clearRoles :: "uuid \<Rightarrow> unit query" where
  "clearRoles adminID = (\<lambda>e d. Inr ((), d\<lparr>access := (access d)\<lparr>admin_roles := filter (\<lambda>ar. fst ar \<noteq> adminID) (admin_roles (access d))\<rparr>\<rparr>))"

definition grantRoles :: "uuid \<Rightarrow> string list \<Rightarrow> unit query" where
  "grantRoles adminID keys = (\<lambda>e d.
     let new = map (\<lambda>r. (adminID, ro_id r)) (filter (\<lambda>r. ro_key r \<in> set keys) (roles (access d))) in
     insertInto True (\<not> distinct new \<or> list_ex (\<lambda>x. x \<in> set (admin_roles (access d))) new) (new = [] \<or> present ad_id adminID (admins d))
       () (d\<lparr>access := (access d)\<lparr>admin_roles := admin_roles (access d) @ new\<rparr>\<rparr>))"

definition SetAdminRoles :: "uuid \<Rightarrow> string list \<Rightarrow> AuditContext \<Rightarrow> json io" where
  "SetAdminRoles adminID keys a =
     (if adminID = AdminID a \<and> \<not> list_ex (\<lambda>v. v = ''super_admin'') keys then raise ErrInvalidInput
      else in_tx (
       bnd (exec (adminExists adminID)) (\<lambda>there.
       if \<not> there then raise ErrNotFound
       else
         bnd (oneJSON (roleItem adminID)) (\<lambda>before.
         bnd (exec (countRoles keys)) (\<lambda>count.
         if count \<noteq> length keys then raise ErrInvalidInput
         else
           bnd (exec (clearRoles adminID)) (\<lambda>_.
           bnd (exec (grantRoles adminID keys)) (\<lambda>_.
           bnd (oneJSON (roleItem adminID)) (\<lambda>after.
           bnd (recordAudit ''admin.roles_updated'' ''admin'' adminID before after a) (\<lambda>_. ret (Commit after)))))))))) "

section \<open>Service\<close>

definition UpdateUserStatus_svc :: "uuid \<Rightarrow> string \<Rightarrow> AuditContext \<Rightarrow> json io" where
  "UpdateUserStatus_svc userID status audit =
     (if status \<noteq> ''active'' \<and> status \<noteq> ''suspended'' then raise ErrInvalidInput else UpdateUserStatus userID status audit)"

definition AdjustWallet_svc :: "uuid \<Rightarrow> string \<Rightarrow> int \<Rightarrow> string \<Rightarrow> AuditContext \<Rightarrow> json io" where
  "AdjustWallet_svc userID currency0 amount description audit =
     (let currency = ToUpper (TrimSpace currency0) in
      if length currency \<noteq> 3 \<or> amount = 0 \<or> TrimSpace description = [] then raise ErrInvalidInput
      else AdjustWallet userID currency amount (TrimSpace description) audit)"

definition ReplyTicket_svc :: "uuid \<Rightarrow> string \<Rightarrow> AuditContext \<Rightarrow> json io" where
  "ReplyTicket_svc ticketID message0 audit =
     (let message = TrimSpace message0 in
      if message = [] \<or> length message > 10000 then raise ErrInvalidInput else ReplyTicket ticketID message audit)"

definition UpdateTicketStatus_svc :: "uuid \<Rightarrow> string \<Rightarrow> AuditContext \<Rightarrow> json io" where
  "UpdateTicketStatus_svc ticketID status audit =
     (if status \<noteq> ''open'' \<and> status \<noteq> ''waiting_user'' \<and> status \<noteq> ''waiting_support'' \<and> status \<noteq> ''resolved'' \<and> status \<noteq> ''closed''
      then raise ErrInvalidInput else UpdateTicketStatus ticketID status audit)"

definition UpdateSetting_svc :: "string \<Rightarrow> json \<Rightarrow> bool \<Rightarrow> AuditContext \<Rightarrow> json io" where
  "UpdateSetting_svc key0 val secret audit =
     (let key = TrimSpace key0 in
      if key = [] \<or> length key > 255 \<or> val = JNull then raise ErrInvalidInput else UpdateSetting key val secret audit)"

definition SetAdminRoles_svc :: "uuid \<Rightarrow> string list \<Rightarrow> AuditContext \<Rightarrow> json io" where
  "SetAdminRoles_svc adminID keys audit =
     (if keys = [] \<or> list_ex (\<lambda>r. TrimSpace r = []) keys then raise ErrInvalidInput else SetAdminRoles adminID keys audit)"

end
