(* ===== verification/Admin_Laws.thy ===== *)
theory Admin_Laws
  imports Admin Samples
begin

text \<open>
  The administrators' changes: an adjustment moves exactly its amount between a wallet and the platform's account,
  and nothing is changed without the audit event that records it.
\<close>

section \<open>Transactions as wholes\<close>

lemma in_tx_whole:
  assumes "in_tx body e w = (r, w')" and "\<And>x w2. body e (tick w) \<noteq> (Inr (Rollback x), w2)"
  obtains (nothing) x where "r = Inl x" "wdb w' = wdb w"
  | (all) x w2 where "body e (tick w) = (Inr (Commit x), w2)" "wdb w' = wdb w2" "r = Inr x \<or> r = Inl ErrDriver"
  using assms by (auto simp: in_tx_def split: fault.splits sum.splits prod.splits ending.splits)

lemma recordAudit_ok:
  assumes "recordAudit action resource resourceID before after a e w = (Inr u, w')"
  obtains ev where "wdb w' = (wdb w)\<lparr>audit_events := audit_events (wdb w) @ [ev]\<rparr>" "au_actor_type ev = ''admin''" "au_actor_id ev = Some (AdminID a)"
    "au_action ev = action" "au_resource_id ev = Some resourceID" "au_created_at ev = pgNow e"
  using assms that
  by (auto simp: recordAudit_def bnd_ok newID_ok exec_ok CreateAuditEvent_def Let_def insertInto_ok split: sum.split_asm)

lemma exec_wdb: "exec q e w = (Inr x, w') \<Longrightarrow> q e (wdb w) = Inr (x, wdb w')"
  by (auto simp: exec_ok)

lemma newID_wdb: "newID e w = (Inr x, w') \<Longrightarrow> wdb w' = wdb w"
  by (auto simp: newID_ok)

section \<open>Wallets\<close>

definition walletBalance :: "uuid \<Rightarrow> string \<Rightarrow> db \<Rightarrow> int" where
  "walletBalance userID currency d = sum_list (map wal_available_balance_minor
     (filter (\<lambda>r. wal_user_id r = userID \<and> wal_currency r = currency) (wallets d)))"

text \<open>The constraints of the table: its two keys, and the range of its column.\<close>

definition walletsInv :: "db \<Rightarrow> bool" where
  "walletsInv d \<longleftrightarrow> distinct (map wal_id (wallets d)) \<and> distinct (map (\<lambda>r. (wal_user_id r, wal_currency r)) (wallets d)) \<and>
     (\<forall>r\<in>set (wallets d). int64 (wal_available_balance_minor r))"

text \<open>What entries post to a wallet: credits raise it.\<close>

definition postedTo :: "uuid \<Rightarrow> ledgerEntryRow list \<Rightarrow> int" where
  "postedTo walletID es = sum_list (map (\<lambda>r. if le_account_type r = ''wallet'' \<and> le_account_id r = walletID
     then - signedAmount (le_direction r) (le_amount_minor r) else 0) es)"

definition adjusted :: "env \<Rightarrow> uuid \<Rightarrow> string \<Rightarrow> int \<Rightarrow> AuditContext \<Rightarrow> db \<Rightarrow> db \<Rightarrow> bool" where
  "adjusted e userID currency amount a d d' \<longleftrightarrow>
     walletBalance userID currency d' = walletBalance userID currency d + amount \<and> 0 \<le> walletBalance userID currency d' \<and>
     (\<forall>u c. (u, c) \<noteq> (userID, currency) \<longrightarrow> walletBalance u c d' = walletBalance u c d) \<and>
     (\<exists>r\<in>set (wallets d'). wal_user_id r = userID \<and> wal_currency r = currency \<and>
       (\<exists>es. ledger_entries d' = ledger_entries d @ es \<and> postedTo (wal_id r) es = amount) \<and>
       (\<exists>ev. audit_events d' = audit_events d @ [ev] \<and> au_action ev = ''ledger.adjusted'' \<and>
          au_actor_id ev = Some (AdminID a) \<and> au_resource_id ev = Some (wal_id r))) \<and>
     d' = d\<lparr>wallets := wallets d', ledger_transactions := ledger_transactions d', ledger_entries := ledger_entries d', audit_events := audit_events d'\<rparr>"

lemma filter_key_one:
  assumes "distinct (map f xs)" "x \<in> set xs"
  shows "filter (\<lambda>y. f y = f x) xs = [x]"
  using assms
proof (induction xs)
  case (Cons z zs)
  show ?case
  proof (cases "x = z")
    case True
    with Cons.prems have "filter (\<lambda>y. f y = f x) zs = []" by (auto simp: filter_empty_conv image_iff)
    with True show ?thesis by simp
  next
    case False
    with Cons have "x \<in> set zs" "f z \<noteq> f x" by (auto simp: image_iff)
    with Cons show ?thesis by simp
  qed
qed simp

lemma ensureWallet_ok:
  assumes "ensureWallet newid userID currency e d = Inr (u, d')" and inv: "walletsInv d"
  shows "walletsInv d'" "d' = d\<lparr>wallets := wallets d'\<rparr>" "\<And>u c. walletBalance u c d' = walletBalance u c d"
  using assms
  by (auto simp: ensureWallet_def Let_def insertInto_ok walletsInv_def walletBalance_def list_ex_iff conflicts_def int64_def split: if_splits)

lemma walletBalance_row:
  assumes "walletsInv d" "r \<in> set (wallets d)"
  shows "walletBalance (wal_user_id r) (wal_currency r) d = wal_available_balance_minor r"
  using filter_key_one[of "\<lambda>r. (wal_user_id r, wal_currency r)" "wallets d" r] assms
  by (simp add: walletsInv_def walletBalance_def)

definition topUp :: "env \<Rightarrow> int \<Rightarrow> walletRow \<Rightarrow> walletRow" where
  "topUp e amount r = r\<lparr>wal_available_balance_minor := wal_available_balance_minor r + amount, wal_updated_at := pgNow e\<rparr>"

lemma topUp_simps [simp]: "wal_id (topUp e n r) = wal_id r" "wal_user_id (topUp e n r) = wal_user_id r" "wal_currency (topUp e n r) = wal_currency r"
  "wal_available_balance_minor (topUp e n r) = wal_available_balance_minor r + n"
  by (simp_all add: topUp_def)

lemma addToWallet_ok:
  assumes "addToWallet walletID amount e d = Inr (after, d')"
  shows "d' = d\<lparr>wallets := sqlUpdate (\<lambda>r. wal_id r = walletID) (topUp e amount) (wallets d)\<rparr>"
    "\<And>r. r \<in> set (wallets d) \<Longrightarrow> wal_id r = walletID \<Longrightarrow> int64 (wal_available_balance_minor r + amount)"
  using assms by (auto simp: addToWallet_def Let_def updateReturning_ok list_ex_iff topUp_def[abs_def] split: if_splits)

lemma walletBalance_topUp:
  assumes inv: "walletsInv d" and r: "r \<in> set (wallets d)" and d': "wallets d' = sqlUpdate (\<lambda>x. wal_id x = wal_id r) (topUp e amount) (wallets d)"
  shows "walletBalance u c d' = walletBalance u c d + (if wal_user_id r = u \<and> wal_currency r = c then amount else 0)"
proof -
  let ?s = "\<lambda>t. sum_list (map wal_available_balance_minor (filter (\<lambda>r. wal_user_id r = u \<and> wal_currency r = c) t))"
  have "distinct (map wal_id t) \<Longrightarrow> r \<in> set t \<Longrightarrow> ?s (sqlUpdate (\<lambda>x. wal_id x = wal_id r) (topUp e amount) t) =
      ?s t + (if wal_user_id r = u \<and> wal_currency r = c then amount else 0)" for t
  proof (induction t)
    case (Cons x t)
    have skip: "wal_id r \<notin> wal_id ` set t \<Longrightarrow> sqlUpdate (\<lambda>x. wal_id x = wal_id r) (topUp e amount) t = t"
      by (auto simp: sqlUpdate_def image_iff intro!: map_idI)
    show ?case
    proof (cases "x = r")
      case True
      with Cons.prems skip show ?thesis by auto
    next
      case False
      with Cons have "wal_id x \<noteq> wal_id r" "r \<in> set t" by (auto simp: image_iff)
      with Cons show ?thesis by auto
    qed
  qed simp
  with inv r d' show ?thesis by (simp add: walletsInv_def walletBalance_def)
qed

section \<open>Adjustments\<close>

text \<open>The least 64-bit number is its own negation; the CHECK constraint of the entries refuses it.\<close>

lemma wrap64_neg:
  assumes "int64 amount" "0 \<le> wrap64 (- amount)"
  shows "wrap64 (- amount) = - amount"
proof (cases "amount = - 9223372036854775808")
  case True
  with assms(2) show ?thesis by (simp add: wrap64_def)
next
  case False
  with assms(1) show ?thesis by (intro wrap64_id) (simp add: int64_def)
qed

lemma insertAdjustment_ok:
  assumes "insertAdjustment tx description e d = Inr (u, d')"
  obtains row where "d' = d\<lparr>ledger_transactions := ledger_transactions d @ [row]\<rparr>" "lt_id row = tx" "\<not> present lt_id tx (ledger_transactions d)"
proof -
  let ?r = "\<lparr>lt_id = tx, lt_type = ''admin_adjustment'', lt_reference_type = Some ''admin_request'', lt_reference_id = Some tx,
    lt_description = Some description, lt_created_at = pgNow e\<rparr>"
  from assms have "\<not> ledgerTxConflict (ledger_transactions d) ?r" "d' = d\<lparr>ledger_transactions := ledger_transactions d @ [?r]\<rparr>"
    by (simp_all add: insertAdjustment_def Let_def insertInto_ok)
  then show ?thesis by (intro that[of ?r]) (simp_all add: ledgerTxConflict_def conflicts_def present_def)
qed

lemma postAdjustment_ok:
  assumes run: "postAdjustment userID currency amount description a r e w = (Inr y, w')"
    and inv: "walletsInv (wdb w)" "ledgerBalanced (wdb w)" and r: "r \<in> set (wallets (wdb w))" and amount: "int64 amount"
  obtains es ev where "wallets (wdb w') = sqlUpdate (\<lambda>x. wal_id x = wal_id r) (topUp e amount) (wallets (wdb w))"
    "int64 (wal_available_balance_minor r + amount)" "ledger_entries (wdb w') = ledger_entries (wdb w) @ es"
    "postedTo (wal_id r) es = amount" "ledgerBalanced (wdb w')" "audit_events (wdb w') = audit_events (wdb w) @ [ev]"
    "au_action ev = ''ledger.adjusted''" "au_actor_id ev = Some (AdminID a)" "au_resource_id ev = Some (wal_id r)"
    "wdb w' = (wdb w)\<lparr>wallets := wallets (wdb w'), ledger_transactions := ledger_transactions (wdb w'), ledger_entries := ledger_entries (wdb w'), audit_events := audit_events (wdb w')\<rparr>"
    "\<exists>x. y = Commit x"
proof -
  let ?abs = "if amount < 0 then wrap64 (- amount) else amount"
  let ?to = "if amount < 0 then ''debit'' else ''credit''" and ?from = "if amount < 0 then ''credit'' else ''debit''"
  from run obtain tx wa wb first wc contra wd we after w3 before fields u w4
    where ids: "newID e w = (Inr tx, wa)" "newID e wb = (Inr first, wc)" "newID e wc = (Inr contra, wd)"
      and t: "exec (insertAdjustment tx description) e wa = (Inr (), wb)"
      and es: "exec (insertEntries (\<lambda>e. adjustmentEntries e first contra tx (wal_id r) ?to ?from ?abs currency)) e wd = (Inr (), we)"
      and up: "exec (addToWallet (wal_id r) amount) e we = (Inr after, w3)"
      and au: "recordAudit ''ledger.adjusted'' ''wallet'' (wal_id r) before fields a e w3 = (Inr u, w4)"
      and fin: "wdb w' = wdb w4" "\<exists>x. y = Commit x"
    unfolding postAdjustment_def Let_def by (auto simp: bnd_ok asks_ok ret_ok)
  note ids' = ids[THEN newID_wdb] and t = exec_wdb[OF t] and es = exec_wdb[OF es] and up = exec_wdb[OF up]
  let ?es = "adjustmentEntries e first contra tx (wal_id r) ?to ?from ?abs currency"
  from insertAdjustment_ok[OF t[unfolded ids'(1)]] obtain row where row: "wdb wb = (wdb w)\<lparr>ledger_transactions := ledger_transactions (wdb w) @ [row]\<rparr>" "lt_id row = tx"
    "\<not> present lt_id tx (ledger_transactions (wdb w))"
    by blast
  from es ids' have es': "wdb we = (wdb wb)\<lparr>ledger_entries := ledger_entries (wdb wb) @ ?es\<rparr>" and pos: "0 \<le> ?abs"
    by (auto simp: insertEntries_def Let_def insertInto_ok adjustmentEntries_def)
  have abs: "?abs = \<bar>amount\<bar>" using pos wrap64_neg[OF amount] by (auto split: if_splits)
  have posted: "postedTo (wal_id r) ?es = amount" and net: "netOf tx cur ?es = 0" for cur
    unfolding abs by (auto simp: adjustmentEntries_def postedTo_def netOf_def signedAmount_def)
  note up' = addToWallet_ok[OF up]
  from recordAudit_ok[OF au] obtain ev where ev: "wdb w4 = (wdb w3)\<lparr>audit_events := audit_events (wdb w3) @ [ev]\<rparr>"
    "au_action ev = ''ledger.adjusted''" "au_actor_id ev = Some (AdminID a)" "au_resource_id ev = Some (wal_id r)" by blast
  note chain = row(1) es' up'(1) ev(1) fin(1)
  have "ledgerBalanced (wdb w')"
  proof (rule ledgerBalanced_post[OF inv(2), of _ row ?es])
    show "\<forall>x\<in>set ?es. le_transaction_id x = lt_id row" by (auto simp: row(2) adjustmentEntries_def)
  qed (use chain row net in simp_all)
  with that[of ?es ev] chain posted ev up'(2)[of r] fin(2) r show ?thesis by simp
qed

lemma AdjustWallet_whole:
  assumes run: "AdjustWallet userID currency amount description a e w = (v, w')"
    and inv: "walletsInv (wdb w)" "ledgerBalanced (wdb w)" and amount: "int64 amount"
  shows "(\<exists>x. v = Inl x) \<and> wdb w' = wdb w \<or>
    ((\<exists>item. v = Inr item) \<or> v = Inl ErrDriver) \<and> adjusted e userID currency amount a (wdb w) (wdb w') \<and> ledgerBalanced (wdb w')"
proof -
  let ?body = "bnd newID (\<lambda>newid. bnd (exec (ensureWallet newid userID currency)) (\<lambda>_.
     bnd (orNoRows ErrNotFound (exec (lockWallet userID currency))) (\<lambda>wallet.
     if wrap64 (wal_available_balance_minor wallet + amount) < 0 then raise ErrInsufficient
     else postAdjustment userID currency amount description a wallet)))"
  have steps: "(\<exists>x. y = Commit x) \<and> adjusted e userID currency amount a (wdb w) (wdb w2) \<and> ledgerBalanced (wdb w2)"
    if body: "?body e (tick w) = (Inr y, w2)" for y w2
  proof -
    from body obtain newid wa wb r w1 where mk: "newID e (tick w) = (Inr newid, wa)" "exec (ensureWallet newid userID currency) e wa = (Inr (), wb)"
      and lock: "exec (lockWallet userID currency) e wb = (Inr r, w1)"
      and ge: "\<not> wrap64 (wal_available_balance_minor r + amount) < 0"
      and post: "postAdjustment userID currency amount description a r e w1 = (Inr y, w2)"
      by (auto simp: bnd_ok orNoRows_ok raise_ok split: if_splits)
    from exec_wdb[OF mk(2)] newID_wdb[OF mk(1)] have mk: "ensureWallet newid userID currency e (wdb w) = Inr ((), wdb wb)" by simp
    from exec_wdb[OF lock] have r: "r \<in> set (wallets (wdb wb))" "wal_user_id r = userID" "wal_currency r = currency" and w1: "wdb w1 = wdb wb"
      by (auto simp: lockWallet_def selectOne_ok dest!: one_in)
    note mk' = ensureWallet_ok[OF mk inv(1)]
    have bal: "ledgerBalanced (wdb wb)" using inv(2) by (subst mk'(2)) (simp add: ledgerBalanced_def)
    from postAdjustment_ok[OF post, unfolded w1, OF mk'(1) bal r(1) amount] obtain es ev where
      up: "wallets (wdb w2) = sqlUpdate (\<lambda>x. wal_id x = wal_id r) (topUp e amount) (wallets (wdb wb))" "int64 (wal_available_balance_minor r + amount)"
      and es: "ledger_entries (wdb w2) = ledger_entries (wdb wb) @ es" "postedTo (wal_id r) es = amount" "ledgerBalanced (wdb w2)"
      and ev: "audit_events (wdb w2) = audit_events (wdb wb) @ [ev]" "au_action ev = ''ledger.adjusted''" "au_actor_id ev = Some (AdminID a)"
        "au_resource_id ev = Some (wal_id r)"
      and frame: "wdb w2 = (wdb wb)\<lparr>wallets := wallets (wdb w2), ledger_transactions := ledger_transactions (wdb w2), ledger_entries := ledger_entries (wdb w2), audit_events := audit_events (wdb w2)\<rparr>"
      and y: "\<exists>x. y = Commit x" by blast
    have same: "ledger_entries (wdb wb) = ledger_entries (wdb w)" "audit_events (wdb wb) = audit_events (wdb w)" by (subst mk'(2), simp)+
    have b: "walletBalance u c (wdb w2) = walletBalance u c (wdb w) + (if (u, c) = (userID, currency) then amount else 0)" for u c
      using walletBalance_topUp[OF mk'(1) r(1) up(1), of u c] mk'(3) r by auto
    have "0 \<le> walletBalance userID currency (wdb w) + amount"
      using walletBalance_row[OF mk'(1) r(1)] mk'(3) r ge up(2) by simp
    moreover have "topUp e amount r \<in> set (wallets (wdb w2))" using r(1) up(1) by (auto simp: set_sqlUpdate)
    moreover have "wdb w2 = (wdb w)\<lparr>wallets := wallets (wdb w2), ledger_transactions := ledger_transactions (wdb w2), ledger_entries := ledger_entries (wdb w2), audit_events := audit_events (wdb w2)\<rparr>"
      by (subst frame, subst mk'(2)) simp
    ultimately show ?thesis using b es ev same r y unfolding adjusted_def
      by (intro conjI bexI[of _ "topUp e amount r"] exI[of _ es] exI[of _ ev]) auto
  qed
  from run show ?thesis unfolding AdjustWallet_def
  proof (rule in_tx_whole)
    show "?body e (tick w) \<noteq> (Inr (Rollback x), w2)" for x w2 using steps by blast
  qed (use steps in auto)
qed

text \<open>
  C31: an adjustment by an administrator is exact and all or nothing. Either nothing is changed and the
  caller sees an error, or the balance of the user's wallet in that currency changes by exactly the amount
  and is not negative, no other balance changes, the ledger receives entries that post the same amount
  to the same wallet and is balanced, and one audit event names the administrator.
\<close>

theorem AdjustWallet_exact:
  assumes "AdjustWallet_svc userID currency amount description a e w = (v, w')"
    and "walletsInv (wdb w)" "ledgerBalanced (wdb w)" and "int64 amount"
  shows "(\<exists>x. v = Inl x) \<and> wdb w' = wdb w \<or>
    ((\<exists>item. v = Inr item) \<or> v = Inl ErrDriver) \<and> length (ToUpper (TrimSpace currency)) = 3 \<and> amount \<noteq> 0 \<and>
    adjusted e userID (ToUpper (TrimSpace currency)) amount a (wdb w) (wdb w') \<and> ledgerBalanced (wdb w')"
proof (cases "length (ToUpper (TrimSpace currency)) \<noteq> 3 \<or> amount = 0 \<or> TrimSpace description = []")
  case True
  with assms(1) show ?thesis by (auto simp: AdjustWallet_svc_def Let_def raise_def)
next
  case False
  with assms(1) have "AdjustWallet userID (ToUpper (TrimSpace currency)) amount (TrimSpace description) a e w = (v, w')"
    by (auto simp: AdjustWallet_svc_def Let_def split: if_splits)
  from AdjustWallet_whole[OF this assms(2-4)] False show ?thesis by auto
qed

section \<open>Witness\<close>

definition audit0 :: AuditContext where
  "audit0 = \<lparr>AdminID = 70, IPAddress = ''192.0.2.9'', UserAgent = [], RequestID = ''r'', TraceID = ''t''\<rparr>"

lemma sample_adjust: "succeeded (AdjustWallet_svc 1 '' usd'' 250 ''goodwill'' audit0 env0 world0)"
  by code_simp

theorem AdjustWallet_exact_witness:
  "\<exists>item w'. AdjustWallet_svc 1 '' usd'' 250 ''goodwill'' audit0 env0 world0 = (Inr item, w') \<and>
     walletBalance 1 (ToUpper (TrimSpace '' usd'')) (wdb w') = 250 \<and> ledgerBalanced (wdb w')"
proof -
  from sample_adjust obtain item w' where run: "AdjustWallet_svc 1 '' usd'' 250 ''goodwill'' audit0 env0 world0 = (Inr item, w')"
    by (auto elim!: succeededE)
  have "walletsInv (wdb world0)" "ledgerBalanced (wdb world0)" "int64 250" "\<And>u c. walletBalance u c (wdb world0) = 0"
    by (simp_all add: world0_def db0_def emptyDb_def walletsInv_def ledgerBalanced_def int64_def walletBalance_def)
  with AdjustWallet_exact[OF run] run show ?thesis by (auto simp: adjusted_def)
qed

end
