(* ===== verification/Infrastructure.thy ===== *)
theory Infrastructure
  imports Infrastructure_Queries Contracts Samples
begin

text \<open>
  \<open>internal/infrastructure\<close>: the repository of providers, node groups and nodes, and the scheduler that
  places an operation on a node by reserving capacity.
\<close>

section \<open>Data\<close>

record ProviderRecord =
  pr_ID :: uuid
  pr_Name :: string
  pr_ProviderType :: string
  pr_Endpoint :: "string option"
  pr_CredentialRef :: "string option"
  pr_Status :: string
  pr_Config :: "json option"
  pr_Capabilities :: "json option"

record NodeGroup =
  NodeGroup_ID :: uuid
  NodeGroup_Name :: string
  NodeGroup_Region :: string
  NodeGroup_Status :: string

record Node =
  Node_ID :: uuid
  Node_ProviderID :: uuid
  Node_NodeGroupID :: "uuid option"
  Node_ProviderNodeID :: "string option"
  Node_Name :: string
  Node_Region :: string
  Node_Status :: string
  Node_Total :: capacity
  Node_Allocated :: capacity
  Node_Reserved :: capacity
  Node_Weight :: int
  Node_Capabilities :: "json option"
  Node_LastSeenAt :: "time option"
  Node_Version :: int

record Reservation =
  Reservation_ID :: uuid
  Reservation_NodeID :: uuid
  Reservation_OperationID :: uuid
  Reservation_Resources :: capacity
  Reservation_Status :: string
  Reservation_ExpiresAt :: time

text \<open>\<open>RequiredCapabilities\<close> as \<open>json.Marshal\<close> encodes it (a nil map is null).\<close>

record ScheduleRequest =
  sr_NodeGroupID :: uuid
  sr_Resources :: capacity
  sr_RequiredCapabilities :: json
  sr_TTL :: duration

definition providerFromRow :: "providerRow \<Rightarrow> ProviderRecord" where
  "providerFromRow r = \<lparr>pr_ID = prov_id r, pr_Name = prov_name r, pr_ProviderType = prov_provider_type r,
     pr_Endpoint = prov_endpoint r, pr_CredentialRef = prov_credential_ref r, pr_Status = prov_status r,
     pr_Config = Some (prov_config r), pr_Capabilities = Some (prov_capabilities r)\<rparr>"

definition nodeFromRow :: "nodeRow \<Rightarrow> Node" where
  "nodeFromRow r = \<lparr>Node_ID = n_id r, Node_ProviderID = n_provider_id r, Node_NodeGroupID = n_node_group_id r,
     Node_ProviderNodeID = n_provider_node_id r, Node_Name = n_name r, Node_Region = n_region r, Node_Status = n_status r,
     Node_Total = n_total r, Node_Allocated = n_allocated r, Node_Reserved = n_reserved r, Node_Weight = n_weight r,
     Node_Capabilities = Some (n_capabilities r), Node_LastSeenAt = n_last_seen_at r, Node_Version = n_version r\<rparr>"

definition reservationFromRow :: "reservationRow \<Rightarrow> Reservation" where
  "reservationFromRow r = \<lparr>Reservation_ID = rr_id r, Reservation_NodeID = rr_node_id r, Reservation_OperationID = rr_operation_id r,
     Reservation_Resources = rr_resources r, Reservation_Status = rr_status r, Reservation_ExpiresAt = rr_expires_at r\<rparr>"

definition nodeGroupFromRow :: "nodeGroupRow \<Rightarrow> NodeGroup" where
  "nodeGroupFromRow r = \<lparr>NodeGroup_ID = ng_id r, NodeGroup_Name = ng_name r, NodeGroup_Region = ng_region r, NodeGroup_Status = ng_status r\<rparr>"

definition nonNilJSON :: "json option \<Rightarrow> json" where
  "nonNilJSON v = (case v of None \<Rightarrow> JObj [] | Some j \<Rightarrow> j)"

section \<open>Repository\<close>

definition CreateProvider :: "ProviderRecord \<Rightarrow> ProviderRecord io" where
  "CreateProvider r = bnd (pool (CreateInfrastructureProvider (pr_ID r) (pr_Name r) (pr_ProviderType r) (pr_Endpoint r)
     (pr_CredentialRef r) (pr_Status r) (nonNilJSON (pr_Config r)) (nonNilJSON (pr_Capabilities r)))) (\<lambda>row. ret (providerFromRow row))"

definition CreateNodeGroup :: "NodeGroup \<Rightarrow> NodeGroup io" where
  "CreateNodeGroup g = bnd (pool (CreateNodeGroup_q (NodeGroup_ID g) (NodeGroup_Name g) (NodeGroup_Region g) (NodeGroup_Status g)))
     (\<lambda>row. ret (nodeGroupFromRow row))"

definition CreateNode :: "Node \<Rightarrow> Node io" where
  "CreateNode n = bnd (pool (CreateNode_q (Node_ID n) (Node_ProviderID n) (Node_NodeGroupID n) (Node_ProviderNodeID n)
     (Node_Name n) (Node_Region n) (Node_Status n) (Node_Total n) (Node_Weight n) (nonNilJSON (Node_Capabilities n)) (Node_LastSeenAt n)))
     (\<lambda>row. ret (nodeFromRow row))"

definition ListProviders :: "ProviderRecord list io" where
  "ListProviders = bnd (pool ListInfrastructureProviders) (\<lambda>rows. ret (map providerFromRow rows))"

definition ListNodeGroups :: "NodeGroup list io" where
  "ListNodeGroups = bnd (pool ListNodeGroups_q) (\<lambda>rows. ret (map nodeGroupFromRow rows))"

definition ListNodes :: "Node list io" where
  "ListNodes = bnd (pool ListNodes_q) (\<lambda>rows. ret (map nodeFromRow rows))"

section \<open>Scheduler\<close>

definition validCapacityRequest :: "capacity \<Rightarrow> bool" where
  "validCapacityRequest v \<longleftrightarrow> c_cpu v > 0 \<and> c_memory_mb v > 0 \<and> c_disk_gb v > 0 \<and> c_ipv4 v \<ge> 0 \<and> c_ipv6 v \<ge> 0 \<and> c_nat_port v \<ge> 0"

definition placeReservation :: "uuid \<Rightarrow> ScheduleRequest \<Rightarrow> nodeRow \<Rightarrow> Reservation option ending io" where
  "placeReservation operationID request node =
    bnd (orNoRows ErrResourceExhausted (exec (AddNodeReservation (n_id node) (sr_Resources request)))) (\<lambda>_.
    bnd newID (\<lambda>rowID. bnd (asks goNow) (\<lambda>now.
    bnd (attempt (exec (CreateResourceReservation rowID (n_id node) operationID (sr_Resources request) (now + sr_TTL request)))) (\<lambda>r. case r of
      Inl x \<Rightarrow> if isUniqueViolation x then ret (Rollback None) else raise x
    | Inr row \<Rightarrow> ret (Commit (Some (reservationFromRow row)))))))"

definition reserveTx :: "uuid \<Rightarrow> ScheduleRequest \<Rightarrow> Reservation option ending io" where
  "reserveTx operationID request =
    bnd (attempt (exec (GetResourceReservationByOperation operationID))) (\<lambda>found. case found of
      Inr existing \<Rightarrow> ret (Rollback (Some (reservationFromRow existing)))
    | Inl x \<Rightarrow> if x \<noteq> ErrNoRows then raise x
        else bnd (exec (SelectCandidateNodesForUpdate (sr_NodeGroupID request) (sr_RequiredCapabilities request) (sr_Resources request)))
          (\<lambda>candidates. case candidates of [] \<Rightarrow> raise ErrResourceExhausted | node # _ \<Rightarrow> placeReservation operationID request node))"

definition Reserve :: "uuid \<Rightarrow> ScheduleRequest \<Rightarrow> Reservation io" where
  "Reserve operationID request =
    (if operationID = uuidNil \<or> sr_NodeGroupID request = uuidNil \<or> sr_TTL request \<le> 0 \<or> \<not> validCapacityRequest (sr_Resources request)
     then raise ErrInvalidRequest
     else bnd (in_tx (reserveTx operationID request)) (\<lambda>r. case r of
        Some v \<Rightarrow> ret v
      | None \<Rightarrow> bnd (pool (GetResourceReservationByOperation operationID)) (\<lambda>existing. ret (reservationFromRow existing))))"

definition changeStatusTx :: "uuid \<Rightarrow> string \<Rightarrow> Reservation ending io" where
  "changeStatusTx reservationID target =
    bnd (orNoRows ErrReservationAbsent (exec (LockResourceReservation reservationID))) (\<lambda>current.
    if rr_status current = target then ret (Rollback (reservationFromRow current))
    else if rr_status current \<noteq> ''reserved'' then raise ErrReservationState
    else bnd (exec (if target = ''committed'' then CommitNodeReservation (rr_node_id current) (rr_resources current)
          else ReleaseNodeReservation (rr_node_id current) (rr_resources current))) (\<lambda>_.
      bnd (exec (SetResourceReservationStatus reservationID target)) (\<lambda>updated.
      ret (Commit (reservationFromRow updated)))))"

definition changeStatus :: "uuid \<Rightarrow> string \<Rightarrow> Reservation io" where
  "changeStatus reservationID target = in_tx (changeStatusTx reservationID target)"

definition CommitReservation :: "uuid \<Rightarrow> Reservation io" where
  "CommitReservation reservationID = changeStatus reservationID ''committed''"

definition ReleaseReservation :: "uuid \<Rightarrow> Reservation io" where
  "ReleaseReservation reservationID = changeStatus reservationID ''released''"

end
