(* ===== verification/Provider.thy ===== *)
theory Provider
  imports Store
begin

text \<open>
  \<open>internal/provider\<close>: the contract between the platform and whatever runs the virtual machines
  (\<open>provider.go\<close>), and the registry that finds the adapter of a provider (\<open>registry.go\<close>). An adapter is a
  record of its calls; the factories that build adapters are parameters.
\<close>

section \<open>Requests and answers\<close>

record Capabilities =
  cap_CreateInstance :: bool
  cap_DeleteInstance :: bool
  cap_Start :: bool
  cap_Stop :: bool
  cap_Restart :: bool
  cap_Reinstall :: bool
  cap_ResetPassword :: bool
  cap_Traffic :: bool
  cap_Metrics :: bool
  cap_NAT :: bool
  cap_IPv4 :: bool
  cap_IPv6 :: bool
  cap_Snapshot :: bool
  cap_Console :: bool
  cap_Firewall :: bool
  cap_SupportedRuntimes :: "string list"

record Health =
  hl_Status :: string
  hl_Version :: string
  hl_CheckedAt :: time
  hl_Details :: "(string \<times> json) list"

record CreateInstanceRequest =
  ci_OperationID :: string
  ci_IdempotencyKey :: string
  ci_NodeID :: string
  ci_InstanceID :: string
  ci_Name :: string
  ci_CPUCores :: int
  ci_MemoryMB :: int
  ci_DiskGB :: int
  ci_TrafficGB :: "int option"
  ci_BandwidthMbps :: "int option"
  ci_IPv4Count :: int
  ci_IPv6Count :: int
  ci_NATPortCount :: int
  ci_Image :: string
  ci_Virtualization :: string
  ci_RootPassword :: "string option"

record InstanceActionRequest =
  ia_OperationID :: string
  ia_IdempotencyKey :: string
  ia_NodeID :: string
  ia_ProviderInstanceID :: string

record GetInstanceRequest =
  gi_NodeID :: string
  gi_ProviderInstanceID :: string
  gi_PlatformInstanceID :: string

text \<open>Embedded structs are record extensions.\<close>

record ReinstallInstanceRequest = InstanceActionRequest +
  ri_Image :: string
  ri_RootPassword :: "string option"

record ResetPasswordRequest = InstanceActionRequest +
  rp_RootPassword :: string

record GetTrafficRequest = GetInstanceRequest +
  gt_From :: time
  gt_To :: time

record AddPortForwardRequest = InstanceActionRequest +
  ap_Protocol :: string
  ap_PublicIP :: string
  ap_PublicPort :: int
  ap_GuestPort :: int
  ap_Description :: string

record DeletePortForwardRequest = InstanceActionRequest +
  dp_ProviderMappingID :: string

record ProviderOperation =
  po_ProviderOperationID :: string
  po_Status :: string
  po_Accepted :: bool
  po_Metadata :: "(string \<times> json) list"

record ProviderInstance =
  prv_ProviderInstanceID :: string
  prv_State :: string
  prv_CPUCores :: int
  prv_MemoryMB :: int
  prv_DiskGB :: int
  prv_IPv4 :: "string list"
  prv_IPv6 :: "string list"
  prv_CreatedAt :: time
  prv_Metadata :: "(string \<times> json) list"

record Image =
  img_ID :: string
  img_Name :: string
  img_OS :: string
  img_Version :: string
  img_Arch :: string
  img_Description :: string

record Usage =
  us_CPUPercent :: int
  us_MemoryUsedMB :: int
  us_MemoryTotalMB :: int
  us_DiskUsedGB :: int
  us_DiskTotalGB :: int
  us_ObservedAt :: time

record Traffic =
  tr_RXBytes :: int
  tr_TXBytes :: int
  tr_From :: time
  tr_To :: time

record PortForward =
  pf_ProviderMappingID :: string
  pf_Protocol :: string
  pf_PublicIP :: string
  pf_PublicPort :: int
  pf_GuestPort :: int
  pf_Description :: string

text \<open>The calls of an adapter that the platform makes.\<close>

record adapter =
  CreateInstance :: "CreateInstanceRequest \<Rightarrow> ProviderOperation io"
  GetInstance :: "GetInstanceRequest \<Rightarrow> ProviderInstance io"
  StartInstance :: "InstanceActionRequest \<Rightarrow> ProviderOperation io"
  StopInstance :: "InstanceActionRequest \<Rightarrow> ProviderOperation io"
  RestartInstance :: "InstanceActionRequest \<Rightarrow> ProviderOperation io"
  ReinstallInstance :: "ReinstallInstanceRequest \<Rightarrow> ProviderOperation io"

type_synonym resolver = "uuid \<Rightarrow> adapter io"

definition ErrorTimeout :: string where "ErrorTimeout = ''PROVIDER_TIMEOUT''"
definition ErrorUnavailable :: string where "ErrorUnavailable = ''PROVIDER_UNAVAILABLE''"
definition ErrorNodeOffline :: string where "ErrorNodeOffline = ''NODE_OFFLINE''"
definition ErrorImageNotFound :: string where "ErrorImageNotFound = ''IMAGE_NOT_FOUND''"
definition ErrorInstanceNotFound :: string where "ErrorInstanceNotFound = ''INSTANCE_NOT_FOUND''"
definition ErrorInstanceAlreadyExists :: string where "ErrorInstanceAlreadyExists = ''INSTANCE_ALREADY_EXISTS''"
definition ErrorUnsupportedOperation :: string where "ErrorUnsupportedOperation = ''UNSUPPORTED_OPERATION''"
definition ErrorUnknown :: string where "ErrorUnknown = ''UNKNOWN_PROVIDER_ERROR''"

section \<open>What is relied on\<close>

text \<open>
  What is relied on of a provider: its calls, and looking it up, touch nothing of the platform's database
  but the tables that the agents on the nodes report to, where the Runman adapter queues its commands.
\<close>

definition remote :: "'a io \<Rightarrow> bool" where
  "remote m \<longleftrightarrow> (\<forall>I. (\<forall>d f. I d \<longrightarrow> I (d\<lparr>fleet := f\<rparr>)) \<longrightarrow> keeps I m)"

definition remoteAdapter :: "adapter \<Rightarrow> bool" where
  "remoteAdapter ad \<longleftrightarrow> (\<forall>r. remote (CreateInstance ad r)) \<and> (\<forall>r. remote (GetInstance ad r)) \<and>
     (\<forall>r. remote (StartInstance ad r)) \<and> (\<forall>r. remote (StopInstance ad r)) \<and> (\<forall>r. remote (RestartInstance ad r)) \<and>
     (\<forall>r. remote (ReinstallInstance ad r))"

definition remoteResolver :: "resolver \<Rightarrow> bool" where
  "remoteResolver resolve \<longleftrightarrow> (\<forall>i. remote (resolve i)) \<and>
     (\<forall>i e w ad w'. resolve i e w = (Inr ad, w') \<longrightarrow> remoteAdapter ad)"

lemma keeps_remote: "remote m \<Longrightarrow> (\<And>d f. I d \<Longrightarrow> I (d\<lparr>fleet := f\<rparr>)) \<Longrightarrow> keeps I m"
  by (simp add: remote_def)

lemma remote_quiet: "(\<And>e w r w'. m e w = (r, w') \<Longrightarrow> wdb w' = wdb w) \<Longrightarrow> remote m"
  unfolding remote_def keeps_def by metis

end
