(* ===== verification/Provision.thy ===== *)
theory Provision
  imports Provision_Queries Operation Infrastructure Provider
begin

text \<open>
  \<open>internal/provision\<close>: from a paid order to a running instance. The repository, the consumer that
  starts provisioning when a payment succeeded, and the workflow that reserves capacity, lets a
  provider create the instance and activates the subscription. The provider is a parameter of the model.
\<close>

section \<open>Repository\<close>

definition provisionSteps :: "string list" where
  "provisionSteps = [''validate_subscription'', ''select_node'', ''reserve_resources'', ''create_instance'', ''wait_provider'',
     ''configure_network'', ''verify_running'', ''persist_network'', ''commit_reservation'', ''activate_subscription'', ''notify'']"

record Context =
  Context_OperationID :: uuid
  Context_InstanceID :: uuid
  Context_InstanceName :: string
  Context_ProviderInstanceID :: string
  Context_ObservedState :: string
  Context_SubscriptionID :: uuid
  Context_SubscriptionStatus :: string
  Context_UserID :: uuid
  Context_SourceOrderID :: uuid
  Context_NodeGroupID :: uuid
  Context_CPUCores :: int
  Context_MemoryMB :: int
  Context_DiskGB :: int
  Context_TrafficGB :: "int option"
  Context_BandwidthMbps :: "int option"
  Context_IPv4Count :: int
  Context_IPv6Count :: int
  Context_NATPortCount :: int
  Context_Virtualization :: string
  Context_ImageID :: string

record Placement =
  Placement_ReservationID :: uuid
  Placement_NodeID :: uuid
  Placement_ProviderID :: uuid
  Placement_ProviderNodeID :: string

definition deterministicID :: "env \<Rightarrow> string \<Rightarrow> uuid \<Rightarrow> int \<Rightarrow> uuid" where
  "deterministicID e kind orderID index = sha1ID e (''vps-billing:'' @ kind @ '':'' @ uuidString e orderID @ '':'' @ itoa index)"

definition provisionKey :: "env \<Rightarrow> uuid \<Rightarrow> int \<Rightarrow> string" where
  "provisionKey e orderID index = ''provision:'' @ uuidString e orderID @ '':'' @ itoa index"

definition createDomainEvent :: "string \<Rightarrow> string \<Rightarrow> uuid \<Rightarrow> (env \<Rightarrow> json) \<Rightarrow> unit io" where
  "createDomainEvent eventType aggregateType aggregateID payload = bnd newID (\<lambda>eventID.
     bnd (asks (\<lambda>e. envelope e eventID eventType (goNow e) aggregateType aggregateID (payload e))) (\<lambda>envel.
     exec (CreateOutboxEvent eventID eventType aggregateType aggregateID envel)))"

definition provisionOperationEvent :: "operationRow \<Rightarrow> unit io" where
  "provisionOperationEvent row = createDomainEvent ''operation.queued.v1'' ''operation'' (op_id row) (\<lambda>e. JObj
     [(''operation_id'', JStr (uuidString e (op_id row))), (''user_id'', JUuid e (op_user_id row)), (''status'', JStr (op_status row)),
      (''phase'', JStr (text_string (op_phase row))), (''progress'', JNum (op_progress row)),
      (''message_key'', JStr (text_string (op_message_key row))), (''retryable'', JBool (op_retryable row)),
      (''error_code'', JStr (text_string (op_error_code row))), (''trace_id'', JStr (op_trace_id row))])"

definition provisionItemSteps :: "uuid \<Rightarrow> int \<Rightarrow> operationRow \<Rightarrow> unit io" where
  "provisionItemSteps orderID index row = forEach (\<lambda>(n, key).
     bnd (asks (\<lambda>e. deterministicID e (''step:'' @ key) orderID index)) (\<lambda>stepID.
     bnd (exec (CreateOperationStep stepID (op_id row) key (int n + 1))) (\<lambda>_. ret ())))
     (enumerate 0 provisionSteps)"

definition provisionItem :: "uuid \<Rightarrow> string \<Rightarrow> purchaseRow \<Rightarrow> int \<Rightarrow> unit io" where
  "provisionItem orderID traceID purchase index =
    bnd (asks (\<lambda>e. (deterministicID e ''subscription'' orderID index, deterministicID e ''instance'' orderID index,
        deterministicID e ''operation'' orderID index, ''vps-'' @ take 8 (uuidString e orderID) @ ''-'' @ itoa index,
        provisionKey e orderID index))) (\<lambda>(subscriptionID, instanceID, operationID, name, idempotencyKey).
    bnd (exec (CreatePurchaseSubscription subscriptionID (pp_user_id purchase) (plan_id (pp_plan purchase))
        (plan_billing_cycle (pp_plan purchase)) (plan_price_minor (pp_plan purchase)) (plan_currency (pp_plan purchase)) orderID index)) (\<lambda>sub.
    bnd (exec (CreatePendingInstance instanceID (s_id sub) name (pp_plan purchase))) (\<lambda>inst.
    bnd (attempt (exec (GetOperationByIdempotency idempotencyKey))) (\<lambda>found. case found of
      Inr _ \<Rightarrow> ret ()
    | Inl x \<Rightarrow> if x \<noteq> ErrNoRows then raise x
        else bnd (exec (CreateOperation operationID ''provision'' ''instance'' (i_id inst) (text_of ''operation.queued'') idempotencyKey 5
            traceID (Some (pp_user_id purchase)) None)) (\<lambda>row.
          bnd (provisionItemSteps orderID index row) (\<lambda>_.
          provisionOperationEvent row))))))"

definition ensureTx :: "uuid \<Rightarrow> string \<Rightarrow> int ending io" where
  "ensureTx orderID traceID =
    bnd (orNoRows ErrPurchaseNotReady (exec (GetPaidPurchaseForProvision orderID))) (\<lambda>purchase.
    if plan_node_group_id (pp_plan purchase) = None then raise ErrPlacementMissing
    else bnd (forEach (provisionItem orderID traceID purchase) [1..pp_quantity purchase]) (\<lambda>_.
      bnd (exec (MarkOrderFulfilling orderID)) (\<lambda>_.
      ret (Commit (pp_quantity purchase)))))"

definition EnsureForPaidOrder :: "uuid \<Rightarrow> string \<Rightarrow> int io" where
  "EnsureForPaidOrder orderID traceID = in_tx (ensureTx orderID traceID)"

definition contextOf :: "contextRow \<Rightarrow> uuid \<Rightarrow> uuid \<Rightarrow> Context" where
  "contextOf row groupID orderID =
    \<lparr>Context_OperationID = op_id (cx_operation row), Context_InstanceID = i_id (cx_instance row),
     Context_InstanceName = i_name (cx_instance row), Context_ProviderInstanceID = text_string (i_provider_instance_id (cx_instance row)),
     Context_ObservedState = i_observed_state (cx_instance row), Context_SubscriptionID = s_id (cx_subscription row),
     Context_SubscriptionStatus = s_status (cx_subscription row), Context_UserID = s_user_id (cx_subscription row),
     Context_SourceOrderID = orderID, Context_NodeGroupID = groupID, Context_CPUCores = plan_cpu_cores (cx_plan row),
     Context_MemoryMB = plan_memory_mb (cx_plan row), Context_DiskGB = plan_disk_gb (cx_plan row),
     Context_TrafficGB = plan_traffic_gb (cx_plan row), Context_BandwidthMbps = plan_bandwidth_mbps (cx_plan row),
     Context_IPv4Count = plan_ipv4_count (cx_plan row), Context_IPv6Count = plan_ipv6_count (cx_plan row),
     Context_NATPortCount = plan_nat_port_count (cx_plan row), Context_Virtualization = plan_virtualization (cx_plan row),
     Context_ImageID = plan_default_image_id (cx_plan row)\<rparr>"

definition ProvisionContext :: "uuid \<Rightarrow> Context io" where
  "ProvisionContext operationID = bnd (pool (GetProvisionContext operationID)) (\<lambda>row.
     case (plan_node_group_id (cx_plan row), s_source_order_id (cx_subscription row)) of
       (Some groupID, Some orderID) \<Rightarrow> ret (contextOf row groupID orderID)
     | _ \<Rightarrow> raise ErrPlacementMissing)"

definition ProvisionPlacement :: "uuid \<Rightarrow> Placement io" where
  "ProvisionPlacement operationID = bnd (orNoRows ErrPlacementMissing (pool (GetProvisionPlacement operationID))) (\<lambda>row.
     ret \<lparr>Placement_ReservationID = pl_reservation_id row, Placement_NodeID = pl_node_id row,
       Placement_ProviderID = pl_provider_id row, Placement_ProviderNodeID = pl_provider_node_id row\<rparr>)"

definition SetPlacement :: "uuid \<Rightarrow> Placement \<Rightarrow> unit io" where
  "SetPlacement instanceID place = pool (SetInstancePlacement instanceID (Placement_NodeID place) (Placement_ProviderID place))"

fun firstAddress :: "env \<Rightarrow> string list \<Rightarrow> pgtext" where
  "firstAddress e [] = None"
| "firstAddress e (v # vs) = (case parseAddr e v of Some a \<Rightarrow> Some a | None \<Rightarrow> firstAddress e vs)"

definition SetProviderResult :: "uuid \<Rightarrow> string \<Rightarrow> string \<Rightarrow> string list \<Rightarrow> string list \<Rightarrow> unit io" where
  "SetProviderResult instanceID providerInstanceID state ipv4 ipv6 =
    bnd (asks (\<lambda>e. (firstAddress e ipv4, firstAddress e ipv6))) (\<lambda>(a4, a6).
    pool (SetInstanceProviderResult instanceID (text_of providerInstanceID) state a4 a6))"

definition SetError :: "uuid \<Rightarrow> unit io" where
  "SetError instanceID = pool (SetInstanceProvisionError instanceID)"

section \<open>Finalizing\<close>

definition commitPlacement :: "uuid \<Rightarrow> unit io" where
  "commitPlacement reservationID = bnd (exec (LockResourceReservation reservationID)) (\<lambda>res.
     if rr_status res = ''reserved'' then
       bnd (exec (CommitNodeReservation (rr_node_id res) (rr_resources res))) (\<lambda>_.
       bnd (exec (SetResourceReservationStatus (rr_id res) ''committed'')) (\<lambda>_. ret ()))
     else if rr_status res \<noteq> ''committed'' then raise (ErrOther (''reservation is '' @ rr_status res))
     else ret ())"

definition activate :: "Context \<Rightarrow> unit io" where
  "activate current = bnd (asks goNow) (\<lambda>now.
     bnd (exec (ActivateProvisionedSubscription (Context_SubscriptionID current) now)) (\<lambda>activated.
     bnd (exec (MarkPurchaseOrderFulfilledIfReady (Context_SourceOrderID current))) (\<lambda>_.
     bnd (asks (\<lambda>e. (sha1ID e (''vps-billing:notification:'' @ uuidString e (Context_InstanceID current)),
         JObj [(''instance_id'', JStr (uuidString e (Context_InstanceID current)))]))) (\<lambda>(notificationID, parameters).
     bnd (exec (CreateProvisionNotification notificationID (Context_UserID current) parameters)) (\<lambda>_.
     bnd (createDomainEvent ''subscription.activated.v1'' ''subscription'' (s_id activated) (\<lambda>e. JObj
         [(''subscription_id'', JStr (uuidString e (s_id activated))), (''user_id'', JStr (uuidString e (s_user_id activated))),
          (''instance_id'', JStr (uuidString e (Context_InstanceID current))), (''status'', JStr (s_status activated))])) (\<lambda>_.
     createDomainEvent ''instance.running.v1'' ''instance'' (Context_InstanceID current) (\<lambda>e. JObj
         [(''instance_id'', JStr (uuidString e (Context_InstanceID current))), (''user_id'', JStr (uuidString e (Context_UserID current))),
          (''subscription_id'', JStr (uuidString e (Context_SubscriptionID current))), (''status'', JStr ''running'')])))))))"

definition finalizeTx :: "Context \<Rightarrow> Placement \<Rightarrow> unit ending io" where
  "finalizeTx current place =
    bnd (commitPlacement (Placement_ReservationID place)) (\<lambda>_.
    bnd (if Context_SubscriptionStatus current = ''active''
         then exec (MarkPurchaseOrderFulfilledIfReady (Context_SourceOrderID current)) else activate current) (\<lambda>_.
    ret (Commit ())))"

definition Finalize :: "Context \<Rightarrow> Placement \<Rightarrow> unit io" where
  "Finalize current place = in_tx (finalizeTx current place)"

section \<open>The workflow\<close>

definition workflowError :: "string \<Rightarrow> bool \<Rightarrow> err \<Rightarrow> err" where
  "workflowError code retry x = ErrWorkflow code ''operation.provision.failed'' retry (Some x)"

text \<open>\<open>if err != nil { return workflowError(...) }\<close>.\<close>

definition orWorkflow :: "string \<Rightarrow> bool \<Rightarrow> 'a io \<Rightarrow> 'a io" where
  "orWorkflow code retry m = bnd (attempt m) (\<lambda>r. case r of
     Inl x \<Rightarrow> raise (workflowError code retry x) | Inr y \<Rightarrow> ret y)"

text \<open>\<open>_ = call\<close>: the result and the error are dropped.\<close>

definition ignore :: "'a io \<Rightarrow> unit io" where "ignore m = bnd (attempt m) (\<lambda>_. ret ())"

definition handleProviderError :: "Context \<Rightarrow> uuid \<Rightarrow> err \<Rightarrow> 'a io" where
  "handleProviderError current reservationID x = (case x of
     ErrProvider code retry raw \<Rightarrow>
       bnd (if \<not> retry then bnd (ignore (SetError (Context_InstanceID current))) (\<lambda>_. ignore (ReleaseReservation reservationID))
            else ret ()) (\<lambda>_.
       raise (ErrWorkflow code ''operation.providerError'' retry (Some x)))
   | _ \<Rightarrow> raise (workflowError ErrorUnknown True x))"

definition orProvider :: "Context \<Rightarrow> uuid \<Rightarrow> 'a io \<Rightarrow> 'a io" where
  "orProvider current reservationID m = bnd (attempt m) (\<lambda>r. case r of
     Inl x \<Rightarrow> handleProviderError current reservationID x | Inr y \<Rightarrow> ret y)"

definition stepDone :: "Execution \<Rightarrow> string \<Rightarrow> json \<Rightarrow> unit io" where
  "stepDone x key out = StepUpdate x key ''succeeded'' 100 [] None out"

definition stepRunning :: "Execution \<Rightarrow> string \<Rightarrow> int \<Rightarrow> unit io" where
  "stepRunning x key progress = StepUpdate x key ''running'' progress [] None JNull"

definition uuidOut :: "string \<Rightarrow> uuid \<Rightarrow> json io" where
  "uuidOut key v = asks (\<lambda>e. JObj [(key, JStr (uuidString e v))])"

definition scheduleRequestOf :: "Context \<Rightarrow> ScheduleRequest" where
  "scheduleRequestOf current = \<lparr>sr_NodeGroupID = Context_NodeGroupID current,
     sr_Resources = \<lparr>c_cpu = Context_CPUCores current, c_memory_mb = Context_MemoryMB current, c_disk_gb = Context_DiskGB current,
       c_ipv4 = Context_IPv4Count current, c_ipv6 = Context_IPv6Count current, c_nat_port = Context_NATPortCount current\<rparr>,
     sr_RequiredCapabilities = JObj [(''virtualization'', JStr (Context_Virtualization current))], sr_TTL = 1800 * second\<rparr>"

definition reserveStep :: "Execution \<Rightarrow> Context \<Rightarrow> Reservation io" where
  "reserveStep x current = bnd (attempt (Reserve (ex_operationID x) (scheduleRequestOf current))) (\<lambda>r. case r of
     Inl y \<Rightarrow> if y = ErrResourceExhausted
       then bnd (ignore (Progress x ''waiting_resource'' ''select_node'' 15 ''operation.provision.waitingResource'')) (\<lambda>_.
         raise (workflowError ''RESOURCE_EXHAUSTED'' True y))
       else raise (workflowError ''SCHEDULER_FAILED'' True y)
   | Inr reservation \<Rightarrow>
       bnd (uuidOut ''node_id'' (Reservation_NodeID reservation)) (\<lambda>out. bnd (stepDone x ''select_node'' out) (\<lambda>_.
       bnd (uuidOut ''reservation_id'' (Reservation_ID reservation)) (\<lambda>out. bnd (stepDone x ''reserve_resources'' out) (\<lambda>_.
       ret reservation)))))"

definition createRequestOf :: "env \<Rightarrow> Execution \<Rightarrow> Context \<Rightarrow> Placement \<Rightarrow> CreateInstanceRequest" where
  "createRequestOf e x current place = \<lparr>ci_OperationID = uuidString e (ex_operationID x),
     ci_IdempotencyKey = ''provision:'' @ uuidString e (ex_operationID x), ci_NodeID = Placement_ProviderNodeID place,
     ci_InstanceID = uuidString e (Context_InstanceID current), ci_Name = Context_InstanceName current,
     ci_CPUCores = Context_CPUCores current, ci_MemoryMB = Context_MemoryMB current, ci_DiskGB = Context_DiskGB current,
     ci_TrafficGB = Context_TrafficGB current, ci_BandwidthMbps = Context_BandwidthMbps current,
     ci_IPv4Count = Context_IPv4Count current, ci_IPv6Count = Context_IPv6Count current,
     ci_NATPortCount = Context_NATPortCount current, ci_Image = Context_ImageID current,
     ci_Virtualization = Context_Virtualization current, ci_RootPassword = None\<rparr>"

definition createOnProvider :: "adapter \<Rightarrow> Execution \<Rightarrow> Context \<Rightarrow> Placement \<Rightarrow> uuid \<Rightarrow> ProviderInstance io" where
  "createOnProvider ad x current place reservationID =
    bnd (Progress x ''waiting_provider'' ''create_instance'' 35 ''operation.provision.creating'') (\<lambda>_.
    bnd (stepRunning x ''create_instance'' 20) (\<lambda>_.
    bnd (asks (\<lambda>e. createRequestOf e x current place)) (\<lambda>request.
    bnd (orProvider current reservationID (CreateInstance ad request)) (\<lambda>providerOperation.
    bnd (stepDone x ''create_instance'' (JObj [(''provider_operation_id'', JStr (po_ProviderOperationID providerOperation))])) (\<lambda>_.
    bnd (stepRunning x ''wait_provider'' 50) (\<lambda>_.
    bnd (asks (\<lambda>e. \<lparr>gi_NodeID = Placement_ProviderNodeID place, gi_ProviderInstanceID = Context_ProviderInstanceID current,
        gi_PlatformInstanceID = uuidString e (Context_InstanceID current)\<rparr>)) (\<lambda>request.
    orProvider current reservationID (GetInstance ad request))))))))"

definition persistAndFinalize :: "Execution \<Rightarrow> Context \<Rightarrow> Placement \<Rightarrow> ProviderInstance \<Rightarrow> unit io" where
  "persistAndFinalize x current place inst =
    bnd (stepDone x ''wait_provider'' (JObj [(''provider_instance_id'', JStr (prv_ProviderInstanceID inst))])) (\<lambda>_.
    bnd (stepDone x ''configure_network'' (JObj [(''ipv4_count'', JNum (int (length (prv_IPv4 inst)))), (''ipv6_count'', JNum (int (length (prv_IPv6 inst))))])) (\<lambda>_.
    if prv_State inst \<noteq> ''running'' then
      bnd (ignore (Progress x ''verifying'' ''verify_running'' 75 ''operation.provision.verifying'')) (\<lambda>_.
      raise (workflowError ''INSTANCE_NOT_RUNNING'' True (ErrOther (''provider state is '' @ prv_State inst))))
    else
      bnd (stepDone x ''verify_running'' (JObj [(''state'', JStr (prv_State inst))])) (\<lambda>_.
      bnd (orWorkflow ''INSTANCE_PERSIST_FAILED'' True (SetProviderResult (Context_InstanceID current) (prv_ProviderInstanceID inst) ''running''
          (prv_IPv4 inst) (prv_IPv6 inst))) (\<lambda>_.
      bnd (stepDone x ''persist_network'' (JObj [])) (\<lambda>_.
      bnd (stepRunning x ''commit_reservation'' 80) (\<lambda>_.
      bnd (orWorkflow ''PROVISION_FINALIZE_FAILED'' True (Finalize current place)) (\<lambda>_.
      bnd (stepDone x ''commit_reservation'' JNull) (\<lambda>_.
      bnd (uuidOut ''subscription_id'' (Context_SubscriptionID current)) (\<lambda>out. bnd (stepDone x ''activate_subscription'' out) (\<lambda>_.
      bnd (stepDone x ''notify'' JNull) (\<lambda>_.
      Progress x ''running'' ''finish'' 99 ''operation.provision.finishing'')))))))))))"

definition ProvisionExecute :: "resolver \<Rightarrow> workflow" where
  "ProvisionExecute resolve x =
    bnd (orWorkflow ''PROVISION_CONTEXT_INVALID'' False (ProvisionContext (ex_operationID x))) (\<lambda>current.
    bnd (Progress x ''running'' ''validate_subscription'' 2 ''operation.provision.validating'') (\<lambda>_.
    bnd (uuidOut ''subscription_id'' (Context_SubscriptionID current)) (\<lambda>out. bnd (stepDone x ''validate_subscription'' out) (\<lambda>_.
    bnd (stepRunning x ''select_node'' 20) (\<lambda>_.
    bnd (reserveStep x current) (\<lambda>reservation.
    bnd (orWorkflow ''PLACEMENT_MISSING'' True (ProvisionPlacement (ex_operationID x))) (\<lambda>place.
    bnd (orWorkflow ''INSTANCE_PLACEMENT_FAILED'' True (SetPlacement (Context_InstanceID current) place)) (\<lambda>_.
    bnd (orWorkflow ErrorUnavailable True (resolve (Placement_ProviderID place))) (\<lambda>ad.
    bnd (createOnProvider ad x current place (Reservation_ID reservation)) (\<lambda>inst.
    persistAndFinalize x current place inst))))))))))"

section \<open>The trigger\<close>

definition provisionGroup :: string where "provisionGroup = ''provision-triggers''"

definition triggerProcess :: "nat \<times> string \<times> json \<Rightarrow> (nat \<Rightarrow> string) \<Rightarrow> unit io" where
  "triggerProcess message idText = (case message of (messageID, eventType, payload) \<Rightarrow>
     if eventType \<noteq> ''payment.succeeded.v1'' then ret ()
     else bnd (asks (\<lambda>e. decodeData e ''order_id'' payload)) (\<lambda>decoded. bnd (ofResult decoded) (\<lambda>orderID.
       if orderID = uuidNil then raise (ErrOther ''payment event has no order_id'')
       else bnd (attempt (EnsureForPaidOrder orderID (''payment:'' @ idText messageID))) (\<lambda>r. case r of
         Inl x \<Rightarrow> if x = ErrPurchaseNotReady then ret () else raise x
       | Inr _ \<Rightarrow> ret ()))))"

primrec triggerMessages :: "(nat \<Rightarrow> string) \<Rightarrow> nat \<Rightarrow> (nat \<times> string \<times> json) list \<Rightarrow> (nat \<times> err option) io" where
  "triggerMessages idText processed [] = ret (processed, None)"
| "triggerMessages idText processed (m # ms) =
    bnd (attempt (triggerProcess m idText)) (\<lambda>r. case r of
      Inl x \<Rightarrow> ret (processed, Some x)
    | Inr _ \<Rightarrow> bnd (attempt (XAck provisionGroup (fst m))) (\<lambda>a. case a of
        Inl x \<Rightarrow> ret (processed, Some x)
      | Inr _ \<Rightarrow> triggerMessages idText (processed + 1) ms))"

text \<open>\<open>created\<close> and \<open>fresh\<close> are Redis' answers to XGROUP CREATE (BUSYGROUP is success) and XREADGROUP (nil is no message).\<close>

definition TriggerConsumer_ProcessBatch :: "(nat \<Rightarrow> string) \<Rightarrow> err + unit \<Rightarrow> err + (nat \<times> string \<times> json) list \<Rightarrow> (nat \<times> err option) io" where
  "TriggerConsumer_ProcessBatch idText created fresh = (case created of
     Inl x \<Rightarrow> ret (0, Some x)
   | Inr _ \<Rightarrow> (case fresh of Inl x \<Rightarrow> ret (0, Some x) | Inr ms \<Rightarrow> triggerMessages idText 0 ms))"

end
