(* ===== verification/Instance_Action.thy ===== *)
theory Instance_Action
  imports Portal_Queries Provision
begin

text \<open>
  \<open>internal/instanceaction\<close>: the workflow behind start, stop, suspend, restart and reinstall.
\<close>

record actionContext =
  acx_instanceID :: uuid
  acx_providerID :: uuid
  acx_providerInstanceID :: string
  acx_providerNodeID :: string
  acx_imageID :: string
  acx_operationType :: string

definition actionContextOf :: "uuid \<Rightarrow> actionContext io" where
  "actionContextOf operationID = bnd (pool (GetInstanceActionContextByOperation operationID)) (\<lambda>row. let i = ar_instance row in
     case (i_provider_id i, i_provider_instance_id i) of
       (Some providerID, Some providerInstanceID) \<Rightarrow> ret
         \<lparr>acx_instanceID = i_id i, acx_providerID = providerID, acx_providerInstanceID = providerInstanceID,
          acx_providerNodeID = ar_provider_node_id row, acx_imageID = text_string (i_image_id i), acx_operationType = ar_operation_type row\<rparr>
     | _ \<Rightarrow> raise (ErrOther ''instance provider placement is incomplete''))"

definition setActionState :: "uuid \<Rightarrow> string \<Rightarrow> string \<Rightarrow> unit io" where
  "setActionState instanceID desired observed = pool (SetInstanceActionState instanceID desired observed)"

definition setObserved :: "uuid \<Rightarrow> string \<Rightarrow> unit io" where
  "setObserved instanceID observed = pool (SetInstanceObservedState instanceID observed)"

definition actionError :: "string \<Rightarrow> bool \<Rightarrow> err \<Rightarrow> err" where
  "actionError code retry x = ErrWorkflow code ''operation.instance.failed'' retry (Some x)"

definition providerError :: "err \<Rightarrow> err" where
  "providerError x = (case x of
     ErrProvider code retry raw \<Rightarrow> ErrWorkflow code ''operation.providerError'' retry (Some x)
   | _ \<Rightarrow> actionError ErrorUnknown True x)"

text \<open>\<open>if err != nil { return f(err) }\<close>.\<close>

definition orFail :: "(err \<Rightarrow> err) \<Rightarrow> 'a io \<Rightarrow> 'a io" where
  "orFail f m = bnd (attempt m) (\<lambda>r. case r of Inl x \<Rightarrow> raise (f x) | Inr y \<Rightarrow> ret y)"

text \<open>The desired state, the state on the way there and the state the provider must report.\<close>

definition actionStates :: "string \<Rightarrow> string \<times> string \<times> string" where
  "actionStates action =
    (if action = ''stop'' then (''stopped'', ''stopping'', ''stopped'')
     else if action = ''suspend'' then (''suspended'', ''suspending'', ''stopped'')
     else if action = ''reinstall'' then (''running'', ''reinstalling'', ''running'')
     else (''running'', ''restarting'', ''running''))"

definition instanceActions :: "string list" where
  "instanceActions = [''start'', ''stop'', ''suspend'', ''restart'', ''reinstall'']"

definition callProvider :: "adapter \<Rightarrow> string \<Rightarrow> InstanceActionRequest \<Rightarrow> string \<Rightarrow> ProviderOperation io" where
  "callProvider ad action request img =
    (if action = ''start'' then StartInstance ad request
     else if action = ''stop'' \<or> action = ''suspend'' then StopInstance ad request
     else if action = ''restart'' then RestartInstance ad request
     else ReinstallInstance ad (InstanceActionRequest.extend request \<lparr>ri_Image = img, ri_RootPassword = None\<rparr>))"

text \<open>From the provider's answer to the recorded state.\<close>

definition verifyAction :: "adapter \<Rightarrow> Execution \<Rightarrow> actionContext \<Rightarrow> unit io" where
  "verifyAction ad x current = (let action = acx_operationType current; expected = snd (snd (actionStates action)) in
    bnd (Progress x ''verifying'' ''verify'' 80 ''operation.instance.verifying'') (\<lambda>_.
    bnd (asks (\<lambda>e. \<lparr>gi_NodeID = acx_providerNodeID current, gi_ProviderInstanceID = acx_providerInstanceID current,
        gi_PlatformInstanceID = uuidString e (acx_instanceID current)\<rparr>)) (\<lambda>request.
    bnd (orFail providerError (GetInstance ad request)) (\<lambda>inst.
    if prv_State inst \<noteq> expected
    then raise (actionError ''INSTANCE_STATE_MISMATCH'' True (ErrOther (''expected '' @ expected @ '', observed '' @ prv_State inst)))
    else (let observed = (if action = ''suspend'' then ''suspended'' else prv_State inst) in
      bnd (orFail (actionError ''INSTANCE_STATE_UPDATE_FAILED'' True) (setObserved (acx_instanceID current) observed)) (\<lambda>_.
      bnd (stepDone x ''verify'' (JObj [(''state'', JStr observed)])) (\<lambda>_.
      Progress x ''running'' ''finish'' 99 ''operation.instance.completed'')))))))"

definition performAction :: "adapter \<Rightarrow> Execution \<Rightarrow> actionContext \<Rightarrow> unit io" where
  "performAction ad x current = (let action = acx_operationType current in
    bnd (Progress x ''waiting_provider'' ''provider'' 30 (''operation.instance.'' @ action)) (\<lambda>_.
    bnd (stepRunning x ''provider'' 20) (\<lambda>_.
    bnd (asks (\<lambda>e. \<lparr>ia_OperationID = uuidString e (ex_operationID x), ia_IdempotencyKey = ''instance-action:'' @ uuidString e (ex_operationID x),
        ia_NodeID = acx_providerNodeID current, ia_ProviderInstanceID = acx_providerInstanceID current\<rparr>)) (\<lambda>request.
    bnd (orFail providerError (callProvider ad action request (acx_imageID current))) (\<lambda>providerOperation.
    bnd (stepDone x ''provider'' (JObj [(''provider_operation_id'', JStr (po_ProviderOperationID providerOperation))])) (\<lambda>_.
    verifyAction ad x current))))))"

definition InstanceExecute :: "resolver \<Rightarrow> workflow" where
  "InstanceExecute resolve x =
    bnd (orFail (actionError ''INSTANCE_CONTEXT_INVALID'' False) (actionContextOf (ex_operationID x))) (\<lambda>current.
    let action = acx_operationType current in
    if action \<notin> set instanceActions
    then raise (actionError ''UNSUPPORTED_OPERATION'' False (ErrOther (''unknown action '' @ action)))
    else
      bnd (Progress x ''running'' ''validate'' 5 ''operation.instance.validating'') (\<lambda>_.
      bnd (uuidOut ''instance_id'' (acx_instanceID current)) (\<lambda>out. bnd (stepDone x ''validate'' out) (\<lambda>_.
      bnd (orFail (actionError ''INSTANCE_STATE_UPDATE_FAILED'' True) (setActionState (acx_instanceID current)
          (fst (actionStates action)) (fst (snd (actionStates action))))) (\<lambda>_.
      bnd (orFail (actionError ErrorUnavailable True) (resolve (acx_providerID current))) (\<lambda>ad.
      performAction ad x current))))))"

end
