(* ===== verification/Reconcile.thy ===== *)
theory Reconcile
  imports Portal_Queries Provision
begin

text \<open>
  \<open>internal/reconcile\<close>: the processor that repairs durable state after failures of workers, providers and
  agents. Its statements are written in \<open>reconciler.go\<close> itself.
\<close>

definition defaultBatchSize :: nat where "defaultBatchSize = 25"
definition defaultOperationMaxAge :: duration where "defaultOperationMaxAge = 120 * second"
definition defaultHeartbeatMaxAge :: duration where "defaultHeartbeatMaxAge = 90 * second"

section \<open>Reservations\<close>

definition selectExpired :: "time \<Rightarrow> nat \<Rightarrow> reservationRow list query" where
  "selectExpired now limit = selectMany (\<lambda>e d. take limit (filter (\<lambda>r. \<not> pgLocked e (rr_id r))
     (sort_key rr_expires_at (filter (\<lambda>r. rr_status r = ''reserved'' \<and> rr_expires_at r \<le> now \<and>
        list_ex (\<lambda>x. op_id x = rr_operation_id r \<and> op_status x \<in> {''succeeded'', ''failed'', ''cancelled''}) (operations d))
      (reservations d)))))"

text \<open>The answer is the number of rows affected.\<close>

definition giveBack :: "uuid \<Rightarrow> capacity \<Rightarrow> nat query" where
  "giveBack nodeID resources = (\<lambda>e d. let P = (\<lambda>n. n_id n = nodeID) in
     if list_all (\<lambda>n. P n \<longrightarrow> nodeCheck (releaseOn e resources n)) (nodes d)
     then Inr (length (filter P (nodes d)), d\<lparr>nodes := sqlUpdate P (releaseOn e resources) (nodes d)\<rparr>)
     else Inl checkViolation)"

definition markExpired :: "uuid \<Rightarrow> unit query" where
  "markExpired rowID = (\<lambda>e d. Inr ((), d\<lparr>reservations := sqlUpdate (\<lambda>r. rr_id r = rowID \<and> rr_status r = ''reserved'')
     (\<lambda>r. r\<lparr>rr_status := ''expired'', rr_updated_at := pgNow e\<rparr>) (reservations d)\<rparr>))"

definition expireOne :: "reservationRow \<Rightarrow> unit io" where
  "expireOne item = bnd (exec (giveBack (rr_node_id item) (rr_resources item))) (\<lambda>affected.
     if affected \<noteq> 1 then raise (ErrOther ''reservation node is missing'')
     else exec (markExpired (rr_id item)))"

definition expireReservations :: "time \<Rightarrow> nat \<Rightarrow> nat io" where
  "expireReservations now batchSize = in_tx (bnd (exec (selectExpired now batchSize)) (\<lambda>items.
     bnd (forEach expireOne items) (\<lambda>_. ret (Commit (length items)))))"

section \<open>Heartbeats\<close>

definition lastSign :: "connectionRow \<Rightarrow> time" where
  "lastSign c = (case ac_last_heartbeat_at c of Some t \<Rightarrow> t | None \<Rightarrow> ac_connected_at c)"

definition silent :: "time \<Rightarrow> db \<Rightarrow> nodeRow \<Rightarrow> bool" where
  "silent cutoff d n \<longleftrightarrow> n_status n \<in> {''online'', ''degraded''} \<and>
     list_ex (\<lambda>c. ac_node_id c = n_id n \<and> lastSign c < cutoff) (agent_connections (fleet d))"

definition markOffline :: "time \<Rightarrow> uuid list query" where
  "markOffline cutoff = (\<lambda>e d. Inr (map n_id (filter (silent cutoff d) (nodes d)),
     d\<lparr>nodes := sqlUpdate (silent cutoff d) (\<lambda>n. n\<lparr>n_status := ''offline'', n_updated_at := pgNow e\<rparr>) (nodes d)\<rparr>))"

definition disconnect :: "uuid \<Rightarrow> unit query" where
  "disconnect nodeID = (\<lambda>e d. Inr ((), d\<lparr>fleet := (fleet d)\<lparr>agent_connections := sqlUpdate (\<lambda>c. ac_node_id c = nodeID)
     (\<lambda>c. c\<lparr>ac_status := ''disconnected'', ac_disconnected_at := (case ac_disconnected_at c of Some t \<Rightarrow> Some t | None \<Rightarrow> Some (pgNow e))\<rparr>)
     (agent_connections (fleet d))\<rparr>\<rparr>))"

definition forgetObserved :: "uuid \<Rightarrow> unit query" where
  "forgetObserved nodeID = (\<lambda>e d. updateInstances (\<lambda>i. i_node_id i = Some nodeID \<and> i_observed_state i \<notin> {''deleted'', ''unknown''})
     (\<lambda>i. i\<lparr>i_observed_state := ''unknown'', i_last_synced_at := Some (pgNow e), i_version := i_version i + 1, i_updated_at := pgNow e\<rparr>) d)"

definition expireNodeHeartbeats :: "time \<Rightarrow> nat io" where
  "expireNodeHeartbeats cutoff = in_tx (bnd (exec (markOffline cutoff)) (\<lambda>nodeIDs.
     bnd (forEach (\<lambda>nodeID. bnd (exec (disconnect nodeID)) (\<lambda>_. exec (forgetObserved nodeID))) nodeIDs) (\<lambda>_.
     ret (Commit (length nodeIDs)))))"

section \<open>Instances\<close>

definition followSubscription :: "string \<Rightarrow> string \<Rightarrow> (string \<Rightarrow> bool) \<Rightarrow> unit query" where
  "followSubscription status desired from = (\<lambda>e d. updateInstances (\<lambda>i. from (i_desired_state i) \<and>
       list_ex (\<lambda>s. s_id s = i_subscription_id i \<and> s_status s = status) (subscriptions d))
     (\<lambda>i. i\<lparr>i_desired_state := desired, i_version := i_version i + 1, i_updated_at := pgNow e\<rparr>) d)"

record instanceCandidate =
  icd_id :: uuid
  icd_providerID :: uuid
  icd_providerInstanceID :: string
  icd_providerNodeID :: string
  icd_desired :: string
  icd_observed :: string
  icd_userID :: uuid

definition selectCandidates :: "nat \<Rightarrow> instanceCandidate list query" where
  "selectCandidates limit = selectMany (\<lambda>e d. map snd (take limit (sort_key (\<lambda>(i, _). case i_last_synced_at i of Some t \<Rightarrow> t | None \<Rightarrow> 0)
     (sort_key (\<lambda>(i, _). i_id i)
     [(i, \<lparr>icd_id = i_id i, icd_providerID = p, icd_providerInstanceID = x, icd_providerNodeID = providerNode e n,
        icd_desired = i_desired_state i, icd_observed = i_observed_state i, icd_userID = s_user_id s\<rparr>).
        i \<leftarrow> instances d, i_deleted_at i = None, p \<leftarrow> (case i_provider_id i of None \<Rightarrow> [] | Some p \<Rightarrow> [p]),
        x \<leftarrow> (case i_provider_instance_id i of None \<Rightarrow> [] | Some x \<Rightarrow> [x]),
        n \<leftarrow> nodes d, i_node_id i = Some (n_id n) \<and> n_status n = ''online'', s \<leftarrow> subscriptions d, s_id s = i_subscription_id i]))))"

definition markUnknown :: "uuid \<Rightarrow> unit query" where
  "markUnknown instanceID = (\<lambda>e d. updateInstances (\<lambda>i. i_id i = instanceID \<and> i_observed_state i \<noteq> ''unknown'')
     (\<lambda>i. i\<lparr>i_observed_state := ''unknown'', i_last_synced_at := Some (pgNow e), i_version := i_version i + 1, i_updated_at := pgNow e\<rparr>) d)"

text \<open>\<open>UPDATE \<dots> RETURNING version\<close>.\<close>

definition observeOn :: "env \<Rightarrow> string \<Rightarrow> string \<Rightarrow> instanceRow \<Rightarrow> instanceRow" where
  "observeOn e providerInstanceID state i = i\<lparr>i_provider_instance_id := Some providerInstanceID, i_observed_state := state,
     i_last_synced_at := Some (pgNow e), i_version := i_version i + (if i_observed_state i \<noteq> state then 1 else 0), i_updated_at := pgNow e\<rparr>"

definition recordObserved :: "uuid \<Rightarrow> string \<Rightarrow> string \<Rightarrow> int query" where
  "recordObserved instanceID providerInstanceID state = (\<lambda>e d. case one (filter (\<lambda>i. i_id i = instanceID) (instances d)) of
     Inl x \<Rightarrow> Inl x
   | Inr i \<Rightarrow> (case updateInstances (\<lambda>i. i_id i = instanceID) (observeOn e providerInstanceID state) d of
       Inl x \<Rightarrow> Inl x
     | Inr (_, d') \<Rightarrow> Inr (i_version (observeOn e providerInstanceID state i), d')))"

definition repairAction :: "string \<Rightarrow> string \<Rightarrow> string" where
  "repairAction desired state =
    (if state = desired \<or> (desired = ''suspended'' \<and> state = ''suspended'') then []
     else if desired = ''running'' \<and> (state = ''stopped'' \<or> state = ''suspended'') then ''start''
     else if desired = ''stopped'' \<and> state = ''running'' then ''stop''
     else if desired = ''suspended'' \<and> (state = ''running'' \<or> state = ''stopped'') then ''suspend''
     else [])"

definition repairRequest :: "env \<Rightarrow> instanceCandidate \<Rightarrow> string \<Rightarrow> int \<Rightarrow> uuid \<Rightarrow> CreateRequest" where
  "repairRequest e item action version traceID =
    \<lparr>cr_Type = action, cr_ResourceType = ''instance'', cr_ResourceID = icd_id item,
     cr_IdempotencyKey = ''reconcile:'' @ uuidString e (icd_id item) @ '':'' @ icd_desired item @ '':'' @ itoa version,
     cr_TraceID = ''reconciler:'' @ uuidString e traceID, cr_UserID = Some (icd_userID item), cr_ActorAdminID = None, cr_MaxRetries = 3,
     cr_Steps = [\<lparr>sd_Key = ''validate'', sd_Order = 1\<rparr>, \<lparr>sd_Key = ''provider'', sd_Order = 2\<rparr>, \<lparr>sd_Key = ''verify'', sd_Order = 3\<rparr>]\<rparr>"

text \<open>What follows a successful read of the provider; the answer counts the instance as processed.\<close>

definition reconcileObserved :: "instanceCandidate \<Rightarrow> ProviderInstance \<Rightarrow> unit io" where
  "reconcileObserved item inst = (let state = (if prv_State inst = ''deleted'' then ''unknown'' else prv_State inst) in
     bnd (pool (recordObserved (icd_id item) (prv_ProviderInstanceID inst) state)) (\<lambda>version.
     let action = repairAction (icd_desired item) state in
     if action = [] then ret ()
     else bnd newID (\<lambda>traceID. bnd (asks (\<lambda>e. repairRequest e item action version traceID)) (\<lambda>request.
       bnd (attempt (Create_svc request)) (\<lambda>r. case r of
         Inl x \<Rightarrow> if x = ErrIdempotencyConflict then ret () else raise x
       | Inr _ \<Rightarrow> ret ())))))"

definition unreachable :: "err \<Rightarrow> bool" where
  "unreachable x \<longleftrightarrow> (case x of ErrProvider code _ _ \<Rightarrow> code \<in> {ErrorNodeOffline, ErrorUnavailable, ErrorTimeout} | _ \<Rightarrow> False)"

definition reconcileOne :: "resolver \<Rightarrow> instanceCandidate \<Rightarrow> nat io" where
  "reconcileOne resolve item = bnd (attempt (resolve (icd_providerID item))) (\<lambda>r. case r of
     Inl _ \<Rightarrow> ret 0
   | Inr ad \<Rightarrow>
       bnd (asks (\<lambda>e. \<lparr>gi_NodeID = icd_providerNodeID item, gi_ProviderInstanceID = icd_providerInstanceID item,
           gi_PlatformInstanceID = uuidString e (icd_id item)\<rparr>)) (\<lambda>request.
       bnd (attempt (GetInstance ad request)) (\<lambda>r. case r of
         Inl x \<Rightarrow> if unreachable x then bnd (pool (markUnknown (icd_id item))) (\<lambda>_. ret 0) else ret 0
       | Inr inst \<Rightarrow> bnd (reconcileObserved item inst) (\<lambda>_. ret 1))))"

primrec reconcileAll :: "resolver \<Rightarrow> instanceCandidate list \<Rightarrow> nat io" where
  "reconcileAll resolve [] = ret 0"
| "reconcileAll resolve (item # items) = bnd (reconcileOne resolve item) (\<lambda>n. bnd (reconcileAll resolve items) (\<lambda>m. ret (n + m)))"

definition reconcileInstances :: "resolver \<Rightarrow> nat \<Rightarrow> nat io" where
  "reconcileInstances resolve batchSize =
    bnd (pool (followSubscription ''suspended'' ''suspended'' (\<lambda>desired. desired \<notin> {''suspended'', ''deleted''}))) (\<lambda>_.
    bnd (pool (followSubscription ''active'' ''running'' (\<lambda>desired. desired = ''suspended''))) (\<lambda>_.
    bnd (pool (selectCandidates batchSize)) (reconcileAll resolve)))"

section \<open>The batch\<close>

text \<open>The errors are wrapped with \<open>%w\<close>, so a caller sees the same error; the count returned beside an error is dropped.\<close>

definition reconcileBatch :: "resolver \<Rightarrow> nat io" where
  "reconcileBatch resolve = bnd (asks goNow) (\<lambda>now.
     bnd (RecoverStuck (now - defaultOperationMaxAge) (int defaultBatchSize)) (\<lambda>n1.
     bnd (expireReservations now defaultBatchSize) (\<lambda>n2.
     bnd (expireNodeHeartbeats (now - defaultHeartbeatMaxAge)) (\<lambda>n3.
     bnd (reconcileInstances resolve defaultBatchSize) (\<lambda>n4. ret (n1 + n2 + n3 + n4))))))"

end
