(* ===== verification/Scheduler.thy ===== *)
theory Scheduler
  imports Infrastructure
begin

text \<open>
  The scheduler never promises capacity twice. The accounts of a node agree with the reservations on
  record, placements fit and go to the least utilized node, and a reservation can always be committed
  or released.
\<close>

section \<open>Accounts\<close>

definition held :: "string \<Rightarrow> (capacity \<Rightarrow> int) \<Rightarrow> uuid \<Rightarrow> reservationRow list \<Rightarrow> int" where
  "held status c nodeID t = sum_list (map (\<lambda>r. if rr_node_id r = nodeID \<and> rr_status r = status then c (rr_resources r) else 0) t)"

definition booked :: "db \<Rightarrow> nodeRow \<Rightarrow> bool" where
  "booked d n \<longleftrightarrow> (\<forall>c\<in>set dims. c (n_reserved n) = held ''reserved'' c (n_id n) (reservations d) \<and>
     c (n_allocated n) = held ''committed'' c (n_id n) (reservations d))"

definition capacityInv :: "db \<Rightarrow> bool" where
  "capacityInv d \<longleftrightarrow> distinct (map n_id (nodes d)) \<and> distinct (map rr_id (reservations d)) \<and>
     distinct (map rr_operation_id (reservations d)) \<and> (\<forall>n\<in>set (nodes d). nodeCheck n \<and> booked d n) \<and>
     (\<forall>r\<in>set (reservations d). reservationCheck r \<and> rr_node_id r \<in> n_id ` set (nodes d))"

lemma held_append [simp]: "held st c i (t @ [r]) = held st c i t +
    (if rr_node_id r = i \<and> rr_status r = st then c (rr_resources r) else 0)"
  by (simp add: held_def)

lemma held_absent: "(\<forall>r\<in>set t. rr_node_id r \<noteq> i) \<Longrightarrow> held st c i t = 0"
  unfolding held_def by (induction t) auto

lemma held_nonneg: "(\<forall>r\<in>set t. 0 \<le> c (rr_resources r)) \<Longrightarrow> 0 \<le> held st c i t"
  unfolding held_def by (intro sum_list_nonneg) auto

lemma held_member:
  assumes "\<forall>r\<in>set t. 0 \<le> c (rr_resources r)" "r \<in> set t" "rr_node_id r = i" "rr_status r = st"
  shows "c (rr_resources r) \<le> held st c i t"
proof -
  from assms(2) obtain s u where t: "t = s @ r # u" by (meson split_list)
  have "held st c i t = held st c i s + c (rr_resources r) + held st c i u" using assms(3,4) by (simp add: t held_def)
  moreover have "0 \<le> held st c i s" "0 \<le> held st c i u" using assms(1) by (auto simp: t intro: held_nonneg)
  ultimately show ?thesis by linarith
qed

lemma held_status:
  assumes "distinct (map rr_id t)" "r \<in> set t" "\<And>x. rr_node_id (f x) = rr_node_id x \<and> rr_resources (f x) = rr_resources x \<and> rr_status (f x) = target"
  shows "held st c i (sqlUpdate (\<lambda>x. rr_id x = rr_id r) f t) = held st c i t
     - (if rr_node_id r = i \<and> rr_status r = st then c (rr_resources r) else 0)
     + (if rr_node_id r = i \<and> target = st then c (rr_resources r) else 0)"
  unfolding held_def using sum_sqlUpdate_pk[OF assms(1,2)] assms(3) by auto

lemma resources_nonneg:
  assumes "reservationCheck r" "c \<in> set dims"
  shows "0 \<le> c (rr_resources r)"
  using assms dims_simps(3)[OF assms(2)] by (auto simp: reservationCheck_def capLe_iff)

section \<open>Placing\<close>

lemma node_fields [simp]:
  "n_id (reserveOn e x n) = n_id n" "n_id (commitOn e x n) = n_id n" "n_id (releaseOn e x n) = n_id n"
  "n_total (reserveOn e x n) = n_total n" "n_total (commitOn e x n) = n_total n" "n_total (releaseOn e x n) = n_total n"
  by (simp_all add: reserveOn_def commitOn_def releaseOn_def)

text \<open>What a successful transaction of \<open>Reserve\<close> did.\<close>

definition reservedOn :: "env \<Rightarrow> uuid \<Rightarrow> ScheduleRequest \<Rightarrow> db \<Rightarrow> db \<Rightarrow> nodeRow \<Rightarrow> reservationRow \<Rightarrow> bool" where
  "reservedOn e operationID request d d' n r \<longleftrightarrow>
     n \<in> set (nodes d) \<and> candidate d (sr_NodeGroupID request) (sr_RequiredCapabilities request) (sr_Resources request) n \<and>
     (\<forall>m\<in>set (nodes d). candidate d (sr_NodeGroupID request) (sr_RequiredCapabilities request) (sr_Resources request) m \<longrightarrow>
        (utilization (sr_Resources request) n, - n_weight n, n_id n) \<le> (utilization (sr_Resources request) m, - n_weight m, n_id m)) \<and>
     rr_node_id r = n_id n \<and> rr_operation_id r = operationID \<and> rr_resources r = sr_Resources request \<and> rr_status r = ''reserved'' \<and>
     rr_expires_at r = goNow e + sr_TTL request \<and> reservationCheck r \<and> \<not> reservationConflict (reservations d) r \<and>
     nodeCheck (reserveOn e (sr_Resources request) n) \<and>
     d' = d\<lparr>nodes := sqlUpdate (\<lambda>m. n_id m = n_id n) (reserveOn e (sr_Resources request)) (nodes d), reservations := reservations d @ [r]\<rparr>"

lemma placeReservation_ok:
  assumes run: "placeReservation operationID request node e w = (Inr (Commit v), w')"
    and keys: "distinct (map n_id (nodes (wdb w)))" and node: "node \<in> set (nodes (wdb w))" "fits (sr_Resources request) node"
  obtains r where "v = Some (reservationFromRow r)"
    "wdb w' = (wdb w)\<lparr>nodes := sqlUpdate (\<lambda>m. n_id m = n_id node) (reserveOn e (sr_Resources request)) (nodes (wdb w)),
       reservations := reservations (wdb w) @ [r]\<rparr>"
    "rr_node_id r = n_id node" "rr_operation_id r = operationID" "rr_resources r = sr_Resources request" "rr_status r = ''reserved''"
    "rr_expires_at r = goNow e + sr_TTL request" "reservationCheck r" "\<not> reservationConflict (reservations (wdb w)) r"
    "nodeCheck (reserveOn e (sr_Resources request) node)"
proof -
  from run obtain row w1 i w2 where add: "exec (AddNodeReservation (n_id node) (sr_Resources request)) e w = (Inr row, w1)"
    and rest: "bnd (attempt (exec (CreateResourceReservation i (n_id node) operationID (sr_Resources request) (goNow e + sr_TTL request)))) (\<lambda>r. case r of
      Inl x \<Rightarrow> if isUniqueViolation x then ret (Rollback None) else raise x
    | Inr row \<Rightarrow> ret (Commit (Some (reservationFromRow row)))) e (w1\<lparr>wids := Suc (wids w1)\<rparr>) = (Inr (Commit v), w')"
    unfolding placeReservation_def by (auto simp: orNoRows_ok newID_ok asks_ok elim!: bndE[of newID] bndE[of "asks goNow"] bndE[of "orNoRows x m" for x m])
  have only: "m = node" if "m \<in> set (nodes (wdb w))" "n_id m = n_id node" for m
    using keys that node by (auto simp: distinct_map inj_on_def)
  from add have chk: "nodeCheck (reserveOn e (sr_Resources request) node)" and
    w1: "wdb w1 = (wdb w)\<lparr>nodes := sqlUpdate (\<lambda>m. n_id m = n_id node \<and> fits (sr_Resources request) m) (reserveOn e (sr_Resources request)) (nodes (wdb w))\<rparr>"
    using node by (auto simp: exec_ok AddNodeReservation_def updateReturning_ok)
  have upd: "sqlUpdate (\<lambda>m. n_id m = n_id node \<and> fits (sr_Resources request) m) (reserveOn e (sr_Resources request)) (nodes (wdb w)) =
    sqlUpdate (\<lambda>m. n_id m = n_id node) (reserveOn e (sr_Resources request)) (nodes (wdb w))"
    unfolding sqlUpdate_def using only node by (intro map_cong refl) auto
  from rest show thesis
  proof (cases rule: tryE)
    case (failed x w3)
    then show ?thesis by (auto simp: raise_ok ret_ok split: if_splits)
  next
    case (passed r w3)
    then show ?thesis
      by (intro that[of r]) (auto simp: ret_ok exec_ok CreateResourceReservation_def Let_def insertInto_ok newReservation_def w1 upd chk)
  qed
qed

lemma reserveTx_ok:
  assumes run: "reserveTx operationID request e w = (Inr (Commit v), w')" and keys: "distinct (map n_id (nodes (wdb w)))"
  obtains n r where "v = Some (reservationFromRow r)" "reservedOn e operationID request (wdb w) (wdb w') n r"
  using run unfolding reserveTx_def
proof (cases rule: tryE)
  case (passed r w1)
  then show ?thesis by (simp add: ret_ok)
next
  case (failed x w1)
  define cs where "cs = sort_key (\<lambda>r. (utilization (sr_Resources request) r, - n_weight r, n_id r))
    (filter (candidate (wdb w) (sr_NodeGroupID request) (sr_RequiredCapabilities request) (sr_Resources request)) (nodes (wdb w)))"
  from failed(1) have w1: "wdb w1 = wdb w" by (auto simp: exec_def split: fault.splits sum.splits)
  define w2 where "w2 = (tick w1)\<lparr>wdb := wdb w\<rparr>"
  have w2: "wdb w2 = wdb w" by (simp add: w2_def)
  from failed(2) w1 have rest: "(case cs of [] \<Rightarrow> raise ErrResourceExhausted
      | node # _ \<Rightarrow> placeReservation operationID request node) e w2 = (Inr (Commit v), w')"
    by (auto simp: raise_ok bnd_ok exec_ok SelectCandidateNodesForUpdate_def selectMany_ok cs_def w2_def split: if_splits)
  then obtain n ns where cs: "cs = n # ns" and place: "placeReservation operationID request n e w2 = (Inr (Commit v), w')"
    by (cases cs) (auto simp: raise_ok)
  have set_cs: "set cs = {m \<in> set (nodes (wdb w)). candidate (wdb w) (sr_NodeGroupID request) (sr_RequiredCapabilities request) (sr_Resources request) m}"
    by (auto simp: cs_def)
  have n: "n \<in> set (nodes (wdb w))" "candidate (wdb w) (sr_NodeGroupID request) (sr_RequiredCapabilities request) (sr_Resources request) n"
    using set_cs cs by auto
  have "sorted (map (\<lambda>r. (utilization (sr_Resources request) r, - n_weight r, n_id r)) cs)" unfolding cs_def by (rule sorted_sort_key)
  then have least: "\<forall>m\<in>set cs. (utilization (sr_Resources request) n, - n_weight n, n_id n) \<le> (utilization (sr_Resources request) m, - n_weight m, n_id m)"
    by (auto simp: cs)
  show ?thesis
  proof (rule placeReservation_ok[OF place])
    fix r
    assume "v = Some (reservationFromRow r)"
      "wdb w' = (wdb w2)\<lparr>nodes := sqlUpdate (\<lambda>m. n_id m = n_id n) (reserveOn e (sr_Resources request)) (nodes (wdb w2)),
       reservations := reservations (wdb w2) @ [r]\<rparr>"
      "rr_node_id r = n_id n" "rr_operation_id r = operationID" "rr_resources r = sr_Resources request" "rr_status r = ''reserved''"
      "rr_expires_at r = goNow e + sr_TTL request" "reservationCheck r" "\<not> reservationConflict (reservations (wdb w2)) r"
      "nodeCheck (reserveOn e (sr_Resources request) n)"
    with least n show ?thesis
      by (intro that[of r n]) (auto simp: reservedOn_def w2 set_cs)
  qed (use n keys w2 in \<open>auto simp: candidate_def\<close>)
qed

lemma reservationConflict_iff:
  "reservationConflict t r \<longleftrightarrow> rr_id r \<in> rr_id ` set t \<or> rr_operation_id r \<in> rr_operation_id ` set t"
  by (auto simp: reservationConflict_def conflicts_def list_ex_iff image_iff eq_commute)

lemma booked_reserve:
  assumes "booked d n" "rr_node_id r = m" "rr_resources r = x" "rr_status r = ''reserved''"
  shows "booked (d\<lparr>nodes := ns, reservations := reservations d @ [r]\<rparr>) (if n_id n = m then reserveOn e x n else n)"
  unfolding booked_def using assms dims_simps by (auto simp: booked_def reserveOn_def)

lemma capacityInv_reserved:
  assumes inv: "capacityInv d" and r: "reservedOn e operationID request d d' n r"
  shows "capacityInv d'"
proof -
  let ?f = "\<lambda>m. if n_id m = n_id n then reserveOn e (sr_Resources request) m else m"
  have d': "d' = d\<lparr>nodes := map ?f (nodes d), reservations := reservations d @ [r]\<rparr>"
    using r by (simp add: reservedOn_def sqlUpdate_def)
  have n: "n \<in> set (nodes d)" "nodeCheck (reserveOn e (sr_Resources request) n)" using r by (simp_all add: reservedOn_def)
  have "nodeCheck (?f m) \<and> booked d' (?f m)" if "m \<in> set (nodes d)" for m
  proof
    have "m = n" if "n_id m = n_id n" using that \<open>m \<in> set (nodes d)\<close> n inv by (auto simp: capacityInv_def distinct_map inj_on_def)
    with n inv \<open>m \<in> set (nodes d)\<close> show "nodeCheck (?f m)" by (auto simp: capacityInv_def)
    show "booked d' (?f m)"
      unfolding d' by (rule booked_reserve) (use inv that r in \<open>auto simp: capacityInv_def reservedOn_def\<close>)
  qed
  then have "\<forall>m\<in>set (map ?f (nodes d)). nodeCheck m \<and> booked d' m" by (rule ball_map)
  moreover have "nodes d' = map ?f (nodes d)" by (simp add: d')
  ultimately have nodes: "\<forall>m\<in>set (nodes d'). nodeCheck m \<and> booked d' m" by metis
  have ids: "map n_id (nodes d') = map n_id (nodes d)" by (simp add: d')
  then have img: "n_id ` set (nodes d') = n_id ` set (nodes d)" by (metis set_map)
  have rs: "reservations d' = reservations d @ [r]" by (simp add: d')
  have "rr_node_id r \<in> n_id ` set (nodes d)" "reservationCheck r" "\<not> reservationConflict (reservations d) r"
    using r n by (auto simp: reservedOn_def)
  with nodes inv show ?thesis unfolding capacityInv_def ids img rs by (simp add: reservationConflict_iff)
qed

section \<open>Settling a reservation\<close>

definition settleOn :: "env \<Rightarrow> string \<Rightarrow> capacity \<Rightarrow> nodeRow \<Rightarrow> nodeRow" where
  "settleOn e target x = (if target = ''committed'' then commitOn e x else releaseOn e x)"

definition settledTo :: "env \<Rightarrow> string \<Rightarrow> reservationRow \<Rightarrow> db \<Rightarrow> db" where
  "settledTo e target r d = d\<lparr>nodes := sqlUpdate (\<lambda>n. n_id n = rr_node_id r) (settleOn e target (rr_resources r)) (nodes d),
     reservations := sqlUpdate (\<lambda>x. rr_id x = rr_id r) (\<lambda>x. x\<lparr>rr_status := target, rr_updated_at := pgNow e\<rparr>) (reservations d)\<rparr>"

lemma settle_stmt:
  "(if target = ''committed'' then CommitNodeReservation i x else ReleaseNodeReservation i x) =
   (\<lambda>e d. updateReturning (nodes d) (\<lambda>n. n_id n = i) (settleOn e target x) nodeCheck (\<lambda>t. d\<lparr>nodes := t\<rparr>))"
  by (simp add: CommitNodeReservation_def ReleaseNodeReservation_def settleOn_def)

lemma changeStatusTx_commit:
  assumes run: "changeStatusTx i target e w = (Inr (Commit v), w')" and keys: "distinct (map rr_id (reservations (wdb w)))"
  obtains r where "r \<in> set (reservations (wdb w))" "rr_id r = i" "rr_status r = ''reserved''" "target \<noteq> ''reserved''"
    "wdb w' = settledTo e target r (wdb w)"
    "v = reservationFromRow (r\<lparr>rr_status := target, rr_updated_at := pgNow e\<rparr>)"
    "\<forall>n\<in>set (nodes (wdb w)). n_id n = rr_node_id r \<longrightarrow> nodeCheck (settleOn e target (rr_resources r) n)"
proof -
  from run obtain r w1 where lock: "exec (LockResourceReservation i) e w = (Inr r, w1)"
    and rest: "(if rr_status r = target then ret (Rollback (reservationFromRow r))
    else if rr_status r \<noteq> ''reserved'' then raise ErrReservationState
    else bnd (exec (if target = ''committed'' then CommitNodeReservation (rr_node_id r) (rr_resources r)
          else ReleaseNodeReservation (rr_node_id r) (rr_resources r))) (\<lambda>_.
      bnd (exec (SetResourceReservationStatus i target)) (\<lambda>updated.
      ret (Commit (reservationFromRow updated))))) e w1 = (Inr (Commit v), w')"
    unfolding changeStatusTx_def by (auto simp: orNoRows_ok elim!: bndE[of "orNoRows x m" for x m])
  from lock have r: "r \<in> set (reservations (wdb w))" "rr_id r = i" and w1: "wdb w1 = wdb w"
    by (auto simp: exec_ok LockResourceReservation_def selectOne_ok dest: one_filter_Inr)
  from rest have st: "rr_status r = ''reserved''" "target \<noteq> ''reserved''" by (auto simp: ret_ok raise_ok split: if_splits)
  with rest obtain row w2 upd where node: "exec (\<lambda>e d. updateReturning (nodes d) (\<lambda>n. n_id n = rr_node_id r) (settleOn e target (rr_resources r)) nodeCheck (\<lambda>t. d\<lparr>nodes := t\<rparr>)) e w1 = (Inr row, w2)"
    and set: "exec (SetResourceReservationStatus i target) e w2 = (Inr upd, w')" and v: "v = reservationFromRow upd"
    unfolding settle_stmt by (auto simp: bnd_ok ret_ok)
  from node have chk: "\<forall>n\<in>set (nodes (wdb w)). n_id n = rr_node_id r \<longrightarrow> nodeCheck (settleOn e target (rr_resources r) n)"
    and w2: "wdb w2 = (wdb w)\<lparr>nodes := sqlUpdate (\<lambda>n. n_id n = rr_node_id r) (settleOn e target (rr_resources r)) (nodes (wdb w))\<rparr>"
    by (auto simp: exec_ok updateReturning_ok w1)
  have "one (filter (\<lambda>x. rr_id x = i) (reservations (wdb w))) = Inr r" using one_filter_pk[OF keys r(1)] r(2) by simp
  with set have "upd = r\<lparr>rr_status := target, rr_updated_at := pgNow e\<rparr>" "wdb w' = settledTo e target r (wdb w)"
    using r(2) by (auto simp: exec_ok SetResourceReservationStatus_def updateReturning_ok w2 settledTo_def)
  with r st chk v show thesis by (intro that) auto
qed

lemma booked_settle:
  assumes "booked d n" "r \<in> set (reservations d)" "rr_status r = ''reserved''" "distinct (map rr_id (reservations d))"
    "target \<noteq> ''reserved''"
  shows "booked (settledTo e target r d) (if n_id n = rr_node_id r then settleOn e target (rr_resources r) n else n)"
  unfolding booked_def settledTo_def
  using assms(1,3,5) dims_simps
  by (auto simp: held_status[OF assms(4,2)] booked_def settleOn_def commitOn_def releaseOn_def)

lemma settleOn_id [simp]: "n_id (settleOn e target x n) = n_id n"
  by (simp add: settleOn_def)

lemma capacityInv_settled:
  assumes inv: "capacityInv d" and r: "r \<in> set (reservations d)" "rr_status r = ''reserved''"
    and target: "target = ''committed'' \<or> target = ''released'' \<or> target = ''expired''"
    and chk: "\<forall>n\<in>set (nodes d). n_id n = rr_node_id r \<longrightarrow> nodeCheck (settleOn e target (rr_resources r) n)"
  shows "capacityInv (settledTo e target r d)"
proof -
  let ?f = "\<lambda>n. if n_id n = rr_node_id r then settleOn e target (rr_resources r) n else n"
  let ?g = "\<lambda>x. x\<lparr>rr_status := target, rr_updated_at := pgNow e\<rparr>" and ?d = "settledTo e target r d"
  have ids: "map n_id (nodes ?d) = map n_id (nodes d)" "map rr_id (reservations ?d) = map rr_id (reservations d)"
    "map rr_operation_id (reservations ?d) = map rr_operation_id (reservations d)"
    by (simp_all add: settledTo_def sqlUpdate_def)
  have img: "n_id ` set (nodes ?d) = n_id ` set (nodes d)" using ids(1) by (metis set_map)
  have "nodeCheck (?f n) \<and> booked ?d (?f n)" if "n \<in> set (nodes d)" for n
    using that inv chk booked_settle[of d n r target e] r target by (auto simp: capacityInv_def)
  then have "\<forall>m\<in>set (map ?f (nodes d)). nodeCheck m \<and> booked ?d m" by (rule ball_map)
  moreover have "nodes ?d = map ?f (nodes d)" by (simp add: settledTo_def sqlUpdate_def)
  ultimately have nodes: "\<forall>m\<in>set (nodes ?d). nodeCheck m \<and> booked ?d m" by metis
  have "reservationCheck (?g x)" if "reservationCheck x" for x using that target by (auto simp: reservationCheck_def)
  then have "\<forall>x\<in>set (reservations ?d). reservationCheck x \<and> rr_node_id x \<in> n_id ` set (nodes d)"
    using inv by (auto simp: settledTo_def set_sqlUpdate capacityInv_def)
  with nodes inv show ?thesis unfolding capacityInv_def ids img by blast
qed

text \<open>Whatever is reserved can be settled: the node's constraints cannot fail.\<close>

lemma settle_possible:
  assumes inv: "capacityInv d" and r: "r \<in> set (reservations d)" "rr_status r = ''reserved''"
    and n: "n \<in> set (nodes d)" "n_id n = rr_node_id r"
  shows "nodeCheck (settleOn e target (rr_resources r) n)"
proof -
  have ok: "nodeCheck n" "booked d n" using inv n by (auto simp: capacityInv_def)
  have nonneg: "\<forall>x\<in>set (reservations d). 0 \<le> c (rr_resources x)" if "c \<in> set dims" for c
    using inv resources_nonneg that by (auto simp: capacityInv_def)
  have le: "c (rr_resources r) \<le> c (n_reserved n)" "0 \<le> c (rr_resources r)" if "c \<in> set dims" for c
    using held_member[OF nonneg[OF that] r(1) _ r(2)] nonneg[OF that] r(1) ok(2) n(2) that by (auto simp: booked_def)
  have "0 \<le> c (n_allocated n) \<and> 0 \<le> c (n_total n) \<and> c (n_allocated n) + c (n_reserved n) \<le> c (n_total n)" if "c \<in> set dims" for c
    using ok(1) that dims_simps[OF that] by (auto simp: nodeCheck_def capLe_iff)
  with ok(1) le show ?thesis
    unfolding nodeCheck_def capLe_iff settleOn_def commitOn_def releaseOn_def
    by (cases "target = ''committed''") (fastforce simp: dims_simps)+
qed

section \<open>Every handler keeps the accounts\<close>

lemma keeps_Reserve: "keeps capacityInv (Reserve operationID request)"
proof -
  have "keeps capacityInv (in_tx (reserveTx operationID request))"
  proof (rule keeps_in_tx_commit)
    fix e w x w'
    assume inv: "capacityInv (wdb w)" and "reserveTx operationID request e w = (Inr (Commit x), w')"
    then obtain n r where "reservedOn e operationID request (wdb w) (wdb w') n r"
      by (elim reserveTx_ok) (auto simp: capacityInv_def)
    with inv show "capacityInv (wdb w')" by (rule capacityInv_reserved)
  qed
  then show ?thesis unfolding Reserve_def
    by (intro keeps_if keeps_raise keeps_bnd keeps_option keeps_ret keeps_pool qkeeps_readonly readonly_infrastructure)
qed

lemma keeps_changeStatus:
  assumes "target = ''committed'' \<or> target = ''released''"
  shows "keeps capacityInv (changeStatus i target)"
  unfolding changeStatus_def
proof (rule keeps_in_tx_commit)
  fix e w x w'
  assume inv: "capacityInv (wdb w)" and run: "changeStatusTx i target e w = (Inr (Commit x), w')"
  from inv have keys: "distinct (map rr_id (reservations (wdb w)))" by (simp add: capacityInv_def)
  from changeStatusTx_commit[OF run keys] capacityInv_settled[OF inv] assms show "capacityInv (wdb w')" by metis
qed

lemma keeps_CreateNode: "keeps capacityInv (CreateNode n)"
  unfolding CreateNode_def
proof (intro keeps_bnd keeps_pool keeps_ret)
  show "qkeeps capacityInv (CreateNode_q (Node_ID n) (Node_ProviderID n) (Node_NodeGroupID n) (Node_ProviderNodeID n)
     (Node_Name n) (Node_Region n) (Node_Status n) (Node_Total n) (Node_Weight n) (nonNilJSON (Node_Capabilities n)) (Node_LastSeenAt n))"
    (is "qkeeps _ ?q")
  proof (rule qkeepsI)
    fix e d x d'
    assume inv: "capacityInv d" and run: "?q e d = Inr (x, d')"
    from run have d': "d' = d\<lparr>nodes := nodes d @ [x]\<rparr>" and x: "nodeCheck x" "n_reserved x = capZero" "n_allocated x = capZero"
      and fresh: "n_id x \<notin> n_id ` set (nodes d)"
      by (auto simp: CreateNode_q_def Let_def insertInto_ok nodeConflict_def conflicts_def list_ex_iff)
    have "\<forall>r\<in>set (reservations d). rr_node_id r \<noteq> n_id x" using inv fresh unfolding capacityInv_def by metis
    then have "booked d' x" using x dims_simps by (auto simp: booked_def d' held_absent)
    moreover have "booked d' m" if "booked d m" for m using that by (simp add: booked_def d')
    ultimately show "capacityInv d'" using inv x fresh by (auto simp: capacityInv_def d')
  qed
qed

lemma keeps_CreateProvider: "keeps capacityInv (CreateProvider r)"
  unfolding CreateProvider_def
  by (intro keeps_bnd keeps_pool keeps_ret qkeepsI) (auto simp: CreateInfrastructureProvider_def Let_def insertInto_ok capacityInv_def booked_def)

lemma keeps_CreateNodeGroup: "keeps capacityInv (CreateNodeGroup r)"
  unfolding CreateNodeGroup_def
  by (intro keeps_bnd keeps_pool keeps_ret qkeepsI) (auto simp: CreateNodeGroup_q_def Let_def insertInto_ok capacityInv_def booked_def)

text \<open>A sequence of requests, each in its own environment.\<close>

datatype infraRequest = QProvider ProviderRecord | QGroup NodeGroup | QNode Node | QReserve uuid ScheduleRequest | QCommit uuid | QRelease uuid

definition forget :: "'a io \<Rightarrow> unit io" where "forget m = bnd m (\<lambda>_. ret ())"

primrec infra :: "infraRequest \<Rightarrow> unit io" where
  "infra (QProvider r) = forget (CreateProvider r)"
| "infra (QGroup g) = forget (CreateNodeGroup g)"
| "infra (QNode n) = forget (CreateNode n)"
| "infra (QReserve operationID request) = forget (Reserve operationID request)"
| "infra (QCommit i) = forget (CommitReservation i)"
| "infra (QRelease i) = forget (ReleaseReservation i)"

primrec infraRun :: "(env \<times> infraRequest) list \<Rightarrow> world \<Rightarrow> world" where
  "infraRun [] w = w"
| "infraRun (x # xs) w = infraRun xs (snd (infra (snd x) (fst x) w))"

lemma keeps_infra: "keeps capacityInv (infra q)"
  by (cases q) (simp_all add: forget_def keeps_bnd keeps_ret keeps_CreateProvider keeps_CreateNodeGroup keeps_CreateNode keeps_Reserve
      CommitReservation_def ReleaseReservation_def keeps_changeStatus)

lemma infraRun_inv:
  assumes "capacityInv (wdb w)" "\<forall>x\<in>set reqs. \<forall>d. capacityInv d \<longrightarrow> capacityInv (concurrent (fst x) d)"
  shows "capacityInv (wdb (infraRun reqs w))"
  using assms
proof (induction reqs arbitrary: w)
  case (Cons x xs)
  obtain r w1 where run: "infra (snd x) (fst x) w = (r, w1)" by fastforce
  have "capacityInv (wdb w1)"
    by (rule keepsD[where I = capacityInv, OF keeps_infra run]) (use Cons.prems in auto)
  with Cons.IH[of w1] Cons.prems run show ?case by simp
qed simp

section \<open>Properties\<close>

text \<open>
  C12: capacity is never promised twice. Whatever sequence of registrations, placements, commits and
  releases runs, with whatever faults, the accounts of every node agree with the reservations on
  record in every dimension, and what is reserved and committed together never exceeds the node.
\<close>

theorem no_oversubscription:
  assumes "capacityInv (wdb w)" "\<forall>x\<in>set reqs. \<forall>d. capacityInv d \<longrightarrow> capacityInv (concurrent (fst x) d)"
    and "n \<in> set (nodes (wdb (infraRun reqs w)))" "c \<in> set dims"
  shows "c (n_reserved n) = held ''reserved'' c (n_id n) (reservations (wdb (infraRun reqs w))) \<and>
    c (n_allocated n) = held ''committed'' c (n_id n) (reservations (wdb (infraRun reqs w))) \<and>
    held ''reserved'' c (n_id n) (reservations (wdb (infraRun reqs w))) +
      held ''committed'' c (n_id n) (reservations (wdb (infraRun reqs w))) \<le> c (n_total n)"
proof -
  from infraRun_inv[OF assms(1,2)] assms(3) have "nodeCheck n" "booked (wdb (infraRun reqs w)) n" by (auto simp: capacityInv_def)
  with assms(4) dims_simps[OF assms(4)] show ?thesis by (auto simp: nodeCheck_def booked_def capLe_iff)
qed

text \<open>
  C13: a placement is exact. When an operation that has no reservation gets one, the node is online, its
  provider and group are active, it offers the required capabilities and has the requested capacity
  free; no other node that qualifies would be less utilized by it (ties go to the greater weight, then
  the smaller id); the node's account grows by the request and exactly one reservation is added.
\<close>

theorem Reserve_exact:
  assumes run: "Reserve operationID request e w = (Inr v, w')" and inv: "capacityInv (wdb w)"
    and fresh: "\<forall>r\<in>set (reservations (wdb w)). rr_operation_id r \<noteq> operationID"
  shows "\<exists>n r. v = reservationFromRow r \<and> reservedOn e operationID request (wdb w) (wdb w') n r \<and>
    validCapacityRequest (sr_Resources request) \<and> 0 < sr_TTL request"
proof -
  from run obtain x w1 where tx: "in_tx (reserveTx operationID request) e w = (Inr x, w1)"
    and valid: "validCapacityRequest (sr_Resources request)" "0 < sr_TTL request"
    and rest: "(case x of Some v \<Rightarrow> ret v | None \<Rightarrow> bnd (pool (GetResourceReservationByOperation operationID))
      (\<lambda>existing. ret (reservationFromRow existing))) e w1 = (Inr v, w')"
    by (auto simp: Reserve_def raise_ok split: if_splits elim!: bndE[of "in_tx m" for m])
  have none: "one (filter (\<lambda>r. rr_operation_id r = operationID) (reservations (wdb w))) = Inl ErrNoRows"
    using fresh by (subst one_filter_Inl) simp
  have not_found: "reserveTx operationID request e u \<noteq> (Inr (Rollback (Some y)), u')" if "wdb u = wdb w" for y u u'
  proof
    assume "reserveTx operationID request e u = (Inr (Rollback (Some y)), u')"
    then show False unfolding reserveTx_def
    proof (cases rule: tryE)
      case (passed r u1)
      then show ?thesis using none that by (simp add: exec_ok GetResourceReservationByOperation_def selectOne_ok)
    next
      case (failed z u1)
      then obtain cs u2 where "(case cs of [] \<Rightarrow> raise ErrResourceExhausted | node # _ \<Rightarrow> placeReservation operationID request node) e u2 =
          (Inr (Rollback (Some y)), u')"
        by (auto simp: raise_ok split: if_splits elim!: bndE)
      then show ?thesis
        by (cases cs) (auto simp: raise_ok ret_ok placeReservation_def split: if_splits elim!: bndE[of "orNoRows a m" for a m] bndE[of newID] bndE[of "asks f" for f] tryE)
    qed
  qed
  show ?thesis
  proof (cases x)
    case (Some y)
    with tx not_found[of "tick w"] obtain w2 where "reserveTx operationID request e (tick w) = (Inr (Commit (Some y)), w2)" "wdb w1 = wdb w2"
      by (auto simp: in_tx_ok)
    moreover have "wdb w' = wdb w1" "v = y" using rest Some by (auto simp: ret_ok)
    ultimately show ?thesis using inv valid by (elim reserveTx_ok) (auto simp: capacityInv_def)
  next
    case None
    have "wdb w1 = wdb w"
      using tx None by (auto simp: in_tx_ok elim!: reserveTx_ok[of _ _ _ "tick w"] simp: inv[unfolded capacityInv_def])
    with rest None none show ?thesis by (auto simp: bnd_ok pool_ok GetResourceReservationByOperation_def selectOne_ok)
  qed
qed

lemma one_operation:
  assumes "capacityInv d" "r \<in> set (reservations d)"
  shows "one (filter (\<lambda>x. rr_operation_id x = rr_operation_id r) (reservations d)) = Inr r"
    "one (filter (\<lambda>x. rr_id x = rr_id r) (reservations d)) = Inr r"
  using assms by (auto simp: capacityInv_def intro!: one_filter_pk)

definition placement :: "uuid \<Rightarrow> ScheduleRequest \<Rightarrow> db \<Rightarrow> reservationRow \<Rightarrow> bool" where
  "placement operationID request d r \<longleftrightarrow> r \<in> set (reservations d) \<and> rr_operation_id r = operationID \<and> operationID \<noteq> uuidNil \<and>
     sr_NodeGroupID request \<noteq> uuidNil \<and> 0 < sr_TTL request \<and> validCapacityRequest (sr_Resources request)"

definition reservationView :: "db \<Rightarrow> reservationRow \<Rightarrow> Reservation \<Rightarrow> bool" where
  "reservationView d r v \<longleftrightarrow> v = reservationFromRow r"

lemma Reserve_records:
  assumes run: "Reserve operationID request e w = (Inr v, w')" and inv: "capacityInv (wdb w)" "capacityInv (wdb w')"
  shows "\<exists>r. placement operationID request (wdb w') r \<and> reservationView (wdb w') r v"
proof (cases "\<exists>r\<in>set (reservations (wdb w)). rr_operation_id r = operationID")
  case True
  then obtain r where r: "r \<in> set (reservations (wdb w))" "rr_operation_id r = operationID" by blast
  have valid: "operationID \<noteq> uuidNil" "sr_NodeGroupID request \<noteq> uuidNil" "0 < sr_TTL request" "validCapacityRequest (sr_Resources request)"
    using run by (auto simp: Reserve_def raise_ok split: if_splits)
  with run have "bnd (in_tx (reserveTx operationID request)) (\<lambda>r. case r of Some v \<Rightarrow> ret v
      | None \<Rightarrow> bnd (pool (GetResourceReservationByOperation operationID)) (\<lambda>existing. ret (reservationFromRow existing))) e w = (Inr v, w')"
    by (simp add: Reserve_def)
  then obtain x w1 where tx: "in_tx (reserveTx operationID request) e w = (Inr x, w1)" and rest: "(case x of Some v \<Rightarrow> ret v
      | None \<Rightarrow> bnd (pool (GetResourceReservationByOperation operationID)) (\<lambda>existing. ret (reservationFromRow existing))) e w1 = (Inr v, w')"
    by (rule bndE)
  from tx have ok: "faults e (Suc (wstmts w)) = NoFault"
    by (auto simp: in_tx_ok reserveTx_def exec_def raise_def bnd_def attempt_def split: fault.splits)
  have "reserveTx operationID request e (tick w) = (Inr (Rollback (Some (reservationFromRow r))), (tick (tick w))\<lparr>wdb := wdb w\<rparr>)"
    using ok one_operation(1)[OF inv(1) r(1)] r(2)
    by (simp add: reserveTx_def bnd_def attempt_def exec_def GetResourceReservationByOperation_def selectOne_def ret_def)
  with tx have "x = Some (reservationFromRow r)" "wdb w1 = wdb w" by (auto simp: in_tx_ok)
  with rest r valid show ?thesis by (auto simp: ret_ok placement_def reservationView_def)
next
  case False
  with Reserve_exact[OF run inv(1)] obtain n r where "v = reservationFromRow r" "reservedOn e operationID request (wdb w) (wdb w') n r" by blast
  moreover have "operationID \<noteq> uuidNil" "sr_NodeGroupID request \<noteq> uuidNil" "0 < sr_TTL request" "validCapacityRequest (sr_Resources request)"
    using run by (auto simp: Reserve_def raise_ok split: if_splits)
  ultimately show ?thesis by (auto simp: reservedOn_def placement_def reservationView_def)
qed

interpretation placing: retryable capacityInv "placement operationID request" reservationView "Reserve operationID request" "Reserve operationID request"
  for operationID request
proof unfold_locales
  show "keeps capacityInv (Reserve operationID request)" by (rule keeps_Reserve)
next
  fix e w v w'
  assume "Reserve operationID request e w = (Inr v, w')" "capacityInv (wdb w)" "capacityInv (wdb w')"
  then show "\<exists>r. placement operationID request (wdb w') r \<and> reservationView (wdb w') r v" by (rule Reserve_records)
next
  fix w :: world and r v and e :: env
  assume inv: "capacityInv (wdb w)" and r: "placement operationID request (wdb w) r" and v: "reservationView (wdb w) r v"
    and quiet: "\<And>n. faults e n = NoFault"
  have "one (filter (\<lambda>x. rr_operation_id x = operationID) (reservations (wdb w))) = Inr r"
    using one_operation(1)[OF inv, of r] r by (auto simp: placement_def)
  then have "reserveTx operationID request e (tick w) = (Inr (Rollback (Some v)), (tick (tick w))\<lparr>wdb := wdb w\<rparr>)"
    using quiet v by (simp add: reserveTx_def bnd_def attempt_def exec_def GetResourceReservationByOperation_def selectOne_def ret_def reservationView_def)
  then show "\<exists>w'. Reserve operationID request e w = (Inr v, w') \<and> wdb w' = wdb w"
    using r quiet by (simp add: Reserve_def placement_def bnd_def in_tx_def ret_def)
qed

text \<open>
  An operation gets one placement. Once \<open>Reserve\<close> has succeeded for an operation, asking again
  returns the same reservation and reserves nothing more.
\<close>

theorem Reserve_retry:
  assumes "capacityInv (wdb w)" "\<And>d. capacityInv d \<Longrightarrow> capacityInv (concurrent e d)"
    and "Reserve operationID request e w = (Inr v, w1)" and "\<forall>n. faults e2 n = NoFault"
  shows "\<exists>w2. Reserve operationID request e2 w1 = (Inr v, w2) \<and> wdb w2 = wdb w1"
  using placing.retry_same[OF assms(1-3)] assms(4) by blast

lemma changeStatus_runs:
  assumes inv: "capacityInv (wdb w)" and r: "r \<in> set (reservations (wdb w))" "rr_status r = ''reserved''"
    and target: "target = ''committed'' \<or> target = ''released''" and quiet: "\<forall>n. faults e n = NoFault"
  shows "\<exists>w'. changeStatus (rr_id r) target e w = (Inr (reservationFromRow (r\<lparr>rr_status := target, rr_updated_at := pgNow e\<rparr>)), w') \<and>
    wdb w' = settledTo e target r (wdb w)"
proof -
  let ?r = "r\<lparr>rr_status := target, rr_updated_at := pgNow e\<rparr>"
  define t where "t = sqlUpdate (\<lambda>n. n_id n = rr_node_id r) (settleOn e target (rr_resources r)) (nodes (wdb w))"
  from inv r(1) obtain n where n: "n \<in> set (nodes (wdb w))" "n_id n = rr_node_id r" by (fastforce simp: capacityInv_def)
  have "distinct (map n_id (nodes (wdb w)))" using inv by (simp add: capacityInv_def)
  from filter_pk[OF this n(1)] n(2) have found: "filter (\<lambda>m. n_id m = rr_node_id r) (nodes (wdb w)) = [n]" by simp
  have node: "updateReturning (nodes (wdb w)) (\<lambda>n. n_id n = rr_node_id r) (settleOn e target (rr_resources r)) nodeCheck (\<lambda>t. (wdb w)\<lparr>nodes := t\<rparr>) =
      Inr (settleOn e target (rr_resources r) n, (wdb w)\<lparr>nodes := t\<rparr>)"
    using settle_possible[OF inv r] found by (auto simp: updateReturning_def list_all_iff t_def)
  have "filter (\<lambda>x. rr_id x = rr_id r) (reservations (wdb w)) = [r]"
    using inv r(1) by (auto simp: capacityInv_def intro!: filter_pk)
  moreover have "reservationCheck (x\<lparr>rr_status := target, rr_updated_at := pgNow e\<rparr>)" if "x \<in> set (reservations (wdb w))" for x
    using inv that target by (auto simp: capacityInv_def reservationCheck_def)
  ultimately have set: "SetResourceReservationStatus (rr_id r) target e ((wdb w)\<lparr>nodes := t\<rparr>) = Inr (?r, settledTo e target r (wdb w))"
    by (auto simp: SetResourceReservationStatus_def updateReturning_def list_all_iff settledTo_def t_def)
  have neq: "target \<noteq> ''reserved''" using target by auto
  have lock: "LockResourceReservation (rr_id r) e (wdb w) = Inr (r, wdb w)"
    using one_operation(2)[OF inv r(1)] by (simp add: LockResourceReservation_def selectOne_def)
  have stmt: "exec (if target = ''committed'' then CommitNodeReservation (rr_node_id r) (rr_resources r)
        else ReleaseNodeReservation (rr_node_id r) (rr_resources r)) e u =
      (Inr (settleOn e target (rr_resources r) n), (tick u)\<lparr>wdb := (wdb w)\<lparr>nodes := t\<rparr>\<rparr>)" if "wdb u = wdb w" for u
    unfolding settle_stmt using node quiet that by (simp add: exec_def)
  have "changeStatusTx (rr_id r) target e (tick w) = (Inr (Commit (reservationFromRow ?r)),
      (tick (tick (tick (tick w))))\<lparr>wdb := settledTo e target r (wdb w)\<rparr>)"
    using quiet lock neq r(2) set
    by (simp add: changeStatusTx_def bnd_def orNoRows_def attempt_def ret_def stmt exec_def[of "LockResourceReservation i" for i]
        exec_def[of "SetResourceReservationStatus i s" for i s] tick_def)
  then show ?thesis using quiet by (simp add: changeStatus_def in_tx_def)
qed

text \<open>
  C14: a reservation can always be settled, once. Committing or releasing a reservation that is still
  reserved succeeds and moves exactly its capacity: from reserved to allocated, or back to free. Settling it
  again the same way is answered without a write; settling it the other way is refused.
\<close>

theorem reservation_settles:
  assumes inv: "capacityInv (wdb w)" and r: "r \<in> set (reservations (wdb w))" "rr_status r = ''reserved''"
    and target: "(target, other) = (''committed'', ''released'') \<or> (target, other) = (''released'', ''committed'')"
    and quiet: "\<forall>n. faults e n = NoFault"
  shows "\<exists>v w1 w2 w3. changeStatus (rr_id r) target e w = (Inr v, w1) \<and> Reservation_Status v = target \<and>
    wdb w1 = settledTo e target r (wdb w) \<and> capacityInv (wdb w1) \<and>
    changeStatus (rr_id r) target e w1 = (Inr v, w2) \<and> wdb w2 = wdb w1 \<and>
    changeStatus (rr_id r) other e w1 = (Inl ErrReservationState, w3) \<and> wdb w3 = wdb w1"
proof -
  let ?r = "r\<lparr>rr_status := target, rr_updated_at := pgNow e\<rparr>"
  have t: "target = ''committed'' \<or> target = ''released''" "target \<noteq> ''reserved''" "other \<noteq> target" using target by auto
  from changeStatus_runs[OF inv r t(1) quiet] obtain w1 where run: "changeStatus (rr_id r) target e w = (Inr (reservationFromRow ?r), w1)"
    and w1: "wdb w1 = settledTo e target r (wdb w)" by blast
  have inv1: "capacityInv (wdb w1)"
    unfolding w1 by (rule capacityInv_settled[OF inv r]) (use t(1) settle_possible[OF inv r] in blast)+
  have "?r \<in> set (reservations (wdb w1))" using r(1) by (auto simp: w1 settledTo_def set_sqlUpdate)
  from one_operation(2)[OF inv1 this] have lock: "LockResourceReservation (rr_id r) e (wdb w1) = Inr (?r, wdb w1)"
    by (simp add: LockResourceReservation_def selectOne_def)
  have "\<exists>w2. changeStatus (rr_id r) target e w1 = (Inr (reservationFromRow ?r), w2) \<and> wdb w2 = wdb w1"
    using quiet lock by (simp add: changeStatus_def in_tx_def changeStatusTx_def bnd_def orNoRows_def attempt_def ret_def exec_def)
  moreover have "\<exists>w3. changeStatus (rr_id r) other e w1 = (Inl ErrReservationState, w3) \<and> wdb w3 = wdb w1"
    using quiet lock t by (simp add: changeStatus_def in_tx_def changeStatusTx_def bnd_def orNoRows_def attempt_def ret_def raise_def exec_def)
  moreover have "Reservation_Status (reservationFromRow ?r) = target" by (simp add: reservationFromRow_def)
  ultimately show ?thesis using run w1 inv1 by blast
qed

section \<open>Witnesses\<close>

definition schedule0 :: ScheduleRequest where
  "schedule0 = \<lparr>sr_NodeGroupID = 4, sr_Resources = \<lparr>c_cpu = 100, c_memory_mb = 1024, c_disk_gb = 20, c_ipv4 = 1, c_ipv6 = 0, c_nat_port = 0\<rparr>,
     sr_RequiredCapabilities = JObj [(''create_instance'', JBool True), (''virtualization'', JArr [JStr ''kvm''])], sr_TTL = 600 * second\<rparr>"

lemma world0_node_rows: "nodes (wdb world0_node) = [node0]" "reservations (wdb world0_node) = []"
  by (simp_all add: world0_node_def db0_def emptyDb_def)

lemma world0_node_inv: "capacityInv (wdb world0_node)"
  by (simp add: capacityInv_def world0_node_rows booked_def held_def)
    (simp add: node0_def nodeCheck_def capLe_def dims_def capZero_def capAdd_def)

lemma sample_reserve: "succeeded (Reserve 5 schedule0 env0 world0_node)"
  by code_simp

theorem Reserve_exact_witness:
  "\<exists>v w' n r. Reserve 5 schedule0 env0 world0_node = (Inr v, w') \<and> reservedOn env0 5 schedule0 (wdb world0_node) (wdb w') n r"
proof -
  from sample_reserve obtain v w' where run: "Reserve 5 schedule0 env0 world0_node = (Inr v, w')" by (rule succeededE)
  from Reserve_exact[OF run world0_node_inv] run show ?thesis by (auto simp: world0_node_rows)
qed

theorem Reserve_retry_witness:
  "\<exists>v w1. Reserve 5 schedule0 env0 world0_node = (Inr v, w1) \<and>
    (\<exists>w2. Reserve 5 schedule0 env0 w1 = (Inr v, w2) \<and> wdb w2 = wdb w1)"
proof -
  from sample_reserve obtain v w1 where run: "Reserve 5 schedule0 env0 world0_node = (Inr v, w1)" by (rule succeededE)
  from Reserve_retry[OF world0_node_inv _ run, of env0] run show ?thesis by (simp add: env0_def)
qed

theorem no_oversubscription_witness:
  "held ''reserved'' c_cpu 21 (reservations (wdb (infraRun [(env0, QReserve 5 schedule0)] world0_node))) \<le> 400"
proof -
  let ?w = "infraRun [(env0, QReserve 5 schedule0)] world0_node"
  have nodes: "map n_id (nodes (wdb ?w)) = [21]" "map n_total (nodes (wdb ?w)) = [n_total node0]" by code_simp+
  then obtain n where n: "nodes (wdb ?w) = [n]" "n_id n = 21" "n_total n = n_total node0" by auto
  have "0 \<le> held ''committed'' c_cpu 21 (reservations (wdb ?w))" by code_simp
  moreover have "held ''reserved'' c_cpu (n_id n) (reservations (wdb ?w)) + held ''committed'' c_cpu (n_id n) (reservations (wdb ?w)) \<le> c_cpu (n_total n)"
    using no_oversubscription[OF world0_node_inv, of "[(env0, QReserve 5 schedule0)]" n c_cpu] n(1) by (simp add: env0_def dims_def)
  ultimately show ?thesis using n by (simp add: node0_def)
qed

definition world0_reserved :: world where
  "world0_reserved = snd (Reserve 5 schedule0 env0 world0_node)"

theorem reservation_settles_witness:
  "\<exists>(r :: reservationRow) v w1. changeStatus (rr_id r) ''committed'' env0 world0_reserved = (Inr v, w1) \<and> Reservation_Status v = ''committed''"
proof -
  have inv: "capacityInv (wdb world0_reserved)"
    using infraRun_inv[OF world0_node_inv, of "[(env0, QReserve 5 schedule0)]"] sample_reserve
    by (auto simp: world0_reserved_def env0_def forget_def bnd_def ret_def split: prod.splits sum.splits elim!: succeededE)
  have "map rr_status (reservations (wdb world0_reserved)) = [''reserved'']" by code_simp
  then obtain r where r: "r \<in> set (reservations (wdb world0_reserved))" "rr_status r = ''reserved''" by (auto simp: map_eq_Cons_conv)
  have "\<forall>n. faults env0 n = NoFault" by (simp add: env0_def)
  with reservation_settles[OF inv r, of "''committed''" "''released''" env0] show ?thesis by blast
qed

end
