(* ===== verification/Reconcile_Laws.thy ===== *)
theory Reconcile_Laws
  imports Reconcile Scheduler
begin

text \<open>
  The reconciler gives back the capacity of placements that nobody will finish, exactly once, and
  keeps the accounts of the nodes.
\<close>

section \<open>One reservation\<close>

lemma expireOne_settles:
  assumes inv: "capacityInv (wdb w)" and r: "r \<in> set (reservations (wdb w))" "rr_status r = ''reserved''"
  shows "expireOne r e w = (Inr u, w') \<Longrightarrow> wdb w' = settledTo e ''expired'' r (wdb w)"
    and "\<forall>n. faults e n = NoFault \<Longrightarrow> \<exists>w'. expireOne r e w = (Inr (), w')"
proof -
  let ?P = "\<lambda>n. n_id n = rr_node_id r"
  from inv r obtain m where m: "m \<in> set (nodes (wdb w))" "n_id m = rr_node_id r" and keys: "distinct (map n_id (nodes (wdb w)))"
    "distinct (map rr_id (reservations (wdb w)))" by (auto simp: capacityInv_def)
  have one: "length (filter ?P (nodes (wdb w))) = 1" using filter_pk[OF keys(1) m(1)] m(2) by simp
  have ok: "list_all (\<lambda>n. ?P n \<longrightarrow> nodeCheck (releaseOn e (rr_resources r) n)) (nodes (wdb w))"
    using settle_possible[OF inv r, of _ e "''expired''"] by (auto simp: list_all_iff settleOn_def)
  have give: "giveBack (rr_node_id r) (rr_resources r) e (wdb w) =
      Inr (1, (wdb w)\<lparr>nodes := sqlUpdate ?P (releaseOn e (rr_resources r)) (nodes (wdb w))\<rparr>)"
    using one ok by (simp add: giveBack_def Let_def)
  have only: "rr_id x = rr_id r \<Longrightarrow> x \<in> set (reservations (wdb w)) \<Longrightarrow> rr_status x = ''reserved''" for x
    using keys(2) r by (auto simp: distinct_map dest: inj_onD)
  have mark: "sqlUpdate (\<lambda>x. rr_id x = rr_id r \<and> rr_status x = ''reserved'') f (reservations (wdb w)) = sqlUpdate (\<lambda>x. rr_id x = rr_id r) f (reservations (wdb w))" for f
    using only by (auto simp: sqlUpdate_def)
  show "expireOne r e w = (Inr u, w') \<Longrightarrow> wdb w' = settledTo e ''expired'' r (wdb w)"
    using give mark by (auto simp: expireOne_def bnd_ok exec_ok markExpired_def settledTo_def settleOn_def)
  show "\<forall>n. faults e n = NoFault \<Longrightarrow> \<exists>w'. expireOne r e w = (Inr (), w')"
    using give by (simp add: expireOne_def bnd_def exec_def markExpired_def)
qed

section \<open>The batch\<close>

definition expireAs :: "env \<Rightarrow> reservationRow \<Rightarrow> reservationRow" where
  "expireAs e r = r\<lparr>rr_status := ''expired'', rr_updated_at := pgNow e\<rparr>"

definition openOnes :: "reservationRow list \<Rightarrow> db \<Rightarrow> bool" where
  "openOnes items d \<longleftrightarrow> set items \<subseteq> set (reservations d) \<and> distinct (map rr_id items) \<and> (\<forall>r\<in>set items. rr_status r = ''reserved'')"

definition expiredIn :: "env \<Rightarrow> reservationRow list \<Rightarrow> db \<Rightarrow> db \<Rightarrow> bool" where
  "expiredIn e items d d' \<longleftrightarrow> d' = d\<lparr>nodes := nodes d', reservations := map (\<lambda>r. if r \<in> set items then expireAs e r else r) (reservations d)\<rparr>"

lemma expired_inv:
  assumes inv: "capacityInv d" and items: "openOnes (r # rs) d"
  shows "capacityInv (settledTo e ''expired'' r d)" "openOnes rs (settledTo e ''expired'' r d)"
proof -
  from items have r: "r \<in> set (reservations d)" "rr_status r = ''reserved''" by (auto simp: openOnes_def)
  show "capacityInv (settledTo e ''expired'' r d)"
    by (rule capacityInv_settled[OF inv r]) (use settle_possible[OF inv r] in blast)+
  have "x \<in> set (reservations (settledTo e ''expired'' r d))" if "x \<in> set rs" for x
  proof -
    from items that have "x \<in> set (reservations d)" "rr_id x \<noteq> rr_id r" by (auto simp: openOnes_def image_iff eq_commute)
    then show ?thesis by (simp add: settledTo_def set_sqlUpdate)
  qed
  then show "openOnes rs (settledTo e ''expired'' r d)" using items by (auto simp: openOnes_def)
qed

lemma expiredIn_step:
  assumes inv: "capacityInv d" and items: "openOnes (r # rs) d" and rest: "expiredIn e rs (settledTo e ''expired'' r d) d'"
  shows "expiredIn e (r # rs) d d'"
proof -
  from inv have keys: "distinct (map rr_id (reservations d))" by (simp add: capacityInv_def)
  from items have r: "r \<in> set (reservations d)" and open_rs: "\<forall>x\<in>set rs. rr_status x = ''reserved''"
    by (simp_all add: openOnes_def)
  have "(if (if rr_id x = rr_id r then expireAs e x else x) \<in> set rs then expireAs e (if rr_id x = rr_id r then expireAs e x else x)
      else if rr_id x = rr_id r then expireAs e x else x) = (if x \<in> set (r # rs) then expireAs e x else x)"
    if "x \<in> set (reservations d)" for x
  proof (cases "rr_id x = rr_id r")
    case True
    with that r keys have "x = r" by (auto simp: distinct_map dest: inj_onD)
    moreover have "rr_status (expireAs e r) = ''expired''" by (simp add: expireAs_def)
    then have "expireAs e r \<notin> set rs" using open_rs by auto
    ultimately show ?thesis by simp
  qed auto
  then have "map (\<lambda>x. if x \<in> set rs then expireAs e x else x) (reservations (settledTo e ''expired'' r d)) =
      map (\<lambda>x. if x \<in> set (r # rs) then expireAs e x else x) (reservations d)"
    by (simp add: settledTo_def sqlUpdate_def flip: expireAs_def)
  with rest show ?thesis by (simp add: expiredIn_def settledTo_def)
qed

lemma expireAll:
  assumes "capacityInv (wdb w)" "openOnes items (wdb w)"
  shows "forEach expireOne items e w = (Inr u, w') \<Longrightarrow> capacityInv (wdb w') \<and> expiredIn e items (wdb w) (wdb w')"
    and "\<forall>n. faults e n = NoFault \<Longrightarrow> \<exists>w'. forEach expireOne items e w = (Inr (), w')"
  using assms
proof (induction items arbitrary: w)
  case Nil
  { case 1 then show ?case by (simp add: ret_ok expiredIn_def) }
  { case 2 then show ?case by (simp add: ret_def) }
next
  case (Cons r rs)
  { case 1
    then obtain w1 where one: "expireOne r e w = (Inr (), w1)" and rest: "forEach expireOne rs e w1 = (Inr u, w')" by (auto simp: bnd_ok)
    from 1 have r: "r \<in> set (reservations (wdb w))" "rr_status r = ''reserved''" by (auto simp: openOnes_def)
    from expireOne_settles(1)[OF 1(2) r one] have w1: "wdb w1 = settledTo e ''expired'' r (wdb w)" .
    have "capacityInv (wdb w1)" "openOnes rs (wdb w1)" using expired_inv[OF 1(2,3), of e] by (simp_all add: w1)
    from Cons.IH(1)[OF rest this] have "capacityInv (wdb w')" "expiredIn e rs (wdb w1) (wdb w')" by simp_all
    with expiredIn_step[OF 1(2,3)] w1 show ?case by simp }
  { case 2
    from 2 have r: "r \<in> set (reservations (wdb w))" "rr_status r = ''reserved''" by (auto simp: openOnes_def)
    from expireOne_settles(2)[OF 2(2) r 2(1)] obtain w1 where one: "expireOne r e w = (Inr (), w1)" by blast
    from expireOne_settles(1)[OF 2(2) r one] have w1: "wdb w1 = settledTo e ''expired'' r (wdb w)" .
    have "capacityInv (wdb w1)" "openOnes rs (wdb w1)" using expired_inv[OF 2(2,3), of e] by (simp_all add: w1)
    from Cons.IH(2)[OF 2(1) this] obtain w2 where "forEach expireOne rs e w1 = (Inr (), w2)" by blast
    with one show ?case by (simp add: bnd_def) }
qed

text \<open>Which reservations a batch takes.\<close>

definition due :: "env \<Rightarrow> time \<Rightarrow> nat \<Rightarrow> db \<Rightarrow> reservationRow list" where
  "due e now limit d = take limit (filter (\<lambda>r. \<not> pgLocked e (rr_id r))
     (sort_key rr_expires_at (filter (\<lambda>r. rr_status r = ''reserved'' \<and> rr_expires_at r \<le> now \<and>
        list_ex (\<lambda>x. op_id x = rr_operation_id r \<and> op_status x \<in> {''succeeded'', ''failed'', ''cancelled''}) (operations d))
      (reservations d))))"

lemma due_open:
  assumes "distinct (map rr_id (reservations d))"
  shows "openOnes (due e now limit d) d"
proof -
  let ?s = "filter (\<lambda>r. \<not> pgLocked e (rr_id r)) (sort_key rr_expires_at (filter (\<lambda>r. rr_status r = ''reserved'' \<and> rr_expires_at r \<le> now \<and>
        list_ex (\<lambda>x. op_id x = rr_operation_id r \<and> op_status x \<in> {''succeeded'', ''failed'', ''cancelled''}) (operations d)) (reservations d)))"
  have sub: "set (due e now limit d) \<subseteq> set ?s" unfolding due_def by (rule set_take_subset)
  then have rows: "set (due e now limit d) \<subseteq> set (reservations d)" "\<forall>r\<in>set (due e now limit d). rr_status r = ''reserved''" by auto
  moreover have "distinct (due e now limit d)" using assms by (simp add: due_def distinct_map)
  moreover have "inj_on rr_id (set (due e now limit d))" using assms rows(1) by (auto simp: distinct_map intro: inj_on_subset)
  ultimately show ?thesis by (simp add: openOnes_def distinct_map)
qed

lemma selectExpired_run: "selectExpired now limit e d = Inr (due e now limit d, d)"
  by (simp add: selectExpired_def selectMany_def due_def)

lemma keeps_expireReservations: "keeps capacityInv (expireReservations now limit)"
  unfolding expireReservations_def
proof (rule keeps_in_tx_commit)
  fix e w x w'
  assume inv: "capacityInv (wdb w)" and run: "bnd (exec (selectExpired now limit)) (\<lambda>items.
     bnd (forEach expireOne items) (\<lambda>_. ret (Commit (length items)))) e w = (Inr (Commit x), w')"
  let ?w = "(tick w)\<lparr>wdb := wdb w\<rparr>"
  from run have loop: "forEach expireOne (due e now limit (wdb w)) e ?w = (Inr (), w')"
    by (auto simp: bnd_ok exec_ok selectExpired_run ret_ok)
  have "capacityInv (wdb ?w)" using inv by simp
  moreover have "openOnes (due e now limit (wdb w)) (wdb ?w)" using due_open inv by (simp add: capacityInv_def)
  ultimately show "capacityInv (wdb w')" using expireAll(1)[OF _ _ loop] by blast
qed

text \<open>
  C30: capacity does not leak. A batch expires exactly the overdue reservations of finished operations
  (the oldest ones first, up to the batch size, those locked by others left for later) and gives their
  resources back to the nodes; afterwards every node's accounts equal the reservations on record.
\<close>

theorem expireReservations_exact:
  assumes inv: "capacityInv (wdb w)" and quiet: "\<forall>n. faults e n = NoFault"
  shows "\<exists>w'. expireReservations now limit e w = (Inr (length (due e now limit (wdb w))), w') \<and>
    capacityInv (wdb w') \<and> expiredIn e (due e now limit (wdb w)) (wdb w) (wdb w')"
proof -
  let ?items = "due e now limit (wdb w)" and ?w = "(tick (tick w))\<lparr>wdb := wdb w\<rparr>"
  have items: "openOnes ?items (wdb ?w)" using inv due_open by (simp add: capacityInv_def)
  have inv': "capacityInv (wdb ?w)" using inv by simp
  from expireAll(2)[OF inv' items quiet] obtain w2 where run: "forEach expireOne ?items e ?w = (Inr (), w2)" by blast
  from expireAll(1)[OF inv' items run] have "capacityInv (wdb w2)" "expiredIn e ?items (wdb w) (wdb w2)" by simp_all
  moreover have "expireReservations now limit e w = (Inr (length ?items), tick w2)"
    using run quiet by (simp add: expireReservations_def in_tx_def bnd_def exec_def selectExpired_run ret_def)
  ultimately show ?thesis by auto
qed

section \<open>Witness\<close>

lemma expiredIn_reservations:
  assumes "expiredIn e items d d'"
  shows "reservations d' = map (\<lambda>r. if r \<in> set items then expireAs e r else r) (reservations d)"
  using arg_cong[OF assms[unfolded expiredIn_def], of reservations] by simp

text \<open>An operation that failed left its reservation behind.\<close>

definition overdue0 :: reservationRow where
  "overdue0 = newReservation env0 40 21 5 (sr_Resources schedule0) (900 * second)"

definition world0_overdue :: world where
  "world0_overdue = world0_node\<lparr>wdb := (wdb world0_node)\<lparr>nodes := [node0\<lparr>n_reserved := sr_Resources schedule0\<rparr>], reservations := [overdue0],
     operations := [operation0\<lparr>op_status := ''failed''\<rparr>]\<rparr>\<rparr>"

theorem expireReservations_exact_witness:
  "\<exists>w'. expireReservations (1000 * second) 100 env0 world0_overdue = (Inr 1, w') \<and> capacityInv (wdb w') \<and>
     map rr_status (reservations (wdb w')) = [''expired'']"
proof -
  let ?due = "due env0 (1000 * second) 100 (wdb world0_overdue)"
  have inv: "capacityInv (wdb world0_overdue)"
    by (simp add: capacityInv_def world0_overdue_def world0_node_def db0_def emptyDb_def booked_def held_def)
      (simp add: node0_def nodeCheck_def capLe_def dims_def capZero_def capAdd_def schedule0_def overdue0_def newReservation_def reservationCheck_def)
  have due: "?due = [overdue0]" by code_simp
  have "reservations (wdb world0_overdue) = [overdue0]" by (simp add: world0_overdue_def)
  with expireReservations_exact[OF inv, of env0 "1000 * second" 100] due show ?thesis
    by (auto dest!: expiredIn_reservations simp: expireAs_def)
qed
end
