(* ===== verification/Provision_Safety.thy ===== *)
theory Provision_Safety
  imports Provision Operation_Laws Scheduler
begin

text \<open>
  Provisioning drives operations, the scheduler and a provider. The locale \<open>provisioning\<close> extends the
  contract of the operation store by what the scheduler and the other tables contribute; whatever
  satisfies it is kept by every provisioning handler, for all providers.
\<close>

section \<open>Providers\<close>

text \<open>A transaction whose first part is consistent only as a whole.\<close>

lemma keeps_tx_bnd:
  assumes "\<And>e w x w'. I (wdb w) \<Longrightarrow> m e w = (Inr x, w') \<Longrightarrow> I (wdb w')" "\<And>x. keeps I (f x)"
  shows "keeps I (in_tx (bnd m f))"
  unfolding keeps_def
proof (intro allI impI)
  fix e w r w'
  assume I: "\<forall>d. I d \<longrightarrow> I (concurrent e d)" "I (wdb w)" and run: "in_tx (bnd m f) e w = (r, w')"
  from in_tx_atomic[OF run] show "I (wdb w')"
  proof
    assume "\<exists>x w2. bnd m f e (tick w) = (Inr (Commit x), w2) \<and> wdb w' = wdb w2"
    then obtain x w2 y w1 where "m e (tick w) = (Inr y, w1)" "f y e w1 = (Inr (Commit x), w2)" "wdb w' = wdb w2"
      by (auto elim!: bndE)
    then show ?thesis using I assms(1)[of "tick w" e y w1] keepsD[OF assms(2), of y e w1] by auto
  qed (use I in simp)
qed

section \<open>The contract\<close>

locale provisioning = operation_store I for I +
  assumes tables_kept: "I d \<Longrightarrow> I (d\<lparr>subscriptions := ss\<rparr>)" "I d \<Longrightarrow> I (d\<lparr>instances := is\<rparr>)"
      "I d \<Longrightarrow> I (d\<lparr>orders := os\<rparr>)" "I d \<Longrightarrow> I (d\<lparr>notifications := ns\<rparr>)"
      "I d \<Longrightarrow> I (d\<lparr>fleet := fl\<rparr>)"
    and reserve_kept: "keeps I (Reserve operationID request)"
    and release_kept: "keeps I (ReleaseReservation reservationID)"
    and commit_kept: "I (wdb w) \<Longrightarrow> commitPlacement reservationID e w = (Inr u, w') \<Longrightarrow> I (wdb w')"
begin

lemma qkeeps_tables:
  "qkeeps I (CreatePurchaseSubscription a1 a2 a3 a4 a5 a6 a7 a8)"
  "qkeeps I (CreatePendingInstance b1 b2 b3 b4)"
  "qkeeps I (MarkOrderFulfilling c1)"
  "qkeeps I (SetInstancePlacement f1 f2 f3)"
  "qkeeps I (SetInstanceProviderResult g1 g2 g3 g4 g5)"
  "qkeeps I (SetInstanceProvisionError h1)"
  "qkeeps I (ActivateProvisionedSubscription j1 j2)"
  "qkeeps I (MarkPurchaseOrderFulfilledIfReady k1)"
  "qkeeps I (CreateProvisionNotification l1 l2 l3)"
proof -
  show "qkeeps I (CreatePurchaseSubscription a1 a2 a3 a4 a5 a6 a7 a8)"
    by (rule qkeepsI) (auto simp: CreatePurchaseSubscription_def Let_def insertInto_ok intro: tables_kept split: if_splits list.splits)
  show "qkeeps I (CreatePendingInstance b1 b2 b3 b4)"
    by (rule qkeepsI) (auto simp: CreatePendingInstance_def Let_def insertInto_ok intro: tables_kept split: list.splits)
  show "qkeeps I (MarkOrderFulfilling c1)"
    by (rule qkeepsI) (auto simp: MarkOrderFulfilling_def intro: tables_kept)
  show "qkeeps I (SetInstancePlacement f1 f2 f3)"
    by (rule qkeepsI) (auto simp: SetInstancePlacement_def intro: tables_kept dest!: updateInstances_ok split: if_splits)
  show "qkeeps I (SetInstanceProviderResult g1 g2 g3 g4 g5)"
    by (rule qkeepsI) (auto simp: SetInstanceProviderResult_def intro: tables_kept dest!: updateInstances_ok)
  show "qkeeps I (SetInstanceProvisionError h1)"
    by (rule qkeepsI) (auto simp: SetInstanceProvisionError_def intro: tables_kept dest!: updateInstances_ok)
  show "qkeeps I (ActivateProvisionedSubscription j1 j2)"
    by (rule qkeepsI) (auto simp: ActivateProvisionedSubscription_def updateReturning_ok intro: tables_kept)
  show "qkeeps I (MarkPurchaseOrderFulfilledIfReady k1)"
    by (rule qkeepsI) (auto simp: MarkPurchaseOrderFulfilledIfReady_def intro: tables_kept split: if_splits)
  show "qkeeps I (CreateProvisionNotification l1 l2 l3)"
    by (rule qkeepsI) (auto simp: CreateProvisionNotification_def Let_def insertInto_ok intro: tables_kept split: if_splits)
qed

lemma keeps_prod: "(\<And>a b. keeps I (f a b)) \<Longrightarrow> keeps I (case p of (a, b) \<Rightarrow> f a b)"
  by (cases p) simp

lemma keeps_domainEvent: "keeps I (createDomainEvent a b c f)"
  unfolding createDomainEvent_def by (intro keeps_bnd keeps_newID keeps_asks keeps_exec qkeeps_writes)

lemma keeps_provisionItem: "keeps I (provisionItem orderID traceID purchase index)"
  unfolding provisionItem_def provisionItemSteps_def provisionOperationEvent_def
  by (intro keeps_bnd keeps_asks keeps_prod keeps_exec keeps_attempt keeps_sum keeps_ret keeps_if keeps_raise keeps_forEach
      keeps_domainEvent qkeeps_tables qkeeps_writes qkeeps_readonly readonly_operation)

lemma keeps_EnsureForPaidOrder: "keeps I (EnsureForPaidOrder orderID traceID)"
  unfolding EnsureForPaidOrder_def ensureTx_def
  by (intro keeps_tx keeps_bnd keeps_orNoRows keeps_exec keeps_if keeps_raise keeps_ret keeps_forEach keeps_provisionItem
      qkeeps_tables qkeeps_readonly readonly_provision)

lemma keeps_Finalize: "keeps I (Finalize current place)"
  unfolding Finalize_def finalizeTx_def activate_def
proof (rule keeps_tx_bnd)
  show "I (wdb w) \<Longrightarrow> commitPlacement (Placement_ReservationID place) e w = (Inr x, w') \<Longrightarrow> I (wdb w')" for e w x w'
    by (rule commit_kept)
qed (intro keeps_bnd keeps_if keeps_exec keeps_asks keeps_prod keeps_domainEvent keeps_ret qkeeps_tables)

lemma keeps_ignore: "keeps I m \<Longrightarrow> keeps I (ignore m)"
  unfolding ignore_def by (intro keeps_bnd keeps_attempt keeps_ret)

lemma keeps_orWorkflow: "keeps I m \<Longrightarrow> keeps I (orWorkflow code b m)"
  unfolding orWorkflow_def by (intro keeps_bnd keeps_attempt keeps_sum keeps_raise keeps_ret)

lemma keeps_step: "keeps I (StepUpdate x key st pr ec er out)" "keeps I (stepDone x key out)" "keeps I (stepRunning x key pr)"
  unfolding stepDone_def stepRunning_def StepUpdate_def by (intro keeps_bnd keeps_asks keeps_UpdateStep)+

lemma keeps_Progress: "keeps I (Progress x st ph pr mk)"
  unfolding Progress_def by (rule keeps_UpdateProgress)

lemma keeps_handleProviderError: "keeps I (handleProviderError current reservationID x)"
proof -
  have "keeps I (SetError i)" for i unfolding SetError_def by (intro keeps_pool qkeeps_tables)
  then show ?thesis unfolding handleProviderError_def
    by (cases x) (auto intro!: keeps_bnd keeps_if keeps_ignore release_kept keeps_ret keeps_raise)
qed

lemma keeps_orProvider: "keeps I m \<Longrightarrow> keeps I (orProvider current reservationID m)"
  unfolding orProvider_def by (intro keeps_bnd keeps_attempt keeps_sum keeps_handleProviderError keeps_ret)

lemma keeps_reserveStep: "keeps I (reserveStep x current)"
  unfolding reserveStep_def uuidOut_def
  by (intro keeps_bnd keeps_attempt reserve_kept keeps_sum keeps_if keeps_ignore keeps_Progress keeps_raise keeps_asks keeps_step keeps_ret)

lemma keeps_createOnProvider:
  assumes "\<And>r. keeps I (CreateInstance ad r)" "\<And>r. keeps I (GetInstance ad r)"
  shows "keeps I (createOnProvider ad x current place i)"
  unfolding createOnProvider_def
  by (intro keeps_bnd keeps_Progress keeps_step keeps_asks keeps_orProvider assms)

lemma keeps_persistAndFinalize: "keeps I (persistAndFinalize x current place inst)"
proof -
  have "keeps I (SetProviderResult a b c d f)" for a b c d f
    unfolding SetProviderResult_def by (intro keeps_bnd keeps_asks keeps_prod keeps_pool qkeeps_tables)
  then show ?thesis unfolding persistAndFinalize_def uuidOut_def
    by (intro keeps_bnd keeps_step keeps_if keeps_ignore keeps_Progress keeps_raise keeps_orWorkflow keeps_Finalize keeps_asks)
qed

lemma keeps_ProvisionExecute:
  assumes "remoteResolver resolve"
  shows "keeps I (ProvisionExecute resolve x)"
proof -
  have "keeps I (ProvisionContext i)" for i
    unfolding ProvisionContext_def
    by (intro keeps_bnd keeps_pool qkeeps_readonly readonly_provision) (auto split: option.splits intro: keeps_ret keeps_raise)
  moreover have "keeps I (ProvisionPlacement i)" for i
    unfolding ProvisionPlacement_def by (intro keeps_bnd keeps_orNoRows keeps_pool qkeeps_readonly readonly_provision keeps_ret)
  moreover have "keeps I (SetPlacement i p)" for i p
    unfolding SetPlacement_def by (intro keeps_pool qkeeps_tables)
  moreover have "keeps I (bnd (orWorkflow code b (resolve i)) (\<lambda>ad. bnd (createOnProvider ad x current place j) (persistAndFinalize x current place)))"
    for code b i current place j
  proof (rule keeps_bnd_result)
    show "keeps I (orWorkflow code b (resolve i))"
      using assms by (intro keeps_orWorkflow keeps_remote tables_kept) (simp add: remoteResolver_def)
  next
    fix ad e w w'
    assume "orWorkflow code b (resolve i) e w = (Inr ad, w')"
    then have "resolve i e w = (Inr ad, w')"
      by (auto simp: orWorkflow_def raise_ok ret_ok elim!: tryE)
    with assms have "\<And>r. keeps I (CreateInstance ad r)" "\<And>r. keeps I (GetInstance ad r)"
      unfolding remoteResolver_def remoteAdapter_def by (blast intro: keeps_remote tables_kept)+
    then show "keeps I (bnd (createOnProvider ad x current place j) (persistAndFinalize x current place))"
      by (intro keeps_bnd keeps_createOnProvider keeps_persistAndFinalize)
  qed
  ultimately show ?thesis unfolding ProvisionExecute_def uuidOut_def
    by (intro keeps_bnd[of I "orWorkflow c b (ProvisionContext i)" for c b i] keeps_bnd[of I "Progress a b c d f" for a b c d f]
        keeps_bnd[of I "asks f" for f] keeps_bnd[of I "stepDone a b c" for a b c] keeps_bnd[of I "stepRunning a b c" for a b c]
        keeps_bnd[of I "reserveStep a b" for a b] keeps_bnd[of I "orWorkflow c b (ProvisionPlacement i)" for c b i]
        keeps_bnd[of I "orWorkflow c b (SetPlacement i p)" for c b i p] keeps_orWorkflow keeps_Progress keeps_asks keeps_step keeps_reserveStep)
qed

lemma keeps_triggerProcess: "keeps I (triggerProcess m idText)"
  unfolding triggerProcess_def
  by (cases m) (auto intro!: keeps_if keeps_ret keeps_bnd keeps_asks keeps_ofResult keeps_raise keeps_attempt keeps_sum keeps_EnsureForPaidOrder)

end

section \<open>Interpretations\<close>

lemma qkeeps_ignored:
  assumes "\<And>e d x d'. q e d = Inr (x, d') \<Longrightarrow> operations d' = operations d" "\<And>d d'. operations d' = operations d \<Longrightarrow> I d \<Longrightarrow> I d'"
  shows "qkeeps I q"
  using assms by (auto intro: qkeepsI)

lemma keeps_scheduler:
  assumes I: "\<And>d d'. operations d' = operations d \<Longrightarrow> I d \<Longrightarrow> I d'"
  shows "keeps I (Reserve operationID request)" "keeps I (changeStatus i target)" "keeps I (commitPlacement i)"
proof -
  have q: "qkeeps I (AddNodeReservation n c)" "qkeeps I (CommitNodeReservation n c)" "qkeeps I (ReleaseNodeReservation n c)"
    "qkeeps I (CreateResourceReservation a n b c t)" "qkeeps I (SetResourceReservationStatus a s)" for n c a b t s
    by (rule qkeeps_ignored[OF _ I]; auto simp: AddNodeReservation_def CommitNodeReservation_def ReleaseNodeReservation_def
        CreateResourceReservation_def SetResourceReservationStatus_def Let_def insertInto_ok updateReturning_ok)+
  have cand: "keeps I (case cs of [] \<Rightarrow> raise ErrResourceExhausted | node # _ \<Rightarrow> placeReservation operationID request node)" for cs
    by (cases cs) (auto simp: placeReservation_def intro!: keeps_raise keeps_bnd keeps_orNoRows keeps_exec q keeps_newID keeps_asks
        keeps_attempt keeps_sum keeps_if keeps_ret)
  show "keeps I (Reserve operationID request)"
    unfolding Reserve_def reserveTx_def
    by (intro keeps_if keeps_raise keeps_bnd keeps_tx keeps_attempt keeps_exec keeps_sum keeps_option keeps_ret keeps_pool cand
        qkeeps_readonly readonly_infrastructure)
  show "keeps I (changeStatus i target)"
    unfolding changeStatus_def changeStatusTx_def
    by (intro keeps_tx keeps_bnd keeps_orNoRows keeps_exec keeps_if keeps_ret keeps_raise)
      (auto intro: q qkeeps_readonly readonly_infrastructure)
  show "keeps I (commitPlacement i)"
    unfolding commitPlacement_def
    by (intro keeps_bnd keeps_exec keeps_if keeps_ret keeps_raise) (auto intro: q qkeeps_readonly readonly_infrastructure)
qed

lemma commitPlacement_operations:
  "commitPlacement i e w = (Inr u, w') \<Longrightarrow> operations (wdb w') = operations (wdb w)"
  unfolding commitPlacement_def
  by (auto elim!: bndE simp: exec_ok LockResourceReservation_def selectOne_ok ret_ok raise_ok CommitNodeReservation_def
      SetResourceReservationStatus_def updateReturning_ok split: if_splits)

interpretation constraints: provisioning operationsInv
proof unfold_locales
  show "commitPlacement i e w = (Inr u, w') \<Longrightarrow> operationsInv (wdb w) \<Longrightarrow> operationsInv (wdb w')" for i e w u w'
    by (simp add: operationsInv_def commitPlacement_operations)
qed (auto simp: operationsInv_def ReleaseReservation_def intro!: keeps_scheduler)

interpretation history: provisioning "evolves d0"
  for d0
proof unfold_locales
  show "commitPlacement i e w = (Inr u, w') \<Longrightarrow> evolves d0 (wdb w) \<Longrightarrow> evolves d0 (wdb w')" for i e w u w'
    by (blast intro: evolves_same commitPlacement_operations)
qed (auto simp: ReleaseReservation_def intro!: keeps_scheduler elim: evolves_same[rotated])

text \<open>The accounts of the nodes: within \<open>Finalize\<close>, node and reservation are settled together.\<close>

lemma commitPlacement_settles:
  assumes inv: "capacityInv (wdb w)" and run: "commitPlacement i e w = (Inr u, w')"
  shows "(\<exists>r\<in>set (reservations (wdb w)). rr_id r = i \<and> (rr_status r = ''committed'' \<and> wdb w' = wdb w \<or>
    rr_status r = ''reserved'' \<and> wdb w' = settledTo e ''committed'' r (wdb w)))"
proof -
  from run obtain r w1 where lock: "exec (LockResourceReservation i) e w = (Inr r, w1)"
    and rest: "(if rr_status r = ''reserved'' then
       bnd (exec (CommitNodeReservation (rr_node_id r) (rr_resources r))) (\<lambda>_.
       bnd (exec (SetResourceReservationStatus (rr_id r) ''committed'')) (\<lambda>_. ret ()))
     else if rr_status r \<noteq> ''committed'' then raise (ErrOther (''reservation is '' @ rr_status r))
     else ret ()) e w1 = (Inr u, w')"
    unfolding commitPlacement_def by (elim bndE) blast
  from lock have r: "r \<in> set (reservations (wdb w))" "rr_id r = i" and w1: "wdb w1 = wdb w"
    by (auto simp: exec_ok LockResourceReservation_def selectOne_ok dest: one_filter_Inr)
  have "rr_status r = ''committed'' \<and> wdb w' = wdb w \<or> rr_status r = ''reserved'' \<and> wdb w' = settledTo e ''committed'' r (wdb w)"
  proof (cases "rr_status r = ''reserved''")
    case True
    with rest w1 show ?thesis
      by (auto elim!: bndE simp: exec_ok ret_ok CommitNodeReservation_def SetResourceReservationStatus_def updateReturning_ok settledTo_def settleOn_def)
  next
    case False
    with rest w1 show ?thesis by (auto simp: ret_ok raise_ok split: if_splits)
  qed
  with r show ?thesis by blast
qed

interpretation accounts: provisioning capacityInv
proof unfold_locales
  show "keeps capacityInv (Reserve operationID request)" for operationID request by (rule keeps_Reserve)
  show "keeps capacityInv (ReleaseReservation i)" for i unfolding ReleaseReservation_def by (rule keeps_changeStatus) simp
  show "commitPlacement i e w = (Inr u, w') \<Longrightarrow> capacityInv (wdb w) \<Longrightarrow> capacityInv (wdb w')" for i e w u w'
  proof -
    assume inv: "capacityInv (wdb w)" and "commitPlacement i e w = (Inr u, w')"
    from commitPlacement_settles[OF this] obtain r where r: "r \<in> set (reservations (wdb w))"
      and "wdb w' = wdb w \<or> rr_status r = ''reserved'' \<and> wdb w' = settledTo e ''committed'' r (wdb w)" by blast
    then show "capacityInv (wdb w')"
      using inv capacityInv_settled[OF inv r, of "''committed''" e] settle_possible[OF inv r] by auto
  qed
qed (auto simp: capacityInv_def booked_def)

end
