(* ===== verification/Provision_Laws.thy ===== *)
theory Provision_Laws
  imports Provision_Safety
begin

text \<open>
  What provisioning does: every purchased unit gets exactly one subscription, one instance and one
  operation however often the trigger fires; finalizing commits the placement and activates the
  subscription in one transaction.
\<close>

section \<open>One unit\<close>

definition itemDone :: "env \<Rightarrow> uuid \<Rightarrow> int \<Rightarrow> db \<Rightarrow> bool" where
  "itemDone e orderID index d \<longleftrightarrow>
     (\<exists>s rest. filter (\<lambda>s. sourceKey s = Some (orderID, index)) (subscriptions d) = s # rest \<and>
        (\<exists>i\<in>set (instances d). i_subscription_id i = s_id s)) \<and>
     (\<exists>x\<in>set (operations d). op_idempotency_key x = provisionKey e orderID index)"

text \<open>What the loop may add.\<close>

definition extends :: "uuid \<Rightarrow> int \<Rightarrow> db \<Rightarrow> db \<Rightarrow> bool" where
  "extends orderID quantity d d' \<longleftrightarrow> (\<exists>ss is xs ts evs.
     d' = d\<lparr>subscriptions := subscriptions d @ ss, instances := instances d @ is, operations := operations d @ xs,
       operation_steps := operation_steps d @ ts, outbox_events := outbox_events d @ evs\<rparr> \<and>
     (\<forall>s\<in>set ss. \<exists>n. sourceKey s = Some (orderID, n) \<and> 1 \<le> n \<and> n \<le> quantity) \<and>
     (uniq sourceKey (subscriptions d) \<longrightarrow> uniq sourceKey (subscriptions d @ ss)))"

lemma extends_refl: "extends orderID q d d"
  unfolding extends_def by (intro exI[of _ "[]"]) simp

lemma extends_trans:
  assumes "extends orderID q d0 d1" "extends orderID q d1 d2"
  shows "extends orderID q d0 d2"
proof -
  from assms(1) obtain ss "is" xs ts evs where d1: "d1 = d0\<lparr>subscriptions := subscriptions d0 @ ss, instances := instances d0 @ is,
      operations := operations d0 @ xs, operation_steps := operation_steps d0 @ ts, outbox_events := outbox_events d0 @ evs\<rparr>"
    "\<forall>s\<in>set ss. \<exists>n. sourceKey s = Some (orderID, n) \<and> 1 \<le> n \<and> n \<le> q" "uniq sourceKey (subscriptions d0) \<longrightarrow> uniq sourceKey (subscriptions d0 @ ss)"
    unfolding extends_def by blast
  from assms(2) obtain ss2 is2 xs2 ts2 evs2 where d2: "d2 = d1\<lparr>subscriptions := subscriptions d1 @ ss2, instances := instances d1 @ is2,
      operations := operations d1 @ xs2, operation_steps := operation_steps d1 @ ts2, outbox_events := outbox_events d1 @ evs2\<rparr>"
    "\<forall>s\<in>set ss2. \<exists>n. sourceKey s = Some (orderID, n) \<and> 1 \<le> n \<and> n \<le> q" "uniq sourceKey (subscriptions d1) \<longrightarrow> uniq sourceKey (subscriptions d1 @ ss2)"
    unfolding extends_def by blast
  show ?thesis
    unfolding extends_def
    by (intro exI[of _ "ss @ ss2"] exI[of _ "is @ is2"] exI[of _ "xs @ xs2"] exI[of _ "ts @ ts2"] exI[of _ "evs @ evs2"])
      (use d1 d2 in auto)
qed

lemma extends_rows:
  assumes "extends orderID q d d'"
  obtains ss "is" xs where "subscriptions d' = subscriptions d @ ss" "instances d' = instances d @ is" "operations d' = operations d @ xs"
  using assms unfolding extends_def by auto

lemma itemDone_extends:
  assumes "itemDone e orderID n d" and ext: "extends orderID2 q d d'"
  shows "itemDone e orderID n d'"
proof -
  from assms(1) obtain s rest i x where "filter (\<lambda>s. sourceKey s = Some (orderID, n)) (subscriptions d) = s # rest"
    "i \<in> set (instances d)" "i_subscription_id i = s_id s" "x \<in> set (operations d)" "op_idempotency_key x = provisionKey e orderID n"
    unfolding itemDone_def by blast
  with ext show ?thesis unfolding itemDone_def by (elim extends_rows) auto
qed

lemma createDomainEvent_ok:
  assumes "createDomainEvent t a i f e w = (Inr u, w')"
  shows "\<exists>ev. wdb w' = (wdb w)\<lparr>outbox_events := outbox_events (wdb w) @ [ev]\<rparr> \<and> ob_event_type ev = t \<and> ob_aggregate_id ev = i \<and> ob_status ev = ''pending''"
proof -
  let ?ev = "newOutboxEvent e (freshID e (wids w)) t a i (envelope e (freshID e (wids w)) t (goNow e) a i (f e))"
  from assms have "wdb w' = (wdb w)\<lparr>outbox_events := outbox_events (wdb w) @ [?ev]\<rparr>"
    by (auto simp: createDomainEvent_def bnd_ok newID_ok asks_ok exec_ok CreateOutboxEvent_def Let_def insertInto_ok)
  then show ?thesis by (intro exI[of _ ?ev]) (simp add: newOutboxEvent_def)
qed

lemma provisionItemSteps_ok:
  assumes "provisionItemSteps orderID index row e w = (Inr u, w')"
  shows "\<exists>ts. wdb w' = (wdb w)\<lparr>operation_steps := operation_steps (wdb w) @ ts\<rparr> \<and> map st_step_key ts = provisionSteps \<and>
    (\<forall>t\<in>set ts. st_operation_id t = op_id row)"
proof -
  let ?f = "\<lambda>(n, key). bnd (asks (\<lambda>e. deterministicID e (''step:'' @ key) orderID index)) (\<lambda>stepID.
     bnd (exec (CreateOperationStep stepID (op_id row) key (int n + 1))) (\<lambda>_. ret ()))"
  have "\<exists>ts. wdb w' = (wdb w)\<lparr>operation_steps := operation_steps (wdb w) @ ts\<rparr> \<and> map st_step_key ts = map snd xs \<and>
      (\<forall>t\<in>set ts. st_operation_id t = op_id row)" if "forEach ?f xs e w = (Inr u, w')" for xs w
    using that
  proof (induction xs arbitrary: w)
    case Nil
    then show ?case by (intro exI[of _ "[]"]) (simp add: ret_ok)
  next
    case (Cons x xs)
    then obtain w1 where one: "?f x e w = (Inr (), w1)" and rest: "forEach ?f xs e w1 = (Inr u, w')" by (auto simp: bnd_ok)
    from one obtain t where t: "wdb w1 = (wdb w)\<lparr>operation_steps := operation_steps (wdb w) @ [t]\<rparr>" "st_step_key t = snd x" "st_operation_id t = op_id row"
      by (cases x) (auto simp: bnd_ok asks_ok exec_ok ret_ok CreateOperationStep_def Let_def insertInto_ok)
    from Cons.IH[OF rest] obtain ts where "wdb w' = (wdb w1)\<lparr>operation_steps := operation_steps (wdb w1) @ ts\<rparr>"
      "map st_step_key ts = map snd xs" "\<forall>t\<in>set ts. st_operation_id t = op_id row" by blast
    with t show ?case by (intro exI[of _ "t # ts"]) simp
  qed
  from this[OF assms[unfolded provisionItemSteps_def]] show ?thesis by simp
qed

lemma CreatePurchaseSubscription_ok:
  assumes "CreatePurchaseSubscription rowID userID planID cyc price cur orderID n e d = Inr (s, d')"
  shows "sourceKey s = Some (orderID, n) \<and> (\<exists>ss. d' = d\<lparr>subscriptions := subscriptions d @ ss\<rparr> \<and>
    (ss = [] \<or> ss = [s] \<and> s = newSubscription e rowID userID planID cyc price cur orderID n \<and>
      filter (\<lambda>s. sourceKey s = Some (orderID, n)) (subscriptions d) = []) \<and>
    (\<exists>rest. filter (\<lambda>s. sourceKey s = Some (orderID, n)) (subscriptions d') = s # rest)) \<and>
    subscriptionCheck (newSubscription e rowID userID planID cyc price cur orderID n)"
proof (cases "filter (\<lambda>s. sourceKey s = Some (orderID, n)) (subscriptions d)")
  case Nil
  with assms show ?thesis
    by (auto simp: CreatePurchaseSubscription_def Let_def insertInto_ok newSubscription_def sourceKey_def split: if_splits)
next
  case (Cons s2 rest)
  then have "sourceKey s2 = Some (orderID, n)" by (auto simp: filter_eq_Cons_iff)
  with Cons assms show ?thesis
    by (auto simp: CreatePurchaseSubscription_def Let_def split: if_splits intro!: exI[of _ "[]"])
qed

lemma CreatePendingInstance_ok:
  assumes "CreatePendingInstance rowID subID name plan e d = Inr (i, d')"
  shows "i_subscription_id i = subID \<and> i \<in> set (instances d') \<and> (\<exists>is. d' = d\<lparr>instances := instances d @ is\<rparr> \<and>
    (is = [] \<or> is = [i] \<and> subID \<notin> i_subscription_id ` set (instances d)))"
proof (cases "filter (\<lambda>i. i_subscription_id i = subID) (instances d)")
  case Nil
  with assms show ?thesis by (auto simp: CreatePendingInstance_def Let_def insertInto_ok newInstance_def filter_empty_conv)
next
  case (Cons i2 rest)
  then have "i_subscription_id i2 = subID" "i2 \<in> set (instances d)" by (auto simp: filter_eq_Cons_iff)
  with Cons assms show ?thesis by (auto simp: CreatePendingInstance_def intro!: exI[of _ "[]"])
qed

text \<open>The subscription an item asks for.\<close>

definition wanted :: "env \<Rightarrow> uuid \<Rightarrow> purchaseRow \<Rightarrow> int \<Rightarrow> subscriptionRow" where
  "wanted e orderID purchase index = newSubscription e (deterministicID e ''subscription'' orderID index) (pp_user_id purchase)
     (plan_id (pp_plan purchase)) (plan_billing_cycle (pp_plan purchase)) (plan_price_minor (pp_plan purchase))
     (plan_currency (pp_plan purchase)) orderID index"

text \<open>The operation part of an item: found, or created with its steps and its event.\<close>

lemma provisionOperation_ok:
  assumes "bnd (attempt (exec (GetOperationByIdempotency key))) (\<lambda>found. case found of
      Inr _ \<Rightarrow> ret ()
    | Inl x \<Rightarrow> if x \<noteq> ErrNoRows then raise x
        else bnd (exec (CreateOperation operationID ''provision'' ''instance'' i mk key 5 traceID u None)) (\<lambda>row.
          bnd (provisionItemSteps orderID index row) (\<lambda>_. provisionOperationEvent row))) e w = (Inr v, w')"
  shows "(\<exists>x\<in>set (operations (wdb w')). op_idempotency_key x = key) \<and> (\<exists>xs ts evs. wdb w' = (wdb w)\<lparr>operations := operations (wdb w) @ xs,
    operation_steps := operation_steps (wdb w) @ ts, outbox_events := outbox_events (wdb w) @ evs\<rparr> \<and>
    (xs = [] \<or> (\<exists>x. xs = [x] \<and> op_idempotency_key x = key \<and> key \<notin> op_idempotency_key ` set (operations (wdb w)) \<and>
      op_type x = ''provision'' \<and> op_resource_type x = ''instance'' \<and> op_resource_id x = i)))"
  using assms
proof (cases rule: tryE)
  case (passed x w1)
  then show ?thesis by (auto simp: exec_ok GetOperationByIdempotency_def selectOne_ok ret_ok dest!: one_filter_Inr intro!: exI[of _ "[]"])
next
  case (failed x w1)
  from failed(1) have w1: "wdb w1 = wdb w" by (auto simp: exec_def split: fault.splits sum.splits)
  from failed(2) have "x = ErrNoRows" by (auto simp: raise_ok split: if_splits)
  with failed(2) obtain row w2 w3 where c: "exec (CreateOperation operationID ''provision'' ''instance'' i mk key 5 traceID u None) e w1 = (Inr row, w2)"
    and st: "provisionItemSteps orderID index row e w2 = (Inr (), w3)" and ev: "provisionOperationEvent row e w3 = (Inr v, w')"
    by (auto simp: bnd_ok)
  from c have w2: "wdb w2 = (wdb w)\<lparr>operations := operations (wdb w) @ [row]\<rparr>" and row: "op_idempotency_key row = key"
    "op_type row = ''provision''" "op_resource_type row = ''instance''" "op_resource_id row = i"
    and new: "\<not> operationConflict (operations (wdb w)) row"
    by (auto simp: exec_ok CreateOperation_def Let_def insertInto_ok newOperation_def w1)
  from provisionItemSteps_ok[OF st] obtain ts where w3: "wdb w3 = (wdb w2)\<lparr>operation_steps := operation_steps (wdb w2) @ ts\<rparr>" by blast
  from createDomainEvent_ok[OF ev[unfolded provisionOperationEvent_def]] obtain evt where
    "wdb w' = (wdb w3)\<lparr>outbox_events := outbox_events (wdb w3) @ [evt]\<rparr>" by blast
  with w2 w3 have w': "wdb w' = (wdb w)\<lparr>operations := operations (wdb w) @ [row], operation_steps := operation_steps (wdb w) @ ts,
    outbox_events := outbox_events (wdb w) @ [evt]\<rparr>" by simp
  moreover have "key \<notin> op_idempotency_key ` set (operations (wdb w))" using operationConflictD[OF new] row(1) by simp
  ultimately show ?thesis using row by (intro conjI bexI[of _ row] exI[of _ "[row]"] exI[of _ ts] exI[of _ "[evt]"]) simp_all
qed

text \<open>The units of an order, as far as they are there: their keys, and what their operations work on.\<close>

definition unitsInv :: "env \<Rightarrow> uuid \<Rightarrow> db \<Rightarrow> bool" where
  "unitsInv e orderID d \<longleftrightarrow> uniq sourceKey (subscriptions d) \<and> distinct (map i_subscription_id (instances d)) \<and>
     distinct (map op_idempotency_key (operations d)) \<and>
     (\<forall>x\<in>set (operations d). \<forall>k\<ge>1. op_idempotency_key x = provisionKey e orderID k \<longrightarrow>
        op_type x = ''provision'' \<and> op_resource_type x = ''instance'' \<and>
        (\<exists>s\<in>set (subscriptions d). \<exists>i\<in>set (instances d). sourceKey s = Some (orderID, k) \<and>
           i_subscription_id i = s_id s \<and> op_resource_id x = i_id i))"

lemma provisionKey_inj: "provisionKey e orderID j = provisionKey e orderID k \<Longrightarrow> 1 \<le> j \<Longrightarrow> 1 \<le> k \<Longrightarrow> j = k"
  by (auto simp: provisionKey_def itoa_def dest!: digits_inj)

lemma unitsInv_step:
  assumes d': "subscriptions d' = subscriptions d @ ss" "instances d' = instances d @ is" "operations d' = operations d @ xs"
    and ss: "ss = [] \<or> ss = [s] \<and> filter (\<lambda>s. sourceKey s = Some (orderID, k)) (subscriptions d) = []"
    and "is": "is = [] \<or> is = [i] \<and> s_id s \<notin> i_subscription_id ` set (instances d)"
    and xs: "xs = [] \<or> (\<exists>x. xs = [x] \<and> op_idempotency_key x = provisionKey e orderID k \<and>
      provisionKey e orderID k \<notin> op_idempotency_key ` set (operations d) \<and>
      op_type x = ''provision'' \<and> op_resource_type x = ''instance'' \<and> op_resource_id x = i_id i)"
    and s: "s \<in> set (subscriptions d')" "sourceKey s = Some (orderID, k)" and i: "i \<in> set (instances d')" "i_subscription_id i = s_id s"
    and k: "1 \<le> k" and inv: "unitsInv e orderID d"
  shows "unitsInv e orderID d'"
proof -
  let ?works = "\<lambda>d x j. op_type x = ''provision'' \<and> op_resource_type x = ''instance'' \<and>
    (\<exists>s\<in>set (subscriptions d). \<exists>i\<in>set (instances d). sourceKey s = Some (orderID, j) \<and> i_subscription_id i = s_id s \<and> op_resource_id x = i_id i)"
  have "uniq sourceKey (subscriptions d')"
    using inv ss s(2) by (auto simp: d' unitsInv_def uniq_append1 conflicts_def list_ex_iff filter_empty_conv)
  moreover have "distinct (map i_subscription_id (instances d'))" using inv "is" i(2) by (auto simp: d' unitsInv_def image_iff)
  moreover have "distinct (map op_idempotency_key (operations d'))" using inv xs by (auto simp: d' unitsInv_def image_iff)
  moreover have "?works d' x j" if x: "x \<in> set (operations d')" and j: "1 \<le> j" "op_idempotency_key x = provisionKey e orderID j" for x j
  proof (cases "x \<in> set (operations d)")
    case True
    with inv j have "?works d x j" unfolding unitsInv_def by blast
    then show ?thesis by (auto simp: d')
  next
    case False
    with x xs have "xs = [x]" "op_idempotency_key x = provisionKey e orderID k" by (auto simp: d')
    moreover from this j k have "j = k" using provisionKey_inj by metis
    ultimately show ?thesis using xs s i by auto
  qed
  ultimately show ?thesis unfolding unitsInv_def by blast
qed

lemma provisionItem_ok:
  assumes run: "provisionItem orderID traceID purchase index e w = (Inr u, w')" and index: "1 \<le> index" "index \<le> q"
  shows "extends orderID q (wdb w) (wdb w') \<and> itemDone e orderID index (wdb w') \<and> subscriptionCheck (wanted e orderID purchase index) \<and>
    (unitsInv e orderID (wdb w) \<longrightarrow> unitsInv e orderID (wdb w')) \<and>
    set (subscriptions (wdb w')) \<subseteq> insert (wanted e orderID purchase index) (set (subscriptions (wdb w)))"
proof -
  from run obtain sub w1 inst w2 where
    a: "exec (CreatePurchaseSubscription (deterministicID e ''subscription'' orderID index) (pp_user_id purchase) (plan_id (pp_plan purchase))
        (plan_billing_cycle (pp_plan purchase)) (plan_price_minor (pp_plan purchase)) (plan_currency (pp_plan purchase)) orderID index) e w = (Inr sub, w1)"
    and b: "exec (CreatePendingInstance (deterministicID e ''instance'' orderID index) (s_id sub)
        (''vps-'' @ take 8 (uuidString e orderID) @ ''-'' @ itoa index) (pp_plan purchase)) e w1 = (Inr inst, w2)"
    and c: "bnd (attempt (exec (GetOperationByIdempotency (provisionKey e orderID index)))) (\<lambda>found. case found of
      Inr _ \<Rightarrow> ret ()
    | Inl x \<Rightarrow> if x \<noteq> ErrNoRows then raise x
        else bnd (exec (CreateOperation (deterministicID e ''operation'' orderID index) ''provision'' ''instance'' (i_id inst) (text_of ''operation.queued'')
            (provisionKey e orderID index) 5 traceID (Some (pp_user_id purchase)) None)) (\<lambda>row.
          bnd (provisionItemSteps orderID index row) (\<lambda>_. provisionOperationEvent row))) e w2 = (Inr u, w')"
    unfolding provisionItem_def
    by (elim bndE[of "asks f" for f]) (auto simp only: asks_ok prod.case elim!: bndE[of "exec q" for q])
  from a have q: "CreatePurchaseSubscription (deterministicID e ''subscription'' orderID index) (pp_user_id purchase) (plan_id (pp_plan purchase))
        (plan_billing_cycle (pp_plan purchase)) (plan_price_minor (pp_plan purchase)) (plan_currency (pp_plan purchase)) orderID index e (wdb w) = Inr (sub, wdb w1)"
    by (auto simp: exec_ok)
  from CreatePurchaseSubscription_ok[OF q] obtain ss rest where key: "sourceKey sub = Some (orderID, index)"
    and w1: "wdb w1 = (wdb w)\<lparr>subscriptions := subscriptions (wdb w) @ ss\<rparr>"
    and ss: "ss = [] \<or> ss = [sub] \<and> sub = wanted e orderID purchase index \<and> filter (\<lambda>s. sourceKey s = Some (orderID, index)) (subscriptions (wdb w)) = []"
    and first: "filter (\<lambda>s. sourceKey s = Some (orderID, index)) (subscriptions (wdb w1)) = sub # rest"
    and chk: "subscriptionCheck (wanted e orderID purchase index)" unfolding wanted_def by blast
  from b obtain d2 where "CreatePendingInstance (deterministicID e ''instance'' orderID index) (s_id sub)
        (''vps-'' @ take 8 (uuidString e orderID) @ ''-'' @ itoa index) (pp_plan purchase) e (wdb w1) = Inr (inst, d2)" "wdb w2 = d2"
    by (auto simp: exec_ok)
  from CreatePendingInstance_ok[OF this(1)] this(2) obtain "is" where inst: "i_subscription_id inst = s_id sub" "inst \<in> set (instances (wdb w2))"
    and w2: "wdb w2 = (wdb w1)\<lparr>instances := instances (wdb w1) @ is\<rparr>"
    and "is": "is = [] \<or> is = [inst] \<and> s_id sub \<notin> i_subscription_id ` set (instances (wdb w1))" by auto
  from provisionOperation_ok[OF c] obtain xs ts evs where opn: "\<exists>x\<in>set (operations (wdb w')). op_idempotency_key x = provisionKey e orderID index"
    and w': "wdb w' = (wdb w2)\<lparr>operations := operations (wdb w2) @ xs, operation_steps := operation_steps (wdb w2) @ ts,
      outbox_events := outbox_events (wdb w2) @ evs\<rparr>"
    and xs: "xs = [] \<or> (\<exists>x. xs = [x] \<and> op_idempotency_key x = provisionKey e orderID index \<and>
      provisionKey e orderID index \<notin> op_idempotency_key ` set (operations (wdb w2)) \<and>
      op_type x = ''provision'' \<and> op_resource_type x = ''instance'' \<and> op_resource_id x = i_id inst)" by blast
  have "sub \<in> set (subscriptions (wdb w'))" using arg_cong[OF first, of set] by (auto simp: w' w2)
  then have units: "unitsInv e orderID (wdb w) \<longrightarrow> unitsInv e orderID (wdb w')"
  proof (intro impI)
    assume "unitsInv e orderID (wdb w)"
    then show "unitsInv e orderID (wdb w')"
      by (rule unitsInv_step[where d' = "wdb w'" and d = "wdb w" and s = sub and i = inst and k = index, rotated -1])
        (use ss "is" xs inst key index(1) \<open>sub \<in> set (subscriptions (wdb w'))\<close> in \<open>auto simp: w' w2 w1\<close>)
  qed
  have "uniq sourceKey (subscriptions (wdb w)) \<longrightarrow> uniq sourceKey (subscriptions (wdb w) @ ss)"
    using ss key by (auto simp: uniq_append1 conflicts_def list_ex_iff filter_empty_conv)
  moreover have "\<forall>s\<in>set ss. \<exists>n. sourceKey s = Some (orderID, n) \<and> 1 \<le> n \<and> n \<le> q" using ss key index by auto
  ultimately have "extends orderID q (wdb w) (wdb w')"
    unfolding extends_def
    by (intro exI[of _ ss] exI[of _ "is"] exI[of _ xs] exI[of _ ts] exI[of _ evs]) (simp add: w' w2 w1)
  moreover have "itemDone e orderID index (wdb w')"
    using first inst opn by (auto simp: itemDone_def w' w2)
  moreover have "set (subscriptions (wdb w')) \<subseteq> insert (wanted e orderID purchase index) (set (subscriptions (wdb w)))"
    using ss by (auto simp: w' w2 w1)
  ultimately show ?thesis using chk units by blast
qed

lemma provisionItems_ok:
  assumes "forEach (provisionItem orderID traceID purchase) ns e w = (Inr u, w')" "\<forall>n\<in>set ns. 1 \<le> n \<and> n \<le> q"
  shows "extends orderID q (wdb w) (wdb w') \<and>
    (\<forall>n\<in>set ns. itemDone e orderID n (wdb w') \<and> subscriptionCheck (wanted e orderID purchase n)) \<and>
    (unitsInv e orderID (wdb w) \<longrightarrow> unitsInv e orderID (wdb w')) \<and>
    set (subscriptions (wdb w')) \<subseteq> set (subscriptions (wdb w)) \<union> wanted e orderID purchase ` set ns"
  using assms
proof (induction ns arbitrary: w)
  case Nil
  then show ?case by (simp add: ret_ok extends_refl)
next
  case (Cons n ns)
  then obtain w1 where one: "provisionItem orderID traceID purchase n e w = (Inr (), w1)"
    and rest: "forEach (provisionItem orderID traceID purchase) ns e w1 = (Inr u, w')" by (auto simp: bnd_ok)
  have a: "extends orderID q (wdb w) (wdb w1) \<and> itemDone e orderID n (wdb w1) \<and> subscriptionCheck (wanted e orderID purchase n) \<and>
    (unitsInv e orderID (wdb w) \<longrightarrow> unitsInv e orderID (wdb w1)) \<and>
    set (subscriptions (wdb w1)) \<subseteq> insert (wanted e orderID purchase n) (set (subscriptions (wdb w)))"
    by (rule provisionItem_ok[OF one]) (use Cons.prems(2) in auto)
  have b: "extends orderID q (wdb w1) (wdb w')" "\<forall>n\<in>set ns. itemDone e orderID n (wdb w') \<and> subscriptionCheck (wanted e orderID purchase n)"
    "unitsInv e orderID (wdb w1) \<longrightarrow> unitsInv e orderID (wdb w')"
    "set (subscriptions (wdb w')) \<subseteq> set (subscriptions (wdb w1)) \<union> wanted e orderID purchase ` set ns"
    using Cons.IH[OF rest] Cons.prems(2) by auto
  from a b(1) have "itemDone e orderID n (wdb w')" by (blast intro: itemDone_extends)
  with a b show ?case by (auto intro: extends_trans)
qed

section \<open>One order\<close>

definition purchasesOf :: "uuid \<Rightarrow> db \<Rightarrow> purchaseRow list" where
  "purchasesOf orderID d = [\<lparr>pp_user_id = o_user_id r, pp_quantity = oi_quantity item, pp_plan = q\<rparr>.
     r \<leftarrow> orders d, o_id r = orderID \<and> o_kind r = ''purchase'' \<and> o_status r \<in> {''paid'', ''fulfilling'', ''fulfilled''},
     item \<leftarrow> order_items d, oi_order_id item = o_id r, q \<leftarrow> plans d, plan_id q = oi_plan_id item]"

definition fulfilling :: "env \<Rightarrow> uuid \<Rightarrow> db \<Rightarrow> db" where
  "fulfilling e orderID d = d\<lparr>orders := sqlUpdate (\<lambda>r. o_id r = orderID \<and> o_status r = ''paid'')
     (\<lambda>r. r\<lparr>o_status := ''fulfilling'', o_updated_at := pgNow e\<rparr>) (orders d)\<rparr>"

lemma purchasesOf_fulfilling: "purchasesOf orderID (fulfilling e orderID d) = purchasesOf orderID d"
proof -
  define g where "g r = (if o_id r = orderID \<and> o_kind r = ''purchase'' \<and> o_status r \<in> {''paid'', ''fulfilling'', ''fulfilled''}
    then [\<lparr>pp_user_id = o_user_id r, pp_quantity = oi_quantity item, pp_plan = q\<rparr>.
      item \<leftarrow> order_items d, oi_order_id item = o_id r, q \<leftarrow> plans d, plan_id q = oi_plan_id item] else [])" for r :: orderRow
  have p: "purchasesOf orderID d' = concat (map g (orders d'))" if "order_items d' = order_items d" "plans d' = plans d" for d'
    unfolding purchasesOf_def g_def that ..
  have "map g (sqlUpdate (\<lambda>r. o_id r = orderID \<and> o_status r = ''paid'') (\<lambda>r. r\<lparr>o_status := ''fulfilling'', o_updated_at := pgNow e\<rparr>) (orders d)) =
    map g (orders d)"
    by (rule map_sqlUpdate) (simp add: g_def cong: if_cong)
  then show ?thesis by (simp add: p fulfilling_def)
qed

lemma purchasesOf_extends: "extends orderID2 q d d' \<Longrightarrow> purchasesOf orderID d' = purchasesOf orderID d"
  unfolding extends_def by (elim exE conjE) (simp add: purchasesOf_def cong: if_cong)

lemma Ensure_ok:
  assumes "EnsureForPaidOrder orderID traceID e w = (Inr n, w')"
  obtains purchase d1 where "one (purchasesOf orderID (wdb w)) = Inr purchase" "n = pp_quantity purchase"
    "plan_node_group_id (pp_plan purchase) \<noteq> None" "extends orderID n (wdb w) d1" "wdb w' = fulfilling e orderID d1"
    "\<forall>k. 1 \<le> k \<and> k \<le> n \<longrightarrow> itemDone e orderID k d1 \<and> subscriptionCheck (wanted e orderID purchase k)"
    "unitsInv e orderID (wdb w) \<longrightarrow> unitsInv e orderID d1"
    "set (subscriptions d1) \<subseteq> set (subscriptions (wdb w)) \<union> wanted e orderID purchase ` set [1..n]"
proof -
  have no_rollback: "ensureTx orderID traceID e u \<noteq> (Inr (Rollback x), u')" for u u' x
    by (auto simp: ensureTx_def raise_ok ret_ok split: if_splits elim!: bndE)
  with assms obtain w2 where "ensureTx orderID traceID e (tick w) = (Inr (Commit n), w2)" and w': "wdb w' = wdb w2"
    by (auto simp: EnsureForPaidOrder_def in_tx_ok)
  then obtain purchase w3 w4 where get: "exec (GetPaidPurchaseForProvision orderID) e (tick w) = (Inr purchase, w3)"
    and ng: "plan_node_group_id (pp_plan purchase) \<noteq> None"
    and each: "forEach (provisionItem orderID traceID purchase) [1..pp_quantity purchase] e w3 = (Inr (), w4)"
    and mark: "exec (MarkOrderFulfilling orderID) e w4 = (Inr (), w2)" and n: "n = pp_quantity purchase"
    unfolding ensureTx_def by (auto simp: orNoRows_ok bnd_ok raise_ok ret_ok split: if_splits)
  from get have w3: "wdb w3 = wdb w" and one: "one (purchasesOf orderID (wdb w)) = Inr purchase"
    by (auto simp: exec_ok GetPaidPurchaseForProvision_def selectOne_ok purchasesOf_def)
  have w2: "wdb w2 = fulfilling e orderID (wdb w4)" using mark by (auto simp: exec_ok MarkOrderFulfilling_def fulfilling_def)
  from provisionItems_ok[OF each, of n] n w3 have "extends orderID n (wdb w) (wdb w4)"
    "\<forall>k. 1 \<le> k \<and> k \<le> n \<longrightarrow> itemDone e orderID k (wdb w4) \<and> subscriptionCheck (wanted e orderID purchase k)"
    "unitsInv e orderID (wdb w) \<longrightarrow> unitsInv e orderID (wdb w4)"
    "set (subscriptions (wdb w4)) \<subseteq> set (subscriptions (wdb w)) \<union> wanted e orderID purchase ` set [1..n]" by auto
  with one n ng w2 w' show thesis by (intro that[of purchase "wdb w4"]) auto
qed

lemma uniq_filter: "uniq k t \<Longrightarrow> filter (\<lambda>r. k r = Some v) t = [] \<or> (\<exists>x. filter (\<lambda>r. k r = Some v) t = [x])"
proof (induction t)
  case (Cons x t)
  then show ?case by (cases "k x = Some v") (auto simp: uniq_Cons filter_empty_conv)
qed simp

lemma itemDone_fulfilling: "itemDone e orderID k d \<Longrightarrow> itemDone e orderID k (fulfilling e2 orderID d)"
  by (simp add: itemDone_def fulfilling_def)

lemma fulfilling_not_paid:
  assumes "r \<in> set (orders (fulfilling e orderID d))" "o_id r = orderID"
  shows "o_status r \<noteq> ''paid''"
proof -
  from assms(1) have "r \<in> set (sqlUpdate (\<lambda>r. o_id r = orderID \<and> o_status r = ''paid'')
     (\<lambda>r. r\<lparr>o_status := ''fulfilling'', o_updated_at := pgNow e\<rparr>) (orders d))" by (simp add: fulfilling_def)
  then show ?thesis by (rule in_sqlUpdateE) (use assms(2) in simp_all)
qed

lemma uniq_one: "uniq k t \<Longrightarrow> x \<in> set t \<Longrightarrow> k x = Some v \<Longrightarrow> filter (\<lambda>r. k r = Some v) t = [x]"
proof -
  assume "uniq k t" "x \<in> set t" "k x = Some v"
  then have "x \<in> set (filter (\<lambda>r. k r = Some v) t)" "filter (\<lambda>r. k r = Some v) t = [] \<or> (\<exists>y. filter (\<lambda>r. k r = Some v) t = [y])"
    using uniq_filter[of k t v] by simp_all
  then show "filter (\<lambda>r. k r = Some v) t = [x]" by (metis empty_iff empty_set set_ConsD)
qed

lemma purchasesOf_rows:
  assumes "one (purchasesOf orderID d) = Inr purchase"
  shows "\<exists>r\<in>set (orders d). \<exists>item\<in>set (order_items d). o_id r = orderID \<and> o_kind r = ''purchase'' \<and>
    o_status r \<in> {''paid'', ''fulfilling'', ''fulfilled''} \<and> oi_order_id item = orderID \<and> oi_quantity item = pp_quantity purchase \<and>
    pp_user_id purchase = o_user_id r \<and> pp_plan purchase \<in> set (plans d) \<and> plan_id (pp_plan purchase) = oi_plan_id item"
proof -
  from assms have "purchase \<in> set (purchasesOf orderID d)" by (auto simp: one_def split: list.splits)
  then show ?thesis by (fastforce simp: purchasesOf_def split: if_splits)
qed

lemma unit_exact:
  assumes inv: "unitsInv e orderID d" and item: "itemDone e orderID k d" and k: "1 \<le> k"
  shows "\<exists>s i x. filter (\<lambda>s. sourceKey s = Some (orderID, k)) (subscriptions d) = [s] \<and>
    filter (\<lambda>i. i_subscription_id i = s_id s) (instances d) = [i] \<and>
    filter (\<lambda>x. op_idempotency_key x = provisionKey e orderID k) (operations d) = [x] \<and>
    op_type x = ''provision'' \<and> op_resource_type x = ''instance'' \<and> op_resource_id x = i_id i"
proof -
  from item obtain x where x: "x \<in> set (operations d)" "op_idempotency_key x = provisionKey e orderID k" by (auto simp: itemDone_def)
  with inv k obtain s i where s: "s \<in> set (subscriptions d)" "sourceKey s = Some (orderID, k)"
    and i: "i \<in> set (instances d)" "i_subscription_id i = s_id s"
    and link: "op_type x = ''provision''" "op_resource_type x = ''instance''" "op_resource_id x = i_id i"
    unfolding unitsInv_def by blast
  have "filter (\<lambda>i. i_subscription_id i = s_id s) (instances d) = [i]"
    "filter (\<lambda>x. op_idempotency_key x = provisionKey e orderID k) (operations d) = [x]"
    using filter_pk[of i_subscription_id "instances d" i] filter_pk[of op_idempotency_key "operations d" x] inv i x by (auto simp: unitsInv_def)
  with uniq_one[of sourceKey "subscriptions d" s] inv s link show ?thesis by (auto simp: unitsInv_def)
qed

text \<open>
  C22: every purchased unit is provisioned exactly once. Provisioning succeeds only for a paid purchase
  whose plan has a node group, and answers the quantity of its order item. Then for each unit from one to
  that quantity the order has exactly one subscription, that subscription has exactly one instance, and
  there is exactly one operation under the unit's key, which provisions exactly that instance; there are no
  other subscriptions of the order. New subscriptions belong to the buyer, are for the plan
  at its price, and wait for activation; the order is no longer merely paid. What earlier
  attempts left behind (\<open>unitsInv\<close>) is kept in shape.
\<close>

theorem EnsureForPaidOrder_exact:
  assumes run: "EnsureForPaidOrder orderID traceID e w = (Inr n, w')" and inv: "unitsInv e orderID (wdb w)"
    and before: "\<forall>s\<in>set (subscriptions (wdb w)). \<forall>k. sourceKey s = Some (orderID, k) \<longrightarrow> 1 \<le> k \<and> k \<le> n"
  shows "\<exists>r\<in>set (orders (wdb w)). \<exists>item\<in>set (order_items (wdb w)). \<exists>q\<in>set (plans (wdb w)).
    o_id r = orderID \<and> o_kind r = ''purchase'' \<and> o_status r \<in> {''paid'', ''fulfilling'', ''fulfilled''} \<and>
    oi_order_id item = orderID \<and> oi_plan_id item = plan_id q \<and> plan_node_group_id q \<noteq> None \<and> n = oi_quantity item \<and>
    (\<forall>k. 1 \<le> k \<and> k \<le> n \<longrightarrow> (\<exists>s i x. filter (\<lambda>s. sourceKey s = Some (orderID, k)) (subscriptions (wdb w')) = [s] \<and>
        filter (\<lambda>i. i_subscription_id i = s_id s) (instances (wdb w')) = [i] \<and>
        filter (\<lambda>x. op_idempotency_key x = provisionKey e orderID k) (operations (wdb w')) = [x] \<and>
        op_type x = ''provision'' \<and> op_resource_type x = ''instance'' \<and> op_resource_id x = i_id i)) \<and>
    (\<forall>s\<in>set (subscriptions (wdb w')). \<forall>k. sourceKey s = Some (orderID, k) \<longrightarrow> 1 \<le> k \<and> k \<le> n) \<and>
    (\<forall>s\<in>set (subscriptions (wdb w')) - set (subscriptions (wdb w)). s_source_order_id s = Some orderID \<and> s_user_id s = o_user_id r \<and>
        s_plan_id s = plan_id q \<and> s_price_minor s = plan_price_minor q \<and> s_currency s = plan_currency q \<and> s_status s = ''pending'') \<and>
    (\<forall>r\<in>set (orders (wdb w')). o_id r = orderID \<longrightarrow> o_status r \<noteq> ''paid'') \<and> unitsInv e orderID (wdb w')"
proof -
  from run obtain purchase d1 where one: "one (purchasesOf orderID (wdb w)) = Inr purchase" and n: "n = pp_quantity purchase"
    and ng: "plan_node_group_id (pp_plan purchase) \<noteq> None" and ext: "extends orderID n (wdb w) d1" and w': "wdb w' = fulfilling e orderID d1"
    and items: "\<forall>k. 1 \<le> k \<and> k \<le> n \<longrightarrow> itemDone e orderID k d1 \<and> subscriptionCheck (wanted e orderID purchase k)"
    and units: "unitsInv e orderID d1"
    and news: "set (subscriptions d1) \<subseteq> set (subscriptions (wdb w)) \<union> wanted e orderID purchase ` set [1..n]"
    by (rule Ensure_ok) (use inv in simp)
  from purchasesOf_rows[OF one] obtain r item where r: "r \<in> set (orders (wdb w))" "item \<in> set (order_items (wdb w))"
      "pp_plan purchase \<in> set (plans (wdb w))" "o_id r = orderID" "o_kind r = ''purchase''" "o_status r \<in> {''paid'', ''fulfilling'', ''fulfilled''}"
      "oi_order_id item = orderID" "oi_plan_id item = plan_id (pp_plan purchase)" "n = oi_quantity item" and u: "pp_user_id purchase = o_user_id r"
    unfolding n by fastforce
  have rows: "subscriptions (wdb w') = subscriptions d1" "instances (wdb w') = instances d1" "operations (wdb w') = operations d1"
    by (simp_all add: w' fulfilling_def)
  have "\<forall>s\<in>set (subscriptions d1) - set (subscriptions (wdb w)). s_source_order_id s = Some orderID \<and> s_user_id s = o_user_id r \<and>
      s_plan_id s = plan_id (pp_plan purchase) \<and> s_price_minor s = plan_price_minor (pp_plan purchase) \<and>
      s_currency s = plan_currency (pp_plan purchase) \<and> s_status s = ''pending''"
    using news by (auto simp: wanted_def newSubscription_def u)
  moreover have "\<forall>s\<in>set (subscriptions d1). \<forall>k. sourceKey s = Some (orderID, k) \<longrightarrow> 1 \<le> k \<and> k \<le> n"
  proof -
    from ext obtain ss where "subscriptions d1 = subscriptions (wdb w) @ ss"
      "\<forall>s\<in>set ss. \<exists>k. sourceKey s = Some (orderID, k) \<and> 1 \<le> k \<and> k \<le> n" unfolding extends_def by auto
    with before show ?thesis by fastforce
  qed
  moreover have "\<forall>r\<in>set (orders (wdb w')). o_id r = orderID \<longrightarrow> o_status r \<noteq> ''paid''"
    unfolding w' by (blast dest: fulfilling_not_paid)
  moreover have "unitsInv e orderID (wdb w')" using units by (simp add: unitsInv_def rows)
  ultimately show ?thesis
    by (intro bexI[of _ r] bexI[of _ item] bexI[of _ "pp_plan purchase"] conjI r ng) (use unit_exact[OF units] items in \<open>simp_all add: rows\<close>)
qed

section \<open>Firing again\<close>

lemma wanted_check: "subscriptionCheck (wanted e orderID purchase k) = subscriptionCheck (wanted e2 orderID purchase k)"
  by (simp add: subscriptionCheck_def wanted_def newSubscription_def)

lemma exec_returns: "faults e (wstmts w) = NoFault \<Longrightarrow> q e (wdb w) = Inr (x, d) \<Longrightarrow> exec q e w = (Inr x, (tick w)\<lparr>wdb := d\<rparr>)"
  by (simp add: exec_def)

lemma provisionItem_again:
  assumes items: "itemDone e orderID k (wdb w)" and chk: "subscriptionCheck (wanted e orderID purchase k)"
    and quiet: "\<forall>n. faults e2 n = NoFault" and same: "uuidString e2 = uuidString e"
  shows "\<exists>w'. provisionItem orderID traceID purchase k e2 w = (Inr (), w') \<and> wdb w' = wdb w"
proof -
  from items obtain s rest i is2 x where s: "filter (\<lambda>s. sourceKey s = Some (orderID, k)) (subscriptions (wdb w)) = s # rest"
    and i: "filter (\<lambda>i. i_subscription_id i = s_id s) (instances (wdb w)) = i # is2"
    and x: "one (filter (\<lambda>x. op_idempotency_key x = provisionKey e2 orderID k) (operations (wdb w))) = Inr x"
  proof -
    have "provisionKey e2 orderID k = provisionKey e orderID k" by (simp add: provisionKey_def same)
    moreover assume a: "\<And>s rest i is2 x. filter (\<lambda>s. sourceKey s = Some (orderID, k)) (subscriptions (wdb w)) = s # rest \<Longrightarrow>
      filter (\<lambda>i. i_subscription_id i = s_id s) (instances (wdb w)) = i # is2 \<Longrightarrow>
      one (filter (\<lambda>x. op_idempotency_key x = provisionKey e2 orderID k) (operations (wdb w))) = Inr x \<Longrightarrow> thesis"
    have cons: "\<exists>y ys. filter P t = y # ys" if "\<exists>z\<in>set t. P z" for P and t :: "'b list"
      using that by (cases "filter P t") (auto simp: filter_empty_conv)
    from items obtain s rest where s: "filter (\<lambda>s. sourceKey s = Some (orderID, k)) (subscriptions (wdb w)) = s # rest"
      "\<exists>i\<in>set (instances (wdb w)). i_subscription_id i = s_id s" "\<exists>x\<in>set (operations (wdb w)). op_idempotency_key x = provisionKey e orderID k"
      unfolding itemDone_def by blast
    ultimately show thesis using a[OF s(1)] cons[OF s(2)] cons[OF s(3)] by (auto simp: one_def)
  qed
  have "exec (CreatePurchaseSubscription (deterministicID e2 ''subscription'' orderID k) (pp_user_id purchase) (plan_id (pp_plan purchase))
      (plan_billing_cycle (pp_plan purchase)) (plan_price_minor (pp_plan purchase)) (plan_currency (pp_plan purchase)) orderID k) e2 w = (Inr s, (tick w)\<lparr>wdb := wdb w\<rparr>)"
    using quiet chk wanted_check[of e orderID purchase k e2] s by (intro exec_returns) (auto simp: CreatePurchaseSubscription_def Let_def wanted_def)
  moreover have "exec (CreatePendingInstance j (s_id s) name (pp_plan purchase)) e2 u = (Inr i, (tick u)\<lparr>wdb := wdb w\<rparr>)" if "wdb u = wdb w" for j name u
    using quiet i that by (intro exec_returns) (auto simp: CreatePendingInstance_def)
  moreover have "exec (GetOperationByIdempotency (provisionKey e2 orderID k)) e2 u = (Inr x, (tick u)\<lparr>wdb := wdb w\<rparr>)" if "wdb u = wdb w" for u
    using quiet x that by (intro exec_returns) (auto simp: GetOperationByIdempotency_def selectOne_def)
  ultimately show ?thesis
    by (simp add: provisionItem_def bnd_def asks_def attempt_def ret_def)
qed

lemma provisionItems_again:
  assumes "\<forall>k\<in>set ks. itemDone e orderID k (wdb w) \<and> subscriptionCheck (wanted e orderID purchase k)"
    and quiet: "\<forall>n. faults e2 n = NoFault" and same: "uuidString e2 = uuidString e"
  shows "\<exists>w'. forEach (provisionItem orderID traceID purchase) ks e2 w = (Inr (), w') \<and> wdb w' = wdb w"
  using assms(1)
proof (induction ks arbitrary: w)
  case (Cons k ks)
  from Cons.prems provisionItem_again[OF _ _ quiet same, of orderID k w purchase traceID] obtain w1 where
    "provisionItem orderID traceID purchase k e2 w = (Inr (), w1)" "wdb w1 = wdb w" by auto
  with Cons.IH[of w1] Cons.prems show ?case by (auto simp: bnd_def)
qed (simp add: ret_def)

text \<open>
  C23: the trigger may fire any number of times. Once a paid order has been provisioned, another message
  for the same payment finds everything in place and writes nothing.
\<close>

theorem EnsureForPaidOrder_again:
  assumes run: "EnsureForPaidOrder orderID traceID e w = (Inr n, w1)"
    and quiet: "\<forall>n. faults e2 n = NoFault" and same: "uuidString e2 = uuidString e"
  shows "\<exists>w2. EnsureForPaidOrder orderID traceID2 e2 w1 = (Inr n, w2) \<and> wdb w2 = wdb w1"
proof -
  from run obtain purchase d1 where one: "one (purchasesOf orderID (wdb w)) = Inr purchase" and n: "n = pp_quantity purchase"
    and ng: "plan_node_group_id (pp_plan purchase) \<noteq> None" and ext: "extends orderID n (wdb w) d1" and w1: "wdb w1 = fulfilling e orderID d1"
    and items: "\<forall>k. 1 \<le> k \<and> k \<le> n \<longrightarrow> itemDone e orderID k d1 \<and> subscriptionCheck (wanted e orderID purchase k)" by (rule Ensure_ok)
  have "one (purchasesOf orderID (wdb w1)) = Inr purchase"
    using one by (simp add: w1 purchasesOf_fulfilling purchasesOf_extends[OF ext])
  then have get: "exec (GetPaidPurchaseForProvision orderID) e2 (tick w1) = (Inr purchase, (tick (tick w1))\<lparr>wdb := wdb w1\<rparr>)"
    using quiet by (intro exec_returns[THEN trans]) (simp_all add: GetPaidPurchaseForProvision_def selectOne_def purchasesOf_def)
  have "\<forall>k\<in>set [1..n]. itemDone e orderID k (wdb w1) \<and> subscriptionCheck (wanted e orderID purchase k)"
    using items by (auto simp: w1 intro: itemDone_fulfilling)
  from provisionItems_again[OF _ quiet same, of "[1..n]" orderID "(tick (tick w1))\<lparr>wdb := wdb w1\<rparr>" purchase traceID2] this
  obtain w3 where each: "forEach (provisionItem orderID traceID2 purchase) [1..n] e2 ((tick (tick w1))\<lparr>wdb := wdb w1\<rparr>) = (Inr (), w3)" "wdb w3 = wdb w1"
    by auto
  have "\<forall>r\<in>set (orders (wdb w1)). \<not> (o_id r = orderID \<and> o_status r = ''paid'')" unfolding w1 by (blast dest: fulfilling_not_paid)
  from sqlUpdate_none[OF this] have "MarkOrderFulfilling orderID e2 (wdb w1) = Inr ((), wdb w1)"
    by (simp add: MarkOrderFulfilling_def)
  with each quiet have mark: "exec (MarkOrderFulfilling orderID) e2 w3 = (Inr (), (tick w3)\<lparr>wdb := wdb w1\<rparr>)"
    by (intro exec_returns) auto
  have "ensureTx orderID traceID2 e2 (tick w1) = (Inr (Commit n), (tick w3)\<lparr>wdb := wdb w1\<rparr>)"
    using get each(1) mark ng n by (auto simp: ensureTx_def bnd_def orNoRows_def attempt_def ret_def)
  then show ?thesis using quiet by (simp add: EnsureForPaidOrder_def in_tx_def)
qed

section \<open>Finalizing\<close>

definition finalized :: "env \<Rightarrow> Context \<Rightarrow> Placement \<Rightarrow> db \<Rightarrow> db \<Rightarrow> bool" where
  "finalized e current place d d' \<longleftrightarrow>
     (\<exists>r\<in>set (reservations d). rr_id r = Placement_ReservationID place \<and>
        (rr_status r = ''committed'' \<and> nodes d' = nodes d \<and> reservations d' = reservations d \<or>
         rr_status r = ''reserved'' \<and> nodes d' = nodes (settledTo e ''committed'' r d) \<and>
           reservations d' = reservations (settledTo e ''committed'' r d))) \<and>
     (\<exists>s\<in>set (subscriptions d). s_id s = Context_SubscriptionID current \<and> s_status s \<in> {''pending'', ''active''} \<and>
        activateSubscription e (goNow e) s \<in> set (subscriptions d') \<and> activateSubscription e (goNow e) s = s\<lparr>s_status := ''active'',
          s_started_at := (if s_started_at s = None then Some (goNow e) else s_started_at s),
          s_current_period_start := (if s_current_period_start s = None then Some (goNow e) else s_current_period_start s),
          s_current_period_end := (if s_current_period_end s = None then afterCycle e (s_billing_cycle s) (goNow e) else s_current_period_end s),
          s_next_due_at := (if s_next_due_at s = None then afterCycle e (s_billing_cycle s) (goNow e) else s_next_due_at s),
          s_version := s_version s + (if s_status s = ''pending'' then 1 else 0), s_updated_at := pgNow e\<rparr>) \<and>
     subscriptions d' = sqlUpdate (\<lambda>s. s_id s = Context_SubscriptionID current \<and> s_status s \<in> {''pending'', ''active''})
        (activateSubscription e (goNow e)) (subscriptions d) \<and>
     (\<forall>x\<in>set (orders d'). o_id x = Context_SourceOrderID current \<and> o_status x \<in> {''paid'', ''fulfilling''} \<longrightarrow>
        (\<exists>s\<in>set (subscriptions d'). s_source_order_id s = Some (Context_SourceOrderID current) \<and> s_status s \<noteq> ''active'')) \<and>
     (\<exists>f\<in>set (notifications d'). nf_id f = sha1ID e (''vps-billing:notification:'' @ uuidString e (Context_InstanceID current))) \<and>
     (\<exists>e1 e2. outbox_events d' = outbox_events d @ [e1, e2] \<and> ob_event_type e1 = ''subscription.activated.v1'' \<and>
        ob_aggregate_id e1 = Context_SubscriptionID current \<and> ob_event_type e2 = ''instance.running.v1'' \<and>
        ob_aggregate_id e2 = Context_InstanceID current)"

lemma notification_ok:
  assumes "CreateProvisionNotification i u p e d = Inr (x, d')"
  shows "d' = d\<lparr>notifications := notifications d'\<rparr> \<and> (\<exists>f\<in>set (notifications d'). nf_id f = i)"
proof (cases "list_ex (\<lambda>r. nf_id r = i) (notifications d)")
  case True
  with assms have "d' = d" by (simp add: CreateProvisionNotification_def)
  with True show ?thesis by (auto simp: list_ex_iff)
next
  case False
  with assms show ?thesis by (auto simp: CreateProvisionNotification_def Let_def insertInto_ok)
qed

lemma not_open_after_fulfilled:
  assumes "r \<in> set (sqlUpdate (\<lambda>r. o_id r = orderID \<and> o_status r \<in> {''paid'', ''fulfilling'', ''fulfilled''})
       (\<lambda>r. r\<lparr>o_status := ''fulfilled'', o_updated_at := pgNow e\<rparr>) rows)"
  shows "\<not> (o_id r = orderID \<and> o_status r \<in> {''paid'', ''fulfilling''})"
  using assms
  apply (rule in_sqlUpdateE)
   apply simp
  apply simp
  done

lemma fulfilledIfReady_ok:
  assumes "MarkPurchaseOrderFulfilledIfReady orderID e d = Inr (x, d')"
  shows "d' = d\<lparr>orders := orders d'\<rparr> \<and> (\<forall>r\<in>set (orders d'). o_id r = orderID \<and> o_status r \<in> {''paid'', ''fulfilling''} \<longrightarrow>
    (\<exists>s\<in>set (subscriptions d). s_source_order_id s = Some orderID \<and> s_status s \<noteq> ''active''))"
proof (cases "list_ex (\<lambda>s. s_source_order_id s = Some orderID \<and> s_status s \<noteq> ''active'') (subscriptions d)")
  case True
  with assms have "d' = d" by (simp add: MarkPurchaseOrderFulfilledIfReady_def)
  with True show ?thesis by (auto simp: list_ex_iff)
next
  case False
  with assms have d': "d' = d\<lparr>orders := sqlUpdate (\<lambda>r. o_id r = orderID \<and> o_status r \<in> {''paid'', ''fulfilling'', ''fulfilled''})
       (\<lambda>r. r\<lparr>o_status := ''fulfilled'', o_updated_at := pgNow e\<rparr>) (orders d)\<rparr>"
    by (auto simp: MarkPurchaseOrderFulfilledIfReady_def)
  then have t: "orders d' = sqlUpdate (\<lambda>r. o_id r = orderID \<and> o_status r \<in> {''paid'', ''fulfilling'', ''fulfilled''})
       (\<lambda>r. r\<lparr>o_status := ''fulfilled'', o_updated_at := pgNow e\<rparr>) (orders d)" by simp
  have "\<not> (o_id r = orderID \<and> o_status r \<in> {''paid'', ''fulfilling''})" if "r \<in> set (orders d')" for r
    using that unfolding t by (rule not_open_after_fulfilled)
  moreover have "d' = d\<lparr>orders := orders d'\<rparr>" unfolding t by (rule d')
  ultimately show ?thesis by blast
qed

lemma activate_ok:
  assumes "activate current e w = (Inr u, w')"
  obtains s ns t e1 e2 where "s \<in> set (subscriptions (wdb w))" "s_id s = Context_SubscriptionID current" "s_status s \<in> {''pending'', ''active''}"
    "wdb w' = (wdb w)\<lparr>subscriptions := sqlUpdate (\<lambda>s. s_id s = Context_SubscriptionID current \<and> s_status s \<in> {''pending'', ''active''})
        (activateSubscription e (goNow e)) (subscriptions (wdb w)), orders := t, notifications := ns,
        outbox_events := outbox_events (wdb w) @ [e1, e2]\<rparr>"
    "\<forall>r\<in>set t. o_id r = Context_SourceOrderID current \<and> o_status r \<in> {''paid'', ''fulfilling''} \<longrightarrow>
      (\<exists>s\<in>set (subscriptions (wdb w')). s_source_order_id s = Some (Context_SourceOrderID current) \<and> s_status s \<noteq> ''active'')"
    "\<exists>f\<in>set ns. nf_id f = sha1ID e (''vps-billing:notification:'' @ uuidString e (Context_InstanceID current))"
    "ob_event_type e1 = ''subscription.activated.v1''" "ob_aggregate_id e1 = Context_SubscriptionID current"
    "ob_event_type e2 = ''instance.running.v1''" "ob_aggregate_id e2 = Context_InstanceID current"
proof -
  let ?sub = "Context_SubscriptionID current" and ?nid = "sha1ID e (''vps-billing:notification:'' @ uuidString e (Context_InstanceID current))"
  from assms obtain act w1 w2 w3 w4 f1 f2 p and u1 u2 u3 :: unit where
    a: "exec (ActivateProvisionedSubscription ?sub (goNow e)) e w = (Inr act, w1)"
    and b: "exec (MarkPurchaseOrderFulfilledIfReady (Context_SourceOrderID current)) e w1 = (Inr u1, w2)"
    and c: "exec (CreateProvisionNotification ?nid (Context_UserID current) p) e w2 = (Inr u2, w3)"
    and e1: "createDomainEvent ''subscription.activated.v1'' ''subscription'' (s_id act) f1 e w3 = (Inr u3, w4)"
    and e2: "createDomainEvent ''instance.running.v1'' ''instance'' (Context_InstanceID current) f2 e w4 = (Inr u, w')"
    unfolding activate_def bnd_ok asks_ok
    by (elim exE conjE, hypsubst, simp only: prod.case bnd_ok, elim exE conjE, blast)
  from a obtain s where s: "s \<in> set (subscriptions (wdb w))" "s_id s = ?sub" "s_status s \<in> {''pending'', ''active''}" "act = activateSubscription e (goNow e) s"
    and w1: "wdb w1 = (wdb w)\<lparr>subscriptions := sqlUpdate (\<lambda>s. s_id s = ?sub \<and> s_status s \<in> {''pending'', ''active''})
        (activateSubscription e (goNow e)) (subscriptions (wdb w))\<rparr>"
    by (auto simp: exec_ok ActivateProvisionedSubscription_def updateReturning_ok dest!: one_filter_Inr)
  from b have "MarkPurchaseOrderFulfilledIfReady (Context_SourceOrderID current) e (wdb w1) = Inr ((), wdb w2)" by (auto simp: exec_ok)
  from fulfilledIfReady_ok[OF this] have w2: "wdb w2 = (wdb w1)\<lparr>orders := orders (wdb w2)\<rparr>"
    and t: "\<forall>r\<in>set (orders (wdb w2)). o_id r = Context_SourceOrderID current \<and> o_status r \<in> {''paid'', ''fulfilling''} \<longrightarrow>
      (\<exists>s\<in>set (subscriptions (wdb w1)). s_source_order_id s = Some (Context_SourceOrderID current) \<and> s_status s \<noteq> ''active'')" by blast+
  from c have "CreateProvisionNotification ?nid (Context_UserID current) p e (wdb w2) = Inr ((), wdb w3)" by (auto simp: exec_ok)
  from notification_ok[OF this] have w3: "wdb w3 = (wdb w2)\<lparr>notifications := notifications (wdb w3)\<rparr>"
    and ns: "\<exists>f\<in>set (notifications (wdb w3)). nf_id f = ?nid" by blast+
  have sid: "s_id act = ?sub" by (simp add: s activateSubscription_def Let_def)
  from createDomainEvent_ok[OF e1] obtain ev1 where w4: "wdb w4 = (wdb w3)\<lparr>outbox_events := outbox_events (wdb w3) @ [ev1]\<rparr>"
    "ob_event_type ev1 = ''subscription.activated.v1''" "ob_aggregate_id ev1 = ?sub" unfolding sid by blast
  from createDomainEvent_ok[OF e2] obtain ev2 where w5: "wdb w' = (wdb w4)\<lparr>outbox_events := outbox_events (wdb w4) @ [ev2]\<rparr>"
    "ob_event_type ev2 = ''instance.running.v1''" "ob_aggregate_id ev2 = Context_InstanceID current" by blast
  define t where "t = orders (wdb w2)"
  define ns where "ns = notifications (wdb w3)"
  have w2': "wdb w2 = (wdb w1)\<lparr>orders := t\<rparr>" unfolding t_def by (rule w2)
  have w3': "wdb w3 = (wdb w2)\<lparr>notifications := ns\<rparr>" unfolding ns_def by (rule w3)
  show thesis
  proof (rule that[OF s(1,2,3)])
    show "wdb w' = (wdb w)\<lparr>subscriptions := sqlUpdate (\<lambda>s. s_id s = ?sub \<and> s_status s \<in> {''pending'', ''active''})
        (activateSubscription e (goNow e)) (subscriptions (wdb w)), orders := t, notifications := ns,
        outbox_events := outbox_events (wdb w) @ [ev1, ev2]\<rparr>"
      unfolding w5(1) w4(1) w3' w2' w1 by simp
    have "subscriptions (wdb w') = subscriptions (wdb w1)" unfolding w5(1) w4(1) w3' w2' by simp
    with t show "\<forall>r\<in>set t. o_id r = Context_SourceOrderID current \<and> o_status r \<in> {''paid'', ''fulfilling''} \<longrightarrow>
      (\<exists>s\<in>set (subscriptions (wdb w')). s_source_order_id s = Some (Context_SourceOrderID current) \<and> s_status s \<noteq> ''active'')"
      unfolding t_def by (simp only:)
    show "\<exists>f\<in>set ns. nf_id f = ?nid" using ns unfolding ns_def .
  qed (fact w4(2,3) w5(2,3))+
qed

lemma finalizeTx_finalized:
  assumes run: "finalizeTx current place e u = (Inr y, w2)" and inv: "capacityInv (wdb u)"
    and status: "Context_SubscriptionStatus current \<noteq> ''active''"
  shows "finalized e current place (wdb u) (wdb w2)"
proof -
  from run status obtain w1 where cm: "commitPlacement (Placement_ReservationID place) e u = (Inr (), w1)"
    and act: "activate current e w1 = (Inr (), w2)"
    by (auto simp: finalizeTx_def bnd_ok ret_ok)
  from commitPlacement_settles[OF inv cm] obtain r where r: "r \<in> set (reservations (wdb u))" "rr_id r = Placement_ReservationID place"
    "rr_status r = ''committed'' \<and> wdb w1 = wdb u \<or> rr_status r = ''reserved'' \<and> wdb w1 = settledTo e ''committed'' r (wdb u)" by blast
  then have same: "subscriptions (wdb w1) = subscriptions (wdb u)" "outbox_events (wdb w1) = outbox_events (wdb u)"
    by (auto simp: settledTo_def)
  from act show ?thesis
  proof (rule activate_ok)
    fix s ns t e1 e2
    assume s: "s \<in> set (subscriptions (wdb w1))" "s_id s = Context_SubscriptionID current" "s_status s \<in> {''pending'', ''active''}"
      and w2: "wdb w2 = (wdb w1)\<lparr>subscriptions := sqlUpdate (\<lambda>s. s_id s = Context_SubscriptionID current \<and> s_status s \<in> {''pending'', ''active''})
      (activateSubscription e (goNow e)) (subscriptions (wdb w1)), orders := t, notifications := ns,
      outbox_events := outbox_events (wdb w1) @ [e1, e2]\<rparr>"
      and t: "\<forall>r\<in>set t. o_id r = Context_SourceOrderID current \<and> o_status r \<in> {''paid'', ''fulfilling''} \<longrightarrow>
    (\<exists>s\<in>set (subscriptions (wdb w2)). s_source_order_id s = Some (Context_SourceOrderID current) \<and> s_status s \<noteq> ''active'')"
      and ns: "\<exists>f\<in>set ns. nf_id f = sha1ID e (''vps-billing:notification:'' @ uuidString e (Context_InstanceID current))"
      and ev: "ob_event_type e1 = ''subscription.activated.v1''" "ob_aggregate_id e1 = Context_SubscriptionID current"
        "ob_event_type e2 = ''instance.running.v1''" "ob_aggregate_id e2 = Context_InstanceID current"
    have sub: "activateSubscription e (goNow e) s \<in> set (subscriptions (wdb w2))" using s by (auto simp: w2 set_sqlUpdate)
    show ?thesis
      unfolding finalized_def
    proof (intro conjI)
      show "\<exists>r\<in>set (reservations (wdb u)). rr_id r = Placement_ReservationID place \<and>
        (rr_status r = ''committed'' \<and> nodes (wdb w2) = nodes (wdb u) \<and> reservations (wdb w2) = reservations (wdb u) \<or>
         rr_status r = ''reserved'' \<and> nodes (wdb w2) = nodes (settledTo e ''committed'' r (wdb u)) \<and>
         reservations (wdb w2) = reservations (settledTo e ''committed'' r (wdb u)))"
        using r by (intro bexI[of _ r]) (auto simp: w2)
      show "\<exists>s\<in>set (subscriptions (wdb u)). s_id s = Context_SubscriptionID current \<and> s_status s \<in> {''pending'', ''active''} \<and>
        activateSubscription e (goNow e) s \<in> set (subscriptions (wdb w2)) \<and> activateSubscription e (goNow e) s = s\<lparr>s_status := ''active'',
          s_started_at := (if s_started_at s = None then Some (goNow e) else s_started_at s),
          s_current_period_start := (if s_current_period_start s = None then Some (goNow e) else s_current_period_start s),
          s_current_period_end := (if s_current_period_end s = None then afterCycle e (s_billing_cycle s) (goNow e) else s_current_period_end s),
          s_next_due_at := (if s_next_due_at s = None then afterCycle e (s_billing_cycle s) (goNow e) else s_next_due_at s),
          s_version := s_version s + (if s_status s = ''pending'' then 1 else 0), s_updated_at := pgNow e\<rparr>"
        using s(2,3) sub s(1)[unfolded same] by (intro bexI[of _ s] conjI) (auto simp: activateSubscription_def Let_def split: option.split)
    qed (use t ns ev same in \<open>simp_all add: w2\<close>)
  qed
qed

text \<open>
  C24: finalizing is one step. Whatever happens, either nothing was changed, or everything was: the
  reservation is committed, the subscription is active with its paid period, the order is fulfilled as soon
  as all its subscriptions are active, the customer has the notification, and both events are in the outbox. A
  reported success means everything was done.
\<close>

theorem Finalize_atomic:
  assumes run: "Finalize current place e w = (x, w')" and inv: "capacityInv (wdb w)"
    and status: "Context_SubscriptionStatus current \<noteq> ''active''"
  shows "wdb w' = wdb w \<and> x \<noteq> Inr () \<or> finalized e current place (wdb w) (wdb w')"
proof -
  have eff: "finalized e current place (wdb w) (wdb w2)" if "finalizeTx current place e (tick w) = (Inr y, w2)" for y w2
    using finalizeTx_finalized[OF that _ status] inv by simp
  have no_rollback: "finalizeTx current place e u \<noteq> (Inr (Rollback y), u')" for u y u'
    by (simp add: finalizeTx_def bnd_ok ret_ok)
  from run have tx: "in_tx (finalizeTx current place) e w = (x, w')" by (simp add: Finalize_def)
  show ?thesis
  proof (cases "x = Inr ()")
    case True
    from tx[unfolded True in_tx_ok] no_rollback
    obtain w2 where "finalizeTx current place e (tick w) = (Inr (Commit ()), w2)" "w' = tick w2" by blast
    from eff[OF this(1)] this(2) show ?thesis by simp
  next
    case False
    from in_tx_atomic[OF tx] show ?thesis
    proof
      assume "wdb w' = wdb w"
      with False show ?thesis by simp
    next
      assume "\<exists>y w2. finalizeTx current place e (tick w) = (Inr (Commit y), w2) \<and> wdb w' = wdb w2"
      then obtain y w2 where "finalizeTx current place e (tick w) = (Inr (Commit y), w2)" "wdb w' = wdb w2" by blast
      from eff[OF this(1)] this(2) show ?thesis by simp
    qed
  qed
qed

section \<open>Witnesses\<close>

text \<open>A customer who paid for one unit of the plan; one node that can take it.\<close>

definition order0 :: orderRow where
  "order0 = \<lparr>o_id = 30, o_order_no = ''ORD-1'', o_user_id = 1, o_status = ''paid'', o_subtotal_minor = 1299, o_discount_minor = 0,
     o_total_minor = 1299, o_currency = ''USD'', o_paid_at = Some 0, o_created_at = 0, o_updated_at = 0,
     o_idempotency_key = Some ''key-00000001'', o_kind = ''purchase'', o_subscription_id = None\<rparr>"

definition orderItem0 :: orderItemRow where
  "orderItem0 = \<lparr>oi_id = 31, oi_order_id = 30, oi_product_id = 2, oi_plan_id = 3, oi_quantity = 1, oi_unit_price_minor = 1299,
     oi_total_minor = 1299, oi_product_snapshot = JObj [], oi_plan_snapshot = JObj [], oi_created_at = 0\<rparr>"

definition world0_paid :: world where
  "world0_paid = world0\<lparr>wdb := db0\<lparr>providers := [provider0], node_groups := [group0],
     nodes := [node0\<lparr>n_capabilities := JObj [(''create_instance'', JBool True), (''virtualization'', JStr ''kvm'')]\<rparr>],
     orders := [order0], order_items := [orderItem0]\<rparr>\<rparr>"

lemma sample_ensure: "EnsureForPaidOrder 30 ''payment:1'' env0 world0_paid = (Inr 1, snd (EnsureForPaidOrder 30 ''payment:1'' env0 world0_paid))"
proof -
  have "fst (EnsureForPaidOrder 30 ''payment:1'' env0 world0_paid) = Inr 1" by code_simp
  then show ?thesis by (metis prod.collapse)
qed

theorem EnsureForPaidOrder_exact_witness:
  "\<exists>w' s i x. EnsureForPaidOrder 30 ''payment:1'' env0 world0_paid = (Inr 1, w') \<and>
     filter (\<lambda>s. sourceKey s = Some (30, 1)) (subscriptions (wdb w')) = [s] \<and>
     filter (\<lambda>i. i_subscription_id i = s_id s) (instances (wdb w')) = [i] \<and> x \<in> set (operations (wdb w')) \<and> op_resource_id x = i_id i"
proof -
  let ?w' = "snd (EnsureForPaidOrder 30 ''payment:1'' env0 world0_paid)"
  have none: "subscriptions (wdb world0_paid) = []" "instances (wdb world0_paid) = []" "operations (wdb world0_paid) = []"
    by (simp_all add: world0_paid_def db0_def emptyDb_def)
  then have "unitsInv env0 30 (wdb world0_paid)" by (simp add: unitsInv_def uniq_Nil)
  from EnsureForPaidOrder_exact[OF sample_ensure this] none have
    "\<exists>s i x. filter (\<lambda>s. sourceKey s = Some (30, 1)) (subscriptions (wdb ?w')) = [s] \<and>
      filter (\<lambda>i. i_subscription_id i = s_id s) (instances (wdb ?w')) = [i] \<and>
      filter (\<lambda>x. op_idempotency_key x = provisionKey env0 30 1) (operations (wdb ?w')) = [x] \<and> op_resource_id x = i_id i"
    by fastforce
  then obtain s i x where six: "filter (\<lambda>s. sourceKey s = Some (30, 1)) (subscriptions (wdb ?w')) = [s]"
    "filter (\<lambda>i. i_subscription_id i = s_id s) (instances (wdb ?w')) = [i]"
    "filter (\<lambda>x. op_idempotency_key x = provisionKey env0 30 1) (operations (wdb ?w')) = [x]" "op_resource_id x = i_id i" by blast
  then have "x \<in> set (operations (wdb ?w'))" by (auto simp: filter_eq_Cons_iff)
  with six sample_ensure show ?thesis by blast
qed

theorem EnsureForPaidOrder_again_witness:
  "\<exists>w1 w2. EnsureForPaidOrder 30 ''payment:1'' env0 world0_paid = (Inr 1, w1) \<and>
     EnsureForPaidOrder 30 ''payment:2'' env0 w1 = (Inr 1, w2) \<and> wdb w2 = wdb w1"
  using sample_ensure EnsureForPaidOrder_again[OF sample_ensure, of env0 "''payment:2''"] by auto

text \<open>The same order later: its capacity is reserved and its instance is being created.\<close>

definition reservation0 :: reservationRow where
  "reservation0 = newReservation env0 40 21 5 (sr_Resources schedule0) (2000 * second)"

definition world0_placed :: world where
  "world0_placed = world0\<lparr>wdb := db0\<lparr>providers := [provider0], node_groups := [group0],
     nodes := [node0\<lparr>n_reserved := sr_Resources schedule0\<rparr>], reservations := [reservation0],
     orders := [order0\<lparr>o_status := ''fulfilling''\<rparr>], order_items := [orderItem0],
     subscriptions := [newSubscription env0 50 1 3 ''monthly'' 1299 ''USD'' 30 1],
     instances := [newInstance env0 51 50 ''vps-1'' plan0], operations := [operation0]\<rparr>\<rparr>"

definition context0 :: Context where
  "context0 = contextOf \<lparr>cx_operation = operation0, cx_instance = newInstance env0 51 50 ''vps-1'' plan0,
     cx_subscription = newSubscription env0 50 1 3 ''monthly'' 1299 ''USD'' 30 1, cx_plan = plan0\<rparr> 4 30"

definition placement0 :: Placement where
  "placement0 = \<lparr>Placement_ReservationID = 40, Placement_NodeID = 21, Placement_ProviderID = 20, Placement_ProviderNodeID = ''n1''\<rparr>"

lemma sample_finalize: "succeeded (Finalize context0 placement0 env0 world0_placed)"
  by code_simp

lemma capacityInv_world0_placed: "capacityInv (wdb world0_placed)"
  by (simp add: capacityInv_def world0_placed_def db0_def emptyDb_def booked_def held_def)
    (simp add: node0_def nodeCheck_def capLe_def dims_def capZero_def capAdd_def schedule0_def reservation0_def newReservation_def reservationCheck_def)

theorem Finalize_atomic_witness:
  "\<exists>w'. Finalize context0 placement0 env0 world0_placed = (Inr (), w') \<and> finalized env0 context0 placement0 (wdb world0_placed) (wdb w')"
proof -
  from sample_finalize obtain w' where run: "Finalize context0 placement0 env0 world0_placed = (Inr (), w')"
    by (auto elim!: succeededE)
  have "Context_SubscriptionStatus context0 \<noteq> ''active''" by (simp add: context0_def contextOf_def newSubscription_def)
  from Finalize_atomic[OF run capacityInv_world0_placed this] run show ?thesis by auto
qed

end
