(* ===== verification/Outbox.thy ===== *)
theory Outbox
  imports Commerce_Queries Samples
begin

text \<open>
  \<open>internal/outbox\<close>: the dispatcher that publishes outbox events to the Redis stream \<open>domain-events\<close>,
  and queued operations to \<open>operation-queue\<close> as well, inside the transaction that marks them published.
\<close>

section \<open>Dispatcher\<close>

definition messageOf :: "(uuid \<Rightarrow> string) \<Rightarrow> outboxRow \<Rightarrow> message" where
  "messageOf s event = \<lparr>msg_event_id = s (ob_id event), msg_event_type = ob_event_type event, msg_payload = ob_payload event\<rparr>"

definition XAddEvent :: "outboxRow \<Rightarrow> unit io" where
  "XAddEvent event = bnd (asks (\<lambda>e. messageOf (uuidString e) event)) (\<lambda>msg.
     redis (\<lambda>w. w\<lparr>domain_events := domain_events w @ [msg]\<rparr>))"

definition XAddQueue :: "outboxRow \<Rightarrow> unit io" where
  "XAddQueue event = bnd (asks (\<lambda>e. messageOf (uuidString e) event)) (\<lambda>msg.
     redis (\<lambda>w. w\<lparr>operation_queue := operation_queue w @ [msg]\<rparr>))"

text \<open>The publishing error, after its retry has been recorded.\<close>

definition recordRetry :: "outboxRow \<Rightarrow> err \<Rightarrow> err option io" where
  "recordRetry event x = bnd (attempt (exec (MarkOutboxRetry (ob_id event)))) (\<lambda>r. case r of
     Inl _ \<Rightarrow> raise x | Inr _ \<Rightarrow> ret (Some x))"

primrec dispatchEvents :: "outboxRow list \<Rightarrow> err option io" where
  "dispatchEvents [] = ret None"
| "dispatchEvents (event # events) =
    bnd (attempt (XAddEvent event)) (\<lambda>r. case r of
      Inl x \<Rightarrow> recordRetry event x
    | Inr _ \<Rightarrow> bnd (attempt (if ob_event_type event = ''operation.queued.v1'' then XAddQueue event else ret ())) (\<lambda>q. case q of
        Inl x \<Rightarrow> recordRetry event x
      | Inr _ \<Rightarrow> bnd (exec (MarkOutboxPublished (ob_id event))) (\<lambda>_. dispatchEvents events)))"

definition dispatchBatch :: "nat \<Rightarrow> nat io" where
  "dispatchBatch batchSize = bnd (in_tx (
     bnd (exec (ClaimOutboxEvents batchSize)) (\<lambda>events.
     bnd (dispatchEvents events) (\<lambda>failure.
     ret (Commit (case failure of Some x \<Rightarrow> Inl x | None \<Rightarrow> Inr (length events)))))))
   ofResult"

section \<open>What the streams hold\<close>

definition sent :: "(uuid \<Rightarrow> string) \<Rightarrow> world \<Rightarrow> outboxRow \<Rightarrow> bool" where
  "sent s w r \<longleftrightarrow> messageOf s r \<in> set (domain_events w) \<and>
     (ob_event_type r = ''operation.queued.v1'' \<longrightarrow> messageOf s r \<in> set (operation_queue w))"

definition grows :: "world \<Rightarrow> world \<Rightarrow> bool" where
  "grows w w' \<longleftrightarrow> (\<exists>a b. domain_events w' = domain_events w @ a \<and> operation_queue w' = operation_queue w @ b)"

lemma grows_refl [simp]: "grows w w" "grows w (tick w)" "grows w (w\<lparr>wdb := d\<rparr>)" "grows w ((tick w)\<lparr>wdb := d\<rparr>)"
  by (simp_all add: grows_def)

lemma grows_trans: "grows u v \<Longrightarrow> grows v w \<Longrightarrow> grows u w"
  by (auto simp: grows_def)

lemma sent_grows: "sent s w r \<Longrightarrow> grows w w' \<Longrightarrow> sent s w' r"
  by (auto simp: sent_def grows_def)

text \<open>What identifies an event: everything but its delivery state.\<close>

definition content :: "outboxRow \<Rightarrow> uuid \<times> string \<times> string \<times> uuid \<times> json \<times> time" where
  "content r = (ob_id r, ob_event_type r, ob_aggregate_type r, ob_aggregate_id r, ob_payload r, ob_created_at r)"

lemma messageOf_content: "content r = content r' \<Longrightarrow> messageOf s r = messageOf s r'"
  by (simp add: content_def messageOf_def)

lemma sent_content: "content r = content r' \<Longrightarrow> sent s w r = sent s w r'"
  using messageOf_content[of r r' s] by (simp add: sent_def content_def)

definition delivered :: "(uuid \<Rightarrow> string) \<Rightarrow> world \<Rightarrow> bool" where
  "delivered s w \<longleftrightarrow> distinct (map ob_id (outbox_events (wdb w))) \<and>
     (\<forall>r\<in>set (outbox_events (wdb w)). ob_status r = ''published'' \<longrightarrow> sent s w r)"

section \<open>Runs\<close>

lemma bnd_step: "m e w = (Inr x, w1) \<Longrightarrow> bnd m f e w = f x e w1"
  by (simp add: bnd_def)

lemma XAdd_runs:
  assumes "XAddEvent event e w = (r, w1) \<or> XAddQueue event e w = (r, w1)"
  shows "wdb w1 = wdb w \<and> grows w w1"
  using assms by (auto simp: XAddEvent_def XAddQueue_def bnd_def asks_def redis_def grows_def split: fault.splits)

lemma XAddEvent_ok:
  "XAddEvent event e w = (Inr u, w1) \<Longrightarrow> messageOf (uuidString e) event \<in> set (domain_events w1)"
  by (auto simp: XAddEvent_def bnd_ok asks_ok redis_ok)

lemma XAddQueue_ok:
  "XAddQueue event e w = (Inr u, w1) \<Longrightarrow> messageOf (uuidString e) event \<in> set (operation_queue w1)"
  by (auto simp: XAddQueue_def bnd_ok asks_ok redis_ok)

lemma recordRetry_runs:
  assumes "recordRetry event x e w = (r, w1)"
  shows "grows w w1 \<and> (r = Inr y \<longrightarrow> y \<noteq> None \<and> wdb w1 = (wdb w)\<lparr>outbox_events := sqlUpdate (\<lambda>r. ob_id r = ob_id event)
     (\<lambda>r. r\<lparr>ob_attempts := ob_attempts r + 1, ob_next_attempt_at := pgNow e + outboxBackoff (ob_attempts r)\<rparr>) (outbox_events (wdb w))\<rparr>)"
  using assms
  by (auto simp: recordRetry_def bnd_def attempt_def exec_def MarkOutboxRetry_def raise_def ret_def split: fault.splits)

text \<open>One event: the failure is recorded, the transaction breaks, or it is marked published.\<close>

definition markPublished :: "env \<Rightarrow> outboxRow \<Rightarrow> db \<Rightarrow> db" where
  "markPublished e event d = d\<lparr>outbox_events := sqlUpdate (\<lambda>r. ob_id r = ob_id event)
     (\<lambda>r. r\<lparr>ob_status := ''published'', ob_published_at := Some (pgNow e)\<rparr>) (outbox_events d)\<rparr>"

lemma dispatch_cases:
  assumes run: "dispatchEvents (event # events) e w = (r, w')"
  obtains (failed) w1 x where "grows w w1" "wdb w1 = wdb w" "recordRetry event x e w1 = (r, w')"
  | (broken) x where "r = Inl x" "grows w w'"
  | (went) w1 where "grows w w1" "wdb w1 = wdb w" "sent (uuidString e) w1 event"
      "dispatchEvents events e ((tick w1)\<lparr>wdb := markPublished e event (wdb w)\<rparr>) = (r, w')"
proof -
  obtain r1 w1 where a: "XAddEvent event e w = (r1, w1)" by fastforce
  have w1: "wdb w1 = wdb w" "grows w w1" using XAdd_runs[of event e w r1 w1] a by auto
  show thesis
  proof (cases r1)
    case (Inl x)
    with a run have "recordRetry event x e w1 = (r, w')" by (simp add: bnd_def attempt_def)
    with w1 failed show ?thesis by blast
  next
    case (Inr u)
    let ?q = "if ob_event_type event = ''operation.queued.v1'' then XAddQueue event else ret ()"
    obtain r2 w2 where b: "?q e w1 = (r2, w2)" by fastforce
    have w2: "wdb w2 = wdb w" "grows w w2"
      using b w1 XAdd_runs[of event e w1 r2 w2] grows_trans[of w w1 w2] by (auto simp: ret_def split: if_splits)
    show ?thesis
    proof (cases r2)
      case (Inl x)
      with a b Inr run have "recordRetry event x e w2 = (r, w')" by (simp add: bnd_def attempt_def)
      with w2 failed show ?thesis by blast
    next
      case r2: (Inr u2)
      have "sent (uuidString e) w2 event"
        using a b Inr r2 XAddEvent_ok[of event e w u w1] XAddQueue_ok[of event e w1 u2 w2] XAdd_runs[of event e w1 r2 w2]
        by (auto simp: sent_def ret_def grows_def split: if_splits)
      moreover from run a b Inr r2 have "bnd (exec (MarkOutboxPublished (ob_id event))) (\<lambda>_. dispatchEvents events) e w2 = (r, w')"
        by (simp add: bnd_def attempt_def)
      ultimately have fin: "sent (uuidString e) w2 event"
        "bnd (exec (MarkOutboxPublished (ob_id event))) (\<lambda>_. dispatchEvents events) e w2 = (r, w')" .
      show ?thesis
      proof (cases "faults e (wstmts w2) = NoFault")
        case True
        with fin(2) w2(1) have "dispatchEvents events e ((tick w2)\<lparr>wdb := markPublished e event (wdb w)\<rparr>) = (r, w')"
          by (simp add: bnd_def exec_def MarkOutboxPublished_def markPublished_def)
        with w2 fin(1) show ?thesis by (intro went[of w2])
      next
        case False
        then have "exec (MarkOutboxPublished (ob_id event)) e w2 = (Inl ErrDriver, tick w2)"
          by (simp add: exec_def split: fault.splits)
        with fin(2) have "r = Inl ErrDriver" "w' = tick w2" by (simp_all add: bnd_def)
        with w2(2) show ?thesis by (intro broken[of ErrDriver]) (auto intro: grows_trans)
      qed
    qed
  qed
qed

lemma content_update: "(\<And>r. content (f r) = content r) \<Longrightarrow> map content (sqlUpdate P f t) = map content t"
  by (simp add: map_sqlUpdate)

text \<open>The loop, however it ends.\<close>

definition progressed :: "(uuid \<Rightarrow> string) \<Rightarrow> world \<Rightarrow> world \<Rightarrow> bool" where
  "progressed s w w' \<longleftrightarrow> (\<exists>t. wdb w' = (wdb w)\<lparr>outbox_events := t\<rparr>) \<and>
     map content (outbox_events (wdb w')) = map content (outbox_events (wdb w)) \<and>
     (\<forall>r\<in>set (outbox_events (wdb w')). ob_status r = ''published'' \<longrightarrow> sent s w' r \<or>
        (\<exists>r0\<in>set (outbox_events (wdb w)). content r0 = content r \<and> ob_status r0 = ''published''))"

lemma progressed_refl: "wdb w' = wdb w \<Longrightarrow> progressed s w w'"
  unfolding progressed_def by (intro conjI exI[of _ "outbox_events (wdb w)"]) auto

lemma progressed_trans:
  assumes "progressed s u v" "progressed s v w" "grows v w"
  shows "progressed s u w"
  unfolding progressed_def
proof (intro conjI ballI impI)
  show "\<exists>t. wdb w = (wdb u)\<lparr>outbox_events := t\<rparr>" using assms by (auto simp: progressed_def)
  show "map content (outbox_events (wdb w)) = map content (outbox_events (wdb u))" using assms by (simp add: progressed_def)
next
  fix r assume r: "r \<in> set (outbox_events (wdb w))" "ob_status r = ''published''"
  show "sent s w r \<or> (\<exists>r0\<in>set (outbox_events (wdb u)). content r0 = content r \<and> ob_status r0 = ''published'')"
  proof (cases "sent s w r")
    case False
    with assms(2) r obtain r1 where r1: "r1 \<in> set (outbox_events (wdb v))" "content r1 = content r" "ob_status r1 = ''published''"
      by (auto simp: progressed_def)
    have "\<not> sent s v r1" using False sent_grows[OF _ assms(3)] sent_content[OF r1(2)] by blast
    with assms(1) r1 show ?thesis by (auto simp: progressed_def)
  qed simp
qed

lemma progressed_retry:
  "wdb w' = (wdb w)\<lparr>outbox_events := sqlUpdate P (\<lambda>r. r\<lparr>ob_attempts := g r, ob_next_attempt_at := h r\<rparr>) (outbox_events (wdb w))\<rparr> \<Longrightarrow>
   progressed s w w'"
  by (auto simp: progressed_def content_update content_def set_sqlUpdate)

lemma progressed_mark:
  assumes "distinct (map ob_id (outbox_events (wdb w)))" "content event \<in> content ` set (outbox_events (wdb w))"
    and "sent s w' event" "wdb w' = markPublished e event (wdb w)"
  shows "progressed s w w'"
  unfolding progressed_def
proof (intro conjI ballI impI)
  show "\<exists>t. wdb w' = (wdb w)\<lparr>outbox_events := t\<rparr>" using assms(4) by (auto simp: markPublished_def)
  show "map content (outbox_events (wdb w')) = map content (outbox_events (wdb w))"
    by (simp add: assms(4) markPublished_def content_update content_def)
next
  fix r assume r: "r \<in> set (outbox_events (wdb w'))" "ob_status r = ''published''"
  from r(1) obtain r0 where r0: "r0 \<in> set (outbox_events (wdb w))" "content r = content r0" "r = r0 \<or> ob_id r0 = ob_id event"
    by (auto simp: assms(4) markPublished_def set_sqlUpdate content_def)
  from assms(2) obtain x where x: "x \<in> set (outbox_events (wdb w))" "content event = content x" by blast
  show "sent s w' r \<or> (\<exists>r0\<in>set (outbox_events (wdb w)). content r0 = content r \<and> ob_status r0 = ''published'')"
  proof (cases "ob_id r0 = ob_id event")
    case True
    with x have "ob_id r0 = ob_id x" by (simp add: content_def)
    with assms(1) r0(1) x(1) have "r0 = x" by (auto simp: distinct_map inj_on_def)
    with x(2) r0(2) have "content r = content event" by simp
    with assms(3) sent_content show ?thesis by blast
  qed (use r0 r in auto)
qed

lemma dispatch_progress:
  assumes "dispatchEvents events e w = (r, w')" "distinct (map ob_id (outbox_events (wdb w)))"
    "\<forall>x\<in>set events. content x \<in> content ` set (outbox_events (wdb w))"
  shows "grows w w' \<and> (\<forall>y. r = Inr y \<longrightarrow> progressed (uuidString e) w w')"
  using assms
proof (induction events arbitrary: w)
  case Nil
  then show ?case by (simp add: ret_def progressed_refl)
next
  case (Cons event events)
  from Cons.prems(1) show ?case
  proof (cases rule: dispatch_cases)
    case (failed w1 x)
    then have "grows w w'" using recordRetry_runs[OF failed(3)] grows_trans by blast
    moreover have "progressed (uuidString e) w w'" if "r = Inr y" for y
      using recordRetry_runs[OF failed(3), of y] that failed(2) by (auto intro: progressed_retry)
    ultimately show ?thesis by blast
  next
    case (went w1)
    let ?w2 = "(tick w1)\<lparr>wdb := markPublished e event (wdb w)\<rparr>"
    have g: "grows w ?w2" using went(1) grows_trans[of w w1 ?w2] by simp
    have "sent (uuidString e) ?w2 event" using went(3) by (simp add: sent_def)
    then have p: "progressed (uuidString e) w ?w2"
      by (intro progressed_mark[where event = event and e = e]) (use Cons.prems in auto)
    then have c: "map content (outbox_events (wdb ?w2)) = map content (outbox_events (wdb w))" by (simp add: progressed_def)
    have "map ob_id t = map fst (map content t)" for t by (simp add: content_def)
    with c have "map ob_id (outbox_events (wdb ?w2)) = map ob_id (outbox_events (wdb w))" by metis
    moreover have "content ` set (outbox_events (wdb ?w2)) = content ` set (outbox_events (wdb w))" using c by (metis set_map)
    ultimately have "grows ?w2 w' \<and> (\<forall>y. r = Inr y \<longrightarrow> progressed (uuidString e) ?w2 w')"
      using Cons.IH[OF went(4)] Cons.prems by auto
    with g p show ?thesis using grows_trans progressed_trans by blast
  qed auto
qed

lemma claimed_events:
  "set (take n (filter P (sort_key ob_created_at (filter Q t)))) \<subseteq> set t"
  by (auto dest!: in_set_takeD)

lemma dispatchBatch_runs:
  assumes run: "dispatchBatch n e w = (r, w')" and keys: "distinct (map ob_id (outbox_events (wdb w)))"
  shows "grows w w' \<and> progressed (uuidString e) w w'"
proof -
  let ?body = "bnd (exec (ClaimOutboxEvents n)) (\<lambda>events. bnd (dispatchEvents events) (\<lambda>failure.
     ret (Commit (case failure of Some x \<Rightarrow> Inl x | None \<Rightarrow> Inr (length events)))))"
  have body: "grows w u \<and> (\<forall>y. q = Inr y \<longrightarrow> progressed (uuidString e) w u \<and> (\<exists>z. y = Commit z))" if b: "?body e (tick w) = (q, u)" for q u
  proof (cases "faults e (Suc (wstmts w)) = NoFault")
    case False
    with b show ?thesis by (auto simp: bnd_def exec_def grows_def split: fault.splits)
  next
    case True
    define evs where "evs = take n (filter (\<lambda>r. \<not> pgLocked e (ob_id r)) (sort_key ob_created_at
      (filter (\<lambda>r. ob_status r = ''pending'' \<and> ob_next_attempt_at r \<le> pgNow e) (outbox_events (wdb w)))))"
    let ?w1 = "(tick (tick w))\<lparr>wdb := wdb w\<rparr>"
    have claim: "exec (ClaimOutboxEvents n) e (tick w) = (Inr evs, ?w1)"
      using True by (simp add: exec_def ClaimOutboxEvents_def selectMany_def evs_def)
    from b have b1: "bnd (dispatchEvents evs) (\<lambda>failure. ret (Commit (case failure of Some x \<Rightarrow> Inl x | None \<Rightarrow> Inr (length evs)))) e ?w1 = (q, u)"
      unfolding bnd_step[where m = "exec (ClaimOutboxEvents n)", OF claim] .
    obtain p u1 where d: "dispatchEvents evs e ?w1 = (p, u1)" by fastforce
    have "set evs \<subseteq> set (outbox_events (wdb w))" unfolding evs_def by (rule claimed_events)
    then have "grows ?w1 u1 \<and> (\<forall>y. p = Inr y \<longrightarrow> progressed (uuidString e) ?w1 u1)"
      using dispatch_progress[OF d] keys by auto
    with b1 d show ?thesis by (cases p) (auto simp: bnd_def ret_def grows_def progressed_def)
  qed
  obtain q u where b: "?body e (tick w) = (q, u)" by fastforce
  obtain x w1 where tx: "in_tx ?body e w = (x, w1)" by fastforce
  have "wdb w' = wdb w1 \<and> grows w1 w'" using run tx
    by (auto simp: dispatchBatch_def bnd_def[of "in_tx z" for z] ofResult_def raise_def ret_def split: sum.splits)
  moreover have "grows w w1 \<and> (wdb w1 = wdb w \<or> (\<exists>y. q = Inr y) \<and> wdb w1 = wdb u \<and> grows u w1)"
    using tx b body[OF b] by (auto simp: in_tx_def grows_def split: fault.splits sum.splits ending.splits)
  ultimately show ?thesis using body[OF b] by (metis grows_trans progressed_refl progressed_trans)
qed

section \<open>Properties\<close>

text \<open>
  C20: no event is lost and none is marked before it is out. Whatever Redis and the database do, after a
  batch every event marked published is in the stream of domain events, and in the operation queue when it
  announces a queued operation; streams only grow, and no event disappears or changes its content.
\<close>

theorem dispatchBatch_delivers:
  assumes inv: "delivered (uuidString e) w" and run: "dispatchBatch n e w = (r, w')"
  shows "delivered (uuidString e) w' \<and> grows w w' \<and>
    map content (outbox_events (wdb w')) = map content (outbox_events (wdb w))"
proof -
  have keys: "distinct (map ob_id (outbox_events (wdb w)))" using inv by (simp add: delivered_def)
  from dispatchBatch_runs[OF run keys] have g: "grows w w'" and p: "progressed (uuidString e) w w'" by auto
  then have c: "map content (outbox_events (wdb w')) = map content (outbox_events (wdb w))" by (simp add: progressed_def)
  have "map ob_id t = map fst (map content t)" for t by (simp add: content_def)
  with c keys have "distinct (map ob_id (outbox_events (wdb w')))" by metis
  moreover have "sent (uuidString e) w' x" if x: "x \<in> set (outbox_events (wdb w'))" "ob_status x = ''published''" for x
  proof (rule ccontr)
    assume "\<not> sent (uuidString e) w' x"
    with p x obtain y where y: "y \<in> set (outbox_events (wdb w))" "content y = content x" "ob_status y = ''published''"
      by (auto simp: progressed_def)
    with inv have "sent (uuidString e) w y" by (auto simp: delivered_def)
    with g y(2) \<open>\<not> sent (uuidString e) w' x\<close> show False using sent_grows sent_content by blast
  qed
  ultimately show ?thesis using g c by (simp add: delivered_def)
qed

lemma dispatch_quiet:
  assumes "\<forall>n. faults e n = NoFault"
  shows "\<exists>w'. dispatchEvents evs e w = (Inr None, w') \<and>
    domain_events w' = domain_events w @ map (messageOf (uuidString e)) evs \<and>
    operation_queue w' = operation_queue w @ map (messageOf (uuidString e)) (filter (\<lambda>r. ob_event_type r = ''operation.queued.v1'') evs) \<and>
    wdb w' = (wdb w)\<lparr>outbox_events := sqlUpdate (\<lambda>r. ob_id r \<in> ob_id ` set evs)
      (\<lambda>r. r\<lparr>ob_status := ''published'', ob_published_at := Some (pgNow e)\<rparr>) (outbox_events (wdb w))\<rparr>"
proof (induction evs arbitrary: w)
  case Nil
  then show ?case by (simp add: ret_def sqlUpdate_none)
next
  case (Cons ev evs)
  let ?m = "messageOf (uuidString e) ev" and ?f = "\<lambda>r :: outboxRow. r\<lparr>ob_status := ''published'', ob_published_at := Some (pgNow e)\<rparr>"
  define w1 where "w1 = tick (w\<lparr>domain_events := domain_events w @ [?m]\<rparr>)"
  define w2 where "w2 = (if ob_event_type ev = ''operation.queued.v1'' then tick (w1\<lparr>operation_queue := operation_queue w1 @ [?m]\<rparr>) else w1)"
  define w3 where "w3 = (tick w2)\<lparr>wdb := (wdb w)\<lparr>outbox_events := sqlUpdate (\<lambda>r. ob_id r = ob_id ev) ?f (outbox_events (wdb w))\<rparr>\<rparr>"
  have "wdb w2 = wdb w" by (simp add: w2_def w1_def)
  then have "dispatchEvents (ev # evs) e w = dispatchEvents evs e w3"
    using assms by (simp add: bnd_def attempt_def XAddEvent_def XAddQueue_def asks_def redis_def exec_def MarkOutboxPublished_def
        ret_def w1_def w2_def w3_def)
  moreover have w3: "domain_events w3 = domain_events w @ [?m]"
    "operation_queue w3 = operation_queue w @ (if ob_event_type ev = ''operation.queued.v1'' then [?m] else [])"
    "wdb w3 = (wdb w)\<lparr>outbox_events := sqlUpdate (\<lambda>r. ob_id r = ob_id ev) ?f (outbox_events (wdb w))\<rparr>"
    by (simp_all add: w3_def w2_def w1_def)
  moreover have "sqlUpdate (\<lambda>r. ob_id r \<in> ob_id ` set evs) ?f (sqlUpdate (\<lambda>r. ob_id r = ob_id ev) ?f t) =
    sqlUpdate (\<lambda>r. ob_id r \<in> ob_id ` set (ev # evs)) ?f t" for t
    by (auto simp: sqlUpdate_def)
  moreover obtain w' where "dispatchEvents evs e w3 = (Inr None, w')"
    "domain_events w' = domain_events w3 @ map (messageOf (uuidString e)) evs"
    "operation_queue w' = operation_queue w3 @ map (messageOf (uuidString e)) (filter (\<lambda>r. ob_event_type r = ''operation.queued.v1'') evs)"
    "wdb w' = (wdb w3)\<lparr>outbox_events := sqlUpdate (\<lambda>r. ob_id r \<in> ob_id ` set evs) ?f (outbox_events (wdb w3))\<rparr>"
    using Cons.IH[of w3] by blast
  ultimately show ?case by (intro exI[of _ w']) (simp del: dispatchEvents.simps)
qed

text \<open>
  C21: the outbox drains. With no faults and no other dispatcher holding events, a batch that is large
  enough publishes every due event, in the order of creation, each once, and leaves none due.
\<close>

theorem dispatchBatch_drains:
  assumes quiet: "\<forall>n. faults e n = NoFault" and free: "\<forall>r\<in>set (outbox_events (wdb w)). \<not> pgLocked e (ob_id r)"
    and due: "due = filter (\<lambda>r. ob_status r = ''pending'' \<and> ob_next_attempt_at r \<le> pgNow e) (outbox_events (wdb w))"
    and size: "length due \<le> batchSize"
  shows "\<exists>w'. dispatchBatch batchSize e w = (Inr (length due), w') \<and>
    domain_events w' = domain_events w @ map (messageOf (uuidString e)) (sort_key ob_created_at due) \<and>
    operation_queue w' = operation_queue w @ map (messageOf (uuidString e))
      (filter (\<lambda>r. ob_event_type r = ''operation.queued.v1'') (sort_key ob_created_at due)) \<and>
    (\<forall>r\<in>set (outbox_events (wdb w')). \<not> (ob_status r = ''pending'' \<and> ob_next_attempt_at r \<le> pgNow e))"
proof -
  let ?evs = "sort_key ob_created_at due"
  have "filter (\<lambda>r. \<not> pgLocked e (ob_id r)) ?evs = ?evs" using free by (auto simp: filter_id_conv due)
  with size have claim: "exec (ClaimOutboxEvents batchSize) e (tick w) = (Inr ?evs, (tick (tick w))\<lparr>wdb := wdb w\<rparr>)"
    using quiet by (simp add: exec_def ClaimOutboxEvents_def selectMany_def flip: due)
  from dispatch_quiet[OF quiet, of ?evs "(tick (tick w))\<lparr>wdb := wdb w\<rparr>"] obtain w2 where
    d: "dispatchEvents ?evs e ((tick (tick w))\<lparr>wdb := wdb w\<rparr>) = (Inr None, w2)" and
    streams: "domain_events w2 = domain_events w @ map (messageOf (uuidString e)) ?evs"
      "operation_queue w2 = operation_queue w @ map (messageOf (uuidString e)) (filter (\<lambda>r. ob_event_type r = ''operation.queued.v1'') ?evs)"
    and w2: "outbox_events (wdb w2) = sqlUpdate (\<lambda>r. ob_id r \<in> ob_id ` set due)
      (\<lambda>r. r\<lparr>ob_status := ''published'', ob_published_at := Some (pgNow e)\<rparr>) (outbox_events (wdb w))" by auto
  have "dispatchBatch batchSize e w = (Inr (length due), tick w2)"
    using quiet d claim by (simp add: dispatchBatch_def in_tx_def bnd_def ret_def ofResult_def)
  moreover have "\<forall>r\<in>set (outbox_events (wdb w2)). \<not> (ob_status r = ''pending'' \<and> ob_next_attempt_at r \<le> pgNow e)"
    by (auto simp: w2 set_sqlUpdate due)
  ultimately show ?thesis using streams by simp
qed

definition event0 :: outboxRow where
  "event0 = \<lparr>ob_id = 7, ob_event_type = ''operation.queued.v1'', ob_aggregate_type = ''operation'', ob_aggregate_id = 5,
     ob_payload = JObj [], ob_status = ''pending'', ob_attempts = 0, ob_next_attempt_at = 0, ob_created_at = 0, ob_published_at = None\<rparr>"

definition world0_event :: world where
  "world0_event = world0\<lparr>wdb := db0\<lparr>outbox_events := [event0]\<rparr>\<rparr>"

lemma world0_event_streams: "domain_events world0_event = []" "operation_queue world0_event = []"
  by (simp_all add: world0_event_def world0_def)

theorem dispatchBatch_delivers_witness:
  "\<exists>r w'. dispatchBatch 50 env0 world0_event = (r, w') \<and> delivered (uuidString env0) w' \<and> grows world0_event w'"
proof -
  obtain r w' where run: "dispatchBatch 50 env0 world0_event = (r, w')" by fastforce
  have "delivered (uuidString env0) world0_event" by (simp add: delivered_def world0_event_def event0_def)
  from dispatchBatch_delivers[OF this run] run show ?thesis by blast
qed

theorem dispatchBatch_drains_witness:
  "\<exists>w'. dispatchBatch 50 env0 world0_event = (Inr 1, w') \<and>
    domain_events w' = [messageOf (uuidString env0) event0] \<and> operation_queue w' = [messageOf (uuidString env0) event0]"
proof -
  have quiet: "\<forall>n. faults env0 n = NoFault" by (simp add: env0_def)
  have due: "[event0] = filter (\<lambda>r. ob_status r = ''pending'' \<and> ob_next_attempt_at r \<le> pgNow env0) (outbox_events (wdb world0_event))"
    by (simp add: world0_event_def event0_def env0_def)
  have free: "\<forall>r\<in>set (outbox_events (wdb world0_event)). \<not> pgLocked env0 (ob_id r)" by (simp add: env0_def)
  have q: "ob_event_type event0 = ''operation.queued.v1''" by (simp add: event0_def)
  from dispatchBatch_drains[OF quiet free due, of 50] show ?thesis by (auto simp: q world0_event_streams)
qed

end
