(* ===== verification/Subscription.thy ===== *)
theory Subscription
  imports Commerce_Queries Subscription_Queries Samples
begin

text \<open>
  \<open>internal/subscription\<close>: scheduling a cancellation, and the lifecycle batch that moves
  subscriptions from active to past due, suspended or cancelled, as the worker runs it.
\<close>

section \<open>The repository\<close>

record Subscription =
  Subscription_ID :: uuid
  Subscription_PlanID :: uuid
  Subscription_PlanSlug :: string
  Subscription_PlanName :: json
  Subscription_Status :: string
  Subscription_BillingCycle :: string
  Subscription_PriceMinor :: int
  Subscription_Currency :: string
  Subscription_StartedAt :: "time option"
  Subscription_CurrentPeriodStart :: "time option"
  Subscription_CurrentPeriodEnd :: "time option"
  Subscription_NextDueAt :: "time option"
  Subscription_GraceUntil :: "time option"
  Subscription_CancelAtPeriodEnd :: bool
  Subscription_EndedAt :: "time option"
  Subscription_Version :: int

definition fromListRow :: "subscriptionListRow \<Rightarrow> Subscription" where
  "fromListRow row = (let s = sl_subscription row in
    \<lparr>Subscription_ID = s_id s, Subscription_PlanID = s_plan_id s, Subscription_PlanSlug = sl_plan_slug row,
     Subscription_PlanName = sl_plan_name_i18n row, Subscription_Status = s_status s,
     Subscription_BillingCycle = s_billing_cycle s, Subscription_PriceMinor = s_price_minor s,
     Subscription_Currency = s_currency s, Subscription_StartedAt = s_started_at s,
     Subscription_CurrentPeriodStart = s_current_period_start s, Subscription_CurrentPeriodEnd = s_current_period_end s,
     Subscription_NextDueAt = s_next_due_at s, Subscription_GraceUntil = s_grace_until s,
     Subscription_CancelAtPeriodEnd = s_cancel_at_period_end s, Subscription_EndedAt = s_ended_at s,
     Subscription_Version = s_version s\<rparr>)"

definition List :: "uuid \<Rightarrow> Subscription list io" where
  "List userID = bnd (pool (ListSubscriptionsByUser userID)) (\<lambda>rows. ret (map fromListRow rows))"

definition subscriptionView :: "uuid \<Rightarrow> uuid \<Rightarrow> Subscription io" where
  "subscriptionView userID subscriptionID = bnd (exec (ListSubscriptionsByUser userID)) (\<lambda>rows.
     case filter (\<lambda>row. s_id (sl_subscription row) = subscriptionID) rows of
       row # _ \<Rightarrow> ret (fromListRow row) | [] \<Rightarrow> raise ErrNotFound)"

definition subscriptionEvent :: "env \<Rightarrow> uuid \<Rightarrow> string \<Rightarrow> subscriptionRow \<Rightarrow> time \<Rightarrow> json" where
  "subscriptionEvent e eventID eventType s occurredAt =
    envelope e eventID eventType occurredAt ''subscription'' (s_id s) (JObj
      [(''subscription_id'', JStr (uuidString e (s_id s))), (''user_id'', JStr (uuidString e (s_user_id s))),
       (''status'', JStr (s_status s)), (''version'', JNum (s_version s))])"

definition createSubscriptionEvent :: "string \<Rightarrow> subscriptionRow \<Rightarrow> time \<Rightarrow> unit io" where
  "createSubscriptionEvent eventType s occurredAt = bnd newID (\<lambda>eventID.
     bnd (asks (\<lambda>e. subscriptionEvent e eventID eventType s occurredAt)) (\<lambda>payload.
     exec (CreateOutboxEvent eventID eventType ''subscription'' (s_id s) payload)))"

definition cancelEventType :: "bool \<Rightarrow> string" where
  "cancelEventType cancel = (if cancel then ''subscription.cancel_scheduled.v1'' else ''subscription.cancel_schedule_removed.v1'')"

definition changeCancel :: "uuid \<Rightarrow> uuid \<Rightarrow> bool \<Rightarrow> Subscription ending io" where
  "changeCancel userID subscriptionID cancel =
     bnd (exec (SetSubscriptionCancelAtPeriodEnd subscriptionID cancel)) (\<lambda>updated.
     bnd (asks goNow) (\<lambda>now.
     bnd (createSubscriptionEvent (cancelEventType cancel) updated now) (\<lambda>_.
     bnd (subscriptionView userID subscriptionID) (\<lambda>result. ret (Commit result)))))"

definition SetCancelAtPeriodEnd :: "uuid \<Rightarrow> uuid \<Rightarrow> bool \<Rightarrow> Subscription io" where
  "SetCancelAtPeriodEnd userID subscriptionID cancel = in_tx (
     bnd (orNoRows ErrNotFound (exec (LockSubscriptionByUser subscriptionID userID))) (\<lambda>current.
     if s_status current \<noteq> ''active'' then raise ErrInvalidState
     else if s_cancel_at_period_end current = cancel
     then bnd (subscriptionView userID subscriptionID) (\<lambda>v. ret (Rollback v))
     else changeCancel userID subscriptionID cancel))"

section \<open>The lifecycle\<close>

record lifecycleDecision =
  ld_status :: string
  ld_eventType :: string
  ld_graceUntil :: "time option"
  ld_endedAt :: "time option"

definition notAfter :: "time option \<Rightarrow> time \<Rightarrow> bool" where
  "notAfter t now \<longleftrightarrow> (case t of None \<Rightarrow> False | Some x \<Rightarrow> \<not> x > now)"

definition decideLifecycleTransition :: "subscriptionRow \<Rightarrow> time \<Rightarrow> duration \<Rightarrow> lifecycleDecision option" where
  "decideLifecycleTransition current now gracePeriod =
    (if s_status current = ''active'' \<and> s_cancel_at_period_end current \<and> notAfter (s_current_period_end current) now
     then Some \<lparr>ld_status = ''cancelled'', ld_eventType = ''subscription.cancelled.v1'', ld_graceUntil = None, ld_endedAt = Some now\<rparr>
     else if s_status current = ''active'' \<and> notAfter (s_current_period_end current) now
     then Some \<lparr>ld_status = ''past_due'', ld_eventType = ''subscription.past_due.v1'',
       ld_graceUntil = map_option (\<lambda>t. t + gracePeriod) (s_current_period_end current), ld_endedAt = None\<rparr>
     else if s_status current = ''past_due'' \<and> notAfter (s_grace_until current) now
     then Some \<lparr>ld_status = ''suspended'', ld_eventType = ''subscription.suspended.v1'',
       ld_graceUntil = s_grace_until current, ld_endedAt = None\<rparr>
     else None)"

definition lifecycleStep :: "time \<Rightarrow> duration \<Rightarrow> subscriptionRow \<Rightarrow> unit io" where
  "lifecycleStep now gracePeriod current = (case decideLifecycleTransition current now gracePeriod of
     None \<Rightarrow> ret ()
   | Some decision \<Rightarrow>
       bnd (exec (UpdateSubscriptionLifecycle (s_id current) (ld_status decision) (ld_graceUntil decision)
           (ld_endedAt decision) (s_version current))) (\<lambda>updated.
       createSubscriptionEvent (ld_eventType decision) updated now))"

definition defaultLifecycleBatchSize :: nat where "defaultLifecycleBatchSize = 50"

definition processLifecycleBatch :: "duration \<Rightarrow> nat \<Rightarrow> nat io" where
  "processLifecycleBatch gracePeriod batchSize = bnd (asks goNow) (\<lambda>now. in_tx (
     bnd (exec (ClaimSubscriptionsForLifecycle now batchSize)) (\<lambda>rows.
     bnd (forEach (lifecycleStep now gracePeriod) rows) (\<lambda>_.
     ret (Commit (length rows))))))"

section \<open>The lifecycle as a state machine\<close>

text \<open>One transition of a subscription that is due, at a time and with a grace period.\<close>

inductive advances :: "time \<Rightarrow> duration \<Rightarrow> subscriptionRow \<Rightarrow> subscriptionRow \<Rightarrow> bool" for now g where
  cancel: "s_status s = ''active'' \<Longrightarrow> s_cancel_at_period_end s \<Longrightarrow> s_current_period_end s = Some t \<Longrightarrow> t \<le> now \<Longrightarrow>
    advances now g s (s\<lparr>s_status := ''cancelled'', s_grace_until := None, s_ended_at := Some now\<rparr>)"
| expire: "s_status s = ''active'' \<Longrightarrow> \<not> s_cancel_at_period_end s \<Longrightarrow> s_current_period_end s = Some t \<Longrightarrow> t \<le> now \<Longrightarrow>
    advances now g s (s\<lparr>s_status := ''past_due'', s_grace_until := Some (t + g), s_ended_at := None\<rparr>)"
| suspend: "s_status s = ''past_due'' \<Longrightarrow> s_grace_until s = Some t \<Longrightarrow> t \<le> now \<Longrightarrow>
    advances now g s (s\<lparr>s_status := ''suspended'', s_ended_at := None\<rparr>)"

inductive_cases advancesE: "advances now g s s'"

definition stamped :: "env \<Rightarrow> subscriptionRow \<Rightarrow> subscriptionRow" where
  "stamped e s = s\<lparr>s_version := s_version s + 1, s_updated_at := pgNow e\<rparr>"

definition decided :: "env \<Rightarrow> lifecycleDecision \<Rightarrow> subscriptionRow \<Rightarrow> subscriptionRow" where
  "decided e decision = (\<lambda>s. s\<lparr>s_status := ld_status decision, s_grace_until := ld_graceUntil decision,
     s_ended_at := ld_endedAt decision, s_version := s_version s + 1, s_updated_at := pgNow e\<rparr>)"

lemma decided_fields [simp]: "s_id (decided e x s) = s_id s"
  by (simp add: decided_def)

lemma decide_due: "decideLifecycleTransition s now g \<noteq> None \<longleftrightarrow> lifecycleDue now s"
  by (auto simp: decideLifecycleTransition_def lifecycleDue_def notAfter_def not_less split: option.splits)

lemma decide_advances:
  assumes "decideLifecycleTransition s now g = Some x"
  shows "\<exists>s'. advances now g s s' \<and> decided e x s = stamped e s'"
proof -
  consider (cancel) t where "s_status s = ''active''" "s_cancel_at_period_end s" "s_current_period_end s = Some t" "t \<le> now"
      "x = \<lparr>ld_status = ''cancelled'', ld_eventType = ''subscription.cancelled.v1'', ld_graceUntil = None, ld_endedAt = Some now\<rparr>"
    | (expire) t where "s_status s = ''active''" "\<not> s_cancel_at_period_end s" "s_current_period_end s = Some t" "t \<le> now"
      "x = \<lparr>ld_status = ''past_due'', ld_eventType = ''subscription.past_due.v1'', ld_graceUntil = Some (t + g), ld_endedAt = None\<rparr>"
    | (suspend) t where "s_status s = ''past_due''" "s_grace_until s = Some t" "t \<le> now"
      "x = \<lparr>ld_status = ''suspended'', ld_eventType = ''subscription.suspended.v1'', ld_graceUntil = Some t, ld_endedAt = None\<rparr>"
    using assms
    by (auto simp: decideLifecycleTransition_def notAfter_def split: if_splits option.splits)
  then show ?thesis
  proof cases
    case cancel
    then have "decided e x s = stamped e (s\<lparr>s_status := ''cancelled'', s_grace_until := None, s_ended_at := Some now\<rparr>)" by (simp add: decided_def stamped_def)
    with advances.cancel[OF cancel(1-4)] show ?thesis by blast
  next
    case expire
    then have "decided e x s = stamped e (s\<lparr>s_status := ''past_due'', s_grace_until := Some (t + g), s_ended_at := None\<rparr>)" by (simp add: decided_def stamped_def)
    with advances.expire[OF expire(1-4)] show ?thesis by blast
  next
    case suspend
    then have "decided e x s = stamped e (s\<lparr>s_status := ''suspended'', s_ended_at := None\<rparr>)" by (simp add: decided_def stamped_def)
    with advances.suspend[OF suspend(1-3)] show ?thesis by blast
  qed
qed

section \<open>The batch\<close>

definition nextState :: "env \<Rightarrow> time \<Rightarrow> duration \<Rightarrow> subscriptionRow \<Rightarrow> subscriptionRow" where
  "nextState e now g s = (case decideLifecycleTransition s now g of None \<Rightarrow> s | Some x \<Rightarrow> decided e x s)"

lemma nextState_id [simp]: "s_id (nextState e now g s) = s_id s"
  by (simp add: nextState_def split: option.splits)

lemma lifecycleStep_ok:
  assumes run: "lifecycleStep now g s e w = (Inr u, w')"
    and row: "distinct (map s_id (subscriptions (wdb w)))" "s \<in> set (subscriptions (wdb w))"
  shows "\<exists>news. wdb w' = (wdb w)\<lparr>subscriptions := sqlUpdate (\<lambda>r. s_id r = s_id s) (nextState e now g) (subscriptions (wdb w)),
      outbox_events := outbox_events (wdb w) @ news\<rparr> \<and>
      map (\<lambda>r. (ob_event_type r, ob_aggregate_id r)) news = (case decideLifecycleTransition s now g of
        None \<Rightarrow> [] | Some x \<Rightarrow> [(ld_eventType x, s_id s)])"
proof (cases "decideLifecycleTransition s now g")
  case None
  have "sqlUpdate (\<lambda>r. s_id r = s_id s) (nextState e now g) (subscriptions (wdb w)) = subscriptions (wdb w)"
    unfolding sqlUpdate_def
    by (rule map_idI) (use row None in \<open>auto simp: nextState_def distinct_map inj_on_def\<close>)
  with None run show ?thesis by (auto simp: lifecycleStep_def io_simps)
next
  case (Some x)
  have same: "r = s" if "r \<in> set (subscriptions (wdb w))" "s_id r = s_id s" for r
    using row that by (auto simp: distinct_map inj_on_def)
  have eq: "sqlUpdate (\<lambda>r. s_id r = s_id s \<and> s_version r = s_version s) (decided e x) (subscriptions (wdb w)) =
      sqlUpdate (\<lambda>r. s_id r = s_id s) (nextState e now g) (subscriptions (wdb w))"
    unfolding sqlUpdate_def
  proof (rule map_cong)
    fix r assume "r \<in> set (subscriptions (wdb w))"
    with same[of r] Some show "(if s_id r = s_id s \<and> s_version r = s_version s then decided e x r else r) =
        (if s_id r = s_id s then nextState e now g r else r)"
      by (cases "s_id r = s_id s") (simp_all add: nextState_def)
  qed simp
  from run[unfolded lifecycleStep_def Some option.case] obtain updated w1 where
    upd: "exec (UpdateSubscriptionLifecycle (s_id s) (ld_status x) (ld_graceUntil x) (ld_endedAt x) (s_version s)) e w = (Inr updated, w1)"
    and ev: "createSubscriptionEvent (ld_eventType x) updated now e w1 = (Inr u, w')"
    by (rule bndE)
  from upd have w1: "wdb w1 = (wdb w)\<lparr>subscriptions := sqlUpdate (\<lambda>r. s_id r = s_id s \<and> s_version r = s_version s)
      (decided e x) (subscriptions (wdb w))\<rparr>" and uid: "s_id updated = s_id s"
    by (auto simp: io_simps UpdateSubscriptionLifecycle_def decided_def dest!: one_filter_Inr)
  from ev obtain eventID payload where "wdb w' = (wdb w1)\<lparr>outbox_events := outbox_events (wdb w1) @
      [newOutboxEvent e eventID (ld_eventType x) ''subscription'' (s_id s) payload]\<rparr>"
    by (auto simp: createSubscriptionEvent_def io_simps CreateOutboxEvent_def uid Let_def)
  with w1 Some show ?thesis by (auto simp: eq newOutboxEvent_def)
qed

definition transitionEvent :: "time \<Rightarrow> duration \<Rightarrow> subscriptionRow \<Rightarrow> (string \<times> uuid) list" where
  "transitionEvent now g s = (case decideLifecycleTransition s now g of None \<Rightarrow> [] | Some x \<Rightarrow> [(ld_eventType x, s_id s)])"

lemma forEach_lifecycle:
  assumes "forEach (lifecycleStep now g) rows e w = (Inr u, w')"
    and "distinct (map s_id (subscriptions (wdb w)))" "distinct (map s_id rows)" "set rows \<subseteq> set (subscriptions (wdb w))"
  shows "\<exists>news. wdb w' = (wdb w)\<lparr>subscriptions := sqlUpdate (\<lambda>r. s_id r \<in> s_id ` set rows) (nextState e now g) (subscriptions (wdb w)),
      outbox_events := outbox_events (wdb w) @ news\<rparr> \<and>
      map (\<lambda>r. (ob_event_type r, ob_aggregate_id r)) news = concat (map (transitionEvent now g) rows)"
  using assms
proof (induction rows arbitrary: w)
  case Nil
  then show ?case by (intro exI[of _ "[]"]) (simp add: ret_ok sqlUpdate_none)
next
  case (Cons s rows)
  from Cons.prems(1) obtain u1 w1 where one: "lifecycleStep now g s e w = (Inr u1, w1)"
    and rest: "forEach (lifecycleStep now g) rows e w1 = (Inr u, w')"
    by (auto elim: bndE)
  let ?t = "subscriptions (wdb w)"
  from lifecycleStep_ok[OF one Cons.prems(2)] Cons.prems(4) obtain n1 where
    w1: "wdb w1 = (wdb w)\<lparr>subscriptions := sqlUpdate (\<lambda>r. s_id r = s_id s) (nextState e now g) ?t,
      outbox_events := outbox_events (wdb w) @ n1\<rparr>"
    and n1: "map (\<lambda>r. (ob_event_type r, ob_aggregate_id r)) n1 = transitionEvent now g s"
    by (auto simp: transitionEvent_def)
  have "distinct (map s_id (subscriptions (wdb w1)))" using Cons.prems(2) by (simp add: w1 map_sqlUpdate)
  moreover have "\<forall>r\<in>set rows. s_id r \<noteq> s_id s" using Cons.prems(3) by (metis distinct.simps(2) image_eqI list.simps(9) set_map)
  then have "set rows \<subseteq> set (subscriptions (wdb w1))"
    using Cons.prems(4) by (auto simp: w1 set_sqlUpdate)
  ultimately obtain n2 where
    w': "wdb w' = (wdb w1)\<lparr>subscriptions := sqlUpdate (\<lambda>r. s_id r \<in> s_id ` set rows) (nextState e now g) (subscriptions (wdb w1)),
      outbox_events := outbox_events (wdb w1) @ n2\<rparr>"
    and n2: "map (\<lambda>r. (ob_event_type r, ob_aggregate_id r)) n2 = concat (map (transitionEvent now g) rows)"
    using Cons.IH[OF rest] Cons.prems(3) by auto
  have "sqlUpdate (\<lambda>r. s_id r \<in> s_id ` set rows) (nextState e now g) (sqlUpdate (\<lambda>r. s_id r = s_id s) (nextState e now g) ?t) =
      sqlUpdate (\<lambda>r. s_id r \<in> s_id ` set (s # rows)) (nextState e now g) ?t"
    using Cons.prems(3) by (auto simp: sqlUpdate_def)
  with w1 w' n1 n2 show ?case by (intro exI[of _ "n1 @ n2"]) simp
qed

text \<open>The rows a batch may take.\<close>

definition claimable :: "env \<Rightarrow> db \<Rightarrow> subscriptionRow set" where
  "claimable e d = {s \<in> set (subscriptions d). lifecycleDue (goNow e) s \<and> \<not> pgLocked e (s_id s)}"

lemma lifecycle_claimed:
  assumes "ClaimSubscriptionsForLifecycle (goNow e) n e d = Inr (rows, d')" and keys: "distinct (map s_id (subscriptions d))"
  shows "d' = d" "set rows \<subseteq> claimable e d" "distinct rows" "distinct (map s_id rows)" "length rows = min n (card (claimable e d))"
    "\<forall>s\<in>set rows. \<forall>q\<in>claimable e d - set rows. lifecycleKey s \<le> lifecycleKey q"
proof -
  define due where "due = filter (\<lambda>s. \<not> pgLocked e (s_id s))
      (sort_key lifecycleKey (sort_key s_id (filter (lifecycleDue (goNow e)) (subscriptions d))))"
  from assms(1) have rows: "rows = take n due" and "d' = d"
    by (auto simp: ClaimSubscriptionsForLifecycle_def io_simps due_def)
  then show "d' = d" by simp
  have due: "set due = claimable e d" "distinct due" "sorted (map lifecycleKey due)"
    using keys by (auto simp: due_def claimable_def distinct_map sorted_filter)
  then show sub: "set rows \<subseteq> claimable e d" and dist: "distinct rows" by (auto simp: rows dest: in_set_takeD)
  show "length rows = min n (card (claimable e d))" using card_take_filter[OF due(2), of n] by (simp add: rows due(1))
  have "inj_on s_id (set rows)" using keys sub by (auto simp: distinct_map claimable_def intro: inj_on_subset)
  with dist show "distinct (map s_id rows)" by (simp add: distinct_map)
  show "\<forall>s\<in>set rows. \<forall>q\<in>claimable e d - set rows. lifecycleKey s \<le> lifecycleKey q"
    using due by (auto simp: rows intro!: take_sorted_first[of _ n due])
qed

lemma processLifecycleBatch_effect:
  assumes run: "processLifecycleBatch g batchSize e w = (Inr n, w')"
    and keys: "distinct (map s_id (subscriptions (wdb w)))"
  obtains rows news where "set rows \<subseteq> claimable e (wdb w)" "distinct rows" "n = length rows" "n = min batchSize (card (claimable e (wdb w)))"
    "\<forall>s\<in>set rows. \<forall>q\<in>claimable e (wdb w) - set rows. lifecycleKey s \<le> lifecycleKey q"
    "wdb w' = (wdb w)\<lparr>subscriptions := sqlUpdate (\<lambda>r. s_id r \<in> s_id ` set rows) (nextState e (goNow e) g) (subscriptions (wdb w)),
       outbox_events := outbox_events (wdb w) @ news\<rparr>"
    "map (\<lambda>r. (ob_event_type r, ob_aggregate_id r)) news = concat (map (transitionEvent (goNow e) g) rows)"
proof -
  from run obtain w1 w2 w3 rows where claim: "exec (ClaimSubscriptionsForLifecycle (goNow e) batchSize) e w1 = (Inr rows, w2)"
    and each: "forEach (lifecycleStep (goNow e) g) rows e w2 = (Inr (), w3)" and w1: "wdb w1 = wdb w"
    and n: "n = length rows" and w': "wdb w' = wdb w3"
    unfolding processLifecycleBatch_def
    by (elim bndE) (auto simp: asks_ok ret_ok in_tx_ok elim!: bndE)
  from claim w1 have c: "ClaimSubscriptionsForLifecycle (goNow e) batchSize e (wdb w) = Inr (rows, wdb w2)"
    by (auto simp: exec_ok)
  note w2 = lifecycle_claimed(1)[OF c keys] and rows = lifecycle_claimed(2-6)[OF c keys]
  have "set rows \<subseteq> set (subscriptions (wdb w))" using rows(1) by (auto simp: claimable_def)
  with forEach_lifecycle[OF each] keys rows(3) w2 obtain news where
    "wdb w3 = (wdb w)\<lparr>subscriptions := sqlUpdate (\<lambda>r. s_id r \<in> s_id ` set rows) (nextState e (goNow e) g) (subscriptions (wdb w)),
      outbox_events := outbox_events (wdb w) @ news\<rparr>"
    "map (\<lambda>r. (ob_event_type r, ob_aggregate_id r)) news = concat (map (transitionEvent (goNow e) g) rows)"
    by auto
  with rows n w' show thesis by (intro that[of rows news]) simp_all
qed

lemma nextState_due:
  assumes "lifecycleDue (goNow e) s"
  shows "nextState e (goNow e) g s = (if s_status s = ''past_due''
      then s\<lparr>s_status := ''suspended'', s_ended_at := None, s_version := s_version s + 1, s_updated_at := pgNow e\<rparr>
      else if s_cancel_at_period_end s
      then s\<lparr>s_status := ''cancelled'', s_grace_until := None, s_ended_at := Some (goNow e), s_version := s_version s + 1, s_updated_at := pgNow e\<rparr>
      else s\<lparr>s_status := ''past_due'', s_grace_until := Some (the (s_current_period_end s) + g), s_ended_at := None,
        s_version := s_version s + 1, s_updated_at := pgNow e\<rparr>)"
    and "transitionEvent (goNow e) g s = [(if s_status s = ''past_due'' then ''subscription.suspended.v1''
      else if s_cancel_at_period_end s then ''subscription.cancelled.v1'' else ''subscription.past_due.v1'', s_id s)]"
proof -
  from assms consider (active) t where "s_status s = ''active''" "s_current_period_end s = Some t" "t \<le> goNow e"
    | (past_due) t where "s_status s = ''past_due''" "s_grace_until s = Some t" "t \<le> goNow e"
    by (auto simp: lifecycleDue_def split: option.splits)
  note due = this
  show "nextState e (goNow e) g s = (if s_status s = ''past_due''
      then s\<lparr>s_status := ''suspended'', s_ended_at := None, s_version := s_version s + 1, s_updated_at := pgNow e\<rparr>
      else if s_cancel_at_period_end s
      then s\<lparr>s_status := ''cancelled'', s_grace_until := None, s_ended_at := Some (goNow e), s_version := s_version s + 1, s_updated_at := pgNow e\<rparr>
      else s\<lparr>s_status := ''past_due'', s_grace_until := Some (the (s_current_period_end s) + g), s_ended_at := None,
        s_version := s_version s + 1, s_updated_at := pgNow e\<rparr>)"
    using due by cases (simp_all add: nextState_def decided_def decideLifecycleTransition_def notAfter_def not_less)
  show "transitionEvent (goNow e) g s = [(if s_status s = ''past_due'' then ''subscription.suspended.v1''
      else if s_cancel_at_period_end s then ''subscription.cancelled.v1'' else ''subscription.past_due.v1'', s_id s)]"
    using due by cases (simp_all add: transitionEvent_def decideLifecycleTransition_def notAfter_def not_less)
qed

text \<open>
  C8: the lifecycle batch does exactly the transitions that are due. A subscription is due when it is
  active and its period has ended, or past due and its grace has run out. A successful batch takes the due
  subscriptions that no other worker holds, all of them when they fit into the batch, the earliest first when they do not.
  Each that is active is cancelled at once when the customer asked for it, and otherwise becomes
  past due until the end of its period plus the grace period; each that is past due is suspended. Their
  versions go up by one, no other subscription changes, and one event of the matching type is
  written per transition, in order.
\<close>

theorem processLifecycleBatch_exact:
  assumes run: "processLifecycleBatch g batchSize e w = (Inr n, w')"
    and keys: "distinct (map s_id (subscriptions (wdb w)))"
    and due: "due = {s \<in> set (subscriptions (wdb w)). \<not> pgLocked e (s_id s) \<and>
      (s_status s = ''active'' \<and> (\<exists>t. s_current_period_end s = Some t \<and> t \<le> goNow e) \<or>
       s_status s = ''past_due'' \<and> (\<exists>t. s_grace_until s = Some t \<and> t \<le> goNow e))}"
  shows "\<exists>rows news. set rows \<subseteq> due \<and> distinct rows \<and> n = length rows \<and> n = min batchSize (card due) \<and>
     (\<forall>s\<in>set rows. \<forall>q\<in>due - set rows. lifecycleKey s \<le> lifecycleKey q) \<and>
     wdb w' = (wdb w)\<lparr>subscriptions := map (\<lambda>s. if s \<notin> set rows then s
         else if s_status s = ''past_due''
         then s\<lparr>s_status := ''suspended'', s_ended_at := None, s_version := s_version s + 1, s_updated_at := pgNow e\<rparr>
         else if s_cancel_at_period_end s
         then s\<lparr>s_status := ''cancelled'', s_grace_until := None, s_ended_at := Some (goNow e), s_version := s_version s + 1, s_updated_at := pgNow e\<rparr>
         else s\<lparr>s_status := ''past_due'', s_grace_until := Some (the (s_current_period_end s) + g), s_ended_at := None,
           s_version := s_version s + 1, s_updated_at := pgNow e\<rparr>) (subscriptions (wdb w)),
       outbox_events := outbox_events (wdb w) @ news\<rparr> \<and>
     map (\<lambda>ev. (ob_event_type ev, ob_aggregate_id ev)) news = map (\<lambda>s. (if s_status s = ''past_due'' then ''subscription.suspended.v1''
       else if s_cancel_at_period_end s then ''subscription.cancelled.v1'' else ''subscription.past_due.v1'', s_id s)) rows"
proof -
  have eq: "claimable e (wdb w) = due" by (auto simp: claimable_def due lifecycleDue_def split: option.splits)
  from run keys obtain rows news where rows: "set rows \<subseteq> due" "distinct rows" "n = length rows" "n = min batchSize (card due)"
      "\<forall>s\<in>set rows. \<forall>q\<in>due - set rows. lifecycleKey s \<le> lifecycleKey q"
    and eff: "wdb w' = (wdb w)\<lparr>subscriptions := sqlUpdate (\<lambda>r. s_id r \<in> s_id ` set rows) (nextState e (goNow e) g) (subscriptions (wdb w)),
       outbox_events := outbox_events (wdb w) @ news\<rparr>"
    and news: "map (\<lambda>r. (ob_event_type r, ob_aggregate_id r)) news = concat (map (transitionEvent (goNow e) g) rows)"
    unfolding eq[symmetric] by (rule processLifecycleBatch_effect)
  have is_due: "lifecycleDue (goNow e) s" if "s \<in> set rows" for s using that rows(1) eq by (auto simp: claimable_def)
  have key: "s_id s \<in> s_id ` set rows \<longleftrightarrow> s \<in> set rows" if "s \<in> set (subscriptions (wdb w))" for s
    using that keys rows(1) by (auto simp: due distinct_map inj_on_def)
  have "concat (map (transitionEvent (goNow e) g) rows) = concat (map (\<lambda>s. [(if s_status s = ''past_due'' then ''subscription.suspended.v1''
       else if s_cancel_at_period_end s then ''subscription.cancelled.v1'' else ''subscription.past_due.v1'', s_id s)]) rows)"
    using is_due nextState_due(2) by (intro arg_cong[where f = concat] map_cong refl) blast
  with rows eff news key is_due nextState_due(1)[of e] show ?thesis
    by (intro exI[of _ rows] exI[of _ news] conjI) (simp_all add: sqlUpdate_def concat_map_singleton cong: map_cong)
qed

section \<open>Grace\<close>

definition graceInv :: "duration \<Rightarrow> db \<Rightarrow> bool" where
  "graceInv g d \<longleftrightarrow> distinct (map s_id (subscriptions d)) \<and>
     (\<forall>s\<in>set (subscriptions d). s_status s \<in> {''past_due'', ''suspended''} \<longrightarrow>
        (\<exists>t. s_current_period_end s = Some t \<and> s_grace_until s = Some (t + g)))"

lemma nextState_cases:
  obtains (stay) "nextState e now g s = s" "\<not> lifecycleDue now s"
  | (go) s' where "advances now g s s'" "nextState e now g s = stamped e s'"
proof (cases "decideLifecycleTransition s now g")
  case None
  with stay decide_due[of s now g] show ?thesis by (auto simp: nextState_def)
next
  case (Some x)
  with go decide_advances[OF Some, of e] show ?thesis by (auto simp: nextState_def)
qed

lemma graceInv_nextState:
  assumes "graceInv g d" and "subscriptions d' = sqlUpdate P (nextState e now g) (subscriptions d)"
  shows "graceInv g d'"
proof -
  have "\<exists>t. s_current_period_end s' = Some t \<and> s_grace_until s' = Some (t + g)"
    if s': "s' \<in> set (subscriptions d')" "s_status s' \<in> {''past_due'', ''suspended''}" for s'
  proof -
    from s'(1) assms(2) obtain s where s: "s \<in> set (subscriptions d)" "s' = s \<or> s' = nextState e now g s"
      by (auto simp: set_sqlUpdate)
    show ?thesis
    proof (cases "s' = s")
      case True
      with s s' assms(1) show ?thesis by (auto simp: graceInv_def)
    next
      case False
      with s(2) obtain x where "advances now g s x" "s' = stamped e x"
        by (cases rule: nextState_cases[of e now g s]) auto
      with s(1) s'(2) assms(1) show ?thesis
        by (auto simp: graceInv_def stamped_def elim!: advancesE)
    qed
  qed
  moreover have "distinct (map s_id (subscriptions d'))" using assms by (simp add: graceInv_def map_sqlUpdate)
  ultimately show ?thesis by (auto simp: graceInv_def)
qed

text \<open>
  C9: nobody is suspended early. When past due subscriptions carry the grace deadline the batch gave
  them, a batch that suspends a subscription runs at least the grace period after the end of the
  period that was paid for, and the batch keeps that invariant.
\<close>

theorem processLifecycleBatch_grace:
  assumes run: "processLifecycleBatch g batchSize e w = (Inr n, w')" and inv: "graceInv g (wdb w)"
  shows "graceInv g (wdb w') \<and>
     (\<forall>s\<in>set (subscriptions (wdb w)). \<forall>s'\<in>set (subscriptions (wdb w')).
        s_id s' = s_id s \<longrightarrow> s_status s \<noteq> ''suspended'' \<longrightarrow> s_status s' = ''suspended'' \<longrightarrow>
        (\<exists>t. s_current_period_end s = Some t \<and> t + g \<le> goNow e))"
proof -
  have keys: "distinct (map s_id (subscriptions (wdb w)))" using inv by (simp add: graceInv_def)
  obtain rows :: "subscriptionRow list" and news where
    "wdb w' = (wdb w)\<lparr>subscriptions := sqlUpdate (\<lambda>r. s_id r \<in> s_id ` set rows) (nextState e (goNow e) g) (subscriptions (wdb w)),
       outbox_events := outbox_events (wdb w) @ news\<rparr>" by (rule processLifecycleBatch_effect[OF run keys]) blast
  then have subs: "subscriptions (wdb w') = sqlUpdate (\<lambda>r. s_id r \<in> s_id ` set rows) (nextState e (goNow e) g) (subscriptions (wdb w))"
    by simp
  have "\<exists>t. s_current_period_end s = Some t \<and> t + g \<le> goNow e"
    if s: "s \<in> set (subscriptions (wdb w))" "s' \<in> set (subscriptions (wdb w'))" "s_id s' = s_id s"
      "s_status s \<noteq> ''suspended''" "s_status s' = ''suspended''" for s s'
  proof -
    from s(2) subs obtain x where x: "x \<in> set (subscriptions (wdb w))" "s' = x \<or> s' = nextState e (goNow e) g x"
      by (auto simp: set_sqlUpdate)
    with s(1,3) keys have "x = s" by (auto simp: distinct_map inj_on_def)
    with x(2) s(4,5) obtain y where "advances (goNow e) g s y" "s_status y = ''suspended''"
      by (cases rule: nextState_cases[of e "goNow e" g s]) (auto simp: stamped_def)
    with inv s(1) show ?thesis by (auto simp: graceInv_def elim!: advancesE)
  qed
  with graceInv_nextState[OF inv subs] show ?thesis by blast
qed

section \<open>Quiescence\<close>

lemma nextState_twice: "\<not> lifecycleDue now (nextState e now g (nextState e now g s))"
proof (cases rule: nextState_cases[of e now g s])
  case stay
  then show ?thesis by simp
next
  case (go s')
  then show ?thesis
  proof (cases rule: nextState_cases[of e now g "nextState e now g s"])
    case stay
    then show ?thesis by simp
  next
    case (go s'')
    with \<open>advances now g s s'\<close> \<open>nextState e now g s = stamped e s'\<close> show ?thesis
      by (auto simp: stamped_def lifecycleDue_def elim!: advancesE)
  qed
qed

lemma full_batch:
  assumes run: "processLifecycleBatch g batchSize e w = (Inr n, w')" and keys: "distinct (map s_id (subscriptions (wdb w)))"
    and all: "\<forall>i. \<not> pgLocked e i" "length (subscriptions (wdb w)) \<le> batchSize"
  shows "subscriptions (wdb w') = map (nextState e (goNow e) g) (subscriptions (wdb w))"
proof -
  obtain rows news where sub: "set rows \<subseteq> claimable e (wdb w)" "distinct rows" "n = length rows" "n = min batchSize (card (claimable e (wdb w)))"
    and eff: "wdb w' = (wdb w)\<lparr>subscriptions := sqlUpdate (\<lambda>r. s_id r \<in> s_id ` set rows) (nextState e (goNow e) g) (subscriptions (wdb w)),
       outbox_events := outbox_events (wdb w) @ news\<rparr>" by (rule processLifecycleBatch_effect[OF run keys]) blast
  have "card (claimable e (wdb w)) \<le> card (set (subscriptions (wdb w)))" by (rule card_mono) (auto simp: claimable_def)
  also have "\<dots> \<le> batchSize" using all(2) card_length[of "subscriptions (wdb w)"] by linarith
  finally have "card (set rows) = card (claimable e (wdb w))" using sub(2-4) by (simp add: distinct_card)
  then have "set rows = claimable e (wdb w)" using sub(1) by (intro card_subset_eq) (auto simp: claimable_def)
  then have rows: "set rows = {s \<in> set (subscriptions (wdb w)). lifecycleDue (goNow e) s}" using all(1) by (simp add: claimable_def)
  have "nextState e (goNow e) g s = s" if "s \<in> set (subscriptions (wdb w))" "s_id s \<notin> s_id ` set rows" for s
    using that rows decide_due[of s "goNow e" g] by (auto simp: nextState_def)
  then show ?thesis by (simp add: eff sqlUpdate_def)
qed

text \<open>
  C10: the worker catches up. Two batches large enough for all rows, at one instant and with no row
  held by another worker, leave no subscription due at that instant, however far behind they started.
\<close>

theorem processLifecycleBatch_settles:
  assumes run1: "processLifecycleBatch g batchSize e w = (Inr n, w1)"
    and run2: "processLifecycleBatch g batchSize e w1 = (Inr m, w2)"
    and keys: "distinct (map s_id (subscriptions (wdb w)))"
    and all: "\<forall>i. \<not> pgLocked e i" "length (subscriptions (wdb w)) \<le> batchSize"
  shows "\<forall>s\<in>set (subscriptions (wdb w2)). \<not> lifecycleDue (goNow e) s"
proof -
  have w1: "subscriptions (wdb w1) = map (nextState e (goNow e) g) (subscriptions (wdb w))"
    by (rule full_batch[OF run1 keys all])
  have "distinct (map s_id (subscriptions (wdb w1)))" using keys by (simp add: w1 comp_def)
  from full_batch[OF run2 this all(1)] all(2)
  have "subscriptions (wdb w2) = map (\<lambda>s. nextState e (goNow e) g (nextState e (goNow e) g s)) (subscriptions (wdb w))"
    by (simp add: w1)
  then show ?thesis by (auto simp: nextState_twice)
qed

section \<open>Cancellation\<close>

lemma subscriptionView_ok:
  assumes "subscriptionView userID subID e w = (Inr v, w')"
  shows "wdb w' = wdb w \<and> (\<exists>s\<in>set (subscriptions (wdb w)). s_id s = subID \<and> s_user_id s = userID \<and>
     Subscription_ID v = subID \<and> Subscription_CancelAtPeriodEnd v = s_cancel_at_period_end s \<and> Subscription_Version v = s_version s)"
proof -
  from assms[unfolded subscriptionView_def] obtain rows w1 where
    rows: "exec (ListSubscriptionsByUser userID) e w = (Inr rows, w1)"
    and v: "(case filter (\<lambda>row. s_id (sl_subscription row) = subID) rows of
       row # _ \<Rightarrow> ret (fromListRow row) | [] \<Rightarrow> raise ErrNotFound) e w1 = (Inr v, w')"
    by (rule bndE)
  from v obtain row rest where f: "filter (\<lambda>row. s_id (sl_subscription row) = subID) rows = row # rest"
    and row: "v = fromListRow row" "w' = w1"
    by (auto simp: io_simps split: list.splits)
  from f have "row \<in> set (filter (\<lambda>row. s_id (sl_subscription row) = subID) rows)" by simp
  then have "row \<in> set rows" "s_id (sl_subscription row) = subID" by simp_all
  have "wdb w1 = wdb w" "\<forall>r\<in>set rows. sl_subscription r \<in> set (subscriptions (wdb w)) \<and> s_user_id (sl_subscription r) = userID"
    using rows by (auto simp: exec_ok ListSubscriptionsByUser_def selectMany_ok split: if_splits)
  moreover note row \<open>row \<in> set rows\<close> \<open>s_id (sl_subscription row) = subID\<close>
  ultimately show ?thesis by (intro conjI bexI[of _ "sl_subscription row"]) (auto simp: fromListRow_def Let_def)
qed

lemma createSubscriptionEvent_ok:
  assumes "createSubscriptionEvent eventType s now e w = (Inr u, w')"
  obtains ev where "wdb w' = (wdb w)\<lparr>outbox_events := outbox_events (wdb w) @ [ev]\<rparr>"
    "ob_aggregate_id ev = s_id s" "ob_event_type ev = eventType" "ob_status ev = ''pending''"
proof -
  from assms obtain eventID payload where "wdb w' = (wdb w)\<lparr>outbox_events := outbox_events (wdb w) @
      [newOutboxEvent e eventID eventType ''subscription'' (s_id s) payload]\<rparr>"
    by (auto simp: createSubscriptionEvent_def io_simps CreateOutboxEvent_def Let_def)
  with that show ?thesis by (simp add: newOutboxEvent_def)
qed

lemma changeCancel_ok:
  assumes run: "changeCancel userID subID cancel e w = (Inr r, w')"
  obtains v s ev where "r = Commit v" "s \<in> set (subscriptions (wdb w))" "s_id s = subID"
    "Subscription_ID v = subID" "Subscription_CancelAtPeriodEnd v = cancel" "Subscription_Version v = s_version s + 1"
    "ob_aggregate_id ev = subID" "ob_event_type ev = cancelEventType cancel"
    "wdb w' = (wdb w)\<lparr>subscriptions := sqlUpdate (\<lambda>r. s_id r = subID)
        (\<lambda>r. r\<lparr>s_cancel_at_period_end := cancel, s_version := s_version r + 1, s_updated_at := pgNow e\<rparr>) (subscriptions (wdb w)),
      outbox_events := outbox_events (wdb w) @ [ev]\<rparr>"
proof -
  from run[unfolded changeCancel_def] obtain updated now v w1 w2 w3 w4 u where
    set: "exec (SetSubscriptionCancelAtPeriodEnd subID cancel) e w = (Inr updated, w1)"
    and now: "asks goNow e w1 = (Inr now, w2)"
    and ev: "createSubscriptionEvent (cancelEventType cancel) updated now e w2 = (Inr u, w3)"
    and view: "subscriptionView userID subID e w3 = (Inr v, w4)" and r: "ret (Commit v) e w4 = (Inr r, w')"
    by (elim bndE) blast
  from set now have w2: "wdb w2 = (wdb w)\<lparr>subscriptions := sqlUpdate (\<lambda>r. s_id r = subID)
      (\<lambda>r. r\<lparr>s_cancel_at_period_end := cancel, s_version := s_version r + 1, s_updated_at := pgNow e\<rparr>) (subscriptions (wdb w))\<rparr>"
    and upd: "s_id updated = subID"
    by (auto simp: io_simps SetSubscriptionCancelAtPeriodEnd_def dest!: one_filter_Inr)
  from ev obtain evt where w3: "wdb w3 = (wdb w2)\<lparr>outbox_events := outbox_events (wdb w2) @ [evt]\<rparr>"
    and evt: "ob_aggregate_id evt = s_id updated" "ob_event_type evt = cancelEventType cancel"
    by (rule createSubscriptionEvent_ok)
  from subscriptionView_ok[OF view] obtain s' where w4: "wdb w4 = wdb w3" and s': "s' \<in> set (subscriptions (wdb w3))" "s_id s' = subID"
    and v: "Subscription_ID v = subID" "Subscription_CancelAtPeriodEnd v = s_cancel_at_period_end s'" "Subscription_Version v = s_version s'"
    by blast
  from s'(1) have "s' \<in> set (sqlUpdate (\<lambda>r. s_id r = subID)
      (\<lambda>r. r\<lparr>s_cancel_at_period_end := cancel, s_version := s_version r + 1, s_updated_at := pgNow e\<rparr>) (subscriptions (wdb w)))"
    by (simp add: w3 w2)
  then obtain s where "s \<in> set (subscriptions (wdb w))" "s_id s = subID" "s_cancel_at_period_end s' = cancel" "s_version s' = s_version s + 1"
    by (rule in_sqlUpdateE) (use s'(2) in simp_all)
  with v evt upd r w4 show ?thesis by (intro that[of v s evt]) (simp_all add: ret_ok w3 w2)
qed

text \<open>
  C11: a customer can only schedule or withdraw the cancellation of a subscription of their own that is
  active. The answer shows the flag as asked for; asking for what is already so changes nothing, and
  otherwise the flag and the version of that one row change and one event is recorded with it.
\<close>

theorem SetCancelAtPeriodEnd_exact:
  assumes run: "SetCancelAtPeriodEnd userID subID cancel e w = (Inr v, w')"
    and keys: "distinct (map s_id (subscriptions (wdb w)))"
  shows "\<exists>s\<in>set (subscriptions (wdb w)). s_id s = subID \<and> s_user_id s = userID \<and> s_status s = ''active'' \<and>
     Subscription_ID v = subID \<and> Subscription_CancelAtPeriodEnd v = cancel \<and>
     (if s_cancel_at_period_end s = cancel then wdb w' = wdb w
      else Subscription_Version v = s_version s + 1 \<and> (\<exists>ev. ob_aggregate_id ev = subID \<and>
        ob_event_type ev = cancelEventType cancel \<and>
        wdb w' = (wdb w)\<lparr>subscriptions := sqlUpdate (\<lambda>r. s_id r = subID)
            (\<lambda>r. r\<lparr>s_cancel_at_period_end := cancel, s_version := s_version r + 1, s_updated_at := pgNow e\<rparr>) (subscriptions (wdb w)),
          outbox_events := outbox_events (wdb w) @ [ev]\<rparr>))"
proof -
  from run obtain r current w2 w3 where lock: "exec (LockSubscriptionByUser subID userID) e (tick w) = (Inr current, w2)"
    and body: "(if s_status current \<noteq> ''active'' then raise ErrInvalidState
     else if s_cancel_at_period_end current = cancel
     then bnd (subscriptionView userID subID) (\<lambda>v. ret (Rollback v))
     else changeCancel userID subID cancel) e w2 = (Inr r, w3)"
    and r: "r = Commit v \<and> wdb w' = wdb w3 \<or> r = Rollback v \<and> wdb w' = wdb w"
    unfolding SetCancelAtPeriodEnd_def in_tx_ok by (auto elim!: bndE simp: orNoRows_ok)
  from lock have w2: "wdb w2 = wdb w" and s: "current \<in> set (subscriptions (wdb w))" "s_id current = subID" "s_user_id current = userID"
    by (auto simp: exec_ok LockSubscriptionByUser_def selectOne_ok dest!: one_filter_Inr)
  have uniq: "x = current" if "x \<in> set (subscriptions (wdb w))" "s_id x = subID" for x
    using keys s that by (auto simp: distinct_map inj_on_def)
  from body have act: "s_status current = ''active''" by (auto simp: raise_ok split: if_splits)
  show ?thesis
  proof (cases "s_cancel_at_period_end current = cancel")
    case True
    with body act r have "subscriptionView userID subID e w2 = (Inr v, w3)" and "r = Rollback v"
      by (auto elim!: bndE simp: ret_ok)
    moreover from subscriptionView_ok[OF this(1)] obtain x where x: "x \<in> set (subscriptions (wdb w))" "s_id x = subID"
      "Subscription_ID v = subID" "Subscription_CancelAtPeriodEnd v = s_cancel_at_period_end x" by (auto simp: w2)
    moreover from uniq[OF x(1,2)] have "x = current" .
    ultimately show ?thesis using r s act True by (intro bexI[of _ current]) simp_all
  next
    case False
    with body act have "changeCancel userID subID cancel e w2 = (Inr r, w3)" by simp
    then show ?thesis
    proof (rule changeCancel_ok)
      fix v' x ev
      assume c: "r = Commit v'" "x \<in> set (subscriptions (wdb w2))" "s_id x = subID" "Subscription_ID v' = subID"
        "Subscription_CancelAtPeriodEnd v' = cancel" "Subscription_Version v' = s_version x + 1"
        "ob_aggregate_id ev = subID" "ob_event_type ev = cancelEventType cancel"
        "wdb w3 = (wdb w2)\<lparr>subscriptions := sqlUpdate (\<lambda>r. s_id r = subID)
            (\<lambda>r. r\<lparr>s_cancel_at_period_end := cancel, s_version := s_version r + 1, s_updated_at := pgNow e\<rparr>) (subscriptions (wdb w2)),
          outbox_events := outbox_events (wdb w2) @ [ev]\<rparr>"
      have "x = current" using c(2,3) uniq[of x] by (simp add: w2)
      moreover have "v' = v" "wdb w' = wdb w3" using c(1) r by auto
      ultimately show ?thesis using c(4-9) s act False w2 by (intro bexI[of _ current]) auto
    qed
  qed
qed

section \<open>Witnesses\<close>

definition active0 :: subscriptionRow where
  "active0 = subscription0\<lparr>s_status := ''active'', s_grace_until := None, s_cancel_at_period_end := False\<rparr>"

definition world0_active :: world where
  "world0_active = world0\<lparr>wdb := db0\<lparr>subscriptions := [active0]\<rparr>\<rparr>"

definition batch0 :: "world \<Rightarrow> (err + nat) \<times> world" where
  "batch0 = processLifecycleBatch (100 * second) 50 env0"

lemma sample_batch: "succeeded (batch0 world0_active)" "succeeded (batch0 (snd (batch0 world0_active)))"
  by code_simp+

lemma world0_active_subs: "subscriptions (wdb world0_active) = [active0]"
  by (simp add: world0_active_def)

theorem processLifecycleBatch_exact_witness:
  "\<exists>w'. processLifecycleBatch (100 * second) 50 env0 world0_active = (Inr 1, w') \<and>
     map s_status (subscriptions (wdb w')) = [''past_due''] \<and> map ob_event_type (outbox_events (wdb w')) = [''subscription.past_due.v1'']"
proof -
  from sample_batch(1) obtain n w' where run: "processLifecycleBatch (100 * second) 50 env0 world0_active = (Inr n, w')"
    unfolding batch0_def by (rule succeededE)
  have keys: "distinct (map s_id (subscriptions (wdb world0_active)))" by (simp add: world0_active_subs)
  define due where "due = {s \<in> set (subscriptions (wdb world0_active)). \<not> pgLocked env0 (s_id s) \<and>
      (s_status s = ''active'' \<and> (\<exists>t. s_current_period_end s = Some t \<and> t \<le> goNow env0) \<or>
       s_status s = ''past_due'' \<and> (\<exists>t. s_grace_until s = Some t \<and> t \<le> goNow env0))}"
  have one: "due = {active0}" by (auto simp: due_def world0_active_subs active0_def subscription0_def env0_def)
  from processLifecycleBatch_exact[OF run keys due_def] obtain rows news where
    rows: "set rows \<subseteq> due" "distinct rows" "n = length rows" "n = min 50 (card due)"
    and subs: "map s_status (subscriptions (wdb w')) = map (\<lambda>s. if s \<notin> set rows then s_status s else if s_status s = ''past_due'' then ''suspended''
      else if s_cancel_at_period_end s then ''cancelled'' else ''past_due'') (subscriptions (wdb world0_active))"
    and evs: "outbox_events (wdb w') = outbox_events (wdb world0_active) @ news"
    and news: "map (\<lambda>ev. (ob_event_type ev, ob_aggregate_id ev)) news = map (\<lambda>s. (if s_status s = ''past_due'' then ''subscription.suspended.v1''
       else if s_cancel_at_period_end s then ''subscription.cancelled.v1'' else ''subscription.past_due.v1'', s_id s)) rows"
    by (auto simp: if_distrib)
  have "n = 1" using rows(4) one by simp
  then have "rows = [active0]" using rows(1,3) one by (cases rows) auto
  moreover have "map ob_event_type news = map fst (map (\<lambda>ev. (ob_event_type ev, ob_aggregate_id ev)) news)" by (simp add: comp_def)
  ultimately show ?thesis using run rows(3) subs evs unfolding news
    by (simp add: world0_active_subs active0_def subscription0_def world0_active_def db0_def emptyDb_def world0_def)
qed

theorem processLifecycleBatch_grace_witness:
  "\<exists>n w'. processLifecycleBatch (100 * second) 50 env0 world0_active = (Inr n, w') \<and> graceInv (100 * second) (wdb w')"
proof -
  from sample_batch(1) obtain n w' where run: "processLifecycleBatch (100 * second) 50 env0 world0_active = (Inr n, w')"
    unfolding batch0_def by (rule succeededE)
  have "graceInv (100 * second) (wdb world0_active)"
    by (simp add: graceInv_def world0_active_subs active0_def)
  from processLifecycleBatch_grace[OF run this] run show ?thesis by auto
qed

theorem processLifecycleBatch_settles_witness:
  "\<exists>n m w1 w2. processLifecycleBatch (100 * second) 50 env0 world0_active = (Inr n, w1) \<and>
     processLifecycleBatch (100 * second) 50 env0 w1 = (Inr m, w2) \<and>
     (\<forall>s\<in>set (subscriptions (wdb w2)). \<not> lifecycleDue (goNow env0) s)"
proof -
  from sample_batch(1) obtain n w1 where run1: "batch0 world0_active = (Inr n, w1)" by (rule succeededE)
  with sample_batch(2) obtain m w2 where run2: "batch0 w1 = (Inr m, w2)" by (auto elim: succeededE)
  note runs = run1[unfolded batch0_def] run2[unfolded batch0_def]
  show ?thesis
    using runs processLifecycleBatch_settles[OF runs] by (auto simp: world0_active_subs env0_def)
qed

lemma sample_cancel: "succeeded (SetCancelAtPeriodEnd 1 9 True env0 world0_active)"
  by code_simp

theorem SetCancelAtPeriodEnd_exact_witness:
  "\<exists>v w'. SetCancelAtPeriodEnd 1 9 True env0 world0_active = (Inr v, w') \<and> Subscription_Version v = 5 \<and>
     Subscription_CancelAtPeriodEnd v"
proof -
  from sample_cancel obtain v w' where run: "SetCancelAtPeriodEnd 1 9 True env0 world0_active = (Inr v, w')" by (rule succeededE)
  from SetCancelAtPeriodEnd_exact[OF run] run show ?thesis
    by (auto simp: world0_active_subs active0_def subscription0_def)
qed

end
