(* ===== verification/Worker.thy ===== *)
theory Worker
  imports Instance_Action Reconcile_Laws Provision_Laws Outbox Subscription
begin

text \<open>
  The worker process (\<open>cmd/worker/main.go\<close>, \<open>internal/worker/worker.go\<close>): the workflows it registers, and its
  round of the six processors. The properties of the components hold of the process as a whole: whatever
  Redis delivers, whatever the providers answer and whatever fails.
\<close>

section \<open>The process\<close>

definition workerRegistry :: "resolver \<Rightarrow> err + registry" where
  "workerRegistry resolve = foldl (\<lambda>r action. case r of Inl x \<Rightarrow> Inl x | Inr handlers \<Rightarrow> Register handlers action (Some (InstanceExecute resolve)))
     (Register Map.empty ''provision'' (Some (ProvisionExecute resolve))) instanceActions"

text \<open>What Redis answers in one round.\<close>

record deliveries =
  dl_idText :: "nat \<Rightarrow> string"
  dl_triggerGroup :: "err + unit"
  dl_triggerFresh :: "err + (nat \<times> string \<times> json) list"
  dl_queueGroup :: "err + unit"
  dl_queueClaimed :: "err + (nat \<times> json option) list"
  dl_queueFresh :: "err + (nat \<times> json option) list"

text \<open>One pass over the processors; an error is logged and the next processor runs.\<close>

definition workerRound :: "resolver \<Rightarrow> registry \<Rightarrow> duration \<Rightarrow> deliveries \<Rightarrow> unit io" where
  "workerRound resolve handlers gracePeriod inp =
    bnd (ignore (dispatchBatch 50)) (\<lambda>_.
    bnd (ignore (TriggerConsumer_ProcessBatch (dl_idText inp) (dl_triggerGroup inp) (dl_triggerFresh inp))) (\<lambda>_.
    bnd (ignore (retryBatch 50)) (\<lambda>_.
    bnd (ignore (reconcileBatch resolve)) (\<lambda>_.
    bnd (ignore (QueueConsumer_ProcessBatch handlers (dl_queueGroup inp) (dl_queueClaimed inp) (dl_queueFresh inp))) (\<lambda>_.
    ignore (processLifecycleBatch gracePeriod defaultLifecycleBatchSize))))))"

primrec workerRun :: "resolver \<Rightarrow> registry \<Rightarrow> duration \<Rightarrow> (env \<times> deliveries) list \<Rightarrow> world \<Rightarrow> world" where
  "workerRun resolve handlers gracePeriod [] w = w"
| "workerRun resolve handlers gracePeriod (r # rs) w =
     workerRun resolve handlers gracePeriod rs (snd (workerRound resolve handlers gracePeriod (snd r) (fst r) w))"

section \<open>What every processor keeps\<close>

lemma remoteResolverD: "remoteResolver resolve \<Longrightarrow> resolve i e w = (Inr ad, w') \<Longrightarrow> remoteAdapter ad"
  unfolding remoteResolver_def by blast

context provisioning
begin

lemma keeps_orFail: "keeps I m \<Longrightarrow> keeps I (orFail f m)"
  unfolding orFail_def by (intro keeps_bnd keeps_attempt keeps_sum keeps_raise keeps_ret)

lemma keeps_updateInstances: "(\<And>e d. q e d = updateInstances (P e d) (f e d) d) \<Longrightarrow> qkeeps I q"
  by (rule qkeepsI) (auto intro: tables_kept dest!: updateInstances_ok)

lemma keeps_resolved:
  assumes "remoteResolver resolve" "\<And>ad. remoteAdapter ad \<Longrightarrow> keeps I (f ad)"
  shows "keeps I (bnd (orFail g (resolve i)) f)"
proof (rule keeps_bnd_result)
  show "keeps I (orFail g (resolve i))"
    using assms(1) by (intro keeps_orFail keeps_remote tables_kept) (simp add: remoteResolver_def)
  show "orFail g (resolve i) e w = (Inr ad, w') \<Longrightarrow> keeps I (f ad)" for ad e w w'
    using assms(2) remoteResolverD[OF assms(1)] by (auto simp: orFail_def raise_ok ret_ok elim!: tryE)
qed

lemma keeps_adapter:
  assumes "remoteAdapter ad"
  shows "keeps I (GetInstance ad r)" "keeps I (callProvider ad action req img)"
  using assms unfolding callProvider_def remoteAdapter_def
  by (auto intro!: keeps_remote tables_kept)

lemma keeps_InstanceExecute:
  assumes "remoteResolver resolve"
  shows "keeps I (InstanceExecute resolve x)"
proof -
  note steps = keeps_bnd keeps_Progress keeps_step keeps_asks keeps_orFail keeps_if keeps_raise keeps_ret keeps_pool
  have ctx: "keeps I (actionContextOf i)" for i
    unfolding actionContextOf_def Let_def by (intro keeps_bnd keeps_pool qkeeps_readonly readonly_portal) (auto intro: keeps_ret keeps_raise split: option.split)
  have set: "keeps I (setActionState i d ob)" "keeps I (setObserved i ob)" for i d ob
    unfolding setActionState_def setObserved_def
    by (intro keeps_pool keeps_updateInstances; simp add: SetInstanceActionState_def SetInstanceObservedState_def)+
  have verify: "keeps I (verifyAction ad x current)" if "remoteAdapter ad" for ad current
    unfolding verifyAction_def Let_def by (intro steps keeps_adapter[OF that] set)
  have perform: "keeps I (performAction ad x current)" if "remoteAdapter ad" for ad current
    unfolding performAction_def Let_def by (intro steps keeps_adapter[OF that] verify that)
  show ?thesis unfolding InstanceExecute_def Let_def uuidOut_def
    by (intro keeps_bnd[OF keeps_orFail[OF ctx]] keeps_if keeps_raise keeps_bnd[OF keeps_Progress] keeps_bnd[OF keeps_asks] keeps_bnd[OF keeps_step(2)]
        keeps_bnd[OF keeps_orFail[OF set(1)]] keeps_resolved[OF assms] perform)
qed

lemma keeps_dispatch: "keeps I (dispatchBatch n)"
proof -
  have q: "qkeeps I (MarkOutboxPublished a)" "qkeeps I (MarkOutboxRetry a)" "qkeeps I (ClaimOutboxEvents n)" for a n
    by (rule qkeepsI; auto simp: MarkOutboxPublished_def MarkOutboxRetry_def ClaimOutboxEvents_def selectMany_def intro: outbox_kept)+
  have redis: "keeps I (XAddEvent ev)" "keeps I (XAddQueue ev)" for ev
    unfolding XAddEvent_def XAddQueue_def by (intro keeps_bnd keeps_asks keeps_redis; simp)+
  have retry: "keeps I (recordRetry ev x)" for ev x unfolding recordRetry_def by (intro keeps_bnd keeps_attempt keeps_exec q keeps_sum keeps_raise keeps_ret)
  have "keeps I (dispatchEvents evs)" for evs
    by (induction evs) (auto intro!: keeps_ret keeps_bnd keeps_attempt redis keeps_sum retry keeps_if keeps_exec q)
  then show ?thesis unfolding dispatchBatch_def by (intro keeps_bnd keeps_tx keeps_exec q keeps_ret keeps_ofResult)
qed

lemma keeps_lifecycle: "keeps I (processLifecycleBatch g n)"
proof -
  have q: "qkeeps I (UpdateSubscriptionLifecycle a b c d f)" "qkeeps I (ClaimSubscriptionsForLifecycle t n)" for a b c d f t n
    by (rule qkeepsI; auto simp: UpdateSubscriptionLifecycle_def ClaimSubscriptionsForLifecycle_def selectMany_def updateReturning_ok intro: tables_kept)+
  have "keeps I (createSubscriptionEvent t s now)" for t s now
    unfolding createSubscriptionEvent_def by (intro keeps_bnd keeps_newID keeps_asks keeps_exec qkeeps_writes)
  then have "keeps I (lifecycleStep now g s)" for now s
    unfolding lifecycleStep_def by (intro keeps_option keeps_ret keeps_bnd keeps_exec q)
  then show ?thesis unfolding processLifecycleBatch_def by (intro keeps_bnd keeps_asks keeps_tx keeps_exec q keeps_forEach keeps_ret)
qed

lemma keeps_trigger: "keeps I (TriggerConsumer_ProcessBatch t a b)"
proof -
  have ack: "keeps I (XAck g m)" for g m unfolding XAck_def by (intro keeps_redis) simp
  have "keeps I (triggerMessages t n ms)" for n ms
    by (induction ms arbitrary: n) (auto intro!: keeps_ret keeps_bnd keeps_attempt keeps_triggerProcess keeps_sum ack)
  then show ?thesis unfolding TriggerConsumer_ProcessBatch_def by (auto intro!: keeps_sum keeps_ret)
qed

lemma keeps_queue:
  assumes "\<And>t flow x. handlers t = Some flow \<Longrightarrow> keeps I (flow x)"
  shows "keeps I (QueueConsumer_ProcessBatch handlers a b c)"
proof -
  have ack: "keeps I (XAck g m)" for g m unfolding XAck_def by (intro keeps_redis) simp
  have msg: "keeps I (processMessage handlers m)" for m by (rule keeps_processMessage) (rule assms)
  have "keeps I (processMessages handlers n ms)" for n ms
    by (induction ms arbitrary: n) (auto intro!: keeps_ret keeps_bnd keeps_attempt msg keeps_sum ack)
  then show ?thesis unfolding QueueConsumer_ProcessBatch_def by (auto intro!: keeps_sum keeps_ret keeps_bnd keeps_if)
qed

end

text \<open>The contract of the reconciler's own statements.\<close>

locale worker = provisioning I for I +
  assumes expire_kept: "keeps I (expireReservations now n)"
    and offline_kept: "I d \<Longrightarrow> I (d\<lparr>nodes := sqlUpdate P (\<lambda>n. n\<lparr>n_status := ''offline'', n_updated_at := t\<rparr>) (nodes d)\<rparr>)"
begin

lemma keeps_heartbeats: "keeps I (expireNodeHeartbeats cutoff)"
proof -
  have q: "qkeeps I (markOffline cutoff)" "qkeeps I (disconnect i)" for i
    by (rule qkeepsI; auto simp: markOffline_def disconnect_def intro: tables_kept offline_kept)+
  have "qkeeps I (forgetObserved i)" for i by (rule keeps_updateInstances) (simp add: forgetObserved_def)
  with q show ?thesis unfolding expireNodeHeartbeats_def by (intro keeps_tx keeps_bnd keeps_exec keeps_forEach keeps_ret)
qed

lemma keeps_reconcileInstances:
  assumes "remoteResolver resolve"
  shows "keeps I (reconcileInstances resolve n)"
proof -
  have q: "qkeeps I (followSubscription a b f)" "qkeeps I (markUnknown i)" for a b f i
    by (rule keeps_updateInstances; simp add: followSubscription_def markUnknown_def)+
  have rec: "qkeeps I (recordObserved i p s)" for i p s
    by (rule qkeepsI) (auto simp: recordObserved_def intro: tables_kept dest!: updateInstances_ok split: sum.splits)
  have obs: "keeps I (reconcileObserved item inst)" for item inst
    unfolding reconcileObserved_def Let_def
    by (intro keeps_bnd keeps_pool rec keeps_if keeps_ret keeps_newID keeps_asks keeps_attempt keeps_Create keeps_sum keeps_raise)
  have one: "keeps I (reconcileOne resolve item)" for item
    unfolding reconcileOne_def
  proof (rule keeps_bnd_result)
    show "keeps I (attempt (resolve (icd_providerID item)))"
      using assms by (intro keeps_attempt keeps_remote tables_kept) (simp add: remoteResolver_def)
  next
    fix r e w w'
    assume "attempt (resolve (icd_providerID item)) e w = (Inr r, w')"
    then have "remoteAdapter ad" if "r = Inr ad" for ad using remoteResolverD[OF assms] that by (auto simp: attempt_ok)
    then show "keeps I (case r of Inl _ \<Rightarrow> ret 0 | Inr ad \<Rightarrow>
       bnd (asks (\<lambda>e. \<lparr>gi_NodeID = icd_providerNodeID item, gi_ProviderInstanceID = icd_providerInstanceID item,
           gi_PlatformInstanceID = uuidString e (icd_id item)\<rparr>)) (\<lambda>request.
       bnd (attempt (GetInstance ad request)) (\<lambda>r. case r of
         Inl x \<Rightarrow> if unreachable x then bnd (pool (markUnknown (icd_id item))) (\<lambda>_. ret 0) else ret 0
       | Inr inst \<Rightarrow> bnd (reconcileObserved item inst) (\<lambda>_. ret 1))))"
      by (intro keeps_sum keeps_ret keeps_bnd keeps_asks keeps_attempt keeps_adapter keeps_if keeps_pool q obs)
  qed
  have "keeps I (reconcileAll resolve items)" for items
    by (induction items) (auto intro!: keeps_ret keeps_bnd one)
  moreover have "readonly (selectCandidates n)" by (simp add: selectCandidates_def readonly_select)
  ultimately show ?thesis unfolding reconcileInstances_def by (intro keeps_bnd keeps_pool q qkeeps_readonly)
qed

lemma keeps_round:
  assumes "remoteResolver resolve" "workerRegistry resolve = Inr handlers"
  shows "keeps I (workerRound resolve handlers g inp)"
proof -
  have "flow = ProvisionExecute resolve \<or> flow = InstanceExecute resolve" if "handlers t = Some flow" for t flow
    using assms(2) that by (auto simp: workerRegistry_def instanceActions_def Register_def split: if_splits)
  then have flows: "keeps I (flow x)" if "handlers t = Some flow" for t flow x
    using that keeps_ProvisionExecute[OF assms(1)] keeps_InstanceExecute[OF assms(1)] by blast
  have "keeps I (reconcileBatch resolve)" unfolding reconcileBatch_def
    by (intro keeps_bnd keeps_asks keeps_RecoverStuck expire_kept keeps_heartbeats keeps_reconcileInstances assms(1) keeps_ret)
  then show ?thesis unfolding workerRound_def
    by (intro keeps_bnd keeps_ignore keeps_dispatch keeps_trigger keeps_retryBatch keeps_queue flows keeps_lifecycle)
qed

lemma keeps_run:
  assumes "remoteResolver resolve" "workerRegistry resolve = Inr handlers" and "\<forall>r\<in>set rs. \<forall>d. I d \<longrightarrow> I (concurrent (fst r) d)" "I (wdb w)"
  shows "I (wdb (workerRun resolve handlers g rs w))"
  using assms(3,4)
proof (induction rs arbitrary: w)
  case (Cons r rs)
  have "I (wdb (snd (workerRound resolve handlers g (snd r) (fst r) w)))"
    using keepsD[OF keeps_round[OF assms(1,2)] prod.collapse[symmetric]] Cons.prems by simp
  with Cons show ?case by simp
qed simp

end

section \<open>The invariants of the process\<close>

lemma expireReservations_operations:
  assumes "\<And>d d'. operations d' = operations d \<Longrightarrow> I d \<Longrightarrow> I d'"
  shows "keeps I (expireReservations now n)"
proof -
  have q: "qkeeps I (giveBack a b)" "qkeeps I (markExpired a)" for a b
    by (rule qkeeps_ignored[OF _ assms]; auto simp: giveBack_def markExpired_def Let_def split: if_splits)+
  have "keeps I (expireOne r)" for r
    unfolding expireOne_def by (intro keeps_bnd keeps_exec q keeps_if keeps_raise)
  moreover have "readonly (selectExpired now n)" by (simp add: selectExpired_def readonly_select)
  ultimately show ?thesis unfolding expireReservations_def by (intro keeps_tx keeps_bnd keeps_exec qkeeps_readonly keeps_forEach keeps_ret)
qed

interpretation constraints: worker operationsInv
  by unfold_locales (auto intro: expireReservations_operations simp: operationsInv_def)

interpretation history: worker "evolves d0"
  for d0 by unfold_locales (auto intro: expireReservations_operations elim: evolves_same[rotated])

interpretation accounts: worker capacityInv
proof unfold_locales
  show "keeps capacityInv (expireReservations now n)" for now n by (rule keeps_expireReservations)
  show "capacityInv (d\<lparr>nodes := sqlUpdate P (\<lambda>n. n\<lparr>n_status := ''offline'', n_updated_at := t\<rparr>) (nodes d)\<rparr>)" if inv: "capacityInv d" for d P t
  proof -
    let ?f = "\<lambda>n :: nodeRow. n\<lparr>n_status := ''offline'', n_updated_at := t\<rparr>"
    have ids: "map n_id (sqlUpdate P ?f (nodes d)) = map n_id (nodes d)" by (simp add: map_sqlUpdate)
    then have "n_id ` set (sqlUpdate P ?f (nodes d)) = n_id ` set (nodes d)" by (simp only: flip: set_map)
    moreover have "\<forall>n\<in>set (sqlUpdate P ?f (nodes d)). nodeCheck n \<and> booked (d\<lparr>nodes := sqlUpdate P ?f (nodes d)\<rparr>) n"
      using inv by (auto simp: capacityInv_def nodeCheck_def booked_def set_sqlUpdate)
    ultimately show ?thesis using inv ids by (simp add: capacityInv_def)
  qed
qed

text \<open>
  C25: the worker as a whole is safe. However many rounds it makes, whatever Redis delivers, whatever the
  providers answer and whatever statements, commits and replies are lost, the accounts of every node
  equal the reservations on record and never exceed the node, the constraints of the operations table hold,
  and operations move only along their state machine. Its workflows register without a conflict.
\<close>

theorem worker_safe:
  assumes "remoteResolver resolve" and inv: "capacityInv (wdb w)" "operationsInv (wdb w)"
    and others: "\<forall>r\<in>set rs. \<forall>d. (capacityInv d \<longrightarrow> capacityInv (concurrent (fst r) d)) \<and>
      (operationsInv d \<longrightarrow> operationsInv (concurrent (fst r) d)) \<and> evolves d (concurrent (fst r) d)"
  shows "\<exists>handlers. workerRegistry resolve = Inr handlers \<and> (let w' = workerRun resolve handlers gracePeriod rs w in
    capacityInv (wdb w') \<and> operationsInv (wdb w') \<and> evolves (wdb w) (wdb w'))"
proof -
  have "\<exists>handlers. workerRegistry resolve = Inr handlers"
    by (simp add: workerRegistry_def instanceActions_def Register_def)
  then obtain handlers where reg: "workerRegistry resolve = Inr handlers" by blast
  have "capacityInv (wdb (workerRun resolve handlers gracePeriod rs w))"
    by (rule accounts.keeps_run[OF assms(1) reg _ inv(1)]) (use others in simp)
  moreover have "operationsInv (wdb (workerRun resolve handlers gracePeriod rs w))"
    by (rule constraints.keeps_run[OF assms(1) reg _ inv(2)]) (use others in simp)
  moreover have "evolves (wdb w) (wdb (workerRun resolve handlers gracePeriod rs w))"
  proof (rule history.keeps_run[OF assms(1) reg])
    show "\<forall>r\<in>set rs. \<forall>d. evolves (wdb w) d \<longrightarrow> evolves (wdb w) (concurrent (fst r) d)"
      using others by (auto intro: evolves_trans[of "wdb w"])
  qed (rule evolves_refl)
  ultimately show ?thesis using reg by (auto simp: Let_def)
qed

section \<open>Witnesses\<close>

text \<open>A provider that accepts everything and reports every instance as running.\<close>

definition accepted0 :: "ProviderOperation io" where
  "accepted0 = ret \<lparr>po_ProviderOperationID = ''p-1'', po_Status = ''succeeded'', po_Accepted = True, po_Metadata = []\<rparr>"

definition adapter0 :: adapter where
  "adapter0 = \<lparr>CreateInstance = (\<lambda>_. accepted0), GetInstance = (\<lambda>_. ret \<lparr>prv_ProviderInstanceID = ''vm-1'', prv_State = ''running'',
     prv_CPUCores = 100, prv_MemoryMB = 1024, prv_DiskGB = 20, prv_IPv4 = [''192.0.2.1''], prv_IPv6 = [], prv_CreatedAt = 0, prv_Metadata = []\<rparr>),
     StartInstance = (\<lambda>_. accepted0), StopInstance = (\<lambda>_. accepted0), RestartInstance = (\<lambda>_. accepted0), ReinstallInstance = (\<lambda>_. accepted0)\<rparr>"

lemma remote_adapter0: "remoteResolver (\<lambda>_. ret adapter0)"
  unfolding remoteResolver_def remoteAdapter_def
  by (auto simp: ret_def adapter0_def accepted0_def intro!: remote_quiet)

definition deliveries0 :: deliveries where
  "deliveries0 = \<lparr>dl_idText = (\<lambda>_. ''1-0''), dl_triggerGroup = Inr (), dl_triggerFresh = Inr [], dl_queueGroup = Inr (),
     dl_queueClaimed = Inr [], dl_queueFresh = Inr [(1, Some payload0)]\<rparr>"

theorem worker_safe_witness:
  "\<exists>handlers. workerRegistry (\<lambda>_. ret adapter0) = Inr handlers \<and>
     capacityInv (wdb (workerRun (\<lambda>_. ret adapter0) handlers (24 * 60 * minute) [(env0, deliveries0)] world0_placed))"
proof -
  have "operationsInv (wdb world0_placed)" by code_simp
  from worker_safe[OF remote_adapter0 capacityInv_world0_placed this, of "[(env0, deliveries0)]" "24 * 60 * minute"]
  show ?thesis by (auto simp: Let_def evolves_refl)
qed

end
