(* ===== verification/Instance_Laws.thy ===== *)
theory Instance_Laws
  imports Worker
begin

text \<open>
  What a successful instance action means: the provider was asked, it reported the state that the action
  leads to, and exactly that instance's row says so.
\<close>

section \<open>Steps that leave the instances alone\<close>

interpretation frame: operation_store "\<lambda>d. instances d = X"
  for X by unfold_locales auto

definition leavesInstances :: "'a io \<Rightarrow> bool" where
  "leavesInstances m \<longleftrightarrow> (\<forall>X. keeps (\<lambda>d. instances d = X) m)"

lemma leavesInstancesD:
  assumes "leavesInstances m" "m e w = (r, w')" "\<And>d. instances (concurrent e d) = instances d"
  shows "instances (wdb w') = instances (wdb w)"
proof -
  let ?I = "\<lambda>d. instances d = instances (wdb w)"
  have "keeps ?I m" using assms(1) by (simp add: leavesInstances_def)
  moreover have "?I (concurrent e d)" if "?I d" for d using assms(3)[of d] that by (rule trans)
  ultimately show ?thesis using keepsD[of ?I m e w r w'] assms(2) by blast
qed

lemma leaves_steps:
  "leavesInstances (Progress x a b c d)" "leavesInstances (stepDone x key out)" "leavesInstances (stepRunning x key n)"
  unfolding leavesInstances_def Progress_def stepDone_def stepRunning_def StepUpdate_def
  by (intro allI frame.keeps_UpdateProgress keeps_bnd keeps_asks frame.keeps_UpdateStep)+

lemma leaves_remote: "remote m \<Longrightarrow> leavesInstances m"
  unfolding leavesInstances_def by (intro allI keeps_remote) auto

lemma leaves_adapter:
  "remoteAdapter ad \<Longrightarrow> leavesInstances (GetInstance ad r)" "remoteAdapter ad \<Longrightarrow> leavesInstances (callProvider ad action req img)"
  unfolding callProvider_def remoteAdapter_def by (auto intro!: leaves_remote)

lemma orFail_ok: "orFail f m e w = (Inr y, w') \<longleftrightarrow> m e w = (Inr y, w')"
  by (auto simp: orFail_def bnd_def attempt_def raise_def ret_def split: prod.splits sum.splits)

section \<open>The recorded state\<close>

definition settledAs :: "env \<Rightarrow> string \<Rightarrow> instanceRow \<Rightarrow> instanceRow" where
  "settledAs e action i = i\<lparr>i_desired_state := fst (actionStates action),
     i_observed_state := (if action = ''suspend'' then ''suspended'' else snd (snd (actionStates action))),
     i_last_synced_at := Some (pgNow e), i_version := i_version i + 1 + 1, i_updated_at := pgNow e\<rparr>"

text \<open>The provider that serves the instance reported a state.\<close>

definition confirmed :: "resolver \<Rightarrow> env \<Rightarrow> instanceRow \<Rightarrow> string \<Rightarrow> bool" where
  "confirmed resolve e i state \<longleftrightarrow> (\<exists>providerID ad req inst w1 w2 w3 w4. i_provider_id i = Some providerID \<and>
     resolve providerID e w1 = (Inr ad, w2) \<and> gi_PlatformInstanceID req = uuidString e (i_id i) \<and>
     i_provider_instance_id i = Some (gi_ProviderInstanceID req) \<and> GetInstance ad req e w3 = (Inr inst, w4) \<and> prv_State inst = state)"

lemma actionContextOf_ok:
  assumes "actionContextOf operationID e w = (Inr current, w')"
  obtains x i where "x \<in> set (operations (wdb w))" "op_id x = operationID" "op_resource_id x = i_id i" "acx_operationType current = op_type x"
    "i \<in> set (instances (wdb w))" "acx_instanceID current = i_id i" "i_provider_id i = Some (acx_providerID current)"
    "i_provider_instance_id i = Some (acx_providerInstanceID current)" "wdb w' = wdb w"
proof -
  let ?rows = "[\<lparr>ar_instance = i, ar_provider_node_id = providerNode e n, ar_operation_type = op_type x\<rparr>.
        x \<leftarrow> operations (wdb w), op_id x = operationID, i \<leftarrow> instances (wdb w), i_id i = op_resource_id x \<and> op_resource_type x = ''instance'',
        n \<leftarrow> nodes (wdb w), i_node_id i = Some (n_id n)]"
  from assms obtain row w1 where get: "pool (GetInstanceActionContextByOperation operationID) e w = (Inr row, w1)"
    and rest: "(let i = ar_instance row in case (i_provider_id i, i_provider_instance_id i) of
       (Some providerID, Some providerInstanceID) \<Rightarrow> ret
         \<lparr>acx_instanceID = i_id i, acx_providerID = providerID, acx_providerInstanceID = providerInstanceID,
          acx_providerNodeID = ar_provider_node_id row, acx_imageID = text_string (i_image_id i), acx_operationType = ar_operation_type row\<rparr>
     | _ \<Rightarrow> raise (ErrOther ''instance provider placement is incomplete'')) e w1 = (Inr current, w')"
    unfolding actionContextOf_def by (rule bndE)
  from get have sel: "one ?rows = Inr row" and w1: "wdb w1 = wdb w"
    by (auto simp: pool_ok GetInstanceActionContextByOperation_def selectOne_ok)
  from rest have "w' = w1" and cur: "i_provider_id (ar_instance row) = Some (acx_providerID current)"
      "i_provider_instance_id (ar_instance row) = Some (acx_providerInstanceID current)" "acx_instanceID current = i_id (ar_instance row)"
      "acx_operationType current = ar_operation_type row"
    by (auto simp: Let_def ret_ok raise_ok split: option.split_asm)
  from one_in[OF sel] obtain x i where "x \<in> set (operations (wdb w))" "op_id x = operationID" "i \<in> set (instances (wdb w))"
    "i_id i = op_resource_id x" "ar_instance row = i" "ar_operation_type row = op_type x" by (auto split: if_splits)
  with cur w1 \<open>w' = w1\<close> show ?thesis by (intro that[of x i]) simp_all
qed

lemma verifyAction_ok:
  assumes run: "verifyAction ad x current e w = (Inr (), w')" and ad: "remoteAdapter ad"
    and conc: "\<And>d. instances (concurrent e d) = instances d"
  shows "\<exists>req inst w3 w4. gi_PlatformInstanceID req = uuidString e (acx_instanceID current) \<and> gi_ProviderInstanceID req = acx_providerInstanceID current \<and>
      GetInstance ad req e w3 = (Inr inst, w4) \<and> prv_State inst = snd (snd (actionStates (acx_operationType current)))"
    and "instances (wdb w') = sqlUpdate (\<lambda>i. i_id i = acx_instanceID current)
      (\<lambda>i. i\<lparr>i_observed_state := (if acx_operationType current = ''suspend'' then ''suspended'' else snd (snd (actionStates (acx_operationType current)))),
        i_last_synced_at := Some (pgNow e), i_version := i_version i + 1, i_updated_at := pgNow e\<rparr>) (instances (wdb w))"
proof -
  let ?expected = "snd (snd (actionStates (acx_operationType current)))"
  let ?req = "\<lparr>gi_NodeID = acx_providerNodeID current, gi_ProviderInstanceID = acx_providerInstanceID current,
        gi_PlatformInstanceID = uuidString e (acx_instanceID current)\<rparr>"
  let ?observed = "if acx_operationType current = ''suspend'' then ''suspended'' else ?expected"
  from run obtain w1 inst w2 w3 w4 where p1: "Progress x ''verifying'' ''verify'' 80 ''operation.instance.verifying'' e w = (Inr (), w1)"
    and get: "GetInstance ad ?req e w1 = (Inr inst, w2)" and st: "prv_State inst = ?expected"
    and ob: "setObserved (acx_instanceID current) ?observed e w2 = (Inr (), w3)"
    and s: "stepDone x ''verify'' (JObj [(''state'', JStr ?observed)]) e w3 = (Inr (), w4)"
    and p2: "Progress x ''running'' ''finish'' 99 ''operation.instance.completed'' e w4 = (Inr (), w')"
    unfolding verifyAction_def Let_def by (auto simp: bnd_ok asks_ok orFail_ok raise_ok split: if_splits)
  from get st show "\<exists>req inst w3 w4. gi_PlatformInstanceID req = uuidString e (acx_instanceID current) \<and> gi_ProviderInstanceID req = acx_providerInstanceID current \<and>
      GetInstance ad req e w3 = (Inr inst, w4) \<and> prv_State inst = ?expected"
    by (intro exI[of _ ?req] exI[of _ inst] exI[of _ w1] exI[of _ w2]) simp
  from ob have "instances (wdb w3) = sqlUpdate (\<lambda>i. i_id i = acx_instanceID current) (\<lambda>i. i\<lparr>i_observed_state := ?observed,
        i_last_synced_at := Some (pgNow e), i_version := i_version i + 1, i_updated_at := pgNow e\<rparr>) (instances (wdb w2))"
    by (auto simp: setObserved_def pool_ok SetInstanceObservedState_def dest!: updateInstances_ok)
  then show "instances (wdb w') = sqlUpdate (\<lambda>i. i_id i = acx_instanceID current)
      (\<lambda>i. i\<lparr>i_observed_state := ?observed, i_last_synced_at := Some (pgNow e), i_version := i_version i + 1, i_updated_at := pgNow e\<rparr>) (instances (wdb w))"
    using leavesInstancesD[OF leaves_steps(1) p1 conc] leavesInstancesD[OF leaves_adapter(1)[OF ad] get conc]
      leavesInstancesD[OF leaves_steps(2) s conc] leavesInstancesD[OF leaves_steps(1) p2 conc] by simp
qed

lemma performAction_ok:
  assumes run: "performAction ad x current e w = (Inr (), w')" and ad: "remoteAdapter ad"
    and conc: "\<And>d. instances (concurrent e d) = instances d"
  obtains w1 where "verifyAction ad x current e w1 = (Inr (), w')" "instances (wdb w1) = instances (wdb w)"
proof -
  from run obtain w1 w2 req po w3 w4 where p: "Progress x ''waiting_provider'' ''provider'' 30 (''operation.instance.'' @ acx_operationType current) e w = (Inr (), w1)"
    and r: "stepRunning x ''provider'' 20 e w1 = (Inr (), w2)"
    and c: "callProvider ad (acx_operationType current) req (acx_imageID current) e w2 = (Inr po, w3)"
    and d: "stepDone x ''provider'' (JObj [(''provider_operation_id'', JStr (po_ProviderOperationID po))]) e w3 = (Inr (), w4)"
    and v: "verifyAction ad x current e w4 = (Inr (), w')"
    unfolding performAction_def Let_def by (auto simp: bnd_ok asks_ok orFail_ok)
  from leavesInstancesD[OF leaves_steps(1) p conc] leavesInstancesD[OF leaves_steps(3) r conc]
    leavesInstancesD[OF leaves_adapter(2)[OF ad] c conc] leavesInstancesD[OF leaves_steps(2) d conc]
  have "instances (wdb w4) = instances (wdb w)" by simp
  with v that show ?thesis by blast
qed

text \<open>
  C28: an instance action succeeds only if the instance is in the state it asks for. A successful run
  belongs to an operation on that instance of one of the five types; its provider reported the expected
  state; and afterwards the row of that instance, and no other, records the desired and the observed state
  of the action.
\<close>

theorem InstanceExecute_settles:
  assumes run: "InstanceExecute resolve x e w = (Inr (), w')" and remote: "remoteResolver resolve"
    and conc: "\<forall>d. instances (concurrent e d) = instances d"
  shows "\<exists>x0\<in>set (operations (wdb w)). \<exists>i\<in>set (instances (wdb w)). op_id x0 = ex_operationID x \<and> op_resource_id x0 = i_id i \<and>
    op_type x0 \<in> set instanceActions \<and> confirmed resolve e i (snd (snd (actionStates (op_type x0)))) \<and>
    instances (wdb w') = sqlUpdate (\<lambda>r. i_id r = i_id i) (settledAs e (op_type x0)) (instances (wdb w))"
proof -
  note conc' = conc[rule_format]
  from run obtain current w1 w2 out w3 w4 ad w5 where ctx: "actionContextOf (ex_operationID x) e w = (Inr current, w1)"
    and act: "acx_operationType current \<in> set instanceActions"
    and p: "Progress x ''running'' ''validate'' 5 ''operation.instance.validating'' e w1 = (Inr (), w2)"
    and s: "stepDone x ''validate'' out e w2 = (Inr (), w3)"
    and set: "setActionState (acx_instanceID current) (fst (actionStates (acx_operationType current))) (fst (snd (actionStates (acx_operationType current)))) e w3 = (Inr (), w4)"
    and res: "resolve (acx_providerID current) e w4 = (Inr ad, w5)"
    and perf: "performAction ad x current e w5 = (Inr (), w')"
    unfolding InstanceExecute_def Let_def uuidOut_def by (auto simp: bnd_ok asks_ok orFail_ok raise_ok split: if_splits)
  from ctx obtain x0 i where x0: "x0 \<in> set (operations (wdb w))" "op_id x0 = ex_operationID x" "op_resource_id x0 = i_id i" "acx_operationType current = op_type x0"
    and i: "i \<in> set (instances (wdb w))" "acx_instanceID current = i_id i" "i_provider_id i = Some (acx_providerID current)"
      "i_provider_instance_id i = Some (acx_providerInstanceID current)" and w1: "wdb w1 = wdb w" by (rule actionContextOf_ok)
  have ad: "remoteAdapter ad" using remoteResolverD[OF remote res] .
  have look: "leavesInstances (resolve (acx_providerID current))" using remote by (intro leaves_remote) (simp add: remoteResolver_def)
  from performAction_ok[OF perf ad conc'] obtain w6 where ver: "verifyAction ad x current e w6 = (Inr (), w')" and w6: "instances (wdb w6) = instances (wdb w5)" by blast
  have w3: "instances (wdb w3) = instances (wdb w)"
    using leavesInstancesD[OF leaves_steps(1) p conc'] leavesInstancesD[OF leaves_steps(2) s conc'] w1 by simp
  from set have w4: "instances (wdb w4) = sqlUpdate (\<lambda>r. i_id r = i_id i) (\<lambda>r. r\<lparr>i_desired_state := fst (actionStates (op_type x0)),
      i_observed_state := fst (snd (actionStates (op_type x0))), i_version := i_version r + 1, i_updated_at := pgNow e\<rparr>) (instances (wdb w))"
    using w3 i(2) x0(4) by (auto simp: setActionState_def pool_ok SetInstanceActionState_def dest!: updateInstances_ok)
  have "instances (wdb w') = sqlUpdate (\<lambda>r. i_id r = i_id i) (settledAs e (op_type x0)) (instances (wdb w))"
    using verifyAction_ok(2)[OF ver ad conc'] w6 leavesInstancesD[OF look res conc'] w4 i(2) x0(4)
    by (simp add: sqlUpdate_def settledAs_def)
  moreover from verifyAction_ok(1)[OF ver ad conc'] obtain req inst w7 w8 where "gi_PlatformInstanceID req = uuidString e (i_id i)"
    "i_provider_instance_id i = Some (gi_ProviderInstanceID req)" "GetInstance ad req e w7 = (Inr inst, w8)"
    "prv_State inst = snd (snd (actionStates (op_type x0)))" using i x0(4) by auto
  then have "confirmed resolve e i (snd (snd (actionStates (op_type x0))))"
    unfolding confirmed_def using res i(3) by blast
  ultimately show ?thesis using x0 i act by auto
qed

section \<open>Witness\<close>

definition step0 :: "uuid \<Rightarrow> string \<Rightarrow> int \<Rightarrow> stepRow" where
  "step0 rowID key order = \<lparr>st_id = rowID, st_operation_id = 5, st_step_key = key, st_step_order = order, st_status = ''pending'',
     st_progress = 0, st_attempt = 0, st_error_code = None, st_error_message = None, st_started_at = None, st_finished_at = None,
     st_created_at = 0, st_updated_at = 0, st_output = JObj []\<rparr>"

definition world0_restart :: world where
  "world0_restart = world0_placed\<lparr>wdb := (wdb world0_placed)\<lparr>
     instances := [(newInstance env0 51 50 ''vps-1'' plan0)\<lparr>i_node_id := Some 21, i_provider_id := Some 20, i_provider_instance_id := Some ''vm-1''\<rparr>],
     operations := [operation0\<lparr>op_type := ''restart'', op_resource_id := 51, op_status := ''running''\<rparr>],
     operation_steps := [step0 60 ''validate'' 1, step0 61 ''provider'' 2, step0 62 ''verify'' 3]\<rparr>\<rparr>"

lemma sample_restart: "succeeded (InstanceExecute (\<lambda>_. ret adapter0) \<lparr>ex_operationID = 5, ex_attempt = 1\<rparr> env0 world0_restart)"
  by code_simp

theorem InstanceExecute_settles_witness:
  "\<exists>w'. InstanceExecute (\<lambda>_. ret adapter0) \<lparr>ex_operationID = 5, ex_attempt = 1\<rparr> env0 world0_restart = (Inr (), w') \<and>
     map i_observed_state (instances (wdb w')) = [''running'']"
proof -
  from sample_restart obtain w' where run: "InstanceExecute (\<lambda>_. ret adapter0) \<lparr>ex_operationID = 5, ex_attempt = 1\<rparr> env0 world0_restart = (Inr (), w')"
    by (auto elim!: succeededE)
  have rows: "instances (wdb world0_restart) = [(newInstance env0 51 50 ''vps-1'' plan0)\<lparr>i_node_id := Some 21, i_provider_id := Some 20, i_provider_instance_id := Some ''vm-1''\<rparr>]"
    "operations (wdb world0_restart) = [operation0\<lparr>op_type := ''restart'', op_resource_id := 51, op_status := ''running''\<rparr>]"
    by (simp_all add: world0_restart_def)
  from InstanceExecute_settles[OF run remote_adapter0] rows run show ?thesis
    by (auto simp: settledAs_def actionStates_def)
qed

end
