(* ===== verification/Mock.thy ===== *)
theory Mock
  imports Infrastructure_Queries Provider
begin

text \<open>
  \<open>internal/provider/mock\<close>: the provider in memory, and \<open>internal/provider/registry.go\<close>: how the adapter of a provider is found.
  The calls of the mock are functions of its state; its lock makes each of them one step.
\<close>

section \<open>State\<close>

record storedInstance =
  si_instance :: ProviderInstance
  si_image :: string

record mock =
  mk_capabilities :: Capabilities
  mk_instances :: "string \<rightharpoonup> storedInstance"
  mk_byPlatformID :: "string \<rightharpoonup> string"
  mk_createRequests :: "string \<rightharpoonup> CreateInstanceRequest"
  mk_operations :: "string \<rightharpoonup> ProviderOperation"
  mk_actionTargets :: "string \<rightharpoonup> string"
  mk_portForwards :: "string \<Rightarrow> (string \<times> PortForward) list"
  mk_images :: "Image list"

type_synonym 'a call = "env \<Rightarrow> mock \<Rightarrow> (err + 'a) \<times> mock"

definition mockCapabilities :: Capabilities where
  "mockCapabilities = \<lparr>cap_CreateInstance = True, cap_DeleteInstance = True, cap_Start = True, cap_Stop = True, cap_Restart = True,
     cap_Reinstall = True, cap_ResetPassword = True, cap_Traffic = True, cap_Metrics = True, cap_NAT = True, cap_IPv4 = True, cap_IPv6 = True,
     cap_Snapshot = False, cap_Console = False, cap_Firewall = False, cap_SupportedRuntimes = [''kvm'', ''lxc'']\<rparr>"

definition NewMock :: mock where
  "NewMock = \<lparr>mk_capabilities = mockCapabilities, mk_instances = Map.empty, mk_byPlatformID = Map.empty, mk_createRequests = Map.empty,
     mk_operations = Map.empty, mk_actionTargets = Map.empty, mk_portForwards = (\<lambda>_. []),
     mk_images = [\<lparr>img_ID = ''ubuntu-24.04'', img_Name = ''Ubuntu 24.04'', img_OS = ''linux'', img_Version = ''24.04'', img_Arch = ''amd64'',
       img_Description = ''Mock Ubuntu image''\<rparr>]\<rparr>"

definition NewWithCapabilities :: "Capabilities \<Rightarrow> mock" where
  "NewWithCapabilities capabilities = NewMock\<lparr>mk_capabilities := capabilities\<rparr>"

definition mockError :: "string \<Rightarrow> string \<Rightarrow> err" where "mockError code message = ErrProvider code False message"

definition unsupported :: "string \<Rightarrow> err" where "unsupported action = mockError ErrorUnsupportedOperation (action @ '' is unsupported'')"

definition unknownError :: "string \<Rightarrow> err" where "unknownError message = mockError ErrorUnknown message"

definition successfulOperation :: "string \<Rightarrow> string \<Rightarrow> ProviderOperation" where
  "successfulOperation operationID action = \<lparr>po_ProviderOperationID = ''mock-'' @ action @ ''-'' @ operationID, po_Status = ''succeeded'',
     po_Accepted = True, po_Metadata = [(''action'', JStr action)]\<rparr>"

section \<open>Instances\<close>

definition Health_mock :: "env \<Rightarrow> Health" where
  "Health_mock e = \<lparr>hl_Status = ''healthy'', hl_Version = ''v1'', hl_CheckedAt = goNow e, hl_Details = [(''kind'', JStr ''in_memory'')]\<rparr>"

definition ListImages_mock :: "Image list call" where "ListImages_mock e p = (Inr (mk_images p), p)"

text \<open>The last bytes of an identifier, zero when it does not parse; \<open>%x\<close> writes hexadecimal digits.\<close>

definition idByte :: "env \<Rightarrow> nat \<Rightarrow> string \<Rightarrow> nat" where
  "idByte e n s = (case uuidParse e s of None \<Rightarrow> 0 | Some u \<Rightarrow> (unat u div 256 ^ n) mod 256)"

definition hexDigit :: "nat \<Rightarrow> char" where "hexDigit n = (if n < 10 then char_of (48 + n) else char_of (87 + n))"

fun hexDigits :: "nat \<Rightarrow> string" where
  "hexDigits n = (if n < 16 then [hexDigit n] else hexDigits (n div 16) @ [hexDigit (n mod 16)])"

declare hexDigits.simps [simp del]

definition mockIPv4 :: "env \<Rightarrow> CreateInstanceRequest \<Rightarrow> string list" where
  "mockIPv4 e r = map (\<lambda>index. ''192.0.2.'' @ digits (1 + (idByte e 0 (ci_InstanceID r) + index) mod 253)) [0..<nat (ci_IPv4Count r)]"

definition mockIPv6 :: "env \<Rightarrow> CreateInstanceRequest \<Rightarrow> string list" where
  "mockIPv6 e r = map (\<lambda>index. ''2001:db8::'' @ hexDigits (idByte e 1 (ci_InstanceID r) + index + 1)) [0..<nat (ci_IPv6Count r)]"

definition CreateInstance_mock :: "CreateInstanceRequest \<Rightarrow> ProviderOperation call" where
  "CreateInstance_mock r e p =
    (if \<not> cap_CreateInstance (mk_capabilities p) then (Inl (unsupported ''create_instance''), p)
     else if ci_OperationID r = [] \<or> ci_IdempotencyKey r = [] \<or> ci_InstanceID r = [] \<or> ci_NodeID r = [] then (Inl (unknownError ''invalid create request''), p)
     else (case mk_operations p (''create:'' @ ci_IdempotencyKey r) of
       Some operation \<Rightarrow>
         if map_option (\<lambda>original. original\<lparr>ci_RootPassword := None\<rparr>) (mk_createRequests p (ci_IdempotencyKey r)) \<noteq> Some (r\<lparr>ci_RootPassword := None\<rparr>)
         then (Inl (mockError ErrorInstanceAlreadyExists ''idempotency key reused with different create request''), p) else (Inr operation, p)
     | None \<Rightarrow>
         if mk_byPlatformID p (ci_InstanceID r) \<noteq> None then (Inl (mockError ErrorInstanceAlreadyExists ''platform instance already exists''), p)
         else (let providerID = ''mock-'' @ ci_InstanceID r;
             inst = \<lparr>prv_ProviderInstanceID = providerID, prv_State = ''running'', prv_CPUCores = ci_CPUCores r, prv_MemoryMB = ci_MemoryMB r,
               prv_DiskGB = ci_DiskGB r, prv_IPv4 = mockIPv4 e r, prv_IPv6 = mockIPv6 e r, prv_CreatedAt = goNow e,
               prv_Metadata = [(''platform_instance_id'', JStr (ci_InstanceID r)), (''node_id'', JStr (ci_NodeID r)), (''image'', JStr (ci_Image r))]\<rparr>;
             operation = successfulOperation (ci_OperationID r) ''create''
           in (Inr operation, p\<lparr>mk_instances := (mk_instances p)(providerID \<mapsto> \<lparr>si_instance = inst, si_image = ci_Image r\<rparr>),
             mk_byPlatformID := (mk_byPlatformID p)(ci_InstanceID r \<mapsto> providerID),
             mk_createRequests := (mk_createRequests p)(ci_IdempotencyKey r \<mapsto> r\<lparr>ci_RootPassword := None\<rparr>),
             mk_operations := (mk_operations p)(''create:'' @ ci_IdempotencyKey r \<mapsto> operation)\<rparr>))))"

definition GetInstance_mock :: "GetInstanceRequest \<Rightarrow> ProviderInstance call" where
  "GetInstance_mock r e p =
    (let providerID = (if gi_ProviderInstanceID r \<noteq> [] then gi_ProviderInstanceID r
         else (case mk_byPlatformID p (gi_PlatformInstanceID r) of None \<Rightarrow> [] | Some x \<Rightarrow> x)) in
     case mk_instances p providerID of
       None \<Rightarrow> (Inl (mockError ErrorInstanceNotFound ''mock instance not found''), p)
     | Some stored \<Rightarrow> (Inr (si_instance stored), p))"

text \<open>The platform identifier an instance was created for.\<close>

definition platformOf :: "ProviderInstance \<Rightarrow> string" where
  "platformOf i = (case map_of (prv_Metadata i) ''platform_instance_id'' of Some (JStr s) \<Rightarrow> s | _ \<Rightarrow> [])"

definition action_mock :: "InstanceActionRequest \<Rightarrow> string \<Rightarrow> bool \<Rightarrow> string \<Rightarrow> bool \<Rightarrow> ProviderOperation call" where
  "action_mock r action supported state remove e p =
    (if \<not> supported then (Inl (unsupported action), p)
     else if ia_OperationID r = [] \<or> ia_IdempotencyKey r = [] \<or> ia_ProviderInstanceID r = []
     then (Inl (unknownError ''operation, idempotency, and instance identities are required''), p)
     else (let key = action @ '':'' @ ia_IdempotencyKey r in case mk_operations p key of
       Some existing \<Rightarrow>
         if mk_actionTargets p key \<noteq> Some (ia_ProviderInstanceID r)
         then (Inl (mockError ErrorInstanceAlreadyExists ''idempotency key reused for another instance''), p) else (Inr existing, p)
     | None \<Rightarrow> (case mk_instances p (ia_ProviderInstanceID r) of
         None \<Rightarrow> (Inl (mockError ErrorInstanceNotFound ''mock instance not found''), p)
       | Some stored \<Rightarrow>
         (let p1 = (if remove then p\<lparr>mk_instances := (mk_instances p)(ia_ProviderInstanceID r := None),
                 mk_byPlatformID := (mk_byPlatformID p)(platformOf (si_instance stored) := None)\<rparr>
               else if state \<noteq> [] then p\<lparr>mk_instances := (mk_instances p)(ia_ProviderInstanceID r \<mapsto>
                 stored\<lparr>si_instance := (si_instance stored)\<lparr>prv_State := state\<rparr>\<rparr>)\<rparr>
               else p);
             operation = successfulOperation (ia_OperationID r) action
          in (Inr operation, p1\<lparr>mk_operations := (mk_operations p1)(key \<mapsto> operation),
               mk_actionTargets := (mk_actionTargets p1)(key \<mapsto> ia_ProviderInstanceID r)\<rparr>)))))"

definition StartInstance_mock :: "InstanceActionRequest \<Rightarrow> ProviderOperation call" where
  "StartInstance_mock r e p = action_mock r ''start'' (cap_Start (mk_capabilities p)) ''running'' False e p"

definition StopInstance_mock :: "InstanceActionRequest \<Rightarrow> ProviderOperation call" where
  "StopInstance_mock r e p = action_mock r ''stop'' (cap_Stop (mk_capabilities p)) ''stopped'' False e p"

definition RestartInstance_mock :: "InstanceActionRequest \<Rightarrow> ProviderOperation call" where
  "RestartInstance_mock r e p = action_mock r ''restart'' (cap_Restart (mk_capabilities p)) ''running'' False e p"

definition DeleteInstance_mock :: "InstanceActionRequest \<Rightarrow> ProviderOperation call" where
  "DeleteInstance_mock r e p = action_mock r ''delete'' (cap_DeleteInstance (mk_capabilities p)) ''deleted'' True e p"

text \<open>
  After a replay for an instance that was deleted in the meantime, the zero value has no metadata map to write to.
\<close>

definition ReinstallInstance_mock :: "ReinstallInstanceRequest \<Rightarrow> ProviderOperation call" where
  "ReinstallInstance_mock r e p =
    (if \<not> cap_Reinstall (mk_capabilities p) then (Inl (unsupported ''reinstall''), p)
     else if ri_Image r = [] then (Inl (mockError ErrorImageNotFound ''mock image is required''), p)
     else (case action_mock (InstanceActionRequest.truncate r) ''reinstall'' True ''running'' False e p of
       (Inl x, p1) \<Rightarrow> (Inl x, p1)
     | (Inr operation, p1) \<Rightarrow> (case mk_instances p1 (ia_ProviderInstanceID r) of
         None \<Rightarrow> (Inl (ErrPanic ''assignment to entry in nil map''), p1)
       | Some stored \<Rightarrow> (Inr operation, p1\<lparr>mk_instances := (mk_instances p1)(ia_ProviderInstanceID r \<mapsto>
           stored\<lparr>si_image := ri_Image r, si_instance := (si_instance stored)\<lparr>prv_Metadata :=
             filter (\<lambda>kv. fst kv \<noteq> ''image'') (prv_Metadata (si_instance stored)) @ [(''image'', JStr (ri_Image r))]\<rparr>\<rparr>)\<rparr>))))"

definition ResetPassword_mock :: "ResetPasswordRequest \<Rightarrow> ProviderOperation call" where
  "ResetPassword_mock r e p = (if \<not> cap_ResetPassword (mk_capabilities p) then (Inl (unsupported ''reset_password''), p)
     else action_mock (InstanceActionRequest.truncate r) ''reset_password'' True [] False e p)"

definition GetUsage_mock :: "GetInstanceRequest \<Rightarrow> Usage call" where
  "GetUsage_mock r e p = (if \<not> cap_Metrics (mk_capabilities p) then (Inl (unsupported ''metrics''), p)
     else (case GetInstance_mock r e p of (Inl x, p') \<Rightarrow> (Inl x, p')
       | (Inr i, p') \<Rightarrow> (Inr \<lparr>us_CPUPercent = 0, us_MemoryUsedMB = 0, us_MemoryTotalMB = prv_MemoryMB i, us_DiskUsedGB = 0,
           us_DiskTotalGB = prv_DiskGB i, us_ObservedAt = goNow e\<rparr>, p')))"

definition GetTraffic_mock :: "GetTrafficRequest \<Rightarrow> Traffic call" where
  "GetTraffic_mock r e p = (if \<not> cap_Traffic (mk_capabilities p) then (Inl (unsupported ''traffic''), p)
     else (case GetInstance_mock (GetInstanceRequest.truncate r) e p of (Inl x, p') \<Rightarrow> (Inl x, p')
       | (Inr i, p') \<Rightarrow> (Inr \<lparr>tr_RXBytes = 0, tr_TXBytes = 0, tr_From = gt_From r, tr_To = gt_To r\<rparr>, p')))"

section \<open>Port forwards\<close>

definition ListPortForwards_mock :: "GetInstanceRequest \<Rightarrow> PortForward list call" where
  "ListPortForwards_mock r e p = (if \<not> cap_NAT (mk_capabilities p) then (Inl (unsupported ''nat''), p)
     else (case GetInstance_mock r e p of (Inl x, p') \<Rightarrow> (Inl x, p')
       | (Inr i, p') \<Rightarrow> (Inr (sort_key pf_ProviderMappingID (map snd (mk_portForwards p' (prv_ProviderInstanceID i)))), p')))"

text \<open>A mapping is known by a hash of the instance and the key; \<open>oidHash\<close> is \<open>NewSHA1(NameSpaceOID,\<^bold>\<cdot>)\<close> as text.\<close>

definition AddPortForward_mock :: "(string \<Rightarrow> string) \<Rightarrow> AddPortForwardRequest \<Rightarrow> ProviderOperation call" where
  "AddPortForward_mock oidHash r e p =
    (if \<not> cap_NAT (mk_capabilities p) then (Inl (unsupported ''nat''), p)
     else if ia_OperationID r = [] \<or> ia_IdempotencyKey r = [] then (Inl (unknownError ''operation and idempotency identities are required''), p)
     else if mk_instances p (ia_ProviderInstanceID r) = None then (Inl (mockError ErrorInstanceNotFound ''mock instance not found''), p)
     else (let key = ''nat-add:'' @ ia_IdempotencyKey r in case mk_operations p key of
       Some existing \<Rightarrow>
         if mk_actionTargets p key \<noteq> Some (ia_ProviderInstanceID r)
         then (Inl (mockError ErrorInstanceAlreadyExists ''idempotency key reused for another instance''), p) else (Inr existing, p)
     | None \<Rightarrow>
       (let mappingID = oidHash (ia_ProviderInstanceID r @ '':'' @ ia_IdempotencyKey r);
            entry = \<lparr>pf_ProviderMappingID = mappingID, pf_Protocol = ap_Protocol r, pf_PublicIP = ap_PublicIP r, pf_PublicPort = ap_PublicPort r,
              pf_GuestPort = ap_GuestPort r, pf_Description = ap_Description r\<rparr>;
            entries = filter (\<lambda>kv. fst kv \<noteq> mappingID) (mk_portForwards p (ia_ProviderInstanceID r)) @ [(mappingID, entry)];
            operation = successfulOperation (ia_OperationID r) ''nat-add''
        in (Inr operation, p\<lparr>mk_portForwards := (mk_portForwards p)(ia_ProviderInstanceID r := entries),
             mk_operations := (mk_operations p)(key \<mapsto> operation), mk_actionTargets := (mk_actionTargets p)(key \<mapsto> ia_ProviderInstanceID r)\<rparr>))))"

definition DeletePortForward_mock :: "DeletePortForwardRequest \<Rightarrow> ProviderOperation call" where
  "DeletePortForward_mock r e p =
    (if \<not> cap_NAT (mk_capabilities p) then (Inl (unsupported ''nat''), p)
     else if ia_OperationID r = [] \<or> ia_IdempotencyKey r = [] then (Inl (unknownError ''operation and idempotency identities are required''), p)
     else (let key = ''nat-delete:'' @ ia_IdempotencyKey r in case mk_operations p key of
       Some existing \<Rightarrow>
         if mk_actionTargets p key \<noteq> Some (ia_ProviderInstanceID r)
         then (Inl (mockError ErrorInstanceAlreadyExists ''idempotency key reused for another instance''), p) else (Inr existing, p)
     | None \<Rightarrow>
         if map_of (mk_portForwards p (ia_ProviderInstanceID r)) (dp_ProviderMappingID r) = None
         then (Inl (mockError ErrorInstanceNotFound ''mock port forward not found''), p)
         else (let operation = successfulOperation (ia_OperationID r) ''nat-delete''
           in (Inr operation, p\<lparr>mk_portForwards := (mk_portForwards p)(ia_ProviderInstanceID r :=
                 filter (\<lambda>kv. fst kv \<noteq> dp_ProviderMappingID r) (mk_portForwards p (ia_ProviderInstanceID r))),
                mk_operations := (mk_operations p)(key \<mapsto> operation), mk_actionTargets := (mk_actionTargets p)(key \<mapsto> ia_ProviderInstanceID r)\<rparr>))))"

section \<open>The registry\<close>

type_synonym adapters = "uuid \<rightharpoonup> adapter"

record FactoryConfig =
  fc_Endpoint :: string
  fc_CredentialRef :: "string option"
  fc_Config :: json

type_synonym factory = "FactoryConfig \<Rightarrow> adapter io"

definition RegisterAdapter :: "adapters \<Rightarrow> uuid \<Rightarrow> adapter option \<Rightarrow> err + adapters" where
  "RegisterAdapter reg providerID ad = (case ad of
     None \<Rightarrow> Inl ErrNotRegistered
   | Some a \<Rightarrow> if providerID = uuidNil then Inl ErrNotRegistered
       else if reg providerID \<noteq> None then Inl (ErrOther ''provider adapter is already registered'') else Inr (reg(providerID \<mapsto> a)))"

definition GetAdapter :: "adapters \<Rightarrow> uuid \<Rightarrow> err + adapter" where
  "GetAdapter reg providerID = (case reg providerID of None \<Rightarrow> Inl ErrNotRegistered | Some a \<Rightarrow> Inr a)"

definition RegisterFactory :: "(string \<rightharpoonup> factory) \<Rightarrow> string \<Rightarrow> factory option \<Rightarrow> err + (string \<rightharpoonup> factory)" where
  "RegisterFactory fs providerType f = (case f of
     None \<Rightarrow> Inl ErrNotRegistered
   | Some g \<Rightarrow> if providerType = [] then Inl ErrNotRegistered
       else if fs providerType \<noteq> None then Inl (ErrOther ''provider factory is already registered'') else Inr (fs(providerType \<mapsto> g)))"

definition ResolveDynamic :: "(string \<rightharpoonup> factory) \<Rightarrow> adapters \<Rightarrow> uuid \<Rightarrow> (adapter \<times> adapters) io" where
  "ResolveDynamic fs reg providerID = (case GetAdapter reg providerID of
     Inr a \<Rightarrow> ret (a, reg)
   | Inl _ \<Rightarrow> bnd (attempt (pool (GetInfrastructureProviderByID providerID))) (\<lambda>r. case r of
       Inl _ \<Rightarrow> raise ErrNotRegistered
     | Inr row \<Rightarrow> (case fs (prov_provider_type row) of
         None \<Rightarrow> raise ErrNotRegistered
       | Some f \<Rightarrow> bnd (f \<lparr>fc_Endpoint = text_string (prov_endpoint row), fc_CredentialRef = prov_credential_ref row, fc_Config = prov_config row\<rparr>)
           (\<lambda>a. case RegisterAdapter reg providerID (Some a) of
             Inr reg' \<Rightarrow> ret (a, reg')
           | Inl _ \<Rightarrow> (case GetAdapter reg providerID of Inl x \<Rightarrow> raise x | Inr b \<Rightarrow> ret (b, reg))))))"

end
