(* ===== verification/Runman.thy ===== *)
theory Runman
  imports Provider Infrastructure_Queries
begin

text \<open>
  \<open>internal/runman\<close>: the commands sent to the agents on the nodes and what the agents report (\<open>repository.go\<close>),
  and the broker that issues a command and waits for its result (\<open>runman.go\<close>, \<open>sender.go\<close>). The hash of a token is a
  parameter; a processor percentage is a number of hundredths and is passed through.
\<close>

section \<open>Types\<close>

record Command =
  Cmd_ID :: uuid
  Cmd_NodeID :: uuid
  Cmd_Type :: string
  Cmd_Payload :: json
  Cmd_Status :: string
  Cmd_Result :: json
  Cmd_Error :: string

record VMState =
  vs_InstanceID :: uuid
  vs_Status :: string
  vs_CPUPercent :: int
  vs_RAMUsedMB :: int
  vs_TrafficIn :: int
  vs_TrafficOut :: int
  vs_MonthlyIn :: int
  vs_MonthlyOut :: int
  vs_IPs :: "string list"
  vs_ObservedAt :: time

record AgentImage =
  agi_ID :: string
  agi_Name :: string

record AgentForward =
  agf_Protocol :: string
  agf_HostPort :: int
  agf_GuestPort :: int
  agf_Description :: string

record InstanceSpec =
  spec_CPU :: int
  spec_MemoryMB :: int
  spec_DiskGB :: int
  spec_BandwidthMbps :: int

record Heartbeat =
  hb_Timestamp :: time
  hb_RAMTotalMB :: int
  hb_DiskTotalGB :: int
  hb_CPUs :: int
  hb_VirtType :: string
  hb_EntryHost :: string
  hb_EntryIPv6 :: string
  hb_VMs :: "VMState list"
  hb_Images :: "AgentImage list"

section \<open>Connections\<close>

definition Authenticate :: "(string \<Rightarrow> string) \<Rightarrow> string \<Rightarrow> uuid io" where
  "Authenticate sha256 token = orNoRows ErrNotFound (pool (\<lambda>e d.
     let P = (\<lambda>r. at_token_hash r = sha256 token \<and> at_status r = ''active''); t = agent_tokens (fleet d) in
     case filter P t of [] \<Rightarrow> Inl ErrNoRows
     | r # _ \<Rightarrow> Inr (at_node_id r, d\<lparr>fleet := (fleet d)\<lparr>agent_tokens := sqlUpdate P (\<lambda>r. r\<lparr>at_last_used_at := Some (pgNow e)\<rparr>) t\<rparr>\<rparr>)))"

definition Connected :: "uuid \<Rightarrow> uuid \<Rightarrow> string \<Rightarrow> unit io" where
  "Connected nodeID connID peer = pool (\<lambda>e d. let t = agent_connections (fleet d) in
     if list_ex (\<lambda>c. ac_node_id c = nodeID) t
     then Inr ((), d\<lparr>fleet := (fleet d)\<lparr>agent_connections := sqlUpdate (\<lambda>c. ac_node_id c = nodeID)
       (\<lambda>c. c\<lparr>ac_connection_id := connID, ac_status := ''connected'', ac_remote_address := Some peer, ac_connected_at := pgNow e,
         ac_disconnected_at := None\<rparr>) t\<rparr>\<rparr>)
     else insertInto True False (present n_id nodeID (nodes d)) () (d\<lparr>fleet := (fleet d)\<lparr>agent_connections := t @
       [\<lparr>ac_node_id = nodeID, ac_connection_id = connID, ac_status = ''connected'', ac_remote_address = Some peer, ac_agent_version = None,
         ac_connected_at = pgNow e, ac_disconnected_at = None, ac_last_heartbeat_at = None\<rparr>]\<rparr>\<rparr>))"

definition Disconnected :: "uuid \<Rightarrow> uuid \<Rightarrow> unit io" where
  "Disconnected nodeID connID = pool (\<lambda>e d. Inr ((), d\<lparr>fleet := (fleet d)\<lparr>agent_connections := sqlUpdate
     (\<lambda>c. ac_node_id c = nodeID \<and> ac_connection_id c = connID)
     (\<lambda>c. c\<lparr>ac_status := ''disconnected'', ac_disconnected_at := Some (pgNow e)\<rparr>) (agent_connections (fleet d))\<rparr>\<rparr>))"

text \<open>A message is claimed when it is new, or when its last claim is older than five minutes.\<close>

definition ClaimMessage :: "uuid \<Rightarrow> string \<Rightarrow> bool io" where
  "ClaimMessage nodeID messageID = pool (\<lambda>e d. let t = agent_messages (fleet d) in
     case filter (\<lambda>m. fst m = messageID) t of
       [] \<Rightarrow> insertInto True False (present n_id nodeID (nodes d)) True (d\<lparr>fleet := (fleet d)\<lparr>agent_messages := t @ [(messageID, nodeID, pgNow e)]\<rparr>\<rparr>)
     | (_, _, received) # _ \<Rightarrow> if received < pgNow e - 5 * minute
         then insertInto True False (present n_id nodeID (nodes d)) True (d\<lparr>fleet := (fleet d)\<lparr>agent_messages := sqlUpdate (\<lambda>m. fst m = messageID)
           (\<lambda>m. (messageID, nodeID, pgNow e)) t\<rparr>\<rparr>)
         else Inr (False, d))"

definition ReleaseMessage :: "uuid \<Rightarrow> string \<Rightarrow> unit io" where
  "ReleaseMessage nodeID messageID = pool (\<lambda>e d. Inr ((), d\<lparr>fleet := (fleet d)\<lparr>agent_messages :=
     filter (\<lambda>m. \<not> (fst m = messageID \<and> fst (snd m) = nodeID)) (agent_messages (fleet d))\<rparr>\<rparr>))"

section \<open>Reports of an agent\<close>

definition touchConnection :: "uuid \<Rightarrow> time \<Rightarrow> unit query" where
  "touchConnection nodeID stamp = (\<lambda>e d. Inr ((), d\<lparr>fleet := (fleet d)\<lparr>agent_connections := sqlUpdate (\<lambda>c. ac_node_id c = nodeID)
     (\<lambda>c. c\<lparr>ac_last_heartbeat_at := Some stamp, ac_status := ''connected''\<rparr>) (agent_connections (fleet d))\<rparr>\<rparr>))"

text \<open>The concatenation \<open>||\<close> of \<open>jsonb\<close> with an object.\<close>

definition jsonbConcat :: "json \<Rightarrow> (string \<times> json) list \<Rightarrow> json" where
  "jsonbConcat j members = (case j of JObj kvs \<Rightarrow> jsonb (JObj (kvs @ members)) | JArr xs \<Rightarrow> JArr (xs @ [jsonb (JObj members)])
     | x \<Rightarrow> JArr [x, jsonb (JObj members)])"

definition reported :: "env \<Rightarrow> Heartbeat \<Rightarrow> nodeRow \<Rightarrow> nodeRow" where
  "reported e h n = n\<lparr>n_status := ''online'', n_last_seen_at := Some (hb_Timestamp h),
     n_total := (n_total n)\<lparr>c_cpu := (if hb_CPUs h > 0 then hb_CPUs h * 100 else c_cpu (n_total n)),
       c_memory_mb := (if hb_RAMTotalMB h > 0 then hb_RAMTotalMB h else c_memory_mb (n_total n)),
       c_disk_gb := (if hb_DiskTotalGB h > 0 then hb_DiskTotalGB h else c_disk_gb (n_total n))\<rparr>,
     n_capabilities := jsonbConcat (n_capabilities n)
       [(''virtualization'', JStr (hb_VirtType h)), (''entry_host'', JStr (hb_EntryHost h)), (''entry_ipv6'', JStr (hb_EntryIPv6 h))],
     n_updated_at := pgNow e\<rparr>"

definition reportNode :: "uuid \<Rightarrow> Heartbeat \<Rightarrow> unit query" where
  "reportNode nodeID h = (\<lambda>e d. if list_all (\<lambda>n. n_id n = nodeID \<longrightarrow> nodeCheck (reported e h n)) (nodes d)
     then Inr ((), d\<lparr>nodes := sqlUpdate (\<lambda>n. n_id n = nodeID) (reported e h) (nodes d)\<rparr>) else Inl checkViolation)"

definition vmRow :: "uuid \<Rightarrow> VMState \<Rightarrow> vmStateRow" where
  "vmRow nodeID v = \<lparr>vm_node_id = nodeID, vm_instance_id = vs_InstanceID v, vm_status = vs_Status v, vm_cpu_percent = vs_CPUPercent v,
     vm_ram_used_mb = vs_RAMUsedMB v, vm_traffic_in_bytes = vs_TrafficIn v, vm_traffic_out_bytes = vs_TrafficOut v,
     vm_monthly_traffic_in = vs_MonthlyIn v, vm_monthly_traffic_out = vs_MonthlyOut v, vm_ips = vs_IPs v, vm_observed_at = vs_ObservedAt v\<rparr>"

definition upsertVM :: "uuid \<Rightarrow> VMState \<Rightarrow> unit query" where
  "upsertVM nodeID v = (\<lambda>e d. let t = agent_vm_states (fleet d); P = (\<lambda>r. vm_node_id r = nodeID \<and> vm_instance_id r = vs_InstanceID v) in
     if list_ex P t then Inr ((), d\<lparr>fleet := (fleet d)\<lparr>agent_vm_states := sqlUpdate P (\<lambda>_. vmRow nodeID v) t\<rparr>\<rparr>)
     else insertInto True False (present n_id nodeID (nodes d)) () (d\<lparr>fleet := (fleet d)\<lparr>agent_vm_states := t @ [vmRow nodeID v]\<rparr>\<rparr>))"

definition upsertImage :: "uuid \<Rightarrow> AgentImage \<Rightarrow> unit query" where
  "upsertImage nodeID im = (\<lambda>e d. let t = agent_images (fleet d); P = (\<lambda>r. im_node_id r = nodeID \<and> im_image_id r = agi_ID im) in
     if list_ex P t then Inr ((), d\<lparr>fleet := (fleet d)\<lparr>agent_images := sqlUpdate P (\<lambda>r. r\<lparr>im_name := agi_Name im, im_updated_at := pgNow e\<rparr>) t\<rparr>\<rparr>)
     else insertInto True False (present n_id nodeID (nodes d)) () (d\<lparr>fleet := (fleet d)\<lparr>agent_images := t @
       [\<lparr>im_node_id = nodeID, im_image_id = agi_ID im, im_name = agi_Name im, im_updated_at = pgNow e\<rparr>]\<rparr>\<rparr>))"

definition recordHeartbeat :: "uuid \<Rightarrow> Heartbeat \<Rightarrow> unit io" where
  "recordHeartbeat nodeID h = in_tx (
     bnd (exec (touchConnection nodeID (hb_Timestamp h))) (\<lambda>_.
     bnd (exec (reportNode nodeID h)) (\<lambda>_.
     bnd (forEach (\<lambda>v. exec (upsertVM nodeID v)) (hb_VMs h)) (\<lambda>_.
     bnd (forEach (\<lambda>im. exec (upsertImage nodeID im)) (hb_Images h)) (\<lambda>_. ret (Commit ()))))))"

section \<open>Commands\<close>

definition commandOf :: "commandRow \<Rightarrow> Command" where
  "commandOf r = \<lparr>Cmd_ID = cm_id r, Cmd_NodeID = cm_node_id r, Cmd_Type = cm_command_type r, Cmd_Payload = cm_payload r,
     Cmd_Status = cm_status r, Cmd_Result = (case cm_result r of None \<Rightarrow> JNull | Some j \<Rightarrow> j), Cmd_Error = text_string (cm_error_message r)\<rparr>"

definition newCommand :: "env \<Rightarrow> uuid \<Rightarrow> uuid \<Rightarrow> uuid option \<Rightarrow> string \<Rightarrow> string \<Rightarrow> (string \<times> json) list \<Rightarrow> commandRow" where
  "newCommand e newid nodeID operationID key kind payload = \<lparr>cm_id = newid, cm_node_id = nodeID, cm_operation_id = operationID,
     cm_idempotency_key = key, cm_command_type = kind, cm_payload = jsonb (JObj payload), cm_status = ''queued'', cm_result = None,
     cm_error_message = None, cm_created_at = pgNow e, cm_dispatched_at = None, cm_completed_at = None, cm_updated_at = pgNow e\<rparr>"

definition insertCommand :: "uuid \<Rightarrow> uuid \<Rightarrow> uuid option \<Rightarrow> string \<Rightarrow> string \<Rightarrow> (string \<times> json) list \<Rightarrow> commandRow query" where
  "insertCommand newid nodeID operationID key kind payload = (\<lambda>e d. let t = agent_commands (fleet d) in
     case filter (\<lambda>r. cm_idempotency_key r = key) t of
       r # _ \<Rightarrow> Inr (r, d)
     | [] \<Rightarrow> let r = newCommand e newid nodeID operationID key kind payload in
         insertInto True (conflicts (\<lambda>x. Some (cm_id x)) t r) (present n_id nodeID (nodes d) \<and> presentOpt op_id operationID (operations d))
           r (d\<lparr>fleet := (fleet d)\<lparr>agent_commands := t @ [r]\<rparr>\<rparr>))"

text \<open>\<open>equalJSON\<close> of this package compares the decoded documents.\<close>

definition equalJSON_runman :: "json \<Rightarrow> json \<Rightarrow> bool" where
  "equalJSON_runman a b \<longleftrightarrow> canonicalValue a = canonicalValue b"

definition CreateCommand :: "uuid \<Rightarrow> uuid option \<Rightarrow> string \<Rightarrow> string \<Rightarrow> (string \<times> json) list \<Rightarrow> Command io" where
  "CreateCommand nodeID operationID key kind payload = bnd newID (\<lambda>newid.
     bnd (pool (insertCommand newid nodeID operationID key kind payload)) (\<lambda>r.
     let c = commandOf r in
     if \<not> equalJSON_runman (cm_payload r) (JObj payload) \<or> Cmd_NodeID c \<noteq> nodeID \<or> Cmd_Type c \<noteq> kind
     then raise (ErrOther ''runman idempotency conflict'') else ret c))"

definition pendingCommands :: "uuid \<Rightarrow> db \<Rightarrow> commandRow list" where
  "pendingCommands nodeID d = sort_key cm_created_at (filter (\<lambda>r. cm_node_id r = nodeID \<and> cm_status r \<in> {''queued'', ''dispatched''}) (agent_commands (fleet d)))"

definition Pending :: "uuid \<Rightarrow> Command list io" where
  "Pending nodeID = pool (selectMany (\<lambda>e d. map (\<lambda>r. (commandOf r)\<lparr>Cmd_Result := JNull, Cmd_Error := []\<rparr>) (pendingCommands nodeID d)))"

definition dispatchRow :: "env \<Rightarrow> commandRow \<Rightarrow> commandRow" where
  "dispatchRow e r = r\<lparr>cm_status := ''dispatched'', cm_dispatched_at := (case cm_dispatched_at r of Some t \<Rightarrow> Some t | None \<Rightarrow> Some (pgNow e)),
     cm_updated_at := pgNow e\<rparr>"

definition MarkDispatched :: "uuid \<Rightarrow> unit io" where
  "MarkDispatched commandID = pool (\<lambda>e d. Inr ((), d\<lparr>fleet := (fleet d)\<lparr>agent_commands := sqlUpdate
     (\<lambda>r. cm_id r = commandID \<and> cm_status r \<in> {''queued'', ''dispatched''}) (dispatchRow e) (agent_commands (fleet d))\<rparr>\<rparr>))"

text \<open>The bytes of a result: none, a document, or text that is not JSON.\<close>

datatype rawData = NoData | Document json | Garbage

definition withoutKey :: "string \<Rightarrow> json \<Rightarrow> json" where
  "withoutKey k j = (case j of JObj kvs \<Rightarrow> JObj (filter (\<lambda>kv. fst kv \<noteq> k) kvs) | _ \<Rightarrow> j)"

definition passwordCommands :: "string list" where "passwordCommands = [''create'', ''reinstall'', ''reset_password'']"

definition completeRow :: "env \<Rightarrow> bool \<Rightarrow> json \<Rightarrow> string \<Rightarrow> commandRow \<Rightarrow> commandRow" where
  "completeRow e success result message r = r\<lparr>cm_status := (if success then ''succeeded'' else ''failed''), cm_result := Some (jsonb result),
     cm_error_message := text_of message,
     cm_payload := (if cm_command_type r \<in> set passwordCommands then withoutKey ''root_password'' (cm_payload r) else cm_payload r),
     cm_completed_at := Some (pgNow e), cm_updated_at := pgNow e\<rparr>"

definition Complete :: "uuid \<Rightarrow> bool \<Rightarrow> rawData \<Rightarrow> string \<Rightarrow> unit io" where
  "Complete commandID success result message = pool (\<lambda>e d. case result of
     Garbage \<Rightarrow> Inl (PgError ''22P02'')
   | _ \<Rightarrow> let j = (case result of Document j \<Rightarrow> j | _ \<Rightarrow> JNull) in
       Inr ((), d\<lparr>fleet := (fleet d)\<lparr>agent_commands := sqlUpdate
         (\<lambda>r. cm_id r = commandID \<and> cm_status r \<notin> {''succeeded'', ''failed''}) (completeRow e success j message) (agent_commands (fleet d))\<rparr>\<rparr>))"

definition GetCommand :: "uuid \<Rightarrow> Command io" where
  "GetCommand commandID = orNoRows ErrNotFound (pool (selectOne (\<lambda>e d. map commandOf (filter (\<lambda>r. cm_id r = commandID) (agent_commands (fleet d))))))"

section \<open>What is known of a node\<close>

definition VM :: "uuid \<Rightarrow> uuid \<Rightarrow> VMState io" where
  "VM nodeID vmID = orNoRows ErrNotFound (pool (selectOne (\<lambda>e d. map (\<lambda>r.
     \<lparr>vs_InstanceID = vm_instance_id r, vs_Status = vm_status r, vs_CPUPercent = vm_cpu_percent r, vs_RAMUsedMB = vm_ram_used_mb r,
      vs_TrafficIn = vm_traffic_in_bytes r, vs_TrafficOut = vm_traffic_out_bytes r, vs_MonthlyIn = vm_monthly_traffic_in r,
      vs_MonthlyOut = vm_monthly_traffic_out r, vs_IPs = vm_ips r, vs_ObservedAt = vm_observed_at r\<rparr>)
     (filter (\<lambda>r. vm_node_id r = nodeID \<and> vm_instance_id r = vmID) (agent_vm_states (fleet d))))))"

definition InstanceSpec_of :: "uuid \<Rightarrow> InstanceSpec io" where
  "InstanceSpec_of instanceID = orNoRows ErrNotFound (pool (selectOne (\<lambda>e d. map (\<lambda>i.
     \<lparr>spec_CPU = i_cpu_cores i, spec_MemoryMB = i_memory_mb i, spec_DiskGB = i_disk_gb i,
      spec_BandwidthMbps = (case i_bandwidth_mbps i of None \<Rightarrow> 0 | Some b \<Rightarrow> b)\<rparr>)
     (filter (\<lambda>i. i_id i = instanceID) (instances d)))))"

definition Images :: "uuid \<Rightarrow> AgentImage list io" where
  "Images nodeID = pool (selectMany (\<lambda>e d. map (\<lambda>r. \<lparr>agi_ID = im_image_id r, agi_Name = im_name r\<rparr>)
     (sort_key im_image_id (filter (\<lambda>r. im_node_id r = nodeID) (agent_images (fleet d))))))"

definition PortForwards :: "uuid \<Rightarrow> uuid \<Rightarrow> AgentForward list io" where
  "PortForwards nodeID vmID = pool (selectMany (\<lambda>e d. map (\<lambda>r.
     \<lparr>agf_Protocol = fw_protocol r, agf_HostPort = fw_host_port r, agf_GuestPort = fw_guest_port r, agf_Description = fw_description r\<rparr>)
     (sort_key fw_protocol (sort_key fw_host_port (filter (\<lambda>r. fw_node_id r = nodeID \<and> fw_instance_id r = vmID) (agent_port_forwards (fleet d)))))))"

definition clearForwards :: "uuid \<Rightarrow> uuid \<Rightarrow> unit query" where
  "clearForwards nodeID vmID = (\<lambda>e d. Inr ((), d\<lparr>fleet := (fleet d)\<lparr>agent_port_forwards :=
     filter (\<lambda>r. \<not> (fw_node_id r = nodeID \<and> fw_instance_id r = vmID)) (agent_port_forwards (fleet d))\<rparr>\<rparr>))"

definition insertForward :: "uuid \<Rightarrow> uuid \<Rightarrow> AgentForward \<Rightarrow> unit query" where
  "insertForward nodeID vmID p = (\<lambda>e d. let r = \<lparr>fw_node_id = nodeID, fw_instance_id = vmID, fw_protocol = agf_Protocol p,
       fw_host_port = agf_HostPort p, fw_guest_port = agf_GuestPort p, fw_description = agf_Description p, fw_updated_at = pgNow e\<rparr>;
       t = agent_port_forwards (fleet d) in
     insertInto True (conflicts (\<lambda>x. Some (fw_node_id x, fw_instance_id x, fw_protocol x, fw_host_port x)) t r)
       (present n_id nodeID (nodes d)) () (d\<lparr>fleet := (fleet d)\<lparr>agent_port_forwards := t @ [r]\<rparr>\<rparr>))"

definition SavePortForwards :: "uuid \<Rightarrow> uuid \<Rightarrow> AgentForward list \<Rightarrow> unit io" where
  "SavePortForwards nodeID vmID items = in_tx (
     bnd (exec (clearForwards nodeID vmID)) (\<lambda>_.
     bnd (forEach (\<lambda>p. exec (insertForward nodeID vmID p)) items) (\<lambda>_. ret (Commit ()))))"

definition Healthy :: "uuid \<Rightarrow> duration \<Rightarrow> bool io" where
  "Healthy nodeID maxAge = pool (\<lambda>e d. Inr (list_ex (\<lambda>c. ac_node_id c = nodeID \<and> ac_status c = ''connected'' \<and>
     (case ac_last_heartbeat_at c of None \<Rightarrow> False | Some t \<Rightarrow> t > pgNow e - maxAge)) (agent_connections (fleet d)), d))"

text \<open>A token is the text of two random identifiers; only its hash is stored.\<close>

definition IssueToken :: "(string \<Rightarrow> string) \<Rightarrow> uuid \<Rightarrow> string io" where
  "IssueToken sha256 nodeID = bnd newID (\<lambda>a. bnd newID (\<lambda>b. bnd (asks (\<lambda>e. uuidString e a @ uuidString e b)) (\<lambda>token. bnd newID (\<lambda>rowID.
     bnd (pool (\<lambda>e d. let r = \<lparr>at_id = rowID, at_node_id = nodeID, at_token_hash = sha256 token, at_status = ''active'', at_created_at = pgNow e,
           at_last_used_at = None\<rparr>; t = agent_tokens (fleet d) in
         insertInto True (conflicts (\<lambda>x. Some (at_id x)) t r \<or> conflicts (\<lambda>x. Some (at_token_hash x)) t r) (present n_id nodeID (nodes d))
           () (d\<lparr>fleet := (fleet d)\<lparr>agent_tokens := t @ [r]\<rparr>\<rparr>))) (\<lambda>_. ret token)))))"

section \<open>Broker\<close>

record Sender =
  Send :: "Command \<Rightarrow> unit io"
  Online :: "uuid \<Rightarrow> bool io"

text \<open>The sender of the worker: a node is online while its heartbeats arrive, and the gateway picks its commands up.\<close>

definition connectionSender :: Sender where
  "connectionSender = \<lparr>Send = (\<lambda>_. ret ()),
     Online = (\<lambda>nodeID. bnd (attempt (Healthy nodeID (90 * second))) (\<lambda>r. case r of Inl _ \<Rightarrow> ret False | Inr ok \<Rightarrow> ret ok))\<rparr>"

text \<open>
  The loop of \<open>Issue\<close>: every 100 ms, as often as the timeout allows, the command is read again; in between the gateway and
  other processes commit. A cancelled context makes the reading fail.
\<close>

primrec awaitResult :: "nat \<Rightarrow> uuid \<Rightarrow> (Command + Command) io" where
  "awaitResult 0 commandID = raise (ErrOther ''context deadline exceeded'')"
| "awaitResult (Suc n) commandID = bnd others (\<lambda>_. bnd (GetCommand commandID) (\<lambda>latest.
     if Cmd_Status latest = ''succeeded'' then ret (Inr latest)
     else if Cmd_Status latest = ''failed'' then ret (Inl latest)
     else awaitResult n commandID))"

text \<open>\<open>Issue\<close> returns the command also beside an error; the result of the model is the command and that error.\<close>

definition Issue :: "Sender \<Rightarrow> nat \<Rightarrow> uuid \<Rightarrow> uuid option \<Rightarrow> string \<Rightarrow> string \<Rightarrow> (string \<times> json) list \<Rightarrow> (Command option \<times> err option) io" where
  "Issue sender polls nodeID operationID key kind payload = bnd (attempt (CreateCommand nodeID operationID key kind payload)) (\<lambda>r. case r of
     Inl x \<Rightarrow> ret (None, Some x)
   | Inr cmd \<Rightarrow>
     if Cmd_Status cmd = ''succeeded'' then ret (Some cmd, None)
     else if Cmd_Status cmd = ''failed'' then ret (Some cmd, Some ErrCommandFailed)
     else bnd (Online sender nodeID) (\<lambda>online.
     if \<not> online then ret (Some cmd, Some ErrNodeOffline)
     else bnd (attempt (if Cmd_Status cmd = ''queued''
         then bnd (Send sender cmd) (\<lambda>_. bnd (attempt (MarkDispatched (Cmd_ID cmd))) (\<lambda>_. ret ())) else ret ())) (\<lambda>s. case s of
       Inl _ \<Rightarrow> ret (Some cmd, Some ErrNodeOffline)
     | Inr _ \<Rightarrow> bnd (attempt (awaitResult polls (Cmd_ID cmd))) (\<lambda>a. case a of
           Inl x \<Rightarrow> ret (Some cmd, Some x)
         | Inr (Inr latest) \<Rightarrow> ret (Some latest, None)
         | Inr (Inl latest) \<Rightarrow> ret (Some latest, Some ErrCommandFailed)))))"

end
