(* ===== verification/Gateway.thy ===== *)
theory Gateway
  imports Runman
begin

text \<open>
  \<open>internal/runman/gateway.go\<close>: one stream per agent. The messages of the protocol buffer definition are datatypes with the
  fields that the gateway reads or writes; the stream accepts or refuses what is sent, which is a parameter.
\<close>

section \<open>Messages\<close>

datatype VMStatus = VM_STATUS_CREATING | VM_STATUS_RUNNING | VM_STATUS_STOPPED | VM_STATUS_ERROR | VM_STATUS_OTHER

datatype Protocol = PROTOCOL_TCP | PROTOCOL_UDP

record pbVM =
  pvm_VmId :: string
  pvm_Status :: VMStatus
  pvm_CpuPct :: int
  pvm_RamUsedMb :: int
  pvm_TrafficInBytes :: int
  pvm_TrafficOutBytes :: int
  pvm_MonthlyTrafficIn :: int
  pvm_MonthlyTrafficOut :: int
  pvm_Ips :: "string list"

record pbHeartbeat =
  ph_RamTotalMb :: int
  ph_DiskTotalGb :: int
  ph_Cpus :: int
  ph_VirtType :: string
  ph_EntryHost :: string
  ph_EntryIpv6 :: string
  ph_Vms :: "pbVM list"
  ph_OsImages :: "AgentImage list"

record pbForward =
  pfw_Protocol :: Protocol
  pfw_HostPort :: int
  pfw_GuestPort :: int
  pfw_Description :: string

datatype agentPayload =
    HeartbeatMsg pbHeartbeat
  | CmdResult string bool rawData string
  | PortFwdList string "pbForward list"
  | OtherMsg

record AgentEnvelope =
  ae_MessageId :: string
  ae_Payload :: agentPayload

datatype platformPayload =
    Ping
  | CreateVm string int int int int string string
  | StartVm string
  | StopVm string bool
  | RestartVm string
  | DeleteVm string
  | ReinstallVm string string string int int int int
  | ResetPassword string string
  | GetPortFwds string
  | SetPortFwd string Protocol int int string
  | DelPortFwd string Protocol int

record PlatformEnvelope =
  pe_CommandId :: string
  pe_Payload :: platformPayload

section \<open>Commands on the wire\<close>

record commandPayload =
  cp_VMID :: string
  cp_CPU :: int
  cp_RAMMB :: int
  cp_DiskGB :: int
  cp_Bandwidth :: int
  cp_Image :: string
  cp_Password :: string
  cp_Protocol :: string
  cp_Description :: string
  cp_HostPort :: int
  cp_GuestPort :: int
  cp_Force :: bool

text \<open>
  \<open>json.Unmarshal\<close> into a field: a missing or null member leaves the zero value, a member of another type or out of range is an
  error and leaves it too.
\<close>

definition strMember :: "string \<Rightarrow> json \<Rightarrow> string \<times> bool" where
  "strMember k j = (case field k j of None \<Rightarrow> ([], True) | Some JNull \<Rightarrow> ([], True) | Some (JStr s) \<Rightarrow> (s, True) | Some _ \<Rightarrow> ([], False))"

definition intMember :: "int \<Rightarrow> string \<Rightarrow> json \<Rightarrow> int \<times> bool" where
  "intMember bound k j = (case field k j of None \<Rightarrow> (0, True) | Some JNull \<Rightarrow> (0, True)
     | Some (JNum n) \<Rightarrow> if - bound \<le> n \<and> n < bound then (n, True) else (0, False) | Some _ \<Rightarrow> (0, False))"

definition boolMember :: "string \<Rightarrow> json \<Rightarrow> bool \<times> bool" where
  "boolMember k j = (case field k j of None \<Rightarrow> (False, True) | Some JNull \<Rightarrow> (False, True) | Some (JBool b) \<Rightarrow> (b, True) | Some _ \<Rightarrow> (False, False))"

definition decodePayload :: "json \<Rightarrow> commandPayload \<times> bool" where
  "decodePayload j = (let int32 = intMember 2147483648; int64m = intMember 9223372036854775808 in
     (\<lparr>cp_VMID = fst (strMember ''vm_id'' j), cp_CPU = fst (int32 ''cpu'' j), cp_RAMMB = fst (int64m ''ram_mb'' j), cp_DiskGB = fst (int64m ''disk_gb'' j),
       cp_Bandwidth = fst (int32 ''bandwidth_mbps'' j), cp_Image = fst (strMember ''os_image'' j), cp_Password = fst (strMember ''root_password'' j),
       cp_Protocol = fst (strMember ''protocol'' j), cp_Description = fst (strMember ''description'' j), cp_HostPort = fst (int32 ''host_port'' j),
       cp_GuestPort = fst (int32 ''guest_port'' j), cp_Force = fst (boolMember ''force'' j)\<rparr>,
      (case j of JObj _ \<Rightarrow> True | JNull \<Rightarrow> True | _ \<Rightarrow> False) \<and>
      snd (strMember ''vm_id'' j) \<and> snd (int32 ''cpu'' j) \<and> snd (int64m ''ram_mb'' j) \<and> snd (int64m ''disk_gb'' j) \<and> snd (int32 ''bandwidth_mbps'' j) \<and>
      snd (strMember ''os_image'' j) \<and> snd (strMember ''root_password'' j) \<and> snd (strMember ''protocol'' j) \<and> snd (strMember ''description'' j) \<and>
      snd (int32 ''host_port'' j) \<and> snd (int32 ''guest_port'' j) \<and> snd (boolMember ''force'' j)))"

definition protocolOf :: "string \<Rightarrow> Protocol" where
  "protocolOf s = (if s = ''udp'' then PROTOCOL_UDP else PROTOCOL_TCP)"

definition payloadFor :: "string \<Rightarrow> commandPayload \<Rightarrow> platformPayload option" where
  "payloadFor kind p =
    (if kind = ''create'' then Some (CreateVm (cp_VMID p) (cp_CPU p) (cp_RAMMB p) (cp_DiskGB p) (cp_Bandwidth p) (cp_Image p) (cp_Password p))
     else if kind = ''start'' then Some (StartVm (cp_VMID p))
     else if kind = ''stop'' then Some (StopVm (cp_VMID p) (cp_Force p))
     else if kind = ''restart'' then Some (RestartVm (cp_VMID p))
     else if kind = ''delete'' then Some (DeleteVm (cp_VMID p))
     else if kind = ''reinstall'' then Some (ReinstallVm (cp_VMID p) (cp_Image p) (cp_Password p) (cp_CPU p) (cp_RAMMB p) (cp_DiskGB p) (cp_Bandwidth p))
     else if kind = ''reset_password'' then Some (ResetPassword (cp_VMID p) (cp_Password p))
     else if kind = ''list_ports'' then Some (GetPortFwds (cp_VMID p))
     else if kind = ''add_port'' then Some (SetPortFwd (cp_VMID p) (protocolOf (cp_Protocol p)) (cp_HostPort p) (cp_GuestPort p) (cp_Description p))
     else if kind = ''delete_port'' then Some (DelPortFwd (cp_VMID p) (protocolOf (cp_Protocol p)) (cp_HostPort p))
     else None)"

definition commandEnvelope :: "env \<Rightarrow> Command \<Rightarrow> err + PlatformEnvelope" where
  "commandEnvelope e c = (case decodePayload (Cmd_Payload c) of (p, ok) \<Rightarrow>
     if \<not> ok then Inl (ErrOther ''json: cannot unmarshal'')
     else (case payloadFor (Cmd_Type c) p of None \<Rightarrow> Inl (ErrOther ''unsupported runman command'')
       | Some payload \<Rightarrow> Inr \<lparr>pe_CommandId = uuidString e (Cmd_ID c), pe_Payload = payload\<rparr>))"

section \<open>What an agent says\<close>

definition vmStatus :: "VMStatus \<Rightarrow> string" where
  "vmStatus v = (case v of VM_STATUS_CREATING \<Rightarrow> ''provisioning'' | VM_STATUS_RUNNING \<Rightarrow> ''running'' | VM_STATUS_STOPPED \<Rightarrow> ''stopped''
     | VM_STATUS_ERROR \<Rightarrow> ''error'' | VM_STATUS_OTHER \<Rightarrow> ''unknown'')"

text \<open>Machines whose identifier does not parse are left out; the time is that of the receipt.\<close>

definition heartbeatOf :: "env \<Rightarrow> pbHeartbeat \<Rightarrow> Heartbeat" where
  "heartbeatOf e h = \<lparr>hb_Timestamp = goNow e, hb_RAMTotalMB = ph_RamTotalMb h, hb_DiskTotalGB = ph_DiskTotalGb h, hb_CPUs = ph_Cpus h,
     hb_VirtType = ph_VirtType h, hb_EntryHost = ph_EntryHost h, hb_EntryIPv6 = ph_EntryIpv6 h,
     hb_VMs = List.map_filter (\<lambda>v. case uuidParse e (pvm_VmId v) of None \<Rightarrow> None
       | Some vmID \<Rightarrow> Some \<lparr>vs_InstanceID = vmID, vs_Status = vmStatus (pvm_Status v), vs_CPUPercent = pvm_CpuPct v, vs_RAMUsedMB = pvm_RamUsedMb v,
           vs_TrafficIn = pvm_TrafficInBytes v, vs_TrafficOut = pvm_TrafficOutBytes v, vs_MonthlyIn = pvm_MonthlyTrafficIn v,
           vs_MonthlyOut = pvm_MonthlyTrafficOut v, vs_IPs = pvm_Ips v, vs_ObservedAt = goNow e\<rparr>) (ph_Vms h),
     hb_Images = ph_OsImages h\<rparr>"

definition forwardOf :: "pbForward \<Rightarrow> AgentForward" where
  "forwardOf v = \<lparr>agf_Protocol = (if pfw_Protocol v = PROTOCOL_UDP then ''udp'' else ''tcp''), agf_HostPort = pfw_HostPort v,
     agf_GuestPort = pfw_GuestPort v, agf_Description = pfw_Description v\<rparr>"

definition handleClaimed :: "uuid \<Rightarrow> agentPayload \<Rightarrow> unit io" where
  "handleClaimed nodeID m = (case m of
     HeartbeatMsg h \<Rightarrow> bnd (asks (\<lambda>e. heartbeatOf e h)) (\<lambda>report. recordHeartbeat nodeID report)
   | CmdResult commandID success result message \<Rightarrow> bnd (asks (\<lambda>e. uuidParse e commandID)) (\<lambda>parsed. case parsed of
         None \<Rightarrow> ret () | Some cid \<Rightarrow> Complete cid success result message)
   | PortFwdList commandID entries \<Rightarrow> bnd (asks (\<lambda>e. uuidParse e commandID)) (\<lambda>parsed. case parsed of
         None \<Rightarrow> ret ()
       | Some cid \<Rightarrow> bnd (attempt (GetCommand cid)) (\<lambda>r. case r of
           Inl _ \<Rightarrow> ret ()
         | Inr cmd \<Rightarrow> bnd (asks (\<lambda>e. uuidParse e (cp_VMID (fst (decodePayload (Cmd_Payload cmd)))))) (\<lambda>vm. case vm of
             None \<Rightarrow> ret ()
           | Some vmID \<Rightarrow> bnd (SavePortForwards nodeID vmID (map forwardOf entries)) (\<lambda>_. Complete cid True (Document JNull) []))))
   | OtherMsg \<Rightarrow> ret ())"

text \<open>A message is handled once; it can be sent again when handling it failed.\<close>

definition handle :: "uuid \<Rightarrow> AgentEnvelope \<Rightarrow> unit io" where
  "handle nodeID m = (if ae_MessageId m = [] then raise (ErrOther ''message_id is required'')
     else bnd (attempt (ClaimMessage nodeID (ae_MessageId m))) (\<lambda>r. case r of
       Inl _ \<Rightarrow> raise (ErrOther ''persist message'')
     | Inr claimed \<Rightarrow> if \<not> claimed then ret ()
         else bnd (attempt (handleClaimed nodeID (ae_Payload m))) (\<lambda>h. case h of
           Inr _ \<Rightarrow> ret ()
         | Inl x \<Rightarrow> bnd (attempt (ReleaseMessage nodeID (ae_MessageId m))) (\<lambda>_. raise x))))"

section \<open>The stream of one agent\<close>

text \<open>The connections of the process and the commands waiting in their channels of 64 places.\<close>

record gateway =
  gw_connections :: "uuid \<rightharpoonup> uuid"
  gw_channels :: "uuid \<Rightarrow> Command list"

definition NewGateway :: gateway where "NewGateway = \<lparr>gw_connections = Map.empty, gw_channels = (\<lambda>_. [])\<rparr>"

definition gatewayOnline :: "gateway \<Rightarrow> uuid \<Rightarrow> bool" where "gatewayOnline g nodeID \<longleftrightarrow> gw_connections g nodeID \<noteq> None"

text \<open>A full channel blocks until the context of the caller ends.\<close>

definition gatewaySend :: "gateway \<Rightarrow> Command \<Rightarrow> err + gateway" where
  "gatewaySend g c = (case gw_connections g (Cmd_NodeID c) of
     None \<Rightarrow> Inl ErrNodeOffline
   | Some connID \<Rightarrow> if length (gw_channels g connID) < 64
       then Inr (g\<lparr>gw_channels := (gw_channels g)(connID := gw_channels g connID @ [c])\<rparr>) else Inl ErrDriver)"

definition attach :: "gateway \<Rightarrow> uuid \<Rightarrow> uuid \<Rightarrow> gateway" where
  "attach g nodeID connID = g\<lparr>gw_connections := (gw_connections g)(nodeID \<mapsto> connID), gw_channels := (gw_channels g)(connID := [])\<rparr>"

text \<open>Only the connection that is still current is removed.\<close>

definition detach :: "gateway \<Rightarrow> uuid \<Rightarrow> uuid \<Rightarrow> gateway" where
  "detach g nodeID connID = (if gw_connections g nodeID = Some connID then g\<lparr>gw_connections := (gw_connections g)(nodeID := None)\<rparr> else g)"

text \<open>A connection: its identifier, the commands already sent, and everything written to the stream.\<close>

record connection =
  conn_id :: uuid
  conn_sent :: "uuid list"
  conn_out :: "PlatformEnvelope list"

text \<open>\<open>accepts n\<close>: the n-th message written to the stream goes out.\<close>

definition sendCommand :: "(nat \<Rightarrow> bool) \<Rightarrow> connection \<Rightarrow> Command \<Rightarrow> connection io" where
  "sendCommand accepts conn command = bnd (asks (\<lambda>e. commandEnvelope e command)) (\<lambda>r. case r of
     Inl x \<Rightarrow> bnd (asks (\<lambda>e. errorText e x)) (\<lambda>message.
       bnd (attempt (Complete (Cmd_ID command) False NoData message)) (\<lambda>_. ret conn))
   | Inr wire \<Rightarrow> if \<not> accepts (length (conn_out conn)) then raise ErrDriver
       else bnd (MarkDispatched (Cmd_ID command)) (\<lambda>_.
         ret (conn\<lparr>conn_sent := Cmd_ID command # conn_sent conn, conn_out := conn_out conn @ [wire]\<rparr>)))"

primrec sendAll :: "(nat \<Rightarrow> bool) \<Rightarrow> Command list \<Rightarrow> connection \<Rightarrow> connection io" where
  "sendAll accepts [] conn = ret conn"
| "sendAll accepts (c # cs) conn = bnd (sendCommand accepts conn c) (sendAll accepts cs)"

definition pendingOr :: "uuid \<Rightarrow> Command list io" where
  "pendingOr nodeID = bnd (attempt (Pending nodeID)) (\<lambda>r. case r of Inl _ \<Rightarrow> ret [] | Inr cs \<Rightarrow> ret cs)"

primrec sendUnsent :: "(nat \<Rightarrow> bool) \<Rightarrow> Command list \<Rightarrow> connection \<Rightarrow> connection io" where
  "sendUnsent accepts [] conn = ret conn"
| "sendUnsent accepts (c # cs) conn = (if Cmd_ID c \<in> set (conn_sent conn) then sendUnsent accepts cs conn
     else bnd (sendCommand accepts conn c) (sendUnsent accepts cs))"

text \<open>What the \<open>select\<close> of \<open>Connect\<close> finds ready.\<close>

datatype wake = Incoming AgentEnvelope | Queued Command | PingTick | DispatchTick

definition serveWake :: "(nat \<Rightarrow> bool) \<Rightarrow> uuid \<Rightarrow> wake \<Rightarrow> connection \<Rightarrow> connection io" where
  "serveWake accepts nodeID k conn = (case k of
     Incoming m \<Rightarrow> bnd (handle nodeID m) (\<lambda>_. ret conn)
   | Queued c \<Rightarrow> sendCommand accepts conn c
   | PingTick \<Rightarrow> bnd newID (\<lambda>pingID. bnd (asks (\<lambda>e. uuidString e pingID)) (\<lambda>s.
       if accepts (length (conn_out conn)) then ret (conn\<lparr>conn_out := conn_out conn @ [\<lparr>pe_CommandId = s, pe_Payload = Ping\<rparr>]\<rparr>) else raise ErrDriver))
   | DispatchTick \<Rightarrow> bnd (pendingOr nodeID) (\<lambda>queued. sendUnsent accepts queued conn))"

primrec serveWakes :: "(nat \<Rightarrow> bool) \<Rightarrow> uuid \<Rightarrow> wake list \<Rightarrow> connection \<Rightarrow> connection io" where
  "serveWakes accepts nodeID [] conn = ret conn"
| "serveWakes accepts nodeID (k # ks) conn = bnd (serveWake accepts nodeID k conn) (\<lambda>conn'. bnd others (\<lambda>_. serveWakes accepts nodeID ks conn'))"

text \<open>
  \<open>Connect\<close> until the stream ends after the given wakes: the token, the registration, the pending commands, the loop, and the
  deferred deregistration. \<open>None\<close> as a token is a missing or malformed authorization header.
\<close>

definition Connect :: "(string \<Rightarrow> string) \<Rightarrow> (nat \<Rightarrow> bool) \<Rightarrow> string option \<Rightarrow> string \<Rightarrow> wake list \<Rightarrow> connection io" where
  "Connect sha256 accepts token peer wakes = (case token of
     None \<Rightarrow> raise (ErrOther ''agent token required'')
   | Some t \<Rightarrow> bnd (attempt (Authenticate sha256 t)) (\<lambda>r. case r of
       Inl _ \<Rightarrow> raise (ErrOther ''invalid agent token'')
     | Inr nodeID \<Rightarrow> bnd newID (\<lambda>connID. bnd (attempt (Connected nodeID connID peer)) (\<lambda>c. case c of
         Inl _ \<Rightarrow> raise (ErrOther ''persist connection'')
       | Inr _ \<Rightarrow> bnd (attempt (bnd (pendingOr nodeID) (\<lambda>pending.
           bnd (sendAll accepts pending \<lparr>conn_id = connID, conn_sent = [], conn_out = []\<rparr>) (serveWakes accepts nodeID wakes)))) (\<lambda>s.
           bnd (attempt (Disconnected nodeID connID)) (\<lambda>_. case s of Inl x \<Rightarrow> raise x | Inr conn \<Rightarrow> ret conn))))))"

end
