(* ===== verification/Runman_Adapter.thy ===== *)
theory Runman_Adapter
  imports Runman
begin

text \<open>
  \<open>internal/provider/runman/adapter.go\<close>: the provider that turns the calls of the platform into commands for the agents. Core
  counts are hundredths; a command carries whole cores.
\<close>

section \<open>Errors and identifiers\<close>

definition deadlineExceeded :: err where "deadlineExceeded = ErrOther ''context deadline exceeded''"

definition normalizeWith :: "env \<Rightarrow> Command option \<Rightarrow> err \<Rightarrow> err" where
  "normalizeWith e c x = ErrProvider
     (if x = ErrNodeOffline then ErrorNodeOffline else if x = deadlineExceeded then ErrorTimeout
      else if x = ErrNotFound then ErrorInstanceNotFound else ErrorUnknown)
     (x = ErrNodeOffline \<or> x = deadlineExceeded)
     (case c of Some cmd \<Rightarrow> if Cmd_Error cmd \<noteq> [] then Cmd_Error cmd else errorText e x | None \<Rightarrow> errorText e x)"

definition normalize :: "'a io \<Rightarrow> 'a io" where
  "normalize m = bnd (attempt m) (\<lambda>r. case r of Inr y \<Rightarrow> ret y | Inl x \<Rightarrow> bnd (asks (\<lambda>e. normalizeWith e None x)) raise)"

definition parseID :: "string \<Rightarrow> uuid io" where
  "parseID v = bnd (asks (\<lambda>e. uuidParse e v)) (\<lambda>r. case r of None \<Rightarrow> raise (ErrProvider ErrorUnknown False ''invalid uuid'') | Some u \<Rightarrow> ret u)"

definition operationOf :: "string \<Rightarrow> uuid option io" where "operationOf v = asks (\<lambda>e. uuidParse e v)"

definition firstOf :: "string \<Rightarrow> string \<Rightarrow> string" where "firstOf a b = (if a \<noteq> [] then a else b)"

definition resultOf :: "Command option \<times> err option \<Rightarrow> ProviderOperation io" where
  "resultOf r = (case r of
     (c, Some x) \<Rightarrow> bnd (asks (\<lambda>e. normalizeWith e c x)) raise
   | (Some c, None) \<Rightarrow> asks (\<lambda>e. \<lparr>po_ProviderOperationID = uuidString e (Cmd_ID c), po_Status = Cmd_Status c,
       po_Accepted = (Cmd_Status c = ''succeeded'' \<or> Cmd_Status c = ''dispatched''), po_Metadata = []\<rparr>)
   | (None, None) \<Rightarrow> asks (\<lambda>e. \<lparr>po_ProviderOperationID = uuidString e uuidNil, po_Status = [], po_Accepted = False, po_Metadata = []\<rparr>))"

text \<open>The adapter's fields: the broker (its sender and how often it polls) and the default node.\<close>

record RunmanAdapter =
  ra_sender :: Sender
  ra_polls :: nat
  ra_defaultNode :: "uuid option"

definition issue :: "RunmanAdapter \<Rightarrow> uuid \<Rightarrow> uuid option \<Rightarrow> string \<Rightarrow> string \<Rightarrow> (string \<times> json) list \<Rightarrow> (Command option \<times> err option) io" where
  "issue a = Issue (ra_sender a) (ra_polls a)"

section \<open>Factory and description\<close>

definition RunmanFactory :: "Sender \<Rightarrow> nat \<Rightarrow> json \<Rightarrow> RunmanAdapter io" where
  "RunmanFactory sender polls config = (case field ''default_node_id'' config of
     Some (JStr s) \<Rightarrow> if s = [] then ret \<lparr>ra_sender = sender, ra_polls = polls, ra_defaultNode = None\<rparr>
       else bnd (asks (\<lambda>e. uuidParse e s)) (\<lambda>r. case r of None \<Rightarrow> raise (ErrOther ''invalid UUID'')
         | Some u \<Rightarrow> ret \<lparr>ra_sender = sender, ra_polls = polls, ra_defaultNode = Some u\<rparr>)
   | _ \<Rightarrow> ret \<lparr>ra_sender = sender, ra_polls = polls, ra_defaultNode = None\<rparr>)"

definition Health_runman :: "RunmanAdapter \<Rightarrow> Health io" where
  "Health_runman a = (case ra_defaultNode a of
     None \<Rightarrow> asks (\<lambda>e. \<lparr>hl_Status = ''active'', hl_Version = ''runman-v1'', hl_CheckedAt = goNow e, hl_Details = [(''scope'', JStr ''per-node'')]\<rparr>)
   | Some nodeID \<Rightarrow> bnd (Healthy nodeID (90 * second)) (\<lambda>ok. asks (\<lambda>e. \<lparr>hl_Status = (if ok then ''active'' else ''unavailable''),
       hl_Version = ''runman-v1'', hl_CheckedAt = goNow e, hl_Details = []\<rparr>)))"

definition Capabilities_runman :: Capabilities where
  "Capabilities_runman = \<lparr>cap_CreateInstance = True, cap_DeleteInstance = True, cap_Start = True, cap_Stop = True, cap_Restart = True,
     cap_Reinstall = True, cap_ResetPassword = True, cap_Traffic = True, cap_Metrics = True, cap_NAT = True, cap_IPv4 = True, cap_IPv6 = True,
     cap_Snapshot = False, cap_Console = False, cap_Firewall = False, cap_SupportedRuntimes = [''podman'', ''cloudhv'', ''incus'']\<rparr>"

definition ListImages_runman :: "string \<Rightarrow> Image list io" where
  "ListImages_runman nodeText = bnd (parseID nodeText) (\<lambda>nodeID. bnd (normalize (Images nodeID)) (\<lambda>items.
     ret (map (\<lambda>v. \<lparr>img_ID = agi_ID v, img_Name = agi_Name v, img_OS = [], img_Version = [], img_Arch = [], img_Description = []\<rparr>) items)))"

section \<open>Commands\<close>

text \<open>The conversion \<open>int32(cores)\<close> of a decimal of cores in hundredths: towards zero.\<close>

definition wholeCores :: "int \<Rightarrow> int" where "wholeCores c = (if c < 0 then - ((- c) div 100) else c div 100)"

definition wrap32 :: "int \<Rightarrow> int" where "wrap32 x = (x + 2147483648) mod 4294967296 - 2147483648"

definition CreateInstance_runman :: "RunmanAdapter \<Rightarrow> CreateInstanceRequest \<Rightarrow> ProviderOperation io" where
  "CreateInstance_runman a r = bnd (parseID (ci_NodeID r)) (\<lambda>nodeID. bnd (parseID (ci_InstanceID r)) (\<lambda>vmID.
     bnd (operationOf (ci_OperationID r)) (\<lambda>operationID. bnd (asks (\<lambda>e. uuidString e vmID)) (\<lambda>vmText.
     bnd (issue a nodeID operationID (ci_IdempotencyKey r) ''create''
       [(''vm_id'', JStr vmText), (''cpu'', JNum (wholeCores (ci_CPUCores r))), (''ram_mb'', JNum (ci_MemoryMB r)), (''disk_gb'', JNum (ci_DiskGB r)),
        (''bandwidth_mbps'', JNum (case ci_BandwidthMbps r of None \<Rightarrow> 0 | Some b \<Rightarrow> wrap32 b)), (''os_image'', JStr (ci_Image r)),
        (''root_password'', JStr (case ci_RootPassword r of None \<Rightarrow> [] | Some p \<Rightarrow> p))]) resultOf))))"

definition action_runman :: "RunmanAdapter \<Rightarrow> InstanceActionRequest \<Rightarrow> string \<Rightarrow> ProviderOperation io" where
  "action_runman a r kind = bnd (parseID (ia_NodeID r)) (\<lambda>nodeID. bnd (parseID (ia_ProviderInstanceID r)) (\<lambda>vmID.
     bnd (operationOf (ia_OperationID r)) (\<lambda>operationID. bnd (asks (\<lambda>e. uuidString e vmID)) (\<lambda>vmText.
     bnd (issue a nodeID operationID (ia_IdempotencyKey r) kind [(''vm_id'', JStr vmText)]) resultOf))))"

definition StartInstance_runman :: "RunmanAdapter \<Rightarrow> InstanceActionRequest \<Rightarrow> ProviderOperation io" where
  "StartInstance_runman a r = action_runman a r ''start''"

definition StopInstance_runman :: "RunmanAdapter \<Rightarrow> InstanceActionRequest \<Rightarrow> ProviderOperation io" where
  "StopInstance_runman a r = action_runman a r ''stop''"

definition RestartInstance_runman :: "RunmanAdapter \<Rightarrow> InstanceActionRequest \<Rightarrow> ProviderOperation io" where
  "RestartInstance_runman a r = action_runman a r ''restart''"

definition DeleteInstance_runman :: "RunmanAdapter \<Rightarrow> InstanceActionRequest \<Rightarrow> ProviderOperation io" where
  "DeleteInstance_runman a r = action_runman a r ''delete''"

definition ReinstallInstance_runman :: "RunmanAdapter \<Rightarrow> ReinstallInstanceRequest \<Rightarrow> ProviderOperation io" where
  "ReinstallInstance_runman a r = bnd (parseID (ia_NodeID r)) (\<lambda>nodeID. bnd (parseID (ia_ProviderInstanceID r)) (\<lambda>vmID.
     bnd (normalize (InstanceSpec_of vmID)) (\<lambda>spec.
     bnd (operationOf (ia_OperationID r)) (\<lambda>operationID. bnd (asks (\<lambda>e. uuidString e vmID)) (\<lambda>vmText.
     bnd (issue a nodeID operationID (ia_IdempotencyKey r) ''reinstall''
       [(''vm_id'', JStr vmText), (''os_image'', JStr (ri_Image r)), (''root_password'', JStr (case ri_RootPassword r of None \<Rightarrow> [] | Some p \<Rightarrow> p)),
        (''cpu'', JNum (wholeCores (spec_CPU spec))), (''ram_mb'', JNum (spec_MemoryMB spec)), (''disk_gb'', JNum (spec_DiskGB spec)),
        (''bandwidth_mbps'', JNum (spec_BandwidthMbps spec))]) resultOf)))))"

definition ResetPassword_runman :: "RunmanAdapter \<Rightarrow> ResetPasswordRequest \<Rightarrow> ProviderOperation io" where
  "ResetPassword_runman a r = bnd (parseID (ia_NodeID r)) (\<lambda>nodeID. bnd (parseID (ia_ProviderInstanceID r)) (\<lambda>vmID.
     bnd (operationOf (ia_OperationID r)) (\<lambda>operationID. bnd (asks (\<lambda>e. uuidString e vmID)) (\<lambda>vmText.
     bnd (issue a nodeID operationID (ia_IdempotencyKey r) ''reset_password'' [(''vm_id'', JStr vmText), (''root_password'', JStr (rp_RootPassword r))]) resultOf))))"

section \<open>State\<close>

text \<open>\<open>spec, _ :=\<close>: what is not known of the instance is zero.\<close>

definition specOrZero :: "uuid \<Rightarrow> InstanceSpec io" where
  "specOrZero vmID = bnd (attempt (InstanceSpec_of vmID)) (\<lambda>r. case r of
     Inl _ \<Rightarrow> ret \<lparr>spec_CPU = 0, spec_MemoryMB = 0, spec_DiskGB = 0, spec_BandwidthMbps = 0\<rparr> | Inr spec \<Rightarrow> ret spec)"

definition GetInstance_runman :: "GetInstanceRequest \<Rightarrow> ProviderInstance io" where
  "GetInstance_runman r = bnd (parseID (gi_NodeID r)) (\<lambda>nodeID. bnd (parseID (firstOf (gi_PlatformInstanceID r) (gi_ProviderInstanceID r))) (\<lambda>vmID.
     bnd (normalize (VM nodeID vmID)) (\<lambda>v. bnd (specOrZero vmID) (\<lambda>spec. asks (\<lambda>e.
       \<lparr>prv_ProviderInstanceID = uuidString e vmID, prv_State = vs_Status v, prv_CPUCores = spec_CPU spec, prv_MemoryMB = spec_MemoryMB spec,
        prv_DiskGB = spec_DiskGB spec, prv_IPv4 = filter (\<lambda>ip. CHR '':'' \<notin> set ip) (vs_IPs v), prv_IPv6 = filter (\<lambda>ip. CHR '':'' \<in> set ip) (vs_IPs v),
        prv_CreatedAt = zeroTime, prv_Metadata = [(''observed_at'', JTime (vs_ObservedAt v))]\<rparr>)))))"

definition GetUsage_runman :: "GetInstanceRequest \<Rightarrow> Usage io" where
  "GetUsage_runman r = bnd (parseID (gi_NodeID r)) (\<lambda>nodeID. bnd (parseID (firstOf (gi_PlatformInstanceID r) (gi_ProviderInstanceID r))) (\<lambda>vmID.
     bnd (normalize (VM nodeID vmID)) (\<lambda>v. bnd (specOrZero vmID) (\<lambda>spec. ret
       \<lparr>us_CPUPercent = vs_CPUPercent v, us_MemoryUsedMB = vs_RAMUsedMB v, us_MemoryTotalMB = spec_MemoryMB spec, us_DiskUsedGB = 0,
        us_DiskTotalGB = spec_DiskGB spec, us_ObservedAt = vs_ObservedAt v\<rparr>))))"

definition GetTraffic_runman :: "GetTrafficRequest \<Rightarrow> Traffic io" where
  "GetTraffic_runman r = bnd (parseID (gi_NodeID r)) (\<lambda>nodeID. bnd (parseID (firstOf (gi_PlatformInstanceID r) (gi_ProviderInstanceID r))) (\<lambda>vmID.
     bnd (normalize (VM nodeID vmID)) (\<lambda>v. ret \<lparr>tr_RXBytes = vs_MonthlyIn v, tr_TXBytes = vs_MonthlyOut v, tr_From = gt_From r, tr_To = gt_To r\<rparr>)))"

section \<open>Port forwards\<close>

definition ListPortForwards_runman :: "RunmanAdapter \<Rightarrow> GetInstanceRequest \<Rightarrow> PortForward list io" where
  "ListPortForwards_runman a r = bnd (parseID (gi_NodeID r)) (\<lambda>nodeID. bnd (parseID (firstOf (gi_PlatformInstanceID r) (gi_ProviderInstanceID r))) (\<lambda>vmID.
     bnd newID (\<lambda>unique. bnd (asks (\<lambda>e. (''list-ports:'' @ uuidString e unique, uuidString e vmID))) (\<lambda>(key, vmText).
     bnd (issue a nodeID None key ''list_ports'' [(''vm_id'', JStr vmText)]) (\<lambda>res. case snd res of
       Some x \<Rightarrow> bnd (asks (\<lambda>e. normalizeWith e None x)) raise
     | None \<Rightarrow> bnd (normalize (PortForwards nodeID vmID)) (\<lambda>items.
         ret (map (\<lambda>v. \<lparr>pf_ProviderMappingID = agf_Protocol v @ '':'' @ itoa (agf_HostPort v), pf_Protocol = agf_Protocol v, pf_PublicIP = [],
           pf_PublicPort = agf_HostPort v, pf_GuestPort = agf_GuestPort v, pf_Description = agf_Description v\<rparr>) items)))))))"

definition AddPortForward_runman :: "RunmanAdapter \<Rightarrow> AddPortForwardRequest \<Rightarrow> ProviderOperation io" where
  "AddPortForward_runman a r = bnd (parseID (ia_NodeID r)) (\<lambda>nodeID. bnd (parseID (ia_ProviderInstanceID r)) (\<lambda>vmID.
     bnd (operationOf (ia_OperationID r)) (\<lambda>operationID. bnd (asks (\<lambda>e. uuidString e vmID)) (\<lambda>vmText.
     bnd (issue a nodeID operationID (ia_IdempotencyKey r) ''add_port'' [(''vm_id'', JStr vmText), (''protocol'', JStr (ap_Protocol r)),
       (''host_port'', JNum (ap_PublicPort r)), (''guest_port'', JNum (ap_GuestPort r)), (''description'', JStr (ap_Description r))]) resultOf))))"

text \<open>\<open>strings.Split\<close> at a character, and \<open>strconv.Atoi\<close>.\<close>

fun split :: "char \<Rightarrow> string \<Rightarrow> string list" where
  "split c [] = [[]]"
| "split c (x # xs) = (if x = c then [] # split c xs else (case split c xs of [] \<Rightarrow> [[x]] | p # ps \<Rightarrow> (x # p) # ps))"

definition digit :: "char \<Rightarrow> int option" where
  "digit c = (if CHR ''0'' \<le> c \<and> c \<le> CHR ''9'' then Some (of_char c - 48) else None)"

fun decimal :: "int \<Rightarrow> string \<Rightarrow> int option" where
  "decimal acc [] = Some acc"
| "decimal acc (c # cs) = (case digit c of None \<Rightarrow> None | Some d \<Rightarrow> decimal (acc * 10 + d) cs)"

definition Atoi :: "string \<Rightarrow> int option" where
  "Atoi s = (case s of
     [] \<Rightarrow> None
   | c # cs \<Rightarrow> (let r = (if c = CHR ''-'' then (if cs = [] then None else map_option uminus (decimal 0 cs))
         else if c = CHR ''+'' then (if cs = [] then None else decimal 0 cs) else decimal 0 s) in
       case r of None \<Rightarrow> None | Some n \<Rightarrow> if int64 n then Some n else None))"

definition DeletePortForward_runman :: "RunmanAdapter \<Rightarrow> DeletePortForwardRequest \<Rightarrow> ProviderOperation io" where
  "DeletePortForward_runman a r = bnd (parseID (ia_NodeID r)) (\<lambda>nodeID. bnd (parseID (ia_ProviderInstanceID r)) (\<lambda>vmID.
     case split (CHR '':'') (dp_ProviderMappingID r) of
       [proto, portText] \<Rightarrow> (case Atoi portText of
           None \<Rightarrow> raise (ErrOther ''strconv.Atoi'')
         | Some port \<Rightarrow> bnd (operationOf (ia_OperationID r)) (\<lambda>operationID. bnd (asks (\<lambda>e. uuidString e vmID)) (\<lambda>vmText.
             bnd (issue a nodeID operationID (ia_IdempotencyKey r) ''delete_port'' [(''vm_id'', JStr vmText), (''protocol'', JStr proto),
               (''host_port'', JNum port)]) resultOf)))
     | _ \<Rightarrow> raise (ErrProvider ErrorUnknown False ''invalid mapping id'')))"

section \<open>The adapter\<close>

definition runmanAdapter :: "RunmanAdapter \<Rightarrow> adapter" where
  "runmanAdapter a = \<lparr>CreateInstance = CreateInstance_runman a, GetInstance = GetInstance_runman, StartInstance = StartInstance_runman a,
     StopInstance = StopInstance_runman a, RestartInstance = RestartInstance_runman a, ReinstallInstance = ReinstallInstance_runman a\<rparr>"

end
