(* ===== verification/Runman_Laws.thy ===== *)
theory Runman_Laws
  imports Gateway Runman_Adapter Worker
begin

text \<open>
  The commands of the agents: they move along a state machine whatever the gateway, the broker and the agents do, a finished
  command keeps its result and has lost its password, and a command that is reported as successful was recorded so.
\<close>

section \<open>The machine\<close>

definition over :: "commandRow \<Rightarrow> bool" where "over r \<longleftrightarrow> cm_status r \<in> {''succeeded'', ''failed''}"

inductive cmdStep :: "commandRow \<Rightarrow> commandRow \<Rightarrow> bool" where
  dispatched: "cm_status r \<in> {''queued'', ''dispatched''} \<Longrightarrow> cmdStep r (dispatchRow e r)"
| finished: "\<not> over r \<Longrightarrow> cmdStep r (completeRow e success result message r)"

lemma cmdStep_over: "cmdStep r r' \<Longrightarrow> \<not> over r"
  by (auto simp: over_def elim: cmdStep.cases)

lemma cmdSteps_over: "cmdStep\<^sup>*\<^sup>* r r' \<Longrightarrow> over r \<Longrightarrow> r' = r"
  by (induction rule: converse_rtranclp_induct) (auto dest: cmdStep_over)

lemma cmdStep_same:
  "cmdStep r r' \<Longrightarrow> cm_id r' = cm_id r \<and> cm_node_id r' = cm_node_id r \<and> cm_idempotency_key r' = cm_idempotency_key r \<and> cm_command_type r' = cm_command_type r"
  by (induction rule: cmdStep.induct) (auto simp: dispatchRow_def completeRow_def)

lemma cmdSteps_same:
  "cmdStep\<^sup>*\<^sup>* r r' \<Longrightarrow> cm_id r' = cm_id r \<and> cm_node_id r' = cm_node_id r \<and> cm_idempotency_key r' = cm_idempotency_key r \<and> cm_command_type r' = cm_command_type r"
  by (induction rule: rtranclp_induct) (auto dest: cmdStep_same)

lemma cmdStep_payload:
  "cmdStep r r' \<Longrightarrow> withoutKey ''root_password'' (cm_payload r') = withoutKey ''root_password'' (cm_payload r)"
  by (induction rule: cmdStep.induct) (auto simp: dispatchRow_def completeRow_def withoutKey_def split: json.split)

lemma cmdSteps_payload:
  "cmdStep\<^sup>*\<^sup>* r r' \<Longrightarrow> withoutKey ''root_password'' (cm_payload r') = withoutKey ''root_password'' (cm_payload r)"
  by (induction rule: rtranclp_induct) (auto dest: cmdStep_payload)

text \<open>Every command of \<open>d0\<close> is still there, moved along the machine; every other one began as queued.\<close>

definition cmdEvolves :: "db \<Rightarrow> db \<Rightarrow> bool" where
  "cmdEvolves d0 d \<longleftrightarrow> (\<forall>r\<in>set (agent_commands (fleet d0)). \<exists>r'\<in>set (agent_commands (fleet d)). cmdStep\<^sup>*\<^sup>* r r') \<and>
     (\<forall>r'\<in>set (agent_commands (fleet d)). (\<exists>r\<in>set (agent_commands (fleet d0)). cmdStep\<^sup>*\<^sup>* r r') \<or> (\<exists>r. cm_status r = ''queued'' \<and> cmdStep\<^sup>*\<^sup>* r r'))"

lemma cmdEvolves_refl: "cmdEvolves d d"
  by (auto simp: cmdEvolves_def)

lemma cmdEvolves_trans: "cmdEvolves d0 d1 \<Longrightarrow> cmdEvolves d1 d2 \<Longrightarrow> cmdEvolves d0 d2"
  unfolding cmdEvolves_def by (intro conjI ballI) (meson rtranclp_trans)+

lemma cmdEvolves_update:
  assumes "cmdEvolves d0 d" "agent_commands (fleet d') = sqlUpdate P f (agent_commands (fleet d))" "\<And>r. P r \<Longrightarrow> cmdStep r (f r)"
  shows "cmdEvolves d0 d'"
proof (rule cmdEvolves_trans[OF assms(1)])
  let ?g = "\<lambda>r. if P r then f r else r"
  have step: "cmdStep\<^sup>*\<^sup>* r (?g r)" for r using assms(3) by auto
  have set: "set (agent_commands (fleet d')) = ?g ` set (agent_commands (fleet d))" by (simp only: assms(2) sqlUpdate_def set_map)
  from step show "cmdEvolves d d'" unfolding cmdEvolves_def set by blast
qed

lemma cmdEvolves_append:
  assumes "cmdEvolves d0 d" "agent_commands (fleet d') = agent_commands (fleet d) @ [r]" "cm_status r = ''queued''"
  shows "cmdEvolves d0 d'"
  by (rule cmdEvolves_trans[OF assms(1)]) (use assms(2,3) in \<open>auto simp: cmdEvolves_def\<close>)

text \<open>The constraints of the table, and: a finished command holds no password.\<close>

definition scrubbed :: "commandRow \<Rightarrow> bool" where
  "scrubbed r \<longleftrightarrow> over r \<and> cm_command_type r \<in> set passwordCommands \<longrightarrow> field ''root_password'' (cm_payload r) = None"

definition commandsInv :: "db \<Rightarrow> bool" where
  "commandsInv d \<longleftrightarrow> distinct (map cm_id (agent_commands (fleet d))) \<and> distinct (map cm_idempotency_key (agent_commands (fleet d))) \<and>
     (\<forall>r\<in>set (agent_commands (fleet d)). scrubbed r \<and> cm_status r \<in> {''queued'', ''dispatched'', ''succeeded'', ''failed''})"

lemma field_withoutKey: "field k (withoutKey k j) = None"
  by (auto simp: field_def withoutKey_def map_of_eq_None_iff split: json.split)

lemma scrubbed_step: "cmdStep r r' \<Longrightarrow> scrubbed r'"
  by (induction rule: cmdStep.induct) (auto simp: scrubbed_def dispatchRow_def completeRow_def over_def field_withoutKey)

section \<open>What keeps a property of the commands\<close>

locale command_store =
  fixes I :: "db \<Rightarrow> bool"
  assumes created: "I d \<Longrightarrow> insertCommand a b c k t p e d = Inr (r, d') \<Longrightarrow> I d'"
    and moved: "I d \<Longrightarrow> (\<And>r. P r \<Longrightarrow> cmdStep r (f r)) \<Longrightarrow> agent_commands (fleet d') = sqlUpdate P f (agent_commands (fleet d)) \<Longrightarrow> I d'"
    and elsewhere: "I d \<Longrightarrow> agent_commands (fleet d') = agent_commands (fleet d) \<Longrightarrow> I d'"
begin

lemma other: "(\<And>e d x d'. q e d = Inr (x, d') \<Longrightarrow> agent_commands (fleet d') = agent_commands (fleet d)) \<Longrightarrow> qkeeps I q"
  by (rule qkeepsI) (use elsewhere in blast)

lemma keeps_MarkDispatched: "keeps I (MarkDispatched c)"
  unfolding MarkDispatched_def
proof (intro keeps_pool qkeepsI)
  fix e d x d' assume "I d" and q: "(Inr ((), d\<lparr>fleet := (fleet d)\<lparr>agent_commands := sqlUpdate (\<lambda>r. cm_id r = c \<and> cm_status r \<in> {''queued'', ''dispatched''})
    (dispatchRow e) (agent_commands (fleet d))\<rparr>\<rparr>) :: err + unit \<times> db) = Inr (x, d')"
  show "I d'" by (rule moved[OF \<open>I d\<close>, where f = "dispatchRow e" and P = "\<lambda>r. cm_id r = c \<and> cm_status r \<in> {''queued'', ''dispatched''}"])
    (use q in \<open>auto intro: cmdStep.dispatched\<close>)
qed

lemma keeps_Complete: "keeps I (Complete c s r m)"
  unfolding Complete_def Let_def
proof (intro keeps_pool qkeepsI)
  fix e d x d' assume "I d" and q: "(case r of Garbage \<Rightarrow> Inl (PgError ''22P02'')
    | _ \<Rightarrow> Inr ((), d\<lparr>fleet := (fleet d)\<lparr>agent_commands := sqlUpdate (\<lambda>x. cm_id x = c \<and> cm_status x \<notin> {''succeeded'', ''failed''})
        (completeRow e s (case r of Document j \<Rightarrow> j | _ \<Rightarrow> JNull) m) (agent_commands (fleet d))\<rparr>\<rparr>)) = Inr (x, d')"
  show "I d'" by (rule moved[OF \<open>I d\<close>, where f = "completeRow e s (case r of Document j \<Rightarrow> j | _ \<Rightarrow> JNull) m" and
        P = "\<lambda>x. cm_id x = c \<and> cm_status x \<notin> {''succeeded'', ''failed''}"])
    (use q in \<open>auto intro!: cmdStep.finished simp: over_def split: rawData.split_asm\<close>)
qed

lemma keeps_CreateCommand: "keeps I (CreateCommand n x k t p)"
  unfolding CreateCommand_def Let_def
  by (intro keeps_bnd keeps_newID keeps_pool qkeepsI keeps_if keeps_raise keeps_ret) (blast intro: created)

lemma keeps_reads:
  "keeps I (GetCommand c)" "keeps I (Pending n)" "keeps I (Healthy n a)" "keeps I (VM n v)" "keeps I (InstanceSpec_of v)" "keeps I (Images n)"
  "keeps I (PortForwards n v)"
  unfolding GetCommand_def Pending_def VM_def InstanceSpec_of_def Images_def PortForwards_def Healthy_def
  by (intro keeps_orNoRows keeps_pool qkeeps_readonly readonly_select; simp add: readonly_def)+

lemma keeps_connections:
  "keeps I (Authenticate h t)" "keeps I (Connected n c p)" "keeps I (Disconnected n c)" "keeps I (ClaimMessage n m)" "keeps I (ReleaseMessage n m)"
  unfolding Authenticate_def Connected_def Disconnected_def ClaimMessage_def ReleaseMessage_def
  by (intro keeps_orNoRows keeps_pool other;
      auto simp: Let_def insertInto_ok split: list.split_asm if_splits prod.split_asm)+

lemma keeps_heartbeat: "keeps I (recordHeartbeat n h)"
proof -
  have "qkeeps I (touchConnection n t)" "qkeeps I (reportNode n h)" "qkeeps I (upsertVM n v)" "qkeeps I (upsertImage n im)" for t v im
    by (rule other; auto simp: touchConnection_def reportNode_def upsertVM_def upsertImage_def Let_def insertInto_ok split: if_splits)+
  then show ?thesis unfolding recordHeartbeat_def by (intro keeps_tx keeps_bnd keeps_exec keeps_forEach keeps_ret)
qed

lemma keeps_SavePortForwards: "keeps I (SavePortForwards n v items)"
proof -
  have "qkeeps I (clearForwards n v)" "qkeeps I (insertForward n v p)" for p
    by (rule other; auto simp: clearForwards_def insertForward_def Let_def insertInto_ok)+
  then show ?thesis unfolding SavePortForwards_def by (intro keeps_tx keeps_bnd keeps_exec keeps_forEach keeps_ret)
qed

lemma keeps_awaitResult: "keeps I (awaitResult n c)"
  by (induction n) (auto intro!: keeps_raise keeps_bnd keeps_others keeps_reads keeps_ret)

lemma keeps_online: "keeps I (Online connectionSender n)" "keeps I (Send connectionSender c)"
  by (auto simp: connectionSender_def intro!: keeps_bnd keeps_attempt keeps_reads keeps_ret split: sum.split)

lemma keeps_Issue: "keeps I (Issue connectionSender n node x k t p)"
  unfolding Issue_def
  by (intro keeps_bnd keeps_attempt keeps_CreateCommand keeps_sum keeps_if keeps_online keeps_MarkDispatched keeps_ret keeps_awaitResult)

lemma keeps_handleClaimed: "keeps I (handleClaimed n m)"
  unfolding handleClaimed_def
  by (auto intro!: keeps_bnd keeps_asks keeps_heartbeat keeps_attempt keeps_reads keeps_Complete keeps_SavePortForwards keeps_ret
      split: agentPayload.split option.split sum.split)

lemma keeps_handle: "keeps I (handle n m)"
  unfolding handle_def
  by (intro keeps_if keeps_bnd keeps_attempt keeps_connections keeps_sum keeps_handleClaimed keeps_raise keeps_ret)

lemma keeps_sendCommand: "keeps I (sendCommand ok conn c)"
  unfolding sendCommand_def
  by (intro keeps_bnd keeps_asks keeps_sum keeps_attempt keeps_Complete keeps_if keeps_raise keeps_MarkDispatched keeps_ret)

lemma keeps_sendAll: "keeps I (sendAll ok cs conn)" "keeps I (sendUnsent ok cs conn)"
  by (induction cs arbitrary: conn) (auto intro!: keeps_ret keeps_bnd keeps_sendCommand)

lemma keeps_pendingOr: "keeps I (pendingOr n)"
  unfolding pendingOr_def by (intro keeps_bnd keeps_attempt keeps_reads keeps_sum keeps_ret)

lemma keeps_serveWake: "keeps I (serveWake ok n k conn)"
  unfolding serveWake_def
  by (auto intro!: keeps_bnd keeps_handle keeps_ret keeps_sendCommand keeps_newID keeps_asks keeps_raise keeps_pendingOr keeps_sendAll split: wake.split)

lemma keeps_serveWakes: "keeps I (serveWakes ok n ks conn)"
  by (induction ks arbitrary: conn) (auto intro!: keeps_ret keeps_bnd keeps_serveWake keeps_others)

lemma keeps_Connect: "keeps I (Connect h ok token peer ks)"
  unfolding Connect_def
  by (intro keeps_option keeps_raise keeps_bnd keeps_attempt keeps_connections keeps_sum keeps_newID keeps_pendingOr keeps_sendAll keeps_serveWakes keeps_ret)

end

interpretation fleet_constraints: command_store commandsInv
proof unfold_locales
  fix d a b c k t p e r and d' :: db assume "commandsInv d" "insertCommand a b c k t p e d = Inr (r, d')"
  then show "commandsInv d'"
    by (auto simp: insertCommand_def Let_def insertInto_ok commandsInv_def newCommand_def conflicts_def list_ex_iff scrubbed_def over_def
        filter_empty_conv split: list.split_asm)
next
  fix d :: db and P f and d' :: db assume inv: "commandsInv d" and step: "\<And>r. P r \<Longrightarrow> cmdStep r (f r)" and d': "agent_commands (fleet d') = sqlUpdate P f (agent_commands (fleet d))"
  have "map cm_id (agent_commands (fleet d')) = map cm_id (agent_commands (fleet d))"
    "map cm_idempotency_key (agent_commands (fleet d')) = map cm_idempotency_key (agent_commands (fleet d))"
    unfolding d' by (auto simp: sqlUpdate_def dest: cmdStep_same[OF step])
  moreover have "cm_status (f r) \<in> {''queued'', ''dispatched'', ''succeeded'', ''failed''}" if "P r" for r
    using step[OF that] by cases (auto simp: dispatchRow_def completeRow_def)
  ultimately show "commandsInv d'" using inv scrubbed_step[OF step] unfolding commandsInv_def d' by (auto simp: set_sqlUpdate)
qed (auto simp: commandsInv_def)

interpretation fleet_history: command_store "cmdEvolves d0"
  for d0
proof unfold_locales
  fix d a b c k t p e r and d' :: db assume "cmdEvolves d0 d" "insertCommand a b c k t p e d = Inr (r, d')"
  then show "cmdEvolves d0 d'"
    by (auto simp: insertCommand_def Let_def insertInto_ok newCommand_def split: list.split_asm intro: cmdEvolves_append)
next
  show "cmdEvolves d0 d'" if "cmdEvolves d0 d" "\<And>r. P r \<Longrightarrow> cmdStep r (f r)" "agent_commands (fleet d') = sqlUpdate P f (agent_commands (fleet d))"
    for d :: db and P f and d' :: db using that by (blast intro: cmdEvolves_update)
qed (simp add: cmdEvolves_def)

section \<open>Everything that touches the commands\<close>

datatype fleetRequest =
    FIssue nat uuid "uuid option" string string "(string \<times> json) list"
  | FConnect "string \<Rightarrow> string" "nat \<Rightarrow> bool" "string option" string "wake list"

primrec serveFleet :: "fleetRequest \<Rightarrow> unit io" where
  "serveFleet (FIssue polls nodeID operationID key kind payload) = bnd (Issue connectionSender polls nodeID operationID key kind payload) (\<lambda>_. ret ())"
| "serveFleet (FConnect sha256 accepts token peer wakes) = bnd (Connect sha256 accepts token peer wakes) (\<lambda>_. ret ())"

primrec fleetRun :: "(env \<times> fleetRequest) list \<Rightarrow> world \<Rightarrow> world" where
  "fleetRun [] w = w"
| "fleetRun (r # rs) w = fleetRun rs (snd (serveFleet (snd r) (fst r) w))"

context command_store
begin

lemma keeps_serveFleet: "keeps I (serveFleet r)"
  by (cases r) (auto intro!: keeps_bnd keeps_Issue keeps_Connect keeps_ret)

lemma keeps_fleetRun: "(\<forall>r\<in>set rs. \<forall>d. I d \<longrightarrow> I (concurrent (fst r) d)) \<Longrightarrow> I (wdb w) \<Longrightarrow> I (wdb (fleetRun rs w))"
proof (induction rs arbitrary: w)
  case (Cons r rs)
  have "I (wdb (snd (serveFleet (snd r) (fst r) w)))"
    using keepsD[OF keeps_serveFleet prod.collapse[symmetric]] Cons.prems by simp
  with Cons show ?case by simp
qed simp

end

text \<open>
  C26: commands for the agents are settled once. Whatever brokers issue, agents report and connections do, and whatever
  statements and replies are lost, every command moves along queued, dispatched and then succeeded or failed; a finished command
  is never changed again; keys stay unique; and a finished command that carried a root password no longer holds it.
\<close>

theorem commands_settle_once:
  assumes inv: "commandsInv (wdb w)"
    and others: "\<forall>r\<in>set rs. \<forall>d. (commandsInv d \<longrightarrow> commandsInv (concurrent (fst r) d)) \<and> cmdEvolves d (concurrent (fst r) d)"
  shows "commandsInv (wdb (fleetRun rs w)) \<and> cmdEvolves (wdb w) (wdb (fleetRun rs w)) \<and>
    {r \<in> set (agent_commands (fleet (wdb w))). over r} \<subseteq> set (agent_commands (fleet (wdb (fleetRun rs w))))"
proof (intro conjI)
  show "commandsInv (wdb (fleetRun rs w))"
    by (rule fleet_constraints.keeps_fleetRun[OF _ inv]) (use others in blast)
  show ev: "cmdEvolves (wdb w) (wdb (fleetRun rs w))"
    by (rule fleet_history.keeps_fleetRun[OF _ cmdEvolves_refl]) (use others in \<open>blast intro: cmdEvolves_trans\<close>)
  show "{r \<in> set (agent_commands (fleet (wdb w))). over r} \<subseteq> set (agent_commands (fleet (wdb (fleetRun rs w))))"
    using ev cmdSteps_over unfolding cmdEvolves_def by fastforce
qed

section \<open>The broker\<close>

lemma lastWins_filter: "lastWins (filter (\<lambda>kv. fst kv \<noteq> k) kvs) = filter (\<lambda>kv. fst kv \<noteq> k) (lastWins kvs)"
proof (induction kvs)
  case (Cons kv kvs)
  obtain a v where kv: "kv = (a, v)" by fastforce
  have "a \<noteq> k \<Longrightarrow> a \<in> fst ` set (filter (\<lambda>kv. fst kv \<noteq> k) (lastWins kvs)) \<longleftrightarrow> a \<in> fst ` set (lastWins kvs)" by auto
  with Cons kv show ?case by (auto simp: lastWins_Cons)
qed (simp add: lastWins_def)

lemma canonical_withoutKey: "canonicalValue (withoutKey k j) = withoutKey k (canonicalValue j)"
proof (cases j)
  case (JObj kvs)
  have f: "filter (\<lambda>kv. fst kv \<noteq> k) (map (map_prod id canonicalValue) kvs) = map (map_prod id canonicalValue) (filter (\<lambda>kv. fst kv \<noteq> k) kvs)"
    by (simp add: filter_map comp_def)
  show ?thesis by (simp add: JObj withoutKey_def normKeys_def filter_sort lastWins_filter flip: f)
qed (simp_all add: withoutKey_def)

lemma pool_stmts: "pool q e w = (r, w') \<Longrightarrow> wstmts w' = Suc (wstmts w)"
  by (auto simp: pool_def split: fault.splits sum.splits prod.splits)

lemma orNoRows_run: "orNoRows s m e w = (r, w') \<Longrightarrow> \<exists>r0. m e w = (r0, w')"
  by (auto simp: orNoRows_def bnd_def attempt_def raise_def ret_def split: prod.splits sum.splits)

lemma CreateCommand_stmts: "CreateCommand n x k t p e w = (r, w') \<Longrightarrow> wstmts w' = Suc (wstmts w)"
  by (auto simp: CreateCommand_def bnd_def newID_def Let_def raise_def ret_def split: prod.splits sum.splits if_splits dest!: pool_stmts)

lemma awaitResult_stmts: "awaitResult n c e w = (r, w') \<Longrightarrow> wstmts w' \<le> wstmts w + n"
proof (induction n arbitrary: w)
  case (Suc n)
  let ?w1 = "w\<lparr>wdb := concurrent e (wdb w)\<rparr>"
  obtain g w2 where g: "GetCommand c e ?w1 = (g, w2)" by fastforce
  then have w2: "wstmts w2 = Suc (wstmts w)" by (auto simp: GetCommand_def dest!: orNoRows_run pool_stmts)
  show ?case
  proof (cases g)
    case (Inl x)
    with Suc.prems g w2 show ?thesis by (simp add: bnd_def others_def)
  next
    case (Inr latest)
    with Suc.prems g w2 Suc.IH[of w2] show ?thesis by (auto simp: bnd_def others_def ret_def split: if_splits)
  qed
qed (simp add: raise_def)

lemma commandOf_simps [simp]: "Cmd_ID (commandOf r) = cm_id r" "Cmd_Status (commandOf r) = cm_status r" "Cmd_NodeID (commandOf r) = cm_node_id r"
  "Cmd_Type (commandOf r) = cm_command_type r"
  by (simp_all add: commandOf_def)

lemma CreateCommand_ok:
  assumes "CreateCommand nodeID x key kind payload e w = (Inr c, w')"
  obtains r where "r \<in> set (agent_commands (fleet (wdb w')))" "c = commandOf r" "cm_idempotency_key r = key" "cm_node_id r = nodeID"
    "cm_command_type r = kind" "canonicalValue (cm_payload r) = canonicalValue (JObj payload)"
proof -
  from assms obtain newid w1 r w2 where ins: "pool (insertCommand newid nodeID x key kind payload) e w1 = (Inr r, w2)"
    and rest: "(if \<not> equalJSON_runman (cm_payload r) (JObj payload) \<or> Cmd_NodeID (commandOf r) \<noteq> nodeID \<or> Cmd_Type (commandOf r) \<noteq> kind
      then raise (ErrOther ''runman idempotency conflict'') else ret (commandOf r)) e w2 = (Inr c, w')"
    unfolding CreateCommand_def Let_def by (elim bndE)
  from rest have ok: "equalJSON_runman (cm_payload r) (JObj payload)" "cm_node_id r = nodeID" "cm_command_type r = kind" and c: "c = commandOf r" "w' = w2"
    by (simp_all add: raise_ok ret_ok split: if_split_asm)
  from ins have q: "insertCommand newid nodeID x key kind payload e (wdb w1) = Inr (r, wdb w')" using c(2) by (auto simp: pool_ok)
  have "r \<in> set (agent_commands (fleet (wdb w'))) \<and> cm_idempotency_key r = key"
  proof (cases "filter (\<lambda>r. cm_idempotency_key r = key) (agent_commands (fleet (wdb w1)))")
    case Nil
    with q show "r \<in> set (agent_commands (fleet (wdb w'))) \<and> cm_idempotency_key r = key"
      by (auto simp: insertCommand_def Let_def insertInto_ok newCommand_def)
  next
    case (Cons a as)
    then have "a \<in> set (agent_commands (fleet (wdb w1)))" "cm_idempotency_key a = key" by (auto dest: Cons_eq_filterD[OF sym])
    with q Cons show "r \<in> set (agent_commands (fleet (wdb w'))) \<and> cm_idempotency_key r = key"
      by (simp_all add: insertCommand_def Let_def)
  qed
  with ok c show ?thesis by (intro that[of r]) (simp_all add: equalJSON_runman_def)
qed

lemma awaitResult_ok:
  "awaitResult n commandID e w = (Inr (Inr latest), w') \<Longrightarrow>
     \<exists>r\<in>set (agent_commands (fleet (wdb w'))). latest = commandOf r \<and> cm_id r = commandID \<and> cm_status r = ''succeeded''"
proof (induction n arbitrary: w)
  case (Suc n)
  then obtain w1 cmd w2 where get: "GetCommand commandID e w1 = (Inr cmd, w2)"
    and rest: "(if Cmd_Status cmd = ''succeeded'' then ret (Inr cmd) else if Cmd_Status cmd = ''failed'' then ret (Inl cmd)
      else awaitResult n commandID) e w2 = (Inr (Inr latest), w')" by (auto simp: bnd_ok)
  show ?case
  proof (cases "Cmd_Status cmd = ''succeeded''")
    case True
    with rest have "latest = cmd" "w' = w2" by (simp_all add: ret_ok)
    with get True show ?thesis by (fastforce simp: GetCommand_def orNoRows_ok pool_ok selectOne_ok dest!: one_in)
  next
    case False
    with rest Suc.IH[of w2] show ?thesis by (auto simp: ret_ok split: if_splits)
  qed
qed (simp add: raise_ok)

text \<open>From the command to its result.\<close>

definition awaitSent :: "nat \<Rightarrow> uuid \<Rightarrow> Command \<Rightarrow> (Command option \<times> err option) io" where
  "awaitSent polls nodeID cmd = bnd (Online connectionSender nodeID) (\<lambda>online.
     if \<not> online then ret (Some cmd, Some ErrNodeOffline)
     else bnd (attempt (if Cmd_Status cmd = ''queued''
         then bnd (Send connectionSender cmd) (\<lambda>_. bnd (attempt (MarkDispatched (Cmd_ID cmd))) (\<lambda>_. ret ())) else ret ())) (\<lambda>s. case s of
       Inl _ \<Rightarrow> ret (Some cmd, Some ErrNodeOffline)
     | Inr _ \<Rightarrow> bnd (attempt (awaitResult polls (Cmd_ID cmd))) (\<lambda>a. case a of
           Inl x \<Rightarrow> ret (Some cmd, Some x)
         | Inr (Inr latest) \<Rightarrow> ret (Some latest, None)
         | Inr (Inl latest) \<Rightarrow> ret (Some latest, Some ErrCommandFailed))))"

lemma awaitSent_ok:
  assumes "awaitSent polls nodeID cmd e w = (Inr (Some latest, None), w')"
  shows "\<exists>r\<in>set (agent_commands (fleet (wdb w'))). latest = commandOf r \<and> cm_id r = Cmd_ID cmd \<and> cm_status r = ''succeeded''"
proof -
  from assms obtain online w1 where rest: "(if \<not> online then ret (Some cmd, Some ErrNodeOffline)
     else bnd (attempt (if Cmd_Status cmd = ''queued''
         then bnd (Send connectionSender cmd) (\<lambda>_. bnd (attempt (MarkDispatched (Cmd_ID cmd))) (\<lambda>_. ret ())) else ret ())) (\<lambda>s. case s of
       Inl _ \<Rightarrow> ret (Some cmd, Some ErrNodeOffline)
     | Inr _ \<Rightarrow> bnd (attempt (awaitResult polls (Cmd_ID cmd))) (\<lambda>a. case a of
           Inl x \<Rightarrow> ret (Some cmd, Some x)
         | Inr (Inr latest) \<Rightarrow> ret (Some latest, None)
         | Inr (Inl latest) \<Rightarrow> ret (Some latest, Some ErrCommandFailed)))) e w1 = (Inr (Some latest, None), w')"
    unfolding awaitSent_def by (rule bndE)
  then have "online" by (cases online) (simp_all add: ret_ok)
  note rest[unfolded \<open>online\<close>[THEN Eq_TrueI] not_True_eq_False if_False]
  then show ?thesis
  proof (cases rule: tryE)
    case (passed y w2)
    from passed(2) show ?thesis
    proof (cases rule: tryE)
      case (passed a w3)
      then show ?thesis by (cases a) (auto simp: ret_ok dest!: awaitResult_ok)
    qed (simp add: ret_ok)
  qed (simp add: ret_ok)
qed

context command_store
begin

lemma keeps_awaitSent: "keeps I (awaitSent polls nodeID cmd)"
  unfolding awaitSent_def
  by (intro keeps_bnd keeps_attempt keeps_sum keeps_if keeps_online keeps_MarkDispatched keeps_ret keeps_awaitResult)

end

lemma Issue_alt: "Issue connectionSender polls nodeID operationID key kind payload =
    bnd (attempt (CreateCommand nodeID operationID key kind payload)) (\<lambda>r. case r of
     Inl x \<Rightarrow> ret (None, Some x)
   | Inr cmd \<Rightarrow> if Cmd_Status cmd = ''succeeded'' then ret (Some cmd, None)
     else if Cmd_Status cmd = ''failed'' then ret (Some cmd, Some ErrCommandFailed) else awaitSent polls nodeID cmd)"
  unfolding Issue_def awaitSent_def by (rule refl)

lemma awaitSent_stmts:
  assumes "awaitSent polls nodeID cmd e w = (r, w')"
  shows "wstmts w' \<le> wstmts w + 2 + polls" "\<exists>c x. r = Inr (c, x)"
proof -
  obtain b w1 where h: "Healthy nodeID (90 * second) e w = (b, w1)" by fastforce
  then have w1: "wstmts w1 = Suc (wstmts w)" by (auto simp: Healthy_def dest!: pool_stmts)
  obtain m w2 where mark: "MarkDispatched (Cmd_ID cmd) e w1 = (m, w2)" by fastforce
  then have w2: "wstmts w2 = Suc (wstmts w1)" by (auto simp: MarkDispatched_def dest!: pool_stmts)
  obtain a3 w3 where a3: "awaitResult polls (Cmd_ID cmd) e w2 = (a3, w3)" by fastforce
  obtain a4 w4 where a4: "awaitResult polls (Cmd_ID cmd) e w1 = (a4, w4)" by fastforce
  note runs = awaitResult_stmts[OF a3] awaitResult_stmts[OF a4]
  have "wstmts w' \<le> wstmts w + 2 + polls \<and> (\<exists>c x. r = Inr (c, x))"
    using assms h mark a3 a4 w1 w2 runs unfolding awaitSent_def connectionSender_def
    by (auto simp: bnd_def attempt_def ret_def split: sum.split_asm if_split_asm)
  then show "wstmts w' \<le> wstmts w + 2 + polls" "\<exists>c x. r = Inr (c, x)" by simp_all
qed

text \<open>
  C27: the broker always answers, after at most as many readings as its timeout allows, and it reports success only for what
  happened: the command under that key is on record as succeeded, for the same node, of the same kind and with the same payload
  (its root password apart), and the result returned is the recorded one.
\<close>

theorem Issue_answers:
  assumes run: "Issue connectionSender polls nodeID operationID key kind payload e w = (res, w')" and inv: "commandsInv (wdb w)"
    and others: "\<forall>d. (commandsInv d \<longrightarrow> commandsInv (concurrent e d)) \<and> cmdEvolves d (concurrent e d)"
  shows "wstmts w' \<le> wstmts w + 3 + polls \<and> (\<exists>c x. res = Inr (c, x)) \<and>
    (\<forall>c. res = Inr (Some c, None) \<longrightarrow> (\<exists>r\<in>set (agent_commands (fleet (wdb w'))). c = commandOf r \<and> cm_status r = ''succeeded'' \<and>
       cm_idempotency_key r = key \<and> cm_node_id r = nodeID \<and> cm_command_type r = kind \<and>
       canonicalValue (withoutKey ''root_password'' (cm_payload r)) = canonicalValue (withoutKey ''root_password'' (JObj payload))))"
proof (cases "CreateCommand nodeID operationID key kind payload e w")
  case (Pair r w1)
  note n1 = CreateCommand_stmts[OF Pair]
  show ?thesis
  proof (cases r)
    case (Inl x)
    with run Pair n1 show ?thesis by (auto simp: Issue_alt bnd_def attempt_def ret_def)
  next
    case (Inr cmd)
    from CreateCommand_ok[OF Pair[unfolded Inr]] obtain r0 where r0: "r0 \<in> set (agent_commands (fleet (wdb w1)))" "cmd = commandOf r0"
      "cm_idempotency_key r0 = key" "cm_node_id r0 = nodeID" "cm_command_type r0 = kind" "canonicalValue (cm_payload r0) = canonicalValue (JObj payload)" by blast
    show ?thesis
    proof (cases "cm_status r0 \<in> {''succeeded'', ''failed''}")
      case True
      with run Pair Inr n1 r0 show ?thesis by (auto simp: Issue_alt bnd_def attempt_def ret_def canonical_withoutKey)
    next
      case False
      with run Pair Inr r0(2) have sent: "awaitSent polls nodeID cmd e w1 = (res, w')" by (simp add: Issue_alt bnd_def attempt_def)
      have ev: "cmdEvolves (wdb w1) (wdb w')"
        by (rule keepsD[OF fleet_history.keeps_awaitSent sent cmdEvolves_refl]) (use others in \<open>blast intro: cmdEvolves_trans\<close>)
      have inv': "commandsInv (wdb w')" by (rule keepsD[OF fleet_constraints.keeps_Issue run inv]) (use others in blast)
      from ev r0(1) obtain r1 where r1: "r1 \<in> set (agent_commands (fleet (wdb w')))" "cmdStep\<^sup>*\<^sup>* r0 r1" by (auto simp: cmdEvolves_def)
      have "\<exists>r\<in>set (agent_commands (fleet (wdb w'))). c = commandOf r \<and> cm_status r = ''succeeded'' \<and>
         cm_idempotency_key r = key \<and> cm_node_id r = nodeID \<and> cm_command_type r = kind \<and>
         canonicalValue (withoutKey ''root_password'' (cm_payload r)) = canonicalValue (withoutKey ''root_password'' (JObj payload))"
        if "res = Inr (Some c, None)" for c
      proof -
        from awaitSent_ok[OF sent[unfolded that]] obtain r2 where r2: "r2 \<in> set (agent_commands (fleet (wdb w')))" "c = commandOf r2"
          "cm_id r2 = cm_id r0" "cm_status r2 = ''succeeded''" using r0(2) by auto
        have "inj_on cm_id (set (agent_commands (fleet (wdb w'))))" using inv' by (simp add: commandsInv_def distinct_map)
        then have "r2 = r1" by (rule inj_onD) (use r1(1) r2(1,3) cmdSteps_same[OF r1(2)] in simp_all)
        then show ?thesis using r0 r1 r2 cmdSteps_same[OF r1(2)] cmdSteps_payload[OF r1(2)]
          by (intro bexI[of _ r1]) (auto simp: canonical_withoutKey)
      qed
      with awaitSent_stmts[OF sent] n1 show ?thesis by auto
    qed
  qed
qed

section \<open>The adapter\<close>

text \<open>The Runman adapter is remote in the sense that the workflows rely on: it writes nothing but commands.\<close>

lemma remote_basic [intro]:
  "remote (ret x)" "remote (raise y)" "remote (asks f)" "remote newID" "remote others"
  "remote m \<Longrightarrow> (\<And>x. remote (g x)) \<Longrightarrow> remote (bnd m g)" "remote m \<Longrightarrow> remote (attempt m)" "remote m \<Longrightarrow> remote (orNoRows z m)"
  unfolding remote_def by (auto intro: keeps_ret keeps_raise keeps_asks keeps_newID keeps_others keeps_bnd keeps_attempt keeps_orNoRows)

lemma remote_pool:
  assumes "\<And>e d x d'. q e d = Inr (x, d') \<Longrightarrow> \<exists>f. d' = d\<lparr>fleet := f\<rparr>"
  shows "remote (pool q)"
  unfolding remote_def
proof (intro allI impI keeps_pool qkeepsI)
  fix I e d x d' assume "\<forall>d f. I d \<longrightarrow> I (d\<lparr>fleet := f\<rparr>)" "I d" "q e d = Inr (x, d')"
  with assms[of e d x d'] show "I d'" by auto
qed

lemma unchanged_fleet: "\<exists>f. d = d\<lparr>fleet := f\<rparr>"
  by (rule exI[of _ "fleet d"]) simp

lemma remote_reads: "remote (GetCommand c)" "remote (Healthy n a)" "remote (VM n v)" "remote (InstanceSpec_of v)"
  unfolding GetCommand_def Healthy_def VM_def InstanceSpec_of_def
  by (auto intro!: remote_pool simp: selectOne_ok unchanged_fleet)

lemma remote_CreateCommand: "remote (CreateCommand n x k t p)"
  unfolding CreateCommand_def Let_def
  by (intro remote_basic remote_pool)
    (auto simp: insertCommand_def Let_def insertInto_ok unchanged_fleet split: list.split_asm)

lemma remote_MarkDispatched: "remote (MarkDispatched c)"
  unfolding MarkDispatched_def by (rule remote_pool) auto

lemma remote_awaitResult: "remote (awaitResult n c)"
  by (induction n) (auto intro!: remote_basic remote_reads)

lemma remote_Issue: "remote (Issue connectionSender n node x k t p)"
proof -
  have "remote (awaitSent n node cmd)" for cmd
    unfolding awaitSent_def connectionSender_def
    by (auto intro!: remote_basic remote_reads remote_MarkDispatched remote_awaitResult split: sum.split)
  then show ?thesis unfolding Issue_alt by (auto intro!: remote_basic remote_CreateCommand split: sum.split)
qed

lemma remote_small: "remote (parseID s)" "remote (operationOf s)" "remote (resultOf res)" "remote m \<Longrightarrow> remote (normalize m)" "remote (specOrZero v)"
  unfolding parseID_def operationOf_def resultOf_def normalize_def specOrZero_def
  by (auto intro!: remote_basic remote_reads split: option.split prod.split sum.split)

lemma remote_runman:
  assumes "ra_sender a = connectionSender"
  shows "remoteAdapter (runmanAdapter a)"
  unfolding remoteAdapter_def runmanAdapter_def
  by (auto simp: CreateInstance_runman_def GetInstance_runman_def StartInstance_runman_def StopInstance_runman_def RestartInstance_runman_def
      ReinstallInstance_runman_def action_runman_def issue_def assms intro!: remote_basic remote_small remote_Issue remote_reads)

section \<open>Witnesses\<close>

definition command0 :: commandRow where
  "command0 = newCommand env0 80 21 (Some 5) ''start:1'' ''start'' [(''vm_id'', JStr ''3'')]"

text \<open>A node with a fresh heartbeat; a start command is under way and its agent has just answered it.\<close>

definition world0_fleet :: world where
  "world0_fleet = world0_node\<lparr>wdb := (wdb world0_node)\<lparr>fleet := (fleet (wdb world0_node))\<lparr>
     agent_connections := [\<lparr>ac_node_id = 21, ac_connection_id = 90, ac_status = ''connected'', ac_remote_address = None, ac_agent_version = None,
       ac_connected_at = 0, ac_disconnected_at = None, ac_last_heartbeat_at = Some (1000 * second)\<rparr>],
     agent_commands := [completeRow env0 True JNull [] command0]\<rparr>\<rparr>\<rparr>"

lemma sample_fleet: "commandsInv (wdb world0_fleet)"
  by (simp add: commandsInv_def world0_fleet_def scrubbed_def passwordCommands_def completeRow_def command0_def newCommand_def)

theorem commands_settle_once_witness:
  "commandsInv (wdb (fleetRun [(env0, FIssue 3 21 (Some 5) ''start:2'' ''start'' [(''vm_id'', JStr ''3'')])] world0_fleet)) \<and>
   completeRow env0 True JNull [] command0 \<in> set (agent_commands (fleet (wdb (fleetRun [(env0, FIssue 3 21 (Some 5) ''start:2'' ''start'' [(''vm_id'', JStr ''3'')])] world0_fleet))))"
proof -
  have "over (completeRow env0 True JNull [] command0)" "completeRow env0 True JNull [] command0 \<in> set (agent_commands (fleet (wdb world0_fleet)))"
    by (simp_all add: over_def completeRow_def world0_fleet_def)
  with commands_settle_once[OF sample_fleet, of "[(env0, FIssue 3 21 (Some 5) ''start:2'' ''start'' [(''vm_id'', JStr ''3'')])]"]
  show ?thesis by (auto simp: cmdEvolves_refl)
qed

lemma sample_issue: "(case fst (Issue connectionSender 3 21 (Some 5) ''start:1'' ''start'' [(''vm_id'', JStr ''3'')] env0 world0_fleet) of
    Inr (Some c, None) \<Rightarrow> Cmd_Status c = ''succeeded'' | _ \<Rightarrow> False)"
  by code_simp

theorem Issue_answers_witness:
  "\<exists>c w'. Issue connectionSender 3 21 (Some 5) ''start:1'' ''start'' [(''vm_id'', JStr ''3'')] env0 world0_fleet = (Inr (Some c, None), w') \<and>
     (\<exists>r\<in>set (agent_commands (fleet (wdb w'))). c = commandOf r \<and> cm_status r = ''succeeded'' \<and> cm_command_type r = ''start'')"
proof -
  obtain res w' where run: "Issue connectionSender 3 21 (Some 5) ''start:1'' ''start'' [(''vm_id'', JStr ''3'')] env0 world0_fleet = (res, w')" by fastforce
  with sample_issue obtain c where "res = Inr (Some c, None)" by (auto split: sum.split_asm option.split_asm prod.split_asm)
  with run Issue_answers[OF run sample_fleet] show ?thesis by (auto simp: cmdEvolves_refl)
qed

end
