(* ===== verification/Mock_Laws.thy ===== *)
theory Mock_Laws
  imports Mock Runman_Laws
begin

text \<open>
  The mock answers a repeated request with the first answer and changes nothing, so that a workflow may retry; and the adapters
  that the registry builds are remote when those of its factories are, as those of Runman are.
\<close>

section \<open>Repeated requests\<close>

lemma CreateInstance_mock_again:
  assumes run: "CreateInstance_mock r e p = (Inr operation, p')"
  shows "CreateInstance_mock r e' p' = (Inr operation, p')"
proof -
  let ?key = "''create:'' @ ci_IdempotencyKey r"
  from run have ok: "cap_CreateInstance (mk_capabilities p)" "\<not> (ci_OperationID r = [] \<or> ci_IdempotencyKey r = [] \<or> ci_InstanceID r = [] \<or> ci_NodeID r = [])"
    unfolding CreateInstance_mock_def by (metis Inl_Inr_False prod.inject)+
  have "cap_CreateInstance (mk_capabilities p') \<and> mk_operations p' ?key = Some operation \<and>
      map_option (\<lambda>o'. o'\<lparr>ci_RootPassword := None\<rparr>) (mk_createRequests p' (ci_IdempotencyKey r)) = Some (r\<lparr>ci_RootPassword := None\<rparr>)"
  proof (cases "mk_operations p ?key")
    case None
    with run ok have "mk_byPlatformID p (ci_InstanceID r) = None" by (simp add: CreateInstance_mock_def split: if_split_asm)
    with run ok None show ?thesis by (simp add: CreateInstance_mock_def Let_def) (auto simp: ok(1))
  next
    case (Some x)
    with run ok show ?thesis by (simp add: CreateInstance_mock_def split: if_split_asm)
  qed
  then show ?thesis using ok(2) by (simp add: CreateInstance_mock_def)
qed

lemma action_mock_again:
  assumes "action_mock r action supported state remove e p = (Inr operation, p')"
  shows "action_mock r action supported state remove e' p' = (Inr operation, p')"
  using assms by (auto simp: action_mock_def Let_def split: if_splits option.splits)

lemma AddPortForward_mock_again:
  assumes "AddPortForward_mock h r e p = (Inr operation, p')"
  shows "AddPortForward_mock h r e' p' = (Inr operation, p')"
  using assms by (auto simp: AddPortForward_mock_def Let_def split: if_splits option.splits)

text \<open>What was created can be read, by either identifier, and runs.\<close>

lemma CreateInstance_mock_readable:
  assumes "CreateInstance_mock r e p = (Inr operation, p')" "mk_operations p (''create:'' @ ci_IdempotencyKey r) = None"
  shows "\<exists>inst. GetInstance_mock \<lparr>gi_NodeID = n, gi_ProviderInstanceID = [], gi_PlatformInstanceID = ci_InstanceID r\<rparr> e p' = (Inr inst, p') \<and>
    prv_State inst = ''running'' \<and> GetInstance_mock \<lparr>gi_NodeID = n, gi_ProviderInstanceID = prv_ProviderInstanceID inst, gi_PlatformInstanceID = m\<rparr> e p' = (Inr inst, p') \<and>
    length (prv_IPv4 inst) = nat (ci_IPv4Count r)"
  using assms by (auto simp: CreateInstance_mock_def GetInstance_mock_def Let_def mockIPv4_def split: if_splits)

section \<open>The registry\<close>

definition resolveWith :: "(string \<rightharpoonup> factory) \<Rightarrow> adapters \<Rightarrow> resolver" where
  "resolveWith fs reg providerID = bnd (ResolveDynamic fs reg providerID) (\<lambda>r. ret (fst r))"

definition soundFactory :: "factory \<Rightarrow> bool" where
  "soundFactory f \<longleftrightarrow> (\<forall>c. remote (f c)) \<and> (\<forall>c e w ad w'. f c e w = (Inr ad, w') \<longrightarrow> remoteAdapter ad)"

lemma remote_ResolveDynamic:
  assumes "\<And>t f. fs t = Some f \<Longrightarrow> soundFactory f"
  shows "remote (ResolveDynamic fs reg i)"
proof -
  have "remote (pool (GetInfrastructureProviderByID i))"
    by (rule remote_pool) (auto simp: GetInfrastructureProviderByID_def selectOne_ok unchanged_fleet)
  moreover have "fs t = Some f \<Longrightarrow> remote (f c)" for t f c using assms by (simp add: soundFactory_def)
  ultimately show ?thesis
    unfolding ResolveDynamic_def by (auto intro!: remote_basic split: sum.split option.split)
qed

lemma remoteResolver_dynamic:
  assumes fs: "\<And>t f. fs t = Some f \<Longrightarrow> soundFactory f" and reg: "\<And>i a. reg i = Some a \<Longrightarrow> remoteAdapter a"
  shows "remoteResolver (resolveWith fs reg)"
  unfolding remoteResolver_def
proof (intro conjI allI impI)
  show "remote (resolveWith fs reg i)" for i
    unfolding resolveWith_def by (intro remote_basic remote_ResolveDynamic fs)
  fix i e w ad w' assume "resolveWith fs reg i e w = (Inr ad, w')"
  then obtain reg' where run: "ResolveDynamic fs reg i e w = (Inr (ad, reg'), w')"
    by (auto simp: resolveWith_def bnd_ok ret_ok)
  show "remoteAdapter ad"
  proof (cases "reg i")
    case (Some a)
    with run reg show ?thesis by (auto simp: ResolveDynamic_def GetAdapter_def ret_ok)
  next
    case None
    with run have "bnd (attempt (pool (GetInfrastructureProviderByID i))) (\<lambda>r. case r of
       Inl _ \<Rightarrow> raise ErrNotRegistered
     | Inr row \<Rightarrow> (case fs (prov_provider_type row) of
         None \<Rightarrow> raise ErrNotRegistered
       | Some f \<Rightarrow> bnd (f \<lparr>fc_Endpoint = text_string (prov_endpoint row), fc_CredentialRef = prov_credential_ref row, fc_Config = prov_config row\<rparr>)
           (\<lambda>a. case RegisterAdapter reg i (Some a) of
             Inr reg' \<Rightarrow> ret (a, reg')
           | Inl _ \<Rightarrow> (case GetAdapter reg i of Inl x \<Rightarrow> raise x | Inr b \<Rightarrow> ret (b, reg))))) e w = (Inr (ad, reg'), w')"
      by (simp add: ResolveDynamic_def GetAdapter_def)
    then show ?thesis
    proof (cases rule: tryE)
      case (passed row w1)
      then obtain f c w2 a where f: "fs (prov_provider_type row) = Some f" "f c e w1 = (Inr a, w2)"
        and rest: "(case RegisterAdapter reg i (Some a) of Inr reg' \<Rightarrow> ret (a, reg')
           | Inl _ \<Rightarrow> (case GetAdapter reg i of Inl x \<Rightarrow> raise x | Inr b \<Rightarrow> ret (b, reg))) e w2 = (Inr (ad, reg'), w')"
        by (auto simp: raise_ok bnd_ok split: option.split_asm)
      from rest None have "ad = a" by (auto simp: RegisterAdapter_def GetAdapter_def ret_ok raise_ok split: if_splits)
      with f fs[OF f(1)] show ?thesis unfolding soundFactory_def by blast
    qed (simp add: raise_ok)
  qed
qed

text \<open>The factory of Runman as the worker registers it.\<close>

definition runmanFactory :: "nat \<Rightarrow> factory" where
  "runmanFactory polls c = bnd (RunmanFactory connectionSender polls (fc_Config c)) (\<lambda>a. ret (runmanAdapter a))"

lemma runmanFactory_sound: "soundFactory (runmanFactory polls)"
proof -
  have s: "ra_sender a = connectionSender" if "RunmanFactory connectionSender polls j e w = (Inr a, w')" for j e w a w'
    using that by (auto simp: RunmanFactory_def bnd_ok asks_ok ret_ok raise_ok split: option.split_asm json.split_asm if_splits)
  have "remote (RunmanFactory connectionSender polls j)" for j
    unfolding RunmanFactory_def by (auto intro!: remote_basic split: option.split json.split)
  with s show ?thesis
    unfolding soundFactory_def runmanFactory_def by (auto intro!: remote_basic remote_runman simp: bnd_ok ret_ok)
qed

lemma remoteResolver_runman: "remoteResolver (resolveWith [''runman'' \<mapsto> runmanFactory polls] Map.empty)"
  by (rule remoteResolver_dynamic) (auto simp: runmanFactory_sound split: if_splits)

end
