(* ===== verification/Decode.thy ===== *)
theory Decode
  imports Store
begin

text \<open>
  What the HTTP side of the backend uses of the standard library: functions of \<open>strings\<close> on ASCII text, and \<open>encoding/json\<close> decoding a
  document into the fields of a struct. Members are found by their exact names.
\<close>

section \<open>Text\<close>

definition ContainsText :: "string \<Rightarrow> string \<Rightarrow> bool" where
  "ContainsText s sub \<longleftrightarrow> list_ex (\<lambda>n. take (length sub) (drop n s) = sub) [0..<Suc (length s)]"

definition HasPrefix :: "string \<Rightarrow> string \<Rightarrow> bool" where "HasPrefix s p \<longleftrightarrow> take (length p) s = p"
definition HasSuffix :: "string \<Rightarrow> string \<Rightarrow> bool" where "HasSuffix s p \<longleftrightarrow> HasPrefix (rev s) (rev p)"
definition TrimSuffix :: "string \<Rightarrow> string \<Rightarrow> string" where
  "TrimSuffix s p = (if HasSuffix s p then take (length s - length p) s else s)"
definition TrimRight :: "char \<Rightarrow> string \<Rightarrow> string" where "TrimRight c s = rev (dropWhile (\<lambda>x. x = c) (rev s))"
definition Trim :: "char \<Rightarrow> string \<Rightarrow> string" where "Trim c s = dropWhile (\<lambda>x. x = c) (TrimRight c s)"

text \<open>A missing key of a map of strings reads as the empty string.\<close>

definition at_key :: "(string \<times> string) list \<Rightarrow> string \<Rightarrow> string" where
  "at_key m k = (case map_of m k of None \<Rightarrow> [] | Some v \<Rightarrow> v)"

section \<open>Documents\<close>

text \<open>
  \<open>json.Unmarshal\<close> into a field: absent and \<open>null\<close> leave the zero value, another type is an error.
\<close>

definition isStruct :: "json \<Rightarrow> bool" where "isStruct j = (case j of JObj _ \<Rightarrow> True | JNull \<Rightarrow> True | _ \<Rightarrow> False)"

definition strField :: "string \<Rightarrow> json \<Rightarrow> string option" where
  "strField k j = (case field k j of None \<Rightarrow> Some [] | Some JNull \<Rightarrow> Some [] | Some (JStr s) \<Rightarrow> Some s | _ \<Rightarrow> None)"

definition intField :: "string \<Rightarrow> json \<Rightarrow> int option" where
  "intField k j = (case field k j of None \<Rightarrow> Some 0 | Some JNull \<Rightarrow> Some 0 | Some (JNum n) \<Rightarrow> (if int64 n then Some n else None) | _ \<Rightarrow> None)"

definition timeField :: "string \<Rightarrow> json \<Rightarrow> time option" where
  "timeField k j = (case field k j of None \<Rightarrow> Some zeroTime | Some JNull \<Rightarrow> Some zeroTime | Some (JTime t) \<Rightarrow> Some t | _ \<Rightarrow> None)"

definition subField :: "string \<Rightarrow> (json \<Rightarrow> 'a option) \<Rightarrow> json \<Rightarrow> 'a option" where
  "subField k d j = (case field k j of None \<Rightarrow> d JNull | Some v \<Rightarrow> if isStruct v then d v else None)"

definition decodeAll :: "(json \<Rightarrow> 'a option) \<Rightarrow> json list \<Rightarrow> 'a list option" where
  "decodeAll d xs = those (map d xs)"

definition listField :: "string \<Rightarrow> (json \<Rightarrow> 'a option) \<Rightarrow> json \<Rightarrow> 'a list option" where
  "listField k d j = (case field k j of None \<Rightarrow> Some [] | Some JNull \<Rightarrow> Some [] | Some (JArr xs) \<Rightarrow> decodeAll d xs | _ \<Rightarrow> None)"

definition mapField :: "string \<Rightarrow> (json \<Rightarrow> 'a option) \<Rightarrow> json \<Rightarrow> (string \<times> 'a) list option" where
  "mapField k d j = (case field k j of None \<Rightarrow> Some [] | Some JNull \<Rightarrow> Some []
     | Some (JObj kvs) \<Rightarrow> map_option (zip (map fst (lastWins kvs))) (decodeAll d (map snd (lastWins kvs)))
     | _ \<Rightarrow> None)"

definition textOf :: "json \<Rightarrow> string option" where
  "textOf j = (case j of JStr s \<Rightarrow> Some s | JNull \<Rightarrow> Some [] | _ \<Rightarrow> None)"

end
