(* ===== verification/Lxd.thy ===== *)
theory Lxd
  imports Mock Runman_Adapter Decode
begin

text \<open>
  \<open>internal/provider/lxdapi/lxd.go\<close>: the provider that drives an LXD daemon over HTTPS. The daemon is a parameter with a state of its
  own, \<open>lx_exchange\<close>; each call of the adapter is a function of the adapter's memory of finished actions and of that state. Core counts are
  hundredths, sizes and counters 64-bit integers. What \<open>url.Parse\<close> makes of an address is a parameter too.
\<close>

section \<open>Errors\<close>

definition ErrorAuthFailed :: string where "ErrorAuthFailed = ''PROVIDER_AUTH_FAILED''"
definition ErrorResourceExhausted :: string where "ErrorResourceExhausted = ''RESOURCE_EXHAUSTED''"

record ProviderError =
  pe_Code :: string
  pe_Retryable :: bool
  pe_Provider :: string
  pe_RawCode :: string
  pe_RawMessage :: string

text \<open>A request that cannot be built fails with an error that is not a \<open>*provider.Error\<close>.\<close>

datatype failure = Normalized ProviderError | Plain string

definition normalized :: "string \<Rightarrow> bool \<Rightarrow> int \<Rightarrow> string \<Rightarrow> failure" where
  "normalized code retry rawCode message = Normalized \<lparr>pe_Code = code, pe_Retryable = retry, pe_Provider = ''lxdapi'', pe_RawCode = itoa rawCode,
     pe_RawMessage = take 512 message\<rparr>"

definition unsupported_lxd :: "string \<Rightarrow> failure" where
  "unsupported_lxd action = normalized ErrorUnsupportedOperation False 0 (action @ '' is unsupported by the LXD adapter'')"

definition isCode :: "failure \<Rightarrow> string \<Rightarrow> bool" where
  "isCode x code = (case x of Normalized target \<Rightarrow> pe_Code target = code | Plain _ \<Rightarrow> False)"

definition normalizeTransport :: "bool \<Rightarrow> string \<Rightarrow> failure" where
  "normalizeTransport timedOut message = (if timedOut then normalized ErrorTimeout True 0 message else normalized ErrorUnavailable True 0 message)"

definition normalizeHTTP :: "int \<Rightarrow> string \<Rightarrow> failure" where
  "normalizeHTTP status message = (let lower = ToLower message in
     if status = 401 \<or> status = 403 then normalized ErrorAuthFailed False status message
     else if status = 404 \<and> ContainsText lower ''image'' then normalized ErrorImageNotFound False status message
     else if status = 404 then normalized ErrorInstanceNotFound False status message
     else if status = 409 \<or> ContainsText lower ''already exists'' then normalized ErrorInstanceAlreadyExists False status message
     else if status = 507 \<or> ContainsText lower ''no space'' then normalized ErrorResourceExhausted True status message
     else if status = 504 then normalized ErrorTimeout True status message
     else if status = 429 \<or> status \<ge> 500 then normalized ErrorUnavailable True status message
     else normalized ErrorUnknown False status message)"

section \<open>Text\<close>

definition instanceName :: "string \<Rightarrow> string" where "instanceName platformID = ''vps-'' @ ToLower platformID"

text \<open>\<open>url.PathEscape\<close>: what may not stand in a segment of a path is written in hexadecimal.\<close>

definition plainInSegment :: "char \<Rightarrow> bool" where
  "plainInSegment c \<longleftrightarrow> (CHR ''a'' \<le> c \<and> c \<le> CHR ''z'') \<or> (CHR ''A'' \<le> c \<and> c \<le> CHR ''Z'') \<or> (CHR ''0'' \<le> c \<and> c \<le> CHR ''9'') \<or>
     c \<in> set ''-_.~$&+:=@''"

definition PathEscape :: "string \<Rightarrow> string" where
  "PathEscape s = concat (map (\<lambda>c. if plainInSegment c then [c]
     else CHR ''%'' # ToUpper [hexDigit (of_char c div 16), hexDigit (of_char c mod 16)]) s)"

definition mapState :: "string \<Rightarrow> string" where
  "mapState v = (let s = ToLower v in
     if s = ''running'' then ''running'' else if s = ''stopped'' then ''stopped'' else if s = ''frozen'' then ''suspended''
     else if s = ''starting'' then ''provisioning'' else if s = ''stopping'' then ''stopping'' else ''unknown'')"

text \<open>\<open>strconv.ParseInt\<close> with its error dropped: zero for what is no number, the nearest bound for what does not fit.\<close>

definition ParseInt64 :: "string \<Rightarrow> int" where
  "ParseInt64 s = (case s of
     [] \<Rightarrow> 0
   | c # cs \<Rightarrow> (case (if c = CHR ''-'' then (if cs = [] then None else map_option uminus (decimal 0 cs))
         else if c = CHR ''+'' then (if cs = [] then None else decimal 0 cs) else decimal 0 s) of
       None \<Rightarrow> 0 | Some n \<Rightarrow> max (- maxInt64 - 1) (min maxInt64 n)))"

definition parseSize :: "string \<Rightarrow> string \<Rightarrow> int" where "parseSize v suffix = ParseInt64 (TrimSuffix v suffix)"

text \<open>
  \<open>strconv.FormatFloat(\<^bold>\<cdot>, 'f', -1, 64)\<close> and \<open>strconv.ParseFloat\<close> on hundredths: the shortest notation with a point, and its value cut to
  two decimals (zero for what is no such number).
\<close>

definition formatUnsigned :: "nat \<Rightarrow> string" where
  "formatUnsigned a = (let f = a mod 100 in digits (a div 100) @
     (if f = 0 then [] else if f mod 10 = 0 then CHR ''.'' # digits (f div 10) else [CHR ''.'', char_of (48 + f div 10), char_of (48 + f mod 10)]))"

definition formatCores :: "int \<Rightarrow> string" where
  "formatCores c = (if c < 0 then CHR ''-'' # formatUnsigned (nat (- c)) else formatUnsigned (nat c))"

definition parseUnsigned :: "string \<Rightarrow> int option" where
  "parseUnsigned s = (case split (CHR ''.'') s of
     [w] \<Rightarrow> (if w = [] then None else map_option (\<lambda>n. n * 100) (decimal 0 w))
   | [w, f] \<Rightarrow> (if w = [] \<and> f = [] then None else (case (decimal 0 w, decimal 0 f, decimal 0 (take 2 (f @ ''00''))) of
       (Some n, Some _, Some m) \<Rightarrow> Some (n * 100 + m) | _ \<Rightarrow> None))
   | _ \<Rightarrow> None)"

definition parseCores :: "string \<Rightarrow> int" where
  "parseCores s = (case s of
     [] \<Rightarrow> 0
   | c # cs \<Rightarrow> (case (if c = CHR ''-'' then map_option uminus (parseUnsigned cs) else if c = CHR ''+'' then parseUnsigned cs else parseUnsigned s) of
       None \<Rightarrow> 0 | Some n \<Rightarrow> n))"

section \<open>The daemon and the adapter\<close>

record URL =
  url_Scheme :: string
  url_Host :: string
  url_Path :: string
  url_Query :: "(string \<times> string) list"

record HTTPRequest =
  hq_Method :: string
  hq_URL :: URL
  hq_Body :: "json option"

text \<open>
  What comes of a request: it is not sent, the exchange breaks (with a timeout or not), or there is an answer: status, length of the body in bytes,
  and the body, absent when it is no JSON document.
\<close>

datatype HTTPResult = NotSent string | Broken bool string | Answered int int "json option"

record address =
  ad_Family :: string
  ad_Address :: string
  ad_Scope :: string

record network =
  nw_Addresses :: "address list"
  nw_BytesReceived :: int
  nw_BytesSent :: int

text \<open>\<open>lx_range\<close> is the order in which Go ranges over a map, which it leaves open.\<close>

record 'd daemon =
  lx_exchange :: "HTTPRequest \<Rightarrow> 'd \<Rightarrow> HTTPResult \<times> 'd"
  lx_parseURL :: "string \<Rightarrow> URL option"
  lx_range :: "(string \<times> network) list \<Rightarrow> (string \<times> network) list"

record Client =
  cl_Timeout :: duration
  cl_Credentials :: "(string \<times> string \<times> string) option"

record lxd =
  lx_baseURL :: URL
  lx_project :: string
  lx_imageServer :: string
  lx_operationTimeout :: duration
  lx_client :: Client
  lx_actions :: "string \<rightharpoonup> ProviderOperation"
  lx_actionTargets :: "string \<rightharpoonup> string"

type_synonym ('d, 'a) lcall = "'d daemon \<Rightarrow> env \<Rightarrow> lxd \<times> 'd \<Rightarrow> (failure + 'a) \<times> (lxd \<times> 'd)"

definition lret :: "'a \<Rightarrow> ('d, 'a) lcall" where "lret x n e s = (Inr x, s)"
definition lraise :: "failure \<Rightarrow> ('d, 'a) lcall" where "lraise x n e s = (Inl x, s)"
definition lbnd :: "('d, 'a) lcall \<Rightarrow> ('a \<Rightarrow> ('d, 'b) lcall) \<Rightarrow> ('d, 'b) lcall" where
  "lbnd m k n e s = (case m n e s of (Inl x, s') \<Rightarrow> (Inl x, s') | (Inr y, s') \<Rightarrow> k y n e s')"
definition lattempt :: "('d, 'a) lcall \<Rightarrow> ('d, failure + 'a) lcall" where
  "lattempt m n e s = (case m n e s of (r, s') \<Rightarrow> (Inr r, s'))"
definition lstate :: "('d, lxd) lcall" where "lstate n e s = (Inr (fst s), s)"

section \<open>Documents\<close>

record lxdEnvelope =
  en_Type :: string
  en_Status :: string
  en_StatusCode :: int
  en_Operation :: string
  en_ErrorCode :: int
  en_Error :: string
  en_Metadata :: "json option"

definition decodeEnvelope :: "json \<Rightarrow> lxdEnvelope option" where
  "decodeEnvelope j = (if \<not> isStruct j then None else
     case (strField ''type'' j, strField ''status'' j, intField ''status_code'' j, strField ''operation'' j, intField ''error_code'' j, strField ''error'' j) of
       (Some t, Some s, Some c, Some oper, Some ec, Some er) \<Rightarrow> Some \<lparr>en_Type = t, en_Status = s, en_StatusCode = c, en_Operation = oper,
         en_ErrorCode = ec, en_Error = er, en_Metadata = field ''metadata'' j\<rparr>
     | _ \<Rightarrow> None)"

record lxdOperation =
  lo_Status :: string
  lo_StatusCode :: int
  lo_Err :: string

definition decodeOperation :: "json \<Rightarrow> lxdOperation option" where
  "decodeOperation j = (if \<not> isStruct j then None else case (strField ''status'' j, intField ''status_code'' j, strField ''err'' j) of
     (Some s, Some c, Some x) \<Rightarrow> Some \<lparr>lo_Status = s, lo_StatusCode = c, lo_Err = x\<rparr> | _ \<Rightarrow> None)"

record instanceDefinition =
  id_Name :: string
  id_Status :: string
  id_Config :: "(string \<times> string) list"
  id_CreatedAt :: time

definition decodeDefinition :: "json \<Rightarrow> instanceDefinition option" where
  "decodeDefinition j = (if \<not> isStruct j then None else
     case (strField ''name'' j, strField ''status'' j, mapField ''config'' textOf j, timeField ''created_at'' j) of
       (Some n, Some s, Some c, Some t) \<Rightarrow> Some \<lparr>id_Name = n, id_Status = s, id_Config = c, id_CreatedAt = t\<rparr> | _ \<Rightarrow> None)"

record instanceState =
  st_Status :: string
  st_MemoryUsage :: int
  st_Network :: "(string \<times> network) list"

definition decodeAddress :: "json \<Rightarrow> address option" where
  "decodeAddress j = (if \<not> isStruct j then None else case (strField ''family'' j, strField ''address'' j, strField ''scope'' j) of
     (Some f, Some a, Some s) \<Rightarrow> Some \<lparr>ad_Family = f, ad_Address = a, ad_Scope = s\<rparr> | _ \<Rightarrow> None)"

definition decodeCounters :: "json \<Rightarrow> (int \<times> int) option" where
  "decodeCounters j = (case (intField ''bytes_received'' j, intField ''bytes_sent'' j) of (Some r, Some s) \<Rightarrow> Some (r, s) | _ \<Rightarrow> None)"

definition decodeNetwork :: "json \<Rightarrow> network option" where
  "decodeNetwork j = (if \<not> isStruct j then None else case (listField ''addresses'' decodeAddress j, subField ''counters'' decodeCounters j) of
     (Some as, Some (r, s)) \<Rightarrow> Some \<lparr>nw_Addresses = as, nw_BytesReceived = r, nw_BytesSent = s\<rparr> | _ \<Rightarrow> None)"

definition decodeState :: "json \<Rightarrow> instanceState option" where
  "decodeState j = (if \<not> isStruct j then None else
     case (strField ''status'' j, subField ''memory'' (intField ''usage'') j, mapField ''network'' decodeNetwork j) of
       (Some s, Some m, Some n) \<Rightarrow> Some \<lparr>st_Status = s, st_MemoryUsage = m, st_Network = n\<rparr> | _ \<Rightarrow> None)"

definition decodeVersion :: "json \<Rightarrow> string option" where
  "decodeVersion j = (if \<not> isStruct j then None else subField ''environment'' (strField ''server_version'') j)"

record lxdImage =
  li_Fingerprint :: string
  li_Properties :: "(string \<times> string) list"
  li_Aliases :: "string list"

definition decodeImage :: "json \<Rightarrow> lxdImage option" where
  "decodeImage j = (if \<not> isStruct j then None else case (strField ''fingerprint'' j, mapField ''properties'' textOf j,
       listField ''aliases'' (\<lambda>v. if isStruct v then strField ''name'' v else None) j) of
     (Some f, Some p, Some a) \<Rightarrow> Some \<lparr>li_Fingerprint = f, li_Properties = p, li_Aliases = a\<rparr> | _ \<Rightarrow> None)"

definition decodeImages :: "json \<Rightarrow> lxdImage list option" where
  "decodeImages j = (case j of JArr xs \<Rightarrow> decodeAll decodeImage xs | JNull \<Rightarrow> Some [] | _ \<Rightarrow> None)"

section \<open>Requests\<close>

definition maxResponseBytes :: int where "maxResponseBytes = 8 * 1024 * 1024"

definition querySet :: "string \<Rightarrow> string \<Rightarrow> (string \<times> string) list \<Rightarrow> (string \<times> string) list" where
  "querySet k v q = filter (\<lambda>kv. fst kv \<noteq> k) q @ [(k, v)]"

definition requestURL :: "lxd \<Rightarrow> string \<Rightarrow> (string \<times> string) list \<Rightarrow> URL" where
  "requestURL a path query = (lx_baseURL a)\<lparr>url_Path := TrimRight (CHR ''/'') (url_Path (lx_baseURL a)) @ path,
     url_Query := sort_key fst (if \<not> HasSuffix path ''/1.0'' \<and> path \<noteq> ''/1.0'' then querySet ''project'' (lx_project a) query else query)\<rparr>"

text \<open>What is made of an answer; \<open>decode\<close> reads the metadata, which stays at its zero value when there is none.\<close>

definition readAnswer :: "(json \<Rightarrow> 'm option) \<Rightarrow> 'm \<Rightarrow> HTTPResult \<Rightarrow> failure + (lxdEnvelope \<times> 'm)" where
  "readAnswer decode zero answer = (case answer of
     NotSent message \<Rightarrow> Inl (Plain message)
   | Broken timedOut message \<Rightarrow> Inl (normalizeTransport timedOut message)
   | Answered status len body \<Rightarrow>
       if len > maxResponseBytes then Inl (normalized ErrorUnknown False status ''LXD response exceeded limit'')
       else (case Option.bind body decodeEnvelope of
         None \<Rightarrow> Inl (normalized ErrorUnknown False status ''invalid LXD response'')
       | Some env \<Rightarrow>
           if status < 200 \<or> status \<ge> 300 \<or> en_Error env \<noteq> [] then Inl (normalizeHTTP status (en_Error env))
           else (case en_Metadata env of
             None \<Rightarrow> Inr (env, zero)
           | Some JNull \<Rightarrow> Inr (env, zero)
           | Some j \<Rightarrow> (case decode j of
               None \<Rightarrow> Inl (normalized ErrorUnknown False status ''invalid LXD metadata'') | Some y \<Rightarrow> Inr (env, y)))))"

definition request_lxd :: "string \<Rightarrow> string \<Rightarrow> (string \<times> string) list \<Rightarrow> json option \<Rightarrow> (json \<Rightarrow> 'm option) \<Rightarrow> 'm \<Rightarrow> ('d, lxdEnvelope \<times> 'm) lcall" where
  "request_lxd verb path query body decode zero n e s = (case s of (a, d) \<Rightarrow>
     (case lx_exchange n \<lparr>hq_Method = verb, hq_URL = requestURL a path query, hq_Body = body\<rparr> d of
       (answer, d') \<Rightarrow> (readAnswer decode zero answer, (a, d'))))"

abbreviation noMetadata :: "json \<Rightarrow> unit option" where "noMetadata \<equiv> \<lambda>_. Some ()"

definition pollOperation :: "URL \<Rightarrow> ('d, unit) lcall" where
  "pollOperation parsed = lbnd lstate (\<lambda>a. lbnd (request_lxd ''GET'' (url_Path parsed @ ''/wait'')
       (querySet ''timeout'' (itoa (lx_operationTimeout a div second)) (url_Query parsed)) None decodeOperation
       \<lparr>lo_Status = [], lo_StatusCode = 0, lo_Err = []\<rparr>) (\<lambda>(env, oper).
     if lo_Err oper \<noteq> [] \<or> lo_StatusCode oper \<ge> 400 then lraise (normalizeHTTP (lo_StatusCode oper) (lo_Err oper))
     else if lo_StatusCode oper < 200
     then lraise (normalized ErrorTimeout True (lo_StatusCode oper) ''LXD operation did not reach a terminal state'')
     else lret ()))"

definition wait_lxd :: "string \<Rightarrow> ('d, unit) lcall" where
  "wait_lxd operationURL n = (case lx_parseURL n operationURL of
     None \<Rightarrow> lraise (normalized ErrorUnknown False 0 ''LXD returned an invalid operation URL'') n
   | Some parsed \<Rightarrow>
       if \<not> HasPrefix (url_Path parsed) ''/1.0/operations/'' then lraise (normalized ErrorUnknown False 0 ''LXD returned an invalid operation URL'') n
       else pollOperation parsed n)"

definition operationID_lxd :: "(string \<Rightarrow> URL option) \<Rightarrow> string \<Rightarrow> string" where
  "operationID_lxd parse v = (case parse v of None \<Rightarrow> v
     | Some parsed \<Rightarrow> (case split (CHR ''/'') (Trim (CHR ''/'') (url_Path parsed)) of [] \<Rightarrow> v | parts \<Rightarrow> last parts))"

definition instanceDefinition_lxd :: "string \<Rightarrow> ('d, instanceDefinition) lcall" where
  "instanceDefinition_lxd name = lbnd (request_lxd ''GET'' (''/1.0/instances/'' @ PathEscape name) [] None decodeDefinition
     \<lparr>id_Name = [], id_Status = [], id_Config = [], id_CreatedAt = zeroTime\<rparr>) (\<lambda>(env, r). lret r)"

definition state_lxd :: "string \<Rightarrow> ('d, instanceState) lcall" where
  "state_lxd name = lbnd (request_lxd ''GET'' (''/1.0/instances/'' @ PathEscape name @ ''/state'') [] None decodeState
     \<lparr>st_Status = [], st_MemoryUsage = 0, st_Network = []\<rparr>) (\<lambda>(env, r). lret r)"

section \<open>The memory of finished actions\<close>

definition replayed :: "ProviderOperation \<Rightarrow> ProviderOperation" where
  "replayed r = r\<lparr>po_Metadata := filter (\<lambda>kv. fst kv \<noteq> ''idempotent_replay'') (po_Metadata r) @ [(''idempotent_replay'', JBool True)]\<rparr>"

definition cachedOperation :: "lxd \<Rightarrow> string \<Rightarrow> string \<Rightarrow> (failure + ProviderOperation) option" where
  "cachedOperation a key target = (case lx_actions a key of
     None \<Rightarrow> None
   | Some existing \<Rightarrow>
       if lx_actionTargets a key \<noteq> Some target
       then Some (Inl (normalized ErrorInstanceAlreadyExists False 409 ''idempotency key reused for another instance''))
       else Some (Inr (replayed existing)))"

definition storeOperation :: "string \<Rightarrow> string \<Rightarrow> ProviderOperation \<Rightarrow> ('d, unit) lcall" where
  "storeOperation key target oper n e s = (case s of (a, d) \<Rightarrow>
     (Inr (), (a\<lparr>lx_actions := (lx_actions a)(key \<mapsto> oper), lx_actionTargets := (lx_actionTargets a)(key \<mapsto> target)\<rparr>, d)))"

text \<open>A call under an idempotency key: answered from memory when the key is known, carried out otherwise.\<close>

definition oncePer :: "string \<Rightarrow> string \<Rightarrow> ('d, ProviderOperation) lcall \<Rightarrow> ('d, ProviderOperation) lcall" where
  "oncePer key target m = lbnd lstate (\<lambda>a. case cachedOperation a key target of Some (Inl x) \<Rightarrow> lraise x | Some (Inr r) \<Rightarrow> lret r | None \<Rightarrow> m)"

definition succeededAs :: "string \<Rightarrow> (string \<times> json) list \<Rightarrow> ProviderOperation" where
  "succeededAs operID meta = \<lparr>po_ProviderOperationID = operID, po_Status = ''succeeded'', po_Accepted = True, po_Metadata = meta\<rparr>"

text \<open>How every action ends: wait for the operation of the daemon, remember it and answer.\<close>

definition finish :: "string \<Rightarrow> string \<Rightarrow> lxdEnvelope \<Rightarrow> ('d, ProviderOperation) lcall" where
  "finish key target env n = lbnd (wait_lxd (en_Operation env)) (\<lambda>_.
     let r = succeededAs (operationID_lxd (lx_parseURL n) (en_Operation env)) [] in lbnd (storeOperation key target r) (\<lambda>_. lret r)) n"

section \<open>Calls\<close>

definition Health_lxd :: "('d, Health) lcall" where
  "Health_lxd = lbnd (request_lxd ''GET'' ''/1.0'' [] None decodeVersion []) (\<lambda>(env, version) n e s.
     (Inr \<lparr>hl_Status = ''healthy'', hl_Version = version, hl_CheckedAt = goNow e, hl_Details = [(''project'', JStr (lx_project (fst s)))]\<rparr>, s))"

definition Capabilities_lxd :: Capabilities where
  "Capabilities_lxd = \<lparr>cap_CreateInstance = True, cap_DeleteInstance = True, cap_Start = True, cap_Stop = True, cap_Restart = True,
     cap_Reinstall = True, cap_ResetPassword = False, cap_Traffic = True, cap_Metrics = True, cap_NAT = False, cap_IPv4 = True, cap_IPv6 = True,
     cap_Snapshot = False, cap_Console = False, cap_Firewall = False, cap_SupportedRuntimes = [''kvm'', ''lxc'']\<rparr>"

definition imageOf :: "lxdImage \<Rightarrow> Image" where
  "imageOf i = \<lparr>img_ID = (case li_Aliases i of [] \<Rightarrow> li_Fingerprint i | a # _ \<Rightarrow> a), img_Name = at_key (li_Properties i) ''description'',
     img_OS = at_key (li_Properties i) ''os'', img_Version = at_key (li_Properties i) ''release'',
     img_Arch = at_key (li_Properties i) ''architecture'', img_Description = at_key (li_Properties i) ''description''\<rparr>"

definition ListImages_lxd :: "('d, Image list) lcall" where
  "ListImages_lxd = lbnd (request_lxd ''GET'' ''/1.0/images'' [(''recursion'', ''1'')] None decodeImages []) (\<lambda>(env, images). lret (map imageOf images))"

definition createBody :: "lxd \<Rightarrow> CreateInstanceRequest \<Rightarrow> json" where
  "createBody a r = JObj [
     (''name'', JStr (instanceName (ci_InstanceID r))), (''type'', JStr (if ci_Virtualization r = ''kvm'' then ''virtual-machine'' else ''container'')),
     (''start'', JBool True),
     (''source'', JObj [(''type'', JStr ''image''), (''alias'', JStr (ci_Image r)), (''mode'', JStr ''pull''), (''protocol'', JStr ''simplestreams''),
       (''server'', JStr (lx_imageServer a))]),
     (''config'', JObj [(''limits.cpu'', JStr (formatCores (ci_CPUCores r))), (''limits.memory'', JStr (itoa (ci_MemoryMB r) @ ''MiB'')),
       (''user.vps_billing.instance_id'', JStr (ci_InstanceID r)), (''user.vps_billing.operation_id'', JStr (ci_OperationID r)),
       (''user.vps_billing.idempotency_key'', JStr (ci_IdempotencyKey r))]),
     (''devices'', JObj [(''root'', JObj [(''type'', JStr ''disk''), (''path'', JStr ''/''), (''size'', JStr (itoa (ci_DiskGB r) @ ''GiB''))])])]"

definition existsAlready :: "string \<Rightarrow> CreateInstanceRequest \<Rightarrow> instanceDefinition \<Rightarrow> ('d, ProviderOperation) lcall" where
  "existsAlready key r existing =
    (if at_key (id_Config existing) ''user.vps_billing.instance_id'' \<noteq> ci_InstanceID r \<or>
        at_key (id_Config existing) ''user.vps_billing.idempotency_key'' \<noteq> ci_IdempotencyKey r
     then lraise (normalized ErrorInstanceAlreadyExists False 409 ''LXD instance identity conflict'')
     else (let res = succeededAs (''existing:'' @ instanceName (ci_InstanceID r)) [(''idempotent_replay'', JBool True)]
       in lbnd (storeOperation key (ci_InstanceID r) res) (\<lambda>_. lret res)))"

definition CreateInstance_lxd :: "CreateInstanceRequest \<Rightarrow> ('d, ProviderOperation) lcall" where
  "CreateInstance_lxd r =
    (if ci_OperationID r = [] \<or> ci_IdempotencyKey r = [] \<or> ci_InstanceID r = [] \<or> ci_NodeID r = [] \<or> ci_Image r = []
     then lraise (normalized ErrorUnknown False 0 ''invalid create request'')
     else (let key = ''create:'' @ ci_IdempotencyKey r in oncePer key (ci_InstanceID r)
       (lbnd (lattempt (instanceDefinition_lxd (instanceName (ci_InstanceID r)))) (\<lambda>found. case found of
          Inr existing \<Rightarrow> existsAlready key r existing
        | Inl x \<Rightarrow> if \<not> isCode x ErrorInstanceNotFound then lraise x
            else lbnd lstate (\<lambda>a. lbnd (request_lxd ''POST'' ''/1.0/instances'' [(''target'', ci_NodeID r)] (Some (createBody a r)) noMetadata ())
              (\<lambda>(env, _). finish key (ci_InstanceID r) env))))))"

definition nameOf :: "'x GetInstanceRequest_scheme \<Rightarrow> string" where
  "nameOf r = (if gi_ProviderInstanceID r = [] then instanceName (gi_PlatformInstanceID r) else gi_ProviderInstanceID r)"

text \<open>The addresses of one family, without those of the link.\<close>

definition addressesOf :: "string \<Rightarrow> (string \<times> network) list \<Rightarrow> string list" where
  "addressesOf family networks = concat (map (\<lambda>(k, n). map ad_Address
     (filter (\<lambda>x. ad_Scope x \<noteq> ''link'' \<and> ad_Address x \<noteq> [] \<and> ad_Family x = family) (nw_Addresses n))) networks)"

definition GetInstance_lxd :: "GetInstanceRequest \<Rightarrow> ('d, ProviderInstance) lcall" where
  "GetInstance_lxd r = (let name = nameOf r in lbnd (instanceDefinition_lxd name) (\<lambda>def. lbnd (state_lxd name) (\<lambda>state n e s.
     (Inr \<lparr>prv_ProviderInstanceID = name, prv_State = mapState (st_Status state), prv_CPUCores = parseCores (at_key (id_Config def) ''limits.cpu''),
       prv_MemoryMB = parseSize (at_key (id_Config def) ''limits.memory'') ''MiB'', prv_DiskGB = 0,
       prv_IPv4 = addressesOf ''inet'' (lx_range n (st_Network state)), prv_IPv6 = addressesOf ''inet6'' (lx_range n (st_Network state)),
       prv_CreatedAt = id_CreatedAt def, prv_Metadata = [(''lxd_status'', JStr (st_Status state))]\<rparr>, s))))"

definition stateAction :: "string \<Rightarrow> InstanceActionRequest \<Rightarrow> ('d, ProviderOperation) lcall" where
  "stateAction action r =
    (if ia_OperationID r = [] \<or> ia_IdempotencyKey r = [] \<or> ia_ProviderInstanceID r = []
     then lraise (normalized ErrorUnknown False 0 ''invalid instance action request'')
     else (let key = action @ '':'' @ ia_IdempotencyKey r in oncePer key (ia_ProviderInstanceID r)
       (lbnd lstate (\<lambda>a. lbnd (request_lxd ''PUT'' (''/1.0/instances/'' @ PathEscape (ia_ProviderInstanceID r) @ ''/state'') []
           (Some (JObj [(''action'', JStr action), (''timeout'', JNum (lx_operationTimeout a div second)), (''force'', JBool (action = ''stop''))])) noMetadata ())
         (\<lambda>(env, _). finish key (ia_ProviderInstanceID r) env)))))"

definition StartInstance_lxd :: "InstanceActionRequest \<Rightarrow> ('d, ProviderOperation) lcall" where "StartInstance_lxd = stateAction ''start''"
definition StopInstance_lxd :: "InstanceActionRequest \<Rightarrow> ('d, ProviderOperation) lcall" where "StopInstance_lxd = stateAction ''stop''"
definition RestartInstance_lxd :: "InstanceActionRequest \<Rightarrow> ('d, ProviderOperation) lcall" where "RestartInstance_lxd = stateAction ''restart''"

definition ReinstallInstance_lxd :: "ReinstallInstanceRequest \<Rightarrow> ('d, ProviderOperation) lcall" where
  "ReinstallInstance_lxd r =
    (if ia_OperationID r = [] \<or> ia_IdempotencyKey r = [] \<or> ia_ProviderInstanceID r = [] \<or> ri_Image r = []
     then lraise (normalized ErrorUnknown False 0 ''invalid reinstall request'')
     else (let key = ''reinstall:'' @ ia_IdempotencyKey r; base = InstanceActionRequest.truncate r in oncePer key (ia_ProviderInstanceID r)
       (lbnd (GetInstance_lxd \<lparr>gi_NodeID = [], gi_ProviderInstanceID = ia_ProviderInstanceID r, gi_PlatformInstanceID = []\<rparr>) (\<lambda>current.
        lbnd (if prv_State current = ''running'' then lbnd (StopInstance_lxd base) (\<lambda>_. lret ()) else lret ()) (\<lambda>_.
        lbnd lstate (\<lambda>a. lbnd (request_lxd ''POST'' (''/1.0/instances/'' @ PathEscape (ia_ProviderInstanceID r) @ ''/rebuild'') []
            (Some (JObj [(''source'', JObj [(''type'', JStr ''image''), (''alias'', JStr (ri_Image r)), (''protocol'', JStr ''simplestreams''),
              (''server'', JStr (lx_imageServer a))])])) noMetadata ()) (\<lambda>(env, _).
        lbnd (wait_lxd (en_Operation env)) (\<lambda>_.
        lbnd (StartInstance_lxd base) (\<lambda>res.
        lbnd (storeOperation key (ia_ProviderInstanceID r) res) (\<lambda>_. lret res))))))))))"

definition DeleteInstance_lxd :: "InstanceActionRequest \<Rightarrow> ('d, ProviderOperation) lcall" where
  "DeleteInstance_lxd r =
    (if ia_OperationID r = [] \<or> ia_IdempotencyKey r = [] \<or> ia_ProviderInstanceID r = []
     then lraise (normalized ErrorUnknown False 0 ''invalid delete request'')
     else (let key = ''delete:'' @ ia_IdempotencyKey r in oncePer key (ia_ProviderInstanceID r)
       (lbnd (lattempt (request_lxd ''DELETE'' (''/1.0/instances/'' @ PathEscape (ia_ProviderInstanceID r)) [(''force'', ''1'')] None noMetadata ()))
         (\<lambda>res. case res of
            Inl x \<Rightarrow> if isCode x ErrorInstanceNotFound
              then (let gone = succeededAs ''not-found'' [(''idempotent_replay'', JBool True)]
                in lbnd (storeOperation key (ia_ProviderInstanceID r) gone) (\<lambda>_. lret gone))
              else lraise x
          | Inr (env, _) \<Rightarrow> finish key (ia_ProviderInstanceID r) env))))"

definition GetUsage_lxd :: "GetInstanceRequest \<Rightarrow> ('d, Usage) lcall" where
  "GetUsage_lxd r = lbnd (state_lxd (nameOf r)) (\<lambda>state n e s.
     (Inr \<lparr>us_CPUPercent = 0, us_MemoryUsedMB = sgn (st_MemoryUsage state) * (\<bar>st_MemoryUsage state\<bar> div (1024 * 1024)), us_MemoryTotalMB = 0,
       us_DiskUsedGB = 0, us_DiskTotalGB = 0, us_ObservedAt = goNow e\<rparr>, s))"

text \<open>The counters are summed with Go's wrap-around.\<close>

definition sumCounters :: "(network \<Rightarrow> int) \<Rightarrow> (string \<times> network) list \<Rightarrow> int" where
  "sumCounters f networks = foldl (\<lambda>acc (k, n). wrap64 (acc + f n)) 0 networks"

definition GetTraffic_lxd :: "GetTrafficRequest \<Rightarrow> ('d, Traffic) lcall" where
  "GetTraffic_lxd r = lbnd (state_lxd (nameOf r)) (\<lambda>state n e s. (Inr \<lparr>tr_RXBytes = sumCounters nw_BytesReceived (lx_range n (st_Network state)),
     tr_TXBytes = sumCounters nw_BytesSent (lx_range n (st_Network state)), tr_From = gt_From r, tr_To = gt_To r\<rparr>, s))"

definition ResetPassword_lxd :: "ResetPasswordRequest \<Rightarrow> ('d, ProviderOperation) lcall" where
  "ResetPassword_lxd r = lraise (unsupported_lxd ''reset_password'')"
definition ListPortForwards_lxd :: "GetInstanceRequest \<Rightarrow> ('d, PortForward list) lcall" where
  "ListPortForwards_lxd r = lraise (unsupported_lxd ''nat'')"
definition AddPortForward_lxd :: "AddPortForwardRequest \<Rightarrow> ('d, ProviderOperation) lcall" where
  "AddPortForward_lxd r = lraise (unsupported_lxd ''nat'')"
definition DeletePortForward_lxd :: "DeletePortForwardRequest \<Rightarrow> ('d, ProviderOperation) lcall" where
  "DeletePortForward_lxd r = lraise (unsupported_lxd ''nat'')"

section \<open>Construction\<close>

record LxdConfig =
  lc_Endpoint :: string
  lc_Project :: string
  lc_ImageServer :: string
  lc_OperationTimeout :: duration
  lc_AllowInsecureHTTP :: bool
  lc_Client :: "Client option"

definition New_lxd :: "(string \<Rightarrow> URL option) \<Rightarrow> LxdConfig \<Rightarrow> string + lxd" where
  "New_lxd parse config = (case parse (TrimRight (CHR ''/'') (lc_Endpoint config)) of
     None \<Rightarrow> Inl ''LXD endpoint is invalid''
   | Some baseURL \<Rightarrow>
       if url_Host baseURL = [] then Inl ''LXD endpoint is invalid''
       else if url_Scheme baseURL \<noteq> ''https'' \<and> \<not> (url_Scheme baseURL = ''http'' \<and> lc_AllowInsecureHTTP config) then Inl ''LXD endpoint must use HTTPS''
       else (let timeout = (if lc_OperationTimeout config \<le> 0 then 30 * second else lc_OperationTimeout config) in
         Inr \<lparr>lx_baseURL = baseURL, lx_project = (if lc_Project config = [] then ''default'' else lc_Project config),
           lx_imageServer = (if lc_ImageServer config = [] then ''https://cloud-images.ubuntu.com/releases'' else lc_ImageServer config),
           lx_operationTimeout = timeout,
           lx_client = (case lc_Client config of Some c \<Rightarrow> c | None \<Rightarrow> \<lparr>cl_Timeout = wrap64 (timeout + 5 * second), cl_Credentials = None\<rparr>),
           lx_actions = Map.empty, lx_actionTargets = Map.empty\<rparr>))"

text \<open>The process environment and \<open>crypto/tls\<close>: \<open>tls_pair\<close> and \<open>tls_roots\<close> say whether the PEM texts are accepted.\<close>

record tls =
  tls_getenv :: "string \<Rightarrow> string"
  tls_pair :: "string \<Rightarrow> string \<Rightarrow> bool"
  tls_roots :: "string \<Rightarrow> bool"

definition tlsClient :: "tls \<Rightarrow> string \<Rightarrow> duration \<Rightarrow> string + Client" where
  "tlsClient x reference timeout =
    (if \<not> list_all (\<lambda>c. c = CHR ''_'' \<or> (CHR ''A'' \<le> c \<and> c \<le> CHR ''Z'') \<or> (CHR ''0'' \<le> c \<and> c \<le> CHR ''9'')) reference
     then Inl ''LXD credential_ref must contain only A-Z, 0-9, and underscore''
     else (let cert = tls_getenv x (reference @ ''_CLIENT_CERT_PEM''); privateKey = tls_getenv x (reference @ ''_CLIENT_KEY_PEM'');
         ca = tls_getenv x (reference @ ''_SERVER_CA_PEM'') in
       if cert = [] \<or> privateKey = [] \<or> ca = [] then Inl ''LXD mTLS credential environment is incomplete''
       else if \<not> tls_pair x cert privateKey then Inl ''load LXD client certificate''
       else if \<not> tls_roots x ca then Inl ''load LXD server CA: no certificate found''
       else Inr \<lparr>cl_Timeout = wrap64 (timeout + 5 * second), cl_Credentials = Some (cert, privateKey, ca)\<rparr>))"

definition NewFromFactory :: "tls \<Rightarrow> (string \<Rightarrow> URL option) \<Rightarrow> FactoryConfig \<Rightarrow> string + lxd" where
  "NewFromFactory x parse fc =
    (if \<not> isStruct (fc_Config fc) then Inl ''decode LXD provider config'' else
     case (strField ''project'' (fc_Config fc), strField ''image_server'' (fc_Config fc), intField ''operation_timeout_seconds'' (fc_Config fc)) of
       (Some project, Some imageServer, Some seconds) \<Rightarrow>
         (let t = wrap64 (seconds * second); timeout = (if t \<le> 0 then 30 * second else t);
              config = \<lparr>lc_Endpoint = fc_Endpoint fc, lc_Project = project, lc_ImageServer = imageServer, lc_OperationTimeout = timeout,
                lc_AllowInsecureHTTP = False, lc_Client = None\<rparr> in
          if HasPrefix (fc_Endpoint fc) ''https://'' then (case fc_CredentialRef fc of
            None \<Rightarrow> Inl ''LXD credential_ref is required for HTTPS''
          | Some ref \<Rightarrow> (case tlsClient x ref timeout of Inl m \<Rightarrow> Inl m | Inr c \<Rightarrow> New_lxd parse (config\<lparr>lc_Client := Some c\<rparr>)))
          else New_lxd parse config)
     | _ \<Rightarrow> Inl ''decode LXD provider config'')"

end
