(* ===== verification/Lxd_Laws.thy ===== *)
theory Lxd_Laws
  imports Lxd Samples
begin

text \<open>
  What the LXD adapter guarantees: a finished action is carried out once however often it is asked for, and what is written into the
  definition of an instance is read back from it.
\<close>

section \<open>Sequencing\<close>

lemma lbnd_ok: "lbnd m k n e s = (Inr y, s') \<longleftrightarrow> (\<exists>x s1. m n e s = (Inr x, s1) \<and> k x n e s1 = (Inr y, s'))"
  by (auto simp: lbnd_def split: prod.splits sum.splits)

lemma lcall_simps [simp]:
  "lret x n e s = (Inr y, s') \<longleftrightarrow> y = x \<and> s' = s"
  "lraise z n e s = (Inr y, s') \<longleftrightarrow> False"
  "lstate n e s = (Inr a, s') \<longleftrightarrow> a = fst s \<and> s' = s"
  by (auto simp: lret_def lraise_def lstate_def)

section \<open>What a call may do to the memory\<close>

text \<open>Every action of the platform on an instance, the key it is remembered by and its target.\<close>

datatype action = Create CreateInstanceRequest | Change string InstanceActionRequest | Reinstall ReinstallInstanceRequest | Delete InstanceActionRequest

definition perform :: "action \<Rightarrow> ('d, ProviderOperation) lcall" where
  "perform act = (case act of Create r \<Rightarrow> CreateInstance_lxd r | Change verb r \<Rightarrow> stateAction verb r | Reinstall r \<Rightarrow> ReinstallInstance_lxd r
     | Delete r \<Rightarrow> DeleteInstance_lxd r)"

definition keyOf :: "action \<Rightarrow> string" where
  "keyOf act = (case act of Create r \<Rightarrow> ''create:'' @ ci_IdempotencyKey r | Change verb r \<Rightarrow> verb @ '':'' @ ia_IdempotencyKey r
     | Reinstall r \<Rightarrow> ''reinstall:'' @ ia_IdempotencyKey r | Delete r \<Rightarrow> ''delete:'' @ ia_IdempotencyKey r)"

definition targetOf :: "action \<Rightarrow> string" where
  "targetOf act = (case act of Create r \<Rightarrow> ci_InstanceID r | Change verb r \<Rightarrow> ia_ProviderInstanceID r
     | Reinstall r \<Rightarrow> ia_ProviderInstanceID r | Delete r \<Rightarrow> ia_ProviderInstanceID r)"

definition knows :: "lxd \<Rightarrow> string \<Rightarrow> string \<Rightarrow> ProviderOperation \<Rightarrow> bool" where
  "knows a key target r \<longleftrightarrow> lx_actions a key = Some r \<and> lx_actionTargets a key = Some target"

text \<open>\<open>touches ks\<close>: only entries under the keys \<open>ks\<close> may be new, no entry is lost or replaced.\<close>

definition touches :: "string set \<Rightarrow> ('d, 'a) lcall \<Rightarrow> bool" where
  "touches ks m \<longleftrightarrow> (\<forall>n e s r s'. m n e s = (r, s') \<longrightarrow>
     (\<forall>k. (k \<notin> ks \<or> lx_actions (fst s) k \<noteq> None) \<longrightarrow>
       lx_actions (fst s') k = lx_actions (fst s) k \<and> lx_actionTargets (fst s') k = lx_actionTargets (fst s) k))"

lemma touchesD:
  "touches ks m \<Longrightarrow> m n e s = (r, s') \<Longrightarrow> k \<notin> ks \<or> lx_actions (fst s) k \<noteq> None \<Longrightarrow>
    lx_actions (fst s') k = lx_actions (fst s) k \<and> lx_actionTargets (fst s') k = lx_actionTargets (fst s) k"
  unfolding touches_def by blast

named_theorems touch

lemma touches_mono: "touches ks m \<Longrightarrow> ks \<subseteq> ks' \<Longrightarrow> touches ks' m"
  unfolding touches_def by blast

lemma touches_basic [touch]:
  "touches ks (lret x)" "touches ks (lraise z)" "touches ks lstate" "touches ks (\<lambda>n e s. (f n e s, s))"
  by (auto simp: touches_def lret_def lraise_def lstate_def)

lemma touches_lattempt [touch]: "touches ks m \<Longrightarrow> touches ks (lattempt m)"
  unfolding touches_def lattempt_def by (fastforce split: prod.splits)

lemma touches_lbnd [touch]:
  assumes m: "touches ks m" and k: "\<And>x. touches ks (k x)"
  shows "touches ks (lbnd m k)"
  unfolding touches_def
proof (intro allI impI)
  fix n e s r s' q assume run: "lbnd m k n e s = (r, s')" and q: "q \<notin> ks \<or> lx_actions (fst s) q \<noteq> None"
  obtain x s1 where first: "m n e s = (x, s1)" by (cases "m n e s")
  note same = touchesD[OF m first q]
  show "lx_actions (fst s') q = lx_actions (fst s) q \<and> lx_actionTargets (fst s') q = lx_actionTargets (fst s) q"
  proof (cases x)
    case (Inl z) with run first same show ?thesis by (simp add: lbnd_def)
  next
    case (Inr y)
    with run first have "k y n e s1 = (r, s')" by (simp add: lbnd_def)
    from touchesD[OF k this, of q] q same show ?thesis by auto
  qed
qed

lemma touches_request [touch]: "touches ks (request_lxd verb path query body decode zero)"
  by (auto simp: touches_def request_lxd_def split: prod.splits)

lemma touches_if [touch]: "touches ks a \<Longrightarrow> touches ks b \<Longrightarrow> touches ks (if c then a else b)"
  by simp

lemma touches_prod [touch]: "(\<And>x y. touches ks (f x y)) \<Longrightarrow> touches ks (case p of (x, y) \<Rightarrow> f x y)"
  by (cases p) simp

lemma touches_sum [touch]: "(\<And>x. touches ks (f x)) \<Longrightarrow> (\<And>y. touches ks (g y)) \<Longrightarrow> touches ks (case r of Inl x \<Rightarrow> f x | Inr y \<Rightarrow> g y)"
  by (cases r) simp_all

lemma touches_poll [touch]: "touches ks (pollOperation u)"
  unfolding pollOperation_def by (intro touch)

lemma touches_wait [touch]: "touches ks (wait_lxd u)"
  unfolding touches_def
proof (intro allI impI)
  fix n e s r s' k assume run: "wait_lxd u n e s = (r, s')" and k: "k \<notin> ks \<or> lx_actions (fst s) k \<noteq> None"
  from run have "s' = s \<or> (\<exists>p. pollOperation p n e s = (r, s'))"
    by (auto simp: wait_lxd_def lraise_def split: option.splits if_splits)
  with touchesD[OF touches_poll _ k] show "lx_actions (fst s') k = lx_actions (fst s) k \<and> lx_actionTargets (fst s') k = lx_actionTargets (fst s) k"
    by metis
qed

text \<open>
  \<open>carries key target ks m\<close>: run while \<open>key\<close> is unknown, \<open>m\<close> adds entries under \<open>key\<close> and \<open>ks\<close> only, and when it succeeds its answer is
  the entry of \<open>key\<close>.
\<close>

definition carries :: "string \<Rightarrow> string \<Rightarrow> string set \<Rightarrow> ('d, ProviderOperation) lcall \<Rightarrow> bool" where
  "carries key target ks m \<longleftrightarrow> (\<forall>n e s r s'. m n e s = (r, s') \<longrightarrow> lx_actions (fst s) key = None \<longrightarrow>
     (\<forall>k. k \<noteq> key \<and> (k \<notin> ks \<or> lx_actions (fst s) k \<noteq> None) \<longrightarrow>
       lx_actions (fst s') k = lx_actions (fst s) k \<and> lx_actionTargets (fst s') k = lx_actionTargets (fst s) k) \<and>
     (\<forall>oper. r = Inr oper \<longrightarrow> knows (fst s') key target oper))"

named_theorems carry

lemma carries_raise [carry]: "carries key target ks (lraise x)"
  by (auto simp: carries_def lraise_def)

lemma carries_stored [carry]: "carries key target ks (lbnd (storeOperation key target r) (\<lambda>_. lret r))"
  by (auto simp: carries_def lbnd_def storeOperation_def lret_def knows_def split: prod.splits)

lemma carries_lbnd:
  assumes m: "touches ks m" and key: "key \<notin> ks" and k: "\<And>x. carries key target ks (k x)"
  shows "carries key target ks (lbnd m k)"
  unfolding carries_def
proof (intro allI impI)
  fix n e s r s' assume run: "lbnd m k n e s = (r, s')" and new: "lx_actions (fst s) key = None"
  obtain x s1 where first: "m n e s = (x, s1)" by (cases "m n e s")
  note same = touchesD[OF m first]
  show "(\<forall>q. q \<noteq> key \<and> (q \<notin> ks \<or> lx_actions (fst s) q \<noteq> None) \<longrightarrow>
       lx_actions (fst s') q = lx_actions (fst s) q \<and> lx_actionTargets (fst s') q = lx_actionTargets (fst s) q) \<and>
     (\<forall>oper. r = Inr oper \<longrightarrow> knows (fst s') key target oper)"
  proof (cases x)
    case (Inl z) with run first same show ?thesis by (auto simp: lbnd_def)
  next
    case (Inr y)
    with run first have rest: "k y n e s1 = (r, s')" by (simp add: lbnd_def)
    from same[of key] key new have "lx_actions (fst s1) key = None" by simp
    with k[of y, unfolded carries_def, rule_format, OF rest] same show ?thesis by auto
  qed
qed

lemma carries_if [carry]: "carries key target ks a \<Longrightarrow> carries key target ks b \<Longrightarrow> carries key target ks (if c then a else b)"
  by simp

lemma carries_prod [carry]: "(\<And>x y. carries key target ks (f x y)) \<Longrightarrow> carries key target ks (case p of (x, y) \<Rightarrow> f x y)"
  by (cases p) simp

lemma carries_sum [carry]:
  "(\<And>x. carries key target ks (f x)) \<Longrightarrow> (\<And>y. carries key target ks (g y)) \<Longrightarrow> carries key target ks (case r of Inl x \<Rightarrow> f x | Inr y \<Rightarrow> g y)"
  by (cases r) simp_all

lemma carries_finish [carry]:
  fixes env :: lxdEnvelope
  assumes "key \<notin> ks"
  shows "carries key target ks (finish key target env :: ('d, ProviderOperation) lcall)"
proof -
  define R :: "'d daemon \<Rightarrow> ProviderOperation" where "R = (\<lambda>n. succeededAs (operationID_lxd (lx_parseURL n) (en_Operation env)) [])"
  have fin: "finish key target env n = lbnd (wait_lxd (en_Operation env)) (\<lambda>_. lbnd (storeOperation key target (R n)) (\<lambda>_. lret (R n))) n" for n
    by (simp add: finish_def R_def Let_def)
  have "carries key target ks (lbnd (wait_lxd (en_Operation env)) (\<lambda>_. lbnd (storeOperation key target (R n)) (\<lambda>_. lret (R n))) :: ('d, ProviderOperation) lcall)" for n
    by (intro carries_lbnd touches_wait carries_stored assms)
  then show ?thesis unfolding carries_def fin by blast
qed

lemma oncePer_ok:
  assumes m: "carries key target ks m" and run: "oncePer key target m n e s = (Inr r, s')"
  shows "\<exists>x. knows (fst s') key target x \<and> (r = x \<or> r = replayed x)"
proof -
  from run obtain ans where ans: "(case cachedOperation (fst s) key target of Some (Inl x) \<Rightarrow> lraise x | Some (Inr r) \<Rightarrow> lret r | None \<Rightarrow> m) n e s = (Inr r, s')"
    by (auto simp: oncePer_def lbnd_ok)
  show ?thesis
  proof (cases "lx_actions (fst s) key")
    case None
    with ans have "m n e s = (Inr r, s')" by (simp add: cachedOperation_def)
    with m None show ?thesis unfolding carries_def by blast
  next
    case (Some x)
    with ans show ?thesis by (auto simp: cachedOperation_def knows_def split: if_splits)
  qed
qed

lemma touches_oncePer:
  assumes m: "carries key target ks m"
  shows "touches (insert key ks) (oncePer key target m)"
  unfolding touches_def
proof (intro allI impI)
  fix n e s r s' k assume run: "oncePer key target m n e s = (r, s')" and k: "k \<notin> insert key ks \<or> lx_actions (fst s) k \<noteq> None"
  show "lx_actions (fst s') k = lx_actions (fst s) k \<and> lx_actionTargets (fst s') k = lx_actionTargets (fst s) k"
  proof (cases "lx_actions (fst s) key")
    case None
    with run have "m n e s = (r, s')" by (simp add: oncePer_def lbnd_def lstate_def cachedOperation_def)
    with m None k show ?thesis unfolding carries_def by (metis insertCI)
  next
    case (Some x)
    with run show ?thesis
      by (auto simp: oncePer_def lbnd_def lstate_def cachedOperation_def lraise_def lret_def split: if_splits)
  qed
qed

lemma oncePer_again:
  "knows (fst s) key target x \<Longrightarrow> oncePer key target m n e s = (Inr (replayed x), s)"
  "knows (fst s) key other x \<Longrightarrow> other \<noteq> target \<Longrightarrow>
    oncePer key target m n e s = (Inl (normalized ErrorInstanceAlreadyExists False 409 ''idempotency key reused for another instance''), s)"
  by (auto simp: oncePer_def lbnd_def lstate_def cachedOperation_def lraise_def lret_def knows_def)

lemma replayed_twice [simp]: "replayed (replayed r) = replayed r"
  by (simp add: replayed_def)

section \<open>Every action is remembered\<close>

lemma touches_reads [touch]:
  "touches ks (instanceDefinition_lxd name)" "touches ks (state_lxd name)"
  unfolding instanceDefinition_lxd_def state_lxd_def by (intro touches_lbnd touches_request touches_prod touches_basic(1))+

lemma touches_GetInstance [touch]: "touches ks (GetInstance_lxd r)"
  unfolding GetInstance_lxd_def Let_def by (intro touches_lbnd touches_reads touches_basic(4))

lemma carries_existsAlready: "carries key (ci_InstanceID r) ks (existsAlready key r existing)"
  unfolding existsAlready_def Let_def by (intro carry)

definition onceOnly :: "string \<Rightarrow> string \<Rightarrow> string set \<Rightarrow> ('d, ProviderOperation) lcall \<Rightarrow> bool" where
  "onceOnly key target ks c \<longleftrightarrow> (\<exists>x. c = lraise x) \<or> (\<exists>m. c = oncePer key target m \<and> carries key target ks m)"

lemma onceOnly_if: "onceOnly key target ks b \<Longrightarrow> onceOnly key target ks (if c then lraise x else b)"
  by (auto simp: onceOnly_def)

lemma onceOnly_oncePer: "carries key target ks m \<Longrightarrow> onceOnly key target ks (oncePer key target m)"
  by (auto simp: onceOnly_def)

lemma touches_onceOnly: "onceOnly key target ks c \<Longrightarrow> touches (insert key ks) c"
  unfolding onceOnly_def using touches_basic(2) touches_oncePer by metis

lemma Create_once: "onceOnly (''create:'' @ ci_IdempotencyKey r) (ci_InstanceID r) {} (CreateInstance_lxd r)"
  unfolding CreateInstance_lxd_def Let_def
  by (intro onceOnly_if onceOnly_oncePer carries_lbnd touches_lattempt touches_reads carries_sum carries_if carries_raise touches_basic(3)
      touches_request carries_prod carries_finish carries_existsAlready) simp_all

lemma Change_once: "onceOnly (verb @ '':'' @ ia_IdempotencyKey r) (ia_ProviderInstanceID r) {} (stateAction verb r)"
  unfolding stateAction_def Let_def
  by (intro onceOnly_if onceOnly_oncePer carries_lbnd touches_basic(3) touches_request carries_prod carries_finish) simp_all

lemma Delete_once: "onceOnly (''delete:'' @ ia_IdempotencyKey r) (ia_ProviderInstanceID r) {} (DeleteInstance_lxd r)"
  unfolding DeleteInstance_lxd_def Let_def
  by (intro onceOnly_if onceOnly_oncePer carries_lbnd touches_lattempt touches_request carries_sum carries_if carries_prod carries_raise
      carries_stored carries_finish) simp_all

lemma touches_Stop: "touches {''stop:'' @ k, ''start:'' @ k} (StopInstance_lxd r)" if "ia_IdempotencyKey r = k" for k
  using touches_onceOnly[OF Change_once[of "''stop''" r]] that unfolding StopInstance_lxd_def by (auto intro: touches_mono)

lemma touches_Start: "touches {''stop:'' @ k, ''start:'' @ k} (StartInstance_lxd r)" if "ia_IdempotencyKey r = k" for k
  using touches_onceOnly[OF Change_once[of "''start''" r]] that unfolding StartInstance_lxd_def by (auto intro: touches_mono)

lemma Reinstall_once:
  "onceOnly (''reinstall:'' @ ia_IdempotencyKey r) (ia_ProviderInstanceID r) {''stop:'' @ ia_IdempotencyKey r, ''start:'' @ ia_IdempotencyKey r} (ReinstallInstance_lxd r)"
  unfolding ReinstallInstance_lxd_def Let_def
  by (intro onceOnly_if onceOnly_oncePer carries_lbnd touches_GetInstance touches_lbnd touches_if touches_Stop touches_Start touches_basic(1) touches_basic(3) touches_request
      touches_wait carries_prod carries_stored) (simp_all add: InstanceActionRequest.truncate_def)

definition sideKeys :: "action \<Rightarrow> string set" where
  "sideKeys act = (case act of Reinstall r \<Rightarrow> {''stop:'' @ ia_IdempotencyKey r, ''start:'' @ ia_IdempotencyKey r} | _ \<Rightarrow> {})"

lemma perform_once: "onceOnly (keyOf act) (targetOf act) (sideKeys act) (perform act)"
  by (cases act) (simp_all add: perform_def keyOf_def targetOf_def sideKeys_def Create_once[simplified] Change_once[simplified] Delete_once[simplified] Reinstall_once[simplified])

text \<open>A sequence of actions, with whatever else happens at the daemon in between.\<close>

fun runActions :: "'d daemon \<Rightarrow> (env \<times> ('d \<Rightarrow> 'd) \<times> action) list \<Rightarrow> lxd \<times> 'd \<Rightarrow> lxd \<times> 'd" where
  "runActions n [] s = s"
| "runActions n ((e, meanwhile, act) # rest) s = runActions n rest (snd (perform act n e (fst s, meanwhile (snd s))))"

lemma runActions_knows: "knows (fst s) key target r \<Longrightarrow> knows (fst (runActions n acts s)) key target r"
proof (induction n acts s rule: runActions.induct)
  case (2 n e meanwhile act rest s)
  obtain x s' where run: "perform act n e (fst s, meanwhile (snd s)) = (x, s')" by (cases "perform act n e (fst s, meanwhile (snd s))")
  from touchesD[OF touches_onceOnly[OF perform_once] run, of key] 2 run show ?case by (auto simp: knows_def)
qed simp

lemma perform_cases:
  fixes n :: "'d daemon"
  assumes "perform act n e s = (Inr r, s')"
  obtains m :: "('d, ProviderOperation) lcall" where "perform act = oncePer (keyOf act) (targetOf act) m"
    and "carries (keyOf act) (targetOf act) (sideKeys act) m"
proof -
  have "onceOnly (keyOf act) (targetOf act) (sideKeys act) (perform act :: ('d, ProviderOperation) lcall)" by (rule perform_once)
  with assms that show thesis unfolding onceOnly_def by (metis lcall_simps(2))
qed

lemma perform_known:
  fixes n :: "'d daemon"
  assumes "perform act n e s = (Inr r, s')"
  shows "\<exists>x. knows (fst s') (keyOf act) (targetOf act) x \<and> replayed x = replayed r"
  using assms
proof (rule perform_cases)
  fix m :: "('d, ProviderOperation) lcall" assume m: "perform act = oncePer (keyOf act) (targetOf act) m" and c: "carries (keyOf act) (targetOf act) (sideKeys act) m"
  from oncePer_ok[OF c assms[unfolded m]] show ?thesis by auto
qed

text \<open>The requests that name everything the adapter asks for.\<close>

definition complete_request :: "action \<Rightarrow> bool" where
  "complete_request act = (case act of
     Create r \<Rightarrow> ci_OperationID r \<noteq> [] \<and> ci_IdempotencyKey r \<noteq> [] \<and> ci_InstanceID r \<noteq> [] \<and> ci_NodeID r \<noteq> [] \<and> ci_Image r \<noteq> []
   | Reinstall r \<Rightarrow> ia_OperationID r \<noteq> [] \<and> ia_IdempotencyKey r \<noteq> [] \<and> ia_ProviderInstanceID r \<noteq> [] \<and> ri_Image r \<noteq> []
   | Change verb r \<Rightarrow> ia_OperationID r \<noteq> [] \<and> ia_IdempotencyKey r \<noteq> [] \<and> ia_ProviderInstanceID r \<noteq> []
   | Delete r \<Rightarrow> ia_OperationID r \<noteq> [] \<and> ia_IdempotencyKey r \<noteq> [] \<and> ia_ProviderInstanceID r \<noteq> [])"

lemma perform_complete: "complete_request act \<Longrightarrow> \<exists>m :: ('d, ProviderOperation) lcall. perform act = oncePer (keyOf act) (targetOf act) m"
  by (cases act) (auto simp: complete_request_def perform_def keyOf_def targetOf_def CreateInstance_lxd_def stateAction_def
      ReinstallInstance_lxd_def DeleteInstance_lxd_def Let_def)

text \<open>
  C29: During the life of an adapter (its memory of keys is empty again after a restart), an action that has succeeded (creating, starting,
  stopping, restarting, reinstalling or deleting an instance) is not carried out again: whatever other actions follow and whatever happens at the daemon, the same request is answered with the same operation,
  marked as a replay, without sending anything and without changing anything; and a request that reuses the key for another instance is refused.
\<close>

theorem lxd_action_once:
  fixes n :: "'d daemon"
  assumes finished: "perform act n e s = (Inr r, s1)"
    and later: "s2 = runActions n acts s1"
  shows "perform act n e' s2 = (Inr (replayed r), s2) \<and>
    (\<forall>act'. complete_request act' \<and> keyOf act' = keyOf act \<and> targetOf act' \<noteq> targetOf act \<longrightarrow>
      perform act' n e' s2 = (Inl (normalized ErrorInstanceAlreadyExists False 409 ''idempotency key reused for another instance''), s2))"
proof -
  from perform_known[OF finished] obtain x where "knows (fst s1) (keyOf act) (targetOf act) x" and x: "replayed x = replayed r" by blast
  then have known: "knows (fst s2) (keyOf act) (targetOf act) x" unfolding later by (simp add: runActions_knows)
  obtain m :: "('d, ProviderOperation) lcall" where m: "perform act = oncePer (keyOf act) (targetOf act) m"
    using perform_cases[OF finished] by metis
  from oncePer_again(1)[OF known] x have "perform act n e' s2 = (Inr (replayed r), s2)" unfolding m by simp
  moreover have "perform act' n e' s2 = (Inl (normalized ErrorInstanceAlreadyExists False 409 ''idempotency key reused for another instance''), s2)"
    if "complete_request act'" "keyOf act' = keyOf act" "targetOf act' \<noteq> targetOf act" for act'
    using perform_complete[OF that(1)] oncePer_again(2)[OF known] that(2,3) by metis
  ultimately show ?thesis by blast
qed

text \<open>A daemon that accepts everything and counts the requests.\<close>

definition daemon0 :: "nat daemon" where
  "daemon0 = \<lparr>lx_exchange = (\<lambda>_ d. (Answered 200 90 (Some (JObj [(''type'', JStr ''async''), (''operation'', JStr ''/1.0/operations/op-1''),
       (''metadata'', JObj [(''status_code'', JNum 200)])])), d + 1)),
     lx_parseURL = (\<lambda>s. Some \<lparr>url_Scheme = [], url_Host = [], url_Path = s, url_Query = []\<rparr>), lx_range = (\<lambda>xs. xs)\<rparr>"

definition lxd0 :: lxd where
  "lxd0 = \<lparr>lx_baseURL = \<lparr>url_Scheme = ''https'', url_Host = ''lxd'', url_Path = [], url_Query = []\<rparr>, lx_project = ''default'', lx_imageServer = [],
     lx_operationTimeout = 30 * second, lx_client = \<lparr>cl_Timeout = 35 * second, cl_Credentials = None\<rparr>, lx_actions = Map.empty, lx_actionTargets = Map.empty\<rparr>"

definition restart0 :: action where
  "restart0 = Change ''restart'' \<lparr>ia_OperationID = ''op'', ia_IdempotencyKey = ''k'', ia_NodeID = ''n'', ia_ProviderInstanceID = ''vm''\<rparr>"

lemma sample_lxd: "\<exists>r s1. perform restart0 daemon0 env0 (lxd0, 0) = (Inr r, s1)"
proof -
  have "(case perform restart0 daemon0 env0 (lxd0, 0) of (Inr r, s) \<Rightarrow> True | (Inl x, s) \<Rightarrow> False)" by code_simp
  then show ?thesis by (auto split: prod.splits sum.splits)
qed

theorem lxd_action_once_witness:
  "\<exists>r s1. perform restart0 daemon0 env0 (lxd0, 0) = (Inr r, s1) \<and>
     perform restart0 daemon0 env0 (runActions daemon0 [(env0, Suc, Delete \<lparr>ia_OperationID = ''op'', ia_IdempotencyKey = ''k'', ia_NodeID = ''n'',
       ia_ProviderInstanceID = ''vm''\<rparr>)] s1) = (Inr (replayed r), runActions daemon0 [(env0, Suc, Delete \<lparr>ia_OperationID = ''op'',
       ia_IdempotencyKey = ''k'', ia_NodeID = ''n'', ia_ProviderInstanceID = ''vm''\<rparr>)] s1)"
proof -
  from sample_lxd obtain r s1 where run: "perform restart0 daemon0 env0 (lxd0, 0) = (Inr r, s1)" by blast
  from lxd_action_once[OF run refl] run show ?thesis by blast
qed

section \<open>What is written is read back\<close>

lemma decimal_append: "decimal acc (xs @ ys) = Option.bind (decimal acc xs) (\<lambda>n. decimal n ys)"
  by (induction acc xs rule: decimal.induct) (auto split: option.splits)

lemma of_char_digit: "k < 10 \<Longrightarrow> (of_char (char_of (48 + k :: nat)) :: int) = 48 + int k"
proof -
  assume k: "k < 10"
  have "(of_char (char_of (48 + k)) :: int) = int (of_char (char_of (48 + k)))" by (simp only: of_nat_of_char)
  also have "\<dots> = 48 + int k" using k by (simp only: of_char_of) simp
  finally show ?thesis .
qed

lemma digit_char: "k < 10 \<Longrightarrow> digit (char_of (48 + k :: nat)) = Some (int k)"
proof -
  assume k: "k < 10"
  then have "(of_char (char_of (48 + k)) :: nat) = 48 + k" by (simp only: of_char_of) simp
  with k of_char_digit[OF k] show ?thesis by (simp add: digit_def less_eq_char_def)
qed

lemma decimal_digits: "decimal 0 (digits n) = Some (int n)"
proof (induction n rule: digits.induct)
  case (1 n)
  show ?case
  proof (cases "n < 10")
    case True then show ?thesis by (simp add: digits.simps[of n] digit_char)
  next
    case False
    then have "digits n = digits (n div 10) @ [char_of (48 + n mod 10)]" by (subst digits.simps) simp
    with 1[OF False] show ?thesis by (simp add: decimal_append digit_char) presburger
  qed
qed

lemma digits_not_empty [simp]: "digits n \<noteq> []"
  by (subst digits.simps) simp

lemma decimal_numeric: "decimal acc s = Some n \<Longrightarrow> c \<in> set s \<Longrightarrow> digit c \<noteq> None"
  by (induction acc s rule: decimal.induct) (auto split: option.splits)

lemma digits_numeric: "c \<in> set (digits n) \<Longrightarrow> digit c \<noteq> None"
  using decimal_numeric[OF decimal_digits] .

lemma hd_digits: "\<exists>c cs. digits n = c # cs \<and> c \<noteq> CHR ''-'' \<and> c \<noteq> CHR ''+''"
proof -
  obtain c cs where s: "digits n = c # cs" by (cases "digits n") simp_all
  moreover from digits_numeric[of c n] s have "digit c \<noteq> None" by simp
  then have "c \<noteq> CHR ''-'' \<and> c \<noteq> CHR ''+''" by (auto simp: digit_def less_eq_char_def)
  ultimately show ?thesis by blast
qed

lemma point_not_digit: "CHR ''.'' \<notin> set (digits n)"
  using digits_numeric[of "CHR ''.''" n] by (auto simp: digit_def less_eq_char_def)

lemma split_whole: "c \<notin> set s \<Longrightarrow> split c s = [s]"
  by (induction s) auto

lemma split_first: "c \<notin> set s \<Longrightarrow> split c (s @ c # t) = s # split c t"
  by (induction s) auto

lemma parseUnsigned_whole: "parseUnsigned (digits n) = Some (int n * 100)"
  by (simp add: parseUnsigned_def split_whole point_not_digit decimal_digits)

lemma parseUnsigned_point:
  assumes "decimal 0 f \<noteq> None" and "CHR ''.'' \<notin> set f" and "decimal 0 (take 2 (f @ ''00'')) = Some m"
  shows "parseUnsigned (digits n @ CHR ''.'' # f) = Some (int n * 100 + m)"
  using assms by (auto simp: parseUnsigned_def split_first split_whole point_not_digit decimal_digits)

lemma formatUnsigned_cases:
  "a mod 100 = 0 \<Longrightarrow> formatUnsigned a = digits (a div 100)"
  "a mod 100 \<noteq> 0 \<Longrightarrow> a mod 100 mod 10 = 0 \<Longrightarrow> formatUnsigned a = digits (a div 100) @ CHR ''.'' # [char_of (48 + a mod 100 div 10)]"
  "a mod 100 mod 10 \<noteq> 0 \<Longrightarrow> formatUnsigned a = digits (a div 100) @ CHR ''.'' # [char_of (48 + a mod 100 div 10), char_of (48 + a mod 100 mod 10)]"
proof -
  have "a mod 100 div 10 < 10" by auto
  then have "digits (a mod 100 div 10) = [char_of (48 + a mod 100 div 10)]" by (subst digits.simps) simp
  then show "a mod 100 \<noteq> 0 \<Longrightarrow> a mod 100 mod 10 = 0 \<Longrightarrow> formatUnsigned a = digits (a div 100) @ CHR ''.'' # [char_of (48 + a mod 100 div 10)]"
    by (simp add: formatUnsigned_def Let_def)
qed (auto simp: formatUnsigned_def Let_def)

lemma digit_not_point: "k < 10 \<Longrightarrow> char_of (48 + k :: nat) \<noteq> CHR ''.''"
  using digit_char[of k] by (auto simp: digit_def less_eq_char_def)

lemma parseUnsigned_format: "parseUnsigned (formatUnsigned a) = Some (int a)"
proof -
  let ?t = "a mod 100 div 10" and ?u = "a mod 100 mod 10"
  have a: "int a = int (a div 100) * 100 + (int ?t * 10 + int ?u)"
    using div_mult_mod_eq[of a 100] div_mult_mod_eq[of "a mod 100" 10] by linarith
  have small: "?t < 10" "?u < 10" by auto
  have zero: "digit (CHR ''0'') = Some 0" by (simp add: digit_def)
  note digit = digit_char[OF small(1)] digit_char[OF small(2)] zero
  consider "a mod 100 = 0" | "a mod 100 \<noteq> 0" "?u = 0" | "?u \<noteq> 0" by blast
  then show ?thesis
  proof cases
    case 1
    then have "int (a div 100) * 100 = int a" by presburger
    then show ?thesis unfolding formatUnsigned_cases(1)[OF 1] parseUnsigned_whole by simp
  next
    case 2
    have "parseUnsigned (digits (a div 100) @ CHR ''.'' # [char_of (48 + ?t)]) = Some (int (a div 100) * 100 + int ?t * 10)"
      by (rule parseUnsigned_point) (use digit digit_not_point[OF small(1)] in auto)
    also have "int (a div 100) * 100 + int ?t * 10 = int a" using a 2(2) by linarith
    finally show ?thesis unfolding formatUnsigned_cases(2)[OF 2] .
  next
    case 3
    have "parseUnsigned (digits (a div 100) @ CHR ''.'' # [char_of (48 + ?t), char_of (48 + ?u)]) = Some (int (a div 100) * 100 + (int ?t * 10 + int ?u))"
      by (rule parseUnsigned_point) (use digit digit_not_point[OF small(1)] digit_not_point[OF small(2)] in auto)
    then show ?thesis unfolding formatUnsigned_cases(3)[OF 3] a .
  qed
qed

lemma hd_formatUnsigned: "\<exists>c cs. formatUnsigned a = c # cs \<and> c \<noteq> CHR ''-'' \<and> c \<noteq> CHR ''+''"
proof -
  obtain c cs where "digits (a div 100) = c # cs" "c \<noteq> CHR ''-''" "c \<noteq> CHR ''+''" using hd_digits by blast
  then show ?thesis by (simp add: formatUnsigned_def Let_def)
qed

lemma parseCores_format: "parseCores (formatCores c) = c"
proof (cases "c < 0")
  case True
  with parseUnsigned_format[of "nat (- c)"] show ?thesis by (simp add: formatCores_def parseCores_def)
next
  case False
  obtain x xs where "formatUnsigned (nat c) = x # xs" "x \<noteq> CHR ''-''" "x \<noteq> CHR ''+''" using hd_formatUnsigned by blast
  with False parseUnsigned_format[of "nat c"] show ?thesis by (simp add: formatCores_def parseCores_def)
qed

lemma TrimSuffix_append: "TrimSuffix (s @ p) p = s"
  by (simp add: TrimSuffix_def HasSuffix_def HasPrefix_def)

lemma ParseInt64_itoa: "int64 n \<Longrightarrow> ParseInt64 (itoa n) = n"
proof (cases "n < 0")
  case True
  moreover assume "int64 n"
  ultimately show ?thesis by (simp add: itoa_def ParseInt64_def decimal_digits int64_def maxInt64_def)
next
  case False
  obtain x xs where "digits (nat n) = x # xs" "x \<noteq> CHR ''-''" "x \<noteq> CHR ''+''" using hd_digits by metis
  moreover assume "int64 n"
  ultimately show ?thesis using False decimal_digits[of "nat n"] by (simp add: itoa_def ParseInt64_def int64_def maxInt64_def)
qed

text \<open>
  C38: What the adapter writes into the definition of an instance it reads back from it: the cores and the memory of the request (whenever the memory is a
  64-bit number), and the identity by which a repeated request for the same instance is recognised.
\<close>

theorem lxd_definition_roundtrip:
  assumes "int64 (ci_MemoryMB r)"
  shows "\<exists>def. decodeDefinition (createBody a r) = Some def \<and>
    parseCores (at_key (id_Config def) ''limits.cpu'') = ci_CPUCores r \<and>
    parseSize (at_key (id_Config def) ''limits.memory'') ''MiB'' = ci_MemoryMB r \<and>
    (\<exists>oper. \<forall>n e s. fst (existsAlready key r def n e s) = Inr oper)"
proof -
  define config where "config = [(''limits.cpu'', formatCores (ci_CPUCores r)), (''limits.memory'', itoa (ci_MemoryMB r) @ ''MiB''),
    (''user.vps_billing.instance_id'', ci_InstanceID r), (''user.vps_billing.operation_id'', ci_OperationID r),
    (''user.vps_billing.idempotency_key'', ci_IdempotencyKey r)]"
  let ?def = "\<lparr>id_Name = instanceName (ci_InstanceID r), id_Status = [], id_Config = config, id_CreatedAt = zeroTime\<rparr>"
  have "decodeDefinition (createBody a r) = Some ?def"
    by (simp add: decodeDefinition_def createBody_def isStruct_def strField_def timeField_def mapField_def field_def decodeAll_def
        lastWins_def textOf_def config_def)
  moreover have "fst (existsAlready key r ?def n e s) = Inr (succeededAs (''existing:'' @ instanceName (ci_InstanceID r)) [(''idempotent_replay'', JBool True)])" for n e s
    by (cases s) (simp add: existsAlready_def at_key_def config_def Let_def lbnd_def lret_def storeOperation_def)
  moreover have "parseCores (at_key config ''limits.cpu'') = ci_CPUCores r" "parseSize (at_key config ''limits.memory'') ''MiB'' = ci_MemoryMB r"
    using assms by (simp_all add: at_key_def config_def parseCores_format parseSize_def TrimSuffix_append ParseInt64_itoa del: append.simps)
  ultimately show ?thesis by auto
qed

theorem lxd_definition_roundtrip_witness:
  "\<exists>def. decodeDefinition (createBody lxd0 \<lparr>ci_OperationID = ''op'', ci_IdempotencyKey = ''k'', ci_NodeID = ''n'', ci_InstanceID = ''i'', ci_Name = ''vm'',
      ci_CPUCores = 150, ci_MemoryMB = 2048, ci_DiskGB = 20, ci_TrafficGB = None, ci_BandwidthMbps = None, ci_IPv4Count = 1, ci_IPv6Count = 0,
      ci_NATPortCount = 0, ci_Image = ''noble'', ci_Virtualization = ''kvm'', ci_RootPassword = None\<rparr>) = Some def \<and>
    parseCores (at_key (id_Config def) ''limits.cpu'') = 150 \<and> parseSize (at_key (id_Config def) ''limits.memory'') ''MiB'' = 2048"
  using lxd_definition_roundtrip[of "\<lparr>ci_OperationID = ''op'', ci_IdempotencyKey = ''k'', ci_NodeID = ''n'', ci_InstanceID = ''i'', ci_Name = ''vm'',
      ci_CPUCores = 150, ci_MemoryMB = 2048, ci_DiskGB = 20, ci_TrafficGB = None, ci_BandwidthMbps = None, ci_IPv4Count = 1, ci_IPv6Count = 0,
      ci_NATPortCount = 0, ci_Image = ''noble'', ci_Virtualization = ''kvm'', ci_RootPassword = None\<rparr>" lxd0 "''create:k''"]
  by (auto simp: int64_def)

end
