(* ===== verification/Security.thy ===== *)
theory Security
  imports Store
begin

text \<open>
  \<open>internal/security\<close>: password hashes (\<open>password\<close>), session tokens and CSRF tokens (\<open>session\<close>),
  time-based one-time passwords (\<open>totp\<close>) and the rate limiter (\<open>ratelimit\<close>). The base64 codec is
  modelled; argon2, HMAC, AES-GCM and base32 are the fields of \<open>crypto\<close>.
\<close>

section \<open>Cryptography\<close>

text \<open>
  Byte strings are lists of numbers below 256 (\<open>bytes\<close>). \<open>randomBytes\<close> is what \<open>crypto/rand\<close> yields for
  a draw, or nothing when it fails; \<open>idKey\<close> is \<open>argon2.IDKey(value, salt, 2, 19456, 1, 32)\<close>.
\<close>

type_synonym bytes = "nat list"

definition isBytes :: "bytes \<Rightarrow> bool" where "isBytes bs \<longleftrightarrow> list_all (\<lambda>b. b < 256) bs"

definition bytesOf :: "string \<Rightarrow> bytes" where "bytesOf s = map of_char s"

record crypto =
  randomBytes :: "uuid \<Rightarrow> nat \<Rightarrow> bytes option"
  idKey :: "bytes \<Rightarrow> bytes \<Rightarrow> bytes"
  hmacSHA256 :: "bytes \<Rightarrow> bytes \<Rightarrow> bytes"
  hmacSHA1 :: "bytes \<Rightarrow> bytes \<Rightarrow> bytes"
  base32Encode :: "bytes \<Rightarrow> string"
  base32Decode :: "string \<Rightarrow> bytes option"
  seal :: "bytes \<Rightarrow> string \<Rightarrow> bytes"
  unseal :: "bytes \<Rightarrow> bytes \<Rightarrow> string option"

section \<open>Base64\<close>

text \<open>\<open>base64.RawStdEncoding\<close> and \<open>RawURLEncoding\<close> differ in the last two letters of their alphabet.\<close>

definition alphabet :: "string \<Rightarrow> string" where
  "alphabet rest = ''ABCDEFGHIJKLMNOPQRSTUVWXYZabcdefghijklmnopqrstuvwxyz0123456789'' @ rest"

definition stdLetters :: string where "stdLetters = alphabet ''+/''"
definition urlLetters :: string where "urlLetters = alphabet ''-_''"

fun b64encode :: "string \<Rightarrow> bytes \<Rightarrow> string" where
  "b64encode al [] = []"
| "b64encode al [a] = [al ! (a div 4), al ! (a mod 4 * 16)]"
| "b64encode al [a, b] = [al ! (a div 4), al ! (a mod 4 * 16 + b div 16), al ! (b mod 16 * 4)]"
| "b64encode al (a # b # c # bs) =
     [al ! (a div 4), al ! (a mod 4 * 16 + b div 16), al ! (b mod 16 * 4 + c div 64), al ! (c mod 64)] @ b64encode al bs"

definition sextet :: "string \<Rightarrow> char \<Rightarrow> nat option" where
  "sextet al c = (case filter (\<lambda>n. al ! n = c) [0..<length al] of [] \<Rightarrow> None | n # _ \<Rightarrow> Some n)"

text \<open>The decoder on sextets; a single left-over character is corrupt input.\<close>

fun joinSextets :: "nat list \<Rightarrow> bytes option" where
  "joinSextets [] = Some []"
| "joinSextets [x] = None"
| "joinSextets [x, y] = Some [x * 4 + y div 16]"
| "joinSextets [x, y, z] = Some [x * 4 + y div 16, y mod 16 * 16 + z div 4]"
| "joinSextets (x # y # z # u # xs) = map_option (\<lambda>r. (x * 4 + y div 16) # (y mod 16 * 16 + z div 4) # (z mod 4 * 64 + u) # r) (joinSextets xs)"

text \<open>Line breaks are skipped.\<close>

definition b64decode :: "string \<Rightarrow> string \<Rightarrow> bytes option" where
  "b64decode al s = (let cs = filter (\<lambda>c. c \<noteq> CHR 0x0A \<and> c \<noteq> CHR 0x0D) s in
     if list_all (\<lambda>c. sextet al c \<noteq> None) cs then joinSextets (map (\<lambda>c. the (sextet al c)) cs) else None)"

section \<open>Passwords\<close>

definition MinLength :: nat where "MinLength = 12"
definition MaxLength :: nat where "MaxLength = 128"

text \<open>\<open>password.Hash\<close>; the salt has sixteen bytes.\<close>

definition Hash :: "crypto \<Rightarrow> string \<Rightarrow> string io" where
  "Hash c v = (if length v < MinLength \<or> MaxLength < length v then raise ErrInvalidPassword
     else bnd newID (\<lambda>n. case randomBytes c n 16 of
       None \<Rightarrow> raise (ErrOther ''generate password salt'')
     | Some salt \<Rightarrow> ret (''$argon2id$v=19$m=19456,t=2,p=1$'' @ b64encode stdLetters salt @ ''$'' @
         b64encode stdLetters (idKey c (bytesOf v) salt))))"

fun splitOn :: "char \<Rightarrow> string \<Rightarrow> string list" where
  "splitOn sep [] = [[]]"
| "splitOn sep (x # xs) = (if x = sep then [] # splitOn sep xs
     else (case splitOn sep xs of [] \<Rightarrow> [[x]] | p # ps \<Rightarrow> (x # p) # ps))"

text \<open>\<open>fmt.Sscanf\<close> of a decimal number of at most \<open>maximum\<close>: spaces are skipped, at least one digit is read.\<close>

definition isDigit :: "char \<Rightarrow> bool" where "isDigit c \<longleftrightarrow> CHR ''0'' \<le> c \<and> c \<le> CHR ''9''"

definition number_of :: "string \<Rightarrow> int" where
  "number_of ds = foldl (\<lambda>n c. n * 10 + (of_char c - 48)) 0 ds"

definition scanNumber :: "int \<Rightarrow> string \<Rightarrow> (int \<times> string) option" where
  "scanNumber maximum s = (let t = dropWhile isSpace s; ds = takeWhile isDigit t in
     if ds = [] \<or> maximum < number_of ds then None else Some (number_of ds, dropWhile isDigit t))"

definition scanLiteral :: "string \<Rightarrow> string \<Rightarrow> string option" where
  "scanLiteral lit s = (if take (length lit) s = lit then Some (drop (length lit) s) else None)"

definition scanParams :: "string \<Rightarrow> (int \<times> int \<times> int) option" where
  "scanParams s = Option.bind (scanLiteral ''m='' s) (\<lambda>s. Option.bind (scanNumber 4294967295 s) (\<lambda>(m, s).
     Option.bind (scanLiteral '',t='' s) (\<lambda>s. Option.bind (scanNumber 4294967295 s) (\<lambda>(t, s).
     Option.bind (scanLiteral '',p='' s) (\<lambda>s. Option.bind (scanNumber 255 s) (\<lambda>(p, s). Some (m, t, p)))))))"

definition Verify :: "crypto \<Rightarrow> string \<Rightarrow> string \<Rightarrow> bool" where
  "Verify c encoded v = (case splitOn CHR ''$'' encoded of
     [_, p1, p2, p3, p4, p5] \<Rightarrow> p1 = ''argon2id'' \<and> p2 = ''v=19'' \<and> scanParams p3 = Some (19456, 2, 1) \<and>
       (case b64decode stdLetters p4 of None \<Rightarrow> False | Some salt \<Rightarrow> length salt = 16 \<and>
       (case b64decode stdLetters p5 of None \<Rightarrow> False | Some want \<Rightarrow> length want = 32 \<and>
          idKey c (bytesOf v) salt = want))
   | _ \<Rightarrow> False)"

section \<open>Sessions\<close>

definition NewToken :: "crypto \<Rightarrow> string io" where
  "NewToken c = bnd newID (\<lambda>n. case randomBytes c n 32 of
     None \<Rightarrow> raise (ErrOther ''rand'') | Some r \<Rightarrow> ret (b64encode urlLetters r))"

text \<open>A \<open>bytea\<close> value is kept as the string of its bytes.\<close>

definition Digest :: "crypto \<Rightarrow> string \<Rightarrow> string \<Rightarrow> string" where
  "Digest c secret token = map char_of (hmacSHA256 c (bytesOf secret) (bytesOf token))"

definition CSRFToken :: "crypto \<Rightarrow> string \<Rightarrow> string \<Rightarrow> string" where
  "CSRFToken c secret token = b64encode urlLetters (hmacSHA256 c (bytesOf secret) (bytesOf (''csrf:'' @ token)))"

definition ValidCSRF :: "crypto \<Rightarrow> string \<Rightarrow> string \<Rightarrow> string \<Rightarrow> bool" where
  "ValidCSRF c secret token candidate \<longleftrightarrow> CSRFToken c secret token = candidate"

section \<open>One-time passwords\<close>

definition period :: duration where "period = 30 * second"

text \<open>\<open>binary.BigEndian.PutUint64\<close>, \<open>%06d\<close>.\<close>

definition bigEndian64 :: "int \<Rightarrow> bytes" where
  "bigEndian64 n = map (\<lambda>k. nat (n div 256 ^ k mod 256)) [7, 6, 5, 4, 3, 2, 1, 0]"

definition sixDigits :: "nat \<Rightarrow> string" where
  "sixDigits n = (let s = digits n in replicate (6 - length s) CHR ''0'' @ s)"

text \<open>\<open>now.Unix() / 30\<close>: Go's division truncates.\<close>

definition timeStep :: "time \<Rightarrow> int" where
  "timeStep now = (let u = now div second in if 0 \<le> u then u div 30 else - (- u div 30))"

definition truncatedValue :: "bytes \<Rightarrow> nat" where
  "truncatedValue digest = (let i = last digest mod 16 in
     digest ! i mod 128 * 16777216 + digest ! (i + 1) * 65536 + digest ! (i + 2) * 256 + digest ! (i + 3))"

definition generate :: "crypto \<Rightarrow> string \<Rightarrow> time \<Rightarrow> string" where
  "generate c secret now = (case base32Decode c (ToUpper secret) of
     None \<Rightarrow> []
   | Some key \<Rightarrow> sixDigits (truncatedValue (hmacSHA1 c key (bigEndian64 (timeStep now))) mod 1000000))"

definition Validate :: "crypto \<Rightarrow> string \<Rightarrow> string \<Rightarrow> time \<Rightarrow> bool" where
  "Validate c secret code now \<longleftrightarrow> length code = 6 \<and>
     list_ex (\<lambda>offset. generate c secret (now + offset * period) = code) [-1, 0, 1]"

definition GenerateSecret :: "crypto \<Rightarrow> string io" where
  "GenerateSecret c = bnd newID (\<lambda>n. case randomBytes c n 20 of
     None \<Rightarrow> raise (ErrOther ''rand'') | Some r \<Rightarrow> ret (base32Encode c r))"

definition Encrypt :: "crypto \<Rightarrow> string \<Rightarrow> (bytes \<times> bytes) io" where
  "Encrypt c secret = bnd newID (\<lambda>n. case randomBytes c n 12 of
     None \<Rightarrow> raise (ErrOther ''rand'') | Some nonce \<Rightarrow> ret (seal c nonce secret, nonce))"

definition Decrypt :: "crypto \<Rightarrow> bytes \<Rightarrow> bytes \<Rightarrow> err + string" where
  "Decrypt c ciphertext nonce = (case unseal c nonce ciphertext of
     None \<Rightarrow> Inl (ErrOther ''decrypt TOTP secret'') | Some s \<Rightarrow> Inr s)"

section \<open>Rate limits\<close>

text \<open>
  The Redis script: a counter with the instant at which it expires. \<open>Allow\<close> counts every call.
\<close>

type_synonym limiter = "string \<Rightarrow> (nat \<times> time) option"

definition fixedWindow :: "string \<Rightarrow> duration \<Rightarrow> time \<Rightarrow> limiter \<Rightarrow> nat \<times> limiter" where
  "fixedWindow key ttl now l = (case l key of
     Some (count, expires) \<Rightarrow> if now < expires then (count + 1, l(key \<mapsto> (count + 1, expires))) else (1, l(key \<mapsto> (1, now + ttl)))
   | None \<Rightarrow> (1, l(key \<mapsto> (1, now + ttl))))"

text \<open>\<open>window.Milliseconds()\<close> drops what is below a millisecond.\<close>

definition Allow :: "string \<Rightarrow> string \<Rightarrow> nat \<Rightarrow> duration \<Rightarrow> time \<Rightarrow> limiter \<Rightarrow> bool \<times> limiter" where
  "Allow prefix key limit window now l = (case fixedWindow (prefix @ key) (window div 1000000 * 1000000) now l of (count, l') \<Rightarrow> (count \<le> limit, l'))"

end
