(* ===== verification/Identity.thy ===== *)
theory Identity
  imports Identity_Queries Security
begin

text \<open>
  \<open>internal/identity\<close>: registration, login with password and second factor, sessions and CSRF tokens. The
  service's secrets are a record, its cryptography a parameter.
\<close>

section \<open>Types\<close>

record User =
  User_ID :: uuid
  User_Email :: string
  User_Status :: string
  User_Locale :: string
  User_Timezone :: string

record Admin =
  Admin_ID :: uuid
  Admin_Email :: string
  Admin_Status :: string
  Admin_DisplayName :: string
  Admin_TwoFactorEnabled :: bool
  Admin_Permissions :: "string list"

record Credentials =
  Cred_ID :: uuid
  Cred_Email :: string
  Cred_PasswordHash :: string
  Cred_Status :: string
  Cred_Locale :: string
  Cred_Timezone :: string
  Cred_DisplayName :: string
  Cred_TwoFactor :: bool

record 'p AuthResult =
  Principal :: 'p
  ar_CSRFToken :: string
  ar_Token :: string

record Service =
  userSessionSecret :: string
  adminSessionSecret :: string
  userCSRFSecret :: string
  adminCSRFSecret :: string
  sessionTTL :: duration
  dummyPasswordHash :: string
  svc_crypto :: crypto

record TOTPSetup =
  setup_Secret :: string
  setup_URI :: string

section \<open>Repository\<close>

definition userOf :: "userRow \<Rightarrow> User" where
  "userOf row = \<lparr>User_ID = u_id row, User_Email = u_email row, User_Status = u_status row, User_Locale = u_locale row, User_Timezone = u_timezone row\<rparr>"

definition CreateUser :: "uuid \<Rightarrow> string \<Rightarrow> string \<Rightarrow> string \<Rightarrow> string \<Rightarrow> User io" where
  "CreateUser rowID email hash locale timezone = bnd (attempt (pool (CreateUser_q rowID email hash locale timezone))) (\<lambda>r. case r of
     Inl x \<Rightarrow> raise (if isUniqueViolation x then ErrEmailInUse else x)
   | Inr row \<Rightarrow> ret (userOf row))"

definition UserCredentialsByEmail :: "string \<Rightarrow> Credentials io" where
  "UserCredentialsByEmail email = bnd (pool (GetUserByEmail email)) (\<lambda>row. ret
     \<lparr>Cred_ID = u_id row, Cred_Email = u_email row, Cred_PasswordHash = u_password_hash row, Cred_Status = u_status row,
      Cred_Locale = u_locale row, Cred_Timezone = u_timezone row, Cred_DisplayName = [], Cred_TwoFactor = False\<rparr>)"

definition CreateUserSession :: "uuid \<Rightarrow> uuid \<Rightarrow> string \<Rightarrow> time \<Rightarrow> unit io" where
  "CreateUserSession rowID userID digest expires = bnd (pool (CreateUserSession_q rowID userID digest expires)) (\<lambda>_. ret ())"

definition UserBySession :: "string \<Rightarrow> (User \<times> uuid) io" where
  "UserBySession digest = bnd (orNoRows ErrUnauthenticated (pool (GetActiveUserSession digest))) (\<lambda>(s, u). ret (userOf u, se_id s))"

definition TouchUserSession :: "uuid \<Rightarrow> unit io" where "TouchUserSession sessionID = pool (TouchUserSession_q sessionID)"

definition RevokeUserSession :: "string \<Rightarrow> unit io" where "RevokeUserSession digest = pool (RevokeUserSession_q digest)"

definition AdminCredentialsByEmail :: "string \<Rightarrow> Credentials io" where
  "AdminCredentialsByEmail email = bnd (pool (GetAdminByEmail email)) (\<lambda>row. ret
     \<lparr>Cred_ID = ad_id row, Cred_Email = ad_email row, Cred_PasswordHash = ad_password_hash row, Cred_Status = ad_status row,
      Cred_Locale = [], Cred_Timezone = [], Cred_DisplayName = text_string (ad_display_name row), Cred_TwoFactor = ad_two_factor_enabled row\<rparr>)"

definition CreateAdminSession :: "uuid \<Rightarrow> uuid \<Rightarrow> string \<Rightarrow> time \<Rightarrow> unit io" where
  "CreateAdminSession rowID adminID digest expires = bnd (pool (CreateAdminSession_q rowID adminID digest expires)) (\<lambda>_. ret ())"

definition AdminBySession :: "string \<Rightarrow> (Admin \<times> uuid) io" where
  "AdminBySession digest = bnd (orNoRows ErrUnauthenticated (pool (GetActiveAdminSession digest))) (\<lambda>(s, a).
     bnd (pool (ListAdminPermissions (ad_id a))) (\<lambda>granted. ret
       (\<lparr>Admin_ID = ad_id a, Admin_Email = ad_email a, Admin_Status = ad_status a, Admin_DisplayName = text_string (ad_display_name a),
         Admin_TwoFactorEnabled = ad_two_factor_enabled a, Admin_Permissions = granted\<rparr>, se_id s)))"

definition TouchAdminSession :: "uuid \<Rightarrow> unit io" where "TouchAdminSession sessionID = pool (TouchAdminSession_q sessionID)"

definition RevokeAdminSession :: "string \<Rightarrow> unit io" where "RevokeAdminSession digest = pool (RevokeAdminSession_q digest)"

definition SaveAdminTOTPSecret :: "uuid \<Rightarrow> bytes \<Rightarrow> bytes \<Rightarrow> unit io" where
  "SaveAdminTOTPSecret adminID ciphertext nonce = pool (UpsertAdminTOTPSecret adminID (map char_of ciphertext) (map char_of nonce))"

definition AdminTOTPSecret :: "uuid \<Rightarrow> (bytes \<times> bytes) io" where
  "AdminTOTPSecret adminID = bnd (pool (GetAdminTOTPSecret adminID)) (\<lambda>row. ret (bytesOf (ts_ciphertext row), bytesOf (ts_nonce row)))"

definition EnableAdminTOTP :: "uuid \<Rightarrow> unit io" where "EnableAdminTOTP adminID = pool (EnableAdminTOTP_q adminID)"

section \<open>Service\<close>

definition normalizeEmail :: "string \<Rightarrow> string" where "normalizeEmail v = ToLower (TrimSpace v)"

definition newUserSession :: "Service \<Rightarrow> User \<Rightarrow> User AuthResult io" where
  "newUserSession s user = bnd (NewToken (svc_crypto s)) (\<lambda>token. bnd newID (\<lambda>rowID. bnd (asks goNow) (\<lambda>now.
     bnd (CreateUserSession rowID (User_ID user) (Digest (svc_crypto s) (userSessionSecret s) token) (now + sessionTTL s)) (\<lambda>_.
     ret \<lparr>Principal = user, ar_CSRFToken = CSRFToken (svc_crypto s) (userCSRFSecret s) token, ar_Token = token\<rparr>))))"

definition newAdminSession :: "Service \<Rightarrow> uuid \<Rightarrow> Admin AuthResult io" where
  "newAdminSession s adminID = bnd (NewToken (svc_crypto s)) (\<lambda>token. bnd newID (\<lambda>rowID. bnd (asks goNow) (\<lambda>now.
     bnd (CreateAdminSession rowID adminID (Digest (svc_crypto s) (adminSessionSecret s) token) (now + sessionTTL s)) (\<lambda>_.
     bnd (AdminBySession (Digest (svc_crypto s) (adminSessionSecret s) token)) (\<lambda>(admin, _).
     ret \<lparr>Principal = admin, ar_CSRFToken = CSRFToken (svc_crypto s) (adminCSRFSecret s) token, ar_Token = token\<rparr>)))))"

definition RegisterUser :: "Service \<Rightarrow> string \<Rightarrow> string \<Rightarrow> string \<Rightarrow> string \<Rightarrow> User AuthResult io" where
  "RegisterUser s email rawPassword locale timezone = bnd (Hash (svc_crypto s) rawPassword) (\<lambda>hash. bnd newID (\<lambda>rowID.
     bnd (CreateUser rowID (normalizeEmail email) hash (if locale \<noteq> ''en-US'' \<and> locale \<noteq> ''zh-CN'' then ''zh-CN'' else locale)
       (if TrimSpace timezone = [] then ''UTC'' else timezone)) (newUserSession s)))"

definition LoginUser :: "Service \<Rightarrow> string \<Rightarrow> string \<Rightarrow> User AuthResult io" where
  "LoginUser s email rawPassword = bnd (attempt (UserCredentialsByEmail (normalizeEmail email))) (\<lambda>found.
     let hash = (case found of Inl _ \<Rightarrow> dummyPasswordHash s | Inr cred \<Rightarrow> Cred_PasswordHash cred) in
     if \<not> Verify (svc_crypto s) hash rawPassword then raise ErrInvalidCredentials
     else (case found of
       Inl _ \<Rightarrow> raise ErrInvalidCredentials
     | Inr cred \<Rightarrow> if Cred_Status cred \<noteq> ''active'' then raise ErrInactive
         else newUserSession s \<lparr>User_ID = Cred_ID cred, User_Email = Cred_Email cred, User_Status = Cred_Status cred,
           User_Locale = Cred_Locale cred, User_Timezone = Cred_Timezone cred\<rparr>))"

definition AuthenticateUser :: "Service \<Rightarrow> string \<Rightarrow> User AuthResult io" where
  "AuthenticateUser s token = (if token = [] then raise ErrUnauthenticated
     else bnd (attempt (UserBySession (Digest (svc_crypto s) (userSessionSecret s) token))) (\<lambda>found. case found of
       Inl _ \<Rightarrow> raise ErrUnauthenticated
     | Inr (user, sessionID) \<Rightarrow> if User_Status user \<noteq> ''active'' then raise ErrUnauthenticated
         else bnd (attempt (TouchUserSession sessionID)) (\<lambda>_.
           ret \<lparr>Principal = user, ar_CSRFToken = CSRFToken (svc_crypto s) (userCSRFSecret s) token, ar_Token = token\<rparr>)))"

definition LogoutUser :: "Service \<Rightarrow> string \<Rightarrow> unit io" where
  "LogoutUser s token = RevokeUserSession (Digest (svc_crypto s) (userSessionSecret s) token)"

text \<open>The second factor of \<open>LoginAdmin\<close>.\<close>

definition checkTOTP :: "Service \<Rightarrow> uuid \<Rightarrow> string \<Rightarrow> unit io" where
  "checkTOTP s adminID code = (if code = [] then raise ErrTOTPRequired
     else bnd (attempt (AdminTOTPSecret adminID)) (\<lambda>found. case found of
       Inl _ \<Rightarrow> raise ErrInvalidCredentials
     | Inr (ciphertext, nonce) \<Rightarrow> bnd (asks goNow) (\<lambda>now. case Decrypt (svc_crypto s) ciphertext nonce of
         Inl _ \<Rightarrow> raise ErrTOTPInvalid
       | Inr secret \<Rightarrow> if Validate (svc_crypto s) secret code now then ret () else raise ErrTOTPInvalid)))"

definition LoginAdmin :: "Service \<Rightarrow> string \<Rightarrow> string \<Rightarrow> string \<Rightarrow> Admin AuthResult io" where
  "LoginAdmin s email rawPassword code = bnd (attempt (AdminCredentialsByEmail (normalizeEmail email))) (\<lambda>found.
     let hash = (case found of Inl _ \<Rightarrow> dummyPasswordHash s | Inr cred \<Rightarrow> Cred_PasswordHash cred) in
     if \<not> Verify (svc_crypto s) hash rawPassword then raise ErrInvalidCredentials
     else (case found of
       Inl _ \<Rightarrow> raise ErrInvalidCredentials
     | Inr cred \<Rightarrow> if Cred_Status cred \<noteq> ''active'' then raise ErrInactive
         else bnd (if Cred_TwoFactor cred then checkTOTP s (Cred_ID cred) code else ret ()) (\<lambda>_. newAdminSession s (Cred_ID cred))))"

text \<open>\<open>uri\<close> is \<open>totp.URI\<close>, text for an authenticator application.\<close>

definition BeginAdminTOTP :: "Service \<Rightarrow> (string \<Rightarrow> string \<Rightarrow> string \<Rightarrow> string) \<Rightarrow> Admin \<Rightarrow> TOTPSetup io" where
  "BeginAdminTOTP s uri admin = bnd (GenerateSecret (svc_crypto s)) (\<lambda>secret.
     bnd (Encrypt (svc_crypto s) secret) (\<lambda>(ciphertext, nonce).
     bnd (SaveAdminTOTPSecret (Admin_ID admin) ciphertext nonce) (\<lambda>_.
     ret \<lparr>setup_Secret = secret, setup_URI = uri ''VPS Billing'' (Admin_Email admin) secret\<rparr>)))"

definition EnableAdminTOTP_svc :: "Service \<Rightarrow> uuid \<Rightarrow> string \<Rightarrow> unit io" where
  "EnableAdminTOTP_svc s adminID code = bnd (attempt (AdminTOTPSecret adminID)) (\<lambda>found. case found of
     Inl _ \<Rightarrow> raise ErrTOTPInvalid
   | Inr (ciphertext, nonce) \<Rightarrow> bnd (asks goNow) (\<lambda>now. case Decrypt (svc_crypto s) ciphertext nonce of
       Inl _ \<Rightarrow> raise ErrTOTPInvalid
     | Inr secret \<Rightarrow> if Validate (svc_crypto s) secret code now then EnableAdminTOTP adminID else raise ErrTOTPInvalid))"

definition AuthenticateAdmin :: "Service \<Rightarrow> string \<Rightarrow> Admin AuthResult io" where
  "AuthenticateAdmin s token = (if token = [] then raise ErrUnauthenticated
     else bnd (attempt (AdminBySession (Digest (svc_crypto s) (adminSessionSecret s) token))) (\<lambda>found. case found of
       Inl _ \<Rightarrow> raise ErrUnauthenticated
     | Inr (admin, sessionID) \<Rightarrow> if Admin_Status admin \<noteq> ''active'' then raise ErrUnauthenticated
         else bnd (attempt (TouchAdminSession sessionID)) (\<lambda>_.
           ret \<lparr>Principal = admin, ar_CSRFToken = CSRFToken (svc_crypto s) (adminCSRFSecret s) token, ar_Token = token\<rparr>)))"

definition LogoutAdmin :: "Service \<Rightarrow> string \<Rightarrow> unit io" where
  "LogoutAdmin s token = RevokeAdminSession (Digest (svc_crypto s) (adminSessionSecret s) token)"

definition ValidUserCSRF :: "Service \<Rightarrow> string \<Rightarrow> string \<Rightarrow> bool" where
  "ValidUserCSRF s token candidate = ValidCSRF (svc_crypto s) (userCSRFSecret s) token candidate"

definition ValidAdminCSRF :: "Service \<Rightarrow> string \<Rightarrow> string \<Rightarrow> bool" where
  "ValidAdminCSRF s token candidate = ValidCSRF (svc_crypto s) (adminCSRFSecret s) token candidate"

end
