(* ===== verification/Http.thy ===== *)
theory Http
  imports Identity Admin Portal Commerce Operation Subscription Decode
begin

text \<open>
  \<open>internal/http\<close>: requests and answers (\<open>response\<close>), the middleware in front of the router, and the handlers of \<open>identity\<close> with the guards
  \<open>RequireUser\<close> and \<open>RequireAdmin\<close> that every other handler stands behind. A handler answers every request; a guard hands it the principal it
  would find in the context. What an answer carries is a value of \<open>responseData\<close>; writing it as JSON is left to \<open>encoding/json\<close>.
\<close>

section \<open>Requests and answers\<close>

text \<open>
  The body as the decoder sees it: the number of bytes up to the end of the first document, that document (absent when it is none), and all the bytes.
\<close>

record Body =
  bd_length :: int
  bd_document :: "json option"
  bd_bytes :: string

record Request =
  rq_Method :: string
  rq_Path :: string
  rq_Headers :: "(string \<times> string) list"
  rq_Cookies :: "(string \<times> string) list"
  rq_Params :: "(string \<times> string) list"
  rq_Query :: "(string \<times> string) list"
  rq_RemoteAddr :: string
  rq_Body :: Body
  rq_RequestID :: string
  rq_TraceID :: string

abbreviation header :: "Request \<Rightarrow> string \<Rightarrow> string" where "header r \<equiv> at_key (rq_Headers r)"

text \<open>What the event stream carries: heartbeats, and messages with their identifier, type and payload.\<close>

datatype frame = Heartbeat | Frame string string json

datatype responseData =
    UserSession "User AuthResult" | AdminSession "Admin AuthResult" | Flag string bool | Setup TOTPSetup | Item json
  | Catalog "CatalogItem list" | OrderData Order | Orders "Order list" | Invoices "Invoice list" | WalletData Wallet | Payment PaymentResult
  | Subscriptions "Subscription list" | SubscriptionData Subscription | OperationData Operation | Accepted uuid string
  | Instances "PortalInstance list" | InstanceData PortalInstance | Networks "Network list" | Traffics "PortalTraffic list"
  | Notifications "Notification list" | Tickets "Ticket list" | TicketData Ticket | MessageData TicketMessage
  | Items "json list" | Stream "frame list"

datatype reply = Success responseData | Failure string string

record Cookie =
  ck_Name :: string
  ck_Value :: string
  ck_Secure :: bool
  ck_MaxAge :: int

text \<open>Every cookie of the backend has path \<open>/\<close> and the attributes \<open>HttpOnly\<close> and \<open>SameSite=Strict\<close>.\<close>

record Response =
  rs_Status :: int
  rs_Reply :: reply
  rs_RequestID :: string
  rs_Cookies :: "Cookie list"

definition JSON :: "Request \<Rightarrow> int \<Rightarrow> responseData \<Rightarrow> Response" where
  "JSON r status data = \<lparr>rs_Status = status, rs_Reply = Success data, rs_RequestID = rq_RequestID r, rs_Cookies = []\<rparr>"

definition Error :: "Request \<Rightarrow> int \<Rightarrow> string \<Rightarrow> string \<Rightarrow> Response" where
  "Error r status code messageKey = \<lparr>rs_Status = status, rs_Reply = Failure code messageKey, rs_RequestID = rq_RequestID r, rs_Cookies = []\<rparr>"

text \<open>How a handler ends: the error of the service is turned into an answer, its result into another.\<close>

definition answerWith :: "(err \<Rightarrow> Response) \<Rightarrow> ('a \<Rightarrow> Response) \<Rightarrow> 'a io \<Rightarrow> Response io" where
  "answerWith bad good m = bnd (attempt m) (\<lambda>r. case r of Inl x \<Rightarrow> ret (bad x) | Inr y \<Rightarrow> ret (good y))"

definition orElse :: "'a io \<Rightarrow> (err \<Rightarrow> Response io) \<Rightarrow> ('a \<Rightarrow> Response io) \<Rightarrow> Response io" where
  "orElse m bad good = bnd (attempt m) (\<lambda>r. case r of Inl x \<Rightarrow> bad x | Inr y \<Rightarrow> good y)"

section \<open>Middleware\<close>

definition validCorrelationID :: "string \<Rightarrow> bool" where
  "validCorrelationID s \<longleftrightarrow> 1 \<le> length s \<and> length s \<le> 128 \<and> list_all (\<lambda>c. (CHR ''A'' \<le> c \<and> c \<le> CHR ''Z'') \<or> (CHR ''a'' \<le> c \<and> c \<le> CHR ''z'') \<or>
     (CHR ''0'' \<le> c \<and> c \<le> CHR ''9'') \<or> c = CHR ''_'' \<or> c = CHR ''-'') s"

definition base36 :: "nat \<Rightarrow> char" where "base36 d = ''0123456789abcdefghijklmnopqrstuvwxyz'' ! d"

text \<open>The loop of \<open>formatSequence\<close>: \<open>index\<close> is where the buffer is filled down to; below zero Go panics.\<close>

fun formatLoop :: "nat \<Rightarrow> nat \<Rightarrow> string \<Rightarrow> string option" where
  "formatLoop 0 v buffer = None"
| "formatLoop (Suc index) v buffer = (let buffer' = base36 (v mod 36) # buffer; v' = v div 36 in
     if v' = 0 then Some buffer' else formatLoop index v' buffer')"

definition formatSequence :: "64 word \<Rightarrow> string option" where "formatSequence v = formatLoop 13 (unat v) []"

text \<open>\<open>entropy\<close> is what \<open>rand.Read\<close> gives in hexadecimal, \<open>stamp\<close> the formatted time, \<open>sequence\<close> the counter after the increment.\<close>

definition incomingOrNewID :: "string \<Rightarrow> string option \<Rightarrow> string \<Rightarrow> 64 word \<Rightarrow> string option" where
  "incomingOrNewID incoming entropy stamp sequence =
    (if validCorrelationID incoming then Some incoming
     else (case entropy of Some hex \<Rightarrow> Some hex | None \<Rightarrow> map_option (\<lambda>s. stamp @ ''-'' @ s) (formatSequence sequence)))"

text \<open>The headers set on an answer, and the decision of \<open>CORS\<close>: refuse, answer the preflight, or go on.\<close>

datatype decision = Refuse int string | Preflight | Proceed

definition CORS :: "string list \<Rightarrow> Request \<Rightarrow> (string \<times> string) list \<times> decision" where
  "CORS origins r = (let origin = header r ''Origin''; originAllowed = List.member origins origin in
     ((if originAllowed then [(''Access-Control-Allow-Origin'', origin), (''Access-Control-Allow-Credentials'', ''true''),
         (''Access-Control-Allow-Headers'', ''Content-Type, X-CSRF-Token, X-Request-ID, X-Trace-ID''),
         (''Access-Control-Allow-Methods'', ''GET, POST, PUT, PATCH, DELETE, OPTIONS''), (''Vary'', ''Origin'')] else []),
      (if origin \<noteq> [] \<and> \<not> originAllowed then Refuse 403 ''ORIGIN_DENIED''
       else if rq_Method r = ''OPTIONS'' then Preflight else Proceed)))"

definition SecurityHeaders :: "bool \<Rightarrow> Request \<Rightarrow> (string \<times> string) list" where
  "SecurityHeaders secure r =
     [(''Content-Security-Policy'', ''default-src 'self'; base-uri 'self'; frame-ancestors 'none'; form-action 'self'; object-src 'none'' @ [CHR 0x27]),
      (''Permissions-Policy'', ''camera=(), microphone=(), geolocation=(), payment=()''), (''Referrer-Policy'', ''no-referrer''),
      (''X-Content-Type-Options'', ''nosniff''), (''X-Frame-Options'', ''DENY'')] @
     (if secure then [(''Strict-Transport-Security'', ''max-age=31536000; includeSubDomains'')] else []) @
     (if HasPrefix (rq_Path r) ''/api/'' then [(''Cache-Control'', ''no-store'')] else [])"

section \<open>The guards\<close>

text \<open>
  The identity handler: its service, the prefix of its limiter, whether cookies are secure, whether audit events are recorded, and what it
  uses of \<open>net/mail\<close>, \<open>net\<close> and \<open>totp.URI\<close>.
\<close>

record Handler =
  hd_service :: Service
  hd_limiterPrefix :: string
  hd_secure :: bool
  hd_audit :: bool
  hd_parseAddress :: "string \<Rightarrow> string option"
  hd_splitHostPort :: "string \<Rightarrow> string option"
  hd_uri :: "string \<Rightarrow> string \<Rightarrow> string \<Rightarrow> string"

definition userCookie :: "Handler \<Rightarrow> string" where
  "userCookie h = (if hd_secure h then ''__Host-vps-user-session'' else ''vps_user_session'')"

definition adminCookie :: "Handler \<Rightarrow> string" where
  "adminCookie h = (if hd_secure h then ''__Host-vps-admin-session'' else ''vps_admin_session'')"

definition cookie :: "Request \<Rightarrow> string \<Rightarrow> string" where "cookie r name = at_key (rq_Cookies r) name"

definition setCookie :: "Handler \<Rightarrow> string \<Rightarrow> string \<Rightarrow> Response \<Rightarrow> Response" where
  "setCookie h name v res = res\<lparr>rs_Cookies := rs_Cookies res @ [\<lparr>ck_Name = name, ck_Value = v, ck_Secure = hd_secure h, ck_MaxAge = 86400\<rparr>]\<rparr>"

definition clearCookie :: "Handler \<Rightarrow> string \<Rightarrow> Response \<Rightarrow> Response" where
  "clearCookie h name res = res\<lparr>rs_Cookies := rs_Cookies res @ [\<lparr>ck_Name = name, ck_Value = [], ck_Secure = hd_secure h, ck_MaxAge = - 1\<rparr>]\<rparr>"

definition clientIP :: "Handler \<Rightarrow> Request \<Rightarrow> string" where
  "clientIP h r = (case hd_splitHostPort h (rq_RemoteAddr r) of Some host \<Rightarrow> host | None \<Rightarrow> rq_RemoteAddr r)"

definition isUnsafe :: "string \<Rightarrow> bool" where "isUnsafe verb \<longleftrightarrow> verb \<noteq> ''GET'' \<and> verb \<noteq> ''HEAD'' \<and> verb \<noteq> ''OPTIONS''"

definition csrfInvalid :: "Request \<Rightarrow> Response" where "csrfInvalid r = Error r 403 ''CSRF_INVALID'' ''errors.csrfInvalid''"

definition internalError :: "Request \<Rightarrow> Response" where "internalError r = Error r 500 ''INTERNAL_ERROR'' ''errors.internal''"

definition identityError :: "Request \<Rightarrow> err \<Rightarrow> Response" where
  "identityError r x =
    (if x = ErrInvalidCredentials then Error r 401 ''INVALID_CREDENTIALS'' ''errors.invalidCredentials''
     else if x = ErrUnauthenticated then Error r 401 ''UNAUTHENTICATED'' ''errors.unauthenticated''
     else if x = ErrInactive then Error r 403 ''ACCOUNT_INACTIVE'' ''errors.accountInactive''
     else if x = ErrEmailInUse then Error r 409 ''EMAIL_IN_USE'' ''errors.emailInUse''
     else if x = ErrInvalidPassword then Error r 422 ''PASSWORD_INVALID'' ''errors.passwordInvalid''
     else if x = ErrTOTPRequired then Error r 401 ''TOTP_REQUIRED'' ''errors.totpRequired''
     else if x = ErrTOTPInvalid then Error r 401 ''TOTP_INVALID'' ''errors.totpInvalid''
     else internalError r)"

definition RequireUser :: "Handler \<Rightarrow> (Request \<Rightarrow> User \<Rightarrow> Response io) \<Rightarrow> Request \<Rightarrow> Response io" where
  "RequireUser h next r = orElse (AuthenticateUser (hd_service h) (cookie r (userCookie h))) (\<lambda>x. ret (identityError r x)) (\<lambda>result.
     if isUnsafe (rq_Method r) \<and> \<not> ValidUserCSRF (hd_service h) (ar_Token result) (header r ''X-CSRF-Token'') then ret (csrfInvalid r)
     else next r (Principal result))"

definition RequireAdmin :: "Handler \<Rightarrow> string \<Rightarrow> (Request \<Rightarrow> Admin \<Rightarrow> Response io) \<Rightarrow> Request \<Rightarrow> Response io" where
  "RequireAdmin h permission next r = orElse (AuthenticateAdmin (hd_service h) (cookie r (adminCookie h))) (\<lambda>x. ret (identityError r x)) (\<lambda>result.
     if permission \<noteq> [] \<and> permission \<notin> set (Admin_Permissions (Principal result))
     then ret (Error r 403 ''PERMISSION_DENIED'' ''errors.permissionDenied'')
     else if isUnsafe (rq_Method r) \<and> \<not> ValidAdminCSRF (hd_service h) (ar_Token result) (header r ''X-CSRF-Token'') then ret (csrfInvalid r)
     else next r (Principal result))"

section \<open>Bodies\<close>

text \<open>\<open>DisallowUnknownFields\<close>, and \<open>MaxBytesReader\<close> around the body.\<close>

definition strict :: "string list \<Rightarrow> json \<Rightarrow> bool" where
  "strict names j = (case j of JObj kvs \<Rightarrow> list_all (\<lambda>kv. fst kv \<in> set names) kvs | JNull \<Rightarrow> True | _ \<Rightarrow> False)"

definition decodeBody :: "int \<Rightarrow> string list \<Rightarrow> (json \<Rightarrow> 'a option) \<Rightarrow> Request \<Rightarrow> 'a option" where
  "decodeBody limit names decode r = (case bd_document (rq_Body r) of
     None \<Rightarrow> None | Some j \<Rightarrow> if bd_length (rq_Body r) > limit \<or> \<not> strict names j then None else decode j)"

definition boolField :: "string \<Rightarrow> json \<Rightarrow> bool option" where
  "boolField k j = (case field k j of None \<Rightarrow> Some False | Some JNull \<Rightarrow> Some False | Some (JBool b) \<Rightarrow> Some b | _ \<Rightarrow> None)"

definition uuidField :: "env \<Rightarrow> string \<Rightarrow> json \<Rightarrow> uuid option" where
  "uuidField e k j = (case field k j of None \<Rightarrow> Some uuidNil | Some JNull \<Rightarrow> Some uuidNil | Some (JStr s) \<Rightarrow> uuidParse e s | _ \<Rightarrow> None)"

definition requestInvalid :: "Request \<Rightarrow> Response" where "requestInvalid r = Error r 400 ''REQUEST_INVALID'' ''errors.requestInvalid''"

definition contentTypeInvalid :: "Request \<Rightarrow> Response" where
  "contentTypeInvalid r = Error r 415 ''CONTENT_TYPE_INVALID'' ''errors.contentTypeInvalid''"

section \<open>Identity handlers\<close>

record credentialsRequest =
  cq_Email :: string
  cq_Password :: string
  cq_Locale :: string
  cq_Timezone :: string
  cq_TOTPCode :: string

definition decodeCredentials :: "json \<Rightarrow> credentialsRequest option" where
  "decodeCredentials j = (case (strField ''email'' j, strField ''password'' j, strField ''locale'' j, strField ''timezone'' j, strField ''totp_code'' j) of
     (Some em, Some pw, Some lo, Some tz, Some tc) \<Rightarrow> Some \<lparr>cq_Email = em, cq_Password = pw, cq_Locale = lo, cq_Timezone = tz, cq_TOTPCode = tc\<rparr>
   | _ \<Rightarrow> None)"

text \<open>A handler behind the limiter works on its counters in Redis, too.\<close>

type_synonym limited = "limiter \<Rightarrow> (Response \<times> limiter) io"

definition limitKey :: "Handler \<Rightarrow> Request \<Rightarrow> string \<Rightarrow> string \<Rightarrow> string" where
  "limitKey h r action email = action @ '':'' @ clientIP h r @ '':'' @ ToLower (TrimSpace email)"

definition decodeAndLimit :: "Handler \<Rightarrow> Request \<Rightarrow> string \<Rightarrow> nat \<Rightarrow> (credentialsRequest \<Rightarrow> Response io) \<Rightarrow> limited" where
  "decodeAndLimit h r action limit next l =
    (if \<not> HasPrefix (header r ''Content-Type'') ''application/json'' then ret (contentTypeInvalid r, l)
     else case decodeBody 16384 [''email'', ''password'', ''locale'', ''timezone'', ''totp_code''] decodeCredentials r of
       None \<Rightarrow> ret (requestInvalid r, l)
     | Some input \<Rightarrow> (let email = TrimSpace (cq_Email input) in case hd_parseAddress h email of
         None \<Rightarrow> ret (Error r 422 ''EMAIL_INVALID'' ''errors.emailInvalid'', l)
       | Some parsed \<Rightarrow>
           if ToLower parsed \<noteq> ToLower email \<or> length parsed > 320 then ret (Error r 422 ''EMAIL_INVALID'' ''errors.emailInvalid'', l)
           else bnd (attempt (redis (\<lambda>w. w))) (\<lambda>reached. case reached of
             Inl _ \<Rightarrow> ret (Error r 503 ''RATE_LIMIT_UNAVAILABLE'' ''errors.authUnavailable'', l)
           | Inr _ \<Rightarrow> bnd (asks goNow) (\<lambda>now.
               case Allow (hd_limiterPrefix h) (limitKey h r action (cq_Email input)) limit minute now l of (allowed, l') \<Rightarrow>
               if \<not> allowed then ret (Error r 429 ''RATE_LIMITED'' ''errors.rateLimited'', l')
               else bnd (next input) (\<lambda>res. ret (res, l'))))))"

text \<open>The key of a registration is built before the body is read: its address part is empty.\<close>

definition registerUser :: "Handler \<Rightarrow> Request \<Rightarrow> limited" where
  "registerUser h r = decodeAndLimit h r ''register:'' 5 (\<lambda>input.
     answerWith (identityError r) (\<lambda>result. setCookie h (userCookie h) (ar_Token result) (JSON r 201 (UserSession result)))
       (RegisterUser (hd_service h) (cq_Email input) (cq_Password input) (cq_Locale input) (cq_Timezone input)))"

definition loginUser :: "Handler \<Rightarrow> Request \<Rightarrow> limited" where
  "loginUser h r = decodeAndLimit h r ''user-login'' 10 (\<lambda>input.
     answerWith (identityError r) (\<lambda>result. setCookie h (userCookie h) (ar_Token result) (JSON r 200 (UserSession result)))
       (LoginUser (hd_service h) (cq_Email input) (cq_Password input)))"

definition userMe :: "Handler \<Rightarrow> Request \<Rightarrow> Response io" where
  "userMe h r = answerWith (identityError r) (\<lambda>result. JSON r 200 (UserSession result)) (AuthenticateUser (hd_service h) (cookie r (userCookie h)))"

definition logoutUser :: "Handler \<Rightarrow> Request \<Rightarrow> Response io" where
  "logoutUser h r = (let token = cookie r (userCookie h) in
     orElse (AuthenticateUser (hd_service h) token) (\<lambda>x. ret (identityError r x)) (\<lambda>_.
     if \<not> ValidUserCSRF (hd_service h) token (header r ''X-CSRF-Token'') then ret (csrfInvalid r)
     else answerWith (\<lambda>_. internalError r) (\<lambda>_. clearCookie h (userCookie h) (JSON r 200 (Flag ''logged_out'' True))) (LogoutUser (hd_service h) token)))"

definition auditEvent :: "string \<Rightarrow> uuid option \<Rightarrow> string \<Rightarrow> json \<Rightarrow> AuditEvent" where
  "auditEvent actorType actorID action after = \<lparr>ev_ActorType = actorType, ev_ActorID = actorID, ev_Action = action, ev_ResourceType = ''admin'',
     ev_ResourceID = actorID, ev_Before = JNull, ev_After = after, ev_IPAddress = [], ev_UserAgent = [], ev_RequestID = [], ev_TraceID = []\<rparr>"

definition recordAdminAudit :: "Handler \<Rightarrow> Request \<Rightarrow> AuditEvent \<Rightarrow> unit io" where
  "recordAdminAudit h r event = (if \<not> hd_audit h then ret () else Record (event\<lparr>ev_IPAddress := clientIP h r, ev_UserAgent := header r ''User-Agent'',
     ev_RequestID := rq_RequestID r, ev_TraceID := rq_TraceID r\<rparr>))"

definition auditFailed :: "Request \<Rightarrow> Response" where "auditFailed r = Error r 500 ''AUDIT_FAILED'' ''errors.internal''"

definition loginAdmin :: "Handler \<Rightarrow> Request \<Rightarrow> limited" where
  "loginAdmin h r = decodeAndLimit h r ''admin-login'' 5 (\<lambda>input.
     orElse (LoginAdmin (hd_service h) (cq_Email input) (cq_Password input) (cq_TOTPCode input))
       (\<lambda>x. bnd (attempt (recordAdminAudit h r (auditEvent ''anonymous'' None ''admin.login_failed''
          (JObj [(''email'', JStr (ToLower (TrimSpace (cq_Email input))))])))) (\<lambda>_. ret (identityError r x)))
       (\<lambda>result. orElse (recordAdminAudit h r (auditEvent ''admin'' (Some (Admin_ID (Principal result))) ''admin.login'' JNull))
          (\<lambda>_. bnd (attempt (LogoutAdmin (hd_service h) (ar_Token result))) (\<lambda>_. ret (auditFailed r)))
          (\<lambda>_. ret (setCookie h (adminCookie h) (ar_Token result) (JSON r 200 (AdminSession result))))))"

definition authenticatedAdmin :: "Handler \<Rightarrow> Request \<Rightarrow> (Admin AuthResult \<Rightarrow> Response io) \<Rightarrow> Response io" where
  "authenticatedAdmin h r next = (let token = cookie r (adminCookie h) in
     orElse (AuthenticateAdmin (hd_service h) token) (\<lambda>x. ret (identityError r x)) (\<lambda>result.
     if \<not> ValidAdminCSRF (hd_service h) token (header r ''X-CSRF-Token'') then ret (csrfInvalid r) else next result))"

definition setupAdminTOTP :: "Handler \<Rightarrow> Request \<Rightarrow> Response io" where
  "setupAdminTOTP h r = authenticatedAdmin h r (\<lambda>result.
     orElse (recordAdminAudit h r (auditEvent ''admin'' (Some (Admin_ID (Principal result))) ''admin.totp_setup_requested'' JNull))
       (\<lambda>_. ret (auditFailed r)) (\<lambda>_. answerWith (\<lambda>_. internalError r) (\<lambda>setup. JSON r 200 (Setup setup)) (BeginAdminTOTP (hd_service h) (hd_uri h) (Principal result))))"

definition enableAdminTOTP :: "Handler \<Rightarrow> Request \<Rightarrow> Response io" where
  "enableAdminTOTP h r = authenticatedAdmin h r (\<lambda>result. case decodeBody 16384 [''code''] (strField ''code'') r of
     None \<Rightarrow> ret (requestInvalid r)
   | Some code \<Rightarrow> orElse (recordAdminAudit h r (auditEvent ''admin'' (Some (Admin_ID (Principal result))) ''admin.totp_enable_requested'' JNull))
       (\<lambda>_. ret (auditFailed r))
       (\<lambda>_. answerWith (identityError r) (\<lambda>_. JSON r 200 (Flag ''two_factor_enabled'' True)) (EnableAdminTOTP_svc (hd_service h) (Admin_ID (Principal result)) code)))"

definition adminMe :: "Handler \<Rightarrow> Request \<Rightarrow> Response io" where
  "adminMe h r = answerWith (identityError r) (\<lambda>result. JSON r 200 (AdminSession result)) (AuthenticateAdmin (hd_service h) (cookie r (adminCookie h)))"

definition logoutAdmin :: "Handler \<Rightarrow> Request \<Rightarrow> Response io" where
  "logoutAdmin h r = authenticatedAdmin h r (\<lambda>result.
     orElse (recordAdminAudit h r (auditEvent ''admin'' (Some (Admin_ID (Principal result))) ''admin.logout_requested'' JNull))
       (\<lambda>_. ret (auditFailed r))
       (\<lambda>_. answerWith (\<lambda>_. internalError r) (\<lambda>_. clearCookie h (adminCookie h) (JSON r 200 (Flag ''logged_out'' True)))
          (LogoutAdmin (hd_service h) (cookie r (adminCookie h)))))"

end
