(* ===== verification/Admin_Reads.thy ===== *)
theory Admin_Reads
  imports Admin
begin

text \<open>
  The reading side of \<open>internal/admin\<close>: the dashboard, the listings and the two detail views. Every statement there lets PostgreSQL build JSON
  documents from its rows (\<open>to_jsonb\<close>, \<open>jsonb_agg\<close>); what these projections give is a parameter, what the package does with the documents is modelled.
\<close>

section \<open>Statements\<close>

text \<open>The statements by name: one per resource that can be listed, those of the dashboard, and those of the detail views.\<close>

record adminReads =
  rd_list :: "string \<Rightarrow> json list query"
  rd_metrics :: "json query"
  rd_alerts :: "json list query"
  rd_failed :: "json list query"
  rd_providers :: "json list query"
  rd_nodes :: "json list query"
  rd_capacity :: "json list query"
  rd_instance :: "uuid \<Rightarrow> json query"
  rd_operation :: "uuid \<Rightarrow> json query"

definition listResources :: "string list" where
  "listResources = [''users'', ''products'', ''orders'', ''payments'', ''ledger'', ''subscriptions'', ''instances'', ''nodes'', ''providers'',
     ''operations'', ''tickets'', ''audit'', ''admins'', ''roles'', ''settings'']"

section \<open>Repository\<close>

definition List_admin :: "adminReads \<Rightarrow> string \<Rightarrow> json list io" where
  "List_admin rd resource = (if resource \<notin> set listResources then raise ErrNotFound else pool (rd_list rd resource))"

text \<open>\<open>oneJSON\<close> on the pool: no row is \<open>ErrNotFound\<close>.\<close>

definition queryJSON :: "json query \<Rightarrow> json io" where "queryJSON q = orNoRows ErrNotFound (pool q)"

definition Dashboard_admin :: "adminReads \<Rightarrow> json io" where
  "Dashboard_admin rd = bnd (queryJSON (rd_metrics rd)) (\<lambda>metrics. bnd (pool (rd_alerts rd)) (\<lambda>alerts. bnd (pool (rd_failed rd)) (\<lambda>failed.
     bnd (pool (rd_providers rd)) (\<lambda>providerHealth. bnd (pool (rd_nodes rd)) (\<lambda>nodeHealth. bnd (pool (rd_capacity rd)) (\<lambda>warnings.
     ret (JObj [(''metrics'', metrics), (''critical_alerts'', JArr alerts), (''failed_operations'', JArr failed), (''provider_health'', JArr providerHealth),
       (''node_health'', JArr nodeHealth), (''capacity_warnings'', JArr warnings)])))))))"

text \<open>\<open>delete(item, key)\<close>.\<close>

definition without :: "string list \<Rightarrow> json \<Rightarrow> json" where
  "without ks j = (case j of JObj kvs \<Rightarrow> JObj (filter (\<lambda>kv. fst kv \<notin> set ks) kvs) | _ \<Rightarrow> j)"

definition Instance_admin :: "adminReads \<Rightarrow> uuid \<Rightarrow> bool \<Rightarrow> json io" where
  "Instance_admin rd rowID diagnostics = bnd (queryJSON (rd_instance rd rowID)) (\<lambda>item.
     ret (if diagnostics then item else without [''provider_instance_id'', ''metadata''] item))"

definition Operation_admin :: "adminReads \<Rightarrow> uuid \<Rightarrow> bool \<Rightarrow> json io" where
  "Operation_admin rd rowID raw = bnd (queryJSON (rd_operation rd rowID)) (\<lambda>item.
     ret (if raw then item else without [''error_message'', ''provider_operation_id''] item))"

text \<open>Raw diagnostics are left out for those who may not see them.\<close>

lemma field_without: "k \<in> set ks \<Longrightarrow> field k (without ks j) = None"
  by (auto simp: field_def without_def map_of_eq_None_iff split: json.split)

lemma diagnostics_hidden:
  "Instance_admin rd rowID False e w = (Inr item, w') \<Longrightarrow> field ''provider_instance_id'' item = None \<and> field ''metadata'' item = None"
  "Operation_admin rd rowID False e w = (Inr item, w') \<Longrightarrow> field ''error_message'' item = None \<and> field ''provider_operation_id'' item = None"
  by (auto simp: Instance_admin_def Operation_admin_def bnd_ok ret_ok field_without)

end
