(* ===== verification/Api.thy ===== *)
theory Api
  imports Http Admin_Reads
begin

text \<open>
  The handlers of the API (\<open>internal/http/commerce\<close>, \<open>subscription\<close>, \<open>operation\<close>, \<open>portal\<close> and \<open>admin\<close>) and the routes
  under which \<open>Register\<close> installs them, each with the guard in front of it. Matching a path with a pattern is the router's: a route is named by its
  method and its pattern, the parameters of the path are part of the request.
\<close>

section \<open>The fake payment gateway\<close>

definition hexChar :: "nat \<Rightarrow> char" where "hexChar n = ''0123456789abcdef'' ! n"

definition hexEncode :: "bytes \<Rightarrow> string" where "hexEncode bs = concat (map (\<lambda>b. [hexChar (b div 16), hexChar (b mod 16)]) bs)"

definition hexValue :: "char \<Rightarrow> nat option" where
  "hexValue c = (if CHR ''0'' \<le> c \<and> c \<le> CHR ''9'' then Some (of_char c - 48) else if CHR ''a'' \<le> c \<and> c \<le> CHR ''f'' then Some (of_char c - 87)
     else if CHR ''A'' \<le> c \<and> c \<le> CHR ''F'' then Some (of_char c - 55) else None)"

fun hexDecode :: "string \<Rightarrow> bytes option" where
  "hexDecode [] = Some []"
| "hexDecode [c] = None"
| "hexDecode (c # d # s) = (case (hexValue c, hexValue d, hexDecode s) of (Some x, Some y, Some bs) \<Rightarrow> Some ((16 * x + y) # bs) | _ \<Rightarrow> None)"

definition Sign :: "crypto \<Rightarrow> string \<Rightarrow> string \<Rightarrow> string" where
  "Sign c secret payload = hexEncode (hmacSHA256 c (bytesOf secret) (bytesOf payload))"

definition Verify_webhook :: "crypto \<Rightarrow> string \<Rightarrow> string \<Rightarrow> string \<Rightarrow> bool" where
  "Verify_webhook c secret payload signature = (case hexDecode signature of
     None \<Rightarrow> False | Some provided \<Rightarrow> (case hexDecode (Sign c secret payload) of None \<Rightarrow> provided = [] | Some want \<Rightarrow> want = provided))"

section \<open>Commerce\<close>

definition commerceError :: "Request \<Rightarrow> err \<Rightarrow> Response" where
  "commerceError r x =
    (if x = ErrPlanNotFound then Error r 404 ''PLAN_NOT_FOUND'' ''errors.planNotFound''
     else if x = ErrInvalidQuantity then Error r 422 ''QUANTITY_INVALID'' ''errors.quantityInvalid''
     else if x = ErrInvalidIdempotency then Error r 422 ''IDEMPOTENCY_KEY_INVALID'' ''errors.idempotencyInvalid''
     else if x = ErrIdempotencyConflict then Error r 409 ''IDEMPOTENCY_KEY_CONFLICT'' ''errors.idempotencyConflict''
     else if x = ErrPaymentNotFound then Error r 404 ''PAYMENT_NOT_FOUND'' ''errors.paymentNotFound''
     else if x = ErrPaymentMismatch then Error r 422 ''PAYMENT_MISMATCH'' ''errors.paymentMismatch''
     else if x = ErrPaymentState then Error r 409 ''PAYMENT_STATE_INVALID'' ''errors.paymentStateInvalid''
     else if x = ErrSubscriptionNotFound then Error r 404 ''SUBSCRIPTION_NOT_FOUND'' ''errors.subscriptionNotFound''
     else if x = ErrSubscriptionState then Error r 409 ''SUBSCRIPTION_STATE_INVALID'' ''errors.subscriptionStateInvalid''
     else internalError r)"

definition listProducts :: "Request \<Rightarrow> Response io" where
  "listProducts r = answerWith (\<lambda>_. internalError r) (\<lambda>items. JSON r 200 (Catalog items)) ListCatalog"

definition decodeOrder :: "env \<Rightarrow> json \<Rightarrow> (uuid \<times> int) option" where
  "decodeOrder e j = (case (uuidField e ''plan_id'' j, intField ''quantity'' j) of
     (Some plan, Some q) \<Rightarrow> if - 2147483648 \<le> q \<and> q \<le> 2147483647 then Some (plan, q) else None | _ \<Rightarrow> None)"

definition createOrder :: "Request \<Rightarrow> User \<Rightarrow> Response io" where
  "createOrder r user = bnd (asks (\<lambda>e. decodeBody 16384 [''plan_id'', ''quantity''] (decodeOrder e) r)) (\<lambda>input. case input of
     None \<Rightarrow> ret (requestInvalid r)
   | Some (planID, quantity) \<Rightarrow> answerWith (commerceError r) (\<lambda>ordr. JSON r 201 (OrderData ordr))
       (CreateOrder_svc (User_ID user) planID quantity (header r ''Idempotency-Key'')))"

definition listOrders :: "Request \<Rightarrow> User \<Rightarrow> Response io" where
  "listOrders r user = answerWith (commerceError r) (\<lambda>items. JSON r 200 (Orders items)) (ListOrders (User_ID user))"

definition listInvoices :: "Request \<Rightarrow> User \<Rightarrow> Response io" where
  "listInvoices r user = answerWith (commerceError r) (\<lambda>items. JSON r 200 (Invoices items)) (ListInvoices (User_ID user))"

definition wallet :: "Request \<Rightarrow> User \<Rightarrow> Response io" where
  "wallet r user = (let currency = ToUpper (at_key (rq_Query r) ''currency'') in
     answerWith (commerceError r) (\<lambda>w. JSON r 200 (WalletData w)) (Wallet_svc (User_ID user) (if currency = [] then ''USD'' else currency)))"

definition decodeWebhook :: "env \<Rightarrow> json \<Rightarrow> Webhook option" where
  "decodeWebhook e j = (case (strField ''event_id'' j, uuidField e ''payment_id'' j, strField ''external_payment_id'' j, strField ''status'' j,
       intField ''amount_minor'' j, strField ''currency'' j) of
     (Some ev, Some p, Some ext, Some st, Some amount, Some cur) \<Rightarrow> Some \<lparr>EventID = ev, PaymentID = p, ExternalPaymentID = ext, WebhookStatus = st,
       AmountMinor = amount, Currency = cur\<rparr>
   | _ \<Rightarrow> None)"

text \<open>The body is taken to be one JSON document, which is also what is kept of it.\<close>

definition fakeWebhook :: "crypto \<Rightarrow> string \<Rightarrow> Request \<Rightarrow> Response io" where
  "fakeWebhook c secret r =
    (if int (length (bd_bytes (rq_Body r))) > 65536 then ret (requestInvalid r)
     else if \<not> Verify_webhook c secret (bd_bytes (rq_Body r)) (header r ''X-Fake-Signature'')
     then ret (Error r 401 ''WEBHOOK_SIGNATURE_INVALID'' ''errors.webhookSignatureInvalid'')
     else bnd (asks (\<lambda>e. case bd_document (rq_Body r) of None \<Rightarrow> None
         | Some j \<Rightarrow> if \<not> strict [''event_id'', ''payment_id'', ''external_payment_id'', ''status'', ''amount_minor'', ''currency''] j then None
             else map_option (\<lambda>event. (event, j)) (decodeWebhook e j))) (\<lambda>input. case input of
       None \<Rightarrow> ret (requestInvalid r)
     | Some (event, body) \<Rightarrow> answerWith (commerceError r) (\<lambda>result. JSON r 200 (Payment result)) (CompletePayment_svc event body)))"

section \<open>Subscriptions\<close>

definition subscriptionError :: "Request \<Rightarrow> err \<Rightarrow> Response" where
  "subscriptionError r x =
    (if x = ErrNotFound \<or> x = ErrSubscriptionNotFound then Error r 404 ''SUBSCRIPTION_NOT_FOUND'' ''errors.subscriptionNotFound''
     else if x = ErrInvalidState \<or> x = ErrSubscriptionState then Error r 409 ''SUBSCRIPTION_STATE_INVALID'' ''errors.subscriptionStateInvalid''
     else if x = ErrInvalidIdempotency then Error r 422 ''IDEMPOTENCY_KEY_INVALID'' ''errors.idempotencyInvalid''
     else if x = ErrIdempotencyConflict then Error r 409 ''IDEMPOTENCY_KEY_CONFLICT'' ''errors.idempotencyConflict''
     else internalError r)"

text \<open>\<open>uuid.Parse(chi.URLParam(r, "id"))\<close>, with the answerWith for what is none.\<close>

definition withID :: "(Request \<Rightarrow> Response) \<Rightarrow> Request \<Rightarrow> (uuid \<Rightarrow> Response io) \<Rightarrow> Response io" where
  "withID bad r next = bnd (asks (\<lambda>e. uuidParse e (at_key (rq_Params r) ''id''))) (\<lambda>parsed. case parsed of None \<Rightarrow> ret (bad r) | Some u \<Rightarrow> next u)"

definition list_subscriptions :: "Request \<Rightarrow> User \<Rightarrow> Response io" where
  "list_subscriptions r user = answerWith (\<lambda>_. internalError r) (\<lambda>items. JSON r 200 (Subscriptions items)) (List (User_ID user))"

definition renew :: "Request \<Rightarrow> User \<Rightarrow> Response io" where
  "renew r user = withID requestInvalid r (\<lambda>subscriptionID. answerWith (subscriptionError r) (\<lambda>ordr. JSON r 201 (OrderData ordr))
     (CreateRenewalOrder_svc (User_ID user) subscriptionID (header r ''Idempotency-Key'')))"

definition setCancelAtPeriodEnd :: "Request \<Rightarrow> User \<Rightarrow> Response io" where
  "setCancelAtPeriodEnd r user = withID requestInvalid r (\<lambda>subscriptionID. case decodeBody 4096 [''cancel''] (boolField ''cancel'') r of
     None \<Rightarrow> ret (requestInvalid r)
   | Some cancel \<Rightarrow> answerWith (subscriptionError r) (\<lambda>s. JSON r 200 (SubscriptionData s)) (SetCancelAtPeriodEnd (User_ID user) subscriptionID cancel))"

section \<open>Operations and events\<close>

definition get_operation :: "Request \<Rightarrow> User \<Rightarrow> Response io" where
  "get_operation r user = withID requestInvalid r (\<lambda>operationID. answerWith
     (\<lambda>x. if x = ErrNotFound then Error r 404 ''OPERATION_NOT_FOUND'' ''errors.operationNotFound'' else internalError r)
     (\<lambda>result. JSON r 200 (OperationData result)) (GetForUser (User_ID user) operationID))"

definition eventBelongsToUser :: "env \<Rightarrow> json \<Rightarrow> uuid \<Rightarrow> bool" where
  "eventBelongsToUser e payload userID = (case field ''data'' payload of
     Some d \<Rightarrow> (case field ''user_id'' d of Some (JStr s) \<Rightarrow> uuidParse e s = Some userID | _ \<Rightarrow> False) | None \<Rightarrow> False)"

definition withoutNewlines :: "string \<Rightarrow> string" where "withoutNewlines s = filter (\<lambda>c. c \<noteq> CHR 0x0A) s"

text \<open>
  What \<open>events\<close> writes for a batch of \<open>XREAD\<close>: one frame for every message of the user. Messages are given with their identifiers; the payload is
  written on one line.
\<close>

definition eventFrames :: "env \<Rightarrow> uuid \<Rightarrow> (string \<times> message) list \<Rightarrow> (string \<times> string \<times> json) list" where
  "eventFrames e userID batch = map (\<lambda>(msgID, m). (msgID, withoutNewlines (msg_event_type m), msg_payload m))
     (filter (\<lambda>(msgID, m). eventBelongsToUser e (msg_payload m) userID) batch)"

text \<open>The cursor after a batch: the identifier of its last message, whether it was written or not.\<close>

definition nextCursor :: "string \<Rightarrow> (string \<times> message) list \<Rightarrow> string" where
  "nextCursor cursor batch = (if batch = [] then cursor else fst (last batch))"

text \<open>What one \<open>XREAD\<close> gives: nothing within its time, an error (also when the client has gone), or messages.\<close>

datatype xread = XNil | XFailed | XMessages "(string \<times> message) list"

text \<open>The loop, for the reads that are made while the request lasts; each depends on the cursor it is made with.\<close>

fun eventLoop :: "env \<Rightarrow> uuid \<Rightarrow> string \<Rightarrow> (string \<Rightarrow> xread) list \<Rightarrow> frame list" where
  "eventLoop e userID cursor [] = []"
| "eventLoop e userID cursor (read # reads) = (case read cursor of
     XNil \<Rightarrow> Heartbeat # eventLoop e userID cursor reads
   | XFailed \<Rightarrow> []
   | XMessages batch \<Rightarrow> map (\<lambda>(i, t, p). Frame i t p) (eventFrames e userID batch) @ eventLoop e userID (nextCursor cursor batch) reads)"

definition events :: "bool \<Rightarrow> (string \<Rightarrow> xread) list \<Rightarrow> Request \<Rightarrow> User \<Rightarrow> Response io" where
  "events flushes reads r user =
    (if \<not> flushes then ret (Error r 500 ''SSE_UNAVAILABLE'' ''errors.sseUnavailable'')
     else (let cursor = TrimSpace (header r ''Last-Event-ID'') in
       bnd (asks (\<lambda>e. eventLoop e (User_ID user) (if cursor = [] then ''$'' else cursor) reads)) (\<lambda>frames. ret (JSON r 200 (Stream frames)))))"

section \<open>The customer portal\<close>

definition portalError :: "Request \<Rightarrow> err \<Rightarrow> Response" where
  "portalError r x =
    (if x = ErrNotFound then Error r 404 ''NOT_FOUND'' ''errors.resourceNotFound''
     else if x = ErrInvalidRequest then Error r 422 ''REQUEST_INVALID'' ''errors.requestInvalid''
     else if x = ErrStateConflict then Error r 409 ''INSTANCE_STATE_CONFLICT'' ''errors.instanceStateConflict''
     else if x = ErrTicketClosed then Error r 409 ''TICKET_CLOSED'' ''errors.ticketClosed''
     else internalError r)"

definition resourceNotFound :: "Request \<Rightarrow> Response" where "resourceNotFound r = Error r 404 ''NOT_FOUND'' ''errors.resourceNotFound''"

definition listInstances :: "Request \<Rightarrow> User \<Rightarrow> Response io" where
  "listInstances r user = answerWith (portalError r) (\<lambda>items. JSON r 200 (Instances items)) (ListInstances (User_ID user))"

definition getInstance :: "Request \<Rightarrow> User \<Rightarrow> Response io" where
  "getInstance r user = withID resourceNotFound r (\<lambda>u. answerWith (portalError r) (\<lambda>item. JSON r 200 (InstanceData item)) (GetInstance_portal (User_ID user) u))"

definition listNetworks :: "Request \<Rightarrow> User \<Rightarrow> Response io" where
  "listNetworks r user = withID resourceNotFound r (\<lambda>u. answerWith (portalError r) (\<lambda>items. JSON r 200 (Networks items)) (ListNetworks (User_ID user) u))"

definition listTraffic :: "Request \<Rightarrow> User \<Rightarrow> Response io" where
  "listTraffic r user = withID resourceNotFound r (\<lambda>u. answerWith (portalError r) (\<lambda>items. JSON r 200 (Traffics items)) (ListTraffic (User_ID user) u))"

definition actionSteps :: "StepDefinition list" where
  "actionSteps = [\<lparr>sd_Key = ''validate'', sd_Order = 1\<rparr>, \<lparr>sd_Key = ''provider'', sd_Order = 2\<rparr>, \<lparr>sd_Key = ''verify'', sd_Order = 3\<rparr>]"

definition actionRefused :: "Request \<Rightarrow> err \<Rightarrow> Response" where
  "actionRefused r x = (if x = ErrInvalidRequest then Error r 422 ''IDEMPOTENCY_KEY_INVALID'' ''errors.idempotencyInvalid''
     else if x = ErrIdempotencyConflict then Error r 409 ''INSTANCE_OPERATION_CONFLICT'' ''errors.instanceOperationConflict''
     else portalError r x)"

definition startAction :: "Request \<Rightarrow> User \<Rightarrow> uuid \<Rightarrow> string \<Rightarrow> Response io" where
  "startAction r user u action = answerWith (actionRefused r) (\<lambda>created. JSON r 202 (Accepted (Operation_ID created) (Operation_Status created)))
     (Create_svc \<lparr>cr_Type = action, cr_ResourceType = ''instance'', cr_ResourceID = u, cr_IdempotencyKey = header r ''Idempotency-Key'',
       cr_TraceID = rq_TraceID r, cr_UserID = Some (User_ID user), cr_ActorAdminID = None, cr_MaxRetries = 3, cr_Steps = actionSteps\<rparr>)"

definition instanceAction :: "Request \<Rightarrow> User \<Rightarrow> Response io" where
  "instanceAction r user = withID resourceNotFound r (\<lambda>u. let action = at_key (rq_Params r) ''action'' in
     if action \<notin> {''start'', ''stop'', ''restart'', ''reinstall''} then ret (Error r 404 ''NOT_FOUND'' ''errors.instanceNotFound'')
     else orElse (ActionContext_of (User_ID user) u) (\<lambda>x. ret (portalError r x)) (\<lambda>current.
       if action = ''reinstall'' then (case decodeBody 16384 [''image_id''] (strField ''image_id'') r of
           None \<Rightarrow> ret (requestInvalid r)
         | Some imageID \<Rightarrow> if TrimSpace imageID = [] \<or> imageID \<noteq> actx_ImageID current then ret (Error r 422 ''IMAGE_INVALID'' ''errors.imageInvalid'')
             else startAction r user u action)
       else startAction r user u action))"

definition listNotifications :: "Request \<Rightarrow> User \<Rightarrow> Response io" where
  "listNotifications r user = answerWith (portalError r) (\<lambda>items. JSON r 200 (Notifications items)) (ListNotifications (User_ID user))"

definition markNotificationRead :: "Request \<Rightarrow> User \<Rightarrow> Response io" where
  "markNotificationRead r user = withID resourceNotFound r (\<lambda>u. answerWith (portalError r) (\<lambda>_. JSON r 200 (Flag ''read'' True)) (MarkNotificationRead (User_ID user) u))"

definition listTickets :: "Request \<Rightarrow> User \<Rightarrow> Response io" where
  "listTickets r user = answerWith (portalError r) (\<lambda>items. JSON r 200 (Tickets items)) (ListTickets (User_ID user))"

definition getTicket :: "Request \<Rightarrow> User \<Rightarrow> Response io" where
  "getTicket r user = withID resourceNotFound r (\<lambda>u. answerWith (portalError r) (\<lambda>item. JSON r 200 (TicketData item)) (GetTicket (User_ID user) u))"

definition decodeTicket :: "json \<Rightarrow> (string \<times> string \<times> string) option" where
  "decodeTicket j = (case (strField ''subject'' j, strField ''priority'' j, strField ''message'' j) of (Some s, Some p, Some m) \<Rightarrow> Some (s, p, m) | _ \<Rightarrow> None)"

definition createTicket :: "Request \<Rightarrow> User \<Rightarrow> Response io" where
  "createTicket r user = (case decodeBody 16384 [''subject'', ''priority'', ''message''] decodeTicket r of
     None \<Rightarrow> ret (requestInvalid r)
   | Some (subject, priority, text) \<Rightarrow> answerWith (portalError r) (\<lambda>item. JSON r 201 (TicketData item)) (CreateTicket_svc (User_ID user) subject priority text))"

definition addTicketMessage :: "Request \<Rightarrow> User \<Rightarrow> Response io" where
  "addTicketMessage r user = withID resourceNotFound r (\<lambda>u. case decodeBody 16384 [''message''] (strField ''message'') r of
     None \<Rightarrow> ret (requestInvalid r)
   | Some text \<Rightarrow> answerWith (portalError r) (\<lambda>item. JSON r 201 (MessageData item)) (AddTicketMessage_svc (User_ID user) u text))"

section \<open>Administration\<close>

definition adminError :: "Request \<Rightarrow> err \<Rightarrow> Response" where
  "adminError r x =
    (if x = ErrNotFound then Error r 404 ''NOT_FOUND'' ''errors.notFound''
     else if x = ErrInvalidInput then Error r 422 ''INPUT_INVALID'' ''errors.requestInvalid''
     else if x = ErrInsufficient then Error r 409 ''INSUFFICIENT_BALANCE'' ''errors.insufficientBalance''
     else if x = ErrTicketFinalized then Error r 409 ''TICKET_FINALIZED'' ''errors.ticketClosed''
     else internalError r)"

definition idInvalid :: "Request \<Rightarrow> Response" where "idInvalid r = Error r 400 ''ID_INVALID'' ''errors.requestInvalid''"

definition decode_admin :: "string list \<Rightarrow> (json \<Rightarrow> 'a option) \<Rightarrow> Request \<Rightarrow> ('a \<Rightarrow> Response io) \<Rightarrow> Response io" where
  "decode_admin names decode r next =
    (if \<not> HasPrefix (header r ''Content-Type'') ''application/json'' then ret (contentTypeInvalid r)
     else case decodeBody 65536 names decode r of None \<Rightarrow> ret (requestInvalid r) | Some input \<Rightarrow> next input)"

definition audit :: "Handler \<Rightarrow> Request \<Rightarrow> Admin \<Rightarrow> AuditContext" where
  "audit h r admin = \<lparr>AdminID = Admin_ID admin, IPAddress = clientIP h r, UserAgent = header r ''User-Agent'', RequestID = rq_RequestID r, TraceID = rq_TraceID r\<rparr>"

definition hasPermission :: "string list \<Rightarrow> string \<Rightarrow> bool" where "hasPermission granted wanted = List.member granted wanted"

definition dashboard :: "adminReads \<Rightarrow> Request \<Rightarrow> Admin \<Rightarrow> Response io" where
  "dashboard rd r admin = answerWith (adminError r) (\<lambda>v. JSON r 200 (Item v)) (Dashboard_admin rd)"

definition list_admin :: "adminReads \<Rightarrow> string \<Rightarrow> Request \<Rightarrow> Admin \<Rightarrow> Response io" where
  "list_admin rd resource r admin = answerWith (adminError r) (\<lambda>items. JSON r 200 (Items items)) (List_admin rd resource)"

definition instance_admin :: "adminReads \<Rightarrow> Request \<Rightarrow> Admin \<Rightarrow> Response io" where
  "instance_admin rd r admin = withID idInvalid r (\<lambda>u. answerWith (adminError r) (\<lambda>item. JSON r 200 (Item item))
     (Instance_admin rd u (hasPermission (Admin_Permissions admin) ''providers.manage'')))"

definition operation_admin :: "adminReads \<Rightarrow> Request \<Rightarrow> Admin \<Rightarrow> Response io" where
  "operation_admin rd r admin = withID idInvalid r (\<lambda>u. answerWith (adminError r) (\<lambda>item. JSON r 200 (Item item))
     (Operation_admin rd u (hasPermission (Admin_Permissions admin) ''operations.retry'')))"

definition updateUserStatus :: "Handler \<Rightarrow> Request \<Rightarrow> Admin \<Rightarrow> Response io" where
  "updateUserStatus h r admin = withID idInvalid r (\<lambda>u. decode_admin [''status''] (strField ''status'') r (\<lambda>status.
     answerWith (adminError r) (\<lambda>item. JSON r 200 (Item item)) (UpdateUserStatus_svc u status (audit h r admin))))"

definition decodeAdjustment :: "env \<Rightarrow> json \<Rightarrow> (uuid \<times> string \<times> int \<times> string) option" where
  "decodeAdjustment e j = (case (uuidField e ''user_id'' j, strField ''currency'' j, intField ''amount_minor'' j, strField ''description'' j) of
     (Some u, Some c, Some a, Some d) \<Rightarrow> Some (u, c, a, d) | _ \<Rightarrow> None)"

definition adjustWallet :: "Handler \<Rightarrow> Request \<Rightarrow> Admin \<Rightarrow> Response io" where
  "adjustWallet h r admin = bnd (asks (\<lambda>e. decodeAdjustment e)) (\<lambda>decode.
     decode_admin [''user_id'', ''currency'', ''amount_minor'', ''description''] decode r (\<lambda>(u, currency, amount, description).
     answerWith (adminError r) (\<lambda>item. JSON r 201 (Item item)) (AdjustWallet_svc u currency amount description (audit h r admin))))"

definition replyTicket :: "Handler \<Rightarrow> Request \<Rightarrow> Admin \<Rightarrow> Response io" where
  "replyTicket h r admin = withID idInvalid r (\<lambda>u. decode_admin [''message''] (strField ''message'') r (\<lambda>text.
     answerWith (adminError r) (\<lambda>item. JSON r 201 (Item item)) (ReplyTicket_svc u text (audit h r admin))))"

definition updateTicketStatus :: "Handler \<Rightarrow> Request \<Rightarrow> Admin \<Rightarrow> Response io" where
  "updateTicketStatus h r admin = withID idInvalid r (\<lambda>u. decode_admin [''status''] (strField ''status'') r (\<lambda>status.
     answerWith (adminError r) (\<lambda>item. JSON r 200 (Item item)) (UpdateTicketStatus_svc u status (audit h r admin))))"

definition decodeSetting :: "json \<Rightarrow> (json \<times> bool) option" where
  "decodeSetting j = map_option (\<lambda>secret. (case field ''value'' j of None \<Rightarrow> JNull | Some v \<Rightarrow> v, secret)) (boolField ''is_secret'' j)"

definition updateSetting :: "Handler \<Rightarrow> Request \<Rightarrow> Admin \<Rightarrow> Response io" where
  "updateSetting h r admin = decode_admin [''value'', ''is_secret''] decodeSetting r (\<lambda>(v, secret).
     answerWith (adminError r) (\<lambda>item. JSON r 200 (Item item)) (UpdateSetting_svc (at_key (rq_Params r) ''key'') v secret (audit h r admin)))"

definition setAdminRoles :: "Handler \<Rightarrow> Request \<Rightarrow> Admin \<Rightarrow> Response io" where
  "setAdminRoles h r admin = withID idInvalid r (\<lambda>u. decode_admin [''roles''] (listField ''roles'' textOf) r (\<lambda>names.
     answerWith (adminError r) (\<lambda>item. JSON r 200 (Item item)) (SetAdminRoles_svc u names (audit h r admin))))"

section \<open>Routes\<close>

datatype handler = Public "Request \<Rightarrow> Response io" | Limited "Request \<Rightarrow> limited" | ForUser "Request \<Rightarrow> User \<Rightarrow> Response io"
  | ForAdmin string "Request \<Rightarrow> Admin \<Rightarrow> Response io"

type_synonym routes = "((string \<times> string) \<times> handler) list"

text \<open>What the server brings besides its services: the statements of the administrative views, and what the event stream reads and writes to.\<close>

record Server =
  sv_reads :: adminReads
  sv_flushes :: bool
  sv_stream :: "(string \<Rightarrow> xread) list"

definition commerceRoutes :: "crypto \<Rightarrow> string \<Rightarrow> bool \<Rightarrow> routes" where
  "commerceRoutes c secret fakePaymentEnabled =
     [((''GET'', ''/api/v1/products''), Public listProducts), ((''GET'', ''/api/v1/orders''), ForUser listOrders),
      ((''POST'', ''/api/v1/orders''), ForUser createOrder), ((''GET'', ''/api/v1/invoices''), ForUser listInvoices),
      ((''GET'', ''/api/v1/wallet''), ForUser wallet)] @
     (if fakePaymentEnabled then [((''POST'', ''/api/v1/webhooks/payments/fake''), Public (fakeWebhook c secret))] else [])"

definition subscriptionRoutes :: routes where
  "subscriptionRoutes = [((''GET'', ''/api/v1/subscriptions''), ForUser list_subscriptions),
     ((''POST'', ''/api/v1/subscriptions/{id}/renewals''), ForUser renew),
     ((''PUT'', ''/api/v1/subscriptions/{id}/cancel-at-period-end''), ForUser setCancelAtPeriodEnd)]"

definition operationRoutes :: "Server \<Rightarrow> routes" where
  "operationRoutes sv = [((''GET'', ''/api/v1/operations/{id}''), ForUser get_operation),
     ((''GET'', ''/api/v1/events''), ForUser (events (sv_flushes sv) (sv_stream sv)))]"

definition portalRoutes :: routes where
  "portalRoutes = [((''GET'', ''/api/v1/instances''), ForUser listInstances), ((''GET'', ''/api/v1/instances/{id}''), ForUser getInstance),
     ((''GET'', ''/api/v1/instances/{id}/networks''), ForUser listNetworks), ((''GET'', ''/api/v1/instances/{id}/traffic''), ForUser listTraffic),
     ((''POST'', ''/api/v1/instances/{id}/{action}''), ForUser instanceAction), ((''GET'', ''/api/v1/notifications''), ForUser listNotifications),
     ((''PUT'', ''/api/v1/notifications/{id}/read''), ForUser markNotificationRead), ((''GET'', ''/api/v1/tickets''), ForUser listTickets),
     ((''POST'', ''/api/v1/tickets''), ForUser createTicket), ((''GET'', ''/api/v1/tickets/{id}''), ForUser getTicket),
     ((''POST'', ''/api/v1/tickets/{id}/messages''), ForUser addTicketMessage)]"

definition adminListings :: "(string \<times> string \<times> string) list" where
  "adminListings = [(''/api/v1/admin/users'', ''users'', ''users.read''), (''/api/v1/admin/products'', ''products'', ''products.read''),
     (''/api/v1/admin/orders'', ''orders'', ''orders.read''), (''/api/v1/admin/payments'', ''payments'', ''payments.read''),
     (''/api/v1/admin/ledger'', ''ledger'', ''ledger.read''), (''/api/v1/admin/subscriptions'', ''subscriptions'', ''subscriptions.read''),
     (''/api/v1/admin/instances'', ''instances'', ''instances.read''), (''/api/v1/admin/nodes'', ''nodes'', ''nodes.read''),
     (''/api/v1/admin/providers'', ''providers'', ''providers.read''), (''/api/v1/admin/operations'', ''operations'', ''operations.read''),
     (''/api/v1/admin/tickets'', ''tickets'', ''tickets.read''), (''/api/v1/admin/audit'', ''audit'', ''audit.read''),
     (''/api/v1/admin/admins'', ''admins'', ''admins.read''), (''/api/v1/admin/roles'', ''roles'', ''roles.read''),
     (''/api/v1/admin/settings'', ''settings'', ''settings.read'')]"

definition adminRoutes :: "Handler \<Rightarrow> adminReads \<Rightarrow> routes" where
  "adminRoutes h rd = ((''GET'', ''/api/v1/admin/dashboard''), ForAdmin ''health.read'' (dashboard rd)) #
     map (\<lambda>(path, resource, permission). ((''GET'', path), ForAdmin permission (list_admin rd resource))) adminListings @
     [((''GET'', ''/api/v1/admin/instances/{id}''), ForAdmin ''instances.read'' (instance_admin rd)),
      ((''GET'', ''/api/v1/admin/operations/{id}''), ForAdmin ''operations.read'' (operation_admin rd)),
      ((''PATCH'', ''/api/v1/admin/users/{id}/status''), ForAdmin ''users.suspend'' (updateUserStatus h)),
      ((''POST'', ''/api/v1/admin/ledger/adjustments''), ForAdmin ''ledger.adjust'' (adjustWallet h)),
      ((''POST'', ''/api/v1/admin/tickets/{id}/messages''), ForAdmin ''tickets.reply'' (replyTicket h)),
      ((''PATCH'', ''/api/v1/admin/tickets/{id}/status''), ForAdmin ''tickets.manage'' (updateTicketStatus h)),
      ((''PUT'', ''/api/v1/admin/settings/{key}''), ForAdmin ''settings.manage'' (updateSetting h)),
      ((''PUT'', ''/api/v1/admin/admins/{id}/roles''), ForAdmin ''admins.manage'' (setAdminRoles h))]"

text \<open>The handlers of the identity routes look for the session themselves.\<close>

definition authRoutes :: "Handler \<Rightarrow> routes" where
  "authRoutes h = [((''POST'', ''/api/v1/auth/register''), Limited (registerUser h)), ((''POST'', ''/api/v1/auth/login''), Limited (loginUser h)),
     ((''GET'', ''/api/v1/auth/me''), Public (userMe h)), ((''POST'', ''/api/v1/auth/logout''), Public (logoutUser h)),
     ((''POST'', ''/api/v1/admin/auth/login''), Limited (loginAdmin h)),
     ((''GET'', ''/api/v1/admin/auth/me''), Public (adminMe h)), ((''POST'', ''/api/v1/admin/auth/logout''), Public (logoutAdmin h)),
     ((''POST'', ''/api/v1/admin/auth/totp/setup''), Public (setupAdminTOTP h)), ((''POST'', ''/api/v1/admin/auth/totp/enable''), Public (enableAdminTOTP h))]"

definition api :: "Handler \<Rightarrow> Server \<Rightarrow> string \<Rightarrow> bool \<Rightarrow> routes" where
  "api h sv secret fakePaymentEnabled = authRoutes h @ commerceRoutes (svc_crypto (hd_service h)) secret fakePaymentEnabled @ subscriptionRoutes @
     operationRoutes sv @ portalRoutes @ adminRoutes h (sv_reads sv)"

definition unlimited :: "Response io \<Rightarrow> limited" where "unlimited m l = bnd m (\<lambda>res. ret (res, l))"

definition serveHandler :: "Handler \<Rightarrow> handler \<Rightarrow> Request \<Rightarrow> limited" where
  "serveHandler h f r = (case f of Public next \<Rightarrow> unlimited (next r) | Limited next \<Rightarrow> next r
     | ForUser next \<Rightarrow> unlimited (RequireUser h next r) | ForAdmin permission next \<Rightarrow> unlimited (RequireAdmin h permission next r))"

text \<open>The method of the request selects the route; the router itself answers for what is not there.\<close>

definition serveRoute :: "Handler \<Rightarrow> Server \<Rightarrow> string \<Rightarrow> bool \<Rightarrow> string \<Rightarrow> Request \<Rightarrow> limited" where
  "serveRoute h sv secret fakePaymentEnabled pattern r = (case map_of (api h sv secret fakePaymentEnabled) (rq_Method r, pattern) of
     None \<Rightarrow> unlimited (ret (Error r (if list_ex (\<lambda>rt. snd (fst rt) = pattern) (api h sv secret fakePaymentEnabled) then 405 else 404) [] []))
   | Some f \<Rightarrow> serveHandler h f r)"

end
