(* ===== verification/Security_Laws.thy ===== *)
theory Security_Laws
  imports Security Samples
begin

text \<open>
  What the security packages promise: a password verifies against its own hash and no other key does, a one-time
  password is accepted in its period and the two neighbouring ones, a limiter admits no more than its limit
  in a window.
\<close>

section \<open>Base64\<close>

definition letters :: "string \<Rightarrow> bool" where
  "letters al \<longleftrightarrow> length al = 64 \<and> distinct al \<and> CHR 0x0A \<notin> set al \<and> CHR 0x0D \<notin> set al"

lemma letters_std: "letters stdLetters"
  by code_simp

lemma sextet_nth:
  assumes al: "letters al" and n: "n < 64"
  shows "sextet al (al ! n) = Some n"
proof -
  have "distinct (map ((!) al) [0..<length al])" unfolding map_nth using al by (simp add: letters_def)
  from filter_pk[OF this, of n] al n have "filter (\<lambda>m. al ! m = al ! n) [0..<length al] = [n]"
    by (simp add: letters_def)
  then show ?thesis by (simp only: sextet_def list.case)
qed

fun sextetsOf :: "bytes \<Rightarrow> nat list" where
  "sextetsOf [] = []"
| "sextetsOf [a] = [a div 4, a mod 4 * 16]"
| "sextetsOf [a, b] = [a div 4, a mod 4 * 16 + b div 16, b mod 16 * 4]"
| "sextetsOf (a # b # c # bs) = [a div 4, a mod 4 * 16 + b div 16, b mod 16 * 4 + c div 64, c mod 64] @ sextetsOf bs"

lemma b64encode_sextets: "b64encode al bs = map ((!) al) (sextetsOf bs)"
  by (induction bs rule: sextetsOf.induct) auto

text \<open>A number written with the digits \<open>x\<close> and \<open>y\<close> in base \<open>k\<close>.\<close>

lemma two_digits:
  fixes x y k m :: nat
  assumes "y < k"
  shows "(x * k + y) div k = x" "(x * k + y) mod k = y" "x < m \<Longrightarrow> x * k + y < m * k"
proof -
  show "(x * k + y) div k = x" "(x * k + y) mod k = y" using assms by simp_all
  assume "x < m"
  then have "Suc x * k \<le> m * k" by (intro mult_le_mono1) simp
  with assms show "x * k + y < m * k" by simp
qed

lemma byte_parts: "(b::nat) < 256 \<Longrightarrow> b div 4 < 64" "b < 256 \<Longrightarrow> b div 16 < 16" "b < 256 \<Longrightarrow> b div 64 < 4"
  by (simp_all add: less_mult_imp_div_less)

lemma mixed_sextets:
  "(b::nat) < 256 \<Longrightarrow> a mod 4 * 16 + b div 16 < 64" "(c::nat) < 256 \<Longrightarrow> b mod 16 * 4 + c div 64 < 64" "a mod 4 * 16 < (64::nat)" "b mod 16 * 4 < (64::nat)"
  using two_digits(3)[OF byte_parts(2), of b "a mod 4" 4] two_digits(3)[OF byte_parts(3), of c "b mod 16" 16] by simp_all

lemma sextetsOf_bound: "isBytes bs \<Longrightarrow> list_all (\<lambda>n. n < 64) (sextetsOf bs)"
  by (induction bs rule: sextetsOf.induct) (simp_all add: isBytes_def byte_parts mixed_sextets)

lemma joinSextets_of: "isBytes bs \<Longrightarrow> joinSextets (sextetsOf bs) = Some bs"
  by (induction bs rule: sextetsOf.induct)
    (simp_all add: isBytes_def byte_parts two_digits(1,2)[OF byte_parts(2)] two_digits(1,2)[OF byte_parts(3)])

lemma b64decode_encode:
  assumes al: "letters al" and bs: "isBytes bs"
  shows "b64decode al (b64encode al bs) = Some bs"
proof -
  let ?cs = "b64encode al bs"
  have n: "\<forall>n\<in>set (sextetsOf bs). n < 64" using sextetsOf_bound[OF bs] by (simp add: list_all_iff)
  then have "set ?cs \<subseteq> set al" using al by (auto simp: b64encode_sextets letters_def)
  then have "filter (\<lambda>c. c \<noteq> CHR 0x0A \<and> c \<noteq> CHR 0x0D) ?cs = ?cs"
    using al by (auto simp: filter_id_conv letters_def)
  moreover have "\<forall>m\<in>set (sextetsOf bs). sextet al (al ! m) = Some m" using n al by (simp add: sextet_nth)
  then have "list_all (\<lambda>c. sextet al c \<noteq> None) ?cs" "map (\<lambda>c. the (sextet al c)) ?cs = sextetsOf bs"
    by (auto simp: b64encode_sextets list_all_iff intro: map_idI)
  ultimately show ?thesis using joinSextets_of[OF bs] by (simp add: b64decode_def)
qed

section \<open>Passwords\<close>

lemma splitOn_end: "sep \<notin> set a \<Longrightarrow> splitOn sep a = [a]"
  by (induction a) auto

lemma splitOn_part: "sep \<notin> set a \<Longrightarrow> splitOn sep (a @ sep # b) = a # splitOn sep b"
  by (induction a) auto

lemma b64encode_plain:
  assumes "isBytes bs" shows "CHR ''$'' \<notin> set (b64encode stdLetters bs)"
proof -
  have "\<forall>n\<in>set (sextetsOf bs). n < 64" using sextetsOf_bound[OF assms] by (simp add: list_all_iff)
  then have "set (b64encode stdLetters bs) \<subseteq> set stdLetters"
    using letters_std by (auto simp: b64encode_sextets letters_def)
  moreover have "CHR ''$'' \<notin> set stdLetters" by code_simp
  ultimately show ?thesis by blast
qed

text \<open>What is relied on of \<open>crypto/rand\<close> and argon2: they yield as many bytes as they are asked for.\<close>

definition soundCrypto :: "crypto \<Rightarrow> bool" where
  "soundCrypto c \<longleftrightarrow> (\<forall>n k r. randomBytes c n k = Some r \<longrightarrow> length r = k \<and> isBytes r) \<and>
     (\<forall>x s. length (idKey c x s) = 32 \<and> isBytes (idKey c x s))"

lemma Verify_encoded:
  assumes salt: "isBytes salt" "length salt = 16" and key: "isBytes key" "length key = 32"
  shows "Verify c (''$argon2id$v=19$m=19456,t=2,p=1$'' @ b64encode stdLetters salt @ ''$'' @ b64encode stdLetters key) v \<longleftrightarrow>
    idKey c (bytesOf v) salt = key"
proof -
  let ?salt = "b64encode stdLetters salt" and ?key = "b64encode stdLetters key" and ?d = "CHR ''$''"
  have eq: "''$argon2id$v=19$m=19456,t=2,p=1$'' @ ?salt @ ''$'' @ ?key =
    [] @ ?d # (''argon2id'' @ ?d # (''v=19'' @ ?d # (''m=19456,t=2,p=1'' @ ?d # (?salt @ ?d # ?key))))" by simp
  have parts: "splitOn ?d ([] @ ?d # (''argon2id'' @ ?d # (''v=19'' @ ?d # (''m=19456,t=2,p=1'' @ ?d # (?salt @ ?d # ?key))))) =
    [[], ''argon2id'', ''v=19'', ''m=19456,t=2,p=1'', ?salt, ?key]"
  proof -
    have "?d \<notin> set []" "?d \<notin> set ''argon2id''" "?d \<notin> set ''v=19''" "?d \<notin> set ''m=19456,t=2,p=1''" by simp_all
    then show ?thesis
      by (simp only: splitOn_part splitOn_end b64encode_plain[OF salt(1)] b64encode_plain[OF key(1)] not_False_eq_True)
  qed
  have "splitOn ?d (''$argon2id$v=19$m=19456,t=2,p=1$'' @ ?salt @ ''$'' @ ?key) =
    [[], ''argon2id'', ''v=19'', ''m=19456,t=2,p=1'', ?salt, ?key]" by (simp only: eq parts)
  moreover have "scanParams ''m=19456,t=2,p=1'' = Some (19456, 2, 1)" by code_simp
  ultimately show ?thesis
    using salt key by (simp add: Verify_def b64decode_encode[OF letters_std])
qed

text \<open>
  C37: hashing and verifying a password are inverse. A hash is produced only for a password of 12 to 128
  characters, and it verifies exactly those inputs that argon2 maps to the same key under the salt it
  carries; in particular the password itself.
\<close>

theorem Verify_Hash:
  assumes run: "Hash c v e w = (Inr h, w')" and crypto: "soundCrypto c"
  shows "12 \<le> length v \<and> length v \<le> 128 \<and> Verify c h v \<and> wdb w' = wdb w \<and>
    (\<exists>salt. length salt = 16 \<and> (\<forall>v'. Verify c h v' \<longleftrightarrow> idKey c (bytesOf v') salt = idKey c (bytesOf v) salt))"
proof -
  from run obtain n salt where len: "12 \<le> length v" "length v \<le> 128" and salt: "randomBytes c n 16 = Some salt"
    and h: "h = ''$argon2id$v=19$m=19456,t=2,p=1$'' @ b64encode stdLetters salt @ ''$'' @ b64encode stdLetters (idKey c (bytesOf v) salt)"
    and w': "wdb w' = wdb w"
    by (auto simp: Hash_def MinLength_def MaxLength_def bnd_ok newID_ok raise_ok ret_ok split: if_splits option.splits)
  from crypto salt have s: "isBytes salt" "length salt = 16" by (auto simp: soundCrypto_def)
  have k: "isBytes (idKey c (bytesOf v) salt)" "length (idKey c (bytesOf v) salt) = 32" using crypto by (auto simp: soundCrypto_def)
  have "Verify c h v' \<longleftrightarrow> idKey c (bytesOf v') salt = idKey c (bytesOf v) salt" for v'
    unfolding h by (rule Verify_encoded[OF s k])
  with len s w' show ?thesis by blast
qed

section \<open>One-time passwords\<close>

lemma length_digits: "n < 10 ^ k \<Longrightarrow> 0 < k \<Longrightarrow> length (digits n) \<le> k"
proof (induction n arbitrary: k rule: digits.induct)
  case (1 n)
  show ?case
  proof (cases "n < 10")
    case False
    then have "k \<noteq> 1" using 1(2) by auto
    with 1(3) obtain j where k: "k = Suc j" "0 < j" by (cases k) auto
    with 1(2) have "n div 10 < 10 ^ j" by auto
    from 1(1)[OF False this k(2)] False k show ?thesis by (subst digits.simps) simp
  qed (use 1(3) in \<open>subst digits.simps, simp\<close>)
qed

lemma length_sixDigits: "n < 1000000 \<Longrightarrow> length (sixDigits n) = 6"
  using length_digits[of n 6] by (simp add: sixDigits_def Let_def)

lemma generate_step: "timeStep t = timeStep t' \<Longrightarrow> generate c secret t = generate c secret t'"
  by (simp only: generate_def)

lemma length_generate: "length (generate c secret t) = (if base32Decode c (ToUpper secret) = None then 0 else 6)"
  by (auto simp: generate_def length_sixDigits split: option.splits)

lemma timeStep_shift:
  assumes "0 \<le> now" "0 \<le> now + k * period"
  shows "timeStep (now + k * period) = timeStep now + k"
proof -
  have "k * period = k * 30 * second" by (simp add: period_def)
  then have "(now + k * period) div second = now div second + k * 30" by (simp only: div_mult_self1)
  moreover have "0 \<le> now div second" "0 \<le> (now + k * period) div second"
    using assms by (simp_all only: pos_imp_zdiv_nonneg_iff)
  ultimately show ?thesis by (simp add: timeStep_def Let_def)
qed

text \<open>
  C39: a one-time password is good for its own period and the two neighbouring ones, and for no other:
  whatever clock a code was computed on, it is accepted exactly if it has six digits and is the code of a
  period next to the server's. A secret that does not decode accepts nothing.
\<close>

theorem Validate_window:
  assumes now: "period \<le> now"
  shows "Validate c secret code now \<longleftrightarrow> base32Decode c (ToUpper secret) \<noteq> None \<and>
    (\<exists>t\<ge>0. \<bar>timeStep t - timeStep now\<bar> \<le> 1 \<and> code = generate c secret t)"
proof
  assume v: "Validate c secret code now"
  then obtain k where "k \<in> set [-1, 0, 1]" and code: "code = generate c secret (now + k * period)" and len: "length code = 6"
    by (auto simp only: Validate_def list_ex_iff)
  then have k: "k \<in> {-1, 0, 1}" by simp
  have pos: "0 \<le> now + k * period" "0 \<le> now" using k now by (auto simp: period_def)
  from code len have "base32Decode c (ToUpper secret) \<noteq> None" by (auto simp: length_generate split: if_splits)
  moreover have "\<bar>timeStep (now + k * period) - timeStep now\<bar> \<le> 1" using timeStep_shift[OF pos(2,1)] k by auto
  ultimately show "base32Decode c (ToUpper secret) \<noteq> None \<and> (\<exists>t\<ge>0. \<bar>timeStep t - timeStep now\<bar> \<le> 1 \<and> code = generate c secret t)"
    using pos code by blast
next
  assume "base32Decode c (ToUpper secret) \<noteq> None \<and> (\<exists>t\<ge>0. \<bar>timeStep t - timeStep now\<bar> \<le> 1 \<and> code = generate c secret t)"
  then obtain t where dec: "base32Decode c (ToUpper secret) \<noteq> None" and t: "\<bar>timeStep t - timeStep now\<bar> \<le> 1" "code = generate c secret t" by blast
  define k where "k = timeStep t - timeStep now"
  have k: "k \<in> {-1, 0, 1}" using t(1) by (auto simp: k_def)
  then have "0 \<le> now" "0 \<le> now + k * period" using now by (auto simp: period_def)
  from timeStep_shift[OF this] have "timeStep (now + k * period) = timeStep t" by (simp add: k_def)
  then have "generate c secret (now + k * period) = code" using t(2) generate_step by metis
  then have "list_ex (\<lambda>offset. generate c secret (now + offset * period) = code) [-1, 0, 1]" using k by auto
  then show "Validate c secret code now" using t(2) dec length_generate[of c secret t] by (simp add: Validate_def)
qed

section \<open>Rate limits\<close>

primrec admitted :: "string \<Rightarrow> string \<Rightarrow> nat \<Rightarrow> duration \<Rightarrow> time list \<Rightarrow> limiter \<Rightarrow> bool list" where
  "admitted prefix key limit window [] l = []"
| "admitted prefix key limit window (now # ts) l = (case Allow prefix key limit window now l of
     (ok, l') \<Rightarrow> ok # admitted prefix key limit window ts l')"

lemma admitted_running:
  assumes "l (prefix @ key) = Some (count, expires)" "\<forall>t\<in>set ts. t < expires"
  shows "length (filter (\<lambda>ok. ok) (admitted prefix key limit window ts l)) = min (limit - count) (length ts)"
  using assms
proof (induction ts arbitrary: l count)
  case (Cons t ts)
  let ?l = "l(prefix @ key \<mapsto> (count + 1, expires))"
  have "length (filter (\<lambda>ok. ok) (admitted prefix key limit window ts ?l)) = min (limit - (count + 1)) (length ts)"
    using Cons.prems by (intro Cons.IH) auto
  with Cons.prems show ?case by (auto simp: Allow_def fixedWindow_def)
qed simp

text \<open>
  C40: the limiter admits exactly its limit. Of all the calls with one key that fall into the window the
  first of them opened, the first \<open>limit\<close> are admitted and all others are refused.
\<close>

theorem Allow_limit:
  assumes fresh: "case l (prefix @ key) of None \<Rightarrow> True | Some (count, expires) \<Rightarrow> expires \<le> t"
    and inside: "\<forall>x\<in>set ts. x < t + window div 1000000 * 1000000" and limit: "0 < limit"
  shows "length (filter (\<lambda>ok. ok) (admitted prefix key limit window (t # ts) l)) = min limit (length (t # ts))"
proof -
  let ?l = "l(prefix @ key \<mapsto> (1, t + window div 1000000 * 1000000))"
  have "Allow prefix key limit window t l = (True, ?l)"
    using fresh limit by (auto simp: Allow_def fixedWindow_def split: option.splits)
  moreover have "length (filter (\<lambda>ok. ok) (admitted prefix key limit window ts ?l)) = min (limit - 1) (length ts)"
    using admitted_running[of ?l prefix key 1 _ ts limit window] inside by simp
  ultimately show ?thesis using limit by (auto simp: min_def)
qed

section \<open>Witnesses\<close>

definition crypto0 :: crypto where
  "crypto0 = \<lparr>randomBytes = (\<lambda>n k. Some (replicate k (unat n mod 256))), idKey = (\<lambda>v s. replicate 32 (length v mod 256)),
     hmacSHA256 = (\<lambda>k m. replicate 32 ((length k + length m) mod 256)), hmacSHA1 = (\<lambda>k m. replicate 20 (last m mod 256)),
     base32Encode = (\<lambda>b. ''A''), base32Decode = (\<lambda>s. Some [1]), seal = (\<lambda>n s. bytesOf s), unseal = (\<lambda>n s. Some (map char_of s))\<rparr>"

lemma crypto0_sound: "soundCrypto crypto0"
  by (auto simp: soundCrypto_def crypto0_def isBytes_def list_all_iff)

theorem Verify_Hash_witness:
  "\<exists>h w'. Hash crypto0 ''correct horse battery'' env0 world0 = (Inr h, w') \<and> Verify crypto0 h ''correct horse battery''"
proof -
  have "\<exists>h w'. Hash crypto0 ''correct horse battery'' env0 world0 = (Inr h, w')"
    by (simp add: Hash_def MinLength_def MaxLength_def bnd_def newID_def crypto0_def ret_def)
  then obtain h w' where run: "Hash crypto0 ''correct horse battery'' env0 world0 = (Inr h, w')" by blast
  with Verify_Hash[OF run crypto0_sound] show ?thesis by blast
qed

theorem Validate_window_witness:
  "Validate crypto0 ''A'' (generate crypto0 ''A'' (100 * second)) (125 * second)"
proof -
  have "\<bar>timeStep (100 * second) - timeStep (125 * second)\<bar> \<le> 1" by (simp add: timeStep_def)
  moreover have "base32Decode crypto0 (ToUpper ''A'') \<noteq> None" by (simp add: crypto0_def)
  moreover have "(0::int) \<le> 100 * second" "period \<le> 125 * second" by (simp_all add: period_def)
  ultimately show ?thesis using Validate_window[of "125 * second" crypto0 "''A''" "generate crypto0 ''A'' (100 * second)"] by blast
qed

theorem Allow_limit_witness:
  "length (filter (\<lambda>ok. ok) (admitted ''login:'' ''a@b.c'' 2 minute [0, second, 2 * second] (\<lambda>_. None))) = 2"
  using Allow_limit[where l = "\<lambda>_. None" and prefix = "''login:''" and key = "''a@b.c''" and t = 0 and ts = "[second, 2 * second]"
    and window = minute and limit = 2] by simp

end
