(* ===== verification/Identity_Laws.thy ===== *)
theory Identity_Laws
  imports Identity Security_Laws
begin

text \<open>
  What the identity service promises: who holds a token is the user who logged in, until the session
  expires or is revoked, and then never again; administrators pass every factor they have enabled.
\<close>

section \<open>Runs\<close>

lemma UserCredentials_ok:
  assumes "UserCredentialsByEmail email e w = (Inr cred, w')"
  obtains u where "u \<in> set (users (wdb w))" "u_email u = email" "wdb w' = wdb w"
    "cred = \<lparr>Cred_ID = u_id u, Cred_Email = u_email u, Cred_PasswordHash = u_password_hash u, Cred_Status = u_status u,
      Cred_Locale = u_locale u, Cred_Timezone = u_timezone u, Cred_DisplayName = [], Cred_TwoFactor = False\<rparr>"
  using assms that
  by (auto simp: UserCredentialsByEmail_def bnd_ok pool_ok ret_ok GetUserByEmail_def selectOne_ok dest!: one_filter_Inr)

definition openedSession :: "Service \<Rightarrow> env \<Rightarrow> uuid \<Rightarrow> string \<Rightarrow> sessionRow list \<Rightarrow> sessionRow list \<Rightarrow> bool" where
  "openedSession s e owner digest t t' \<longleftrightarrow> (\<exists>rowID. t' = t @ [newSession e rowID owner digest (goNow e + sessionTTL s)] \<and>
     \<not> sessionConflict t (newSession e rowID owner digest (goNow e + sessionTTL s)))"

lemma newUserSession_ok:
  assumes run: "newUserSession s user e w = (Inr res, w')" and crypto: "soundCrypto (svc_crypto s)"
  shows "Principal res = user \<and> ar_Token res \<noteq> [] \<and> ar_CSRFToken res = CSRFToken (svc_crypto s) (userCSRFSecret s) (ar_Token res) \<and>
    present u_id (User_ID user) (users (wdb w)) \<and>
    wdb w' = (wdb w)\<lparr>access := (access (wdb w))\<lparr>user_sessions := user_sessions (access (wdb w'))\<rparr>\<rparr> \<and>
    openedSession s e (User_ID user) (Digest (svc_crypto s) (userSessionSecret s) (ar_Token res))
      (user_sessions (access (wdb w))) (user_sessions (access (wdb w')))"
proof -
  from run obtain token w1 w2 rowID where tok: "NewToken (svc_crypto s) e w = (Inr token, w1)"
    and cr: "CreateUserSession rowID (User_ID user) (Digest (svc_crypto s) (userSessionSecret s) token) (goNow e + sessionTTL s) e w2 = (Inr (), w')"
    and w2: "wdb w2 = wdb w1"
    and res: "res = \<lparr>Principal = user, ar_CSRFToken = CSRFToken (svc_crypto s) (userCSRFSecret s) token, ar_Token = token\<rparr>"
    by (auto simp: newUserSession_def bnd_ok newID_ok asks_ok ret_ok)
  from tok obtain n r where r: "randomBytes (svc_crypto s) n 32 = Some r" "token = b64encode urlLetters r" and w1: "wdb w1 = wdb w"
    by (auto simp: NewToken_def bnd_ok newID_ok raise_ok ret_ok split: option.splits)
  from r(1) crypto have "length r = 32" by (auto simp: soundCrypto_def)
  then obtain a b c bs where "r = a # b # c # bs" by (auto simp: numeral_eq_Suc length_Suc_conv)
  then have ne: "token \<noteq> []" by (simp add: r(2))
  from cr w1 w2 have "present u_id (User_ID user) (users (wdb w))"
    "\<not> sessionConflict (user_sessions (access (wdb w))) (newSession e rowID (User_ID user) (Digest (svc_crypto s) (userSessionSecret s) token) (goNow e + sessionTTL s))"
    "wdb w' = (wdb w)\<lparr>access := (access (wdb w))\<lparr>user_sessions := user_sessions (access (wdb w)) @
      [newSession e rowID (User_ID user) (Digest (svc_crypto s) (userSessionSecret s) token) (goNow e + sessionTTL s)]\<rparr>\<rparr>"
    by (auto simp: CreateUserSession_def bnd_ok ret_ok pool_ok CreateUserSession_q_def Let_def insertInto_ok)
  then show ?thesis using res ne by (auto simp: openedSession_def)
qed

text \<open>Whom a token stands for.\<close>

definition holder :: "Service \<Rightarrow> env \<Rightarrow> string \<Rightarrow> db \<Rightarrow> userRow \<Rightarrow> sessionRow \<Rightarrow> bool" where
  "holder s e token d u ses \<longleftrightarrow> token \<noteq> [] \<and> ses \<in> set (user_sessions (access d)) \<and>
     activeSession e (Digest (svc_crypto s) (userSessionSecret s) token) ses \<and> u \<in> set (users d) \<and> u_id u = se_owner ses \<and> u_status u = ''active''"

definition authenticated :: "Service \<Rightarrow> string \<Rightarrow> userRow \<Rightarrow> User AuthResult" where
  "authenticated s token u = \<lparr>Principal = userOf u, ar_CSRFToken = CSRFToken (svc_crypto s) (userCSRFSecret s) token, ar_Token = token\<rparr>"

definition onlyTouched :: "env \<Rightarrow> db \<Rightarrow> db \<Rightarrow> bool" where
  "onlyTouched e d d' \<longleftrightarrow> d' = d \<or> (\<exists>i. d' = d\<lparr>access := (access d)\<lparr>user_sessions := touched e i (user_sessions (access d))\<rparr>\<rparr>)"

lemma UserBySession_ok:
  assumes "UserBySession digest e w = (Inr (user, i), w')"
  obtains ses u where "ses \<in> set (user_sessions (access (wdb w)))" "activeSession e digest ses" "u \<in> set (users (wdb w))" "u_id u = se_owner ses"
    "user = userOf u" "i = se_id ses" "wdb w' = wdb w"
  using assms that
  by (auto simp: UserBySession_def bnd_ok orNoRows_ok pool_ok ret_ok GetActiveUserSession_def selectOne_ok split: if_splits dest!: one_in)

text \<open>
  A request is answered in the name of a user only if it carries the token of a session of that user
  that has neither expired nor been revoked, and the account is active. Authenticating changes nothing
  but the time the session was last seen.
\<close>

theorem AuthenticateUser_sound:
  assumes run: "AuthenticateUser s token e w = (Inr res, w')"
  shows "\<exists>u ses. holder s e token (wdb w) u ses \<and> res = authenticated s token u \<and> onlyTouched e (wdb w) (wdb w')"
proof -
  let ?digest = "Digest (svc_crypto s) (userSessionSecret s) token"
  from run obtain user i w1 where ne: "token \<noteq> []" and found: "UserBySession ?digest e w = (Inr (user, i), w1)" and act: "User_Status user = ''active''"
    and rest: "bnd (attempt (TouchUserSession i)) (\<lambda>_. ret \<lparr>Principal = user, ar_CSRFToken = CSRFToken (svc_crypto s) (userCSRFSecret s) token, ar_Token = token\<rparr>) e w1 = (Inr res, w')"
    by (auto simp: AuthenticateUser_def raise_ok split: if_splits prod.splits elim!: tryE)
  from found obtain ses u where ses: "ses \<in> set (user_sessions (access (wdb w)))" "activeSession e ?digest ses" "u \<in> set (users (wdb w))" "u_id u = se_owner ses"
    and user: "user = userOf u" and w1: "wdb w1 = wdb w" by (rule UserBySession_ok)
  from user act have "u_status u = ''active''" by (simp add: userOf_def)
  with ses ne have "holder s e token (wdb w) u ses" by (simp add: holder_def)
  moreover from rest user have "res = authenticated s token u" by (auto simp: bnd_ok attempt_ok ret_ok authenticated_def)
  moreover from rest w1 have "onlyTouched e (wdb w) (wdb w')"
    by (auto simp: bnd_def attempt_def ret_def TouchUserSession_def pool_def TouchUserSession_q_def onlyTouched_def split: fault.splits)
  ultimately show ?thesis by blast
qed

section \<open>Logging in\<close>

lemma join_filter: "concat (map (\<lambda>u. if Q u then [(s, u)] else []) us) = map (Pair s) (filter Q us)"
  by (induction us) auto

lemma activeSession_new:
  "activeSession e2 digest (newSession e rowID owner digest t) \<longleftrightarrow> pgNow e2 < t"
  by (simp add: activeSession_def newSession_def)

lemma AuthenticateUser_opened:
  assumes opened: "openedSession s e (u_id u) (Digest (svc_crypto s) (userSessionSecret s) token) t (user_sessions (access (wdb w)))"
    and u: "u \<in> set (users (wdb w))" "distinct (map u_id (users (wdb w)))" "u_status u = ''active''"
    and quiet: "\<forall>n. faults e2 n = NoFault" and time: "pgNow e2 < goNow e + sessionTTL s" and ne: "token \<noteq> []"
  shows "\<exists>w2. AuthenticateUser s token e2 w = (Inr (authenticated s token u), w2)"
proof -
  let ?digest = "Digest (svc_crypto s) (userSessionSecret s) token"
  from opened obtain rowID where t: "user_sessions (access (wdb w)) = t @ [newSession e rowID (u_id u) ?digest (goNow e + sessionTTL s)]"
    and new: "\<not> sessionConflict t (newSession e rowID (u_id u) ?digest (goNow e + sessionTTL s))" by (auto simp: openedSession_def)
  define ses where "ses = newSession e rowID (u_id u) ?digest (goNow e + sessionTTL s)"
  have old: "\<not> activeSession e2 ?digest x" if "x \<in> set t" for x
    using new that by (auto simp: sessionConflict_def conflicts_def list_ex_iff activeSession_def newSession_def)
  have act: "activeSession e2 ?digest ses" using time by (simp add: ses_def activeSession_new)
  have owner: "se_owner ses = u_id u" by (simp add: ses_def newSession_def)
  have "[(x, v). x \<leftarrow> user_sessions (access (wdb w)), activeSession e2 ?digest x, v \<leftarrow> users (wdb w), u_id v = se_owner x] = [(ses, u)]"
    using old act filter_pk[OF u(2,1)] by (simp add: t flip: ses_def add: join_filter owner)
  then have "GetActiveUserSession ?digest e2 (wdb w) = Inr ((ses, u), wdb w)"
    by (simp add: GetActiveUserSession_def selectOne_def one_def)
  then have "UserBySession ?digest e2 w = (Inr (userOf u, se_id ses), (tick w)\<lparr>wdb := wdb w\<rparr>)"
    using quiet by (simp add: UserBySession_def bnd_def orNoRows_def attempt_def ret_def pool_def)
  moreover have "User_Status (userOf u) = ''active''" using u(3) by (simp add: userOf_def)
  ultimately show ?thesis
    using quiet ne by (simp add: AuthenticateUser_def bnd_def attempt_def ret_def TouchUserSession_def pool_def TouchUserSession_q_def authenticated_def)
qed

text \<open>
  C36: logging in gives the caller a session. A login succeeds only for an active account with that
  address whose stored hash verifies the password; the token it returns is then accepted, with the same
  principal and CSRF token, until its lifetime is over.
\<close>

theorem LoginUser_opens:
  assumes run: "LoginUser s email rawPassword e w = (Inr res, w1)" and crypto: "soundCrypto (svc_crypto s)"
    and ids: "distinct (map u_id (users (wdb w)))"
  shows "\<exists>u\<in>set (users (wdb w)). u_email u = normalizeEmail email \<and> Verify (svc_crypto s) (u_password_hash u) rawPassword \<and>
    u_status u = ''active'' \<and> res = authenticated s (ar_Token res) u \<and>
    (\<forall>e2. (\<forall>n. faults e2 n = NoFault) \<and> pgNow e2 < goNow e + sessionTTL s \<longrightarrow>
      (\<exists>w2. AuthenticateUser s (ar_Token res) e2 w1 = (Inr res, w2)))"
proof -
  from run obtain cred w0 where cred: "UserCredentialsByEmail (normalizeEmail email) e w = (Inr cred, w0)"
    and ok: "Verify (svc_crypto s) (Cred_PasswordHash cred) rawPassword" "Cred_Status cred = ''active''"
    and new: "newUserSession s \<lparr>User_ID = Cred_ID cred, User_Email = Cred_Email cred, User_Status = Cred_Status cred,
         User_Locale = Cred_Locale cred, User_Timezone = Cred_Timezone cred\<rparr> e w0 = (Inr res, w1)"
    by (auto simp: LoginUser_def Let_def bnd_ok attempt_ok raise_ok split: if_splits sum.splits)
  from cred obtain u where u: "u \<in> set (users (wdb w))" "u_email u = normalizeEmail email" and w0: "wdb w0 = wdb w"
    and c: "cred = \<lparr>Cred_ID = u_id u, Cred_Email = u_email u, Cred_PasswordHash = u_password_hash u, Cred_Status = u_status u,
      Cred_Locale = u_locale u, Cred_Timezone = u_timezone u, Cred_DisplayName = [], Cred_TwoFactor = False\<rparr>"
    by (rule UserCredentials_ok)
  have user: "\<lparr>User_ID = Cred_ID cred, User_Email = Cred_Email cred, User_Status = Cred_Status cred,
         User_Locale = Cred_Locale cred, User_Timezone = Cred_Timezone cred\<rparr> = userOf u" by (simp add: c userOf_def)
  from newUserSession_ok[OF new[unfolded user] crypto] w0 have ses: "openedSession s e (u_id u) (Digest (svc_crypto s) (userSessionSecret s) (ar_Token res))
      (user_sessions (access (wdb w))) (user_sessions (access (wdb w1)))" and ne: "ar_Token res \<noteq> []"
    and res: "res = authenticated s (ar_Token res) u"
    and w1: "users (wdb w1) = users (wdb w)"
    by (auto simp: userOf_def authenticated_def dest!: arg_cong[of "wdb w1" _ users])
  have act: "u_status u = ''active''" using ok(2) by (simp add: c)
  have "\<exists>w2. AuthenticateUser s (ar_Token res) e2 w1 = (Inr res, w2)" if "\<forall>n. faults e2 n = NoFault" "pgNow e2 < goNow e + sessionTTL s" for e2
    using AuthenticateUser_opened[OF ses _ _ act that ne] u(1) ids w1 res by simp
  with u ok c act res show ?thesis by auto
qed

section \<open>Logging out\<close>

datatype idRequest =
    IRegister string string string string
  | ILoginUser string string
  | IAuthenticateUser string
  | ILogoutUser string
  | ILoginAdmin string string string
  | IAuthenticateAdmin string
  | ILogoutAdmin string
  | IBeginTOTP Admin
  | IEnableTOTP uuid string

primrec idServe :: "Service \<Rightarrow> (string \<Rightarrow> string \<Rightarrow> string \<Rightarrow> string) \<Rightarrow> idRequest \<Rightarrow> unit io" where
  "idServe s uri (IRegister email pw loc tz) = bnd (RegisterUser s email pw loc tz) (\<lambda>_. ret ())"
| "idServe s uri (ILoginUser email pw) = bnd (LoginUser s email pw) (\<lambda>_. ret ())"
| "idServe s uri (IAuthenticateUser token) = bnd (AuthenticateUser s token) (\<lambda>_. ret ())"
| "idServe s uri (ILogoutUser token) = LogoutUser s token"
| "idServe s uri (ILoginAdmin email pw code) = bnd (LoginAdmin s email pw code) (\<lambda>_. ret ())"
| "idServe s uri (IAuthenticateAdmin token) = bnd (AuthenticateAdmin s token) (\<lambda>_. ret ())"
| "idServe s uri (ILogoutAdmin token) = LogoutAdmin s token"
| "idServe s uri (IBeginTOTP admin) = bnd (BeginAdminTOTP s uri admin) (\<lambda>_. ret ())"
| "idServe s uri (IEnableTOTP adminID code) = EnableAdminTOTP_svc s adminID code"

text \<open>Requests one after the other, each in an environment of its own.\<close>

primrec idRun :: "Service \<Rightarrow> (string \<Rightarrow> string \<Rightarrow> string \<Rightarrow> string) \<Rightarrow> (env \<times> idRequest) list \<Rightarrow> world \<Rightarrow> world" where
  "idRun s uri [] w = w"
| "idRun s uri (r # rs) w = idRun s uri rs (snd (idServe s uri (snd r) (fst r) w))"

definition revokedInv :: "string \<Rightarrow> db \<Rightarrow> bool" where
  "revokedInv h d \<longleftrightarrow> distinct (map se_token_hash (user_sessions (access d))) \<and>
     (\<exists>x\<in>set (user_sessions (access d)). se_token_hash x = h \<and> se_revoked_at x \<noteq> None)"

lemma revokedInv_update:
  assumes "revokedInv h d" "\<And>x. se_token_hash (f x) = se_token_hash x" "\<And>x. P x \<Longrightarrow> se_revoked_at x = None"
  shows "revokedInv h (d\<lparr>access := (access d)\<lparr>user_sessions := sqlUpdate P f (user_sessions (access d))\<rparr>\<rparr>)"
proof -
  from assms(1) obtain x where x: "x \<in> set (user_sessions (access d))" "se_token_hash x = h" "se_revoked_at x \<noteq> None" by (auto simp: revokedInv_def)
  then have "x \<in> set (sqlUpdate P f (user_sessions (access d)))" using assms(3)[of x] by (force simp: sqlUpdate_def)
  with x assms(1,2) show ?thesis by (auto simp: revokedInv_def map_sqlUpdate)
qed

lemma qkeeps_revoked:
  "qkeeps (revokedInv h) (CreateUser_q a1 a2 a3 a4 a5)" "qkeeps (revokedInv h) (CreateUserSession_q b1 b2 b3 b4)"
  "qkeeps (revokedInv h) (TouchUserSession_q c1)" "qkeeps (revokedInv h) (RevokeUserSession_q c2)"
  "qkeeps (revokedInv h) (CreateAdminSession_q b1 b2 b3 b4)" "qkeeps (revokedInv h) (TouchAdminSession_q c1)"
  "qkeeps (revokedInv h) (RevokeAdminSession_q c2)" "qkeeps (revokedInv h) (UpsertAdminTOTPSecret f1 f2 f3)"
  "qkeeps (revokedInv h) (EnableAdminTOTP_q g1)"
proof -
  show "qkeeps (revokedInv h) (CreateUserSession_q b1 b2 b3 b4)"
    by (rule qkeepsI) (auto simp: CreateUserSession_q_def Let_def insertInto_ok revokedInv_def sessionConflict_def conflicts_def list_ex_iff)
  show "qkeeps (revokedInv h) (TouchUserSession_q c1)" "qkeeps (revokedInv h) (RevokeUserSession_q c2)"
    by (rule qkeepsI; force simp: TouchUserSession_q_def touched_def RevokeUserSession_q_def revoked_def intro: revokedInv_update)+
qed (rule qkeepsI; auto simp: CreateUser_q_def CreateAdminSession_q_def TouchAdminSession_q_def RevokeAdminSession_q_def
    UpsertAdminTOTPSecret_def EnableAdminTOTP_q_def Let_def insertInto_ok revokedInv_def split: if_splits)+

lemma keeps_prod_case: "(\<And>a b. keeps I (f a b)) \<Longrightarrow> keeps I (case p of (a, b) \<Rightarrow> f a b)"
  by (cases p) simp

lemma keeps_random:
  "keeps I (Hash c v)" "keeps I (NewToken c)" "keeps I (GenerateSecret c)" "keeps I (Encrypt c v)"
  unfolding Hash_def NewToken_def GenerateSecret_def Encrypt_def
  by (intro keeps_if keeps_raise keeps_bnd keeps_newID keeps_option keeps_ret)+

lemma keeps_idServe:
  "keeps (revokedInv h) (idServe s uri req)"
proof -
  note steps = keeps_if keeps_raise keeps_bnd keeps_newID keeps_option keeps_ret keeps_asks keeps_attempt keeps_sum keeps_prod_case
    keeps_orNoRows keeps_pool qkeeps_revoked qkeeps_readonly readonly_identity keeps_random
  have user: "keeps (revokedInv h) (newUserSession s u)" for u
    unfolding newUserSession_def CreateUserSession_def by (intro steps)
  have byAdmin: "keeps (revokedInv h) (AdminBySession x)" for x
    unfolding AdminBySession_def by (intro steps)
  have admin: "keeps (revokedInv h) (newAdminSession s u)" for u
    unfolding newAdminSession_def CreateAdminSession_def by (intro steps byAdmin)
  have secret: "keeps (revokedInv h) (AdminTOTPSecret i)" for i unfolding AdminTOTPSecret_def by (intro steps)
  show ?thesis
  proof (cases req)
    case (IRegister a b c d)
    then show ?thesis by (auto simp: RegisterUser_def CreateUser_def intro!: steps user)
  next
    case (ILoginUser a b)
    then show ?thesis by (auto simp: LoginUser_def UserCredentialsByEmail_def Let_def intro!: steps user)
  next
    case (IAuthenticateUser a)
    then show ?thesis by (auto simp: AuthenticateUser_def UserBySession_def TouchUserSession_def intro!: steps)
  next
    case (ILoginAdmin a b c)
    then show ?thesis by (auto simp: LoginAdmin_def AdminCredentialsByEmail_def checkTOTP_def Let_def intro!: steps admin secret)
  next
    case (IAuthenticateAdmin a)
    then show ?thesis by (auto simp: AuthenticateAdmin_def TouchAdminSession_def intro!: steps byAdmin)
  next
    case (IBeginTOTP a)
    then show ?thesis by (auto simp: BeginAdminTOTP_def SaveAdminTOTPSecret_def intro!: steps)
  next
    case (IEnableTOTP a b)
    then show ?thesis by (auto simp: EnableAdminTOTP_svc_def EnableAdminTOTP_def intro!: steps secret)
  qed (auto simp: LogoutUser_def RevokeUserSession_def LogoutAdmin_def RevokeAdminSession_def intro!: steps)
qed

lemma keeps_idRun:
  assumes "revokedInv h (wdb w)" "\<forall>r\<in>set rs. \<forall>d. revokedInv h d \<longrightarrow> revokedInv h (concurrent (fst r) d)"
  shows "revokedInv h (wdb (idRun s uri rs w))"
  using assms
proof (induction rs arbitrary: w)
  case (Cons r rs)
  have "revokedInv h (wdb (snd (idServe s uri (snd r) (fst r) w)))"
    using keepsD[where I = "revokedInv h", OF keeps_idServe prod.collapse[symmetric]] Cons.prems by simp
  with Cons show ?case by simp
qed simp

lemma AuthenticateUser_error: "AuthenticateUser s token e w = (Inl x, w') \<Longrightarrow> x = ErrUnauthenticated"
  by (auto simp: AuthenticateUser_def bnd_def attempt_def raise_def ret_def split: if_splits prod.splits sum.splits)

lemma revoked_refused:
  assumes inv: "revokedInv (Digest (svc_crypto s) (userSessionSecret s) token) (wdb w)"
  shows "fst (AuthenticateUser s token e w) = Inl ErrUnauthenticated"
proof (cases "AuthenticateUser s token e w")
  case (Pair r w')
  show ?thesis
  proof (cases r)
    case (Inr res)
    let ?h = "Digest (svc_crypto s) (userSessionSecret s) token" and ?t = "user_sessions (access (wdb w))"
    obtain user i w1 where "UserBySession ?h e w = (Inr (user, i), w1)"
      using Pair Inr by (auto simp: AuthenticateUser_def raise_ok split: if_splits prod.splits elim!: tryE)
    then obtain ses where ses: "ses \<in> set ?t" "activeSession e ?h ses" by (rule UserBySession_ok)
    obtain x where x: "x \<in> set ?t" "se_token_hash x = ?h" "se_revoked_at x \<noteq> None" and dist: "distinct (map se_token_hash ?t)"
      using inv by (auto simp: revokedInv_def)
    from ses(2) x(2) have "se_token_hash ses = se_token_hash x" by (simp add: activeSession_def)
    with dist ses(1) x(1) have "ses = x" by (auto simp: distinct_map dest: inj_onD)
    with ses x show ?thesis by (auto simp: activeSession_def)
  qed (use Pair AuthenticateUser_error in force)
qed

text \<open>
  C34: logging out is final. Once a logout has succeeded, the token is refused for ever, whatever users
  and administrators register, log in, log out or authenticate afterwards.
\<close>

theorem LogoutUser_final:
  assumes held: "holder s e token (wdb w) u ses" and hashes: "distinct (map se_token_hash (user_sessions (access (wdb w))))"
    and out: "LogoutUser s token e1 w = (Inr (), w1)"
    and others: "\<forall>r\<in>set rs. \<forall>h d. revokedInv h d \<longrightarrow> revokedInv h (concurrent (fst r) d)"
  shows "fst (AuthenticateUser s token e2 (idRun s uri rs w1)) = Inl ErrUnauthenticated"
proof (rule revoked_refused, rule keeps_idRun)
  let ?h = "Digest (svc_crypto s) (userSessionSecret s) token" and ?t = "user_sessions (access (wdb w))"
  from out have w1: "user_sessions (access (wdb w1)) = revoked e1 ?h ?t"
    by (auto simp: LogoutUser_def RevokeUserSession_def pool_ok RevokeUserSession_q_def)
  from held have "ses \<in> set ?t" "se_token_hash ses = ?h" "se_revoked_at ses = None" by (auto simp: holder_def activeSession_def)
  then have "ses\<lparr>se_revoked_at := Some (pgNow e1)\<rparr> \<in> set (revoked e1 ?h ?t)" by (auto simp: revoked_def set_sqlUpdate)
  moreover have "distinct (map se_token_hash (revoked e1 ?h ?t))" using hashes by (simp add: revoked_def map_sqlUpdate)
  ultimately show "revokedInv ?h (wdb w1)" unfolding revokedInv_def w1 using \<open>se_token_hash ses = ?h\<close>
    by (intro conjI bexI[of _ "ses\<lparr>se_revoked_at := Some (pgNow e1)\<rparr>"]) simp_all
qed (use others in blast)

section \<open>Administrators\<close>

lemma AdminCredentials_ok:
  assumes "AdminCredentialsByEmail email e w = (Inr cred, w')"
  obtains a where "a \<in> set (admins (wdb w))" "ad_email a = email" "wdb w' = wdb w" "Cred_ID cred = ad_id a"
    "Cred_PasswordHash cred = ad_password_hash a" "Cred_Status cred = ad_status a" "Cred_TwoFactor cred = ad_two_factor_enabled a"
  using assms that
  by (auto simp: AdminCredentialsByEmail_def bnd_ok pool_ok ret_ok GetAdminByEmail_def selectOne_ok dest!: one_filter_Inr)

text \<open>The second factor: the code fits the administrator's stored secret now.\<close>

definition secondFactor :: "Service \<Rightarrow> env \<Rightarrow> db \<Rightarrow> uuid \<Rightarrow> string \<Rightarrow> bool" where
  "secondFactor s e d adminID code \<longleftrightarrow> code \<noteq> [] \<and> (\<exists>row\<in>set (totp_secrets (access d)). ts_admin_id row = adminID \<and>
     (\<exists>secret. Decrypt (svc_crypto s) (bytesOf (ts_ciphertext row)) (bytesOf (ts_nonce row)) = Inr secret \<and>
        Validate (svc_crypto s) secret code (goNow e)))"

lemma checkTOTP_ok:
  assumes "checkTOTP s adminID code e w = (Inr (), w')"
  shows "secondFactor s e (wdb w) adminID code \<and> wdb w' = wdb w"
proof -
  from assms obtain c n w1 where code: "code \<noteq> []" and found: "AdminTOTPSecret adminID e w = (Inr (c, n), w1)"
    and rest: "bnd (asks goNow) (\<lambda>now. case Decrypt (svc_crypto s) c n of Inl _ \<Rightarrow> raise ErrTOTPInvalid
       | Inr secret \<Rightarrow> if Validate (svc_crypto s) secret code now then ret () else raise ErrTOTPInvalid) e w1 = (Inr (), w')"
    by (auto simp: checkTOTP_def raise_ok split: if_splits prod.splits elim!: tryE)
  from found obtain row where "row \<in> set (totp_secrets (access (wdb w)))" "ts_admin_id row = adminID"
    "c = bytesOf (ts_ciphertext row)" "n = bytesOf (ts_nonce row)" "wdb w1 = wdb w"
    by (auto simp: AdminTOTPSecret_def bnd_ok pool_ok ret_ok GetAdminTOTPSecret_def selectOne_ok dest!: one_filter_Inr)
  with code rest show ?thesis
    by (auto simp: secondFactor_def bnd_ok asks_ok raise_ok ret_ok split: sum.splits if_splits)
qed

lemma AdminBySession_ok:
  assumes "AdminBySession digest e w = (Inr (admin, i), w')"
  obtains x b where "x \<in> set (admin_sessions (access (wdb w)))" "activeSession e digest x" "b \<in> set (admins (wdb w))" "ad_id b = se_owner x"
    "Admin_ID admin = ad_id b" "Admin_Permissions admin = permissionsOf (ad_id b) (access (wdb w))" "wdb w' = wdb w"
proof -
  obtain x b w1 where get: "orNoRows ErrUnauthenticated (pool (GetActiveAdminSession digest)) e w = (Inr (x, b), w1)"
    and rest: "bnd (pool (ListAdminPermissions (ad_id b))) (\<lambda>granted. ret
       (\<lparr>Admin_ID = ad_id b, Admin_Email = ad_email b, Admin_Status = ad_status b, Admin_DisplayName = text_string (ad_display_name b),
         Admin_TwoFactorEnabled = ad_two_factor_enabled b, Admin_Permissions = granted\<rparr>, se_id x)) e w1 = (Inr (admin, i), w')"
    by (rule bndE[OF assms[unfolded AdminBySession_def]]) (auto split: prod.splits)
  from get have "x \<in> set (admin_sessions (access (wdb w)))" "activeSession e digest x" "b \<in> set (admins (wdb w))" "ad_id b = se_owner x"
    and w1: "wdb w1 = wdb w"
    by (auto simp: orNoRows_ok pool_ok GetActiveAdminSession_def selectOne_ok split: if_splits dest!: one_in)
  moreover from rest w1 have "Admin_ID admin = ad_id b" "Admin_Permissions admin = permissionsOf (ad_id b) (access (wdb w))" "wdb w' = wdb w"
    by (auto simp: bnd_ok pool_ok ret_ok ListAdminPermissions_def)
  ultimately show ?thesis using that by blast
qed

lemma newAdminSession_ok:
  assumes run: "newAdminSession s adminID e w = (Inr res, w')"
  shows "Admin_ID (Principal res) = adminID \<and> Admin_Permissions (Principal res) = permissionsOf adminID (access (wdb w)) \<and>
    (\<exists>ses. user_sessions (access (wdb w')) = user_sessions (access (wdb w)) \<and>
      admin_sessions (access (wdb w')) = admin_sessions (access (wdb w)) @ [ses] \<and> se_owner ses = adminID)"
proof -
  from run obtain token w1 w2 rowID i where tok: "NewToken (svc_crypto s) e w = (Inr token, w1)"
    and cr: "CreateAdminSession rowID adminID (Digest (svc_crypto s) (adminSessionSecret s) token) (goNow e + sessionTTL s) e (w1\<lparr>wids := Suc (wids w1)\<rparr>) = (Inr (), w2)"
    and adm: "AdminBySession (Digest (svc_crypto s) (adminSessionSecret s) token) e w2 = (Inr (Principal res, i), w')"
    by (auto simp: newAdminSession_def bnd_ok newID_ok asks_ok ret_ok split: prod.splits)
  define ses where "ses = newSession e rowID adminID (Digest (svc_crypto s) (adminSessionSecret s) token) (goNow e + sessionTTL s)"
  have w1: "wdb w1 = wdb w" using tok by (auto simp: NewToken_def bnd_ok newID_ok raise_ok ret_ok split: option.splits)
  from cr w1 have new: "\<not> sessionConflict (admin_sessions (access (wdb w))) ses"
    and w2: "wdb w2 = (wdb w)\<lparr>access := (access (wdb w))\<lparr>admin_sessions := admin_sessions (access (wdb w)) @ [ses]\<rparr>\<rparr>"
    by (auto simp: CreateAdminSession_def bnd_ok ret_ok pool_ok CreateAdminSession_q_def Let_def insertInto_ok ses_def)
  from adm obtain x b where x: "x \<in> set (admin_sessions (access (wdb w)) @ [ses])"
    "activeSession e (Digest (svc_crypto s) (adminSessionSecret s) token) x" "b \<in> set (admins (wdb w))" "ad_id b = se_owner x"
    and p: "Admin_ID (Principal res) = ad_id b" "Admin_Permissions (Principal res) = permissionsOf (ad_id b) (access (wdb w2))" and w': "wdb w' = wdb w2"
    by (rule AdminBySession_ok) (simp add: w2)
  from x(1,2) new have "x = ses"
    by (auto simp: sessionConflict_def conflicts_def list_ex_iff activeSession_def ses_def newSession_def)
  then have "ad_id b = adminID" "se_owner ses = adminID" using x(4) by (simp_all add: ses_def newSession_def)
  then show ?thesis using p unfolding w' w2 by (simp add: permissionsOf_def cong: if_cong)
qed

text \<open>A permission is granted through the roles of an administrator.\<close>

definition granted :: "accessDb \<Rightarrow> uuid \<Rightarrow> string \<Rightarrow> bool" where
  "granted a adminID permission \<longleftrightarrow> (\<exists>role p. (adminID, role) \<in> set (admin_roles a) \<and> (role, pe_id p) \<in> set (role_permissions a) \<and>
     p \<in> set (permissions a) \<and> pe_key p = permission)"

lemma permissionsOf_granted: "permission \<in> set (permissionsOf adminID a) \<longleftrightarrow> granted a adminID permission"
proof -
  have "permission \<in> set (permissionsOf adminID a) \<longleftrightarrow> (\<exists>p\<in>set (permissions a). \<exists>rp\<in>set (role_permissions a). \<exists>ar\<in>set (admin_roles a).
      snd rp = pe_id p \<and> snd ar = fst rp \<and> fst ar = adminID \<and> pe_key p = permission)"
    unfolding permissionsOf_def set_sort set_remdups by auto
  then show ?thesis unfolding granted_def by force
qed

text \<open>
  C35: an administrator gets a session only by passing every factor: the account of that address is
  active, its hash verifies the password and, where two-factor authentication is on, the code fits the
  enrolled secret at that moment. The session carries exactly the permissions that the account's own roles grant.
\<close>

theorem LoginAdmin_factors:
  assumes run: "LoginAdmin s email rawPassword code e w = (Inr res, w1)"
  shows "\<exists>a\<in>set (admins (wdb w)). ad_email a = normalizeEmail email \<and> Verify (svc_crypto s) (ad_password_hash a) rawPassword \<and>
    ad_status a = ''active'' \<and> (ad_two_factor_enabled a \<longrightarrow> secondFactor s e (wdb w) (ad_id a) code) \<and>
    Admin_ID (Principal res) = ad_id a \<and> Admin_Permissions (Principal res) = permissionsOf (ad_id a) (access (wdb w)) \<and>
    (\<forall>permission. permission \<in> set (Admin_Permissions (Principal res)) \<longleftrightarrow> granted (access (wdb w)) (ad_id a) permission)"
proof -
  from run obtain cred w0 w2 where cred: "AdminCredentialsByEmail (normalizeEmail email) e w = (Inr cred, w0)"
    and ok: "Verify (svc_crypto s) (Cred_PasswordHash cred) rawPassword" "Cred_Status cred = ''active''"
    and second: "(if Cred_TwoFactor cred then checkTOTP s (Cred_ID cred) code else ret ()) e w0 = (Inr (), w2)"
    and new: "newAdminSession s (Cred_ID cred) e w2 = (Inr res, w1)"
    by (auto simp: LoginAdmin_def Let_def bnd_ok attempt_ok raise_ok split: if_splits sum.splits)
  from cred obtain a where a: "a \<in> set (admins (wdb w))" "ad_email a = normalizeEmail email" and w0: "wdb w0 = wdb w"
    and c: "Cred_ID cred = ad_id a" "Cred_PasswordHash cred = ad_password_hash a" "Cred_Status cred = ad_status a"
      "Cred_TwoFactor cred = ad_two_factor_enabled a" by (rule AdminCredentials_ok)
  from second have sec: "ad_two_factor_enabled a \<longrightarrow> secondFactor s e (wdb w) (ad_id a) code" and w2: "wdb w2 = wdb w"
    using checkTOTP_ok[of s "Cred_ID cred" code e w0 w2] w0 c by (auto simp: ret_ok split: if_splits)
  have "Admin_ID (Principal res) = ad_id a \<and> Admin_Permissions (Principal res) = permissionsOf (ad_id a) (access (wdb w))"
    using newAdminSession_ok[OF new] c(1) w2 by simp
  with a ok c sec permissionsOf_granted show ?thesis by auto
qed

section \<open>Witnesses\<close>

definition service0 :: Service where
  "service0 = \<lparr>userSessionSecret = ''us'', adminSessionSecret = ''as'', userCSRFSecret = ''uc'', adminCSRFSecret = ''ac'',
     sessionTTL = 3600 * second, dummyPasswordHash = [], svc_crypto = crypto0\<rparr>"

text \<open>An account whose password is sixteen characters long.\<close>

definition hash0 :: string where
  "hash0 = ''$argon2id$v=19$m=19456,t=2,p=1$'' @ b64encode stdLetters (replicate 16 0) @ ''$'' @ b64encode stdLetters (replicate 32 16)"

definition password0 :: string where "password0 = ''sixteen letters!''"

definition admin0 :: adminRow where
  "admin0 = \<lparr>ad_id = 40, ad_email = ''root@b.c'', ad_password_hash = hash0, ad_status = ''active'', ad_display_name = None,
     ad_two_factor_enabled = True, ad_last_login_at = None, ad_created_at = 0, ad_updated_at = 0\<rparr>"

definition secret0 :: totpSecretRow where
  "secret0 = \<lparr>ts_admin_id = 40, ts_ciphertext = ''A'', ts_nonce = ''n'', ts_created_at = 0, ts_verified_at = Some 0\<rparr>"

definition world0_accounts :: world where
  "world0_accounts = world0\<lparr>wdb := db0\<lparr>users := [user0\<lparr>u_password_hash := hash0\<rparr>], admins := [admin0],
     access := (access db0)\<lparr>totp_secrets := [secret0]\<rparr>\<rparr>\<rparr>"

lemma hash0_verifies: "Verify crypto0 hash0 password0"
proof -
  have "isBytes (replicate 16 0)" "isBytes (replicate 32 16)" by (simp_all add: isBytes_def list_all_iff)
  then have "Verify crypto0 hash0 password0 \<longleftrightarrow> idKey crypto0 (bytesOf password0) (replicate 16 0) = replicate 32 16"
    unfolding hash0_def by (intro Verify_encoded) simp_all
  then show ?thesis by (simp add: crypto0_def password0_def bytesOf_def)
qed

lemma crypto0_random [simp]: "randomBytes crypto0 n k = Some (replicate k (unat n mod 256))"
  by (simp add: crypto0_def)

lemma service0_simps [simp]: "svc_crypto service0 = crypto0" "sessionTTL service0 = 3600 * second"
  by (simp_all add: service0_def)

lemma env0_times [simp]: "pgNow env0 = 1000 * second" "goNow env0 = 1000 * second"
  by (simp_all add: env0_def)

lemma accounts0 [simp]:
  "users (wdb world0_accounts) = [user0\<lparr>u_password_hash := hash0\<rparr>]" "admins (wdb world0_accounts) = [admin0]"
  "user_sessions (access (wdb world0_accounts)) = []" "admin_sessions (access (wdb world0_accounts)) = []"
  "totp_secrets (access (wdb world0_accounts)) = [secret0]"
  by (simp_all add: world0_accounts_def world0_def db0_def emptyDb_def)

lemma email0: "normalizeEmail ''A@b.c '' = ''a@b.c''" "normalizeEmail ''root@b.c'' = ''root@b.c''"
  by code_simp+

lemma login0: "\<exists>res w1. LoginUser service0 ''A@b.c '' password0 env0 world0_accounts = (Inr res, w1) \<and>
    distinct (map se_token_hash (user_sessions (access (wdb w1))))"
  by (simp add: LoginUser_def email0 bnd_def attempt_def UserCredentialsByEmail_def pool_def GetUserByEmail_def selectOne_def one_def
      ret_def user0_def hash0_verifies newUserSession_def NewToken_def newID_def asks_def CreateUserSession_def
      CreateUserSession_q_def Let_def insertInto_def sessionConflict_def conflicts_def present_def)

theorem LoginUser_opens_witness:
  "\<exists>res w1. LoginUser service0 ''A@b.c '' password0 env0 world0_accounts = (Inr res, w1) \<and>
     (\<exists>w2. AuthenticateUser service0 (ar_Token res) env0 w1 = (Inr res, w2))"
proof -
  obtain res w1 where run: "LoginUser service0 ''A@b.c '' password0 env0 world0_accounts = (Inr res, w1)" using login0 by blast
  have "soundCrypto (svc_crypto service0)" "distinct (map u_id (users (wdb world0_accounts)))" by (simp_all add: crypto0_sound)
  from LoginUser_opens[OF run this] obtain w2 where "AuthenticateUser service0 (ar_Token res) env0 w1 = (Inr res, w2)"
    by (auto dest!: spec[of _ env0])
  with run show ?thesis by blast
qed

text \<open>The world of a user who is logged in with the token \<open>t\<close>.\<close>

definition session0 :: sessionRow where
  "session0 = newSession env0 41 1 (Digest crypto0 ''us'' ''t'') (2000 * second)"

definition world0_session :: world where
  "world0_session = world0_accounts\<lparr>wdb := (wdb world0_accounts)\<lparr>access := (access (wdb world0_accounts))\<lparr>user_sessions := [session0]\<rparr>\<rparr>\<rparr>"

lemma session0_holder: "holder service0 env0 ''t'' (wdb world0_session) (user0\<lparr>u_password_hash := hash0\<rparr>) session0"
  by (simp add: holder_def world0_session_def session0_def activeSession_def newSession_def service0_def user0_def)

theorem AuthenticateUser_sound_witness:
  "\<exists>u ses res. holder service0 env0 ''t'' (wdb world0_session) u ses \<and> res = authenticated service0 ''t'' u \<and>
     succeeded (AuthenticateUser service0 ''t'' env0 world0_session)"
proof -
  have ok: "succeeded (AuthenticateUser service0 ''t'' env0 world0_session)"
    by (simp add: succeeded_def AuthenticateUser_def bnd_def attempt_def UserBySession_def orNoRows_def pool_def GetActiveUserSession_def
        selectOne_def one_def world0_session_def session0_def activeSession_def newSession_def service0_def user0_def ret_def userOf_def
        TouchUserSession_def TouchUserSession_q_def)
  then obtain res w where "AuthenticateUser service0 ''t'' env0 world0_session = (Inr res, w)" by (rule succeededE)
  from AuthenticateUser_sound[OF this] ok show ?thesis by blast
qed

theorem LogoutUser_final_witness:
  "\<exists>w1. LogoutUser service0 ''t'' env0 world0_session = (Inr (), w1) \<and>
     fst (AuthenticateUser service0 ''t'' env0 (idRun service0 (\<lambda>_ _ _. []) [(env0, ILoginUser ''a@b.c'' password0)] w1)) = Inl ErrUnauthenticated"
proof -
  obtain w1 where out: "LogoutUser service0 ''t'' env0 world0_session = (Inr (), w1)"
    by (simp add: LogoutUser_def RevokeUserSession_def pool_def RevokeUserSession_q_def)
  have "distinct (map se_token_hash (user_sessions (access (wdb world0_session))))" by (simp add: world0_session_def)
  from LogoutUser_final[OF session0_holder this out, of "[(env0, ILoginUser ''a@b.c'' password0)]"] out show ?thesis by auto
qed

theorem LoginAdmin_factors_witness:
  "\<exists>res w1. LoginAdmin service0 ''root@b.c'' password0 (generate crypto0 ''A'' (1000 * second)) env0 world0_accounts = (Inr res, w1) \<and>
     secondFactor service0 env0 (wdb world0_accounts) 40 (generate crypto0 ''A'' (1000 * second))"
proof -
  define code where "code = generate crypto0 ''A'' (1000 * second)"
  have dec: "Decrypt crypto0 (bytesOf ''A'') n = Inr ''A''" for n by (simp add: Decrypt_def crypto0_def bytesOf_def) code_simp
  have len: "length code = 6" using length_generate[of crypto0 "''A''" "1000 * second"] by (simp add: crypto0_def code_def)
  then have val: "Validate crypto0 ''A'' code (1000 * second)" by (simp add: Validate_def code_def)
  have check: "checkTOTP service0 40 code env0 w = (Inr (), tick w)" if "totp_secrets (access (wdb w)) = [secret0]" for w
    using that dec len val by (auto simp: checkTOTP_def bnd_def attempt_def AdminTOTPSecret_def pool_def GetAdminTOTPSecret_def selectOne_def one_def
        ret_def asks_def secret0_def)
  have "\<exists>res w1. LoginAdmin service0 ''root@b.c'' password0 code env0 world0_accounts = (Inr res, w1)"
    by (simp add: LoginAdmin_def email0 bnd_def attempt_def AdminCredentialsByEmail_def pool_def GetAdminByEmail_def selectOne_def one_def
        ret_def admin0_def hash0_verifies check newAdminSession_def NewToken_def newID_def asks_def CreateAdminSession_def
        CreateAdminSession_q_def Let_def insertInto_def sessionConflict_def conflicts_def present_def AdminBySession_def orNoRows_def
        GetActiveAdminSession_def activeSession_def newSession_def ListAdminPermissions_def)
  then obtain res w1 where run: "LoginAdmin service0 ''root@b.c'' password0 code env0 world0_accounts = (Inr res, w1)" by blast
  from LoginAdmin_factors[OF run] run show ?thesis by (auto simp: admin0_def code_def)
qed

end
