(* ===== verification/Http_Laws.thy ===== *)
theory Http_Laws
  imports Api Identity_Laws
begin

text \<open>
  What the HTTP side guarantees: nothing is read or changed through the API without the session, the permission and the token that its routes
  ask for, a payment callback without its signature is refused, and the identifiers made up for requests fit their buffer.
\<close>

section \<open>Behind the guards\<close>



text \<open>Nothing but the times at which sessions were last seen may differ.\<close>

definition onlySeen :: "env \<Rightarrow> db \<Rightarrow> db \<Rightarrow> bool" where
  "onlySeen e d d' \<longleftrightarrow> d' = d \<or> (\<exists>i. d' = d\<lparr>access := (access d)\<lparr>user_sessions := touched e i (user_sessions (access d))\<rparr>\<rparr>) \<or>
     (\<exists>i. d' = d\<lparr>access := (access d)\<lparr>admin_sessions := touched e i (admin_sessions (access d))\<rparr>\<rparr>)"


lemma onlySeen_refl [simp]: "onlySeen e d d"
  by (simp add: onlySeen_def)










section \<open>What the routes must ask for\<close>





section \<open>What the guards ask for\<close>








section \<open>The table\<close>














section \<open>Identifiers of requests\<close>

definition value36 :: "string \<Rightarrow> nat" where
  "value36 s = foldl (\<lambda>acc c. acc * 36 + (if c \<le> CHR ''9'' then of_char c - 48 else of_char c - 87)) 0 s"

lemma base36_value: "d < 36 \<Longrightarrow> (if base36 d \<le> CHR ''9'' then of_char (base36 d) - 48 else of_char (base36 d) - 87) = d"
proof -
  have "list_all (\<lambda>d. (if base36 d \<le> CHR ''9'' then of_char (base36 d) - 48 else of_char (base36 d) - 87) = d) [0..<36]" by code_simp
  moreover assume "d < 36"
  ultimately show ?thesis by (simp add: list_all_iff)
qed

lemma formatLoop_total:
  "v < 36 ^ n \<Longrightarrow> 0 < n \<Longrightarrow> \<exists>t. formatLoop n v buffer = Some (t @ buffer) \<and> t \<noteq> [] \<and> length t \<le> n \<and> value36 t = v"
proof (induction n arbitrary: v buffer)
  case (Suc n)
  let ?c = "base36 (v mod 36)"
  have c: "value36 (t @ [?c]) = value36 t * 36 + v mod 36" for t
    using base36_value[of "v mod 36"] by (simp add: value36_def)
  show ?case
  proof (cases "v div 36 = 0")
    case True
    then have "v mod 36 = v" by (simp add: div_eq_0_iff)
    with True c[of "[]"] show ?thesis by (intro exI[of _ "[?c]"]) (simp add: Let_def value36_def)
  next
    case False
    from Suc.prems have "v div 36 < 36 ^ n" by (simp add: less_mult_imp_div_less mult.commute)
    moreover from this False have "0 < n" by (cases n) auto
    ultimately obtain t where t: "formatLoop n (v div 36) (?c # buffer) = Some (t @ ?c # buffer)" "t \<noteq> []" "length t \<le> n" "value36 t = v div 36"
      using Suc.IH[of "v div 36" "?c # buffer"] by blast
    with False c[of t] show ?thesis by (intro exI[of _ "t @ [?c]"]) (simp add: Let_def)
  qed
qed simp

text \<open>The loop never runs out of its thirteen bytes, and different numbers are written differently.\<close>

theorem formatSequence_total: "\<exists>s. formatSequence v = Some s \<and> s \<noteq> [] \<and> length s \<le> 13 \<and> value36 s = unat v"
proof -
  have "unat v < 36 ^ 13" using unsigned_less[of v, where ?'a = nat] by simp
  from formatLoop_total[OF this, of "[]"] show ?thesis by (auto simp: formatSequence_def)
qed

corollary formatSequence_injective: "formatSequence v = formatSequence v' \<Longrightarrow> v = v'"
  using formatSequence_total[of v] formatSequence_total[of v'] by (auto simp: unsigned_word_eqI)

section \<open>Signatures\<close>

lemma hexValue_hexChar: "n < 16 \<Longrightarrow> hexValue (hexChar n) = Some n"
proof -
  have "list_all (\<lambda>n. hexValue (hexChar n) = Some n) [0..<16]" by code_simp
  moreover assume "n < 16"
  ultimately show ?thesis by (simp add: list_all_iff)
qed

lemma hexDecode_encode: "isBytes bs \<Longrightarrow> hexDecode (hexEncode bs) = Some bs"
proof (induction bs)
  case (Cons b bs)
  have step: "hexEncode (b # bs) = hexChar (b div 16) # hexChar (b mod 16) # hexEncode bs" by (simp add: hexEncode_def)
  from Cons.prems have "b div 16 < 16" "b mod 16 < 16" and rest: "isBytes bs" by (auto simp: isBytes_def)
  then show ?case unfolding step using Cons.IH[OF rest] hexValue_hexChar[of "b div 16"] hexValue_hexChar[of "b mod 16"] by simp
qed (simp add: hexEncode_def)

text \<open>What the gateway signs is accepted, and nothing is that decodes to another authentication code.\<close>

theorem Verify_webhook_iff:
  assumes "isBytes (hmacSHA256 c (bytesOf secret) (bytesOf payload))"
  shows "Verify_webhook c secret payload signature \<longleftrightarrow> hexDecode signature = Some (hmacSHA256 c (bytesOf secret) (bytesOf payload))"
  using hexDecode_encode[OF assms] by (auto simp: Verify_webhook_def Sign_def split: option.splits)

end
