(* ===== verification/Config.thy ===== *)
theory Config
  imports Decode
begin

text \<open>
  \<open>internal/config/config.go\<close>: the settings a process starts with. The environment, \<open>time.ParseDuration\<close> and \<open>url.Parse\<close> are parameters;
  a lookup of an unset variable gives the empty text.
\<close>

record Config =
  cf_Environment :: string
  cf_ServerAddress :: string
  cf_DatabaseURL :: string
  cf_RedisURL :: string
  cf_UserWebOrigin :: string
  cf_AdminWebOrigin :: string
  cf_UserSessionSecret :: string
  cf_AdminSessionSecret :: string
  cf_UserCSRFSecret :: string
  cf_AdminCSRFSecret :: string
  cf_AdminTOTPEncryptionKey :: string
  cf_FakePaymentWebhookSecret :: string
  cf_MetricsToken :: string
  cf_FakePaymentEnabled :: bool
  cf_SessionTTL :: duration
  cf_SubscriptionGracePeriod :: duration
  cf_CookieSecure :: bool
  cf_AllowInsecureHTTP :: bool

datatype configError = BadGracePeriod | BadBool string | ErrInsecureProductionCookie | ErrFakePaymentInProduction | ErrInsecureProductionOrigin
  | ErrInvalidProductionOrigin | ErrMissingEnvironment "string list" | ErrSecretsNotDistinct

record parsedURL =
  pu_Scheme :: string
  pu_Host :: string
  pu_Path :: string
  pu_RawQuery :: string
  pu_Fragment :: string
  pu_User :: bool

record system =
  sy_getenv :: "string \<Rightarrow> string"
  sy_parseDuration :: "string \<Rightarrow> duration option"
  sy_parseURL :: "string \<Rightarrow> parsedURL option"

definition valueOrDefault :: "system \<Rightarrow> string \<Rightarrow> string \<Rightarrow> string" where
  "valueOrDefault sy key fallback = (if sy_getenv sy key \<noteq> [] then sy_getenv sy key else fallback)"

text \<open>\<open>strconv.ParseBool\<close>.\<close>

definition ParseBool :: "string \<Rightarrow> bool option" where
  "ParseBool s = (if s \<in> set [''1'', ''t'', ''T'', ''true'', ''TRUE'', ''True''] then Some True
     else if s \<in> set [''0'', ''f'', ''F'', ''false'', ''FALSE'', ''False''] then Some False else None)"

definition exactParsedOrigin :: "parsedURL \<Rightarrow> bool" where
  "exactParsedOrigin u \<longleftrightarrow> pu_Host u \<noteq> [] \<and> pu_Path u = [] \<and> pu_RawQuery u = [] \<and> pu_Fragment u = [] \<and> \<not> pu_User u"

definition secureHTTPSOrigin :: "system \<Rightarrow> string \<Rightarrow> bool" where
  "secureHTTPSOrigin sy v = (case sy_parseURL sy v of None \<Rightarrow> False | Some u \<Rightarrow> pu_Scheme u = ''https'' \<and> exactParsedOrigin u)"

definition exactWebOrigin :: "system \<Rightarrow> string \<Rightarrow> bool" where
  "exactWebOrigin sy v = (case sy_parseURL sy v of None \<Rightarrow> False | Some u \<Rightarrow> (pu_Scheme u = ''http'' \<or> pu_Scheme u = ''https'') \<and> exactParsedOrigin u)"

definition environmentOf :: "system \<Rightarrow> Config" where
  "environmentOf sy = \<lparr>cf_Environment = valueOrDefault sy ''APP_ENV'' ''development'', cf_ServerAddress = valueOrDefault sy ''SERVER_ADDRESS'' '':8080'',
     cf_DatabaseURL = sy_getenv sy ''DATABASE_URL'', cf_RedisURL = sy_getenv sy ''REDIS_URL'',
     cf_UserWebOrigin = valueOrDefault sy ''USER_WEB_ORIGIN'' ''http://localhost:3000'',
     cf_AdminWebOrigin = valueOrDefault sy ''ADMIN_WEB_ORIGIN'' ''http://localhost:3001'',
     cf_UserSessionSecret = sy_getenv sy ''USER_SESSION_SECRET'', cf_AdminSessionSecret = sy_getenv sy ''ADMIN_SESSION_SECRET'',
     cf_UserCSRFSecret = sy_getenv sy ''USER_CSRF_SECRET'', cf_AdminCSRFSecret = sy_getenv sy ''ADMIN_CSRF_SECRET'',
     cf_AdminTOTPEncryptionKey = sy_getenv sy ''ADMIN_TOTP_ENCRYPTION_KEY'',
     cf_FakePaymentWebhookSecret = sy_getenv sy ''FAKE_PAYMENT_WEBHOOK_SECRET'', cf_MetricsToken = sy_getenv sy ''METRICS_TOKEN'',
     cf_FakePaymentEnabled = False, cf_SessionTTL = 24 * 60 * minute, cf_SubscriptionGracePeriod = 72 * 60 * minute,
     cf_CookieSecure = False, cf_AllowInsecureHTTP = False\<rparr>"

definition secrets :: "Config \<Rightarrow> (string \<times> string) list" where
  "secrets c = [(''USER_SESSION_SECRET'', cf_UserSessionSecret c), (''ADMIN_SESSION_SECRET'', cf_AdminSessionSecret c),
     (''USER_CSRF_SECRET'', cf_UserCSRFSecret c), (''ADMIN_CSRF_SECRET'', cf_AdminCSRFSecret c),
     (''ADMIN_TOTP_ENCRYPTION_KEY'', cf_AdminTOTPEncryptionKey c), (''FAKE_PAYMENT_WEBHOOK_SECRET'', cf_FakePaymentWebhookSecret c),
     (''METRICS_TOKEN'', cf_MetricsToken c)]"

text \<open>The names are collected in the order of the list; Go ranges over a map and leaves the order of the short secrets open.\<close>

definition missing :: "Config \<Rightarrow> string list" where
  "missing c = (if cf_DatabaseURL c = [] then [''DATABASE_URL''] else []) @ (if cf_RedisURL c = [] then [''REDIS_URL''] else []) @
     map (\<lambda>(k, v). k @ '' (minimum 32 characters)'') (filter (\<lambda>(k, v). length v < 32) (secrets c))"

definition productionError :: "system \<Rightarrow> Config \<Rightarrow> configError option" where
  "productionError sy c =
    (if cf_Environment c \<noteq> ''production'' then None
     else if cf_FakePaymentEnabled c then Some ErrFakePaymentInProduction
     else if cf_AllowInsecureHTTP c
     then (if \<not> exactWebOrigin sy (cf_UserWebOrigin c) \<or> \<not> exactWebOrigin sy (cf_AdminWebOrigin c) then Some ErrInvalidProductionOrigin else None)
     else if \<not> secureHTTPSOrigin sy (cf_UserWebOrigin c) \<or> \<not> secureHTTPSOrigin sy (cf_AdminWebOrigin c) then Some ErrInsecureProductionOrigin else None)"

definition checkSecrets :: "Config \<Rightarrow> configError + Config" where
  "checkSecrets c = (if missing c \<noteq> [] then Inl (ErrMissingEnvironment (missing c))
     else if \<not> distinct (map snd (secrets c)) then Inl ErrSecretsNotDistinct else Inr c)"

definition Load :: "system \<Rightarrow> configError + Config" where
  "Load sy = (let c0 = environmentOf sy in
     case sy_parseDuration sy (valueOrDefault sy ''SUBSCRIPTION_GRACE_PERIOD'' ''72h'') of
       None \<Rightarrow> Inl BadGracePeriod
     | Some grace \<Rightarrow> if grace \<le> 0 then Inl BadGracePeriod else
     (case ParseBool (valueOrDefault sy ''COOKIE_SECURE'' ''false'') of
       None \<Rightarrow> Inl (BadBool ''COOKIE_SECURE'')
     | Some secure \<Rightarrow> (case ParseBool (valueOrDefault sy ''ALLOW_INSECURE_HTTP'' ''false'') of
       None \<Rightarrow> Inl (BadBool ''ALLOW_INSECURE_HTTP'')
     | Some insecure \<Rightarrow>
         if cf_Environment c0 = ''production'' \<and> \<not> insecure \<and> \<not> secure then Inl ErrInsecureProductionCookie else
     (case ParseBool (valueOrDefault sy ''FAKE_PAYMENT_ENABLED'' (if cf_Environment c0 = ''production'' then ''false'' else ''true'')) of
       None \<Rightarrow> Inl (BadBool ''FAKE_PAYMENT_ENABLED'')
     | Some fake \<Rightarrow> (let c = c0\<lparr>cf_SubscriptionGracePeriod := grace, cf_CookieSecure := secure, cf_AllowInsecureHTTP := insecure, cf_FakePaymentEnabled := fake\<rparr> in
         case productionError sy c of Some x \<Rightarrow> Inl x | None \<Rightarrow> checkSecrets c)))))"

section \<open>What a process may rely on\<close>

lemma checkSecrets_ok: "checkSecrets c = Inr c' \<longleftrightarrow> c' = c \<and> missing c = [] \<and> distinct (map snd (secrets c))"
  by (auto simp: checkSecrets_def)

lemma missing_none: "missing c = [] \<longleftrightarrow> cf_DatabaseURL c \<noteq> [] \<and> cf_RedisURL c \<noteq> [] \<and> (\<forall>v \<in> set (map snd (secrets c)). 32 \<le> length v)"
  by (auto simp: missing_def filter_empty_conv not_less)

text \<open>
  A process starts only with secrets of at least thirty-two characters, each used for one purpose, and a positive grace period; in production it
  takes no fake payments and serves exact origins only, over HTTPS with secure cookies unless plain HTTP is allowed explicitly.
\<close>

theorem Load_safe:
  assumes "Load sy = Inr c"
  shows "(\<forall>v \<in> set (map snd (secrets c)). 32 \<le> length v) \<and> distinct (map snd (secrets c)) \<and> 0 < cf_SubscriptionGracePeriod c \<and>
    (cf_Environment c = ''production'' \<longrightarrow> \<not> cf_FakePaymentEnabled c \<and> exactWebOrigin sy (cf_UserWebOrigin c) \<and> exactWebOrigin sy (cf_AdminWebOrigin c) \<and>
      (\<not> cf_AllowInsecureHTTP c \<longrightarrow> cf_CookieSecure c \<and> secureHTTPSOrigin sy (cf_UserWebOrigin c) \<and> secureHTTPSOrigin sy (cf_AdminWebOrigin c)))"
proof -
  from assms obtain grace secure insecure fake where pos: "0 < grace"
    and cookie: "\<not> (cf_Environment (environmentOf sy) = ''production'' \<and> \<not> insecure \<and> \<not> secure)"
    and c: "checkSecrets ((environmentOf sy)\<lparr>cf_SubscriptionGracePeriod := grace, cf_CookieSecure := secure, cf_AllowInsecureHTTP := insecure, cf_FakePaymentEnabled := fake\<rparr>) = Inr c"
    and prod: "productionError sy ((environmentOf sy)\<lparr>cf_SubscriptionGracePeriod := grace, cf_CookieSecure := secure, cf_AllowInsecureHTTP := insecure, cf_FakePaymentEnabled := fake\<rparr>) = None"
    by (fastforce simp: Load_def Let_def not_le split: option.splits if_splits)
  from c have eq: "c = (environmentOf sy)\<lparr>cf_SubscriptionGracePeriod := grace, cf_CookieSecure := secure, cf_AllowInsecureHTTP := insecure, cf_FakePaymentEnabled := fake\<rparr>"
    and ok: "missing c = []" "distinct (map snd (secrets c))" by (auto simp: checkSecrets_ok)
  from ok(1) have "\<forall>v \<in> set (map snd (secrets c)). 32 \<le> length v" unfolding missing_none by blast
  moreover have "cf_Environment c = ''production'' \<longrightarrow> \<not> cf_FakePaymentEnabled c \<and> exactWebOrigin sy (cf_UserWebOrigin c) \<and> exactWebOrigin sy (cf_AdminWebOrigin c) \<and>
      (\<not> cf_AllowInsecureHTTP c \<longrightarrow> cf_CookieSecure c \<and> secureHTTPSOrigin sy (cf_UserWebOrigin c) \<and> secureHTTPSOrigin sy (cf_AdminWebOrigin c))"
    using prod cookie unfolding eq[symmetric] by (auto simp: productionError_def eq secureHTTPSOrigin_def exactWebOrigin_def split: if_splits option.splits)
  ultimately show ?thesis using ok(2) pos eq by simp
qed

end
