(* ===== verification/Spec2Isabelle.thy ===== *)
theory Spec2Isabelle
  imports Settlement Operation_Flow Portal_Laws Admin_Laws Instance_Laws Mock_Laws Lxd_Laws Http_Laws Config
begin

text \<open>
  Verification of the backend of a VPS billing platform (\<open>src/backend\<close>, Go with PostgreSQL and Redis).

  \<^bold>\<open>The program.\<close> Customers buy plans, pay, and get virtual machines. An order, its invoice and its payment are created together
  (\<open>internal/commerce\<close>); the callback of the payment gateway completes the payment, posts the ledger and, through the outbox
  (\<open>internal/outbox\<close>), announces the paid order on a Redis stream. The worker (\<open>cmd/worker\<close>) consumes the stream: provisioning
  (\<open>internal/provision\<close>) creates a subscription, an instance and an operation for each purchased unit; operations
  (\<open>internal/operation\<close>) are claimed, retried and recovered; the scheduler (\<open>internal/infrastructure\<close>) reserves capacity on a node; a
  provider (\<open>internal/provider\<close>: an in-memory mock, an LXD client, and Runman, whose agents on the nodes are reached through
  \<open>internal/runman\<close>) carries the work out. The subscription batch (\<open>internal/subscription\<close>) moves subscriptions that are due, the
  reconciler (\<open>internal/reconcile\<close>) repairs what failures leave behind. Customers and administrators log in (\<open>internal/identity\<close>,
  \<open>internal/security\<close>) and use the portal and the administration (\<open>internal/portal\<close>, \<open>internal/admin\<close>) over HTTP (\<open>internal/http\<close>).

  \<^bold>\<open>How it is modelled.\<close> A table is the list of its rows, a row a record with the columns of \<open>internal/store/sqlc/models.go\<close>, the
  database a record of tables (\<open>Store\<close>). Each statement of the generated \<open>*.sql.go\<close> files is a function from the database to an error or a
  result and a database, with the CHECK, UNIQUE and FOREIGN KEY constraints of the migrations (theories \<open>*_Queries\<close>). A call of the program
  is an \<open>'a io\<close>: a function of an environment and a world (database, Redis streams, counters) to an error or a result, and the next world.
  Every statement may fail as the environment decides, and a COMMIT may also succeed without its acknowledgement arriving;
  \<open>in_tx\<close> is a transaction. Transactions are serialised; where a function reads outside a transaction and writes later, \<open>others\<close> stands for what
  other sessions commit in between. Errors are values of one datatype \<open>err\<close>. \<open>int64\<close> values are integers and wrap around by \<open>wrap64\<close> where
  the code computes with them; identifiers are 128-bit words; instants are nanoseconds; decimal core counts are hundredths.
  JSON is a datatype; text is ASCII.

  Parameters, because they are not part of the repository or are left to the platform: fresh identifiers and their text, the clocks, PostgreSQL's calendar
  arithmetic, \<open>netip\<close>, \<open>net/mail\<close> and \<open>net/url\<close> parsing, argon2, HMAC, AES-GCM and randomness (\<open>crypto\<close>), the messages Redis delivers, the
  stream of an agent, the LXD daemon, the remote side of a provider. What is relied on of them is a hypothesis with a name: \<open>remoteAdapter\<close>
  (the calls of a provider change no table of the platform but those the agents report to), \<open>soundCrypto\<close> (the primitives yield bytes) in
  \<open>Security_Laws\<close>, and the absence of faults where a theorem says that something happens.

  \<^bold>\<open>The theories.\<close>
  \<^item> \<open>Prelude\<close>, \<open>Store\<close>, \<open>Contracts\<close>, \<open>Decode\<close>: scalars, text, JSON, SQL on row lists, the world and its calls with the rules for
    invariants (\<open>keeps\<close>), the locale \<open>retryable\<close> of operations that may be asked for again, decoding of documents. \<open>Samples\<close>: a small
    installation on which the witnesses run.
  \<^item> \<open>Commerce_Queries\<close>, \<open>Ledger\<close>, \<open>Commerce\<close> (\<open>internal/commerce\<close>): catalogue, orders, renewals, wallets, completion of payments, the balance check.
    \<open>Payments\<close> computes the whole effect of a completion; \<open>Billing\<close> is the invariant that order, invoice, payment and ledger agree;
    \<open>Orders\<close> and \<open>Settlement\<close> hold the properties: exact pricing within 64 bits, one order per idempotency key and the same answer to the same
    request (an interpretation of \<open>retryable\<close>), a conflict when a renewal reuses the key, atomic completion, exactly one balanced capture, replays and rejections.
  \<^item> \<open>Subscription_Queries\<close>, \<open>Subscription\<close> (\<open>internal/subscription\<close>): the lifecycle as the inductive relation \<open>advances\<close>, refined by the batch; which of the due
    subscriptions (\<open>claimable\<close>) a batch takes, what becomes of each and which event it gets; no suspension before the end of the grace period; two batches settle everything that is due.
  \<^item> \<open>Operation_Queries\<close>, \<open>Operation\<close> (\<open>internal/operation\<close>): \<open>Operation_Safety\<close> states the state machine of operations as the labelled relation \<open>opStep\<close>,
    whose label \<open>opMove\<close> says which kind of request makes the step, and two locales: \<open>operation_moves\<close>, for predicates that tolerate a given set of moves, and
    \<open>operation_store\<close>, for predicates that tolerate all of them (a sublocale). \<open>asks_for\<close> lists the moves of each request. \<open>Operation_Laws\<close> and
    \<open>Operation_Flow\<close> show that a request makes only its own moves (\<open>evolvesBy\<close>, an interpretation of \<open>operation_moves\<close>), that finished operations never change, what
    a processed message leaves, and exactly which operations recovery takes, what becomes of them and which events announce it.
  \<^item> \<open>Infrastructure_Queries\<close>, \<open>Infrastructure\<close> (\<open>internal/infrastructure\<close>), \<open>Scheduler\<close>: the accounts of the nodes equal the reservations on
    record and never exceed a node; placements go to the least utilized node that fits; reservations settle once.
  \<^item> \<open>Outbox\<close> (\<open>internal/outbox\<close>): delivery at least once under all faults, exactly once and in order without.
  \<^item> \<open>Provision_Queries\<close>, \<open>Provider\<close>, \<open>Provision\<close> (\<open>internal/provision\<close>): \<open>Provision_Safety\<close> extends \<open>operation_store\<close> to the locale
    \<open>provisioning\<close>; \<open>Provision_Laws\<close> shows exactly one subscription, instance and operation for each unit of the order item (with \<open>unitsInv\<close>, what
    earlier attempts may leave), and the atomic end.
  \<^item> \<open>Instance_Action\<close>, \<open>Instance_Laws\<close> (\<open>internal/instanceaction\<close>); \<open>Reconcile\<close>, \<open>Reconcile_Laws\<close> (\<open>internal/reconcile\<close>); \<open>Worker\<close>
    (\<open>cmd/worker\<close>): the locale \<open>worker\<close> extends \<open>provisioning\<close>, and its interpretations give the safety of all rounds of the worker.
  \<^item> \<open>Security\<close>, \<open>Security_Laws\<close> (\<open>internal/security\<close>), \<open>Identity_Queries\<close>, \<open>Identity\<close>, \<open>Identity_Laws\<close> (\<open>internal/identity\<close>): hashes, one-time
    passwords and limits; sessions from login to logout.
  \<^item> \<open>Portal_Queries\<close>, \<open>Portal\<close>, \<open>Portal_Laws\<close> (\<open>internal/portal\<close>): customers are isolated from each other, where \<open>customerView\<close> says by the foreign keys
    of the tables, and not by the queries, which rows are a customer's. \<open>Admin\<close>, \<open>Admin_Reads\<close>, \<open>Admin_Laws\<close> (\<open>internal/admin\<close>, \<open>internal/audit\<close>): every
    change with its audit event, the reading side with what it hides; adjustments of wallets are exact.
  \<^item> \<open>Runman\<close>, \<open>Gateway\<close>, \<open>Runman_Adapter\<close>, \<open>Runman_Laws\<close> (\<open>internal/runman\<close>, \<open>internal/provider/runman\<close>): commands settle once (locale
    \<open>command_store\<close>), the broker always answers. \<open>Mock\<close>, \<open>Mock_Laws\<close> (\<open>internal/provider/mock\<close>, \<open>registry.go\<close>): repeated requests, and that the
    resolver the worker uses meets what \<open>Worker\<close> relies on. \<open>Lxd\<close>, \<open>Lxd_Laws\<close> (\<open>internal/provider/lxdapi\<close>): finished actions are
    carried out once, definitions are read back as written.
  \<^item> \<open>Http\<close>, \<open>Api\<close>, \<open>Http_Laws\<close> (\<open>internal/http\<close>): handlers, guards and the complete route tables of the services; \<open>policy\<close> is a table of its own that says what
    each route demands, and the routes are shown to enforce it for every request. \<open>Config\<close>
    (\<open>internal/config\<close>): what a process starts with.

  \<^bold>\<open>Bounds.\<close> Loops over rows and messages are recursive on the list; batch sizes are those of the code (a property that speaks of everything due
  says when a batch is full). The broker polls every 100 ms until its timeout, so the number of polls is a parameter of the adapter, and its theorem holds for each.
  The rounds of the worker and the sequences of requests in the invariants are lists of any length. The number formatted for a request
  is a 64-bit word, for which the thirteen bytes of the buffer are proved enough.

  \<^bold>\<open>Not modelled.\<close> The documents that PostgreSQL builds for the reading side of the administration (\<open>to_jsonb\<close>, \<open>jsonb_agg\<close>) are a parameter (\<open>adminReads\<close>). Left out are
  health checks, metrics and the access log; process wiring, listeners and migrations (\<open>cmd\<close>, \<open>internal/server\<close>, \<open>internal/migrations\<close>); the generated
  protocol buffer code; limits of varchar columns; the interleaving of statements inside concurrent transactions (row locks are taken as serialisation). The event
  stream runs as long as the answers of Redis it is given. The adapters of the mock and of LXD keep their memory outside the world of the
  database and are modelled on states of their own, within one life of the process and one call after another: a restart forgets what they
  remember. JSON documents have integers only, and their members are matched by their exact names; utilization is compared with exact
  rationals. A failure of Redis in the limiter is modelled where it is answered (\<open>decodeAndLimit\<close>), not in \<open>Allow\<close>.
\<close>

end
